(* ===== verification/Errors.thy ===== *)
theory Errors
  imports Prelude
begin

text \<open>
  The verify-error taxonomy (\<open>trust-core/src/errors/codes.ts\<close>) and the error class the verifier
  throws (\<open>verifier/src/errors.ts\<close>).  An exception of the model is a \<open>VerifyError\<close>, or the
  \<open>TypeError\<close> JavaScript raises when the code reads a property of null, or any other error
  with its message.
\<close>

datatype verify_error_code =
    KEY_REVOKED | KEY_NOT_FOUND | CERT_EXPIRED | SIGNATURE_INVALID | MANIFEST_MALFORMED
  | UNTRUSTED_ISSUER | VERIFIER_UNAVAILABLE | STORAGE_FETCH_FAILED | UNAUTHORIZED
  | STORAGE_PATH_FORBIDDEN | INSERT_FAILED | DUPLICATE_CONTENT | ATTESTATION_MISSING
  | ATTESTATION_INVALID | ATTESTATION_REPLAY | LOCATION_PRIVACY_VIOLATION
  | PARENT_BINDING_FAILED | AI_GENERATED

fun code_string :: "verify_error_code \<Rightarrow> string" where
  "code_string KEY_REVOKED = ''KEY_REVOKED''"
| "code_string KEY_NOT_FOUND = ''KEY_NOT_FOUND''"
| "code_string CERT_EXPIRED = ''CERT_EXPIRED''"
| "code_string SIGNATURE_INVALID = ''SIGNATURE_INVALID''"
| "code_string MANIFEST_MALFORMED = ''MANIFEST_MALFORMED''"
| "code_string UNTRUSTED_ISSUER = ''UNTRUSTED_ISSUER''"
| "code_string VERIFIER_UNAVAILABLE = ''VERIFIER_UNAVAILABLE''"
| "code_string STORAGE_FETCH_FAILED = ''STORAGE_FETCH_FAILED''"
| "code_string UNAUTHORIZED = ''UNAUTHORIZED''"
| "code_string STORAGE_PATH_FORBIDDEN = ''STORAGE_PATH_FORBIDDEN''"
| "code_string INSERT_FAILED = ''INSERT_FAILED''"
| "code_string DUPLICATE_CONTENT = ''DUPLICATE_CONTENT''"
| "code_string ATTESTATION_MISSING = ''ATTESTATION_MISSING''"
| "code_string ATTESTATION_INVALID = ''ATTESTATION_INVALID''"
| "code_string ATTESTATION_REPLAY = ''ATTESTATION_REPLAY''"
| "code_string LOCATION_PRIVACY_VIOLATION = ''LOCATION_PRIVACY_VIOLATION''"
| "code_string PARENT_BINDING_FAILED = ''PARENT_BINDING_FAILED''"
| "code_string AI_GENERATED = ''AI_GENERATED''"

lemma code_string_inject [simp]: "code_string a = code_string b \<longleftrightarrow> a = b"
  by (cases a; cases b) simp_all

definition CAPTURE_CERT_EXPIRED_DETAIL_PREFIX :: string where
  "CAPTURE_CERT_EXPIRED_DETAIL_PREFIX = ''capture: ''"

record verify_error =
  err_code :: verify_error_code
  err_detail :: "string option"
  err_category :: "string option"

text \<open>The \<open>message\<close> the constructor hands to \<open>Error\<close>: an absent or empty detail adds nothing.\<close>

definition error_message :: "verify_error \<Rightarrow> string" where
  "error_message e = code_string (err_code e) @
     (case err_detail e of None \<Rightarrow> [] | Some d \<Rightarrow> if d = [] then [] else '': '' @ d)"

datatype exn = VerifyErr verify_error | TypeErr | OtherErr string

type_synonym 'a res = "exn + 'a"

definition verify_err :: "verify_error_code \<Rightarrow> string \<Rightarrow> exn" where
  "verify_err c d = VerifyErr \<lparr>err_code = c, err_detail = Some d, err_category = None\<rparr>"

definition verify_err_cat :: "verify_error_code \<Rightarrow> string \<Rightarrow> string \<Rightarrow> exn" where
  "verify_err_cat c d k = VerifyErr \<lparr>err_code = c, err_detail = Some d, err_category = Some k\<rparr>"

fun exn_code :: "exn \<Rightarrow> verify_error_code option" where
  "exn_code (VerifyErr e) = Some (err_code e)"
| "exn_code _ = None"

lemma exn_code_verify_err [simp]:
  "exn_code (verify_err c d) = Some c" "exn_code (verify_err_cat c d k) = Some c"
  by (simp_all add: verify_err_def verify_err_cat_def)

lemma verify_err_distinct [simp]:
  "verify_err c d \<noteq> TypeErr" "verify_err c d \<noteq> OtherErr m"
  "verify_err_cat c d k \<noteq> TypeErr" "verify_err_cat c d k \<noteq> OtherErr m"
  by (simp_all add: verify_err_def verify_err_cat_def)

lemma verify_err_inject [simp]: "verify_err c d = verify_err c' d' \<longleftrightarrow> c = c' \<and> d = d'"
  by (simp add: verify_err_def)

text \<open>Reading an outcome: accepted, or rejected with a code.\<close>

fun accepted :: "'a res \<Rightarrow> bool" where
  "accepted (Inr v) = True"
| "accepted (Inl e) = False"

fun fails_with :: "'a res \<Rightarrow> verify_error_code \<Rightarrow> bool" where
  "fails_with (Inr v) c = False"
| "fails_with (Inl e) c = (exn_code e = Some c)"

lemma accepted_iff: "accepted r \<longleftrightarrow> (\<exists>v. r = Inr v)"
  by (cases r) auto

lemma fails_with_iff: "fails_with r c \<longleftrightarrow> (\<exists>e. r = Inl e \<and> exn_code e = Some c)"
  by (cases r) auto

end
