(* ===== verification/Json.thy ===== *)
theory Json
  imports Prelude "HOL-Library.Multiset"
begin

text \<open>
  JavaScript values as parsed JSON delivers them (TypeScript's \<open>unknown\<close>), and the canonical
  serialisation of \<open>trust-core/src/policies/content-hash.ts\<close>.  A finite number is
  \<open>m * 10 ^ e\<close>, the shortest decimal that ECMAScript prints for it, with no trailing zero in
  \<open>m\<close>; an object is its list of own properties in creation order, without duplicate keys.
\<close>

datatype jsnum = NaNum | InfNum bool | DecNum int int

datatype jsval =
    JUndef | JNull | JBool bool | JNum jsnum | JStr string
  | JArr "jsval list" | JObj "(string \<times> jsval) list"

fun is_object :: "jsval \<Rightarrow> bool" where
  "is_object (JArr _) = True"
| "is_object (JObj _) = True"
| "is_object _ = False"

text \<open>Property access on a value that is not null or undefined; arrays have no named property
  the code reads.\<close>

fun obj_get :: "jsval \<Rightarrow> string \<Rightarrow> jsval" where
  "obj_get (JObj kvs) k = (case map_of kvs k of None \<Rightarrow> JUndef | Some v \<Rightarrow> v)"
| "obj_get _ k = JUndef"

text \<open>\<open>v?.k\<close> and truthiness.\<close>

definition opt_get :: "jsval \<Rightarrow> string \<Rightarrow> jsval" where
  "opt_get v k = (if v = JUndef \<or> v = JNull then JUndef else obj_get v k)"

definition is_nullish :: "jsval \<Rightarrow> bool" where
  "is_nullish v = (v = JUndef \<or> v = JNull)"

fun truthy :: "jsval \<Rightarrow> bool" where
  "truthy JUndef = False"
| "truthy JNull = False"
| "truthy (JBool b) = b"
| "truthy (JNum n) = (case n of NaNum \<Rightarrow> False | DecNum m e \<Rightarrow> m \<noteq> 0 | InfNum _ \<Rightarrow> True)"
| "truthy (JStr s) = (s \<noteq> [])"
| "truthy (JArr _) = True"
| "truthy (JObj _) = True"

fun as_str :: "jsval \<Rightarrow> string option" where
  "as_str (JStr s) = Some s"
| "as_str _ = None"

fun as_nonempty_str :: "jsval \<Rightarrow> string option" where
  "as_nonempty_str (JStr s) = (if s = [] then None else Some s)"
| "as_nonempty_str _ = None"

lemma as_nonempty_str_Some_iff [simp]: "as_nonempty_str v = Some s \<longleftrightarrow> v = JStr s \<and> s \<noteq> []"
  by (cases v) auto

lemma as_str_Some_iff [simp]: "as_str v = Some s \<longleftrightarrow> v = JStr s"
  by (cases v) auto

section \<open>Number to string\<close>

text \<open>ECMAScript \<open>Number::toString\<close> on the decimal \<open>m * 10 ^ e\<close>: \<open>k\<close> digits, decimal point after
  position \<open>n\<close>.\<close>

definition js_num_digits :: "nat \<Rightarrow> int \<Rightarrow> string" where
  "js_num_digits m e =
    (let ds = show_nat m; k = int (length ds); n = k + e in
     if m = 0 then ''0''
     else if k \<le> n \<and> n \<le> 21 then ds @ replicate (nat (n - k)) (CHR ''0'')
     else if 0 < n \<and> n \<le> 21 then take (nat n) ds @ ''.'' @ drop (nat n) ds
     else if - 6 < n \<and> n \<le> 0 then ''0.'' @ replicate (nat (- n)) (CHR ''0'') @ ds
     else (let ex = n - 1;
               es = (if ex < 0 then ''-'' else ''+'') @ show_nat (nat \<bar>ex\<bar>) in
           if k = 1 then ds @ ''e'' @ es
           else take 1 ds @ ''.'' @ drop 1 ds @ ''e'' @ es))"

fun js_num_string :: "jsnum \<Rightarrow> string" where
  "js_num_string NaNum = ''NaN''"
| "js_num_string (InfNum neg) = (if neg then ''-Infinity'' else ''Infinity'')"
| "js_num_string (DecNum m e) =
     (if m < 0 then ''-'' @ js_num_digits (nat (- m)) e else js_num_digits (nat m) e)"

fun is_finite_num :: "jsnum \<Rightarrow> bool" where
  "is_finite_num (DecNum _ _) = True"
| "is_finite_num _ = False"

section \<open>String to number\<close>

text \<open>The unique decimal without trailing zeros of a value.\<close>

function norm_dec :: "nat \<Rightarrow> int \<Rightarrow> nat \<times> int" where
  "norm_dec m e = (if m = 0 then (0, 0) else if m mod 10 = 0 then norm_dec (m div 10) (e + 1) else (m, e))"
  by pat_completeness auto
termination
  by (relation "measure (\<lambda>(m, e). m)") auto

declare norm_dec.simps [simp del]

definition make_num :: "bool \<Rightarrow> nat \<Rightarrow> int \<Rightarrow> jsnum" where
  "make_num neg m e =
    (case norm_dec m e of (m', e') \<Rightarrow>
       if int (length (show_nat m')) + e' > 309 then InfNum neg
       else DecNum (if neg then - int m' else int m') e')"

definition parse_exponent :: "string \<Rightarrow> int option" where
  "parse_exponent r =
    (case r of
       [] \<Rightarrow> Some 0
     | c # cs \<Rightarrow>
         if c \<noteq> CHR ''e'' \<and> c \<noteq> CHR ''E'' then None
         else (let neg = (cs \<noteq> [] \<and> hd cs = CHR ''-'');
                   ds = (if cs \<noteq> [] \<and> (hd cs = CHR ''-'' \<or> hd cs = CHR ''+'') then tl cs else cs) in
               if ds = [] \<or> \<not> list_all is_digit ds then None
               else Some ((if neg then -1 else 1) * int (parse_digits 0 ds))))"

definition parse_decimal :: "bool \<Rightarrow> string \<Rightarrow> jsnum" where
  "parse_decimal neg t =
    (let ip = takeWhile is_digit t; r1 = dropWhile is_digit t;
         dot = (r1 \<noteq> [] \<and> hd r1 = CHR ''.'');
         fp = (if dot then takeWhile is_digit (tl r1) else []);
         r2 = (if dot then dropWhile is_digit (tl r1) else r1) in
     if ip = [] \<and> fp = [] then NaNum
     else (case parse_exponent r2 of
             None \<Rightarrow> NaNum
           | Some ex \<Rightarrow> make_num neg (parse_digits 0 (ip @ fp)) (ex - int (length fp))))"

definition radix_val :: "char \<Rightarrow> nat" where
  "radix_val c = (let b = of_char c :: nat in
     if is_digit c then b - 48 else if 97 \<le> b \<and> b \<le> 122 then b - 87
     else if 65 \<le> b \<and> b \<le> 90 then b - 55 else 99)"

definition parse_radix :: "nat \<Rightarrow> string \<Rightarrow> jsnum" where
  "parse_radix k ds =
    (if ds = [] \<or> \<not> list_all (\<lambda>c. radix_val c < k) ds then NaNum
     else make_num False (foldl (\<lambda>a c. a * k + radix_val c) 0 ds) 0)"

text \<open>\<open>Number(s)\<close>; a decimal is kept exact rather than rounded to a double.\<close>

definition js_number :: "string \<Rightarrow> jsnum" where
  "js_number s =
    (let t = js_trim s; l = map lower_char (take 2 t);
         neg = starts_with ''-'' t;
         u = (if neg \<or> starts_with ''+'' t then drop 1 t else t) in
     if t = [] then DecNum 0 0
     else if l = ''0x'' then parse_radix 16 (drop 2 t)
     else if l = ''0o'' then parse_radix 8 (drop 2 t)
     else if l = ''0b'' then parse_radix 2 (drop 2 t)
     else if u = ''Infinity'' then InfNum neg
     else parse_decimal neg u)"

text \<open>Comparison of the decimal \<open>m * 10 ^ e\<close> with an integer.\<close>

definition dec_less_int :: "int \<Rightarrow> int \<Rightarrow> int \<Rightarrow> bool" where
  "dec_less_int m e n = (if 0 \<le> e then m * 10 ^ nat e < n else m < n * 10 ^ nat (- e))"

text \<open>\<open>Math.abs(n - x) > w\<close> for the decimal \<open>x = m * 10 ^ e\<close>.\<close>

definition dec_away :: "int \<Rightarrow> int \<Rightarrow> int \<Rightarrow> int \<Rightarrow> bool" where
  "dec_away m e n w =
    (if 0 \<le> e then \<bar>n - m * 10 ^ nat e\<bar> > w
     else \<bar>n * 10 ^ nat (- e) - m\<bar> > w * 10 ^ nat (- e))"

section \<open>String quoting\<close>

fun hex_digit :: "nat \<Rightarrow> char" where
  "hex_digit d = (if d < 10 then char_of (48 + d) else char_of (87 + d))"

fun show_hex :: "nat \<Rightarrow> string" where
  "show_hex n = (if n < 16 then [hex_digit n] else show_hex (n div 16) @ [hex_digit (n mod 16)])"

declare show_hex.simps [simp del]

definition json_escape :: "char \<Rightarrow> string" where
  "json_escape c =
    (let b = of_char c :: nat in
     if b = 34 then [CHR 0x5C, CHR 0x22]
     else if b = 92 then [CHR 0x5C, CHR 0x5C]
     else if b = 8 then [CHR 0x5C, CHR ''b'']
     else if b = 9 then [CHR 0x5C, CHR ''t'']
     else if b = 10 then [CHR 0x5C, CHR ''n'']
     else if b = 12 then [CHR 0x5C, CHR ''f'']
     else if b = 13 then [CHR 0x5C, CHR ''r'']
     else if b < 32 then [CHR 0x5C, CHR ''u'', CHR ''0'', CHR ''0'', hex_digit (b div 16), hex_digit (b mod 16)]
     else [c])"

definition json_quote :: "string \<Rightarrow> string" where
  "json_quote s = [CHR 0x22] @ concat (map json_escape s) @ [CHR 0x22]"

text \<open>\<open>JSON.stringify\<close> without indentation (of a value that is not undefined): undefined members
  are left out, undefined elements and non-finite numbers are null.\<close>

fun json_stringify :: "jsval \<Rightarrow> string" where
  "json_stringify JUndef = ''null''"
| "json_stringify JNull = ''null''"
| "json_stringify (JNum n) = (if is_finite_num n then js_num_string n else ''null'')"
| "json_stringify (JBool b) = (if b then ''true'' else ''false'')"
| "json_stringify (JStr s) = json_quote s"
| "json_stringify (JArr vs) = ''['' @ join_with '','' (map json_stringify vs) @ '']''"
| "json_stringify (JObj kvs) =
     ''{'' @ join_with '','' (concat (map (\<lambda>(k, v). if v = JUndef then []
                                      else [json_quote k @ '':'' @ json_stringify v]) kvs)) @ ''}''"

text \<open>A value in a template literal.\<close>

fun js_display :: "jsval \<Rightarrow> string" where
  "js_display JUndef = ''undefined''"
| "js_display JNull = ''null''"
| "js_display (JBool b) = (if b then ''true'' else ''false'')"
| "js_display (JNum n) = js_num_string n"
| "js_display (JStr s) = s"
| "js_display (JArr vs) =
     join_with '','' (map (\<lambda>v. if v = JUndef \<or> v = JNull then [] else js_display v) vs)"
| "js_display (JObj _) = ''[object Object]''"

section \<open>Canonical serialisation\<close>

fun canonicalJson :: "jsval \<Rightarrow> string" where
  "canonicalJson JUndef = ''null''"
| "canonicalJson JNull = ''null''"
| "canonicalJson (JNum n) = (if is_finite_num n then js_num_string n else ''null'')"
| "canonicalJson (JBool b) = (if b then ''true'' else ''false'')"
| "canonicalJson (JStr s) = json_quote s"
| "canonicalJson (JArr vs) = ''['' @ join_with '','' (map canonicalJson vs) @ '']''"
| "canonicalJson (JObj kvs) =
     ''{'' @ join_with '','' (map (\<lambda>(k, s). json_quote k @ '':'' @ s)
       (sort_key fst (map (\<lambda>(k, v). (k, canonicalJson v)) kvs))) @ ''}''"

text \<open>Well-formed values: no object repeats a key.  \<open>json_reorder\<close> relates two values that
  differ only in the order of object keys, at any depth.\<close>

fun json_wf :: "jsval \<Rightarrow> bool" where
  "json_wf (JArr vs) = (\<forall>v \<in> set vs. json_wf v)"
| "json_wf (JObj kvs) = (distinct (map fst kvs) \<and> (\<forall>(k, v) \<in> set kvs. json_wf v))"
| "json_wf _ = True"

inductive json_reorder :: "jsval \<Rightarrow> jsval \<Rightarrow> bool" where
  same: "json_reorder v v"
| arr: "list_all2 json_reorder vs ws \<Longrightarrow> json_reorder (JArr vs) (JArr ws)"
| obj: "\<lbrakk>list_all2 (\<lambda>p q. fst p = fst q \<and> json_reorder (snd p) (snd q)) kvs mid; mset mid = mset kvs'\<rbrakk>
    \<Longrightarrow> json_reorder (JObj kvs) (JObj kvs')"
monos list_all2_mono

lemma sort_key_fst_unique:
  assumes "mset xs = mset ys" and "distinct (map fst xs)"
  shows "sort_key fst xs = sort_key fst (ys :: (string \<times> 'b) list)"
proof -
  have "inj_on fst (set xs)"
    using assms(2) by (simp add: distinct_map)
  moreover have "mset xs = mset (sort_key fst ys)"
    using assms(1) by simp
  ultimately show ?thesis
    by (intro sort_key_inj_key_eq) simp_all
qed

lemma canonicalJson_reorder:
  "json_reorder v w \<Longrightarrow> json_wf v \<Longrightarrow> canonicalJson v = canonicalJson w"
proof (induction rule: json_reorder.induct)
  case (same v)
  then show ?case by simp
next
  case (arr vs ws)
  then have "map canonicalJson vs = map canonicalJson ws"
    by (auto simp: list_all2_conv_all_nth intro!: nth_equalityI)
  then show ?case by simp
next
  case (obj kvs mid kvs')
  let ?c = "\<lambda>(k, v). (k, canonicalJson v)"
  have same_len: "length kvs = length mid"
    using obj.hyps(1) obj.IH by (auto dest: list_all2_lengthD)
  have "map ?c kvs = map ?c mid"
    using obj by (auto simp: list_all2_conv_all_nth split_beta intro!: nth_equalityI)
  moreover have "mset (map ?c mid) = mset (map ?c kvs')"
    using obj.hyps by simp
  moreover have "distinct (map fst (map ?c kvs))"
    using obj.prems by (simp add: comp_def split_beta)
  ultimately have "sort_key fst (map ?c kvs) = sort_key fst (map ?c kvs')"
    by (metis sort_key_fst_unique)
  then show ?case by simp
qed

end
