(* ===== verification/Manifest.thy ===== *)
theory Manifest
  imports Errors Json
begin

text \<open>
  The shapes of \<open>trust-core/src/shapes/manifest.ts\<close>: a c2pa-rs manifest store as the Reader
  returns it.  An optional property is an \<open>option\<close>; an optional array is a list, an absent one
  being empty (every reader of the source writes \<open>?? []\<close>); an array entry may be null, the shape
  being an unchecked cast, so entries are options too.
  \<open>ig_title\<close> is not in the shape; \<open>sanitize.ts\<close> reads it through a cast.  \<open>manifests\<close> lists the object's own
  entries in enumeration order.
\<close>

text \<open>A JavaScript \<open>Date\<close>: milliseconds since the epoch, \<open>None\<close> for an invalid date.\<close>

type_synonym js_date = "int option"

record signature_info =
  si_issuer :: "string option"
  si_common_name :: "string option"
  si_cert_serial_number :: "string option"
  si_alg :: "string option"
  si_time :: "string option"
  si_timeObject :: "js_date option"

record assertion =
  as_label :: "string option"
  as_data :: jsval

record status_entry =
  st_code :: "string option"
  st_explanation :: "string option"
  st_url :: "string option"

record buckets =
  bk_success :: "status_entry option list"
  bk_informational :: "status_entry option list"
  bk_failure :: "status_entry option list"

record ingredient_delta =
  dl_uri :: "string option"
  dl_deltas :: "buckets option"

record validation_results =
  vr_activeManifest :: "buckets option"
  vr_ingredientDeltas :: "ingredient_delta option list"

record ingredient =
  ig_title :: "string option"
  ig_active_manifest :: "string option"
  ig_relationship :: "string option"
  ig_label :: "string option"
  ig_format :: "string option"
  ig_validation_results :: "validation_results option"
  ig_validation_status :: "status_entry option list"

record manifest =
  mf_label :: "string option"
  mf_claim_generator :: "string option"
  mf_title :: "string option"
  mf_format :: "string option"
  mf_signature_info :: "signature_info option"
  mf_assertions :: "assertion option list"
  mf_ingredients :: "ingredient option list"

record manifest_store =
  ms_active_manifest :: "string option"
  ms_manifests :: "(string \<times> manifest) list"
  ms_validation_status :: "status_entry option list"
  ms_validation_state :: "string option"
  ms_validation_results :: "validation_results option"

text \<open>\<open>store.manifests?.[label]\<close>.\<close>

definition manifest_at :: "manifest_store \<Rightarrow> string \<Rightarrow> manifest option" where
  "manifest_at store l = map_of (ms_manifests store) l"

definition getActiveManifest :: "manifest_store \<Rightarrow> manifest option" where
  "getActiveManifest store =
    (case ms_active_manifest store of
       None \<Rightarrow> None
     | Some label \<Rightarrow> manifest_at store label)"

definition getIngredientAssertionUri :: "string option \<Rightarrow> string option \<Rightarrow> string option" where
  "getIngredientAssertionUri holderLabel ingredientLabel =
    (case (holderLabel, ingredientLabel) of
       (Some h, Some i) \<Rightarrow> Some (''self#jumbf=/c2pa/'' @ h @ ''/c2pa.assertions/'' @ i)
     | _ \<Rightarrow> None)"

lemma manifest_at_in: "manifest_at store l = Some m \<Longrightarrow> (l, m) \<in> set (ms_manifests store)"
  by (simp add: manifest_at_def map_of_SomeD)

lemma getActiveManifest_Some_iff [simp]:
  "getActiveManifest store = Some m \<longleftrightarrow>
     (\<exists>l. ms_active_manifest store = Some l \<and> manifest_at store l = Some m)"
  by (simp add: getActiveManifest_def split: option.splits)

lemma getActiveManifest_None_iff:
  "getActiveManifest store = None \<longleftrightarrow>
     (\<forall>l. ms_active_manifest store = Some l \<longrightarrow> manifest_at store l = None)"
  by (simp add: getActiveManifest_def split: option.splits)

text \<open>Blank values of the shapes, for concrete inputs.\<close>

definition blank_info :: signature_info where
  "blank_info = \<lparr>si_issuer = None, si_common_name = None, si_cert_serial_number = None,
     si_alg = None, si_time = None, si_timeObject = None\<rparr>"

definition blank_ingredient :: ingredient where
  "blank_ingredient = \<lparr>ig_title = None, ig_active_manifest = None, ig_relationship = None, ig_label = None,
     ig_format = None, ig_validation_results = None, ig_validation_status = []\<rparr>"

definition blank_manifest :: manifest where
  "blank_manifest = \<lparr>mf_label = None, mf_claim_generator = None, mf_title = None, mf_format = None,
     mf_signature_info = None, mf_assertions = [], mf_ingredients = []\<rparr>"

definition blank_store :: manifest_store where
  "blank_store = \<lparr>ms_active_manifest = None, ms_manifests = [], ms_validation_status = [],
     ms_validation_state = None, ms_validation_results = None\<rparr>"

lemmas blank_defs = blank_info_def blank_ingredient_def blank_manifest_def blank_store_def

definition status_of_code :: "string \<Rightarrow> status_entry" where
  "status_of_code c = \<lparr>st_code = Some c, st_explanation = None, st_url = None\<rparr>"

end
