(* ===== verification/Actions.thy ===== *)
theory Actions
  imports Manifest
begin

text \<open>
  The action-allowlist policy, \<open>trust-core/src/policies/actions.ts\<close>: flattening the actions
  assertions of a manifest, and the allowlist check over the flattened names.
\<close>

definition CAPTURE_ALLOWED_ACTIONS :: "string list" where
  "CAPTURE_ALLOWED_ACTIONS = [''c2pa.created'']"

definition TRANSITIONAL_RETIRED_UPLOAD_ACTIONS :: "string list" where
  "TRANSITIONAL_RETIRED_UPLOAD_ACTIONS = [''c2pa.rotated'', ''c2pa.resized'']"

definition REALREEL_UPLOAD_ALLOWED_ACTIONS :: "string list" where
  "REALREEL_UPLOAD_ALLOWED_ACTIONS =
    [''c2pa.opened'', ''c2pa.orientation'', ''c2pa.resized.proportional'', ''c2pa.transcoded'',
     ''c2pa.trimmed'', ''c2pa.redacted'', ''c2pa.edited.metadata'']
    @ TRANSITIONAL_RETIRED_UPLOAD_ACTIONS"

record action_entry =
  ae_action :: string
  ae_parameters :: jsval
  ae_digitalSourceType :: "string option"

definition RELATED_MAX_DEPTH :: nat where
  "RELATED_MAX_DEPTH = 4"

text \<open>The entry pushed for one element of an actions list: none without a non-empty \<open>action\<close>.\<close>

definition action_entry_of :: "jsval \<Rightarrow> action_entry list" where
  "action_entry_of a =
    (case as_nonempty_str (obj_get a ''action'') of
       None \<Rightarrow> []
     | Some n \<Rightarrow>
         [\<lparr>ae_action = n, ae_parameters = obj_get a ''parameters'',
           ae_digitalSourceType = as_nonempty_str (obj_get a ''digitalSourceType'')\<rparr>])"

text \<open>The inner function \<open>visit\<close>: \<open>depth\<close> counts up to the bound.\<close>

function visit_actions :: "jsval \<Rightarrow> nat \<Rightarrow> action_entry list" where
  "visit_actions l depth =
    (case l of
       JArr as \<Rightarrow>
         concat (map (\<lambda>a. if is_object a
                          then action_entry_of a
                               @ (if depth < RELATED_MAX_DEPTH
                                  then visit_actions (obj_get a ''related'') (Suc depth) else [])
                          else []) as)
     | _ \<Rightarrow> [])"
  by pat_completeness auto
termination
  by (relation "measure (\<lambda>(l, d). Suc RELATED_MAX_DEPTH - d)") auto

declare visit_actions.simps [simp del]

definition assertion_action_entries :: "assertion option \<Rightarrow> action_entry list" where
  "assertion_action_entries assn =
    (case assn of
       None \<Rightarrow> []
     | Some a \<Rightarrow>
         if as_label a \<noteq> Some ''c2pa.actions.v2'' \<and> as_label a \<noteq> Some ''c2pa.actions'' then []
         else if is_object (as_data a) then visit_actions (obj_get (as_data a) ''actions'') 0
         else [])"

definition extractActionEntries :: "manifest \<Rightarrow> action_entry list" where
  "extractActionEntries m = concat (map assertion_action_entries (mf_assertions m))"

definition extractCreatedDigitalSourceType :: "manifest \<Rightarrow> string option" where
  "extractCreatedDigitalSourceType m =
    (case List.find (\<lambda>e. ae_action e = ''c2pa.created'') (extractActionEntries m) of
       None \<Rightarrow> None
     | Some e \<Rightarrow> ae_digitalSourceType e)"

definition extractManifestActions :: "manifest \<Rightarrow> string list" where
  "extractManifestActions m = map ae_action (extractActionEntries m)"

definition findDisallowedActions :: "manifest \<Rightarrow> string list \<Rightarrow> string list option" where
  "findDisallowedActions m allowlist =
    (let disallowed = filter (\<lambda>a. a \<notin> set allowlist) (extractManifestActions m) in
     if disallowed = [] then None else Some (uniq disallowed))"

section \<open>What counts as a declared action\<close>

text \<open>\<open>nested_action n l a\<close>: the object \<open>a\<close> is an entry of the list \<open>l\<close>, \<open>n\<close> levels of
  \<open>related\<close> down.\<close>

inductive nested_action :: "nat \<Rightarrow> jsval \<Rightarrow> jsval \<Rightarrow> bool" where
  here: "\<lbrakk>a \<in> set as; is_object a\<rbrakk> \<Longrightarrow> nested_action 0 (JArr as) a"
| down: "\<lbrakk>a \<in> set as; is_object a; nested_action n (obj_get a ''related'') b\<rbrakk>
    \<Longrightarrow> nested_action (Suc n) (JArr as) b"

inductive_cases nested_action_ArrE: "nested_action n (JArr as) b"
inductive_simps nested_action_0_simps: "nested_action 0 l b"
inductive_simps nested_action_Suc_simps: "nested_action (Suc n) l b"

lemma nested_action_object: "nested_action n l a \<Longrightarrow> is_object a"
  by (induction rule: nested_action.induct) auto

lemma visit_actions_not_array [simp]: "(\<And>as. l \<noteq> JArr as) \<Longrightarrow> visit_actions l d = []"
  by (cases l) (auto simp: visit_actions.simps)

lemma set_visit_actions:
  "d \<le> RELATED_MAX_DEPTH \<Longrightarrow>
   set (visit_actions l d) =
     {e. \<exists>n a. n \<le> RELATED_MAX_DEPTH - d \<and> nested_action n l a \<and> e \<in> set (action_entry_of a)}"
proof (induction l d rule: visit_actions.induct)
  case (1 l d)
  show ?case
  proof (cases "\<exists>as. l = JArr as")
    case False
    then have "\<not> nested_action n l a" for n a
      by (auto elim: nested_action.cases)
    with False show ?thesis by simp
  next
    case True
    then obtain as where l: "l = JArr as" by blast
    have step: "e \<in> set (visit_actions l d) \<longleftrightarrow> (\<exists>a \<in> set as. is_object a \<and>
        (e \<in> set (action_entry_of a) \<or>
         d < RELATED_MAX_DEPTH \<and> e \<in> set (visit_actions (obj_get a ''related'') (Suc d))))" for e
      by (subst visit_actions.simps) (fastforce simp: l split: if_splits)
    show ?thesis (is "_ = ?R")
    proof (cases "d < RELATED_MAX_DEPTH")
      case False
      then have "RELATED_MAX_DEPTH - d = 0" by simp
      with False show ?thesis
        unfolding set_eq_iff mem_Collect_eq step by (auto simp: l nested_action_0_simps)
    next
      case deeper: True
      then have IH: "set (visit_actions (obj_get a ''related'') (Suc d)) =
          {e. \<exists>n b. n \<le> RELATED_MAX_DEPTH - Suc d \<and> nested_action n (obj_get a ''related'') b
                 \<and> e \<in> set (action_entry_of b)}"
        if "a \<in> set as" "is_object a" for a
        using 1(1)[OF l that deeper] by simp
      have split_n: "(\<exists>n\<le>RELATED_MAX_DEPTH - d. P n) \<longleftrightarrow>
          P 0 \<or> (\<exists>n\<le>RELATED_MAX_DEPTH - Suc d. P (Suc n))" for P
        using deeper by (metis Suc_diff_Suc Suc_le_mono le0 not0_implies_Suc)
      have "e \<in> ?R \<longleftrightarrow> (\<exists>a. nested_action 0 l a \<and> e \<in> set (action_entry_of a))
          \<or> (\<exists>n\<le>RELATED_MAX_DEPTH - Suc d. \<exists>a. nested_action (Suc n) l a \<and> e \<in> set (action_entry_of a))"
        for e
        using split_n[of "\<lambda>n. \<exists>a. nested_action n l a \<and> e \<in> set (action_entry_of a)"] by blast
      then show ?thesis
        using deeper
        unfolding set_eq_iff step
        by (simp add: IH l nested_action_0_simps nested_action_Suc_simps cong: conj_cong) blast
    qed
  qed
qed

text \<open>An action is declared by a manifest when one of its actions assertions nests it at most
  \<open>RELATED_MAX_DEPTH\<close> levels of \<open>related\<close> deep and it carries a non-empty name.\<close>

definition declares_action :: "manifest \<Rightarrow> action_entry \<Rightarrow> bool" where
  "declares_action m e \<longleftrightarrow>
    (\<exists>a \<in> set (mf_assertions m). \<exists>x n b. a = Some x
       \<and> as_label x \<in> {Some ''c2pa.actions.v2'', Some ''c2pa.actions''}
       \<and> is_object (as_data x)
       \<and> n \<le> RELATED_MAX_DEPTH \<and> nested_action n (obj_get (as_data x) ''actions'') b
       \<and> e \<in> set (action_entry_of b))"

lemma set_extractActionEntries: "set (extractActionEntries m) = {e. declares_action m e}"
proof -
  have "e \<in> set (assertion_action_entries a) \<longleftrightarrow> (\<exists>x n b. a = Some x
       \<and> as_label x \<in> {Some ''c2pa.actions.v2'', Some ''c2pa.actions''} \<and> is_object (as_data x)
       \<and> n \<le> RELATED_MAX_DEPTH \<and> nested_action n (obj_get (as_data x) ''actions'') b
       \<and> e \<in> set (action_entry_of b))" for a e
    by (cases a) (auto simp: assertion_action_entries_def set_visit_actions)
  then show ?thesis
    by (fastforce simp: extractActionEntries_def declares_action_def)
qed

lemma findDisallowedActions_None_iff:
  "findDisallowedActions m al = None \<longleftrightarrow> set (extractManifestActions m) \<subseteq> set al"
  by (auto simp: findDisallowedActions_def Let_def filter_empty_conv)

text \<open>The flattened action list of a manifest holds exactly the actions its assertions declare, to the
  nesting bound, and the allowlist check passes exactly when all of them are allowed.\<close>

lemma actions_checked_exactly:
  "set (extractManifestActions m) = {ae_action e | e. declares_action m e}
   \<and> (findDisallowedActions m al = None) = ({ae_action e | e. declares_action m e} \<subseteq> set al)"
proof -
  have "set (extractManifestActions m) = {ae_action e | e. declares_action m e}"
    by (auto simp: extractManifestActions_def set_extractActionEntries)
  then show ?thesis by (simp add: findDisallowedActions_None_iff)
qed

end
