(* ===== verification/Structure.thy ===== *)
theory Structure
  imports Manifest
begin

text \<open>
  Structural rules of \<open>trust-core/src/policies/structure.ts\<close>: the lone \<open>parentOf\<close> ingredient of an
  upload, fresh captures, and interposed timestamp update manifests.  \<open>ingredients[0]!\<close> and the
  \<open>map\<close> of \<open>requireFreshCapture\<close> read a property of the entry unguarded, so a null entry
  is a \<open>TypeError\<close>.
\<close>

datatype parent_failure =
    Too_many_ingredients nat
  | No_ingredients
  | Wrong_relationship string
  | Dangling_parent_ref string

definition quote1 :: "string \<Rightarrow> string" where
  "quote1 s = [CHR 0x27] @ s @ [CHR 0x27]"

fun parent_failure_detail :: "parent_failure \<Rightarrow> string" where
  "parent_failure_detail No_ingredients = ''must have exactly one ingredient (got 0)''"
| "parent_failure_detail (Too_many_ingredients n) =
     ''must have exactly one ingredient (got '' @ show_nat n @ '')''"
| "parent_failure_detail (Wrong_relationship obs) =
     ''ingredient relationship must be '' @ quote1 ''parentOf'' @ '' (got '' @ quote1 obs @ '')''"
| "parent_failure_detail (Dangling_parent_ref d) = d"

record parent_resolution =
  pr_parentLabel :: string
  pr_parent :: manifest

definition resolveParentOfIngredient ::
  "manifest_store \<Rightarrow> manifest \<Rightarrow> (parent_failure + parent_resolution) res"
where
  "resolveParentOfIngredient store active =
    (let ingredients = mf_ingredients active in
     if length ingredients = 0 then Inr (Inl No_ingredients)
     else if length ingredients \<noteq> 1 then Inr (Inl (Too_many_ingredients (length ingredients)))
     else (case hd ingredients of
        None \<Rightarrow> Inl TypeErr
      | Some ig \<Rightarrow>
          if ig_relationship ig \<noteq> Some ''parentOf''
          then Inr (Inl (Wrong_relationship (null_or (ig_relationship ig) ''(missing)'')))
          else (case ig_active_manifest ig of
             None \<Rightarrow> Inr (Inl (Dangling_parent_ref ''parent ingredient is missing active_manifest label''))
           | Some parentLabel \<Rightarrow>
               if parentLabel = []
               then Inr (Inl (Dangling_parent_ref ''parent ingredient is missing active_manifest label''))
               else (case manifest_at store parentLabel of
                  None \<Rightarrow> Inr (Inl (Dangling_parent_ref
                    (''parent ingredient references a missing manifest (label='' @ quote1 parentLabel @ '')'')))
                | Some parent \<Rightarrow>
                    Inr (Inr \<lparr>pr_parentLabel = parentLabel, pr_parent = parent\<rparr>)))))"

record fresh_capture_violation =
  fc_parentLabels :: "string list"
  fc_ingredientCount :: nat

definition requireFreshCapture :: "manifest \<Rightarrow> fresh_capture_violation option res" where
  "requireFreshCapture m =
    (let ingredients = mf_ingredients m in
     if length ingredients = 0 then Inr None
     else bindR (mapR (\<lambda>i. bindR (derefR TypeErr i)
                              (\<lambda>ig. Inr (null_or (ig_active_manifest ig) ''(unlabeled)''))) ingredients)
            (\<lambda>labels. Inr (Some \<lparr>fc_parentLabels = labels, fc_ingredientCount = length ingredients\<rparr>)))"

definition APP_ATTEST_LABEL :: string where
  "APP_ATTEST_LABEL = ''org.realreel.app_attest''"
definition PLAY_INTEGRITY_LABEL :: string where
  "PLAY_INTEGRITY_LABEL = ''org.realreel.play_integrity''"
definition TIMESTAMP_ASSERTION_LABEL :: string where
  "TIMESTAMP_ASSERTION_LABEL = ''c2pa.time-stamp''"
definition METADATA_ASSERTION_LABEL :: string where
  "METADATA_ASSERTION_LABEL = ''c2pa.metadata''"
definition LEGACY_EXIF_ASSERTION_LABEL :: string where
  "LEGACY_EXIF_ASSERTION_LABEL = ''stds.exif''"
definition LEGACY_IPTC_ASSERTION_LABEL :: string where
  "LEGACY_IPTC_ASSERTION_LABEL = ''stds.iptc''"

definition isTimestampUpdateManifest :: "manifest \<Rightarrow> bool" where
  "isTimestampUpdateManifest m =
    (list_ex (\<lambda>a. chain a as_label = Some TIMESTAMP_ASSERTION_LABEL) (mf_assertions m)
     \<and> length (mf_ingredients m) > 0)"

section \<open>Facts\<close>

text \<open>The structure an accepted upload has: one ingredient, \<open>parentOf\<close>, naming a stored manifest.\<close>

definition sole_parent :: "manifest_store \<Rightarrow> manifest \<Rightarrow> string \<Rightarrow> manifest \<Rightarrow> bool" where
  "sole_parent store active l p \<longleftrightarrow>
    (\<exists>ig. mf_ingredients active = [Some ig] \<and> ig_relationship ig = Some ''parentOf''
        \<and> ig_active_manifest ig = Some l \<and> l \<noteq> [] \<and> manifest_at store l = Some p)"

lemma resolveParentOfIngredient_Inr_iff [result_simps]:
  "resolveParentOfIngredient store active = Inr (Inr r) \<longleftrightarrow>
     sole_parent store active (pr_parentLabel r) (pr_parent r)"
  by (cases "mf_ingredients active"; cases r)
     (auto simp: resolveParentOfIngredient_def sole_parent_def Let_def split: option.splits if_splits)

lemma resolveParentOfIngredient_TypeErr_iff:
  "resolveParentOfIngredient store active = Inl e \<longleftrightarrow> mf_ingredients active = [None] \<and> e = TypeErr"
  by (cases "mf_ingredients active")
     (auto simp: resolveParentOfIngredient_def Let_def split: option.splits if_splits)

lemma sole_parent_unique:
  "sole_parent store active l p \<Longrightarrow> sole_parent store active l' p' \<Longrightarrow> l' = l \<and> p' = p"
  by (auto simp: sole_parent_def)

lemma requireFreshCapture_None_iff [simp, result_simps]:
  "requireFreshCapture m = Inr None \<longleftrightarrow> mf_ingredients m = []"
  by (auto simp: requireFreshCapture_def Let_def)

lemma fresh_not_update: "mf_ingredients m = [] \<Longrightarrow> \<not> isTimestampUpdateManifest m"
  by (simp add: isTimestampUpdateManifest_def)

end
