(* ===== verification/Binding.thy ===== *)
theory Binding
  imports Structure
begin

text \<open>
  The hard-binding policy of \<open>trust-core/src/policies/binding.ts\<close>: which validation codes speak
  about a hard binding, the client's tamper filter, and the verdict over the sign-time report
  recorded for the capture.
\<close>

definition BINDING_CODE_PREFIXES :: "string list" where
  "BINDING_CODE_PREFIXES =
    [''assertion.dataHash.'', ''assertion.bmffHash.'', ''assertion.boxesHash.'', ''assertion.collectionHash.'']"

definition BINDING_FAILURE_SUFFIXES :: "string list" where
  "BINDING_FAILURE_SUFFIXES = [''.mismatch'', ''.missing'', ''.malformed'', ''.invalid'']"

definition isBindingCode :: "string \<Rightarrow> bool" where
  "isBindingCode code = list_ex (\<lambda>p. starts_with p code) BINDING_CODE_PREFIXES"

text \<open>\<open>entries.map((e) => e?.code).filter(string)\<close>.\<close>

definition validCodes :: "status_entry option list \<Rightarrow> string list" where
  "validCodes entries = List.map_filter (\<lambda>e. chain e st_code) entries"

definition isBindingFailureCode :: "string \<Rightarrow> bool" where
  "isBindingFailureCode code =
    (isBindingCode code \<and> list_ex (\<lambda>s. ends_with s code) BINDING_FAILURE_SUFFIXES)"

definition findBindingFailureCodes :: "status_entry option list \<Rightarrow> string list" where
  "findBindingFailureCodes entries = filter isBindingFailureCode (validCodes entries)"

definition findContentTamperCodes :: "status_entry option list \<Rightarrow> string list" where
  "findContentTamperCodes entries =
    filter (\<lambda>code. \<not> starts_with ''signingCredential.'' code
                 \<and> code \<noteq> ''timeStamp.untrusted''
                 \<and> \<not> ends_with ''.additionalExclusionsPresent'' code
                 \<and> \<not> ends_with ''.match'' code) (validCodes entries)"

datatype recorded_binding_violation =
    No_recorded_results string
  | Match_missing string
  | Binding_failure string "string list"

fun binding_violation_detail :: "recorded_binding_violation \<Rightarrow> string" where
  "binding_violation_detail (No_recorded_results d) = d"
| "binding_violation_detail (Match_missing d) = d"
| "binding_violation_detail (Binding_failure d _) = d"

text \<open>The entries that reference the capture; a null ingredient entry is dereferenced unguarded.\<close>

fun referencing_ingredients :: "string \<Rightarrow> ingredient option list \<Rightarrow> ingredient list res" where
  "referencing_ingredients l [] = Inr []"
| "referencing_ingredients l (None # igs) = Inl TypeErr"
| "referencing_ingredients l (Some ig # igs) =
     bindR (referencing_ingredients l igs)
       (\<lambda>rest. Inr (if ig_active_manifest ig = Some l then ig # rest else rest))"

definition referencing_entries :: "manifest_store \<Rightarrow> string \<Rightarrow> ingredient list res" where
  "referencing_entries store l =
    bindR (mapR (\<lambda>(k, m). referencing_ingredients l (mf_ingredients m)) (ms_manifests store))
      (\<lambda>xss. Inr (concat xss))"

definition entry_binding_violation :: "ingredient \<Rightarrow> recorded_binding_violation option" where
  "entry_binding_violation entry =
    (case chain (ig_validation_results entry) vr_activeManifest of
       None \<Rightarrow> Some (No_recorded_results
         ''capture ingredient carries no sign-time validation report (validation_results absent)'')
     | Some recorded \<Rightarrow>
         (let failureCodes = findBindingFailureCodes (bk_failure recorded) in
          if failureCodes \<noteq> []
          then Some (Binding_failure
                 (''recorded hard-binding failure(s): '' @ join_with '', '' failureCodes) failureCodes)
          else if \<not> list_ex (\<lambda>code. isBindingCode code \<and> ends_with ''.match'' code)
                       (validCodes (bk_success recorded))
          then Some (Match_missing
                 ''recorded results lack a positive binding proof (assertion.*Hash.match)'')
          else None))"

fun first_violation :: "ingredient list \<Rightarrow> recorded_binding_violation option" where
  "first_violation [] = None"
| "first_violation (e # es) =
     (case entry_binding_violation e of Some v \<Rightarrow> Some v | None \<Rightarrow> first_violation es)"

definition findRecordedBindingViolation ::
  "manifest_store \<Rightarrow> string \<Rightarrow> recorded_binding_violation option res"
where
  "findRecordedBindingViolation store captureLabel =
    bindR (referencing_entries store captureLabel)
      (\<lambda>es. if es = []
             then Inr (Some (No_recorded_results
                    (''no ingredient entry references capture '' @ quote1 captureLabel)))
             else Inr (first_violation es))"

section \<open>Facts\<close>

lemma set_validCodes: "set (validCodes es) = {c. \<exists>e. Some e \<in> set es \<and> st_code e = Some c}"
  by (induction es) (auto simp: validCodes_def bind_eq_Some_conv split: option.splits)

lemma validCodes_simps [simp]:
  "validCodes [] = []"
  "validCodes (None # es) = validCodes es"
  "validCodes (Some e # es) = (case st_code e of None \<Rightarrow> validCodes es | Some c \<Rightarrow> c # validCodes es)"
  by (simp_all add: validCodes_def split: option.splits)

lemma match_not_failure: "ends_with ''.match'' c \<Longrightarrow> \<not> isBindingFailureCode c"
proof
  assume m: "ends_with ''.match'' c" and f: "isBindingFailureCode c"
  then obtain a where c: "c = a @ ''.match''" by (auto simp: string_simps suffix_def)
  from f show False
    unfolding c isBindingFailureCode_def BINDING_FAILURE_SUFFIXES_def by (simp add: ends_with_def)
qed

text \<open>\<open>binding_proved ig\<close>: the report recorded on the entry has a positive proof of a hard binding
  and no hard-binding failure.\<close>

definition binding_proved :: "ingredient \<Rightarrow> bool" where
  "binding_proved ig \<longleftrightarrow>
    (\<exists>vr bk. ig_validation_results ig = Some vr \<and> vr_activeManifest vr = Some bk
       \<and> (\<exists>e c. Some e \<in> set (bk_success bk) \<and> st_code e = Some c \<and> isBindingCode c \<and> ends_with ''.match'' c)
       \<and> (\<forall>e c. Some e \<in> set (bk_failure bk) \<longrightarrow> st_code e = Some c \<longrightarrow> \<not> isBindingFailureCode c))"

lemma entry_binding_violation_None_iff: "entry_binding_violation ig = None \<longleftrightarrow> binding_proved ig"
proof (cases "chain (ig_validation_results ig) vr_activeManifest")
  case None
  then show ?thesis
    by (auto simp: entry_binding_violation_def binding_proved_def)
next
  case (Some bk)
  then obtain vr where "ig_validation_results ig = Some vr" "vr_activeManifest vr = Some bk"
    by (cases "ig_validation_results ig") auto
  then show ?thesis
    by (auto simp: entry_binding_violation_def binding_proved_def findBindingFailureCodes_def
          filter_empty_conv list_ex_iff set_validCodes Let_def)
qed

lemma first_violation_None_iff: "first_violation es = None \<longleftrightarrow> (\<forall>e \<in> set es. binding_proved e)"
  by (induction es) (auto simp flip: entry_binding_violation_None_iff split: option.splits)

lemma referencing_ingredients_Inr:
  "referencing_ingredients l igs = Inr es \<longleftrightarrow>
     None \<notin> set igs \<and> es = filter (\<lambda>ig. ig_active_manifest ig = Some l) (non_null igs)"
  by (induction l igs arbitrary: es rule: referencing_ingredients.induct) auto

lemma referencing_entries_Inr:
  assumes "referencing_entries store l = Inr es"
  shows "set es = {ig. \<exists>k m. (k, m) \<in> set (ms_manifests store) \<and> Some ig \<in> set (mf_ingredients m)
                       \<and> ig_active_manifest ig = Some l}"
proof -
  from assms obtain xss where xss: "es = concat xss"
    "list_all2 (\<lambda>(k, m) xs. referencing_ingredients l (mf_ingredients m) = Inr xs)
       (ms_manifests store) xss"
    by (auto simp: referencing_entries_def mapR_Inr_iff case_prod_unfold)
  from xss(2) show ?thesis unfolding xss(1)
  proof (induction rule: list_all2_induct)
    case Nil
    then show ?case by simp
  next
    case (Cons km kms xs xss)
    then show ?case by (cases km) (auto simp: referencing_ingredients_Inr)
  qed
qed

text \<open>Every entry that references the capture proves its binding, and at least one does.\<close>

definition capture_bound :: "manifest_store \<Rightarrow> string \<Rightarrow> bool" where
  "capture_bound store l \<longleftrightarrow>
    (\<exists>k m ig. (k, m) \<in> set (ms_manifests store) \<and> Some ig \<in> set (mf_ingredients m)
        \<and> ig_active_manifest ig = Some l)
    \<and> (\<forall>k m ig. (k, m) \<in> set (ms_manifests store) \<longrightarrow> Some ig \<in> set (mf_ingredients m)
        \<longrightarrow> ig_active_manifest ig = Some l \<longrightarrow> binding_proved ig)"

lemma findRecordedBindingViolation_Inr_None:
  assumes "findRecordedBindingViolation store l = Inr None"
  shows "capture_bound store l"
proof -
  from assms obtain es where es: "referencing_entries store l = Inr es" "es \<noteq> []"
      "first_violation es = None"
    by (auto simp: findRecordedBindingViolation_def split: if_splits)
  then obtain e where "e \<in> set es" by (cases es) auto
  with es referencing_entries_Inr[OF es(1)] show ?thesis
    unfolding capture_bound_def first_violation_None_iff by blast
qed

lemma mapR_referencing_present:
  "mapR (\<lambda>(k, m). referencing_ingredients l (mf_ingredients m)) ms = Inr xss \<Longrightarrow>
     (k, m) \<in> set ms \<Longrightarrow> None \<notin> set (mf_ingredients m)"
  by (induction ms arbitrary: xss) (auto simp: referencing_ingredients_Inr)

lemma findRecordedBindingViolation_bound:
  assumes "capture_bound store l" "\<forall>(k, m) \<in> set (ms_manifests store). None \<notin> set (mf_ingredients m)"
  shows "findRecordedBindingViolation store l = Inr None"
proof -
  have "\<exists>xss. mapR (\<lambda>(k, m). referencing_ingredients l (mf_ingredients m)) ms = Inr xss"
    if "\<forall>(k, m) \<in> set ms. None \<notin> set (mf_ingredients m)" for ms :: "(string \<times> manifest) list"
    using that
  proof (induction ms)
    case Nil
    then show ?case by simp
  next
    case (Cons km ms)
    obtain k m where km: "km = (k, m)" by (cases km)
    with Cons have "referencing_ingredients l (mf_ingredients m)
        = Inr (filter (\<lambda>ig. ig_active_manifest ig = Some l) (non_null (mf_ingredients m)))"
      by (subst referencing_ingredients_Inr) simp
    with Cons km show ?case by auto
  qed
  with assms(2) obtain es where es: "referencing_entries store l = Inr es"
    unfolding referencing_entries_def by force
  have "set es \<noteq> {}" "\<forall>e \<in> set es. binding_proved e"
    using assms(1) unfolding referencing_entries_Inr[OF es] capture_bound_def by blast+
  with es show ?thesis
    by (simp add: findRecordedBindingViolation_def first_violation_None_iff)
qed

text \<open>The recorded hard-binding check passes exactly when no ingredient entry is null, some entry
  references the capture, and every entry that does records a positive proof of the capture's hard
  binding and no hard-binding failure.\<close>

lemma capture_binding_exact:
  "(findRecordedBindingViolation store l = Inr None)
     = (capture_bound store l \<and> None \<notin> (\<Union>(k, m) \<in> set (ms_manifests store). set (mf_ingredients m)))"
proof
  assume n: "findRecordedBindingViolation store l = Inr None"
  then obtain es where "referencing_entries store l = Inr es"
    by (auto simp: findRecordedBindingViolation_def)
  then obtain xss where "mapR (\<lambda>(k, m). referencing_ingredients l (mf_ingredients m)) (ms_manifests store) = Inr xss"
    by (auto simp: referencing_entries_def)
  note present = mapR_referencing_present[OF this]
  show "capture_bound store l \<and> None \<notin> (\<Union>(k, m) \<in> set (ms_manifests store). set (mf_ingredients m))"
    using findRecordedBindingViolation_Inr_None[OF n] present by auto
next
  assume "capture_bound store l \<and> None \<notin> (\<Union>(k, m) \<in> set (ms_manifests store). set (mf_ingredients m))"
  then show "findRecordedBindingViolation store l = Inr None"
    by (intro findRecordedBindingViolation_bound) auto
qed

end
