(* ===== verification/RecordedResults.thy ===== *)
theory RecordedResults
  imports Binding
begin

text \<open>
  Recorded ingredient results, \<open>trust-core/src/policies/recorded-results.ts\<close>: the failures a
  sign-time report carries that the verifier's own validation does not contradict.
\<close>

definition NON_FAILURE_CODES :: "string list" where
  "NON_FAILURE_CODES =
    [''claimSignature.validated'', ''claimSignature.insideValidity'', ''signingCredential.trusted'',
     ''signingCredential.ocsp.notRevoked'', ''timeStamp.trusted'', ''timeStamp.validated'',
     ''assertion.hashedURI.match'', ''assertion.dataHash.match'', ''assertion.bmffHash.match'',
     ''assertion.accessible'', ''assertion.boxesHash.match'', ''assertion.collectionHash.match'',
     ''ingredient.manifest.validated'', ''ingredient.manifest.missing'',
     ''ingredient.claimSignature.validated'', ''signingCredential.ocsp.skipped'',
     ''signingCredential.ocsp.inaccessible'', ''timeStamp.untrusted'', ''timeStamp.outsideValidity'',
     ''timeStamp.mismatch'', ''timeStamp.malformed'', ''manifest.unknownProvenance'',
     ''algorithm.deprecated'', ''timeOfSigning.insideValidity'', ''ingredient.unknownProvenance'',
     ''assertion.dataHash.additionalExclusionsPresent'',
     ''assertion.bmffHash.additionalExclusionsPresent'',
     ''assertion.boxesHash.additionalExclusionsPresent'', ''signingCredential.ocsp.unknown'',
     ''cawg.x509.credential.trusted'', ''cawg.x509.signature.validated'',
     ''cawg.ica.untrusted_issuer'']"

definition SIGNING_CREDENTIAL_TRUSTED :: string where
  "SIGNING_CREDENTIAL_TRUSTED = ''signingCredential.trusted''"

definition CLEARED_ON_TRUSTED_PARENT :: "string list" where
  "CLEARED_ON_TRUSTED_PARENT = [''signingCredential.untrusted'', ''signingCredential.expired'']"

definition bucketEntries :: "buckets option \<Rightarrow> status_entry option list" where
  "bucketEntries b =
    (case b of
       None \<Rightarrow> []
     | Some bk \<Rightarrow> bk_success bk @ bk_informational bk @ bk_failure bk)"

text \<open>The \<open>Map\<close> from assertion URI to urls, as its (URI, url) pairs in insertion order;
  \<open>get\<close> collects the urls of a URI.\<close>

definition liveTrustedUrls :: "manifest_store \<Rightarrow> (string \<times> string) list" where
  "liveTrustedUrls store =
    concat (map (\<lambda>delta.
      (case chain delta dl_uri of
         None \<Rightarrow> []
       | Some uri \<Rightarrow>
           List.map_filter (\<lambda>e.
             if chain e st_code = Some SIGNING_CREDENTIAL_TRUSTED
             then map_option (\<lambda>u. (uri, u)) (chain e st_url) else None)
           (case chain delta dl_deltas of None \<Rightarrow> [] | Some bk \<Rightarrow> bk_success bk)))
      (case ms_validation_results store of None \<Rightarrow> [] | Some vr \<Rightarrow> vr_ingredientDeltas vr))"

definition urls_for :: "(string \<times> string) list \<Rightarrow> string \<Rightarrow> string list" where
  "urls_for live uri = map snd (filter (\<lambda>p. fst p = uri) live)"

definition trusted_parent_url ::
  "(string \<times> string) list \<Rightarrow> string \<Rightarrow> ingredient \<Rightarrow> string option"
where
  "trusted_parent_url live holderLabel ig =
    (case (ig_active_manifest ig, getIngredientAssertionUri (Some holderLabel) (ig_label ig)) of
       (Some l, Some uri) \<Rightarrow>
         (let parentUrl = ''self#jumbf=/c2pa/'' @ l @ ''/'' in
          if list_ex (starts_with parentUrl) (urls_for live uri) then Some parentUrl else None)
     | _ \<Rightarrow> None)"

definition recorded_entries :: "ingredient \<Rightarrow> status_entry option list" where
  "recorded_entries ig =
    (case ig_validation_results ig of
       Some results \<Rightarrow>
         bucketEntries (vr_activeManifest results)
         @ concat (map (\<lambda>d. bucketEntries (chain d dl_deltas)) (vr_ingredientDeltas results))
     | None \<Rightarrow> ig_validation_status ig)"

definition cleared_by_parent :: "string option \<Rightarrow> status_entry \<Rightarrow> string \<Rightarrow> bool" where
  "cleared_by_parent trusted e code =
    (case (trusted, st_url e) of
       (Some parentUrl, Some url) \<Rightarrow> code \<in> set CLEARED_ON_TRUSTED_PARENT \<and> starts_with parentUrl url
     | _ \<Rightarrow> False)"

definition is_recorded_failure :: "string option \<Rightarrow> status_entry \<Rightarrow> bool" where
  "is_recorded_failure trusted e =
    (case st_code e of
       None \<Rightarrow> False
     | Some code \<Rightarrow> \<not> (code \<in> set NON_FAILURE_CODES \<or> isBindingCode code)
                   \<and> \<not> cleared_by_parent trusted e code)"

definition ingredient_failures ::
  "(string \<times> string) list \<Rightarrow> string \<Rightarrow> ingredient option \<Rightarrow> status_entry list res"
where
  "ingredient_failures live holderLabel g =
    bindR (derefR TypeErr g)
      (\<lambda>ig. Inr (filter (is_recorded_failure (trusted_parent_url live holderLabel ig))
                        (non_null (recorded_entries ig))))"

definition findUnverifiedRecordedFailures :: "manifest_store \<Rightarrow> status_entry list res" where
  "findUnverifiedRecordedFailures store =
    (let live = liveTrustedUrls store in
     bindR (mapR (\<lambda>(k, m). bindR (mapR (ingredient_failures live k) (mf_ingredients m))
                                 (\<lambda>xss. Inr (concat xss))) (ms_manifests store))
       (\<lambda>xsss. Inr (concat xsss)))"

section \<open>Facts\<close>

lemma mapR_concat_Nil_iff:
  "(\<exists>xss. mapR f xs = Inr xss \<and> concat xss = []) \<longleftrightarrow> (\<forall>x \<in> set xs. f x = Inr [])"
  by (induction xs) auto

text \<open>No ingredient records an uncontradicted failure.\<close>

definition no_recorded_failure :: "manifest_store \<Rightarrow> bool" where
  "no_recorded_failure store \<longleftrightarrow>
    (\<forall>(k, m) \<in> set (ms_manifests store). \<forall>g \<in> set (mf_ingredients m). \<exists>ig. g = Some ig
       \<and> (\<forall>e. Some e \<in> set (recorded_entries ig)
             \<longrightarrow> \<not> is_recorded_failure (trusted_parent_url (liveTrustedUrls store) k ig) e))"

lemma ingredient_failures_Nil_iff:
  "ingredient_failures live k g = Inr [] \<longleftrightarrow>
     (\<exists>ig. g = Some ig \<and> (\<forall>e. Some e \<in> set (recorded_entries ig)
             \<longrightarrow> \<not> is_recorded_failure (trusted_parent_url live k ig) e))"
  by (auto simp: ingredient_failures_def filter_empty_conv)

lemma findUnverifiedRecordedFailures_Nil_iff:
  "findUnverifiedRecordedFailures store = Inr [] \<longleftrightarrow> no_recorded_failure store"
proof -
  let ?f = "\<lambda>km. bindR (mapR (ingredient_failures (liveTrustedUrls store) (fst km)) (mf_ingredients (snd km)))
                    (\<lambda>xss. Inr (concat xss))"
  have "findUnverifiedRecordedFailures store = Inr [] \<longleftrightarrow>
      (\<exists>xsss. mapR ?f (ms_manifests store) = Inr xsss \<and> concat xsss = [])"
    by (simp add: findUnverifiedRecordedFailures_def Let_def case_prod_unfold)
  also have "\<dots> \<longleftrightarrow> (\<forall>km \<in> set (ms_manifests store). ?f km = Inr [])"
    by (rule mapR_concat_Nil_iff)
  also have "\<dots> \<longleftrightarrow> (\<forall>km \<in> set (ms_manifests store). \<forall>g \<in> set (mf_ingredients (snd km)).
      ingredient_failures (liveTrustedUrls store) (fst km) g = Inr [])"
    by (simp flip: mapR_concat_Nil_iff)
  finally show ?thesis
    by (simp add: no_recorded_failure_def ingredient_failures_Nil_iff case_prod_unfold)
qed

text \<open>The clearing is scoped: an entry with another code, or about another manifest, stays.\<close>

lemma cleared_only_trust_codes:
  "cleared_by_parent t e c \<Longrightarrow> c = ''signingCredential.untrusted'' \<or> c = ''signingCredential.expired''"
  by (auto simp: cleared_by_parent_def CLEARED_ON_TRUSTED_PARENT_def split: option.splits)

text \<open>The recorded results clear an upload exactly when every ingredient entry of every manifest is
  present and records no failure; a failure is set aside only as a trust or expiry finding about
  the ingredient's own manifest, whose certificate the live validation trusted.\<close>

lemma recorded_failures_exact:
  "(findUnverifiedRecordedFailures store = Inr []) = no_recorded_failure store
   \<and> {c. \<exists>t e. cleared_by_parent t e c}
       \<subseteq> {''signingCredential.untrusted'', ''signingCredential.expired''}"
  using cleared_only_trust_codes by (auto simp: findUnverifiedRecordedFailures_Nil_iff)

end
