(* ===== verification/TrustIssuers.thy ===== *)
theory TrustIssuers
  imports Manifest
begin

text \<open>
  The curated trust list, \<open>trust-core/src/trust-list/trusted-issuers.ts\<close>.
\<close>

datatype cn_pin = Pin string | Pin_list "string list"

record trusted_issuer =
  ti_id :: string
  ti_displayName :: string
  ti_issuerMatch :: string
  ti_commonNameMatch :: "cn_pin option"
  ti_rootCommonName :: string

definition TRUSTED_ISSUERS :: "trusted_issuer list" where
  "TRUSTED_ISSUERS =
    [\<lparr>ti_id = ''realreel'', ti_displayName = ''RealReel'', ti_issuerMatch = ''Whole Earth Labs LLC'',
      ti_commonNameMatch = None, ti_rootCommonName = ''RealReel C2PA Root CA''\<rparr>,
     \<lparr>ti_id = ''pixel'', ti_displayName = ''Pixel'', ti_issuerMatch = ''Google LLC'',
      ti_commonNameMatch = Some (Pin ''Pixel Camera''), ti_rootCommonName = ''Google C2PA Root CA G3''\<rparr>,
     \<lparr>ti_id = ''proofmode'', ti_displayName = ''ProofMode'', ti_issuerMatch = ''Proofmode Reality Systems LLC'',
      ti_commonNameMatch = Some (Pin_list [''Proofmode for iOS'', ''Proofmode for Android'']),
      ti_rootCommonName = ''Trufo C2PA Root CA (2025, ECC P384)''\<rparr>]"

fun pin_admits :: "cn_pin \<Rightarrow> string \<Rightarrow> bool" where
  "pin_admits (Pin p) cn = (cn = p)"
| "pin_admits (Pin_list ps) cn = (cn \<in> set ps)"

definition matchesCommonName :: "trusted_issuer \<Rightarrow> string option \<Rightarrow> bool" where
  "matchesCommonName entry commonName =
    (case ti_commonNameMatch entry of
       None \<Rightarrow> True
     | Some pin \<Rightarrow> (case commonName of None \<Rightarrow> False | Some cn \<Rightarrow> pin_admits pin cn))"

definition findTrustedIssuer :: "manifest \<Rightarrow> trusted_issuer option" where
  "findTrustedIssuer m =
    (case chain (mf_signature_info m) si_issuer of
       None \<Rightarrow> None
     | Some issuer \<Rightarrow>
         if length issuer = 0 then None
         else List.find (\<lambda>entry. issuer = ti_issuerMatch entry
                                \<and> matchesCommonName entry (chain (mf_signature_info m) si_common_name))
                TRUSTED_ISSUERS)"

section \<open>Facts\<close>

lemma findTrustedIssuer_SomeD:
  assumes "findTrustedIssuer m = Some t"
  shows "t \<in> set TRUSTED_ISSUERS"
    and "chain (mf_signature_info m) si_issuer = Some (ti_issuerMatch t)"
    and "matchesCommonName t (chain (mf_signature_info m) si_common_name)"
  using assms by (auto simp: findTrustedIssuer_def dest!: find_SomeD split: option.splits if_splits)

lemma TRUSTED_ISSUERS_keys:
  "distinct (map ti_id TRUSTED_ISSUERS)" "distinct (map ti_issuerMatch TRUSTED_ISSUERS)"
  by (simp_all add: TRUSTED_ISSUERS_def)

lemma issuerMatch_inj:
  "s \<in> set TRUSTED_ISSUERS \<Longrightarrow> t \<in> set TRUSTED_ISSUERS \<Longrightarrow> ti_issuerMatch s = ti_issuerMatch t \<Longrightarrow> s = t"
  using TRUSTED_ISSUERS_keys(2) by (auto simp: distinct_map inj_on_def)

end
