(* ===== verification/Dispatcher.thy ===== *)
theory Dispatcher
  imports TrustIssuers
begin

text \<open>
  Trust-source dispatch, \<open>verifier/src/trust/types.ts\<close> and \<open>dispatcher.ts\<close>: a signature identity
  (issuer, common name) is resolved to a loaded source.  The verification profile stays the
  string of the YAML file, so that the default-deny branches of its consumers are branches of
  the model too.
\<close>

record trust_source =
  ts_id :: string
  ts_name :: string
  ts_root_cert :: string
  ts_profile :: string
  ts_revocation :: "string list option"
  ts_rootCertPem :: string

record tsa_root =
  tr_id :: string
  tr_root_cert :: string
  tr_rootCertPem :: string

record trust_config =
  tc_sources :: "trust_source list"
  tc_tsaRoots :: "tsa_root list"
  tc_trustAnchorsBundle :: string
  tc_loadedIds :: "string list"
  tc_ocspHosts :: "string list"

definition identifyTrustSource :: "string \<Rightarrow> string option \<Rightarrow> trust_config \<Rightarrow> string option" where
  "identifyTrustSource signatureIssuer signatureCommonName cfg =
    (if length signatureIssuer = 0 then None
     else map_option ti_id
       (List.find (\<lambda>entry. ti_id entry \<in> set (tc_loadedIds cfg)
                         \<and> signatureIssuer = ti_issuerMatch entry
                         \<and> matchesCommonName entry signatureCommonName) TRUSTED_ISSUERS))"

record resolved_trust_source =
  rt_id :: string
  rt_name :: string
  rt_profile :: string
  rt_revocation :: "string list option"

type_synonym trust_source_resolver = "string \<Rightarrow> string option \<Rightarrow> resolved_trust_source option"

definition makeTrustSourceResolver :: "trust_config \<Rightarrow> trust_source_resolver" where
  "makeTrustSourceResolver cfg = (\<lambda>signatureIssuer signatureCommonName.
    (case identifyTrustSource signatureIssuer signatureCommonName cfg of
       None \<Rightarrow> None
     | Some sid \<Rightarrow>
         if sid = [] then None
         else map_option
           (\<lambda>s. \<lparr>rt_id = ts_id s, rt_name = ts_name s, rt_profile = ts_profile s,
                 rt_revocation = ts_revocation s\<rparr>)
           (List.find (\<lambda>s. ts_id s = sid) (tc_sources cfg))))"

section \<open>What a resolver promises its clients\<close>

text \<open>The client gates (Stage-1 source, update-manifest signer, force-wrap) rest on one law: a
  resolved identity is, exactly, the identity of a curated issuer whose id the source has.\<close>

locale trust_resolver =
  fixes resolve :: trust_source_resolver
  assumes resolve_curated:
    "resolve issuer cn = Some s \<Longrightarrow>
       \<exists>t \<in> set TRUSTED_ISSUERS. ti_issuerMatch t = issuer \<and> matchesCommonName t cn \<and> rt_id s = ti_id t"
begin

lemma resolve_issuer_unique:
  assumes "resolve issuer cn = Some s" "resolve issuer cn' = Some s'"
  shows "rt_id s = rt_id s'"
  using resolve_curated[OF assms(1)] resolve_curated[OF assms(2)] issuerMatch_inj by metis

lemma resolve_id_known: "resolve issuer cn = Some s \<Longrightarrow> rt_id s \<in> set (map ti_id TRUSTED_ISSUERS)"
  using resolve_curated by fastforce

lemma unlisted_rejected: "issuer \<notin> set (map ti_issuerMatch TRUSTED_ISSUERS) \<Longrightarrow> resolve issuer cn = None"
  using resolve_curated by (cases "resolve issuer cn") fastforce+

end

lemma identifyTrustSource_SomeD:
  assumes "identifyTrustSource issuer cn cfg = Some sid"
  shows "\<exists>t \<in> set TRUSTED_ISSUERS. ti_id t = sid \<and> sid \<in> set (tc_loadedIds cfg)
           \<and> ti_issuerMatch t = issuer \<and> matchesCommonName t cn"
  using assms by (auto simp: identifyTrustSource_def dest!: find_SomeD split: if_splits)

lemma makeTrustSourceResolver_SomeD:
  assumes "makeTrustSourceResolver cfg issuer cn = Some s"
  shows "identifyTrustSource issuer cn cfg = Some (rt_id s)"
    and "\<exists>src \<in> set (tc_sources cfg). ts_id src = rt_id s \<and> ts_profile src = rt_profile s
           \<and> ts_revocation src = rt_revocation s"
  using assms by (auto simp: makeTrustSourceResolver_def dest!: find_SomeD split: option.splits if_splits)

interpretation loaded: trust_resolver "makeTrustSourceResolver cfg" for cfg
proof unfold_locales
  fix issuer cn s
  assume "makeTrustSourceResolver cfg issuer cn = Some s"
  then have "identifyTrustSource issuer cn cfg = Some (rt_id s)"
    by (rule makeTrustSourceResolver_SomeD)
  from identifyTrustSource_SomeD[OF this]
  show "\<exists>t \<in> set TRUSTED_ISSUERS. ti_issuerMatch t = issuer \<and> matchesCommonName t cn \<and> rt_id s = ti_id t"
    by metis
qed

lemma find_agrees_when_unique:
  assumes "\<And>x y. x \<in> set xs \<Longrightarrow> y \<in> set xs \<Longrightarrow> P x \<Longrightarrow> P y \<Longrightarrow> x = y"
  shows "List.find (\<lambda>x. Q x \<and> P x) xs = (case List.find P xs of None \<Rightarrow> None | Some x \<Rightarrow> if Q x then Some x else None)"
  using assms
proof (induction xs)
  case Nil
  then show ?case by simp
next
  case (Cons a xs)
  show ?case
  proof (cases "P a")
    case True
    with Cons.prems have "\<forall>x \<in> set xs. P x \<longrightarrow> x = a" by simp
    then have "\<not> Q a \<longrightarrow> List.find (\<lambda>x. Q x \<and> P x) xs = None"
      by (induction xs) auto
    with True show ?thesis by simp
  next
    case False
    with Cons show ?thesis by simp
  qed
qed

text \<open>Client gate and server dispatcher agree: the server resolves exactly the issuers the client
  admits, restricted to the sources it has loaded.\<close>

lemma identify_agrees:
  assumes "mf_signature_info m = Some si" "si_issuer si = Some issuer"
  shows "identifyTrustSource issuer (si_common_name si) cfg =
     (case findTrustedIssuer m of
        None \<Rightarrow> None
      | Some t \<Rightarrow> if ti_id t \<in> set (tc_loadedIds cfg) then Some (ti_id t) else None)"
proof -
  let ?P = "\<lambda>entry. issuer = ti_issuerMatch entry \<and> matchesCommonName entry (si_common_name si)"
  have "List.find (\<lambda>x. ti_id x \<in> set (tc_loadedIds cfg) \<and> ?P x) TRUSTED_ISSUERS =
      (case List.find ?P TRUSTED_ISSUERS of None \<Rightarrow> None
       | Some x \<Rightarrow> if ti_id x \<in> set (tc_loadedIds cfg) then Some x else None)"
    by (rule find_agrees_when_unique) (metis issuerMatch_inj)
  then show ?thesis
    using assms by (auto simp: identifyTrustSource_def findTrustedIssuer_def split: option.splits)
qed

text \<open>C14. The client gate and the server dispatcher agree: over the signature identity of a manifest the
  server resolves exactly the issuer the client admits, if that source is loaded, and a resolved
  source carries the profile of a loaded source of that id.\<close>

theorem client_and_server_agree:
  assumes "mf_signature_info m = Some si" "si_issuer si = Some issuer"
  shows "identifyTrustSource issuer (si_common_name si) cfg =
     (case findTrustedIssuer m of
        None \<Rightarrow> None
      | Some t \<Rightarrow> if ti_id t \<in> set (tc_loadedIds cfg) then Some (ti_id t) else None)
   \<and> (makeTrustSourceResolver cfg issuer (si_common_name si) = Some s
        \<longrightarrow> map_option ti_id (findTrustedIssuer m) = Some (rt_id s)
          \<and> (rt_id s, rt_profile s) \<in> (\<lambda>src. (ts_id src, ts_profile src)) ` set (tc_sources cfg))"
  using identify_agrees[OF assms, of cfg] makeTrustSourceResolver_SomeD[of cfg issuer "si_common_name si" s]
  by (auto split: option.splits if_splits) (metis (no_types, lifting) image_iff)+

theorem client_and_server_agree_witness:
  "identifyTrustSource ''Google LLC'' (Some ''Pixel Camera'')
     \<lparr>tc_sources = [], tc_tsaRoots = [], tc_trustAnchorsBundle = [], tc_loadedIds = [''pixel''], tc_ocspHosts = []\<rparr>
   = Some ''pixel''"
proof -
  let ?si = "blank_info\<lparr>si_issuer := Some ''Google LLC'', si_common_name := Some ''Pixel Camera''\<rparr>"
  let ?m = "blank_manifest\<lparr>mf_signature_info := Some ?si\<rparr>"
  have "map_option ti_id (findTrustedIssuer ?m) = Some ''pixel''" by code_simp
  then show ?thesis
    using client_and_server_agree[of ?m ?si "''Google LLC''"
        "\<lparr>tc_sources = [], tc_tsaRoots = [], tc_trustAnchorsBundle = [], tc_loadedIds = [''pixel''], tc_ocspHosts = []\<rparr>"]
    by (auto simp: blank_defs)
qed

end
