(* ===== verification/ProfileGates.thy ===== *)
theory ProfileGates
  imports Actions RecordedResults Dispatcher
begin

text \<open>
  The gates of \<open>verifier/src/profiles/_shared.ts\<close>: the strict validation-status classifier, and the
  wrappers that turn the policies into thrown \<open>VerifyError\<close>s.  An entry of a status array that
  is null, or has no string code, is dereferenced unguarded by \<open>s.code.startsWith\<close>.
\<close>

definition OCSP_CODE_PREFIX :: string where
  "OCSP_CODE_PREFIX = ''signingCredential.ocsp.''"
definition OCSP_NOT_REVOKED :: string where
  "OCSP_NOT_REVOKED = ''signingCredential.ocsp.notRevoked''"
definition OCSP_FETCHED_RESPONSE_URL :: string where
  "OCSP_FETCHED_RESPONSE_URL = ''OCSP_RESPONSE''"
definition JUMBF_MANIFEST_PREFIX :: string where
  "JUMBF_MANIFEST_PREFIX = ''self#jumbf=/c2pa/''"

definition isFetchedNotRevoked :: "status_entry \<Rightarrow> bool" where
  "isFetchedNotRevoked e =
    (st_code e = Some OCSP_NOT_REVOKED \<and> st_url e = Some OCSP_FETCHED_RESPONSE_URL)"

text \<open>\<open>status.find((s) => s.code.startsWith(prefix) && extra(s))\<close>.\<close>

fun find_status :: "string \<Rightarrow> (status_entry \<Rightarrow> bool) \<Rightarrow> status_entry option list \<Rightarrow> status_entry option res"
where
  "find_status pre extra [] = Inr None"
| "find_status pre extra (None # es) = Inl TypeErr"
| "find_status pre extra (Some e # es) =
     (case st_code e of
        None \<Rightarrow> Inl TypeErr
      | Some c \<Rightarrow> if starts_with pre c \<and> extra e then Inr (Some e) else find_status pre extra es)"

definition truthy_str :: "string option \<Rightarrow> string option" where
  "truthy_str s = (case s of Some (c # cs) \<Rightarrow> Some (c # cs) | _ \<Rightarrow> None)"

definition status_detail :: "status_entry \<Rightarrow> string" where
  "status_detail e = null_or (st_explanation e) (null_or (st_code e) [])"

definition about_other_manifest :: "string option \<Rightarrow> status_entry \<Rightarrow> bool" where
  "about_other_manifest activeManifestLabel s =
    (case (activeManifestLabel, st_url s) of
       (Some l, Some url) \<Rightarrow> starts_with JUMBF_MANIFEST_PREFIX url
                          \<and> \<not> starts_with (JUMBF_MANIFEST_PREFIX @ l @ ''/'') url
     | _ \<Rightarrow> False)"

definition certExpired :: "string option \<Rightarrow> status_entry \<Rightarrow> exn" where
  "certExpired activeManifestLabel s =
    verify_err CERT_EXPIRED
      (if about_other_manifest activeManifestLabel s
       then CAPTURE_CERT_EXPIRED_DETAIL_PREFIX @ status_detail s else status_detail s)"

text \<open>What is thrown for the first entry, no OCSP code being anywhere.\<close>

definition classify_first ::
  "status_entry option list \<Rightarrow> string option \<Rightarrow> status_entry \<Rightarrow> string \<Rightarrow> unit res"
where
  "classify_first status activeManifestLabel v code =
    (let detail = status_detail v in
     if starts_with ''signingCredential.expired'' code then Inl (certExpired activeManifestLabel v)
     else if starts_with ''signingCredential.untrusted'' code then
       bindR (find_status ''signingCredential.expired'' (\<lambda>s. st_url s = st_url v) status)
         (\<lambda>expired. case expired of
            Some s \<Rightarrow> Inl (certExpired activeManifestLabel s)
          | None \<Rightarrow> Inl (verify_err UNTRUSTED_ISSUER detail))
     else if starts_with ''claimSignature.'' code \<or> includes_str ''.mismatch'' code
             \<or> includes_str ''.invalid'' code
     then Inl (verify_err SIGNATURE_INVALID detail)
     else Inl (verify_err MANIFEST_MALFORMED detail))"

definition classifyStrictValidationStatus ::
  "status_entry option list \<Rightarrow> string option \<Rightarrow> unit res"
where
  "classifyStrictValidationStatus status activeManifestLabel =
    (case status of
       [] \<Rightarrow> Inr ()
     | None # _ \<Rightarrow> Inr ()
     | Some v # _ \<Rightarrow>
         bindR (find_status OCSP_CODE_PREFIX (\<lambda>_. True) status)
           (\<lambda>ocsp. case ocsp of
              Some o' \<Rightarrow>
                (let c = null_or (st_code o') [] in
                 Inl (verify_err_cat UNTRUSTED_ISSUER
                        (case truthy_str (st_explanation o') of Some ex \<Rightarrow> c @ '': '' @ ex | None \<Rightarrow> c)
                        ''ocsp''))
            | None \<Rightarrow> classify_first status activeManifestLabel v (null_or (st_code v) [])))"

definition enforceActionsAllowlist :: "manifest \<Rightarrow> string list \<Rightarrow> string \<Rightarrow> unit res" where
  "enforceActionsAllowlist m allowlist manifestLabel =
    (case findDisallowedActions m allowlist of
       None \<Rightarrow> Inr ()
     | Some disallowed \<Rightarrow> Inl (verify_err SIGNATURE_INVALID
         (manifestLabel @ '' contains disallowed c2pa action(s): '' @ join_with '', '' disallowed)))"

fun is_dangling :: "parent_failure \<Rightarrow> bool" where
  "is_dangling (Dangling_parent_ref _) = True"
| "is_dangling _ = False"

definition enforceStage2Parent :: "manifest_store \<Rightarrow> manifest \<Rightarrow> manifest res" where
  "enforceStage2Parent store active =
    bindR (resolveParentOfIngredient store active)
      (\<lambda>r. case r of
         Inr ok \<Rightarrow> Inr (pr_parent ok)
       | Inl f \<Rightarrow>
           if is_dangling f
           then Inl (verify_err MANIFEST_MALFORMED
             (''RealReel manifest'' @ [CHR 0x27] @ ''s parent ingredient references a missing manifest''))
           else Inl (verify_err SIGNATURE_INVALID (''Stage 2 '' @ parent_failure_detail f)))"

definition enforceFreshCaptureStage1 :: "manifest \<Rightarrow> unit res" where
  "enforceFreshCaptureStage1 m =
    bindR (requireFreshCapture m)
      (\<lambda>v. guardR (v = None) (verify_err SIGNATURE_INVALID
              ''Stage 1 must be a fresh capture with no ingredients''))"

definition enforceParentTrustSource ::
  "manifest \<Rightarrow> trust_source_resolver \<Rightarrow> resolved_trust_source res"
where
  "enforceParentTrustSource capture resolve =
    (case chain (mf_signature_info capture) si_issuer of
       None \<Rightarrow> Inl (verify_err MANIFEST_MALFORMED ''stage 1 signature_info.issuer missing'')
     | Some issuer \<Rightarrow>
         if length issuer = 0
         then Inl (verify_err MANIFEST_MALFORMED ''stage 1 signature_info.issuer missing'')
         else (case resolve issuer (chain (mf_signature_info capture) si_common_name) of
            None \<Rightarrow> Inl (verify_err UNTRUSTED_ISSUER
              (''stage 1 issuer '' @ quote1 issuer @ '' does not match any configured capture trust source''))
          | Some source \<Rightarrow>
              if rt_profile source \<noteq> ''realreel'' \<and> rt_profile source \<noteq> ''wrap_parent_only''
              then Inl (verify_err UNTRUSTED_ISSUER
                (''stage 1 trust source '' @ quote1 (rt_id source) @ '' (profile ''
                 @ quote1 (rt_profile source) @ '') is not a capture-capable source''))
              else Inr source))"

fun capture_uris :: "string \<Rightarrow> string \<Rightarrow> ingredient option list \<Rightarrow> string list res" where
  "capture_uris l holderLabel [] = Inr []"
| "capture_uris l holderLabel (None # igs) = Inl TypeErr"
| "capture_uris l holderLabel (Some ig # igs) =
     bindR (capture_uris l holderLabel igs) (\<lambda>rest.
       Inr (if ig_active_manifest ig \<noteq> Some l then rest
            else (case getIngredientAssertionUri (Some holderLabel) (ig_label ig) of
                    None \<Rightarrow> rest | Some uri \<Rightarrow> uri # rest)))"

definition captureIngredientAssertionUris :: "manifest_store \<Rightarrow> manifest \<Rightarrow> string list res" where
  "captureIngredientAssertionUris store capture =
    (case mf_label capture of
       None \<Rightarrow> Inr []
     | Some l \<Rightarrow> bindR (mapR (\<lambda>(k, m). capture_uris l k (mf_ingredients m)) (ms_manifests store))
                   (\<lambda>xss. Inr (concat xss)))"

text \<open>The OCSP codes of one bucket that the failure message lists; a null entry throws.\<close>

fun bucket_codes_seen :: "string \<Rightarrow> status_entry option list \<Rightarrow> string list res" where
  "bucket_codes_seen bucket [] = Inr []"
| "bucket_codes_seen bucket (None # es) = Inl TypeErr"
| "bucket_codes_seen bucket (Some e # es) =
     bindR (bucket_codes_seen bucket es) (\<lambda>rest.
       Inr (case st_code e of
              None \<Rightarrow> rest
            | Some c \<Rightarrow>
                if starts_with OCSP_CODE_PREFIX c
                then (bucket @ '':'' @ c @
                      (if c = OCSP_NOT_REVOKED \<and> \<not> isFetchedNotRevoked e then '' (not fetched)'' else []))
                     # rest
                else rest))"

text \<open>\<open>(buckets.success ?? []).some(isFetchedNotRevoked)\<close>.\<close>

fun some_fetched :: "status_entry option list \<Rightarrow> bool res" where
  "some_fetched [] = Inr False"
| "some_fetched (None # es) = Inl TypeErr"
| "some_fetched (Some e # es) = (if isFetchedNotRevoked e then Inr True else some_fetched es)"

text \<open>The loop over the capture's deltas: \<open>Inr None\<close> once an answer is found.\<close>

fun revocation_loop :: "string list \<Rightarrow> buckets option list \<Rightarrow> string list option res" where
  "revocation_loop seen [] = Inr (Some seen)"
| "revocation_loop seen (b # bs) =
     (let bk = null_or b \<lparr>bk_success = [], bk_informational = [], bk_failure = []\<rparr> in
      bindR (some_fetched (bk_success bk)) (\<lambda>ok.
      if ok then Inr None
      else bindR (bucket_codes_seen ''success'' (bk_success bk)) (\<lambda>s.
           bindR (bucket_codes_seen ''informational'' (bk_informational bk)) (\<lambda>i.
           bindR (bucket_codes_seen ''failure'' (bk_failure bk)) (\<lambda>f.
           revocation_loop (seen @ s @ i @ f) bs)))))"

definition capture_deltas :: "manifest_store \<Rightarrow> string list \<Rightarrow> buckets option list res" where
  "capture_deltas store uris =
    bindR (mapR (derefR TypeErr)
             (case ms_validation_results store of None \<Rightarrow> [] | Some vr \<Rightarrow> vr_ingredientDeltas vr))
      (\<lambda>ds. Inr (map dl_deltas (filter (\<lambda>d. case dl_uri d of None \<Rightarrow> False | Some u \<Rightarrow> u \<in> set uris) ds)))"

definition enforceParentRevocationStatus ::
  "manifest_store \<Rightarrow> manifest \<Rightarrow> resolved_trust_source \<Rightarrow> unit res"
where
  "enforceParentRevocationStatus store capture source =
    (if rt_revocation source = None then Inr ()
     else bindR (captureIngredientAssertionUris store capture) (\<lambda>uris.
          bindR (capture_deltas store uris) (\<lambda>deltas.
          bindR (revocation_loop [] deltas) (\<lambda>res.
          (case res of
             None \<Rightarrow> Inr ()
           | Some seen \<Rightarrow> Inl (verify_err_cat VERIFIER_UNAVAILABLE
               (''stage 1 revocation status not confirmed by the '' @ quote1 (rt_id source)
                @ '' OCSP responder (OCSP codes seen: ''
                @ (if seen \<noteq> [] then join_with '', '' seen else ''none'') @ '')'') ''ocsp''))))))"

fun violation_reason :: "recorded_binding_violation \<Rightarrow> string" where
  "violation_reason (No_recorded_results _) = ''no_recorded_results''"
| "violation_reason (Match_missing _) = ''match_missing''"
| "violation_reason (Binding_failure _ _) = ''binding_failure''"

definition enforceParentBinding :: "manifest_store \<Rightarrow> manifest \<Rightarrow> unit res" where
  "enforceParentBinding store capture =
    (case mf_label capture of
       None \<Rightarrow> Inl (verify_err MANIFEST_MALFORMED
         ''capture manifest has no label; cannot locate its recorded binding verdict'')
     | Some l \<Rightarrow>
         if length l = 0
         then Inl (verify_err MANIFEST_MALFORMED
           ''capture manifest has no label; cannot locate its recorded binding verdict'')
         else bindR (findRecordedBindingViolation store l)
           (\<lambda>viol. case viol of
              None \<Rightarrow> Inr ()
            | Some v \<Rightarrow> Inl (verify_err PARENT_BINDING_FAILED
                (''Stage 1 hard binding not verified clean at sign time ('' @ violation_reason v
                 @ ''): '' @ binding_violation_detail v))))"

definition enforceRecordedIngredientResults :: "manifest_store \<Rightarrow> unit res" where
  "enforceRecordedIngredientResults store =
    bindR (findUnverifiedRecordedFailures store)
      (\<lambda>fs. classifyStrictValidationStatus
              (map (\<lambda>e. Some \<lparr>st_code = st_code e, st_explanation = None, st_url = st_url e\<rparr>) fs)
              (ms_active_manifest store))"

definition UPDATE_MANIFEST_ALLOWED_ACTIONS :: "string list" where
  "UPDATE_MANIFEST_ALLOWED_ACTIONS = [''c2pa.opened'']"

definition MAX_UPDATE_MANIFEST_DEPTH :: nat where
  "MAX_UPDATE_MANIFEST_DEPTH = 4"

definition enforceUpdateManifestSigner :: "manifest \<Rightarrow> trust_source_resolver \<Rightarrow> unit res" where
  "enforceUpdateManifestSigner m resolve =
    (let source = (case chain (mf_signature_info m) si_issuer of
                     None \<Rightarrow> None
                   | Some issuer \<Rightarrow> resolve issuer (chain (mf_signature_info m) si_common_name)) in
     guardR (map_option rt_profile source = Some ''realreel'')
       (verify_err UNTRUSTED_ISSUER
          ''interposed timestamp Update Manifest is not signed under a RealReel trust source''))"

definition enforceUpdateManifestParent :: "manifest_store \<Rightarrow> manifest \<Rightarrow> manifest res" where
  "enforceUpdateManifestParent store m =
    bindR (resolveParentOfIngredient store m)
      (\<lambda>r. case r of
         Inr ok \<Rightarrow> Inr (pr_parent ok)
       | Inl f \<Rightarrow>
           if is_dangling f
           then Inl (verify_err MANIFEST_MALFORMED
             (''interposed timestamp Update Manifest'' @ [CHR 0x27]
              @ ''s parent ingredient references a missing manifest''))
           else Inl (verify_err SIGNATURE_INVALID
             (''interposed timestamp Update Manifest '' @ parent_failure_detail f)))"

definition enforceUpdateManifestActions :: "manifest \<Rightarrow> unit res" where
  "enforceUpdateManifestActions m =
    (case findDisallowedActions m UPDATE_MANIFEST_ALLOWED_ACTIONS of
       None \<Rightarrow> Inr ()
     | Some disallowed \<Rightarrow> Inl (verify_err SIGNATURE_INVALID
         (''interposed timestamp Update Manifest contains disallowed action(s): ''
          @ join_with '', '' disallowed)))"

text \<open>The \<open>while\<close> loop; \<open>depth\<close> is the counter before \<open>++depth\<close>.\<close>

function update_manifest_walk ::
  "manifest_store \<Rightarrow> trust_source_resolver \<Rightarrow> manifest \<Rightarrow> nat \<Rightarrow> manifest res"
where
  "update_manifest_walk store resolve current depth =
    (if isTimestampUpdateManifest current then
       (if Suc depth > MAX_UPDATE_MANIFEST_DEPTH
        then Inl (verify_err SIGNATURE_INVALID
          (''interposed timestamp Update Manifest chain exceeds depth '' @ show_nat MAX_UPDATE_MANIFEST_DEPTH))
        else bindR (enforceUpdateManifestActions current) (\<lambda>_.
             bindR (enforceUpdateManifestSigner current resolve) (\<lambda>_.
             bindR (enforceUpdateManifestParent store current) (\<lambda>parent.
             update_manifest_walk store resolve parent (Suc depth)))))
     else Inr current)"
  by pat_completeness auto
termination
  by (relation "measure (\<lambda>(s, r, c, d). Suc MAX_UPDATE_MANIFEST_DEPTH - d)") auto

declare update_manifest_walk.simps [simp del]

definition resolveCaptureThroughUpdateManifests ::
  "manifest_store \<Rightarrow> manifest \<Rightarrow> trust_source_resolver \<Rightarrow> manifest res"
where
  "resolveCaptureThroughUpdateManifests store immediateParent resolve =
    update_manifest_walk store resolve immediateParent 0"

section \<open>Facts\<close>

text \<open>The classifier accepts exactly the arrays that are empty or start with a null entry.\<close>

lemma find_status_some_code:
  "find_status pre extra es = Inr (Some e) \<Longrightarrow> \<exists>c. st_code e = Some c \<and> starts_with pre c \<and> Some e \<in> set es"
  by (induction pre extra es rule: find_status.induct) (auto split: option.splits if_splits)

lemma find_status_head_code:
  "find_status pre extra (Some v # es) = Inr None \<Longrightarrow> \<exists>c. st_code v = Some c"
  by (auto split: option.splits)

lemma classify_first_throws: "classify_first status l v code \<noteq> Inr u"
  by (auto simp: classify_first_def Let_def split: option.splits)

lemma classifyStrictValidationStatus_Inr_iff [result_simps]:
  "classifyStrictValidationStatus status l = Inr u \<longleftrightarrow> status = [] \<or> (\<exists>es. status = None # es)"
  by (cases status; cases "hd status")
     (auto simp: classifyStrictValidationStatus_def classify_first_throws Let_def simp del: find_status.simps
        split: option.splits)

lemma classify_map_Some [simp]:
  "classifyStrictValidationStatus (map (\<lambda>e. Some (f e)) fs) l = Inr u \<longleftrightarrow> fs = []"
  by (cases fs) (auto simp: classifyStrictValidationStatus_Inr_iff)

lemma enforceActionsAllowlist_Inr_iff [result_simps]:
  "enforceActionsAllowlist m al lab = Inr u \<longleftrightarrow> set (extractManifestActions m) \<subseteq> set al"
  by (auto simp: enforceActionsAllowlist_def simp flip: findDisallowedActions_None_iff split: option.splits)

lemma enforceStage2Parent_Inr_iff [result_simps]:
  "enforceStage2Parent store active = Inr p \<longleftrightarrow> (\<exists>l. sole_parent store active l p)"
proof -
  have "enforceStage2Parent store active = Inr p \<longleftrightarrow>
      (\<exists>r. resolveParentOfIngredient store active = Inr (Inr r) \<and> pr_parent r = p)"
    by (auto simp: enforceStage2Parent_def split: sum.splits if_splits) (metis sum.exhaust)
  then show ?thesis
    by (auto simp: resolveParentOfIngredient_Inr_iff) (metis parent_resolution.select_convs)
qed

lemma enforceUpdateManifestParent_Inr_iff [result_simps]:
  "enforceUpdateManifestParent store m = Inr p \<longleftrightarrow> (\<exists>l. sole_parent store m l p)"
proof -
  have "enforceUpdateManifestParent store m = Inr p \<longleftrightarrow>
      (\<exists>r. resolveParentOfIngredient store m = Inr (Inr r) \<and> pr_parent r = p)"
    by (auto simp: enforceUpdateManifestParent_def split: sum.splits if_splits) (metis sum.exhaust)
  then show ?thesis
    by (auto simp: resolveParentOfIngredient_Inr_iff) (metis parent_resolution.select_convs)
qed

lemma enforceFreshCaptureStage1_Inr_iff [result_simps]:
  "enforceFreshCaptureStage1 m = Inr u \<longleftrightarrow> mf_ingredients m = []"
  by (simp add: enforceFreshCaptureStage1_def)

text \<open>The source resolved for a manifest's signature identity.\<close>

definition source_of :: "trust_source_resolver \<Rightarrow> manifest \<Rightarrow> resolved_trust_source option" where
  "source_of resolve m =
    (case chain (mf_signature_info m) si_issuer of
       None \<Rightarrow> None
     | Some issuer \<Rightarrow> resolve issuer (chain (mf_signature_info m) si_common_name))"

lemma enforceParentTrustSource_Inr [result_simps]:
  "enforceParentTrustSource m resolve = Inr s \<longleftrightarrow>
     source_of resolve m = Some s \<and> rt_profile s \<in> {''realreel'', ''wrap_parent_only''}
     \<and> (\<exists>iss. chain (mf_signature_info m) si_issuer = Some iss \<and> iss \<noteq> [])"
  by (auto simp: enforceParentTrustSource_def source_of_def split: option.splits if_splits)

lemma enforceUpdateManifestSigner_Inr_iff [result_simps]:
  "enforceUpdateManifestSigner m resolve = Inr u \<longleftrightarrow>
     (\<exists>s. source_of resolve m = Some s \<and> rt_profile s = ''realreel'')"
  by (auto simp: enforceUpdateManifestSigner_def source_of_def Let_def split: option.splits)

lemma enforceUpdateManifestActions_Inr_iff [result_simps]:
  "enforceUpdateManifestActions m = Inr u \<longleftrightarrow>
     set (extractManifestActions m) \<subseteq> set UPDATE_MANIFEST_ALLOWED_ACTIONS"
  by (auto simp: enforceUpdateManifestActions_def simp flip: findDisallowedActions_None_iff
        split: option.splits)

lemma enforceParentBinding_Inr [result_simps]:
  "enforceParentBinding store capture = Inr u \<Longrightarrow>
     \<exists>l. mf_label capture = Some l \<and> l \<noteq> [] \<and> capture_bound store l"
  by (auto simp: enforceParentBinding_def intro: findRecordedBindingViolation_Inr_None
        split: option.splits if_splits)

lemma enforceRecordedIngredientResults_Inr_iff [result_simps]:
  "enforceRecordedIngredientResults store = Inr u \<longleftrightarrow> no_recorded_failure store"
  by (auto simp: enforceRecordedIngredientResults_def simp flip: findUnverifiedRecordedFailures_Nil_iff)

text \<open>The walk past update manifests as a relation: every manifest walked past is an update manifest
  with no action but \<open>c2pa.opened\<close>, signed under a RealReel source, with a sole parent.\<close>

inductive update_chain ::
  "manifest_store \<Rightarrow> trust_source_resolver \<Rightarrow> nat \<Rightarrow> manifest \<Rightarrow> manifest \<Rightarrow> bool"
for store resolve where
  stop: "\<not> isTimestampUpdateManifest m \<Longrightarrow> update_chain store resolve 0 m m"
| past: "\<lbrakk>isTimestampUpdateManifest m;
      set (extractManifestActions m) \<subseteq> set UPDATE_MANIFEST_ALLOWED_ACTIONS;
      source_of resolve m = Some s; rt_profile s = ''realreel'';
      sole_parent store m l p; update_chain store resolve n p c\<rbrakk>
    \<Longrightarrow> update_chain store resolve (Suc n) m c"

lemma update_chain_end: "update_chain store resolve n m c \<Longrightarrow> \<not> isTimestampUpdateManifest c"
  by (induction rule: update_chain.induct)

lemma update_manifest_walk_Inr_iff:
  "d \<le> MAX_UPDATE_MANIFEST_DEPTH \<Longrightarrow>
   update_manifest_walk store resolve m d = Inr c \<longleftrightarrow>
     (\<exists>n \<le> MAX_UPDATE_MANIFEST_DEPTH - d. update_chain store resolve n m c)"
proof (induction store resolve m d rule: update_manifest_walk.induct)
  case (1 store resolve m d)
  show ?case
  proof (cases "isTimestampUpdateManifest m")
    case False
    then have "update_chain store resolve n m c \<longleftrightarrow> n = 0 \<and> c = m" for n
      by (subst update_chain.simps) (use False in auto)
    with False show ?thesis by (auto simp: update_manifest_walk.simps[of _ _ m])
  next
    case um: True
    then have inv: "update_chain store resolve n m c \<longleftrightarrow> (\<exists>k s l p. n = Suc k
        \<and> set (extractManifestActions m) \<subseteq> set UPDATE_MANIFEST_ALLOWED_ACTIONS
        \<and> source_of resolve m = Some s \<and> rt_profile s = ''realreel'' \<and> sole_parent store m l p
        \<and> update_chain store resolve k p c)" for n
      by (subst update_chain.simps) (use um in auto)
    show ?thesis
    proof (cases "Suc d > MAX_UPDATE_MANIFEST_DEPTH")
      case True
      with 1(2) have "MAX_UPDATE_MANIFEST_DEPTH - d = 0" by simp
      with True um show ?thesis
        by (auto simp: update_manifest_walk.simps[of _ _ m] inv)
    next
      case False
      then have ex: "(\<exists>n \<le> MAX_UPDATE_MANIFEST_DEPTH - d. \<exists>k. n = Suc k \<and> P k) \<longleftrightarrow>
          (\<exists>k \<le> MAX_UPDATE_MANIFEST_DEPTH - Suc d. P k)" for P
        by (metis Suc_diff_Suc Suc_le_mono not_less_eq)
      have IH: "update_manifest_walk store resolve p (Suc d) = Inr c \<longleftrightarrow>
          (\<exists>n \<le> MAX_UPDATE_MANIFEST_DEPTH - Suc d. update_chain store resolve n p c)"
        if "enforceUpdateManifestActions m = Inr a" "enforceUpdateManifestSigner m resolve = Inr b"
          "enforceUpdateManifestParent store m = Inr p" for a b p
        using 1(1)[OF um False that] False by simp
      have "update_manifest_walk store resolve m d = Inr c \<longleftrightarrow>
          (\<exists>p. enforceUpdateManifestActions m = Inr () \<and> enforceUpdateManifestSigner m resolve = Inr ()
             \<and> enforceUpdateManifestParent store m = Inr p
             \<and> update_manifest_walk store resolve p (Suc d) = Inr c)"
        using um False by (auto simp: update_manifest_walk.simps[of _ _ m])
      also have "\<dots> \<longleftrightarrow> (\<exists>k \<le> MAX_UPDATE_MANIFEST_DEPTH - Suc d. \<exists>s l p.
          set (extractManifestActions m) \<subseteq> set UPDATE_MANIFEST_ALLOWED_ACTIONS
        \<and> source_of resolve m = Some s \<and> rt_profile s = ''realreel'' \<and> sole_parent store m l p
        \<and> update_chain store resolve k p c)"
        using IH by (auto simp: enforceUpdateManifestActions_Inr_iff enforceUpdateManifestSigner_Inr_iff
            enforceUpdateManifestParent_Inr_iff) blast+
      finally show ?thesis
        unfolding inv by (auto simp flip: ex)
    qed
  qed
qed

lemma resolveCaptureThroughUpdateManifests_Inr_iff [result_simps]:
  "resolveCaptureThroughUpdateManifests store m resolve = Inr c \<longleftrightarrow>
     (\<exists>n \<le> MAX_UPDATE_MANIFEST_DEPTH. update_chain store resolve n m c)"
  by (simp add: resolveCaptureThroughUpdateManifests_def update_manifest_walk_Inr_iff)

section \<open>The revocation answer\<close>

text \<open>\<open>capture_uri store l uri\<close>: an ingredient entry that references the capture is filed under \<open>uri\<close>.\<close>

definition capture_uri :: "manifest_store \<Rightarrow> string \<Rightarrow> string \<Rightarrow> bool" where
  "capture_uri store l uri \<longleftrightarrow>
    (\<exists>k m ig. (k, m) \<in> set (ms_manifests store) \<and> Some ig \<in> set (mf_ingredients m)
       \<and> ig_active_manifest ig = Some l \<and> getIngredientAssertionUri (Some k) (ig_label ig) = Some uri)"

text \<open>The capture's own delta carries a fetched \<open>notRevoked\<close> answer as a success.\<close>

definition fetched_not_revoked :: "manifest_store \<Rightarrow> manifest \<Rightarrow> bool" where
  "fetched_not_revoked store capture \<longleftrightarrow>
    (\<exists>l vr d uri bk e. mf_label capture = Some l \<and> ms_validation_results store = Some vr
       \<and> Some d \<in> set (vr_ingredientDeltas vr) \<and> dl_uri d = Some uri \<and> capture_uri store l uri
       \<and> dl_deltas d = Some bk \<and> Some e \<in> set (bk_success bk) \<and> isFetchedNotRevoked e)"

lemma capture_uris_sound:
  "capture_uris l k igs = Inr us \<Longrightarrow> uri \<in> set us \<Longrightarrow>
     \<exists>ig. Some ig \<in> set igs \<and> ig_active_manifest ig = Some l
       \<and> getIngredientAssertionUri (Some k) (ig_label ig) = Some uri"
proof (induction l k igs arbitrary: us rule: capture_uris.induct)
  case (3 l k ig igs)
  from 3(2) obtain rest where rest: "capture_uris l k igs = Inr rest"
    and us: "us = (if ig_active_manifest ig \<noteq> Some l then rest
            else (case getIngredientAssertionUri (Some k) (ig_label ig) of None \<Rightarrow> rest | Some u \<Rightarrow> u # rest))"
    by auto
  show ?case
  proof (cases "uri \<in> set rest")
    case True
    from 3(1)[OF rest this] show ?thesis by auto
  next
    case False
    with 3(3) have "ig_active_manifest ig = Some l \<and> getIngredientAssertionUri (Some k) (ig_label ig) = Some uri"
      unfolding us by (auto split: if_splits option.splits)
    then show ?thesis by (intro exI[of _ ig]) simp
  qed
qed simp_all

lemma captureIngredientAssertionUris_sound:
  assumes "captureIngredientAssertionUris store capture = Inr us" "uri \<in> set us"
  shows "\<exists>l. mf_label capture = Some l \<and> capture_uri store l uri"
proof (cases "mf_label capture")
  case None
  with assms show ?thesis by (simp add: captureIngredientAssertionUris_def)
next
  case (Some l)
  with assms(1) obtain xss where m: "mapR (\<lambda>(k, m). capture_uris l k (mf_ingredients m)) (ms_manifests store) = Inr xss"
    and "us = concat xss" by (auto simp: captureIngredientAssertionUris_def)
  with assms(2) obtain xs where "xs \<in> set xss" "uri \<in> set xs" by auto
  with mapR_set[OF m] obtain k mf where
    "(k, mf) \<in> set (ms_manifests store)" "capture_uris l k (mf_ingredients mf) = Inr xs" by fastforce
  with capture_uris_sound \<open>uri \<in> set xs\<close> Some show ?thesis
    unfolding capture_uri_def by blast
qed

lemma some_fetched_True: "some_fetched es = Inr True \<Longrightarrow> \<exists>e. Some e \<in> set es \<and> isFetchedNotRevoked e"
  by (induction es rule: some_fetched.induct) (auto split: if_splits)

lemma revocation_loop_None:
  "revocation_loop seen bs = Inr None \<Longrightarrow>
     \<exists>bk e. Some bk \<in> set bs \<and> Some e \<in> set (bk_success bk) \<and> isFetchedNotRevoked e"
proof (induction bs arbitrary: seen)
  case Nil
  then show ?case by simp
next
  case (Cons b bs)
  let ?bk = "null_or b \<lparr>bk_success = [], bk_informational = [], bk_failure = []\<rparr>"
  show ?case
  proof (cases "some_fetched (bk_success ?bk) = Inr True")
    case True
    then obtain e where e: "Some e \<in> set (bk_success ?bk)" "isFetchedNotRevoked e"
      by (blast dest: some_fetched_True)
    then obtain bk where "b = Some bk" by (cases b) auto
    with e show ?thesis by auto
  next
    case False
    with Cons.prems obtain seen' where "revocation_loop seen' bs = Inr None"
      by (auto simp: Let_def simp del: some_fetched.simps split: if_splits)
    from Cons.IH[OF this] show ?thesis by auto
  qed
qed

lemma capture_deltas_sound:
  assumes "capture_deltas store us = Inr bs" "Some bk \<in> set bs"
  shows "\<exists>vr d uri. ms_validation_results store = Some vr \<and> Some d \<in> set (vr_ingredientDeltas vr)
           \<and> dl_uri d = Some uri \<and> uri \<in> set us \<and> dl_deltas d = Some bk"
proof -
  let ?ds = "case ms_validation_results store of None \<Rightarrow> [] | Some vr \<Rightarrow> vr_ingredientDeltas vr"
  from assms obtain ds where ds: "mapR (derefR TypeErr) ?ds = Inr ds"
    and bs: "bs = map dl_deltas (filter (\<lambda>d. case dl_uri d of None \<Rightarrow> False | Some u \<Rightarrow> u \<in> set us) ds)"
    by (auto simp: capture_deltas_def)
  from assms(2) bs obtain d uri where d: "d \<in> set ds" "dl_uri d = Some uri" "uri \<in> set us" "dl_deltas d = Some bk"
    by (auto split: option.splits)
  from mapR_set[OF ds d(1)] have "Some d \<in> set ?ds" by auto
  with d show ?thesis by (cases "ms_validation_results store") auto
qed

lemma enforceParentRevocationStatus_Inr:
  assumes "enforceParentRevocationStatus store capture src = Inr u" "rt_revocation src \<noteq> None"
  shows "fetched_not_revoked store capture"
proof -
  from assms obtain us bs where us: "captureIngredientAssertionUris store capture = Inr us"
    and bs: "capture_deltas store us = Inr bs" and loop: "revocation_loop [] bs = Inr None"
    by (auto simp: enforceParentRevocationStatus_def split: option.splits)
  from revocation_loop_None[OF loop] obtain bk e where
    e: "Some bk \<in> set bs" "Some e \<in> set (bk_success bk)" "isFetchedNotRevoked e" by blast
  from capture_deltas_sound[OF bs e(1)] captureIngredientAssertionUris_sound[OF us] e
  show ?thesis unfolding fetched_not_revoked_def by blast
qed

section \<open>The classifier against its specification\<close>

text \<open>The code promised for a status whose first entry is \<open>v\<close>: an OCSP finding anywhere wins, then the
  first entry decides, an expired finding on the same url overriding an untrusted one.\<close>

definition has_code :: "(string \<Rightarrow> bool) \<Rightarrow> status_entry option \<Rightarrow> bool" where
  "has_code P e \<longleftrightarrow> (\<exists>s c. e = Some s \<and> st_code s = Some c \<and> P c)"

definition classified_code :: "status_entry option list \<Rightarrow> status_entry \<Rightarrow> string \<Rightarrow> verify_error_code" where
  "classified_code status v c =
    (if \<exists>e \<in> set status. has_code (starts_with OCSP_CODE_PREFIX) e then UNTRUSTED_ISSUER
     else if starts_with ''signingCredential.expired'' c then CERT_EXPIRED
     else if starts_with ''signingCredential.untrusted'' c then
       (if \<exists>s. Some s \<in> set status \<and> has_code (starts_with ''signingCredential.expired'') (Some s)
            \<and> st_url s = st_url v then CERT_EXPIRED else UNTRUSTED_ISSUER)
     else if starts_with ''claimSignature.'' c \<or> includes_str ''.mismatch'' c \<or> includes_str ''.invalid'' c
     then SIGNATURE_INVALID else MANIFEST_MALFORMED)"

lemma find_status_total:
  assumes "\<forall>e \<in> set status. has_code (\<lambda>_. True) e"
  shows "(\<exists>s. find_status pre extra status = Inr (Some s)
            \<and> (\<exists>s'. Some s' \<in> set status \<and> has_code (starts_with pre) (Some s') \<and> extra s'))
       \<or> (find_status pre extra status = Inr None
            \<and> \<not> (\<exists>s'. Some s' \<in> set status \<and> has_code (starts_with pre) (Some s') \<and> extra s'))"
  using assms
proof (induction status)
  case Nil
  then show ?case by simp
next
  case (Cons e es)
  then obtain s c where e: "e = Some s" "st_code s = Some c" by (auto simp: has_code_def)
  show ?case
  proof (cases "starts_with pre c \<and> extra s")
    case True
    with e show ?thesis by (auto simp: has_code_def)
  next
    case False
    with Cons e show ?thesis by (auto simp: has_code_def)
  qed
qed

lemma certExpired_code [simp]: "exn_code (certExpired l s) = Some CERT_EXPIRED"
  by (simp add: certExpired_def)

text \<open>C11. Every finding of the reader is refused, under the code the specification gives it.\<close>

theorem classifier_meets_spec:
  assumes "\<forall>e \<in> set status. has_code (\<lambda>_. True) e"
    and "status = Some v # es" "st_code v = Some c"
  shows "fails_with (classifyStrictValidationStatus status l) (classified_code status v c)"
proof -
  let ?ocsp = "\<exists>s. Some s \<in> set status \<and> has_code (starts_with OCSP_CODE_PREFIX) (Some s)"
  have eq: "(\<exists>e \<in> set status. has_code (starts_with OCSP_CODE_PREFIX) e) \<longleftrightarrow> ?ocsp"
    by (metis has_code_def)
  have cls: "classifyStrictValidationStatus status l =
      bindR (find_status OCSP_CODE_PREFIX (\<lambda>_. True) status)
           (\<lambda>ocsp. case ocsp of
              Some o' \<Rightarrow>
                (let c = null_or (st_code o') [] in
                 Inl (verify_err_cat UNTRUSTED_ISSUER
                        (case truthy_str (st_explanation o') of Some ex \<Rightarrow> c @ '': '' @ ex | None \<Rightarrow> c)
                        ''ocsp''))
            | None \<Rightarrow> classify_first status l v (null_or (st_code v) []))"
    unfolding classifyStrictValidationStatus_def assms(2) by simp
  show ?thesis
  proof (cases ?ocsp)
    case True
    then show ?thesis
      using find_status_total[OF assms(1), of OCSP_CODE_PREFIX "\<lambda>_. True"] eq
      unfolding cls by (auto simp: classified_code_def Let_def simp del: find_status.simps)
  next
    case False
    then have none: "find_status OCSP_CODE_PREFIX (\<lambda>_. True) status = Inr None"
      using find_status_total[OF assms(1), of OCSP_CODE_PREFIX "\<lambda>_. True"] by auto
    show ?thesis
      using False eq find_status_total[OF assms(1), of "''signingCredential.expired''" "\<lambda>s. st_url s = st_url v"]
      unfolding cls none
      by (auto simp: classify_first_def classified_code_def assms(3) Let_def simp del: find_status.simps)
  qed
qed

theorem classifier_meets_spec_witness:
  "fails_with (classifyStrictValidationStatus
      [Some (status_of_code ''signingCredential.untrusted''), Some (status_of_code ''signingCredential.expired'')] None)
     CERT_EXPIRED"
proof -
  let ?u = "status_of_code ''signingCredential.untrusted''"
  let ?s = "[Some ?u, Some (status_of_code ''signingCredential.expired'')]"
  have "\<forall>e \<in> set ?s. has_code (\<lambda>_. True) e" by (simp add: has_code_def status_of_code_def)
  moreover have "st_code ?u = Some ''signingCredential.untrusted''" by (simp add: status_of_code_def)
  moreover have "classified_code ?s ?u ''signingCredential.untrusted'' = CERT_EXPIRED"
    by (auto simp: classified_code_def has_code_def status_of_code_def OCSP_CODE_PREFIX_def)
  ultimately show ?thesis
    using classifier_meets_spec[of ?s ?u "[Some (status_of_code ''signingCredential.expired'')]"
        "''signingCredential.untrusted''" None] by metis
qed

text \<open>C12. The walk past update manifests returns a manifest exactly when it is reached by at most four
  steps, each past an update manifest that only opened its sole parent and was signed under a
  RealReel source; and what it returns is no update manifest.\<close>

theorem update_walk_exact:
  "resolveCaptureThroughUpdateManifests store m resolve = Inr c \<longleftrightarrow>
     (\<exists>n \<le> 4. update_chain store resolve n m c)"
  by (simp add: resolveCaptureThroughUpdateManifests_Inr_iff MAX_UPDATE_MANIFEST_DEPTH_def)

end
