(* ===== verification/Dates.thy ===== *)
theory Dates
  imports Prelude
begin

text \<open>
  JavaScript dates: milliseconds since the epoch, the proleptic Gregorian calendar in UTC, and
  \<open>Date.prototype.toISOString\<close>.
\<close>

text \<open>Day number (1970-01-01 is 0) of a civil date and back; the computation counts years from
  1 March, so that a leap day is the last day of its year.\<close>

definition days_from_civil :: "int \<Rightarrow> int \<Rightarrow> int \<Rightarrow> int" where
  "days_from_civil y m d =
    (let y' = (if m \<le> 2 then y - 1 else y);
         era = y' div 400;
         yoe = y' mod 400;
         mp = (m + 9) mod 12;
         doy = (153 * mp + 2) div 5 + d - 1;
         doe = yoe * 365 + yoe div 4 - yoe div 100 + doy in
     era * 146097 + doe - 719468)"

definition civil_from_days :: "int \<Rightarrow> int \<times> int \<times> int" where
  "civil_from_days z =
    (let z' = z + 719468;
         era = z' div 146097;
         doe = z' mod 146097;
         yoe = (doe - doe div 1460 + doe div 36524 - doe div 146096) div 365;
         doy = doe - (365 * yoe + yoe div 4 - yoe div 100);
         mp = (5 * doy + 2) div 153;
         d = doy - (153 * mp + 2) div 5 + 1;
         m = (if mp < 10 then mp + 3 else mp - 9);
         y = yoe + era * 400 + (if m \<le> 2 then 1 else 0) in
     (y, m, d))"

definition MS_PER_DAY :: int where
  "MS_PER_DAY = 86400000"

definition utc_ms :: "int \<Rightarrow> int \<Rightarrow> int \<Rightarrow> int" where
  "utc_ms y m d = days_from_civil y m d * MS_PER_DAY"

definition iso_year :: "int \<Rightarrow> string" where
  "iso_year y = (if 0 \<le> y \<and> y \<le> 9999 then pad0 4 (show_nat (nat y))
                 else (if y < 0 then ''-'' else ''+'') @ pad0 6 (show_nat (nat \<bar>y\<bar>)))"

definition iso_string :: "int \<Rightarrow> string" where
  "iso_string ms =
    (case civil_from_days (ms div MS_PER_DAY) of (y, m, d) \<Rightarrow>
      (let t = ms mod MS_PER_DAY; two = (\<lambda>i. pad0 2 (show_nat (nat i))) in
       iso_year y @ ''-'' @ two m @ ''-'' @ two d @ ''T'' @ two (t div 3600000) @ '':''
       @ two (t div 60000 mod 60) @ '':'' @ two (t div 1000 mod 60) @ ''.''
       @ pad0 3 (show_nat (nat (t mod 1000))) @ ''Z''))"

lemma iso_string_examples:
  "iso_string 0 = ''1970-01-01T00:00:00.000Z''"
  "iso_string 1709210096789 = ''2024-02-29T12:34:56.789Z''"
  by code_simp+

section \<open>The day of a civil date\<close>

text \<open>The year within an era of 400 and the day it starts on.\<close>

definition year_of_era :: "int \<Rightarrow> int" where
  "year_of_era doe = (doe - doe div 1460 + doe div 36524 - doe div 146096) div 365"

definition era_start :: "int \<Rightarrow> int" where
  "era_start yoe = 365 * yoe + yoe div 4 - yoe div 100"

text \<open>The year estimate never misses.\<close>

lemma year_of_era_bounds:
  assumes "0 \<le> doe" "doe < 146097"
  shows "year_of_era doe \<in> {0..399} \<and> doe - era_start (year_of_era doe) \<in> {0..365}"
proof (cases "doe = 146096")
  case True
  have "year_of_era 146096 = 399" "era_start 399 = 145731" by code_simp+
  then show ?thesis by (simp add: True)
next
  case False
  define b where "b = doe div 36524"
  define r where "r = doe mod 36524"
  define q where "q = (r + 24 * b) div 1460"
  define y where "y = (r - q) div 365"
  have doe: "doe = 36524 * b + r" by (simp add: b_def r_def)
  have r: "0 \<le> r" "r < 36524" by (simp_all add: r_def)
  have b: "0 \<le> b" "b \<le> 3" using assms False doe r by linarith+
  have q: "1460 * q \<le> r + 24 * b" "r + 24 * b < 1460 * q + 1460" unfolding q_def by linarith+
  then have q': "0 \<le> q" "q \<le> 25" "0 \<le> r - q" "r - q < 36500" using r b by linarith+
  have y: "365 * y \<le> r - q" "r - q < 365 * y + 365" unfolding y_def by linarith+
  then have y': "0 \<le> y" "y < 100" using q' by linarith+
  have "doe div 1460 = 25 * b + q"
    using div_mult_self3[of 1460 "25 * b" "r + 24 * b"] unfolding doe q_def by (simp add: algebra_simps)
  moreover have "doe div 146096 = 0" using assms False by simp
  ultimately have "year_of_era doe = (365 * (100 * b) + (r - q)) div 365"
    unfolding year_of_era_def b_def[symmetric] by (simp add: doe)
  then have ye: "year_of_era doe = 100 * b + y" unfolding y_def by simp
  have "(100 * b + y) div 4 = 25 * b + y div 4" "(100 * b + y) div 100 = b" using y' by linarith+
  then have "era_start (100 * b + y) = 36524 * b + 365 * y + y div 4" by (simp add: era_start_def)
  moreover have "0 \<le> r - 365 * y - y div 4" "r - 365 * y - y div 4 \<le> 365"
    using q q' y b by linarith+
  ultimately show ?thesis using ye doe b y' by simp
qed

text \<open>The two conversions agree: the date computed for a day is a date of that day.\<close>

lemma days_from_civil_from_days:
  assumes "civil_from_days z = (y, m, d)"
  shows "days_from_civil y m d = z \<and> 1 \<le> m \<and> m \<le> 12 \<and> 1 \<le> d \<and> d \<le> 31"
proof -
  define doe where "doe = (z + 719468) mod 146097"
  define yoe where "yoe = year_of_era doe"
  define doy where "doy = doe - era_start yoe"
  define mp where "mp = (5 * doy + 2) div 153"
  have doe: "0 \<le> doe" "doe < 146097" by (simp_all add: doe_def)
  have yoe: "0 \<le> yoe" "yoe \<le> 399" and doy: "0 \<le> doy" "doy \<le> 365"
    using year_of_era_bounds[OF doe] by (simp_all add: yoe_def doy_def)
  have mp: "0 \<le> mp" "mp \<le> 11" "153 * mp \<le> 5 * doy + 2" "5 * doy + 2 < 153 * mp + 153"
    using doy unfolding mp_def by linarith+
  have "civil_from_days z = (yoe + (z + 719468) div 146097 * 400 + (if (if mp < 10 then mp + 3 else mp - 9) \<le> 2 then 1 else 0),
      (if mp < 10 then mp + 3 else mp - 9), doy - (153 * mp + 2) div 5 + 1)"
    unfolding civil_from_days_def Let_def mp_def doy_def yoe_def doe_def year_of_era_def era_start_def by (rule refl)
  with assms have d: "d = doy - (153 * mp + 2) div 5 + 1" and m: "m = (if mp < 10 then mp + 3 else mp - 9)"
    and y: "y = yoe + (z + 719468) div 146097 * 400 + (if m \<le> 2 then 1 else 0)"
    by (auto split: if_splits)
  have "(m + 9) mod 12 = mp" using m mp by (cases "mp < 10") simp_all
  moreover have "(if m \<le> 2 then y - 1 else y) = yoe + (z + 719468) div 146097 * 400" using y by simp
  moreover have "(yoe + e * 400) div 400 = e" "(yoe + e * 400) mod 400 = yoe" for e using yoe by simp_all
  moreover have "(z + 719468) div 146097 * 146097 + doe = z + 719468" unfolding doe_def by (rule div_mult_mod_eq)
  moreover have "yoe * 365 + yoe div 4 - yoe div 100 + ((153 * mp + 2) div 5 + d - 1) = doe"
    using d by (simp add: doy_def era_start_def)
  ultimately have "days_from_civil y m d = z" unfolding days_from_civil_def Let_def by (simp only:)
  moreover have "1 \<le> d" "d \<le> 31" "1 \<le> m" "m \<le> 12" using d m mp doy by (simp_all; linarith)+
  ultimately show ?thesis by simp
qed

section \<open>Padded decimals\<close>

lemma parse_pad0: "parse_digits 0 (pad0 n (show_nat k)) = k"
proof -
  have "parse_digits 0 (replicate j (CHR ''0'') @ s) = parse_digits 0 s" for j s
    by (induction j) (simp_all add: digit_val_def)
  then show ?thesis by (simp add: pad0_def)
qed

lemma length_show_nat: "k < 10 ^ n \<Longrightarrow> 0 < n \<Longrightarrow> length (show_nat k) \<le> n"
proof (induction n arbitrary: k)
  case (Suc n)
  show ?case
  proof (cases "k < 10")
    case False
    then have "0 < n" using Suc.prems by (cases n) auto
    moreover have "k div 10 < 10 ^ n" using Suc.prems(1) by (simp add: less_mult_imp_div_less mult.commute)
    ultimately show ?thesis using Suc.IH[of "k div 10"] False by (simp add: show_nat.simps[of k])
  qed (simp add: show_nat.simps[of k])
qed simp

lemma pad0_digits:
  assumes "k < 10 ^ n" "0 < n"
  shows "length (pad0 n (show_nat k)) = n" "list_all is_digit (pad0 n (show_nat k))"
proof -
  show "length (pad0 n (show_nat k)) = n" using length_show_nat[OF assms] by (simp add: pad0_def)
  show "list_all is_digit (pad0 n (show_nat k))"
    using show_nat_digits[of k] by (auto simp: pad0_def list_all_iff is_digit_def)
qed

end
