(* ===== verification/CertValidity.thy ===== *)
theory CertValidity
  imports Manifest Dates
begin

text \<open>
  The time-bound certificate gates of \<open>verifier/src/cert-validity.ts\<close>.  \<open>parse_date\<close> is the
  \<open>Date\<close> constructor on a string, whose fallback grammar ECMAScript leaves to the engine: a
  parameter returning the time value, \<open>None\<close> for NaN.  A null entry of a bucket, or one
  without a string code, is dereferenced unguarded.
\<close>

type_synonym date_parser = "string \<Rightarrow> js_date"

record tsa_state =
  tsa_hasStamp :: bool
  tsa_trusted :: bool

definition entry_code :: "status_entry option \<Rightarrow> string option res" where
  "entry_code e = bindR (derefR TypeErr e) (\<lambda>s. Inr (st_code s))"

definition has_stamp_code :: "string option \<Rightarrow> bool res" where
  "has_stamp_code c = bindR (derefR TypeErr c) (\<lambda>s. Inr (starts_with ''timeStamp.'' s))"

text \<open>\<open>some\<close> with a callback that may throw: stops at the first true.\<close>

fun someR :: "('a \<Rightarrow> 'e + bool) \<Rightarrow> 'a list \<Rightarrow> 'e + bool" where
  "someR f [] = Inr False"
| "someR f (x # xs) = bindR (f x) (\<lambda>b. if b then Inr True else someR f xs)"

definition readTsaState :: "manifest_store \<Rightarrow> tsa_state res" where
  "readTsaState store =
    (case chain (ms_validation_results store) vr_activeManifest of
       None \<Rightarrow> Inr \<lparr>tsa_hasStamp = False, tsa_trusted = False\<rparr>
     | Some bk \<Rightarrow>
         bindR (mapR entry_code (bk_success bk @ bk_informational bk @ bk_failure bk)) (\<lambda>allCodes.
         bindR (someR has_stamp_code allCodes) (\<lambda>hasStamp.
         bindR (someR (\<lambda>e. bindR (entry_code e) (\<lambda>c. Inr (c = Some ''timeStamp.trusted'')))
                      (bk_success bk)) (\<lambda>trusted.
         Inr \<lparr>tsa_hasStamp = hasStamp, tsa_trusted = trusted\<rparr>))))"

definition readSignatureTime :: "date_parser \<Rightarrow> manifest \<Rightarrow> int option" where
  "readSignatureTime parse_date active =
    (case chain (mf_signature_info active) si_time of
       None \<Rightarrow> None
     | Some t \<Rightarrow> parse_date t)"

definition CLOCK_SKEW_TOLERANCE_MS :: int where
  "CLOCK_SKEW_TOLERANCE_MS = 5 * 60 * 1000"

definition ISSUANCE_TOLERANCE_MS :: int where
  "ISSUANCE_TOLERANCE_MS = 10 * 60 * 1000"

definition checkCertValidityTimeBounds ::
  "date_parser \<Rightarrow> manifest \<Rightarrow> tsa_state \<Rightarrow> int \<Rightarrow> unit res"
where
  "checkCertValidityTimeBounds parse_date active tsaState now =
    (if tsa_hasStamp tsaState \<and> \<not> tsa_trusted tsaState
     then Inl (verify_err SIGNATURE_INVALID
       (''embedded sigTst2 token has an untrusted chain '' @ em_dash @
        '' TSA cert chain did not root to any configured TSA trust anchor''))
     else (case readSignatureTime parse_date active of
        None \<Rightarrow> Inr ()
      | Some t \<Rightarrow>
          if t > now + CLOCK_SKEW_TOLERANCE_MS
          then Inl (verify_err SIGNATURE_INVALID
            (''signature_info.time ('' @ iso_string t @ '') is in the future relative to now (''
             @ iso_string now @ '')''))
          else Inr ()))"

definition checkLedgerTimeBounds ::
  "date_parser \<Rightarrow> manifest \<Rightarrow> tsa_state \<Rightarrow> string \<Rightarrow> string \<Rightarrow> unit res"
where
  "checkLedgerTimeBounds parse_date active tsaState issuedAtText expiresAtText =
    (case (parse_date issuedAtText, parse_date expiresAtText) of
       (Some issuedAt, Some expiresAt) \<Rightarrow>
         (case readSignatureTime parse_date active of
            None \<Rightarrow> Inr ()
          | Some t \<Rightarrow>
              if t < issuedAt - ISSUANCE_TOLERANCE_MS
              then Inl (verify_err SIGNATURE_INVALID
                (''signature_info.time ('' @ iso_string t @ '') predates the signing cert''
                 @ [CHR 0x27] @ ''s ledger issuance ('' @ iso_string issuedAt @ '')''))
              else if \<not> tsa_trusted tsaState \<and> t > expiresAt + CLOCK_SKEW_TOLERANCE_MS
              then Inl (verify_err CERT_EXPIRED
                (''signature_info.time ('' @ iso_string t @ '') is after the signing cert''
                 @ [CHR 0x27] @ ''s ledger expiry ('' @ iso_string expiresAt
                 @ '') and carries no trusted TSA stamp''))
              else Inr ())
     | _ \<Rightarrow> Inl (verify_err SIGNATURE_INVALID
         (''ledger row carries unparseable validity timestamps (issued_at='' @ [CHR 0x27] @ issuedAtText
          @ [CHR 0x27] @ '', expires_at='' @ [CHR 0x27] @ expiresAtText @ [CHR 0x27] @ '')'')))"

section \<open>Facts\<close>

definition time_bounded :: "date_parser \<Rightarrow> manifest \<Rightarrow> tsa_state \<Rightarrow> string \<Rightarrow> string \<Rightarrow> bool" where
  "time_bounded parse_date active ts issuedAtText expiresAtText \<longleftrightarrow>
    (\<exists>i e. parse_date issuedAtText = Some i \<and> parse_date expiresAtText = Some e
       \<and> (\<forall>t. readSignatureTime parse_date active = Some t \<longrightarrow>
            i - ISSUANCE_TOLERANCE_MS \<le> t
            \<and> (tsa_trusted ts \<or> t \<le> e + CLOCK_SKEW_TOLERANCE_MS)))"

lemma checkLedgerTimeBounds_Inr_iff [result_simps]:
  "checkLedgerTimeBounds pd active ts ia ea = Inr u \<longleftrightarrow> time_bounded pd active ts ia ea"
  unfolding checkLedgerTimeBounds_def time_bounded_def by (auto split: option.splits)

lemma checkCertValidityTimeBounds_Inr_iff [result_simps]:
  "checkCertValidityTimeBounds pd active ts now = Inr u \<longleftrightarrow>
     (tsa_hasStamp ts \<longrightarrow> tsa_trusted ts)
     \<and> (\<forall>t. readSignatureTime pd active = Some t \<longrightarrow> t \<le> now + CLOCK_SKEW_TOLERANCE_MS)"
  unfolding checkCertValidityTimeBounds_def by (auto split: option.splits)

lemma someR_Inr_True: "someR f xs = Inr True \<Longrightarrow> \<exists>x \<in> set xs. f x = Inr True"
  by (induction xs) (auto split: if_splits)

lemma someR_Inr_False: "someR f xs = Inr False \<longleftrightarrow> (\<forall>x \<in> set xs. f x = Inr False)"
  by (induction xs) (auto split: if_splits)

text \<open>The ledger gate accepts exactly when both ledger timestamps parse and the claimed signing time,
  if any, lies in the window widened by the two tolerances, a trusted time stamp lifting the upper
  bound; a time past the widened window is \<open>CERT_EXPIRED\<close>, every other rejection \<open>SIGNATURE_INVALID\<close>.\<close>

lemma ledger_window_exact:
  "accepted (checkLedgerTimeBounds pd active ts ia ea) = time_bounded pd active ts ia ea
   \<and> fails_with (checkLedgerTimeBounds pd active ts ia ea) CERT_EXPIRED
       = (\<exists>i e t. pd ia = Some i \<and> pd ea = Some e \<and> readSignatureTime pd active = Some t
            \<and> i \<le> t + 600000 \<and> e + 300000 < t \<and> \<not> tsa_trusted ts)
   \<and> (accepted (checkLedgerTimeBounds pd active ts ia ea)
      \<or> fails_with (checkLedgerTimeBounds pd active ts ia ea) CERT_EXPIRED
      \<or> fails_with (checkLedgerTimeBounds pd active ts ia ea) SIGNATURE_INVALID)"
proof -
  have a: "accepted (checkLedgerTimeBounds pd active ts ia ea) = time_bounded pd active ts ia ea"
    by (simp add: accepted_iff checkLedgerTimeBounds_Inr_iff)
  show ?thesis
    unfolding a by (cases "pd ia"; cases "pd ea"; cases "readSignatureTime pd active")
       (auto simp: checkLedgerTimeBounds_def time_bounded_def ISSUANCE_TOLERANCE_MS_def
          CLOCK_SKEW_TOLERANCE_MS_def)
qed

end
