(* ===== verification/Codec.thy ===== *)
theory Codec
  imports Prelude "HOL-Library.Word"
begin

unbundle bit_operations_syntax

text \<open>
  Byte strings and their text encodings: base64 in both alphabets, percent encoding and hex, the
  constant-time comparison and concatenation of \<open>verifier/src/attestation/pki-node.ts\<close>, and the
  interface \<open>codec\<close> that the round trips of the components rest on.
\<close>

type_synonym bytes = "8 word list"

definition byte_of_char :: "char \<Rightarrow> 8 word" where
  "byte_of_char c = of_nat (of_char c)"

definition char_of_byte :: "8 word \<Rightarrow> char" where
  "char_of_byte b = char_of (unat b)"

text \<open>\<open>new TextEncoder().encode(s)\<close>, \<open>Buffer.from(s)\<close>: the UTF-8 bytes.\<close>

definition utf8 :: "string \<Rightarrow> bytes" where
  "utf8 s = map byte_of_char s"

lemma char_of_byte_of_char [simp]: "char_of_byte (byte_of_char c) = c"
  by (simp add: char_of_byte_def byte_of_char_def unat_of_nat)

lemma byte_of_char_inject [simp]: "byte_of_char c = byte_of_char d \<longleftrightarrow> c = d"
  by (metis char_of_byte_of_char)

lemma utf8_inject [simp]: "utf8 s = utf8 t \<longleftrightarrow> s = t"
  unfolding utf8_def by (rule inj_map_eq_map) (simp add: inj_def)

section \<open>Constant-time comparison\<close>

text \<open>\<open>diff |= a[i] ^ b[i]\<close> over the whole length.\<close>

definition ctEqual :: "bytes \<Rightarrow> bytes \<Rightarrow> bool" where
  "ctEqual a b =
    (if length a \<noteq> length b then False
     else foldl (\<lambda>diff (x, y). diff OR (x XOR y)) 0 (zip a b) = 0)"

lemma foldl_or_zero:
  "foldl (\<lambda>diff (x, y). diff OR (x XOR y)) (d :: 8 word) ps = 0 \<longleftrightarrow> d = 0 \<and> (\<forall>(x, y) \<in> set ps. x = y)"
proof (induction ps arbitrary: d)
  case Nil
  then show ?case by simp
next
  case (Cons p ps)
  obtain x y where p: "p = (x, y)" by fastforce
  have "d OR (x XOR y) = 0 \<longleftrightarrow> d = 0 \<and> x = y"
    by (metis or.right_neutral or_eq_0_iff xor_self_eq xor.assoc xor.right_neutral xor.left_neutral)
  with Cons p show ?case by simp
qed

lemma ctEqual_iff [simp]: "ctEqual a b \<longleftrightarrow> a = b"
proof (cases "length a = length b")
  case False
  then show ?thesis by (auto simp: ctEqual_def)
next
  case True
  then have "(\<forall>(x, y) \<in> set (zip a b). x = y) \<longleftrightarrow> a = b"
    by (induction a b rule: list_induct2) auto
  with True show ?thesis by (simp add: ctEqual_def foldl_or_zero)
qed

section \<open>The codec interface\<close>

locale codec =
  fixes enc :: "'a \<Rightarrow> 'b" and dec :: "'b \<Rightarrow> 'a option"
  assumes dec_enc: "dec (enc x) = Some x"
begin

lemma enc_inj: "enc x = enc y \<longleftrightarrow> x = y"
  by (metis dec_enc option.inject)

lemma dec_total_on_range: "dec (enc x) \<noteq> None"
  by (simp add: dec_enc)

end

text \<open>Two codecs in a row are a codec.\<close>

locale codec_chain = outer: codec enc1 dec1 + inner: codec enc2 dec2
  for enc1 :: "'a \<Rightarrow> 'b" and dec1 and enc2 :: "'b \<Rightarrow> 'c" and dec2
begin

definition chain_enc :: "'a \<Rightarrow> 'c" where
  "chain_enc x = enc2 (enc1 x)"

definition chain_dec :: "'c \<Rightarrow> 'a option" where
  "chain_dec z = Option.bind (dec2 z) dec1"

end

sublocale codec_chain \<subseteq> chained: codec chain_enc chain_dec
  by unfold_locales (simp add: chain_enc_def chain_dec_def outer.dec_enc inner.dec_enc)

section \<open>Base64\<close>

fun sextets_of_bytes :: "bytes \<Rightarrow> nat list" where
  "sextets_of_bytes [] = []"
| "sextets_of_bytes [a] = [unat a div 4, unat a mod 4 * 16]"
| "sextets_of_bytes [a, b] =
     [unat a div 4, unat a mod 4 * 16 + unat b div 16, unat b mod 16 * 4]"
| "sextets_of_bytes (a # b # c # bs) =
     [unat a div 4, unat a mod 4 * 16 + unat b div 16, unat b mod 16 * 4 + unat c div 64, unat c mod 64]
     @ sextets_of_bytes bs"

fun bytes_of_sextets :: "nat list \<Rightarrow> bytes" where
  "bytes_of_sextets [] = []"
| "bytes_of_sextets [a] = []"
| "bytes_of_sextets [a, b] = [of_nat (a * 4 + b div 16)]"
| "bytes_of_sextets [a, b, c] = [of_nat (a * 4 + b div 16), of_nat (b mod 16 * 16 + c div 4)]"
| "bytes_of_sextets (a # b # c # d # ss) =
     [of_nat (a * 4 + b div 16), of_nat (b mod 16 * 16 + c div 4), of_nat (c mod 4 * 64 + d)]
     @ bytes_of_sextets ss"

lemma byte_lt [simp]: "unat (a :: 8 word) < 256"
  using unsigned_less[of a] by simp

lemma byte_eqI: "n = unat (a :: 8 word) \<Longrightarrow> of_nat n = a"
  by simp

lemma byte_div4: "of_nat (unat (a :: 8 word) div 4 * 4 + (unat a mod 4 * 16 + x) div 16) = a" if "x < 16"
proof (rule byte_eqI)
  have "(unat a mod 4 * 16 + x) div 16 = unat a mod 4" using that by simp
  then show "unat a div 4 * 4 + (unat a mod 4 * 16 + x) div 16 = unat a" by simp
qed

lemma byte_div16:
  "of_nat ((m * 16 + unat (b :: 8 word) div 16) mod 16 * 16 + (unat b mod 16 * 4 + x) div 4) = b"
  if "x < 4"
proof (rule byte_eqI)
  have "unat b div 16 < 16" using byte_lt[of b] by (simp add: less_mult_imp_div_less)
  then have "(m * 16 + unat b div 16) mod 16 = unat b div 16" by simp
  moreover have "(unat b mod 16 * 4 + x) div 4 = unat b mod 16" using that by simp
  ultimately show "(m * 16 + unat b div 16) mod 16 * 16 + (unat b mod 16 * 4 + x) div 4 = unat b"
    by simp
qed

lemma byte_div64:
  "of_nat ((m * 4 + unat (c :: 8 word) div 64) mod 4 * 64 + unat c mod 64) = c"
proof (rule byte_eqI)
  have "unat c div 64 < 4" using byte_lt[of c] by (simp add: less_mult_imp_div_less)
  then have "(m * 4 + unat c div 64) mod 4 = unat c div 64" by simp
  then show "(m * 4 + unat c div 64) mod 4 * 64 + unat c mod 64 = unat c" by simp
qed

lemma byte_quotients: "unat (b :: 8 word) div 16 < 16" "unat b div 64 < 4" "unat b div 4 < 64"
  using byte_lt[of b] by (simp_all add: less_mult_imp_div_less)

lemma bytes_of_sextets_of_bytes [simp]: "bytes_of_sextets (sextets_of_bytes bs) = bs"
proof (induction bs rule: sextets_of_bytes.induct)
  case (2 a)
  then show ?case using byte_div4[of 0 a] by simp
next
  case (3 a b)
  show ?case using byte_quotients[of b] byte_div4[of "unat b div 16" a] byte_div16[of 0 "unat a mod 4" b] by simp
next
  case (4 a b c bs)
  show ?case
    using 4 byte_quotients[of b] byte_quotients[of c] byte_div4[of "unat b div 16" a] byte_div16[of "unat c div 64" "unat a mod 4" b]
      byte_div64[of "unat b mod 16" c] by simp
qed simp

lemma sextets_bound: "\<forall>s \<in> set (sextets_of_bytes bs). s < 64"
proof (induction bs rule: sextets_of_bytes.induct)
  case (2 a)
  have "unat a mod 4 < 4" by simp
  then show ?case using byte_quotients[of a] by (simp; linarith)
next
  case (3 a b)
  have "unat a mod 4 < 4" "unat b mod 16 < 16" by simp_all
  then show ?case using byte_quotients[of a] byte_quotients[of b] by (simp; linarith)
next
  case (4 a b c bs)
  have "unat a mod 4 < 4" "unat b mod 16 < 16" by simp_all
  then have "unat a mod 4 * 16 + unat b div 16 < 64" "unat b mod 16 * 4 + unat c div 64 < 64"
    using byte_quotients[of b] byte_quotients[of c] by linarith+
  then show ?case using 4 byte_quotients[of a] by simp
qed simp

definition b64_char :: "char \<Rightarrow> char \<Rightarrow> nat \<Rightarrow> char" where
  "b64_char c62 c63 s =
    (if s < 26 then char_of (65 + s) else if s < 52 then char_of (71 + s)
     else if s < 62 then char_of (s - 4) else if s = 62 then c62 else c63)"

text \<open>The value of a character in either alphabet.\<close>

definition b64_val :: "char \<Rightarrow> nat option" where
  "b64_val c =
    (let b = of_char c :: nat in
     if 65 \<le> b \<and> b \<le> 90 then Some (b - 65)
     else if 97 \<le> b \<and> b \<le> 122 then Some (b - 71)
     else if 48 \<le> b \<and> b \<le> 57 then Some (b + 4)
     else if c = CHR ''+'' \<or> c = CHR ''-'' then Some 62
     else if c = CHR ''/'' \<or> c = CHR ''_'' then Some 63
     else None)"

lemma b64_val_char:
  assumes "s < 64" "c62 = CHR ''+'' \<or> c62 = CHR ''-''" "c63 = CHR ''/'' \<or> c63 = CHR ''_''"
  shows "b64_val (b64_char c62 c63 s) = Some s"
proof -
  consider "s < 26" | "26 \<le> s" "s < 52" | "52 \<le> s" "s < 62" | "s = 62" | "s = 63"
    using assms(1) by linarith
  then show ?thesis
    using assms(2,3) by cases (auto simp: b64_char_def b64_val_def Let_def)
qed

text \<open>\<open>toString("base64url")\<close> and \<open>toString("base64")\<close>.\<close>

definition base64url :: "bytes \<Rightarrow> string" where
  "base64url bs = map (b64_char (CHR ''-'') (CHR ''_'')) (sextets_of_bytes bs)"

definition base64 :: "bytes \<Rightarrow> string" where
  "base64 bs = map (b64_char (CHR ''+'') (CHR ''/'')) (sextets_of_bytes bs)
     @ replicate ((3 - length bs mod 3) mod 3) (CHR ''='')"

text \<open>Node's \<open>Buffer.from(s, "base64")\<close> (and \<open>"base64url"\<close>): either alphabet, every other
  character skipped.\<close>

definition node_b64_decode :: "string \<Rightarrow> bytes" where
  "node_b64_decode s = bytes_of_sextets (List.map_filter b64_val s)"

lemma map_filter_b64:
  assumes "\<forall>s \<in> set ss. s < 64" "c62 = CHR ''+'' \<or> c62 = CHR ''-''" "c63 = CHR ''/'' \<or> c63 = CHR ''_''"
  shows "List.map_filter b64_val (map (b64_char c62 c63) ss) = ss"
  using assms(1) by (induction ss) (simp_all add: b64_val_char assms(2,3))

lemma node_b64_decode_url [simp]: "node_b64_decode (base64url bs) = bs"
  by (simp add: node_b64_decode_def base64url_def map_filter_b64 sextets_bound)

lemma map_filter_append: "List.map_filter f (xs @ ys) = List.map_filter f xs @ List.map_filter f ys"
  by (induction xs) (simp_all split: option.split)

lemma map_filter_pad: "List.map_filter b64_val (replicate n (CHR ''='')) = []"
  by (induction n) (simp_all add: b64_val_def)

lemma node_b64_decode_std [simp]: "node_b64_decode (base64 bs) = bs"
  by (simp add: node_b64_decode_def base64_def map_filter_append map_filter_b64 map_filter_pad sextets_bound)

interpretation b64url: codec base64url "\<lambda>s. Some (node_b64_decode s)"
  by unfold_locales simp

interpretation b64: codec base64 "\<lambda>s. Some (node_b64_decode s)"
  by unfold_locales simp

end
