(* ===== verification/Ports.thy ===== *)
theory Ports
  imports Errors Codec Structure Dates
begin

text \<open>
  What the verifier takes from outside the repository: the datastore of \<open>verifier/src/ports.ts\<close>
  (rows as \<open>verifier/src/db.ts\<close> projects them), the SHA-256, ECDSA and CBOR primitives of the
  platform libraries, and the helpers every attestation consumer shares.  The datastore is a
  state \<open>'s\<close>; \<open>burn\<close> is the only operation that changes it.
\<close>

record revocation_row =
  rr_key_id :: string
  rr_user_id :: "string option"
  rr_revoked_at :: "string option"
  rr_cert_serial_number :: string
  rr_platform :: string
  rr_public_key :: "bytes option"
  rr_app_attest_public_key :: "bytes option"
  rr_issued_at :: string
  rr_expires_at :: string

record 's datastore =
  ds_lookup :: "'s \<Rightarrow> string \<Rightarrow> revocation_row option res"
  ds_burn :: "'s \<Rightarrow> string \<Rightarrow> string \<Rightarrow> unit res \<times> 's"

datatype cbor = CBytes bytes | CMap "(string \<times> cbor) list" | CArr "cbor list" | CNull | COther

record crypto =
  cr_sha256 :: "bytes \<Rightarrow> bytes"
  cr_cbor_decode :: "bytes \<Rightarrow> string + cbor"
  cr_p256_point_ok :: "bytes \<Rightarrow> string + unit"
  cr_ecdsa_verify :: "bytes \<Rightarrow> bytes \<Rightarrow> bytes \<Rightarrow> string + bool"

text \<open>The \<open>message\<close> of a caught error.\<close>

fun exn_message :: "exn \<Rightarrow> string" where
  "exn_message (VerifyErr e) = error_message e"
| "exn_message TypeErr = []"
| "exn_message (OtherErr m) = m"

definition CHALLENGE_UNAVAILABLE :: string where
  "CHALLENGE_UNAVAILABLE = ''attestation_challenge_unavailable''"

text \<open>The nonce burn both consumers end with; \<open>category\<close> tags the platform.\<close>

definition burn_nonce ::
  "'s datastore \<Rightarrow> string \<Rightarrow> string \<Rightarrow> string \<Rightarrow> string \<Rightarrow> 's \<Rightarrow> unit res \<times> 's"
where
  "burn_nonce ds category stageLabel keyId nonce s =
    (case ds_burn ds s keyId nonce of
       (Inr u, s') \<Rightarrow> (Inr (), s')
     | (Inl e, s') \<Rightarrow>
         (let msg = exn_message e in
          if includes_str CHALLENGE_UNAVAILABLE msg
          then (Inl (verify_err_cat ATTESTATION_REPLAY (stageLabel @ '' '' @ msg) category), s')
          else (Inl e, s')))"

lemma burn_nonce_Inr:
  "burn_nonce ds cat lab k n s = (Inr u, s') \<longleftrightarrow> ds_burn ds s k n = (Inr (), s')"
  by (auto simp: burn_nonce_def Let_def split: prod.splits sum.splits if_splits)

text \<open>\<open>(manifest.assertions ?? []).find((a) => a.label === label)\<close> and \<open>some\<close>: the callback reads
  \<open>a.label\<close> unguarded.\<close>

fun find_assertion :: "string \<Rightarrow> assertion option list \<Rightarrow> assertion option res" where
  "find_assertion l [] = Inr None"
| "find_assertion l (None # as) = Inl TypeErr"
| "find_assertion l (Some a # as) = (if as_label a = Some l then Inr (Some a) else find_assertion l as)"

definition has_assertion :: "string \<Rightarrow> manifest \<Rightarrow> bool res" where
  "has_assertion l m = bindR (find_assertion l (mf_assertions m)) (\<lambda>f. Inr (f \<noteq> None))"

lemma find_assertion_Some:
  "find_assertion l as = Inr (Some a) \<Longrightarrow> Some a \<in> set as \<and> as_label a = Some l"
  by (induction l as rule: find_assertion.induct) (auto split: if_splits)

lemma find_assertion_None:
  "find_assertion l as = Inr None \<Longrightarrow> None \<notin> set as \<and> (\<forall>a. Some a \<in> set as \<longrightarrow> as_label a \<noteq> Some l)"
  by (induction l as rule: find_assertion.induct) (auto split: if_splits)

text \<open>The permissive base64 alphabet check of both platforms.\<close>

definition b64_alphabet :: "char \<Rightarrow> bool" where
  "b64_alphabet c = (is_alnum c \<or> c \<in> {CHR ''+'', CHR ''/'', CHR ''='', CHR ''_'', CHR ''-''})"

definition isBase64 :: "string \<Rightarrow> bool" where
  "isBase64 v = (if length v = 0 then False else list_all b64_alphabet v)"

end
