(* ===== verification/AppAttest.thy ===== *)
theory AppAttest
  imports Ports
begin

text \<open>
  The iOS Stage-2 validator, \<open>verifier/src/attestation/apple.ts\<close> over
  \<open>verifier/src/attestation/pki-node.ts\<close>.  SHA-256, ECDSA and the CBOR decoder are the fields of
  the \<open>crypto\<close> parameter; \<open>appId\<close> is \<open>APPLE_APP_ID\<close>.
\<close>

definition APPLE_APP_ID :: string where
  "APPLE_APP_ID = ''7RPHYY66U6'' @ ''.'' @ ''com.realreel.app''"

definition aaVerifyError :: "verify_error_code \<Rightarrow> string \<Rightarrow> exn" where
  "aaVerifyError c d = verify_err_cat c d ''app-attest''"

record app_attest_data =
  aa_keyId :: string
  aa_challenge :: string
  aa_assertion :: string
  aa_platform :: string

definition app_attest_fields :: "jsval \<Rightarrow> app_attest_data option" where
  "app_attest_fields d =
    (case (as_str (obj_get d ''keyId''), as_str (obj_get d ''challenge''),
           as_str (obj_get d ''assertion''), as_str (obj_get d ''platform'')) of
       (Some k, Some c, Some a, Some p) \<Rightarrow>
         Some \<lparr>aa_keyId = k, aa_challenge = c, aa_assertion = a, aa_platform = p\<rparr>
     | _ \<Rightarrow> None)"

definition extractAppAttestData :: "manifest \<Rightarrow> string \<Rightarrow> app_attest_data res" where
  "extractAppAttestData m stageLabel =
    bindR (find_assertion APP_ATTEST_LABEL (mf_assertions m)) (\<lambda>found.
    (case found of
       None \<Rightarrow> Inl (aaVerifyError ATTESTATION_MISSING
                (stageLabel @ '' manifest lacks '' @ APP_ATTEST_LABEL @ '' assertion''))
     | Some a \<Rightarrow>
         (case app_attest_fields (as_data a) of
            None \<Rightarrow> Inl (aaVerifyError ATTESTATION_INVALID
                     (stageLabel @ '' '' @ APP_ATTEST_LABEL @ '' is malformed''))
          | Some d \<Rightarrow>
              if aa_platform d \<noteq> ''ios''
              then Inl (aaVerifyError ATTESTATION_INVALID
                (stageLabel @ '' '' @ APP_ATTEST_LABEL @ '' platform must be '' @ quote1 ''ios''
                 @ '' (got '' @ quote1 (aa_platform d) @ '')''))
              else if \<not> isBase64 (aa_keyId d) \<or> \<not> isBase64 (aa_challenge d) \<or> \<not> isBase64 (aa_assertion d)
              then Inl (aaVerifyError ATTESTATION_INVALID
                (stageLabel @ '' '' @ APP_ATTEST_LABEL @ '' contains non-base64 fields''))
              else Inr d)))"

definition validateAppAttestStructure :: "manifest \<Rightarrow> string \<Rightarrow> app_attest_data res" where
  "validateAppAttestStructure m stageLabel = extractAppAttestData m stageLabel"

record app_attest_crypto_inputs =
  ac_appAttestPublicKey :: bytes
  ac_signingKeySpki :: bytes

record decoded_assertion =
  da_signature :: bytes
  da_authenticatorData :: bytes

fun coerceBytes :: "cbor option \<Rightarrow> bytes option" where
  "coerceBytes (Some (CBytes b)) = Some b"
| "coerceBytes _ = None"

definition assertObjectShape :: "cbor \<Rightarrow> string \<Rightarrow> decoded_assertion res" where
  "assertObjectShape obj stageLabel =
    (case obj of
       CNull \<Rightarrow> Inl (aaVerifyError ATTESTATION_INVALID (stageLabel @ '' CBOR root is not an object''))
     | COther \<Rightarrow> Inl (aaVerifyError ATTESTATION_INVALID (stageLabel @ '' CBOR root is not an object''))
     | CArr _ \<Rightarrow> Inl (aaVerifyError ATTESTATION_INVALID (stageLabel @ '' CBOR root is not an object''))
     | CBytes _ \<Rightarrow> Inl (aaVerifyError ATTESTATION_INVALID
         (stageLabel @ '' assertion CBOR missing '' @ quote1 ''signature'' @ '' bytes''))
     | CMap kvs \<Rightarrow>
         (case coerceBytes (map_of kvs ''signature'') of
            None \<Rightarrow> Inl (aaVerifyError ATTESTATION_INVALID
              (stageLabel @ '' assertion CBOR missing '' @ quote1 ''signature'' @ '' bytes''))
          | Some sig \<Rightarrow>
              (case coerceBytes (map_of kvs ''authenticatorData'') of
                 None \<Rightarrow> Inl (aaVerifyError ATTESTATION_INVALID
                   (stageLabel @ '' assertion CBOR missing '' @ quote1 ''authenticatorData'' @ '' bytes''))
               | Some ad \<Rightarrow> Inr \<lparr>da_signature = sig, da_authenticatorData = ad\<rparr>)))"

text \<open>\<open>importP256RawPubkey\<close>: the length and leading byte are checked here, the point by the library.\<close>

definition importP256RawPubkey :: "crypto \<Rightarrow> bytes \<Rightarrow> string + bytes" where
  "importP256RawPubkey cr raw =
    (if length raw \<noteq> 65 \<or> hd raw \<noteq> 4
     then Inl (''expected 65-byte uncompressed P-256 point (0x04 || X || Y); got ''
               @ show_nat (length raw) @ '' bytes, leading byte 0x''
               @ show_hex (case raw of [] \<Rightarrow> 0 | b # _ \<Rightarrow> unat b))
     else (case cr_p256_point_ok cr raw of Inl m \<Rightarrow> Inl m | Inr _ \<Rightarrow> Inr raw))"

text \<open>\<open>((a << 24) | (b << 16) | (c << 8) | d) >>> 0\<close> on four bytes.\<close>

definition be32 :: "bytes \<Rightarrow> nat" where
  "be32 bs = foldl (\<lambda>acc b. acc * 256 + unat b) 0 bs"

text \<open>The challenge binding that Apple's signature covers.\<close>

definition app_attest_nonce :: "crypto \<Rightarrow> bytes \<Rightarrow> string \<Rightarrow> bytes \<Rightarrow> bytes" where
  "app_attest_nonce cr authData challenge spki =
    cr_sha256 cr (authData @ cr_sha256 cr (node_b64_decode challenge @ spki))"

definition validateAssertionCrypto ::
  "crypto \<Rightarrow> string \<Rightarrow> app_attest_data \<Rightarrow> string \<Rightarrow> app_attest_crypto_inputs \<Rightarrow> nat res"
where
  "validateAssertionCrypto cr appId envelope stageLabel inputs =
    bindR (case cr_cbor_decode cr (node_b64_decode (aa_assertion envelope)) of
             Inl m \<Rightarrow> Inl (aaVerifyError ATTESTATION_INVALID (stageLabel @ '' CBOR decode failed: '' @ m))
           | Inr obj \<Rightarrow> assertObjectShape obj stageLabel) (\<lambda>decoded.
    (let authData = da_authenticatorData decoded in
     if length authData < 37
     then Inl (aaVerifyError ATTESTATION_INVALID
       (stageLabel @ '' authenticatorData < 37 bytes (got '' @ show_nat (length authData) @ '')''))
     else
      (let rpIdHash = take 32 authData; counter = be32 (take 4 (drop 33 authData)) in
       if \<not> ctEqual rpIdHash (cr_sha256 cr (utf8 appId))
       then Inl (aaVerifyError ATTESTATION_INVALID
         (stageLabel @ '' rpIdHash mismatch (assertion authData does not bind '' @ appId @ '')''))
       else
        (let nonce = app_attest_nonce cr authData (aa_challenge envelope) (ac_signingKeySpki inputs) in
         bindR (case importP256RawPubkey cr (ac_appAttestPublicKey inputs) of
                  Inl m \<Rightarrow> Inl (aaVerifyError ATTESTATION_INVALID
                    (stageLabel @ '' stored App Attest public key is not a valid P-256 uncompressed point: '' @ m))
                | Inr k \<Rightarrow> Inr k) (\<lambda>pubkey.
         bindR (case cr_ecdsa_verify cr nonce (da_signature decoded) pubkey of
                  Inl m \<Rightarrow> Inl (aaVerifyError ATTESTATION_INVALID (stageLabel @ '' ECDSA verify threw: '' @ m))
                | Inr ok \<Rightarrow> Inr ok) (\<lambda>sigOk.
         if \<not> sigOk
         then Inl (aaVerifyError ATTESTATION_INVALID
           (stageLabel @ '' App Attest assertion signature did not verify against credCert pubkey''))
         else Inr counter))))))"

definition verifyAppAttestAssertion ::
  "crypto \<Rightarrow> string \<Rightarrow> app_attest_data \<Rightarrow> string \<Rightarrow> app_attest_crypto_inputs \<Rightarrow> nat res"
where
  "verifyAppAttestAssertion cr appId envelope stageLabel inputs =
    validateAssertionCrypto cr appId envelope stageLabel inputs"

definition consumeAppAttestForStage ::
  "crypto \<Rightarrow> string \<Rightarrow> 's datastore \<Rightarrow> app_attest_data \<Rightarrow> string \<Rightarrow> string
     \<Rightarrow> app_attest_crypto_inputs \<Rightarrow> 's \<Rightarrow> unit res \<times> 's"
where
  "consumeAppAttestForStage cr appId ds envelope signingKeyId stageLabel inputs s =
    (case verifyAppAttestAssertion cr appId envelope stageLabel inputs of
       Inl e \<Rightarrow> (Inl e, s)
     | Inr _ \<Rightarrow> burn_nonce ds ''app-attest'' stageLabel signingKeyId (aa_challenge envelope) s)"

definition hasAppAttestAssertion :: "manifest \<Rightarrow> bool res" where
  "hasAppAttestAssertion m = has_assertion APP_ATTEST_LABEL m"

section \<open>Facts\<close>

text \<open>What an accepted assertion proves: the signature of the enrolled App Attest key covers the
  app identity, the challenge, and the SPKI of the signing key.\<close>

definition app_attest_proved ::
  "crypto \<Rightarrow> string \<Rightarrow> app_attest_data \<Rightarrow> app_attest_crypto_inputs \<Rightarrow> bool"
where
  "app_attest_proved cr appId envelope inputs \<longleftrightarrow>
    (\<exists>kvs sig ad.
        cr_cbor_decode cr (node_b64_decode (aa_assertion envelope)) = Inr (CMap kvs)
      \<and> map_of kvs ''signature'' = Some (CBytes sig)
      \<and> map_of kvs ''authenticatorData'' = Some (CBytes ad)
      \<and> 37 \<le> length ad
      \<and> take 32 ad = cr_sha256 cr (utf8 appId)
      \<and> length (ac_appAttestPublicKey inputs) = 65 \<and> hd (ac_appAttestPublicKey inputs) = 4
      \<and> cr_p256_point_ok cr (ac_appAttestPublicKey inputs) = Inr ()
      \<and> cr_ecdsa_verify cr
           (app_attest_nonce cr ad (aa_challenge envelope) (ac_signingKeySpki inputs))
           sig (ac_appAttestPublicKey inputs) = Inr True)"

lemma coerceBytes_Some [simp]: "coerceBytes v = Some b \<longleftrightarrow> v = Some (CBytes b)"
  by (cases v rule: coerceBytes.cases) auto

lemma assertObjectShape_Inr:
  "assertObjectShape obj lab = Inr d \<longleftrightarrow>
     (\<exists>kvs. obj = CMap kvs \<and> map_of kvs ''signature'' = Some (CBytes (da_signature d))
        \<and> map_of kvs ''authenticatorData'' = Some (CBytes (da_authenticatorData d)))"
  by (cases d) (auto simp: assertObjectShape_def split: cbor.splits option.splits)

lemma importP256RawPubkey_Inr:
  "importP256RawPubkey cr raw = Inr k \<longleftrightarrow>
     k = raw \<and> length raw = 65 \<and> hd raw = 4 \<and> cr_p256_point_ok cr raw = Inr ()"
  by (auto simp: importP256RawPubkey_def split: sum.splits)

lemma validateAssertionCrypto_Inr_iff:
  "(\<exists>c. validateAssertionCrypto cr appId envelope lab inputs = Inr c)
     \<longleftrightarrow> app_attest_proved cr appId envelope inputs"
proof
  assume "\<exists>c. validateAssertionCrypto cr appId envelope lab inputs = Inr c"
  then show "app_attest_proved cr appId envelope inputs"
    unfolding validateAssertionCrypto_def Let_def app_attest_proved_def
    by (auto simp: assertObjectShape_Inr importP256RawPubkey_Inr split: sum.splits if_splits)
next
  assume "app_attest_proved cr appId envelope inputs"
  then obtain kvs sig ad where p:
    "cr_cbor_decode cr (node_b64_decode (aa_assertion envelope)) = Inr (CMap kvs)"
    "map_of kvs ''signature'' = Some (CBytes sig)"
    "map_of kvs ''authenticatorData'' = Some (CBytes ad)"
    "37 \<le> length ad" "take 32 ad = cr_sha256 cr (utf8 appId)"
    "length (ac_appAttestPublicKey inputs) = 65" "hd (ac_appAttestPublicKey inputs) = 4"
    "cr_p256_point_ok cr (ac_appAttestPublicKey inputs) = Inr ()"
    "cr_ecdsa_verify cr (app_attest_nonce cr ad (aa_challenge envelope) (ac_signingKeySpki inputs))
           sig (ac_appAttestPublicKey inputs) = Inr True"
    unfolding app_attest_proved_def by blast
  then show "\<exists>c. validateAssertionCrypto cr appId envelope lab inputs = Inr c"
    by (simp add: validateAssertionCrypto_def Let_def assertObjectShape_def importP256RawPubkey_def)
qed

lemma consumeAppAttest_Inr:
  "consumeAppAttestForStage cr appId ds env keyId lab inputs s = (Inr u, s') \<longleftrightarrow>
     app_attest_proved cr appId env inputs \<and> ds_burn ds s keyId (aa_challenge env) = (Inr (), s')"
  by (auto simp: consumeAppAttestForStage_def verifyAppAttestAssertion_def burn_nonce_Inr
        simp flip: validateAssertionCrypto_Inr_iff[of cr appId env lab inputs] split: sum.splits)

lemma consumeAppAttest_crypto_failure_keeps_nonce:
  "\<not> app_attest_proved cr appId env inputs \<Longrightarrow>
     \<exists>e. consumeAppAttestForStage cr appId ds env keyId lab inputs s = (Inl e, s)"
  by (auto simp: consumeAppAttestForStage_def verifyAppAttestAssertion_def
        simp flip: validateAssertionCrypto_Inr_iff[of cr appId env lab inputs] split: sum.splits)

lemma extractAppAttestData_Inr:
  "extractAppAttestData m lab = Inr d \<Longrightarrow>
     \<exists>a. Some a \<in> set (mf_assertions m) \<and> as_label a = Some APP_ATTEST_LABEL
       \<and> app_attest_fields (as_data a) = Some d \<and> aa_platform d = ''ios'' \<and> isBase64 (aa_challenge d)"
  by (auto simp: extractAppAttestData_def dest!: find_assertion_Some split: option.splits if_splits)

text \<open>C16. An App Attest envelope is consumed exactly when the enrolled key's signature over the app
  identity, the challenge and the signing key verifies and the datastore burns that challenge for
  that key; if the proof fails, nothing is burned.\<close>

theorem app_attest_consumed_exactly:
  "(consumeAppAttestForStage cr appId ds env keyId lab inputs s = (Inr u, s'))
     = (app_attest_proved cr appId env inputs \<and> ds_burn ds s keyId (aa_challenge env) = (Inr (), s'))
   \<and> (app_attest_proved cr appId env inputs
      \<or> snd (consumeAppAttestForStage cr appId ds env keyId lab inputs s) = s)"
  using consumeAppAttest_Inr[of cr appId ds env keyId lab inputs s u s']
    consumeAppAttest_crypto_failure_keeps_nonce[of cr appId env inputs ds keyId lab s]
  by auto

end
