(* ===== verification/Uri.thy ===== *)
theory Uri
  imports Codec Json
begin

text \<open>
  Percent encoding (\<open>encodeURIComponent\<close>, \<open>decodeURIComponent\<close>) on UTF-8 bytes.
\<close>

definition uri_unreserved :: "char \<Rightarrow> bool" where
  "uri_unreserved c = (is_alnum c \<or> c \<in> set ''-_.!~*()'' \<or> c = CHR 0x27)"

definition hex_upper :: "nat \<Rightarrow> char" where
  "hex_upper d = (if d < 10 then char_of (48 + d) else char_of (55 + d))"

definition encode_char :: "char \<Rightarrow> string" where
  "encode_char c =
    (if uri_unreserved c then [c]
     else [CHR ''%'', hex_upper (of_char c div 16), hex_upper (of_char c mod 16)])"

definition encodeURIComponent :: "string \<Rightarrow> string" where
  "encodeURIComponent s = concat (map encode_char s)"

definition hex_val :: "char \<Rightarrow> nat option" where
  "hex_val c = (let v = radix_val c in if v < 16 then Some v else None)"

text \<open>\<open>None\<close> is the \<open>URIError\<close> of a malformed escape.  An escape sequence that is not UTF-8 also
  raises it; here its bytes pass, and the only caller hands the result to a base64 decoder that
  rejects every byte outside ASCII.\<close>

fun decodeURIComponent :: "string \<Rightarrow> string option" where
  "decodeURIComponent [] = Some []"
| "decodeURIComponent (c # cs) =
     (if c = CHR ''%'' then
        (case cs of
           a # b # rest \<Rightarrow>
             (case (hex_val a, hex_val b) of
                (Some h, Some l) \<Rightarrow> map_option ((#) (char_of (16 * h + l))) (decodeURIComponent rest)
              | _ \<Rightarrow> None)
         | _ \<Rightarrow> None)
      else map_option ((#) c) (decodeURIComponent cs))"

lemma hex_val_upper: "d < 16 \<Longrightarrow> hex_val (hex_upper d) = Some d"
  by (cases "d < 10") (auto simp: hex_val_def hex_upper_def radix_val_def is_digit_def)

lemma decode_encode_char:
  "decodeURIComponent (encode_char c @ s) = map_option ((#) c) (decodeURIComponent s)"
proof (cases "uri_unreserved c")
  case True
  then have "c \<noteq> CHR ''%''"
    by (auto simp: uri_unreserved_def is_alnum_def is_digit_def is_alpha_def)
  with True show ?thesis by (simp add: encode_char_def)
next
  case False
  have "of_char c div 16 < (16 :: nat)"
    using nat_of_char_less_256[of c] by (simp add: less_mult_imp_div_less)
  moreover have "char_of (16 * (of_char c div 16) + of_char c mod 16 :: nat) = c"
    by simp
  ultimately show ?thesis
    using False by (simp add: encode_char_def hex_val_upper)
qed

lemma decodeURIComponent_encode [simp]: "decodeURIComponent (encodeURIComponent s) = Some s"
  by (induction s) (simp_all add: encodeURIComponent_def decode_encode_char)

interpretation uri: codec encodeURIComponent decodeURIComponent
  by unfold_locales simp

end
