(* ===== verification/PlayIntegrity.thy ===== *)
theory PlayIntegrity
  imports Ports Uri
begin

text \<open>
  The Android Stage-2 validator, \<open>verifier/src/attestation/play_integrity.ts\<close>.  Google's side is a
  parameter: the outcome of the OAuth token request and of the \<open>fetch\<close> of
  \<open>decodeIntegrityToken\<close> for a request.  The decoded payload is an unchecked cast, so its fields
  are read from a JavaScript value.
\<close>

definition piVerifyError :: "verify_error_code \<Rightarrow> string \<Rightarrow> exn" where
  "piVerifyError c d = verify_err_cat c d ''play-integrity''"

record play_integrity_data =
  pi_challenge :: string
  pi_token :: string
  pi_platform :: string

record play_integrity_config =
  pc_packageName :: string

definition MIN_SDK_VERSION_FOR_STRONG :: int where
  "MIN_SDK_VERSION_FOR_STRONG = 33"
definition TOKEN_FRESHNESS_WINDOW_MS :: int where
  "TOKEN_FRESHNESS_WINDOW_MS = 30 * 60 * 1000"
definition DECODE_TIMEOUT_MS :: nat where
  "DECODE_TIMEOUT_MS = 3000"
definition MIN_TOKEN_LENGTH :: nat where
  "MIN_TOKEN_LENGTH = 300"
definition MAX_TOKEN_LENGTH :: nat where
  "MAX_TOKEN_LENGTH = 16384"

definition isPlausibleTokenAlphabet :: "string \<Rightarrow> bool" where
  "isPlausibleTokenAlphabet v = (v \<noteq> [] \<and> list_all (\<lambda>c. is_alnum c \<or> c \<in> {CHR ''_'', CHR ''.'', CHR ''-''}) v)"

definition hasPlayIntegrityAssertion :: "manifest \<Rightarrow> bool res" where
  "hasPlayIntegrityAssertion m = has_assertion PLAY_INTEGRITY_LABEL m"

definition play_integrity_fields :: "jsval \<Rightarrow> play_integrity_data option" where
  "play_integrity_fields d =
    (case (as_str (obj_get d ''challenge''), as_str (obj_get d ''token''), as_str (obj_get d ''platform'')) of
       (Some c, Some t, Some p) \<Rightarrow> Some \<lparr>pi_challenge = c, pi_token = t, pi_platform = p\<rparr>
     | _ \<Rightarrow> None)"

definition validatePlayIntegrityStructure :: "manifest \<Rightarrow> string \<Rightarrow> play_integrity_data res" where
  "validatePlayIntegrityStructure m stageLabel =
    bindR (find_assertion PLAY_INTEGRITY_LABEL (mf_assertions m)) (\<lambda>found.
    (case found of
       None \<Rightarrow> Inl (piVerifyError ATTESTATION_MISSING
                (stageLabel @ '' manifest lacks '' @ PLAY_INTEGRITY_LABEL @ '' assertion''))
     | Some a \<Rightarrow>
         (case play_integrity_fields (as_data a) of
            None \<Rightarrow> Inl (piVerifyError ATTESTATION_INVALID
                     (stageLabel @ '' '' @ PLAY_INTEGRITY_LABEL @ '' is malformed''))
          | Some d \<Rightarrow>
              if pi_platform d \<noteq> ''android''
              then Inl (piVerifyError ATTESTATION_INVALID
                (stageLabel @ '' '' @ PLAY_INTEGRITY_LABEL @ '' platform must be '' @ quote1 ''android''
                 @ '' (got '' @ quote1 (pi_platform d) @ '')''))
              else if length (pi_token d) < MIN_TOKEN_LENGTH \<or> length (pi_token d) > MAX_TOKEN_LENGTH
                      \<or> \<not> isPlausibleTokenAlphabet (pi_token d)
              then Inl (piVerifyError ATTESTATION_INVALID
                (stageLabel @ '' '' @ PLAY_INTEGRITY_LABEL @ '' token failed plausibility check (length=''
                 @ show_nat (length (pi_token d)) @ '')''))
              else if \<not> isBase64 (pi_challenge d)
              then Inl (piVerifyError ATTESTATION_INVALID
                (stageLabel @ '' '' @ PLAY_INTEGRITY_LABEL @ '' challenge is not base64''))
              else Inr d)))"

definition expectedRequestHash :: "crypto \<Rightarrow> string \<Rightarrow> bytes \<Rightarrow> string" where
  "expectedRequestHash cr challenge spki = base64url (cr_sha256 cr (node_b64_decode challenge @ spki))"

section \<open>The call to Google\<close>

datatype auth_outcome = Auth_throws "string option" | Auth_token "string option"

datatype fetch_outcome =
    Fetch_throws "string option" "string option"
  | Http_response nat "string + jsval"

record google =
  go_auth :: auth_outcome
  go_decode :: "string \<Rightarrow> string \<Rightarrow> string \<Rightarrow> fetch_outcome"

definition is_timeout :: "string option \<Rightarrow> string option \<Rightarrow> bool" where
  "is_timeout name msg =
    (name = Some ''TimeoutError'' \<or> name = Some ''AbortError''
     \<or> (case msg of None \<Rightarrow> False
        | Some m \<Rightarrow> includes_str ''aborted'' m \<or> includes_str ''timeout'' m))"

definition decode_status_code :: "nat \<Rightarrow> verify_error_code" where
  "decode_status_code status =
    (let isOurFault = status = 401 \<or> status = 403 \<or> status = 404 in
     if 500 \<le> status \<or> isOurFault then VERIFIER_UNAVAILABLE else ATTESTATION_INVALID)"

definition decodeIntegrityToken :: "google \<Rightarrow> string \<Rightarrow> play_integrity_config \<Rightarrow> jsval res" where
  "decodeIntegrityToken g token config =
    (let url = ''https://playintegrity.googleapis.com/v1/'' @ encodeURIComponent (pc_packageName config)
               @ '':decodeIntegrityToken'' in
     (case go_auth g of
        Auth_throws m \<Rightarrow> Inl (piVerifyError VERIFIER_UNAVAILABLE
          (''Play Integrity auth token failed: '' @ null_or m ''(no message)''))
      | Auth_token t \<Rightarrow>
          (if null_or t [] = []
           then Inl (piVerifyError VERIFIER_UNAVAILABLE ''Play Integrity auth returned empty access token'')
           else (case go_decode g url (null_or t [])
                        (json_stringify (JObj [(''integrity_token'', JStr token)])) of
              Fetch_throws name msg \<Rightarrow>
                Inl (piVerifyError VERIFIER_UNAVAILABLE
                  (''Play Integrity decode '' @
                   (if is_timeout name msg then ''timeout after '' @ show_nat DECODE_TIMEOUT_MS @ ''ms''
                    else ''network error: '' @ null_or msg ''(no message)'')))
            | Http_response status body \<Rightarrow>
                if \<not> (200 \<le> status \<and> status \<le> 299)
                then Inl (piVerifyError (decode_status_code status)
                  (''Play Integrity decode rejected (HTTP '' @ show_nat status @ '')''))
                else (case body of
                   Inl m \<Rightarrow> Inl (piVerifyError VERIFIER_UNAVAILABLE
                     (''Play Integrity decode returned non-JSON: '' @ m))
                 | Inr v \<Rightarrow> Inr v)))))"

section \<open>Verdicts\<close>

text \<open>\<open>deviceVerdicts.includes(x)\<close>, a method of arrays and of strings.\<close>

fun includes_val :: "jsval \<Rightarrow> string \<Rightarrow> bool res" where
  "includes_val (JArr vs) x = Inr (JStr x \<in> set vs)"
| "includes_val (JStr s) x = Inr (includes_str x s)"
| "includes_val _ x = Inl TypeErr"

text \<open>\<open>deviceVerdicts.join(",") || "(empty)"\<close>.\<close>

definition joined_verdicts :: "jsval \<Rightarrow> string res" where
  "joined_verdicts v =
    (case v of
       JArr _ \<Rightarrow> Inr (if js_display v = [] then ''(empty)'' else js_display v)
     | _ \<Rightarrow> Inl TypeErr)"

text \<open>\<open>deviceRecognitionVerdict ?? []\<close>.\<close>

definition verdict_list :: "jsval \<Rightarrow> jsval" where
  "verdict_list v = (if is_nullish v then JArr [] else v)"

definition display_or_missing :: "jsval \<Rightarrow> string" where
  "display_or_missing v = (if is_nullish v then ''(missing)'' else js_display v)"

definition enforce_sdk :: "jsval \<Rightarrow> string \<Rightarrow> unit res" where
  "enforce_sdk sdkVersion stageLabel =
    (case sdkVersion of
       JNum (DecNum m e) \<Rightarrow>
         if dec_less_int m e MIN_SDK_VERSION_FOR_STRONG
         then Inl (piVerifyError ATTESTATION_INVALID
           (stageLabel @ '' Play Integrity sdkVersion '' @ js_num_string (DecNum m e) @ '' below minimum ''
            @ show_int MIN_SDK_VERSION_FOR_STRONG
            @ '' (Android 13+); STRONG on Android <=12 carries no patch-currency guarantee''))
         else Inr ()
     | _ \<Rightarrow> Inl (piVerifyError ATTESTATION_INVALID
         (stageLabel @ '' Play Integrity deviceAttributes.sdkVersion missing or non-numeric '' @ em_dash
          @ '' Play Console Optional device labels must be enabled'')))"

text \<open>\<open>Math.round(Math.abs(now - x) / 1000)\<close>.\<close>

definition dec_skew_seconds :: "int \<Rightarrow> int \<Rightarrow> int \<Rightarrow> int" where
  "dec_skew_seconds m e now =
    (let k = (if 0 \<le> e then 1 else 10 ^ nat (- e));
         d = (if 0 \<le> e then \<bar>now - m * 10 ^ nat e\<bar> else \<bar>now * k - m\<bar>) in
     (d + 500 * k) div (1000 * k))"

definition enforce_fresh :: "jsval \<Rightarrow> string \<Rightarrow> int \<Rightarrow> unit res" where
  "enforce_fresh ts stageLabel now =
    (case (case ts of JStr t \<Rightarrow> js_number t | _ \<Rightarrow> NaNum) of
       DecNum m e \<Rightarrow>
         if dec_away m e now TOKEN_FRESHNESS_WINDOW_MS
         then Inl (piVerifyError ATTESTATION_INVALID
           (stageLabel @ '' Play Integrity token too old (clock skew ''
            @ show_int (dec_skew_seconds m e now) @ ''s; window ''
            @ show_int (TOKEN_FRESHNESS_WINDOW_MS div 1000) @ ''s)''))
         else Inr ()
     | _ \<Rightarrow> Inl (piVerifyError ATTESTATION_INVALID
         (stageLabel @ '' Play Integrity timestampMillis missing or non-numeric'')))"

definition enforceVerdicts ::
  "jsval \<Rightarrow> play_integrity_config \<Rightarrow> string \<Rightarrow> string \<Rightarrow> int \<Rightarrow> unit res"
where
  "enforceVerdicts payload config stageLabel requestHash now =
    (if is_nullish payload then Inl TypeErr
     else
      (let ext = obj_get payload ''tokenPayloadExternal'' in
       if \<not> truthy ext
       then Inl (piVerifyError ATTESTATION_INVALID
         (stageLabel @ '' Play Integrity payload missing tokenPayloadExternal''))
       else
        (let details = obj_get ext ''requestDetails'';
             reqPkg = opt_get details ''requestPackageName'';
             gotHash = opt_get details ''requestHash'';
             appVerdict = opt_get (obj_get ext ''appIntegrity'') ''appRecognitionVerdict'';
             device = obj_get ext ''deviceIntegrity'';
             deviceVerdicts = verdict_list (opt_get device ''deviceRecognitionVerdict'') in
         bindR (guardR (reqPkg = JStr (pc_packageName config))
           (piVerifyError ATTESTATION_INVALID
             (stageLabel @ '' Play Integrity requestPackageName mismatch (got ''
              @ quote1 (display_or_missing reqPkg) @ '', want '' @ quote1 (pc_packageName config) @ '')''))) (\<lambda>_.
         bindR (derefR (piVerifyError ATTESTATION_INVALID
                  (stageLabel @ '' Play Integrity requestHash missing'')) (as_str gotHash)) (\<lambda>hash.
         bindR (guardR (ctEqual (utf8 hash) (utf8 requestHash))
           (piVerifyError ATTESTATION_INVALID
             (stageLabel @ '' Play Integrity requestHash mismatch '' @ em_dash
              @ '' token is not bound to this challenge and signing key''))) (\<lambda>_.
         bindR (guardR (appVerdict = JStr ''PLAY_RECOGNIZED'')
           (piVerifyError ATTESTATION_INVALID
             (stageLabel @ '' Play Integrity appRecognitionVerdict is ''
              @ quote1 (display_or_missing appVerdict) @ '', want '' @ quote1 ''PLAY_RECOGNIZED''))) (\<lambda>_.
         bindR (includes_val deviceVerdicts ''MEETS_STRONG_INTEGRITY'') (\<lambda>strong.
         bindR (if strong then Inr ()
                else bindR (joined_verdicts deviceVerdicts) (\<lambda>j.
                  Inl (piVerifyError ATTESTATION_INVALID
                    (stageLabel @ '' Play Integrity deviceRecognitionVerdict lacks MEETS_STRONG_INTEGRITY (got [''
                     @ j @ ''])'')))) (\<lambda>_.
         bindR (enforce_sdk (opt_get (opt_get device ''deviceAttributes'') ''sdkVersion'') stageLabel) (\<lambda>_.
         enforce_fresh (opt_get details ''timestampMillis'') stageLabel now))))))))))"

definition verifyPlayIntegrityToken ::
  "crypto \<Rightarrow> google \<Rightarrow> int \<Rightarrow> play_integrity_data \<Rightarrow> string \<Rightarrow> bytes
     \<Rightarrow> play_integrity_config option \<Rightarrow> unit res"
where
  "verifyPlayIntegrityToken cr g now envelope stageLabel spki config =
    (case config of
       None \<Rightarrow> Inr ()
     | Some c \<Rightarrow>
         bindR (decodeIntegrityToken g (pi_token envelope) c) (\<lambda>payload.
         enforceVerdicts payload c stageLabel (expectedRequestHash cr (pi_challenge envelope) spki) now))"

definition consumePlayIntegrityForStage ::
  "crypto \<Rightarrow> google \<Rightarrow> int \<Rightarrow> 's datastore \<Rightarrow> play_integrity_data \<Rightarrow> string \<Rightarrow> string
     \<Rightarrow> bytes \<Rightarrow> play_integrity_config option \<Rightarrow> 's \<Rightarrow> unit res \<times> 's"
where
  "consumePlayIntegrityForStage cr g now ds envelope signingKeyId stageLabel spki config s =
    (case verifyPlayIntegrityToken cr g now envelope stageLabel spki config of
       Inl e \<Rightarrow> (Inl e, s)
     | Inr _ \<Rightarrow> burn_nonce ds ''play-integrity'' stageLabel signingKeyId (pi_challenge envelope) s)"

section \<open>Facts\<close>

text \<open>The verdict an accepted payload carries.\<close>

definition strong_verdict :: "jsval \<Rightarrow> bool" where
  "strong_verdict v \<longleftrightarrow>
    (\<exists>vs. v = JArr vs \<and> JStr ''MEETS_STRONG_INTEGRITY'' \<in> set vs)
    \<or> (\<exists>s. v = JStr s \<and> includes_str ''MEETS_STRONG_INTEGRITY'' s)"

definition verdicts_ok :: "jsval \<Rightarrow> play_integrity_config \<Rightarrow> string \<Rightarrow> int \<Rightarrow> bool" where
  "verdicts_ok payload config requestHash now \<longleftrightarrow>
    (let ext = obj_get payload ''tokenPayloadExternal'';
         details = obj_get ext ''requestDetails''; device = obj_get ext ''deviceIntegrity'' in
     opt_get details ''requestPackageName'' = JStr (pc_packageName config)
     \<and> opt_get details ''requestHash'' = JStr requestHash
     \<and> opt_get (obj_get ext ''appIntegrity'') ''appRecognitionVerdict'' = JStr ''PLAY_RECOGNIZED''
     \<and> strong_verdict (opt_get device ''deviceRecognitionVerdict'')
     \<and> (\<exists>m e. opt_get (opt_get device ''deviceAttributes'') ''sdkVersion'' = JNum (DecNum m e)
            \<and> \<not> dec_less_int m e MIN_SDK_VERSION_FOR_STRONG)
     \<and> (\<exists>t m e. opt_get details ''timestampMillis'' = JStr t \<and> js_number t = DecNum m e
            \<and> \<not> dec_away m e now TOKEN_FRESHNESS_WINDOW_MS))"

lemma includes_val_True:
  "includes_val (verdict_list v) ''MEETS_STRONG_INTEGRITY'' = Inr True \<longleftrightarrow> strong_verdict v"
  by (cases v) (auto simp: verdict_list_def is_nullish_def strong_verdict_def)

lemma enforce_sdk_Inr:
  "enforce_sdk v lab = Inr u \<longleftrightarrow> (\<exists>m e. v = JNum (DecNum m e) \<and> \<not> dec_less_int m e MIN_SDK_VERSION_FOR_STRONG)"
  by (auto simp: enforce_sdk_def split: jsval.splits jsnum.splits)

lemma enforce_fresh_Inr:
  "enforce_fresh v lab now = Inr u \<longleftrightarrow> (\<exists>t m e. v = JStr t \<and> js_number t = DecNum m e
     \<and> \<not> dec_away m e now TOKEN_FRESHNESS_WINDOW_MS)"
  by (auto simp: enforce_fresh_def split: jsval.splits jsnum.splits)

lemma obj_get_not_object: "obj_get v k \<noteq> JUndef \<Longrightarrow> \<exists>kvs. v = JObj kvs"
  by (cases v) auto

lemma strong_or_throw:
  "bindR (includes_val dv x) (\<lambda>strong.
     bindR (if strong then Inr () else bindR (joined_verdicts dv) (\<lambda>j. Inl (f j))) k) = Inr u
   \<longleftrightarrow> includes_val dv x = Inr True \<and> k () = Inr u"
  by (auto split: if_splits)

lemma enforceVerdicts_Inr_iff:
  "enforceVerdicts payload config lab h now = Inr u \<longleftrightarrow> verdicts_ok payload config h now"
proof -
  let ?ext = "obj_get payload ''tokenPayloadExternal''"
  have ext: "opt_get (obj_get ?ext k) l = JStr s \<Longrightarrow> truthy ?ext \<and> \<not> is_nullish payload" for k l s
    using obj_get_not_object[of ?ext k] obj_get_not_object[of payload "''tokenPayloadExternal''"]
    by (auto simp: opt_get_def is_nullish_def split: if_splits)
  show ?thesis
  proof (cases "truthy ?ext \<and> \<not> is_nullish payload")
    case True
    then show ?thesis
      by (auto simp: enforceVerdicts_def verdicts_ok_def Let_def strong_or_throw includes_val_True
            enforce_sdk_Inr enforce_fresh_Inr simp del: obj_get.simps truthy.simps)
  next
    case False
    then have "\<not> verdicts_ok payload config h now"
      using ext unfolding verdicts_ok_def Let_def by blast
    moreover from False have "enforceVerdicts payload config lab h now \<noteq> Inr u"
      by (auto simp: enforceVerdicts_def Let_def simp del: obj_get.simps truthy.simps)
    ultimately show ?thesis by blast
  qed
qed

lemma verifyPlayIntegrityToken_Inr:
  "verifyPlayIntegrityToken cr g now env lab spki config = Inr u \<longleftrightarrow>
     (\<forall>c. config = Some c \<longrightarrow> (\<exists>payload. decodeIntegrityToken g (pi_token env) c = Inr payload
        \<and> verdicts_ok payload c (expectedRequestHash cr (pi_challenge env) spki) now))"
  by (cases config) (simp_all add: verifyPlayIntegrityToken_def enforceVerdicts_Inr_iff)

lemma consumePlayIntegrity_Inr:
  "consumePlayIntegrityForStage cr g now ds env keyId lab spki config s = (Inr u, s') \<longleftrightarrow>
     verifyPlayIntegrityToken cr g now env lab spki config = Inr ()
     \<and> ds_burn ds s keyId (pi_challenge env) = (Inr (), s')"
  by (cases "verifyPlayIntegrityToken cr g now env lab spki config")
     (simp_all add: consumePlayIntegrityForStage_def burn_nonce_Inr)

lemma validatePlayIntegrityStructure_Inr:
  assumes "validatePlayIntegrityStructure m lab = Inr d"
  shows "\<exists>a. Some a \<in> set (mf_assertions m) \<and> as_label a = Some PLAY_INTEGRITY_LABEL
       \<and> play_integrity_fields (as_data a) = Some d \<and> pi_platform d = ''android''
       \<and> length (pi_token d) \<le> MAX_TOKEN_LENGTH"
proof -
  from assms obtain found where f: "find_assertion PLAY_INTEGRITY_LABEL (mf_assertions m) = Inr found"
    unfolding validatePlayIntegrityStructure_def bindR_Inr_iff by blast
  with assms obtain a where a: "found = Some a"
    by (cases found) (simp_all add: validatePlayIntegrityStructure_def)
  with assms f obtain d' where "play_integrity_fields (as_data a) = Some d'"
    by (cases "play_integrity_fields (as_data a)") (simp_all add: validatePlayIntegrityStructure_def)
  with assms f a find_assertion_Some[of _ _ a] show ?thesis
    by (auto simp: validatePlayIntegrityStructure_def split: if_splits)
qed

text \<open>With a Play Integrity configuration an envelope is consumed exactly when Google decodes the token
  to a payload with the required verdicts (package, request hash over challenge and signing key,
  recognized app, strong device integrity, SDK level, freshness) and the datastore burns the
  challenge; if the token is not proved, nothing is burned.\<close>

lemma play_integrity_consumed_exactly:
  "(consumePlayIntegrityForStage cr g now ds env keyId lab spki (Some c) s = (Inr u, s'))
     = ((\<exists>payload. decodeIntegrityToken g (pi_token env) c = Inr payload
           \<and> verdicts_ok payload c (expectedRequestHash cr (pi_challenge env) spki) now)
        \<and> ds_burn ds s keyId (pi_challenge env) = (Inr (), s'))
   \<and> ((\<exists>payload. decodeIntegrityToken g (pi_token env) c = Inr payload
           \<and> verdicts_ok payload c (expectedRequestHash cr (pi_challenge env) spki) now)
      \<or> snd (consumePlayIntegrityForStage cr g now ds env keyId lab spki (Some c) s) = s)"
proof -
  have p: "(\<exists>payload. decodeIntegrityToken g (pi_token env) c = Inr payload
           \<and> verdicts_ok payload c (expectedRequestHash cr (pi_challenge env) spki) now)
     = (verifyPlayIntegrityToken cr g now env lab spki (Some c) = Inr ())"
    by (simp add: verifyPlayIntegrityToken_Inr)
  show ?thesis
    unfolding p consumePlayIntegrity_Inr
    by (cases "verifyPlayIntegrityToken cr g now env lab spki (Some c)")
       (simp_all add: consumePlayIntegrityForStage_def)
qed

end
