(* ===== verification/Utf16.thy ===== *)
theory Utf16
  imports Prelude
begin

text \<open>
  The UTF-16 code units JavaScript sees in a text, and back.  A text of the development is its
  UTF-8 bytes; an unpaired surrogate is kept as the three bytes it would have.
\<close>

definition is_high :: "nat \<Rightarrow> bool" where
  "is_high u = (55296 \<le> u \<and> u \<le> 56319)"

definition is_low :: "nat \<Rightarrow> bool" where
  "is_low u = (56320 \<le> u \<and> u \<le> 57343)"

text \<open>The UTF-8 bytes of a code point.\<close>

definition utf8_of_code :: "nat \<Rightarrow> string" where
  "utf8_of_code n =
    (if n < 0x80 then [char_of n]
     else if n < 0x800 then [char_of (0xC0 + n div 64), char_of (0x80 + n mod 64)]
     else if n < 0x10000
     then [char_of (0xE0 + n div 4096), char_of (0x80 + n div 64 mod 64), char_of (0x80 + n mod 64)]
     else [char_of (0xF0 + n div 262144), char_of (0x80 + n div 4096 mod 64),
           char_of (0x80 + n div 64 mod 64), char_of (0x80 + n mod 64)])"

definition low6 :: "char \<Rightarrow> nat" where
  "low6 c = of_char c mod 64"

definition units_of_code :: "nat \<Rightarrow> nat list" where
  "units_of_code n =
    (if n < 0x10000 then [n] else [0xD800 + (n - 0x10000) div 1024, 0xDC00 + (n - 0x10000) mod 1024])"

text \<open>The lead byte says how many bytes a character has; a text that ends early ends there.\<close>

fun units :: "string \<Rightarrow> nat list" where
  "units [] = []"
| "units (a # s) =
     (let n = of_char a :: nat in
      if n < 0x80 then n # units s
      else if n < 0xE0 then
        (case s of b # s' \<Rightarrow> ((n mod 32) * 64 + low6 b) # units s' | [] \<Rightarrow> [])
      else if n < 0xF0 then
        (case s of b # c # s' \<Rightarrow> ((n mod 16) * 4096 + low6 b * 64 + low6 c) # units s' | _ \<Rightarrow> [])
      else
        (case s of
           b # c # d # s' \<Rightarrow>
             units_of_code ((n mod 8) * 262144 + low6 b * 4096 + low6 c * 64 + low6 d) @ units s'
         | _ \<Rightarrow> []))"

fun of_units :: "nat list \<Rightarrow> string" where
  "of_units [] = []"
| "of_units (u # us) =
     (case us of
        v # vs \<Rightarrow>
          if is_high u \<and> is_low v
          then utf8_of_code (0x10000 + (u - 0xD800) * 1024 + (v - 0xDC00)) @ of_units vs
          else utf8_of_code u @ of_units us
      | [] \<Rightarrow> utf8_of_code u)"

section \<open>Round trip\<close>

lemma mod_base: "x < k \<Longrightarrow> (k * q + x) mod k = (x :: nat)"
  by simp

lemma char_code: "n < 256 \<Longrightarrow> (of_char (char_of n :: char) :: nat) = n"
  by simp

lemma low6_char [simp]: "low6 (char_of (0x80 + m mod 64)) = m mod 64"
proof -
  have lt: "m mod 64 < 64" by simp
  have "(of_char (char_of (0x80 + m mod 64) :: char) :: nat) = 64 * 2 + m mod 64"
    using lt by (subst char_code) simp_all
  then show ?thesis unfolding low6_def using mod_base[OF lt, of 2] by simp
qed

lemma split4096: "n div 4096 * 4096 + n div 64 mod 64 * 64 + n mod 64 = (n :: nat)"
proof -
  have "n div 64 = n div 4096 * 64 + n div 64 mod 64"
    using div_mult_mod_eq[of "n div 64" 64] by (simp flip: div_mult2_eq)
  moreover have "n = n div 64 * 64 + n mod 64" using div_mult_mod_eq[of n 64] by simp
  ultimately show ?thesis by linarith
qed

lemma split262144:
  "n div 262144 * 262144 + n div 4096 mod 64 * 4096 + n div 64 mod 64 * 64 + n mod 64 = (n :: nat)"
proof -
  have "n div 4096 = n div 262144 * 64 + n div 4096 mod 64"
    using div_mult_mod_eq[of "n div 4096" 64] by (simp flip: div_mult2_eq)
  then show ?thesis using split4096[of n] by linarith
qed

lemma units_utf8_1: "n < 0x80 \<Longrightarrow> units (utf8_of_code n @ s) = n # units s"
proof -
  assume n: "n < 0x80"
  then have "(of_char (char_of n :: char) :: nat) = n" by (intro char_code) simp
  with n show ?thesis by (simp add: utf8_of_code_def del: of_char_of)
qed

lemma units_utf8_2:
  assumes "0x80 \<le> n" "n < 0x800" shows "units (utf8_of_code n @ s) = n # units s"
proof -
  have lt: "n div 64 < 32" using assms by simp
  have c: "(of_char (char_of (0xC0 + n div 64) :: char) :: nat) = 0xC0 + n div 64"
    using lt by (subst char_code) simp_all
  have m: "(0xC0 + n div 64) mod 32 = n div 64" using mod_base[OF lt, of 6] by simp
  have "n div 64 * 64 + n mod 64 = n" by simp
  with assms lt show ?thesis
    by (simp add: utf8_of_code_def Let_def c m lt del: of_char_of)
qed

lemma units_utf8_3:
  assumes "0x800 \<le> n" "n < 0x10000" shows "units (utf8_of_code n @ s) = n # units s"
proof -
  have lt: "n div 4096 < 16" using assms by simp
  have c: "(of_char (char_of (0xE0 + n div 4096) :: char) :: nat) = 0xE0 + n div 4096"
    using lt by (subst char_code) simp_all
  have m: "(0xE0 + n div 4096) mod 16 = n div 4096" using mod_base[OF lt, of 14] by simp
  with assms lt split4096[of n] show ?thesis
    by (simp add: utf8_of_code_def Let_def c m lt del: of_char_of)
qed

lemma units_utf8_4:
  assumes "0x10000 \<le> n" "n < 0x110000" shows "units (utf8_of_code n @ s) = units_of_code n @ units s"
proof -
  have lt: "n div 262144 < 8" using assms by simp
  have c: "(of_char (char_of (0xF0 + n div 262144) :: char) :: nat) = 0xF0 + n div 262144"
    using lt by (subst char_code) simp_all
  have m: "(0xF0 + n div 262144) mod 8 = n div 262144" using mod_base[OF lt, of 30] by simp
  with assms lt split262144[of n] show ?thesis
    by (simp add: utf8_of_code_def Let_def c m lt del: of_char_of)
qed

lemma units_utf8: "n < 0x10000 \<Longrightarrow> units (utf8_of_code n @ s) = n # units s"
  using units_utf8_1 units_utf8_2 units_utf8_3 by (meson not_le)

lemma units_of_units: "\<forall>u \<in> set us. u < 0x10000 \<Longrightarrow> units (of_units us) = us"
proof (induction us rule: of_units.induct)
  case (2 u us)
  show ?case
  proof (cases us)
    case Nil
    then show ?thesis using 2 units_utf8[of u "[]"] by simp
  next
    case (Cons v vs)
    show ?thesis
    proof (cases "is_high u \<and> is_low v")
      case True
      let ?n = "0x10000 + (u - 0xD800) * 1024 + (v - 0xDC00)"
      have b: "u - 0xD800 < 1024" "v - 0xDC00 < 1024" "0xD800 \<le> u" "0xDC00 \<le> v"
        using True by (auto simp: is_high_def is_low_def)
      have dm: "((u - 0xD800) * 1024 + (v - 0xDC00)) div 1024 = u - 0xD800"
        "((u - 0xD800) * 1024 + (v - 0xDC00)) mod 1024 = v - 0xDC00"
        using b(2) mod_base[of "v - 0xDC00" 1024 "u - 0xD800"] by (simp_all only: mult.commute)
      have "?n < 0x110000" using b by simp
      then have "units (utf8_of_code ?n @ of_units vs) = units_of_code ?n @ units (of_units vs)"
        by (intro units_utf8_4) simp_all
      moreover have "units_of_code ?n = [u, v]"
        using b dm by (simp add: units_of_code_def)
      ultimately show ?thesis using 2 Cons True by simp
    next
      case False
      then have "of_units (u # us) = utf8_of_code u @ of_units us" using Cons by auto
      moreover have "units (of_units us) = us" using "2.IH"(2)[OF Cons False] "2.prems" by simp
      ultimately show ?thesis using "2.prems" units_utf8[of u "of_units us"] by simp
    qed
  qed
qed simp

section \<open>Paired surrogates\<close>

fun surrogates_paired :: "nat list \<Rightarrow> bool" where
  "surrogates_paired [] = True"
| "surrogates_paired (u # us) =
     (if is_high u then us \<noteq> [] \<and> is_low (hd us) \<and> surrogates_paired (tl us)
      else \<not> is_low u \<and> surrogates_paired us)"

lemma low_not_high: "is_low u \<Longrightarrow> \<not> is_high u"
  by (simp add: is_low_def is_high_def)

text \<open>Without an unpaired high surrogate at its end, a piece from the front of a text is well formed.\<close>

definition drop_high :: "nat list \<Rightarrow> nat list" where
  "drop_high us = (if us \<noteq> [] \<and> is_high (last us) then butlast us else us)"

lemma drop_high_Cons:
  "drop_high (u # us) = (if us = [] then if is_high u then [] else [u] else u # drop_high us)"
  by (simp add: drop_high_def)

lemma paired_take: "surrogates_paired us \<Longrightarrow> surrogates_paired (drop_high (take n us))"
proof (induction us arbitrary: n rule: surrogates_paired.induct)
  case (2 u us)
  show ?case
  proof (cases n)
    case (Suc m)
    show ?thesis
    proof (cases "is_high u")
      case True
      with "2.prems" obtain v vs where us: "us = v # vs" "is_low v" "surrogates_paired vs"
        by (cases us) auto
      have "surrogates_paired (drop_high (take (m - 1) vs))" using "2.IH"(1)[of "m - 1"] True us by simp
      with us True low_not_high[OF us(2)] show ?thesis
        by (cases m) (simp_all add: Suc drop_high_Cons)
    next
      case False
      with "2.prems" "2.IH"(2)[of m] show ?thesis by (simp add: Suc drop_high_Cons)
    qed
  qed (simp add: drop_high_def)
qed (simp add: drop_high_def)

lemma units_bound: "u \<in> set (units s) \<Longrightarrow> u < 0x10000"
proof (induction s rule: units.induct)
  case (2 a s)
  have low: "low6 c \<le> 63" for c by (simp add: low6_def less_Suc_eq_le[symmetric])
  have code: "w < 0x10000" if "w \<in> set (units_of_code n)" "n < 0x200000" for w n
    using that by (auto simp: units_of_code_def split: if_splits)
  let ?n = "of_char a :: nat"
  have m: "?n mod 32 \<le> 31" "?n mod 16 \<le> 15" "?n mod 8 \<le> 7"
    by (simp_all add: less_Suc_eq_le[symmetric])
  have three: "?n mod 16 * 4096 + low6 b * 64 + low6 c < 0x10000" for b c
    using m(2) low[of b] low[of c] by linarith
  have four: "?n mod 8 * 262144 + low6 b * 4096 + low6 c * 64 + low6 d < 0x200000" for b c d
    using m(3) low[of b] low[of c] low[of d] by linarith
  have two: "?n mod 32 * 64 + low6 b < 0x10000" for b
    using m(1) low[of b] by linarith
  show ?case
    using "2.prems" "2.IH" two three code[OF _ four]
    by (auto simp: Let_def split: if_splits list.splits)
qed simp

end
