(* ===== verification/Sanitize.thy ===== *)
theory Sanitize
  imports Errors Structure Dates Utf16
begin

text \<open>
  The persisted form of a verified store, \<open>verifier/src/sanitize.ts\<close>.  The TSA name is lifted out
  of an attacker-influenced explanation; that part works on lists of UTF-16 code units, because
  it removes unpaired surrogates.
\<close>

record sanitized_assertion =
  sa_label :: string
  sa_data :: jsval

record sanitized_ingredient =
  sg_title :: "string option"
  sg_format :: "string option"
  sg_relationship :: "string option"
  sg_active_manifest :: "string option"

record sanitized_signature_info =
  ss_issuer :: "string option"
  ss_common_name :: "string option"
  ss_alg :: "string option"
  ss_time :: "string option"
  ss_timestamp_authority :: "string option"

record sanitized_manifest =
  sm_label :: string
  sm_claim_generator :: "string option"
  sm_title :: "string option"
  sm_format :: "string option"
  sm_signature_info :: sanitized_signature_info
  sm_assertions :: "sanitized_assertion list"
  sm_ingredients :: "sanitized_ingredient list"
  sm_parent_label :: "string option"

record sanitized_status =
  sv_code :: "string option"
  sv_explanation :: "string option"
  sv_url :: "string option"

record sanitized_store =
  sn_active_manifest :: "sanitized_manifest option"
  sn_manifests :: "(string \<times> sanitized_manifest) list"
  sn_validation_status :: "sanitized_status list"
  sn_validation_state :: string
  sn_trust_source :: string

section \<open>The TSA name\<close>

text \<open>\<open>CONTROL_BYTES\<close>: every control but tab, LF and CR, and DEL.\<close>

definition is_control :: "nat \<Rightarrow> bool" where
  "is_control u = (u \<le> 8 \<or> u = 11 \<or> u = 12 \<or> (14 \<le> u \<and> u \<le> 31) \<or> u = 127)"

text \<open>\<open>replace(LONE_SURROGATE, "")\<close>: one pass, the neighbours being those of the original string.\<close>

fun drop_lone :: "nat option \<Rightarrow> nat list \<Rightarrow> nat list" where
  "drop_lone prev [] = []"
| "drop_lone prev (u # us) =
     (if is_high u then
        (if us \<noteq> [] \<and> is_low (hd us) then u # drop_lone (Some u) us else drop_lone (Some u) us)
      else if is_low u then
        (case prev of
           Some p \<Rightarrow> if is_high p then u # drop_lone (Some u) us else drop_lone (Some u) us
         | None \<Rightarrow> drop_lone (Some u) us)
      else u # drop_lone (Some u) us)"

text \<open>The white space \<open>trim\<close> removes.\<close>

definition is_js_space :: "nat \<Rightarrow> bool" where
  "is_js_space u = (u = 32 \<or> (9 \<le> u \<and> u \<le> 13) \<or> u = 160 \<or> u = 5760 \<or> (8192 \<le> u \<and> u \<le> 8202)
     \<or> u = 8232 \<or> u = 8233 \<or> u = 8239 \<or> u = 8287 \<or> u = 12288 \<or> u = 65279)"

definition trim_units :: "nat list \<Rightarrow> nat list" where
  "trim_units us = rev (dropWhile is_js_space (rev (dropWhile is_js_space us)))"

definition MAX_TSA_NAME :: nat where
  "MAX_TSA_NAME = 200"
definition TRUST_LIST_SEP :: string where
  "TRUST_LIST_SEP = '', trust list:''"
definition EXPLANATION_WINDOW :: nat where
  "EXPLANATION_WINDOW = 64 + MAX_TSA_NAME + length TRUST_LIST_SEP"

text \<open>\<open>indexOf\<close> (what follows the first occurrence) and \<open>lastIndexOf\<close> (what precedes the last).\<close>

fun after_first :: "nat list \<Rightarrow> nat list \<Rightarrow> nat list option" where
  "after_first p [] = (if p = [] then Some [] else None)"
| "after_first p (u # us) =
     (if take (length p) (u # us) = p then Some (drop (length p) (u # us)) else after_first p us)"

fun before_last :: "nat list \<Rightarrow> nat list \<Rightarrow> nat list option" where
  "before_last p [] = (if p = [] then Some [] else None)"
| "before_last p (u # us) =
     (case before_last p us of
        Some b \<Rightarrow> Some (u # b)
      | None \<Rightarrow> if take (length p) (u # us) = p then Some [] else None)"

definition tsa_name :: "nat list \<Rightarrow> nat list" where
  "tsa_name explanation =
    (let window = take EXPLANATION_WINDOW explanation;
         raw = null_or (after_first (units '': '') window) [];
         raw' = null_or (before_last (units TRUST_LIST_SEP) raw) raw in
     trim_units (drop_lone None (filter (\<lambda>u. \<not> is_control u) (take MAX_TSA_NAME raw'))))"

text \<open>\<open>TSA_LABEL_FROM_URL\<close>: the first \<open>/c2pa/<label>/c2pa.signature\<close>, the label without a slash.\<close>

definition label_at :: "string \<Rightarrow> string option" where
  "label_at s =
    (if starts_with ''/c2pa/'' s
     then (let rest = drop 6 s; l = takeWhile (\<lambda>c. c \<noteq> CHR ''/'') rest; r = drop (length l) rest in
           if l \<noteq> [] \<and> starts_with ''/c2pa.signature'' r then Some l else None)
     else None)"

fun label_from_url :: "string \<Rightarrow> string option" where
  "label_from_url [] = None"
| "label_from_url (c # cs) =
     (case label_at (c # cs) of Some l \<Rightarrow> Some l | None \<Rightarrow> label_from_url cs)"

text \<open>One entry of a bucket; the first name per label wins.\<close>

definition consider_entry ::
  "(string \<times> string) list \<Rightarrow> status_entry option \<Rightarrow> (string \<times> string) list"
where
  "consider_entry byLabel e =
    (case chain e st_code of
       None \<Rightarrow> byLabel
     | Some code \<Rightarrow>
         if \<not> starts_with ''timeStamp.'' code then byLabel
         else (case label_from_url (null_or (chain e st_url) []) of
            None \<Rightarrow> byLabel
          | Some label \<Rightarrow>
              if map_of byLabel label \<noteq> None then byLabel
              else (let name = of_units (tsa_name (units (null_or (chain e st_explanation) []))) in
                    if name \<noteq> [] then byLabel @ [(label, name)] else byLabel)))"

definition scan_buckets ::
  "(string \<times> string) list \<Rightarrow> buckets option \<Rightarrow> (string \<times> string) list"
where
  "scan_buckets byLabel b =
    (case b of
       None \<Rightarrow> byLabel
     | Some bk \<Rightarrow> foldl consider_entry (foldl consider_entry byLabel (bk_success bk)) (bk_informational bk))"

definition extractTsaByLabel :: "manifest_store \<Rightarrow> (string \<times> string) list" where
  "extractTsaByLabel store =
    (let vr = ms_validation_results store;
         m1 = scan_buckets [] (chain vr vr_activeManifest);
         m2 = foldl (\<lambda>m d. scan_buckets m (chain d dl_deltas)) m1
                (case vr of None \<Rightarrow> [] | Some v \<Rightarrow> vr_ingredientDeltas v) in
     foldl (\<lambda>m (k, mf). foldl (\<lambda>m' ing. scan_buckets m' (chain (chain ing ig_validation_results) vr_activeManifest))
                          m (mf_ingredients mf)) m2 (ms_manifests store))"

section \<open>Manifests\<close>

definition isReVerificationOnly :: "string \<Rightarrow> bool" where
  "isReVerificationOnly label =
    (starts_with ''c2pa.hash.'' label \<or> label = TIMESTAMP_ASSERTION_LABEL
     \<or> label = PLAY_INTEGRITY_LABEL \<or> label = APP_ATTEST_LABEL)"

fun stripJsonLdContext :: "jsval \<Rightarrow> jsval" where
  "stripJsonLdContext (JObj kvs) = JObj (filter (\<lambda>kv. fst kv \<noteq> ''@context'') kvs)"
| "stripJsonLdContext JUndef = JNull"
| "stripJsonLdContext v = v"

definition sanitize_assertions :: "assertion option list \<Rightarrow> sanitized_assertion list" where
  "sanitize_assertions as =
    List.map_filter (\<lambda>a. case chain a as_label of
        None \<Rightarrow> None
      | Some l \<Rightarrow> if isReVerificationOnly l then None
                  else Some \<lparr>sa_label = l,
                         sa_data = stripJsonLdContext (case a of None \<Rightarrow> JUndef | Some x \<Rightarrow> as_data x)\<rparr>) as"

definition sanitize_ingredient :: "ingredient option \<Rightarrow> sanitized_ingredient" where
  "sanitize_ingredient i =
    \<lparr>sg_title = chain i ig_title, sg_format = chain i ig_format,
     sg_relationship = chain i ig_relationship, sg_active_manifest = chain i ig_active_manifest\<rparr>"

definition signing_time :: "signature_info option \<Rightarrow> string option res" where
  "signing_time si =
    (case chain si si_time of
       Some t \<Rightarrow> Inr (Some t)
     | None \<Rightarrow>
         (case chain si si_timeObject of
            None \<Rightarrow> Inr None
          | Some None \<Rightarrow> Inl (OtherErr ''Invalid time value'')
          | Some (Some ms) \<Rightarrow> Inr (Some (iso_string ms))))"

definition sanitizeManifest :: "string \<Rightarrow> manifest \<Rightarrow> string option \<Rightarrow> sanitized_manifest res" where
  "sanitizeManifest label m timestampAuthority =
    (let si = mf_signature_info m; igs = map sanitize_ingredient (mf_ingredients m) in
     bindR (signing_time si) (\<lambda>time.
     Inr \<lparr>sm_label = null_or (mf_label m) label,
          sm_claim_generator = mf_claim_generator m, sm_title = mf_title m, sm_format = mf_format m,
          sm_signature_info =
            \<lparr>ss_issuer = chain si si_issuer, ss_common_name = chain si si_common_name,
             ss_alg = chain si si_alg, ss_time = time, ss_timestamp_authority = timestampAuthority\<rparr>,
          sm_assertions = sanitize_assertions (mf_assertions m),
          sm_ingredients = igs,
          sm_parent_label = chain (List.find (\<lambda>i. sg_active_manifest i \<noteq> None) igs) sg_active_manifest\<rparr>))"

definition sanitizeManifestStore :: "manifest_store \<Rightarrow> string \<Rightarrow> sanitized_store res" where
  "sanitizeManifestStore store trustSource =
    (let tsaByLabel = extractTsaByLabel store in
     bindR (mapR (\<lambda>(l, m). bindR (sanitizeManifest l m (map_of tsaByLabel l)) (\<lambda>sm. Inr (l, sm)))
              (ms_manifests store)) (\<lambda>manifests.
     bindR (mapR (\<lambda>v. bindR (derefR TypeErr v) (\<lambda>e.
                Inr \<lparr>sv_code = st_code e, sv_explanation = st_explanation e, sv_url = st_url e\<rparr>))
              (ms_validation_status store)) (\<lambda>status.
     Inr \<lparr>sn_active_manifest =
            (case ms_active_manifest store of
               None \<Rightarrow> None
             | Some l \<Rightarrow> if l = [] then None else map_of manifests l),
          sn_manifests = manifests,
          sn_validation_status = status,
          sn_validation_state = (if length status = 0 then ''trusted'' else ''invalid''),
          sn_trust_source = trustSource\<rparr>)))"

section \<open>Facts\<close>

lemma drop_lone_paired:
  "\<not> (\<exists>p. prev = Some p \<and> is_high p \<and> us \<noteq> [] \<and> is_low (hd us)) \<Longrightarrow> surrogates_paired (drop_lone prev us)"
proof (induction "length us" arbitrary: prev us rule: less_induct)
  case less
  show ?case
  proof (cases us)
    case Nil
    then show ?thesis by simp
  next
    case (Cons u r)
    show ?thesis
    proof (cases "is_high u")
      case high: True
      show ?thesis
      proof (cases "r \<noteq> [] \<and> is_low (hd r)")
        case True
        then obtain l q where r: "r = l # q" "is_low l" by (cases r) auto
        have "surrogates_paired (drop_lone (Some l) q)"
          using less(1)[of q "Some l"] Cons r low_not_high by simp
        then show ?thesis using Cons r high low_not_high by simp
      next
        case False
        then have "surrogates_paired (drop_lone (Some u) r)"
          using less(1)[of r "Some u"] Cons by simp
        then show ?thesis using Cons high False by auto
      qed
    next
      case nh: False
      then have "surrogates_paired (drop_lone (Some u) r)"
        using less(1)[of r "Some u"] Cons by simp
      then show ?thesis using Cons nh less(2) by (auto split: option.splits)
    qed
  qed
qed

lemma set_drop_lone: "set (drop_lone p us) \<subseteq> set us"
  by (induction p us rule: drop_lone.induct) (auto split: option.splits if_splits)

lemma length_drop_lone: "length (drop_lone p us) \<le> length us"
  by (induction p us rule: drop_lone.induct)
     (auto intro: le_SucI dest: low_not_high split: option.splits if_splits)

lemma space_not_surrogate: "is_js_space u \<Longrightarrow> \<not> is_high u \<and> \<not> is_low u"
  by (auto simp: is_js_space_def is_high_def is_low_def)

lemma paired_dropWhile: "surrogates_paired us \<Longrightarrow> surrogates_paired (dropWhile is_js_space us)"
  by (induction us) (auto dest: space_not_surrogate)

lemma paired_append_plain:
  "\<forall>u \<in> set ys. \<not> is_high u \<and> \<not> is_low u \<Longrightarrow> surrogates_paired (xs @ ys) \<Longrightarrow> surrogates_paired xs"
proof (induction xs rule: surrogates_paired.induct)
  case (2 u us)
  show ?case
  proof (cases "is_high u")
    case True
    with 2 show ?thesis by (cases us; cases ys) auto
  next
    case False
    with 2 show ?thesis by simp
  qed
qed simp

lemma trim_units_split: "\<exists>ys. dropWhile is_js_space us = trim_units us @ ys \<and> (\<forall>u \<in> set ys. is_js_space u)"
proof -
  let ?d = "dropWhile is_js_space us"
  have "?d = rev (takeWhile is_js_space (rev ?d) @ dropWhile is_js_space (rev ?d))"
    by simp
  then have "?d = trim_units us @ rev (takeWhile is_js_space (rev ?d))"
    unfolding trim_units_def rev_append by simp
  then show ?thesis by (metis set_rev set_takeWhileD)
qed

lemma trim_units_paired: "surrogates_paired us \<Longrightarrow> surrogates_paired (trim_units us)"
  using trim_units_split[of us] paired_append_plain paired_dropWhile space_not_surrogate by metis

lemma set_trim_units: "set (trim_units us) \<subseteq> set us"
  by (auto simp: trim_units_def dest!: set_dropWhileD)

lemma length_trim_units: "length (trim_units us) \<le> length us"
  unfolding trim_units_def by (metis length_dropWhile_le length_rev order_trans)

lemma tsa_name_storable:
  "surrogates_paired (tsa_name ex) \<and> (\<forall>u \<in> set (tsa_name ex). \<not> is_control u) \<and> length (tsa_name ex) \<le> MAX_TSA_NAME"
proof -
  obtain raw where eq: "tsa_name ex = trim_units (drop_lone None (filter (\<lambda>u. \<not> is_control u) (take MAX_TSA_NAME raw)))"
    by (simp add: tsa_name_def Let_def)
  let ?f = "filter (\<lambda>u. \<not> is_control u) (take MAX_TSA_NAME raw)"
  have "length (tsa_name ex) \<le> length ?f"
    unfolding eq using length_trim_units length_drop_lone order_trans by blast
  also have "length ?f \<le> MAX_TSA_NAME"
    by (metis length_filter_le length_take min.cobounded2 min.commute order_trans)
  finally have "length (tsa_name ex) \<le> MAX_TSA_NAME" .
  moreover have "set (tsa_name ex) \<subseteq> set ?f"
    unfolding eq using set_trim_units set_drop_lone by fastforce
  moreover have "surrogates_paired (tsa_name ex)"
    unfolding eq by (intro trim_units_paired drop_lone_paired) simp
  ultimately show ?thesis by auto
qed

lemma set_sanitize_assertions:
  "sa \<in> set (sanitize_assertions as) \<longleftrightarrow>
     (\<exists>a. Some a \<in> set as \<and> as_label a = Some (sa_label sa) \<and> \<not> isReVerificationOnly (sa_label sa)
        \<and> sa = \<lparr>sa_label = sa_label sa, sa_data = stripJsonLdContext (as_data a)\<rparr>)"
proof (induction as)
  case Nil
  then show ?case by (simp add: sanitize_assertions_def)
next
  case (Cons a as)
  then show ?case
    by (cases a; cases sa) (auto simp: sanitize_assertions_def split: option.splits if_splits)
qed

lemma sanitizeManifestStore_Inr:
  assumes "sanitizeManifestStore store src = Inr sn"
  shows "\<And>l sm. (l, sm) \<in> set (sn_manifests sn) \<Longrightarrow> \<exists>m. (l, m) \<in> set (ms_manifests store)
           \<and> sm_assertions sm = sanitize_assertions (mf_assertions m)"
    and "sn_trust_source sn = src"
    and "sn_validation_state sn = ''trusted'' \<longleftrightarrow> ms_validation_status store = []"
proof -
  from assms obtain mans sts where
    m: "mapR (\<lambda>(l, m). bindR (sanitizeManifest l m (map_of (extractTsaByLabel store) l)) (\<lambda>sm. Inr (l, sm)))
              (ms_manifests store) = Inr mans" and
    st: "mapR (\<lambda>v. bindR (derefR TypeErr v) (\<lambda>e.
                Inr \<lparr>sv_code = st_code e, sv_explanation = st_explanation e, sv_url = st_url e\<rparr>))
              (ms_validation_status store) = Inr sts" and
    sn: "sn_manifests sn = mans" "sn_trust_source sn = src"
      "sn_validation_state sn = (if length sts = 0 then ''trusted'' else ''invalid'')"
    unfolding sanitizeManifestStore_def Let_def by auto
  show "\<exists>m. (l, m) \<in> set (ms_manifests store) \<and> sm_assertions sm = sanitize_assertions (mf_assertions m)"
    if "(l, sm) \<in> set (sn_manifests sn)" for l sm
    using mapR_set[OF m] that sn(1)
    by (fastforce simp: sanitizeManifest_def Let_def)
  show "sn_trust_source sn = src" by (rule sn(2))
  show "sn_validation_state sn = ''trusted'' \<longleftrightarrow> ms_validation_status store = []"
    using mapR_Inr_length[OF st] by (auto simp: sn(3))
qed

lemma sanitizeManifestStore_status:
  "sanitizeManifestStore store src = Inr sn \<Longrightarrow> None \<notin> set (ms_validation_status store)"
proof
  assume a: "sanitizeManifestStore store src = Inr sn" "None \<in> set (ms_validation_status store)"
  have "mapR (\<lambda>v. bindR (derefR TypeErr v) f) xs \<noteq> Inr ys" if "None \<in> set xs"
    for f :: "status_entry \<Rightarrow> sanitized_status res" and xs ys
    using that by (induction xs arbitrary: ys) auto
  with a show False unfolding sanitizeManifestStore_def Let_def by auto
qed

text \<open>What is persisted of a manifest are exactly its labelled assertions other than the
  re-verification-only ones, without their JSON-LD context, and the store is marked trusted exactly
  when the reader reported nothing.\<close>

lemma sanitized_store_exact:
  assumes "sanitizeManifestStore store src = Inr sn"
  shows "(\<forall>(l, sm) \<in> set (sn_manifests sn). \<exists>m. (l, m) \<in> set (ms_manifests store)
      \<and> set (sm_assertions sm) = {\<lparr>sa_label = k, sa_data = stripJsonLdContext (as_data a)\<rparr> | a k.
           Some a \<in> set (mf_assertions m) \<and> as_label a = Some k \<and> \<not> isReVerificationOnly k})
    \<and> (sn_validation_state sn = ''trusted'') = (ms_validation_status store = [])
    \<and> sn_trust_source sn = src"
proof -
  have "set (sanitize_assertions as) = {\<lparr>sa_label = k, sa_data = stripJsonLdContext (as_data a)\<rparr> | a k.
           Some a \<in> set as \<and> as_label a = Some k \<and> \<not> isReVerificationOnly k}" for as
    by (auto simp: set_sanitize_assertions) (metis sanitized_assertion.select_convs(1))+
  then show ?thesis
    using sanitizeManifestStore_Inr[OF assms] by fastforce
qed

definition ex_persisted :: manifest_store where
  "ex_persisted = blank_store\<lparr>ms_manifests := [(''urn:m'', blank_manifest\<lparr>mf_assertions :=
     [Some \<lparr>as_label = Some ''c2pa.hash.data'', as_data = JNull\<rparr>,
      Some \<lparr>as_label = Some ''c2pa.metadata'', as_data = JObj [(''@context'', JNull), (''k'', JStr ''v'')]\<rparr>]\<rparr>)]\<rparr>"

lemma ex_persisted_sanitizes: "accepted (sanitizeManifestStore ex_persisted ''realreel'')"
  by code_simp

theorem sanitized_store_exact_witness:
  "\<exists>sn. sanitizeManifestStore ex_persisted ''realreel'' = Inr sn \<and> sn_validation_state sn = ''trusted''"
proof -
  from ex_persisted_sanitizes obtain sn where "sanitizeManifestStore ex_persisted ''realreel'' = Inr sn"
    unfolding accepted_iff by blast
  with sanitized_store_exact[OF this] show ?thesis
    by (simp add: ex_persisted_def blank_defs)
qed

text \<open>A time-stamp authority name taken from a reader explanation can always be stored: at most 200
  UTF-16 units, no control character, no unpaired surrogate, whatever the explanation.\<close>

lemma tsa_name_always_storable:
  "surrogates_paired (tsa_name ex) \<and> length (tsa_name ex) \<le> 200
   \<and> set (tsa_name ex) \<inter> {u. is_control u} = {}"
  using tsa_name_storable[of ex] by (auto simp: MAX_TSA_NAME_def)

end
