(* ===== verification/ContentHash.thy ===== *)
theory ContentHash
  imports Actions
begin

text \<open>
  The per-content dedup identity of \<open>trust-core/src/policies/content-hash.ts\<close>: the capture label
  plus the signed trim extent, serialised canonically (\<open>canonicalJson\<close> is in theory Json).
\<close>

definition EXTENT_ACTION_LABELS :: "string list" where
  "EXTENT_ACTION_LABELS = [''c2pa.trimmed'']"

definition extent_parts :: "action_entry list \<Rightarrow> string list" where
  "extent_parts es =
    map (\<lambda>e. ae_action e @ '':'' @ canonicalJson (ae_parameters e))
      (filter (\<lambda>e. ae_action e \<in> set EXTENT_ACTION_LABELS) es)"

definition extractContentExtent :: "manifest \<Rightarrow> string" where
  "extractContentExtent active = join_with '';'' (sort (extent_parts (extractActionEntries active)))"

definition buildContentIdentity :: "manifest \<Rightarrow> manifest \<Rightarrow> string option" where
  "buildContentIdentity capture active =
    (case mf_label capture of
       None \<Rightarrow> None
     | Some label \<Rightarrow>
         if length label = 0 then None
         else (let extent = extractContentExtent active in
               if extent \<noteq> [] then Some (label @ ''|'' @ extent) else Some label))"

section \<open>Facts\<close>

text \<open>Two uploads publish the same extent when their trim actions agree up to order and up to the
  order of the keys of their parameters.\<close>

definition same_extent :: "manifest \<Rightarrow> manifest \<Rightarrow> bool" where
  "same_extent a b \<longleftrightarrow>
    (let trims = \<lambda>m. filter (\<lambda>e. ae_action e \<in> set EXTENT_ACTION_LABELS) (extractActionEntries m) in
     \<exists>mid. list_all2 (\<lambda>x y. ae_action x = ae_action y \<and> json_wf (ae_parameters x)
                             \<and> json_reorder (ae_parameters x) (ae_parameters y)) (trims a) mid
         \<and> mset mid = mset (trims b))"

lemma extent_same:
  assumes "same_extent a b"
  shows "extractContentExtent a = extractContentExtent b"
proof -
  let ?trims = "\<lambda>m. filter (\<lambda>e. ae_action e \<in> set EXTENT_ACTION_LABELS) (extractActionEntries m)"
  let ?s = "\<lambda>e. ae_action e @ '':'' @ canonicalJson (ae_parameters e)"
  from assms obtain mid where
    mid: "list_all2 (\<lambda>x y. ae_action x = ae_action y \<and> json_wf (ae_parameters x)
                 \<and> json_reorder (ae_parameters x) (ae_parameters y)) (?trims a) mid"
    and perm: "mset mid = mset (?trims b)"
    by (auto simp: same_extent_def Let_def)
  from mid have "map ?s (?trims a) = map ?s mid"
    by (induction rule: list_all2_induct) (auto dest: canonicalJson_reorder)
  moreover from perm have "mset (map ?s mid) = mset (map ?s (?trims b))"
    by simp
  ultimately have "mset (map ?s (?trims a)) = mset (map ?s (?trims b))"
    by simp
  then have "sort (map ?s (?trims a)) = sort (map ?s (?trims b))"
    by (intro properties_for_sort) simp_all
  then show ?thesis by (simp add: extractContentExtent_def extent_parts_def)
qed

lemma join_with_eq_Nil: "join_with s xs = [] \<longleftrightarrow> xs = [] \<or> xs = [[]] \<or> (s = [] \<and> (\<forall>x \<in> set xs. x = []))"
  by (induction s xs rule: join_with.induct) auto

lemma extent_empty_iff:
  "extractContentExtent m = [] \<longleftrightarrow> (\<forall>e \<in> set (extractActionEntries m). ae_action e \<notin> set EXTENT_ACTION_LABELS)"
proof -
  have "extractContentExtent m = [] \<longleftrightarrow> extent_parts (extractActionEntries m) = []"
  proof
    assume "extractContentExtent m = []"
    then have "sort (extent_parts (extractActionEntries m)) = []
      \<or> sort (extent_parts (extractActionEntries m)) = [[]]"
      by (simp add: extractContentExtent_def join_with_eq_Nil)
    moreover have "[] \<notin> set (extent_parts (extractActionEntries m))"
      by (auto simp: extent_parts_def)
    ultimately show "extent_parts (extractActionEntries m) = []"
      by (metis list.set_intros(1) set_sort set_empty)
  qed (simp add: extractContentExtent_def)
  then show ?thesis
    by (auto simp: extent_parts_def filter_empty_conv)
qed

text \<open>The content identity depends on the capture's label and the signed extent only, not on the order
  in which the trims are declared nor on the order of the keys of their parameters.\<close>

lemma identity_ignores_order:
  assumes "same_extent a b"
  shows "buildContentIdentity capture a = buildContentIdentity capture b"
  unfolding buildContentIdentity_def extent_same[OF assms] ..

text \<open>Two declarations of one trim.\<close>

definition trim_with :: "(string \<times> jsval) list \<Rightarrow> manifest" where
  "trim_with params = blank_manifest\<lparr>mf_assertions := [Some \<lparr>as_label = Some ''c2pa.actions'',
     as_data = JObj [(''actions'', JArr [JObj [(''action'', JStr ''c2pa.trimmed''),
       (''parameters'', JObj params)]])]\<rparr>]\<rparr>"

lemma trim_with_entries:
  "extractActionEntries (trim_with params)
     = [\<lparr>ae_action = ''c2pa.trimmed'', ae_parameters = JObj params, ae_digitalSourceType = None\<rparr>]"
  by (simp add: trim_with_def blank_manifest_def extractActionEntries_def assertion_action_entries_def
      visit_actions.simps[of "JArr _"] visit_actions.simps[of JUndef] action_entry_of_def
      RELATED_MAX_DEPTH_def)

theorem identity_ignores_order_witness:
  "buildContentIdentity (blank_manifest\<lparr>mf_label := Some ''urn:cap''\<rparr>)
       (trim_with [(''start'', JStr ''0''), (''end'', JStr ''5'')])
   = buildContentIdentity (blank_manifest\<lparr>mf_label := Some ''urn:cap''\<rparr>)
       (trim_with [(''end'', JStr ''5''), (''start'', JStr ''0'')])"
proof (rule identity_ignores_order)
  let ?e = "\<lambda>ps. \<lparr>ae_action = ''c2pa.trimmed'', ae_parameters = JObj ps, ae_digitalSourceType = None\<rparr>"
  have "json_reorder (JObj [(''start'', JStr ''0''), (''end'', JStr ''5'')])
      (JObj [(''end'', JStr ''5''), (''start'', JStr ''0'')])"
    by (rule json_reorder.obj[where mid = "[(''start'', JStr ''0''), (''end'', JStr ''5'')]"])
       (simp_all add: json_reorder.same)
  then show "same_extent (trim_with [(''start'', JStr ''0''), (''end'', JStr ''5'')])
      (trim_with [(''end'', JStr ''5''), (''start'', JStr ''0'')])"
    unfolding same_extent_def Let_def trim_with_entries
    by (intro exI[of _ "[?e [(''end'', JStr ''5''), (''start'', JStr ''0'')]]"])
       (simp add: EXTENT_ACTION_LABELS_def)
qed

end
