(* ===== verification/GenerativeAi.thy ===== *)
theory GenerativeAi
  imports Actions
begin

text \<open>
  The generative-AI provenance policy, \<open>trust-core/src/policies/generative-ai.ts\<close>: a
  breadth-first walk of the ingredient graph from the active manifest, and the gate of
  \<open>verifier/src/generative-ai.ts\<close> around it.
\<close>

definition IPTC_DIGITAL_SOURCE_TYPE :: string where
  "IPTC_DIGITAL_SOURCE_TYPE = ''http://cv.iptc.org/newscodes/digitalsourcetype/''"

definition GENERATIVE_AI_SOURCE_TYPES :: "string list" where
  "GENERATIVE_AI_SOURCE_TYPES =
    [IPTC_DIGITAL_SOURCE_TYPE @ ''trainedAlgorithmicMedia'',
     IPTC_DIGITAL_SOURCE_TYPE @ ''compositeWithTrainedAlgorithmicMedia'']"

record generative_ai_source =
  ga_label :: string
  ga_action :: string
  ga_digitalSourceType :: string

definition REACHABLE_MAX_DEPTH :: nat where
  "REACHABLE_MAX_DEPTH = 16"

text \<open>\<open>dst.replace(/^https:\/\//, "http://")\<close>.\<close>

definition https_to_http :: "string \<Rightarrow> string" where
  "https_to_http s = (if starts_with ''https://'' s then ''http://'' @ drop 8 s else s)"

fun ai_entry :: "action_entry \<Rightarrow> bool" where
  "ai_entry e =
    (case ae_digitalSourceType e of
       None \<Rightarrow> False
     | Some dst \<Rightarrow> dst \<noteq> [] \<and> https_to_http dst \<in> set GENERATIVE_AI_SOURCE_TYPES)"

text \<open>The loop over one manifest's entries: the first declaring one.\<close>

definition ai_hit :: "string \<Rightarrow> manifest \<Rightarrow> generative_ai_source option" where
  "ai_hit label m =
    (case List.find ai_entry (extractActionEntries m) of
       None \<Rightarrow> None
     | Some e \<Rightarrow> Some \<lparr>ga_label = label, ga_action = ae_action e,
                      ga_digitalSourceType = null_or (ae_digitalSourceType e) []\<rparr>)"

type_synonym frontier = "(string \<times> manifest) list"

text \<open>One ingredient of the walk: mark its label visited, queue the manifest it names.\<close>

definition enqueue_ref ::
  "manifest_store \<Rightarrow> string list \<times> frontier \<Rightarrow> ingredient option \<Rightarrow> string list \<times> frontier"
where
  "enqueue_ref store vn ig =
    (case vn of (visited, nxt) \<Rightarrow>
      (case chain ig ig_active_manifest of
         None \<Rightarrow> (visited, nxt)
       | Some ref \<Rightarrow>
           if ref \<in> set visited then (visited, nxt)
           else (ref # visited,
                 (case manifest_at store ref of
                    None \<Rightarrow> nxt
                  | Some target \<Rightarrow> nxt @ [(ref, target)]))))"

text \<open>One level: \<open>Inl\<close> of the hit that ends the search, or the visited labels and next frontier.\<close>

fun scan_frontier ::
  "manifest_store \<Rightarrow> frontier \<Rightarrow> string list \<times> frontier
     \<Rightarrow> generative_ai_source + (string list \<times> frontier)"
where
  "scan_frontier store [] vn = Inr vn"
| "scan_frontier store ((label, m) # fs) vn =
    (case ai_hit label m of
       Some hit \<Rightarrow> Inl hit
     | None \<Rightarrow> scan_frontier store fs (foldl (enqueue_ref store) vn (mf_ingredients m)))"

function ai_walk ::
  "manifest_store \<Rightarrow> nat \<Rightarrow> string list \<Rightarrow> frontier \<Rightarrow> generative_ai_source option"
where
  "ai_walk store depth visited front =
    (if depth \<le> REACHABLE_MAX_DEPTH \<and> front \<noteq> [] then
       (case scan_frontier store front (visited, []) of
          Inl hit \<Rightarrow> Some hit
        | Inr (visited', nxt) \<Rightarrow> ai_walk store (Suc depth) visited' nxt)
     else None)"
  by pat_completeness auto
termination
  by (relation "measure (\<lambda>(s, d, v, f). Suc REACHABLE_MAX_DEPTH - d)") auto

declare ai_walk.simps [simp del]

definition findGenerativeAiSource :: "manifest_store \<Rightarrow> generative_ai_source option" where
  "findGenerativeAiSource store =
    (case ms_active_manifest store of
       None \<Rightarrow> None
     | Some activeLabel \<Rightarrow>
         (case getActiveManifest store of
            None \<Rightarrow> None
          | Some active \<Rightarrow> ai_walk store 0 [activeLabel] [(activeLabel, active)]))"

definition enforceNoGenerativeAi :: "manifest_store \<Rightarrow> unit res" where
  "enforceNoGenerativeAi store =
    (case findGenerativeAiSource store of
       None \<Rightarrow> Inr ()
     | Some hit \<Rightarrow> Inl (verify_err AI_GENERATED
         (''manifest '' @ [CHR 0x27] @ ga_label hit @ [CHR 0x27] @ '' declares '' @ ga_action hit
          @ '' with digitalSourceType '' @ [CHR 0x27] @ ga_digitalSourceType hit @ [CHR 0x27])))"

section \<open>The walk visits exactly the manifests within the bound\<close>

text \<open>\<open>reaches store n l\<close>: \<open>n\<close> ingredient references lead from the active manifest to the
  manifest stored at \<open>l\<close>.\<close>

inductive reaches :: "manifest_store \<Rightarrow> nat \<Rightarrow> string \<Rightarrow> bool" for store where
  start: "\<lbrakk>ms_active_manifest store = Some l; manifest_at store l = Some m\<rbrakk> \<Longrightarrow> reaches store 0 l"
| follow: "\<lbrakk>reaches store n l; manifest_at store l = Some m; Some ig \<in> set (mf_ingredients m);
     ig_active_manifest ig = Some r; manifest_at store r = Some m'\<rbrakk> \<Longrightarrow> reaches store (Suc n) r"

inductive_simps reaches_0_iff: "reaches store 0 l"
inductive_cases reaches_SucE: "reaches store (Suc n) l"

definition ai_clean :: "manifest_store \<Rightarrow> string \<Rightarrow> bool" where
  "ai_clean store l \<longleftrightarrow>
    (\<forall>m. manifest_at store l = Some m \<longrightarrow> (\<forall>e \<in> set (extractActionEntries m). \<not> ai_entry e))"

definition refs_of :: "manifest_store \<Rightarrow> string \<Rightarrow> string set" where
  "refs_of store l = {r. \<exists>m ig. manifest_at store l = Some m \<and> Some ig \<in> set (mf_ingredients m)
     \<and> ig_active_manifest ig = Some r}"

lemma find_None_all: "List.find P xs = None \<longleftrightarrow> (\<forall>x \<in> set xs. \<not> P x)"
  by (induction xs) auto

lemma ai_hit_None_find: "ai_hit l m = None \<longleftrightarrow> List.find ai_entry (extractActionEntries m) = None"
  by (cases "List.find ai_entry (extractActionEntries m)") (simp_all add: ai_hit_def)

lemma ai_hit_None_iff: "manifest_at store l = Some m \<Longrightarrow> ai_hit l m = None \<longleftrightarrow> ai_clean store l"
  by (simp add: ai_hit_None_find find_None_all ai_clean_def del: ai_entry.simps)

lemma foldl_enqueue:
  assumes "foldl (enqueue_ref store) (vis, nxt) igs = (vis', nxt')"
  shows "set vis' = set vis \<union> {r. \<exists>ig. Some ig \<in> set igs \<and> ig_active_manifest ig = Some r}
    \<and> (\<forall>p \<in> set nxt. p \<in> set nxt')
    \<and> (\<forall>(l, m) \<in> set nxt'. (l, m) \<in> set nxt \<or> (manifest_at store l = Some m
         \<and> (\<exists>ig. Some ig \<in> set igs \<and> ig_active_manifest ig = Some l)))
    \<and> (\<forall>l \<in> set vis' - set vis. \<forall>m. manifest_at store l = Some m \<longrightarrow> (l, m) \<in> set nxt')"
  using assms
proof (induction igs arbitrary: vis nxt)
  case Nil
  then show ?case by auto
next
  case (Cons g igs)
  obtain v1 n1 where 1: "enqueue_ref store (vis, nxt) g = (v1, n1)" by fastforce
  then have "foldl (enqueue_ref store) (v1, n1) igs = (vis', nxt')"
    using Cons.prems by simp
  note IH = Cons.IH[OF this]
  show ?case
  proof (cases "chain g ig_active_manifest")
    case None
    then have "v1 = vis" "n1 = nxt" using 1 by (auto simp: enqueue_ref_def)
    moreover have "\<not> (g = Some ig \<and> ig_active_manifest ig = Some r)" for ig r
      using None by auto
    ultimately show ?thesis using IH by (auto 0 4)
  next
    case (Some ref)
    then obtain ig where g: "g = Some ig" "ig_active_manifest ig = Some ref"
      by (cases g) auto
    show ?thesis
      using 1 IH g by (auto 0 3 simp: enqueue_ref_def split: if_splits option.splits)
  qed
qed

lemma scan_frontier_Inl:
  "scan_frontier store front vn = Inl hit \<Longrightarrow> \<exists>(l, m) \<in> set front. ai_hit l m = Some hit"
  by (induction store front vn rule: scan_frontier.induct) (auto split: option.splits)

lemma scan_frontier_Inr:
  assumes "scan_frontier store front (vis, nxt) = Inr (vis', nxt')"
    and "\<forall>(l, m) \<in> set front. manifest_at store l = Some m"
  shows "(\<forall>(l, m) \<in> set front. ai_clean store l)
    \<and> set vis' = set vis \<union> (\<Union>(l, m) \<in> set front. refs_of store l)
    \<and> (\<forall>p \<in> set nxt. p \<in> set nxt')
    \<and> (\<forall>(l, m) \<in> set nxt'. (l, m) \<in> set nxt \<or> (manifest_at store l = Some m
         \<and> (\<exists>(l0, m0) \<in> set front. l \<in> refs_of store l0)))
    \<and> (\<forall>l \<in> set vis' - set vis. \<forall>m. manifest_at store l = Some m \<longrightarrow> (l, m) \<in> set nxt')"
  using assms
proof (induction front arbitrary: vis nxt)
  case Nil
  then show ?case by auto
next
  case (Cons lm front)
  obtain l m where lm: "lm = (l, m)" by fastforce
  with Cons.prems have clean: "ai_hit l m = None"
    by (auto split: option.splits)
  obtain v1 n1 where 1: "foldl (enqueue_ref store) (vis, nxt) (mf_ingredients m) = (v1, n1)"
    by fastforce
  with Cons.prems clean lm have "scan_frontier store front (v1, n1) = Inr (vis', nxt')" by simp
  note IH = Cons.IH[OF this]
  have at: "manifest_at store l = Some m" using Cons.prems(2) lm by simp
  then have refs: "refs_of store l =
      {r. \<exists>ig. Some ig \<in> set (mf_ingredients m) \<and> ig_active_manifest ig = Some r}"
    by (simp add: refs_of_def)
  have IH': "(\<forall>(l, m) \<in> set front. ai_clean store l)"
    "set vis' = set v1 \<union> (\<Union>(l, m) \<in> set front. refs_of store l)"
    "\<forall>p \<in> set n1. p \<in> set nxt'"
    "\<forall>(l, m) \<in> set nxt'. (l, m) \<in> set n1 \<or> (manifest_at store l = Some m
         \<and> (\<exists>(l0, m0) \<in> set front. l \<in> refs_of store l0))"
    "\<forall>l \<in> set vis' - set v1. \<forall>m. manifest_at store l = Some m \<longrightarrow> (l, m) \<in> set nxt'"
    using IH Cons.prems(2) by auto
  note F = foldl_enqueue[OF 1, folded refs]
  have "ai_clean store l" using ai_hit_None_iff[OF at] clean by simp
  moreover have "set vis' = set vis \<union> (\<Union>(l, m) \<in> set (lm # front). refs_of store l)"
    using F IH'(2) lm by auto
  moreover have "\<forall>p \<in> set nxt. p \<in> set nxt'" using F IH'(3) by blast
  moreover have "\<forall>(l, m) \<in> set nxt'. (l, m) \<in> set nxt \<or> (manifest_at store l = Some m
         \<and> (\<exists>(l0, m0) \<in> set (lm # front). l \<in> refs_of store l0))"
    using F IH'(4) refs lm by fastforce
  moreover have "\<forall>l \<in> set vis' - set vis. \<forall>m. manifest_at store l = Some m \<longrightarrow> (l, m) \<in> set nxt'"
    using F IH'(3,5) by blast
  ultimately show ?case using IH'(1) lm by simp
qed

text \<open>Loop invariant of the walk: \<open>done\<close> are the labels already scanned.\<close>

definition walk_inv :: "manifest_store \<Rightarrow> nat \<Rightarrow> string list \<Rightarrow> frontier \<Rightarrow> string set \<Rightarrow> bool" where
  "walk_inv store d visited front done \<longleftrightarrow>
    (\<forall>(l, m) \<in> set front. manifest_at store l = Some m \<and> reaches store d l)
    \<and> (\<forall>l \<in> set visited. \<forall>m. manifest_at store l = Some m \<longrightarrow> l \<in> done \<or> (l, m) \<in> set front)
    \<and> (\<forall>l \<in> done. ai_clean store l \<and> refs_of store l \<subseteq> set visited)
    \<and> (\<forall>k l. k < d \<longrightarrow> reaches store k l \<longrightarrow> l \<in> done)
    \<and> (\<forall>l. reaches store d l \<longrightarrow> l \<in> done \<or> l \<in> fst ` set front)"

lemma walk_invD:
  assumes "walk_inv store d visited front done"
  shows "(l, m) \<in> set front \<Longrightarrow> manifest_at store l = Some m"
    and "(l, m) \<in> set front \<Longrightarrow> reaches store d l"
    and "l \<in> set visited \<Longrightarrow> manifest_at store l = Some m \<Longrightarrow> l \<in> done \<or> (l, m) \<in> set front"
    and "l \<in> done \<Longrightarrow> ai_clean store l"
    and "l \<in> done \<Longrightarrow> refs_of store l \<subseteq> set visited"
    and "k < d \<Longrightarrow> reaches store k l \<Longrightarrow> l \<in> done"
    and "reaches store d l \<Longrightarrow> l \<in> done \<or> l \<in> fst ` set front"
  using assms by (auto simp: walk_inv_def)

lemma reaches_Suc_iff:
  "reaches store (Suc n) r \<longleftrightarrow>
     (\<exists>l m'. reaches store n l \<and> r \<in> refs_of store l \<and> manifest_at store r = Some m')"
  by (auto simp: refs_of_def elim!: reaches_SucE intro: reaches.follow)

lemma walk_inv_step:
  assumes inv: "walk_inv store d visited front done"
    and scan: "scan_frontier store front (visited, []) = Inr (visited', nxt)"
  shows "walk_inv store (Suc d) visited' nxt (done \<union> fst ` set front)"
proof -
  note D = walk_invD[OF inv]
  have res: "\<forall>(l, m) \<in> set front. manifest_at store l = Some m"
    using D(1) by blast
  have S: "\<forall>(l, m) \<in> set front. ai_clean store l"
    "set visited' = set visited \<union> (\<Union>(l, m) \<in> set front. refs_of store l)"
    "\<forall>(l, m) \<in> set nxt. manifest_at store l = Some m \<and> (\<exists>(l0, m0) \<in> set front. l \<in> refs_of store l0)"
    "\<forall>l \<in> set visited' - set visited. \<forall>m. manifest_at store l = Some m \<longrightarrow> (l, m) \<in> set nxt"
    using scan_frontier_Inr[OF scan res] by auto
  have closed: "refs_of store l \<subseteq> set visited'" if "l \<in> done \<union> fst ` set front" for l
    using that D(5) S(2) by force
  have vis: "l \<in> done \<union> fst ` set front \<or> (l, m) \<in> set nxt"
    if "l \<in> set visited'" "manifest_at store l = Some m" for l m
    using that D(3)[of l m] S(4) by force
  have nxt: "manifest_at store l = Some m \<and> reaches store (Suc d) l" if "(l, m) \<in> set nxt" for l m
    using that S(3) D(2) unfolding reaches_Suc_iff by blast
  have ok: "ai_clean store l" if "l \<in> done \<union> fst ` set front" for l
    using that D(4) S(1) by auto
  have shallow: "l \<in> done \<union> fst ` set front" if "k < Suc d" "reaches store k l" for k l
    using that D(6)[of k l] D(7)[of l] by (cases "k = d") auto
  have level: "l \<in> done \<union> fst ` set front \<or> l \<in> fst ` set nxt" if "reaches store (Suc d) l" for l
  proof -
    from that obtain l0 m' where "reaches store d l0" "l \<in> refs_of store l0" "manifest_at store l = Some m'"
      by (auto simp: reaches_Suc_iff)
    then have "l \<in> set visited'" using closed D(7) by blast
    from vis[OF this \<open>manifest_at store l = Some m'\<close>] show ?thesis by force
  qed
  show ?thesis
    unfolding walk_inv_def using closed vis nxt ok shallow level by blast
qed

lemma walk_inv_done:
  assumes "walk_inv store d visited [] done" and "reaches store n l"
  shows "l \<in> done"
  using assms(2)
proof (induction)
  case (start l m)
  then have "reaches store 0 l" by (rule reaches.start)
  then show ?case using walk_invD(6,7)[OF assms(1)] by (cases d) auto
next
  case (follow n l m ig r m')
  then have "r \<in> refs_of store l" by (auto simp: refs_of_def)
  then have "r \<in> set visited" using walk_invD(5)[OF assms(1)] follow.IH by blast
  then show ?case using walk_invD(3)[OF assms(1), of r m'] follow.hyps by simp
qed

lemma ai_walk_correct:
  assumes "walk_inv store d visited front done"
  shows "(ai_walk store d visited front = None \<longrightarrow>
            (\<forall>n \<le> REACHABLE_MAX_DEPTH. \<forall>l. reaches store n l \<longrightarrow> ai_clean store l))
       \<and> (\<forall>hit. ai_walk store d visited front = Some hit \<longrightarrow>
            (\<exists>n \<le> REACHABLE_MAX_DEPTH. \<exists>l m. reaches store n l \<and> manifest_at store l = Some m
               \<and> ai_hit l m = Some hit))"
  using assms
proof (induction store d visited front arbitrary: "done" rule: ai_walk.induct)
  case (1 store d visited front)
  show ?case
  proof (cases "d \<le> REACHABLE_MAX_DEPTH \<and> front \<noteq> []")
    case False
    have "ai_clean store l" if "n \<le> REACHABLE_MAX_DEPTH" "reaches store n l" for n l
    proof -
      have "l \<in> done"
      proof (cases "front = []")
        case True
        then show ?thesis using walk_inv_done[of store d visited "done"] 1(2) that(2) by simp
      next
        case ne: False
        with False that(1) have "n < d" by simp
        then show ?thesis using 1(2) that(2) by (auto simp: walk_inv_def)
      qed
      then show ?thesis using 1(2) by (auto simp: walk_inv_def)
    qed
    with False show ?thesis by (auto simp: ai_walk.simps)
  next
    case True
    show ?thesis
    proof (cases "scan_frontier store front (visited, [])")
      case (Inl hit)
      then have "ai_walk store d visited front = Some hit" using True by (simp add: ai_walk.simps)
      moreover from scan_frontier_Inl[OF Inl] obtain l m where
        "(l, m) \<in> set front" "ai_hit l m = Some hit" by auto
      moreover from this 1(2) have "reaches store d l" "manifest_at store l = Some m"
        by (auto simp: walk_inv_def)
      ultimately show ?thesis using True by fastforce
    next
      case (Inr r)
      obtain vis' nxt where r: "r = (vis', nxt)" by fastforce
      have "ai_walk store d visited front = ai_walk store (Suc d) vis' nxt"
        using True Inr r by (simp add: ai_walk.simps[of _ d])
      moreover have "walk_inv store (Suc d) vis' nxt (done \<union> fst ` set front)"
        using walk_inv_step[OF 1(2)] Inr r by simp
      ultimately show ?thesis using 1(1)[OF True Inr r[symmetric]] by simp
    qed
  qed
qed

lemma walk_inv_start:
  assumes "ms_active_manifest store = Some l" "manifest_at store l = Some m"
  shows "walk_inv store 0 [l] [(l, m)] {}"
  using assms by (auto simp: walk_inv_def reaches_0_iff)

definition ai_declared :: "manifest_store \<Rightarrow> bool" where
  "ai_declared store \<longleftrightarrow> (\<exists>n \<le> REACHABLE_MAX_DEPTH. \<exists>l. reaches store n l \<and> \<not> ai_clean store l)"

lemma findGenerativeAiSource_None_iff: "findGenerativeAiSource store = None \<longleftrightarrow> \<not> ai_declared store"
proof (cases "\<exists>l m. ms_active_manifest store = Some l \<and> manifest_at store l = Some m")
  case False
  then have "\<not> reaches store n l" for n l
    by (induction n arbitrary: l) (auto simp: reaches_0_iff reaches_Suc_iff)
  with False show ?thesis
    by (auto simp: findGenerativeAiSource_def ai_declared_def split: option.splits)
next
  case True
  then obtain l m where l: "ms_active_manifest store = Some l" "manifest_at store l = Some m" by blast
  then have eq: "findGenerativeAiSource store = ai_walk store 0 [l] [(l, m)]"
    by (simp add: findGenerativeAiSource_def getActiveManifest_def)
  note C = ai_walk_correct[OF walk_inv_start[OF l]]
  show ?thesis
  proof (cases "ai_walk store 0 [l] [(l, m)]")
    case None
    with C show ?thesis by (simp add: eq ai_declared_def)
  next
    case (Some hit)
    with C obtain n l' m' where h: "n \<le> REACHABLE_MAX_DEPTH" "reaches store n l'"
      "manifest_at store l' = Some m'" "ai_hit l' m' = Some hit" by blast
    then have "\<not> ai_clean store l'" using ai_hit_None_iff[OF h(3)] by simp
    with h Some show ?thesis by (auto simp: eq ai_declared_def)
  qed
qed

text \<open>C13. An upload is refused as AI-generated exactly when some manifest within sixteen references of the
  active one declares an action with a generative-AI source type, and passes otherwise; in
  particular a cycle of references neither hides a manifest nor stops the walk from ending.\<close>

theorem generative_ai_exact:
  "fails_with (enforceNoGenerativeAi store) AI_GENERATED
     = (\<exists>n l m e. n \<le> 16 \<and> reaches store n l \<and> manifest_at store l = Some m
          \<and> declares_action m e \<and> ai_entry e)
   \<and> accepted (enforceNoGenerativeAi store)
     = (\<nexists>n l m e. n \<le> 16 \<and> reaches store n l \<and> manifest_at store l = Some m
          \<and> declares_action m e \<and> ai_entry e)"
proof -
  have decl: "(\<exists>n l m e. n \<le> 16 \<and> reaches store n l \<and> manifest_at store l = Some m
          \<and> declares_action m e \<and> ai_entry e) = ai_declared store"
    unfolding ai_declared_def ai_clean_def set_extractActionEntries REACHABLE_MAX_DEPTH_def by blast
  show ?thesis
    unfolding decl enforceNoGenerativeAi_def
    using findGenerativeAiSource_None_iff[of store]
    by (cases "findGenerativeAiSource store") simp_all
qed

end
