(* ===== verification/RealReel.thy ===== *)
theory RealReel
  imports ProfileGates CertValidity AppAttest PlayIntegrity Sanitize ContentHash GenerativeAi
begin

text \<open>
  The RealReel ingestion profile, \<open>verifier/src/profiles/realreel.ts\<close>.  The datastore is a state;
  only the nonce burn of the Stage-2 attestation changes it.  The gates before the burn are one
  function in the order of the source (\<open>realreel_gates\<close>), followed by the burn
  (\<open>consume_stage2\<close>) and the derivation of the result.
\<close>

datatype stage_envelope = App_attest_envelope app_attest_data | Play_integrity_envelope play_integrity_data

record 's realreel_env =
  re_crypto :: crypto
  re_appId :: string
  re_google :: google
  re_now :: int
  re_parse_date :: date_parser
  re_datastore :: "'s datastore"
  re_playIntegrity :: "play_integrity_config option"
  re_attestationRequired :: bool

definition readCertSerial :: "manifest \<Rightarrow> string \<Rightarrow> string res" where
  "readCertSerial m stageLabel =
    (case chain (mf_signature_info m) si_cert_serial_number of
       None \<Rightarrow> Inl (verify_err MANIFEST_MALFORMED
                (stageLabel @ '' signature_info.cert_serial_number missing''))
     | Some serial \<Rightarrow>
         if length serial = 0
         then Inl (verify_err MANIFEST_MALFORMED
                (stageLabel @ '' signature_info.cert_serial_number missing''))
         else Inr serial)"

definition is_ios :: "string \<Rightarrow> bool" where
  "is_ios platform = (platform = ''ios'')"

definition is_android :: "string \<Rightarrow> bool" where
  "is_android platform = (platform = ''android-strongbox'' \<or> platform = ''android-tee'')"

definition resolveStageEnvelope ::
  "manifest \<Rightarrow> string \<Rightarrow> string \<Rightarrow> bool \<Rightarrow> stage_envelope option res"
where
  "resolveStageEnvelope m platform stageLabel attestationRequired =
    bindR (hasAppAttestAssertion m) (\<lambda>hasApp.
    bindR (hasPlayIntegrityAssertion m) (\<lambda>hasPlay.
    bindR (guardR (\<not> (hasApp \<and> hasPlay)) (verify_err ATTESTATION_INVALID
       (stageLabel @ '' carries both app_attest and play_integrity assertions''))) (\<lambda>_.
    bindR (guardR (\<not> (attestationRequired \<and> \<not> is_ios platform \<and> \<not> is_android platform))
       (verify_err ATTESTATION_INVALID
       (stageLabel @ '' signing key has unrecognized platform '' @ quote1 platform @ '' '' @ em_dash
        @ '' refusing to determine which envelope to require''))) (\<lambda>_.
    bindR (guardR (\<not> (hasApp \<and> is_android platform)) (verify_err ATTESTATION_INVALID
       (stageLabel @ '' signing key is Android ('' @ platform @ '') but manifest carries app_attest''))) (\<lambda>_.
    bindR (guardR (\<not> (hasPlay \<and> is_ios platform)) (verify_err ATTESTATION_INVALID
       (stageLabel @ '' signing key is iOS but manifest carries play_integrity''))) (\<lambda>_.
    if hasApp then bindR (validateAppAttestStructure m stageLabel) (\<lambda>d. Inr (Some (App_attest_envelope d)))
    else if hasPlay then bindR (validatePlayIntegrityStructure m stageLabel)
                           (\<lambda>d. Inr (Some (Play_integrity_envelope d)))
    else if attestationRequired then Inl (verify_err ATTESTATION_MISSING
       (stageLabel @ '' signing key is '' @ quote1 platform @ '' but manifest lacks ''
        @ (if is_ios platform then ''app_attest'' else ''play_integrity'')))
    else Inr None))))))"

definition cryptoInputsForRow :: "revocation_row \<Rightarrow> app_attest_crypto_inputs option" where
  "cryptoInputsForRow row =
    (case (rr_app_attest_public_key row, rr_public_key row) of
       (Some a, Some p) \<Rightarrow> Some \<lparr>ac_appAttestPublicKey = a, ac_signingKeySpki = p\<rparr>
     | _ \<Rightarrow> None)"

record gate_result =
  gr_active :: manifest
  gr_capture :: manifest
  gr_row :: revocation_row
  gr_envelope :: "stage_envelope option"

text \<open>The Stage-1 denylist: only a known, revoked serial rejects.\<close>

definition stage1_denylist :: "revocation_row option \<Rightarrow> unit res" where
  "stage1_denylist row =
    (case chain row rr_revoked_at of
       None \<Rightarrow> Inr ()
     | Some at \<Rightarrow> Inl (verify_err KEY_REVOKED (''stage 1 capture key revoked at '' @ at)))"

definition stage2_row_gate :: "revocation_row option \<Rightarrow> revocation_row res" where
  "stage2_row_gate row =
    (case row of
       None \<Rightarrow> Inl (verify_err KEY_NOT_FOUND
         ''stage 2 cert_serial_number not in the issued_certificates registry'')
     | Some r \<Rightarrow>
         (case rr_revoked_at r of
            Some at \<Rightarrow> Inl (verify_err KEY_REVOKED (''stage 2 signing key revoked at '' @ at))
          | None \<Rightarrow> Inr r))"

definition parent_revocation_gate ::
  "(string list \<Rightarrow> manifest_store res) option \<Rightarrow> manifest \<Rightarrow> resolved_trust_source \<Rightarrow> unit res"
where
  "parent_revocation_gate readWithOcsp capture source =
    (case (rt_revocation source, readWithOcsp) of
       (Some hosts, Some read) \<Rightarrow>
         bindR (read hosts) (\<lambda>online.
         bindR (classifyStrictValidationStatus (ms_validation_status online) (ms_active_manifest online)) (\<lambda>_.
         enforceParentRevocationStatus online capture source))
     | _ \<Rightarrow> Inr ())"

definition realreel_gates ::
  "'s realreel_env \<Rightarrow> manifest_store \<Rightarrow> trust_source_resolver \<Rightarrow> tsa_state
     \<Rightarrow> (string list \<Rightarrow> manifest_store res) option \<Rightarrow> 's \<Rightarrow> gate_result res"
where
  "realreel_gates env store resolve tsaState readWithOcsp s =
    bindR (classifyStrictValidationStatus (ms_validation_status store) (ms_active_manifest store)) (\<lambda>_.
    bindR (derefR (verify_err MANIFEST_MALFORMED ''no active manifest'') (getActiveManifest store)) (\<lambda>active.
    bindR (enforceStage2Parent store active) (\<lambda>immediateParent.
    bindR (resolveCaptureThroughUpdateManifests store immediateParent resolve) (\<lambda>capture.
    bindR (enforceFreshCaptureStage1 capture) (\<lambda>_.
    bindR (enforceActionsAllowlist capture CAPTURE_ALLOWED_ACTIONS ''Stage 1'') (\<lambda>_.
    bindR (enforceParentTrustSource capture resolve) (\<lambda>captureSource.
    bindR (enforceParentBinding store capture) (\<lambda>_.
    bindR (enforceRecordedIngredientResults store) (\<lambda>_.
    bindR (enforceActionsAllowlist active REALREEL_UPLOAD_ALLOWED_ACTIONS ''Stage 2'') (\<lambda>_.
    bindR (parent_revocation_gate readWithOcsp capture captureSource) (\<lambda>_.
    bindR (readCertSerial capture ''stage 1'') (\<lambda>stage1Serial.
    bindR (ds_lookup (re_datastore env) s stage1Serial) (\<lambda>stage1Row.
    bindR (stage1_denylist stage1Row) (\<lambda>_.
    bindR (readCertSerial active ''stage 2'') (\<lambda>stage2Serial.
    bindR (ds_lookup (re_datastore env) s stage2Serial) (\<lambda>row.
    bindR (stage2_row_gate row) (\<lambda>stage2Row.
    bindR (checkLedgerTimeBounds (re_parse_date env) active tsaState
             (rr_issued_at stage2Row) (rr_expires_at stage2Row)) (\<lambda>_.
    bindR (resolveStageEnvelope active (rr_platform stage2Row) ''Stage 2''
             (re_attestationRequired env)) (\<lambda>stage2Envelope.
    Inr \<lparr>gr_active = active, gr_capture = capture, gr_row = stage2Row,
         gr_envelope = stage2Envelope\<rparr>)))))))))))))))))))"

definition consume_stage2 :: "'s realreel_env \<Rightarrow> revocation_row \<Rightarrow> stage_envelope option \<Rightarrow> 's \<Rightarrow> unit res \<times> 's" where
  "consume_stage2 env row envelope s =
    (case envelope of
       None \<Rightarrow> (Inr (), s)
     | Some (App_attest_envelope d) \<Rightarrow>
         (case cryptoInputsForRow row of
            None \<Rightarrow> (Inl (verify_err ATTESTATION_INVALID
              (''Stage 2 iOS signing key has no enrollment-stored App Attest public key '' @ em_dash
               @ '' cannot verify the assertion'')), s)
          | Some inputs \<Rightarrow>
              consumeAppAttestForStage (re_crypto env) (re_appId env) (re_datastore env) d
                (rr_key_id row) ''Stage 2'' inputs s)
     | Some (Play_integrity_envelope d) \<Rightarrow>
         (case rr_public_key row of
            None \<Rightarrow> (Inl (verify_err ATTESTATION_INVALID
              (''Stage 2 Android signing key has no enrollment-stored public key '' @ em_dash
               @ '' cannot verify the Play Integrity requestHash binding'')), s)
          | Some spki \<Rightarrow>
              consumePlayIntegrityForStage (re_crypto env) (re_google env) (re_now env)
                (re_datastore env) d (rr_key_id row) ''Stage 2'' spki (re_playIntegrity env) s))"

definition hex_of_bytes :: "bytes \<Rightarrow> string" where
  "hex_of_bytes bs = concat (map (\<lambda>b. [hex_digit (unat b div 16), hex_digit (unat b mod 16)]) bs)"

definition content_hash :: "crypto \<Rightarrow> string \<Rightarrow> string" where
  "content_hash cr identity = hex_of_bytes (cr_sha256 cr (utf8 (''rrc1:'' @ identity)))"

record realreel_result =
  rv_sanitized :: sanitized_store
  rv_contentHash :: string

definition realreel_result_of ::
  "'s realreel_env \<Rightarrow> manifest_store \<Rightarrow> string \<Rightarrow> gate_result \<Rightarrow> realreel_result res"
where
  "realreel_result_of env store sourceId g =
    bindR (derefR (verify_err MANIFEST_MALFORMED
             ''capture manifest has no label; cannot derive content hash'')
             (buildContentIdentity (gr_capture g) (gr_active g))) (\<lambda>identity.
    bindR (sanitizeManifestStore store sourceId) (\<lambda>sanitized.
    Inr \<lparr>rv_sanitized = sanitized, rv_contentHash = content_hash (re_crypto env) identity\<rparr>))"

definition verifyRealReel ::
  "'s realreel_env \<Rightarrow> manifest_store \<Rightarrow> string \<Rightarrow> trust_source_resolver \<Rightarrow> tsa_state
     \<Rightarrow> (string list \<Rightarrow> manifest_store res) option \<Rightarrow> 's \<Rightarrow> realreel_result res \<times> 's"
where
  "verifyRealReel env store sourceId resolve tsaState readWithOcsp s =
    (case realreel_gates env store resolve tsaState readWithOcsp s of
       Inl e \<Rightarrow> (Inl e, s)
     | Inr g \<Rightarrow>
         (case consume_stage2 env (gr_row g) (gr_envelope g) s of
            (Inl e, s') \<Rightarrow> (Inl e, s')
          | (Inr _, s') \<Rightarrow> (realreel_result_of env store sourceId g, s')))"

section \<open>What acceptance means\<close>

text \<open>Provenance: the upload has one parent, reached past at most four RealReel-signed update
  manifests, which is a fresh capture by a capture-capable source whose hard binding the signer
  verified; nothing recorded contradicts it; both stages declare allowed actions only.\<close>

definition provenance_ok ::
  "manifest_store \<Rightarrow> trust_source_resolver \<Rightarrow> manifest \<Rightarrow> manifest \<Rightarrow> resolved_trust_source \<Rightarrow> bool"
where
  "provenance_ok store resolve active capture src \<longleftrightarrow>
    getActiveManifest store = Some active
    \<and> (\<exists>l p n. sole_parent store active l p \<and> n \<le> MAX_UPDATE_MANIFEST_DEPTH
         \<and> update_chain store resolve n p capture)
    \<and> mf_ingredients capture = []
    \<and> set (extractManifestActions capture) \<subseteq> set CAPTURE_ALLOWED_ACTIONS
    \<and> source_of resolve capture = Some src
    \<and> rt_profile src \<in> {''realreel'', ''wrap_parent_only''}
    \<and> (\<exists>l. mf_label capture = Some l \<and> l \<noteq> [] \<and> capture_bound store l)
    \<and> no_recorded_failure store
    \<and> set (extractManifestActions active) \<subseteq> set REALREEL_UPLOAD_ALLOWED_ACTIONS"

text \<open>Keys: the capture's certificate is not a revoked one, the upload's is registered, not
  revoked, and its ledger window holds the claimed signing time.\<close>

definition serial_of :: "manifest \<Rightarrow> string option" where
  "serial_of m = chain (mf_signature_info m) si_cert_serial_number"

definition keys_ok ::
  "'s realreel_env \<Rightarrow> 's \<Rightarrow> tsa_state \<Rightarrow> manifest \<Rightarrow> manifest \<Rightarrow> revocation_row \<Rightarrow> bool"
where
  "keys_ok env s tsaState active capture row \<longleftrightarrow>
    (\<exists>s1 s2 r1. serial_of capture = Some s1 \<and> serial_of active = Some s2 \<and> s1 \<noteq> [] \<and> s2 \<noteq> []
       \<and> ds_lookup (re_datastore env) s s1 = Inr r1 \<and> chain r1 rr_revoked_at = None
       \<and> ds_lookup (re_datastore env) s s2 = Inr (Some row) \<and> rr_revoked_at row = None
       \<and> time_bounded (re_parse_date env) active tsaState (rr_issued_at row) (rr_expires_at row))"

text \<open>Attestation: the envelope on the upload proves the platform check and its nonce was burned;
  no envelope is accepted only where attestation is not required.\<close>

definition attested ::
  "'s realreel_env \<Rightarrow> revocation_row \<Rightarrow> stage_envelope option \<Rightarrow> 's \<Rightarrow> 's \<Rightarrow> bool"
where
  "attested env row envelope s s' \<longleftrightarrow>
    (case envelope of
       None \<Rightarrow> \<not> re_attestationRequired env \<and> s' = s
     | Some (App_attest_envelope d) \<Rightarrow>
         \<not> is_android (rr_platform row)
         \<and> (\<exists>inputs. cryptoInputsForRow row = Some inputs
              \<and> app_attest_proved (re_crypto env) (re_appId env) d inputs)
         \<and> ds_burn (re_datastore env) s (rr_key_id row) (aa_challenge d) = (Inr (), s')
     | Some (Play_integrity_envelope d) \<Rightarrow>
         \<not> is_ios (rr_platform row)
         \<and> (\<exists>spki. rr_public_key row = Some spki
              \<and> verifyPlayIntegrityToken (re_crypto env) (re_google env) (re_now env) d ''Stage 2'' spki
                   (re_playIntegrity env) = Inr ())
         \<and> ds_burn (re_datastore env) s (rr_key_id row) (pi_challenge d) = (Inr (), s'))"

lemma stage1_denylist_Inr [simp]: "stage1_denylist r = Inr u \<longleftrightarrow> chain r rr_revoked_at = None"
  by (simp add: stage1_denylist_def split: option.splits)

lemma stage2_row_gate_Inr [simp]: "stage2_row_gate r = Inr row \<longleftrightarrow> r = Some row \<and> rr_revoked_at row = None"
  by (auto simp: stage2_row_gate_def split: option.splits)

lemma readCertSerial_Inr [simp]: "readCertSerial m lab = Inr sn \<longleftrightarrow> serial_of m = Some sn \<and> sn \<noteq> []"
  by (auto simp: readCertSerial_def serial_of_def split: option.splits)

text \<open>Passing the gates, gate by gate.\<close>

lemma realreel_gates_steps:
  assumes "realreel_gates env store resolve ts rwo s = Inr g"
  obtains p src s1 s2 r1 where
    "classifyStrictValidationStatus (ms_validation_status store) (ms_active_manifest store) = Inr ()"
    "getActiveManifest store = Some (gr_active g)"
    "enforceStage2Parent store (gr_active g) = Inr p"
    "resolveCaptureThroughUpdateManifests store p resolve = Inr (gr_capture g)"
    "enforceFreshCaptureStage1 (gr_capture g) = Inr ()"
    "enforceActionsAllowlist (gr_capture g) CAPTURE_ALLOWED_ACTIONS ''Stage 1'' = Inr ()"
    "enforceParentTrustSource (gr_capture g) resolve = Inr src"
    "enforceParentBinding store (gr_capture g) = Inr ()"
    "enforceRecordedIngredientResults store = Inr ()"
    "enforceActionsAllowlist (gr_active g) REALREEL_UPLOAD_ALLOWED_ACTIONS ''Stage 2'' = Inr ()"
    "parent_revocation_gate rwo (gr_capture g) src = Inr ()"
    "serial_of (gr_capture g) = Some s1" "s1 \<noteq> []"
    "ds_lookup (re_datastore env) s s1 = Inr r1" "chain r1 rr_revoked_at = None"
    "serial_of (gr_active g) = Some s2" "s2 \<noteq> []"
    "ds_lookup (re_datastore env) s s2 = Inr (Some (gr_row g))" "rr_revoked_at (gr_row g) = None"
    "checkLedgerTimeBounds (re_parse_date env) (gr_active g) ts
       (rr_issued_at (gr_row g)) (rr_expires_at (gr_row g)) = Inr ()"
    "resolveStageEnvelope (gr_active g) (rr_platform (gr_row g)) ''Stage 2''
       (re_attestationRequired env) = Inr (gr_envelope g)"
  using assms unfolding realreel_gates_def by auto

lemma realreel_gates_provenance:
  assumes "realreel_gates env store resolve ts rwo s = Inr g"
  shows "\<exists>src. provenance_ok store resolve (gr_active g) (gr_capture g) src
           \<and> parent_revocation_gate rwo (gr_capture g) src = Inr ()"
  using assms
proof (rule realreel_gates_steps)
  fix p src s1 s2 r1
  assume active: "getActiveManifest store = Some (gr_active g)"
    and parent: "enforceStage2Parent store (gr_active g) = Inr p"
    and walk: "resolveCaptureThroughUpdateManifests store p resolve = Inr (gr_capture g)"
    and fresh: "enforceFreshCaptureStage1 (gr_capture g) = Inr ()"
    and a1: "enforceActionsAllowlist (gr_capture g) CAPTURE_ALLOWED_ACTIONS ''Stage 1'' = Inr ()"
    and source: "enforceParentTrustSource (gr_capture g) resolve = Inr src"
    and binding: "enforceParentBinding store (gr_capture g) = Inr ()"
    and recorded: "enforceRecordedIngredientResults store = Inr ()"
    and a2: "enforceActionsAllowlist (gr_active g) REALREEL_UPLOAD_ALLOWED_ACTIONS ''Stage 2'' = Inr ()"
    and revocation: "parent_revocation_gate rwo (gr_capture g) src = Inr ()"
  have "\<exists>l p n. sole_parent store (gr_active g) l p \<and> n \<le> MAX_UPDATE_MANIFEST_DEPTH
      \<and> update_chain store resolve n p (gr_capture g)"
    using parent walk
    by (auto simp: enforceStage2Parent_Inr_iff resolveCaptureThroughUpdateManifests_Inr_iff)
  with active fresh a1 source recorded a2 enforceParentBinding_Inr[OF binding]
  have "provenance_ok store resolve (gr_active g) (gr_capture g) src"
    by (auto simp: provenance_ok_def enforceActionsAllowlist_Inr_iff enforceFreshCaptureStage1_Inr_iff
        enforceParentTrustSource_Inr enforceRecordedIngredientResults_Inr_iff)
  with revocation show ?thesis by blast
qed

lemma realreel_gates_keys:
  assumes "realreel_gates env store resolve ts rwo s = Inr g"
  shows "keys_ok env s ts (gr_active g) (gr_capture g) (gr_row g)"
  using assms by (rule realreel_gates_steps) (auto simp: keys_ok_def checkLedgerTimeBounds_Inr_iff)

lemma realreel_gates_envelope:
  assumes "realreel_gates env store resolve ts rwo s = Inr g"
  shows "resolveStageEnvelope (gr_active g) (rr_platform (gr_row g)) ''Stage 2'' (re_attestationRequired env)
           = Inr (gr_envelope g)"
  using assms by (rule realreel_gates_steps)

lemma realreel_gates_status:
  assumes "realreel_gates env store resolve ts rwo s = Inr g"
  shows "ms_validation_status store = [] \<or> hd (ms_validation_status store) = None"
  using assms by (rule realreel_gates_steps) (auto simp: classifyStrictValidationStatus_Inr_iff)

lemma resolveStageEnvelope_Inr:
  assumes "resolveStageEnvelope m platform lab req = Inr envl"
  shows "envl = None \<Longrightarrow> \<not> req"
    and "envl = Some (App_attest_envelope d) \<Longrightarrow> \<not> is_android platform"
    and "envl = Some (Play_integrity_envelope p) \<Longrightarrow> \<not> is_ios platform"
  using assms by (auto simp: resolveStageEnvelope_def split: if_splits)

lemma consume_stage2_Inr:
  assumes "consume_stage2 env row envl s = (Inr u, s')"
    and "resolveStageEnvelope m (rr_platform row) lab (re_attestationRequired env) = Inr envl"
  shows "attested env row envl s s'"
proof (cases envl)
  case None
  with assms show ?thesis
    using resolveStageEnvelope_Inr(1)[OF assms(2)] by (simp add: consume_stage2_def attested_def)
next
  case (Some e)
  show ?thesis
  proof (cases e)
    case (App_attest_envelope d)
    then obtain inputs where "cryptoInputsForRow row = Some inputs"
      using assms(1) Some by (cases "cryptoInputsForRow row") (simp_all add: consume_stage2_def)
    with App_attest_envelope Some assms(1) show ?thesis
      using resolveStageEnvelope_Inr(2)[OF assms(2)]
      by (simp add: consume_stage2_def attested_def consumeAppAttest_Inr)
  next
    case (Play_integrity_envelope d)
    then obtain spki where "rr_public_key row = Some spki"
      using assms(1) Some by (cases "rr_public_key row") (simp_all add: consume_stage2_def)
    with Play_integrity_envelope Some assms(1) show ?thesis
      using resolveStageEnvelope_Inr(3)[OF assms(2)]
      by (simp add: consume_stage2_def attested_def consumePlayIntegrity_Inr)
  qed
qed

text \<open>The state after \<open>verifyRealReel\<close> differs from the state before only by a burn, and only when
  every gate has passed.\<close>

lemma consume_stage2_state:
  "consume_stage2 env row envl s = (r, s') \<Longrightarrow> s' \<noteq> s \<Longrightarrow>
     \<exists>n. s' = snd (ds_burn (re_datastore env) s (rr_key_id row) n)"
  by (auto simp: consume_stage2_def consumeAppAttestForStage_def consumePlayIntegrityForStage_def
        burn_nonce_def Let_def split: option.splits stage_envelope.splits sum.splits prod.splits if_splits)
     (metis snd_conv)+

text \<open>Acceptance, in one fact: the gates passed with \<open>g\<close>, the burn took the state to \<open>s'\<close>.\<close>

lemma verifyRealReel_Inr_steps:
  assumes "verifyRealReel env store sid resolve ts rwo s = (Inr rr, s')"
  obtains g where "realreel_gates env store resolve ts rwo s = Inr g"
    "consume_stage2 env (gr_row g) (gr_envelope g) s = (Inr (), s')"
    "realreel_result_of env store sid g = Inr rr"
  using assms unfolding verifyRealReel_def by (auto split: sum.splits prod.splits)

lemma realreel_result_of_Inr:
  assumes "realreel_result_of env store sid g = Inr rr"
  shows "sanitizeManifestStore store sid = Inr (rv_sanitized rr)"
    and "\<exists>i. buildContentIdentity (gr_capture g) (gr_active g) = Some i
           \<and> rv_contentHash rr = content_hash (re_crypto env) i"
  using assms unfolding realreel_result_of_def by auto

lemma realreel_accepted_status:
  assumes "realreel_gates env store resolve ts rwo s = Inr g"
    and "realreel_result_of env store sid g = Inr rr"
  shows "ms_validation_status store = []"
proof -
  have "None \<notin> set (ms_validation_status store)"
    using realreel_result_of_Inr(1)[OF assms(2)] by (rule sanitizeManifestStore_status)
  with realreel_gates_status[OF assms(1)] show ?thesis
    by (metis list.set_sel(1))
qed

lemma verifyRealReel_state:
  assumes "verifyRealReel env store sid resolve ts rwo s = (r, s')" "s' \<noteq> s"
  shows "\<exists>g n. realreel_gates env store resolve ts rwo s = Inr g
           \<and> s' = snd (ds_burn (re_datastore env) s (rr_key_id (gr_row g)) n)"
proof (cases "realreel_gates env store resolve ts rwo s")
  case (Inl e)
  with assms show ?thesis by (simp add: verifyRealReel_def)
next
  case (Inr g)
  with assms(1) obtain r' where "consume_stage2 env (gr_row g) (gr_envelope g) s = (r', s')"
    by (auto simp: verifyRealReel_def split: prod.splits sum.splits)
  from consume_stage2_state[OF this assms(2)] Inr show ?thesis by blast
qed

text \<open>The gates read the state only through the registry.\<close>

lemma realreel_gates_lookup:
  assumes "\<And>serial. ds_lookup (re_datastore env) s' serial = ds_lookup (re_datastore env) s serial"
  shows "realreel_gates env store resolve ts rwo s' = realreel_gates env store resolve ts rwo s"
  unfolding realreel_gates_def assms ..

text \<open>What \<open>ports.ts\<close> asks of the datastore: a burn leaves the registry alone, and a challenge
  that was burned is unavailable afterwards.\<close>

definition single_use :: "'s datastore \<Rightarrow> bool" where
  "single_use ds \<longleftrightarrow>
    (\<forall>s k n s'. ds_burn ds s k n = (Inr (), s') \<longrightarrow>
       (\<forall>serial. ds_lookup ds s' serial = ds_lookup ds s serial)
       \<and> (\<exists>e. ds_burn ds s' k n = (Inl e, s') \<and> includes_str CHALLENGE_UNAVAILABLE (exn_message e)))"

lemma burn_nonce_replay:
  assumes "single_use ds" "ds_burn ds s k n = (Inr (), s')"
  shows "\<exists>e. burn_nonce ds cat lab k n s' = (Inl e, s') \<and> exn_code e = Some ATTESTATION_REPLAY"
proof -
  from assms obtain e where "ds_burn ds s' k n = (Inl e, s')" "includes_str CHALLENGE_UNAVAILABLE (exn_message e)"
    unfolding single_use_def by blast
  then show ?thesis by (simp add: burn_nonce_def Let_def)
qed

lemma consume_stage2_replay:
  assumes "single_use (re_datastore env)" "consume_stage2 env row (Some e) s = (Inr (), s')"
  shows "\<exists>x. consume_stage2 env row (Some e) s' = (Inl x, s') \<and> exn_code x = Some ATTESTATION_REPLAY"
proof (cases e)
  case (App_attest_envelope d)
  with assms(2) obtain inputs c where i: "cryptoInputsForRow row = Some inputs"
    "verifyAppAttestAssertion (re_crypto env) (re_appId env) d ''Stage 2'' inputs = Inr c"
    "burn_nonce (re_datastore env) ''app-attest'' ''Stage 2'' (rr_key_id row) (aa_challenge d) s = (Inr (), s')"
    by (auto simp: consume_stage2_def consumeAppAttestForStage_def split: option.splits sum.splits)
  from i(3) have "ds_burn (re_datastore env) s (rr_key_id row) (aa_challenge d) = (Inr (), s')"
    by (simp only: burn_nonce_Inr)
  from burn_nonce_replay[OF assms(1) this] obtain x where
    "burn_nonce (re_datastore env) ''app-attest'' ''Stage 2'' (rr_key_id row) (aa_challenge d) s' = (Inl x, s')"
    "exn_code x = Some ATTESTATION_REPLAY" by blast
  with i App_attest_envelope show ?thesis
    by (simp add: consume_stage2_def consumeAppAttestForStage_def)
next
  case (Play_integrity_envelope d)
  with assms(2) obtain spki where i: "rr_public_key row = Some spki"
    "verifyPlayIntegrityToken (re_crypto env) (re_google env) (re_now env) d ''Stage 2'' spki
       (re_playIntegrity env) = Inr ()"
    "burn_nonce (re_datastore env) ''play-integrity'' ''Stage 2'' (rr_key_id row) (pi_challenge d) s = (Inr (), s')"
    by (auto simp: consume_stage2_def consumePlayIntegrityForStage_def split: option.splits sum.splits)
  from i(3) have "ds_burn (re_datastore env) s (rr_key_id row) (pi_challenge d) = (Inr (), s')"
    by (simp only: burn_nonce_Inr)
  from burn_nonce_replay[OF assms(1) this] obtain x where
    "burn_nonce (re_datastore env) ''play-integrity'' ''Stage 2'' (rr_key_id row) (pi_challenge d) s' = (Inl x, s')"
    "exn_code x = Some ATTESTATION_REPLAY" by blast
  with i Play_integrity_envelope show ?thesis
    by (simp add: consume_stage2_def consumePlayIntegrityForStage_def)
qed

lemma consume_stage2_ds_burn:
  assumes "consume_stage2 env row (Some e) s = (Inr (), s')"
  shows "\<exists>n. ds_burn (re_datastore env) s (rr_key_id row) n = (Inr (), s')"
proof (cases e)
  case (App_attest_envelope d)
  with assms show ?thesis
    by (auto simp: consume_stage2_def consumeAppAttest_Inr split: option.splits)
next
  case (Play_integrity_envelope d)
  with assms show ?thesis
    by (auto simp: consume_stage2_def consumePlayIntegrity_Inr split: option.splits)
qed

text \<open>A second run of an accepted upload that carried an envelope is a replay.\<close>

lemma verifyRealReel_replay:
  assumes "single_use (re_datastore env)" "re_attestationRequired env"
    and "verifyRealReel env store sid resolve ts rwo s = (Inr rr, s')"
  shows "\<exists>x. verifyRealReel env store sid resolve ts rwo s' = (Inl x, s')
           \<and> exn_code x = Some ATTESTATION_REPLAY"
  using assms(3)
proof (rule verifyRealReel_Inr_steps)
  fix g
  assume g: "realreel_gates env store resolve ts rwo s = Inr g"
    and c: "consume_stage2 env (gr_row g) (gr_envelope g) s = (Inr (), s')"
  have "gr_envelope g \<noteq> None"
    using resolveStageEnvelope_Inr(1)[OF realreel_gates_envelope[OF g]] assms(2) by blast
  then obtain e where e: "gr_envelope g = Some e" by blast
  from consume_stage2_ds_burn[OF c[unfolded e]] assms(1)
  have "\<And>serial. ds_lookup (re_datastore env) s' serial = ds_lookup (re_datastore env) s serial"
    unfolding single_use_def by blast
  then have g': "realreel_gates env store resolve ts rwo s' = Inr g"
    using realreel_gates_lookup g by metis
  from consume_stage2_replay[OF assms(1) c[unfolded e]] e g' show ?thesis
    by (auto simp: verifyRealReel_def)
qed

section \<open>What suffices for acceptance\<close>

lemma enforceParentBinding_complete:
  assumes "mf_label capture = Some l" "l \<noteq> []" "capture_bound store l" "no_recorded_failure store"
  shows "enforceParentBinding store capture = Inr ()"
proof -
  have "\<forall>(k, m) \<in> set (ms_manifests store). None \<notin> set (mf_ingredients m)"
    using assms(4) by (fastforce simp: no_recorded_failure_def)
  with findRecordedBindingViolation_bound[OF assms(3)] assms(1,2) show ?thesis
    by (simp add: enforceParentBinding_def)
qed

lemma realreel_gates_complete:
  assumes "ms_validation_status store = []" "provenance_ok store resolve active capture src"
    and "\<exists>issuer. chain (mf_signature_info capture) si_issuer = Some issuer \<and> issuer \<noteq> []"
    and "parent_revocation_gate rwo capture src = Inr ()"
    and "keys_ok env s ts active capture row"
    and "resolveStageEnvelope active (rr_platform row) ''Stage 2'' (re_attestationRequired env) = Inr envelope"
  shows "realreel_gates env store resolve ts rwo s
    = Inr \<lparr>gr_active = active, gr_capture = capture, gr_row = row, gr_envelope = envelope\<rparr>"
proof -
  note pr = assms(2)[unfolded provenance_ok_def]
  obtain l p n where walk: "sole_parent store active l p" "n \<le> MAX_UPDATE_MANIFEST_DEPTH" "update_chain store resolve n p capture"
    using pr by blast
  obtain s1 s2 r1 where k: "serial_of capture = Some s1" "serial_of active = Some s2" "s1 \<noteq> []" "s2 \<noteq> []"
      "ds_lookup (re_datastore env) s s1 = Inr r1" "chain r1 rr_revoked_at = None"
      "ds_lookup (re_datastore env) s s2 = Inr (Some row)" "rr_revoked_at row = None"
      "time_bounded (re_parse_date env) active ts (rr_issued_at row) (rr_expires_at row)"
    using assms(5) unfolding keys_ok_def by blast
  have "classifyStrictValidationStatus (ms_validation_status store) (ms_active_manifest store) = Inr ()"
    using assms(1) by (simp add: classifyStrictValidationStatus_Inr_iff)
  moreover have "enforceStage2Parent store active = Inr p" using walk(1) by (auto simp: enforceStage2Parent_Inr_iff)
  moreover have "resolveCaptureThroughUpdateManifests store p resolve = Inr capture"
    using walk(2,3) by (auto simp: resolveCaptureThroughUpdateManifests_Inr_iff)
  moreover have "enforceFreshCaptureStage1 capture = Inr ()" using pr by (simp add: enforceFreshCaptureStage1_Inr_iff)
  moreover have "enforceActionsAllowlist capture CAPTURE_ALLOWED_ACTIONS ''Stage 1'' = Inr ()"
    "enforceActionsAllowlist active REALREEL_UPLOAD_ALLOWED_ACTIONS ''Stage 2'' = Inr ()"
    using pr by (simp_all add: enforceActionsAllowlist_Inr_iff)
  moreover have "enforceParentTrustSource capture resolve = Inr src"
    using pr assms(3) by (simp add: enforceParentTrustSource_Inr)
  moreover have "enforceParentBinding store capture = Inr ()" using pr enforceParentBinding_complete by blast
  moreover have "enforceRecordedIngredientResults store = Inr ()"
    using pr by (simp add: enforceRecordedIngredientResults_Inr_iff)
  moreover have "getActiveManifest store = Some active" using pr by blast
  moreover have "readCertSerial capture ''stage 1'' = Inr s1" "readCertSerial active ''stage 2'' = Inr s2"
    using k(1-4) by simp_all
  moreover have "checkLedgerTimeBounds (re_parse_date env) active ts (rr_issued_at row) (rr_expires_at row) = Inr ()"
    using k(9) by (simp add: checkLedgerTimeBounds_Inr_iff)
  ultimately show ?thesis
    using assms(4,6) k(5-8) by (simp add: realreel_gates_def del: getActiveManifest_Some_iff)
qed

lemma consume_stage2_complete: "attested env row envelope s s' \<Longrightarrow> consume_stage2 env row envelope s = (Inr (), s')"
  by (auto simp: attested_def consume_stage2_def consumeAppAttest_Inr consumePlayIntegrity_Inr
      split: option.splits stage_envelope.splits)

end
