(* ===== verification/DeriveMetadata.thy ===== *)
theory DeriveMetadata
  imports Errors Structure Dates Codec
begin

text \<open>
  Displayed metadata of a verified upload: \<open>verifier/src/derive-metadata.ts\<close>,
  \<open>verifier/src/container-sniff.ts\<close>, \<open>verifier/src/location-privacy.ts\<close> and
  \<open>trust-core/src/policies/location.ts\<close>.  The EXIF parser, ffprobe and the floating-point
  formatting \<open>toFixed\<close> are parameters (\<open>probes\<close>).  A coordinate is an exact fraction rather than a
  double; a length limit counts the characters of the model's strings.
\<close>

section \<open>Container sniff and location levels\<close>

datatype container_kind = Jpeg | Isobmff | Unknown_container

definition sniffContainer :: "bytes \<Rightarrow> container_kind" where
  "sniffContainer bs =
    (if length bs \<ge> 3 \<and> bs ! 0 = 0xff \<and> bs ! 1 = 0xd8 \<and> bs ! 2 = 0xff then Jpeg
     else if length bs \<ge> 12 \<and> take 4 (drop 4 bs) = utf8 ''ftyp'' then Isobmff
     else Unknown_container)"

datatype location_level = None_level | General | Precise

fun level_string :: "location_level \<Rightarrow> string" where
  "level_string None_level = ''none''"
| "level_string General = ''general''"
| "level_string Precise = ''precise''"

definition LOCATION_LEVELS :: "string list" where
  "LOCATION_LEVELS = [''none'', ''general'', ''precise'']"

definition isLocationLevel :: "jsval \<Rightarrow> bool" where
  "isLocationLevel x = (case as_str x of None \<Rightarrow> False | Some s \<Rightarrow> s \<in> set LOCATION_LEVELS)"

lemma isLocationLevel_iff: "isLocationLevel x \<longleftrightarrow> (\<exists>l. x = JStr (level_string l))"
proof
  assume "isLocationLevel x"
  then obtain s where "x = JStr s" "s \<in> set LOCATION_LEVELS"
    by (auto simp: isLocationLevel_def split: option.splits)
  then have "x = JStr (level_string None_level) \<or> x = JStr (level_string General)
      \<or> x = JStr (level_string Precise)"
    by (auto simp: LOCATION_LEVELS_def)
  then show "\<exists>l. x = JStr (level_string l)" by blast
next
  assume "\<exists>l. x = JStr (level_string l)"
  then obtain l where "x = JStr (level_string l)" ..
  then show "isLocationLevel x" by (cases l) (simp_all add: isLocationLevel_def LOCATION_LEVELS_def)
qed

section \<open>Derived metadata\<close>

type_synonym fraction = "int \<times> int"

record derived_entry =
  de_label :: string
  de_value :: string

record derived_metadata =
  dm_entries :: "derived_entry list"
  dm_latitude :: "fraction option"
  dm_longitude :: "fraction option"
  dm_location :: "string option"
  dm_metadataType :: string
  dm_bytesHadGps :: bool

datatype exif_value = Exif_json jsval | Exif_bytes string | Exif_date js_date

record ffprobe_stream =
  fs_codec_type :: "string option"
  fs_codec_name :: "string option"
  fs_profile :: "string option"
  fs_width :: "int option"
  fs_height :: "int option"
  fs_r_frame_rate :: "string option"
  fs_bit_rate :: "string option"
  fs_sample_rate :: "string option"
  fs_channels :: "int option"
  fs_color_space :: "string option"
  fs_color_transfer :: "string option"
  fs_color_primaries :: "string option"
  fs_rotations :: "int option list"
  fs_tags :: "(string \<times> string) list"

record ffprobe_json =
  fp_streams :: "ffprobe_stream list"
  fp_bit_rate :: "string option"
  fp_size :: "string option"
  fp_tags :: "(string \<times> string) list"

record probes =
  pb_exif :: "bytes \<Rightarrow> (string \<times> exif_value) list option"
  pb_exif_gps :: "bytes \<Rightarrow> (jsval \<times> jsval) option"
  pb_ffprobe :: "bytes \<Rightarrow> ffprobe_json option"
  pb_to_fixed :: "int \<Rightarrow> int \<Rightarrow> nat \<Rightarrow> string"

section \<open>Scrubbing and formatting\<close>

definition is_word_char :: "char \<Rightarrow> bool" where
  "is_word_char c = (is_alnum c \<or> c = CHR ''_'')"

text \<open>\<open>/\bw\b/\<close>; \<open>prev\<close> tells whether the preceding character is a word character.\<close>

fun whole_word :: "string \<Rightarrow> bool \<Rightarrow> string \<Rightarrow> bool" where
  "whole_word w prev [] = False"
| "whole_word w prev (c # cs) =
     ((\<not> prev \<and> starts_with w (c # cs)
        \<and> (let r = drop (length w) (c # cs) in r = [] \<or> \<not> is_word_char (hd r)))
      \<or> whole_word w (is_word_char c) cs)"

definition gps_scrub :: "string \<Rightarrow> bool" where
  "gps_scrub key =
    (let k = map lower_char key in
     list_ex (\<lambda>t. includes_str t k) [''location'', ''gps'', ''coordinate'', ''iso6709'', ''xyz'', ''geo'']
     \<or> list_ex (\<lambda>w. whole_word w False k) [''latitude'', ''longitude'', ''altitude''])"

definition has_control :: "string \<Rightarrow> bool" where
  "has_control s = list_ex (\<lambda>c. let b = of_char c :: nat in
      b \<le> 8 \<or> b = 11 \<or> b = 12 \<or> (14 \<le> b \<and> b \<le> 31) \<or> b = 127) s"

definition MAX_LOCATION_LABEL :: nat where
  "MAX_LOCATION_LABEL = 120"
definition MAX_ENTRY_VALUE :: nat where
  "MAX_ENTRY_VALUE = 512"

text \<open>\<open>manifest?.assertions?.find((x) => x.label === label)?.data\<close>, when it is an object.\<close>

fun find_labelled :: "string \<Rightarrow> assertion option list \<Rightarrow> assertion option res" where
  "find_labelled l [] = Inr None"
| "find_labelled l (None # as) = Inl TypeErr"
| "find_labelled l (Some a # as) = (if as_label a = Some l then Inr (Some a) else find_labelled l as)"

definition assertionData :: "manifest \<Rightarrow> string \<Rightarrow> jsval option res" where
  "assertionData m label =
    bindR (find_labelled label (mf_assertions m)) (\<lambda>a.
      Inr (case a of None \<Rightarrow> None | Some x \<Rightarrow> if is_object (as_data x) then Some (as_data x) else None))"

definition readLocationLabel :: "manifest \<Rightarrow> string option res" where
  "readLocationLabel active =
    bindR (assertionData active ''org.realreel.upload'') (\<lambda>up.
      Inr (case as_str (case up of None \<Rightarrow> JUndef | Some d \<Rightarrow> obj_get d ''locationLabel'') of
             None \<Rightarrow> None
           | Some label \<Rightarrow>
               (let trimmed = js_trim label in
                if trimmed = [] \<or> has_control trimmed then None
                else Some (take MAX_LOCATION_LABEL trimmed))))"

definition two :: "int \<Rightarrow> string" where
  "two n = pad0 2 (show_nat (nat n))"

definition exif_date_string :: "int \<Rightarrow> string" where
  "exif_date_string ms =
    (case civil_from_days (ms div MS_PER_DAY) of (y, mo, d) \<Rightarrow>
      (let t = ms mod MS_PER_DAY in
       show_int y @ '':'' @ two mo @ '':'' @ two d @ '' '' @ two (t div 3600000) @ '':''
       @ two (t div 60000 mod 60) @ '':'' @ two (t div 1000 mod 60)))"

definition formatExifValue :: "exif_value \<Rightarrow> string option" where
  "formatExifValue v =
    (case v of
       Exif_json (JNum n) \<Rightarrow> if is_finite_num n then Some (js_num_string n) else None
     | Exif_json (JStr s) \<Rightarrow>
         (let t = js_trim s in
          if length t = 0 \<or> has_control t then None else Some (take MAX_ENTRY_VALUE t))
     | Exif_date (Some ms) \<Rightarrow> Some (exif_date_string ms)
     | Exif_date None \<Rightarrow> Some ''NaN:NaN:NaN NaN:NaN:NaN''
     | _ \<Rightarrow> None)"

definition stripExifCommentPrefix :: "string \<Rightarrow> string" where
  "stripExifCommentPrefix v =
    (let z = CHR 0x00;
         ps = [''ASCII'' @ replicate 3 z, ''UNICODE'' @ [z], ''JIS'' @ replicate 5 z, replicate 8 z] in
     (case List.find (\<lambda>p. starts_with p v) ps of None \<Rightarrow> v | Some p \<Rightarrow> drop (length p) v))"

section \<open>Coordinates\<close>

text \<open>\<open>\d{1,2}(\.\d+)?\<close> as a fraction.\<close>

definition parse_minutes :: "string \<Rightarrow> fraction option" where
  "parse_minutes s =
    (case split_char (CHR ''.'') s of
       [i] \<Rightarrow> if 1 \<le> length i \<and> length i \<le> 2 \<and> list_all is_digit i
              then Some (int (parse_digits 0 i), 1) else None
     | [i, f] \<Rightarrow> if 1 \<le> length i \<and> length i \<le> 2 \<and> list_all is_digit i \<and> f \<noteq> [] \<and> list_all is_digit f
              then Some (int (parse_digits 0 (i @ f)), 10 ^ length f) else None
     | _ \<Rightarrow> None)"

text \<open>The XMP form: degrees, minutes, optional seconds, hemisphere letter.\<close>

definition parse_xmp :: "string \<Rightarrow> (int \<times> fraction \<times> fraction \<times> char) option" where
  "parse_xmp s =
    (if s = [] \<or> last s \<notin> set ''NSEW'' then None
     else (let parts = split_char (CHR '','') (butlast s);
               deg = (\<lambda>d. if 1 \<le> length d \<and> length d \<le> 3 \<and> list_all is_digit d
                          then Some (int (parse_digits 0 d)) else None) in
       (case parts of
          [d, mi] \<Rightarrow>
            (case (deg d, parse_minutes mi) of
               (Some dv, Some mv) \<Rightarrow> Some (dv, mv, (0, 1), last s)
             | _ \<Rightarrow> None)
        | [d, mi, se] \<Rightarrow>
            (case (deg d, parse_minutes mi, parse_minutes se) of
               (Some dv, Some mv, Some sv) \<Rightarrow> Some (dv, mv, sv, last s)
             | _ \<Rightarrow> None)
        | _ \<Rightarrow> None)))"

fun num_fraction :: "jsnum \<Rightarrow> fraction option" where
  "num_fraction (DecNum m e) = Some (if 0 \<le> e then (m * 10 ^ nat e, 1) else (m, 10 ^ nat (- e)))"
| "num_fraction _ = None"

definition in_range :: "int \<Rightarrow> fraction \<Rightarrow> fraction option" where
  "in_range mx f = (if \<bar>fst f\<bar> > mx * snd f then None else Some f)"

definition toCoord :: "jsval \<Rightarrow> int \<Rightarrow> string \<Rightarrow> fraction option" where
  "toCoord v mx hemispheres =
    (case v of
       JNum n \<Rightarrow> Option.bind (num_fraction n) (in_range mx)
     | JStr s \<Rightarrow>
         if js_trim s = [] then None
         else (case parse_xmp (js_trim s) of
            Some (deg, (mn, md), (sn, sd), hemi) \<Rightarrow>
              if hemi \<notin> set hemispheres \<or> mn \<ge> 60 * md \<or> sn \<ge> 60 * sd then None
              else (let n = deg * (3600 * md * sd) + mn * 60 * sd + sn * md in
                    in_range mx (if hemi = CHR ''S'' \<or> hemi = CHR ''W'' then - n else n, 3600 * md * sd))
          | None \<Rightarrow> Option.bind (num_fraction (js_number s)) (in_range mx))
     | _ \<Rightarrow> None)"

definition coordPair :: "fraction option \<Rightarrow> fraction option \<Rightarrow> fraction option \<times> fraction option" where
  "coordPair lat lon = (if lat \<noteq> None \<and> lon \<noteq> None then (lat, lon) else (None, None))"

section \<open>Photos\<close>

definition photo_entry :: "string \<times> exif_value \<Rightarrow> derived_entry option" where
  "photo_entry kv =
    (case kv of (key, raw) \<Rightarrow>
      if gps_scrub key then None
      else
        (let rawValue =
               (if key = ''userComment''
                then (case raw of
                        Exif_bytes s \<Rightarrow> Exif_json (JStr (stripExifCommentPrefix s))
                      | Exif_json (JStr s) \<Rightarrow> Exif_json (JStr (stripExifCommentPrefix s))
                      | _ \<Rightarrow> raw)
                else raw) in
         (case formatExifValue rawValue of
            None \<Rightarrow> None
          | Some value \<Rightarrow>
              Some \<lparr>de_label = key,
                    de_value = (if key = ''FocalLength'' \<or> key = ''FocalLengthIn35mmFormat''
                                then value @ '' mm'' else value)\<rparr>)))"

fun finite_val :: "jsval \<Rightarrow> bool" where
  "finite_val (JNum n) = is_finite_num n"
| "finite_val _ = False"

definition photo_has_gps :: "probes \<Rightarrow> bytes \<Rightarrow> bool" where
  "photo_has_gps pb assetBytes =
    (case pb_exif_gps pb assetBytes of
       None \<Rightarrow> False
     | Some (lat, lon) \<Rightarrow> finite_val lat \<and> finite_val lon)"

text \<open>\<open>assertionData(active, a) ?? assertionData(active, b)\<close>.\<close>

definition assertion_or :: "manifest \<Rightarrow> string \<Rightarrow> string \<Rightarrow> jsval option res" where
  "assertion_or m a b =
    bindR (assertionData m a) (\<lambda>d. case d of Some v \<Rightarrow> Inr (Some v) | None \<Rightarrow> assertionData m b)"

definition field_of :: "jsval option \<Rightarrow> string \<Rightarrow> jsval" where
  "field_of d k = (case d of None \<Rightarrow> JUndef | Some v \<Rightarrow> obj_get v k)"

definition derivePhotoMetadata :: "probes \<Rightarrow> bytes \<Rightarrow> manifest \<Rightarrow> derived_metadata res" where
  "derivePhotoMetadata pb assetBytes active =
    (let entries = List.map_filter photo_entry (null_or (pb_exif pb assetBytes) []) in
     bindR (assertion_or active METADATA_ASSERTION_LABEL LEGACY_EXIF_ASSERTION_LABEL) (\<lambda>exif.
     (let c = coordPair (toCoord (field_of exif ''exif:GPSLatitude'') 90 ''NS'')
                        (toCoord (field_of exif ''exif:GPSLongitude'') 180 ''EW'') in
      bindR (readLocationLabel active) (\<lambda>loc.
      Inr \<lparr>dm_entries = entries, dm_latitude = fst c, dm_longitude = snd c, dm_location = loc,
           dm_metadataType = ''exif'', dm_bytesHadGps = photo_has_gps pb assetBytes\<rparr>))))"

section \<open>Videos\<close>

definition truthy_or :: "string option \<Rightarrow> string option \<Rightarrow> string" where
  "truthy_or a b = (if null_or a [] \<noteq> [] then null_or a [] else null_or b [])"

definition any_of :: "string list \<Rightarrow> string \<Rightarrow> bool" where
  "any_of ps v = list_ex (\<lambda>p. includes_str p v) ps"

definition colorStandard :: "ffprobe_stream \<Rightarrow> string option" where
  "colorStandard s =
    (let raw = truthy_or (fs_color_primaries s) (fs_color_space s); v = map lower_char raw in
     if v = [] then None
     else if any_of [''2020''] v then Some ''BT.2020''
     else if any_of [''709''] v then Some ''BT.709''
     else if any_of [''601'', ''170m'', ''470bg'', ''smpte-c'', ''ebu''] v then Some ''BT.601''
     else Some (''Unknown ('' @ raw @ '')''))"

definition colorTransfer :: "ffprobe_stream \<Rightarrow> string option" where
  "colorTransfer s =
    (let raw = null_or (fs_color_transfer s) []; v = map lower_char raw in
     if v = [] then None
     else if any_of [''2084'', ''pq''] v then Some ''PQ (HDR10)''
     else if any_of [''b67'', ''hlg''] v then Some ''HLG''
     else if any_of [''709'', ''170m'', ''iec61966'', ''601'', ''bt470''] v then Some ''SDR''
     else Some (''Unknown ('' @ raw @ '')''))"

definition frameRate :: "string option \<Rightarrow> (int \<times> int) option" where
  "frameRate r =
    (case split_char (CHR ''/'') (null_or r []) of
       [a, b] \<Rightarrow>
         if a \<noteq> [] \<and> b \<noteq> [] \<and> list_all is_digit a \<and> list_all is_digit b
            \<and> parse_digits 0 b \<noteq> 0
         then Some (int (parse_digits 0 a), int (parse_digits 0 b)) else None
     | _ \<Rightarrow> None)"

definition tags_have_location :: "(string \<times> string) list \<Rightarrow> bool" where
  "tags_have_location tags = list_ex (\<lambda>(k, v). gps_scrub k \<and> js_trim v \<noteq> []) tags"

definition hasLocationTag :: "ffprobe_json \<Rightarrow> bool" where
  "hasLocationTag probe =
    (tags_have_location (fp_tags probe) \<or> list_ex (\<lambda>s. tags_have_location (fs_tags s)) (fp_streams probe))"

definition entry :: "string \<Rightarrow> string \<Rightarrow> derived_entry list" where
  "entry l v = [\<lparr>de_label = l, de_value = v\<rparr>]"

definition str_entry :: "string \<Rightarrow> string option \<Rightarrow> string \<Rightarrow> derived_entry list" where
  "str_entry l v unit_text = (if null_or v [] \<noteq> [] then entry l (null_or v [] @ unit_text) else [])"

definition times_sign :: string where
  "times_sign = [CHR 0xC3, CHR 0x97]"
definition degree_sign :: string where
  "degree_sign = [CHR 0xC2, CHR 0xB0]"

text \<open>A positive number divided by a unit, formatted by \<open>toFixed\<close>.\<close>

definition scaled_entry :: "probes \<Rightarrow> string \<Rightarrow> string option \<Rightarrow> int \<Rightarrow> nat \<Rightarrow> string \<Rightarrow> derived_entry list" where
  "scaled_entry pb l raw unit digits unit_text =
    (case Option.bind (map_option js_number raw) num_fraction of
       Some (n, d) \<Rightarrow> if n > 0 then entry l (pb_to_fixed pb n (d * unit) digits @ unit_text) else []
     | None \<Rightarrow> [])"

definition first_rotation :: "ffprobe_stream \<Rightarrow> int" where
  "first_rotation s = (case List.find (\<lambda>r. r \<noteq> None) (fs_rotations s) of Some (Some r) \<Rightarrow> r | _ \<Rightarrow> 0)"

definition video_stream_entries :: "probes \<Rightarrow> ffprobe_json \<Rightarrow> ffprobe_stream \<Rightarrow> derived_entry list" where
  "video_stream_entries pb probe video =
    (let rot = first_rotation video;
         swap = \<bar>rot\<bar> mod 180 = 90 in
     (case (fs_width video, fs_height video) of
        (Some w, Some h) \<Rightarrow>
          entry ''Resolution'' (if swap then show_int h @ '' '' @ times_sign @ '' '' @ show_int w
                               else show_int w @ '' '' @ times_sign @ '' '' @ show_int h)
      | _ \<Rightarrow> [])
     @ (if rot \<noteq> 0 then entry ''Rotation'' (show_int (rot mod 360) @ degree_sign) else [])
     @ (case frameRate (fs_r_frame_rate video) of
          Some (n, d) \<Rightarrow> entry ''Frame Rate'' (pb_to_fixed pb n d 2 @ '' fps'')
        | None \<Rightarrow> [])
     @ scaled_entry pb ''Video Bitrate''
         (case fs_bit_rate video of Some b \<Rightarrow> Some b | None \<Rightarrow> fp_bit_rate probe) 1000000 2 '' Mbps''
     @ str_entry ''Video Codec'' (fs_codec_name video) []
     @ str_entry ''Video Codec Profile'' (fs_profile video) []
     @ str_entry ''Color Standard'' (colorStandard video) []
     @ str_entry ''Color Transfer'' (colorTransfer video) [])"

definition audio_stream_entries :: "ffprobe_stream \<Rightarrow> derived_entry list" where
  "audio_stream_entries audio =
     str_entry ''Audio Codec'' (fs_codec_name audio) []
     @ str_entry ''Audio Codec Profile'' (fs_profile audio) []
     @ str_entry ''Audio Sample Rate'' (fs_sample_rate audio) '' Hz''
     @ (case fs_channels audio of Some c \<Rightarrow> entry ''Audio Channels'' (show_int c) | None \<Rightarrow> [])"

text \<open>\<open>/^(\d{4})-(\d{2})-(\d{2})[T ](\d{2}):(\d{2}):(\d{2})/\<close>: date and time without fraction and zone.\<close>

definition matches_shape :: "string \<Rightarrow> string \<Rightarrow> bool" where
  "matches_shape shape s =
    (length s \<ge> length shape
     \<and> list_all2 (\<lambda>p c. if p = CHR ''9'' then is_digit c
                       else if p = CHR ''T'' then c = CHR ''T'' \<or> c = CHR '' ''
                       else c = p) shape (take (length shape) s))"

definition creation_value :: "string \<Rightarrow> string option" where
  "creation_value creation =
    (if matches_shape ''9999-99-99T99:99:99'' creation
     then Some (take 10 creation @ '' '' @ take 8 (drop 11 creation))
     else formatExifValue (Exif_json (JStr creation)))"

definition opt_entry :: "string \<Rightarrow> string option \<Rightarrow> derived_entry list" where
  "opt_entry l v = (case v of None \<Rightarrow> [] | Some x \<Rightarrow> entry l x)"

definition container_entries :: "probes \<Rightarrow> ffprobe_json \<Rightarrow> derived_entry list" where
  "container_entries pb probe =
    (let creation = null_or (map_of (fp_tags probe) ''creation_time'') [];
         comment = null_or (map_of (fp_tags probe) ''com.realreel.comment'') [] in
     (if creation \<noteq> [] then opt_entry ''Creation Time (MP4)'' (creation_value creation) else [])
     @ scaled_entry pb ''File size'' (fp_size probe) (1024 * 1024) 1 '' MB''
     @ (if comment \<noteq> []
        then opt_entry ''com.realreel.comment'' (formatExifValue (Exif_json (JStr comment))) else []))"

definition empty_probe :: ffprobe_json where
  "empty_probe = \<lparr>fp_streams = [], fp_bit_rate = None, fp_size = None, fp_tags = []\<rparr>"

definition location_created :: "jsval option \<Rightarrow> jsval option" where
  "location_created iptc =
    (case field_of iptc ''Iptc4xmpExt:LocationCreated'' of
       JArr (v # _) \<Rightarrow> if is_object v then Some v else None
     | _ \<Rightarrow> None)"

definition deriveVideoMetadata :: "probes \<Rightarrow> bytes \<Rightarrow> manifest \<Rightarrow> derived_metadata res" where
  "deriveVideoMetadata pb assetBytes active =
    (let probe = null_or (pb_ffprobe pb assetBytes) empty_probe;
         ofType = (\<lambda>t. List.find (\<lambda>s. fs_codec_type s = Some t) (fp_streams probe));
         entries =
           (case ofType ''video'' of None \<Rightarrow> [] | Some v \<Rightarrow> video_stream_entries pb probe v)
           @ (case ofType ''audio'' of None \<Rightarrow> [] | Some a \<Rightarrow> audio_stream_entries a)
           @ container_entries pb probe in
     bindR (assertion_or active METADATA_ASSERTION_LABEL LEGACY_IPTC_ASSERTION_LABEL) (\<lambda>iptc.
     (let loc = location_created iptc;
          c = coordPair (toCoord (field_of loc ''exif:GPSLatitude'') 90 ''NS'')
                        (toCoord (field_of loc ''exif:GPSLongitude'') 180 ''EW'') in
      bindR (readLocationLabel active) (\<lambda>label.
      Inr \<lparr>dm_entries = filter (\<lambda>e. \<not> gps_scrub (de_label e)) entries,
           dm_latitude = fst c, dm_longitude = snd c, dm_location = label,
           dm_metadataType = ''video'', dm_bytesHadGps = hasLocationTag probe\<rparr>))))"

definition isVideoUpload :: "bytes \<Rightarrow> string \<Rightarrow> bool" where
  "isVideoUpload assetBytes mimeType =
    (case sniffContainer assetBytes of
       Isobmff \<Rightarrow> True
     | Jpeg \<Rightarrow> False
     | Unknown_container \<Rightarrow> starts_with ''video/'' (map lower_char mimeType))"

definition deriveMetadata :: "probes \<Rightarrow> bytes \<Rightarrow> string \<Rightarrow> manifest \<Rightarrow> derived_metadata res" where
  "deriveMetadata pb assetBytes mimeType active =
    (if isVideoUpload assetBytes mimeType then deriveVideoMetadata pb assetBytes active
     else derivePhotoMetadata pb assetBytes active)"

section \<open>The location-privacy backstop\<close>

definition enforceLocationPrivacy :: "derived_metadata \<Rightarrow> location_level \<Rightarrow> unit res" where
  "enforceLocationPrivacy derived declared =
    (let fileHasGps = dm_bytesHadGps derived;
         assertionHasGps = dm_latitude derived \<noteq> None \<and> dm_longitude derived \<noteq> None in
     if declared \<noteq> Precise \<and> (fileHasGps \<or> assertionHasGps)
     then Inl (verify_err LOCATION_PRIVACY_VIOLATION
       (''a '' @ quote1 (level_string declared) @ '' location upload carries GPS (''
        @ join_with '' + '' ((if fileHasGps then [''file bytes''] else [])
                           @ (if assertionHasGps then [''signed assertion''] else []))
        @ '') '' @ em_dash @ '' a non-precise upload must publish no coordinates''))
     else if fileHasGps \<and> \<not> assertionHasGps
     then Inl (verify_err LOCATION_PRIVACY_VIOLATION
       (''uploaded bytes carry GPS absent from the signed manifest '' @ em_dash
        @ '' a non-precise upload leaked coordinates into the public file''))
     else Inr ())"

section \<open>Facts\<close>

lemma enforceLocationPrivacy_Inr_iff [result_simps]:
  "enforceLocationPrivacy d lvl = Inr u \<longleftrightarrow>
     (if lvl = Precise then dm_bytesHadGps d \<longrightarrow> dm_latitude d \<noteq> None \<and> dm_longitude d \<noteq> None
      else \<not> dm_bytesHadGps d \<and> \<not> (dm_latitude d \<noteq> None \<and> dm_longitude d \<noteq> None))"
  by (auto simp: enforceLocationPrivacy_def Let_def)

lemma coordPair_both: "fst (coordPair a b) = None \<longleftrightarrow> snd (coordPair a b) = None"
  by (auto simp: coordPair_def)

lemma photo_entry_scrubbed: "photo_entry kv = Some e \<Longrightarrow> \<not> gps_scrub (de_label e)"
  by (auto simp: photo_entry_def Let_def split: prod.splits if_splits option.splits)

lemma map_filter_photo: "e \<in> set (List.map_filter photo_entry kvs) \<Longrightarrow> \<not> gps_scrub (de_label e)"
  by (induction kvs) (auto dest: photo_entry_scrubbed split: option.splits)

lemma deriveMetadata_scrubbed:
  assumes "deriveMetadata pb bs mime active = Inr d"
  shows "\<forall>e \<in> set (dm_entries d). \<not> gps_scrub (de_label e)"
    and "dm_latitude d = None \<longleftrightarrow> dm_longitude d = None"
  using assms
  by (auto simp: deriveMetadata_def deriveVideoMetadata_def derivePhotoMetadata_def Let_def coordPair_both
        dest: map_filter_photo split: if_splits)

text \<open>A published place label is the signed one.\<close>

lemma readLocationLabel_Some:
  assumes "readLocationLabel m = Inr (Some l)"
  shows "\<exists>d signed. assertionData m ''org.realreel.upload'' = Inr (Some d) \<and> obj_get d ''locationLabel'' = JStr signed
    \<and> l = take 120 (js_trim signed) \<and> js_trim signed \<noteq> [] \<and> \<not> has_control (js_trim signed)"
proof -
  from assms obtain up where up: "assertionData m ''org.realreel.upload'' = Inr up"
    and l: "(case as_str (case up of None \<Rightarrow> JUndef | Some d \<Rightarrow> obj_get d ''locationLabel'') of None \<Rightarrow> None
       | Some label \<Rightarrow> (let trimmed = js_trim label in
           if trimmed = [] \<or> has_control trimmed then None else Some (take MAX_LOCATION_LABEL trimmed))) = Some l"
    by (auto simp: readLocationLabel_def)
  from l obtain d where "up = Some d" by (cases up) simp_all
  moreover from l this obtain signed where "obj_get d ''locationLabel'' = JStr signed"
    by (cases "obj_get d ''locationLabel''") simp_all
  ultimately show ?thesis using up l by (auto simp: Let_def MAX_LOCATION_LABEL_def split: if_splits)
qed

lemma deriveMetadata_label:
  assumes "deriveMetadata pb bs mime active = Inr d" "dm_location d = Some l"
  shows "\<exists>u signed. assertionData active ''org.realreel.upload'' = Inr (Some u) \<and> obj_get u ''locationLabel'' = JStr signed
    \<and> l = take 120 (js_trim signed) \<and> js_trim signed \<noteq> [] \<and> \<not> has_control (js_trim signed)"
proof -
  from assms(1) obtain loc where "readLocationLabel active = Inr loc" "dm_location d = loc"
    by (auto simp: deriveMetadata_def deriveVideoMetadata_def derivePhotoMetadata_def Let_def split: if_splits)
  with assms(2) show ?thesis using readLocationLabel_Some by simp
qed

lemma in_range_bound: "in_range mx f = Some g \<Longrightarrow> g = f \<and> \<bar>fst g\<bar> \<le> mx * snd g"
  by (auto simp: in_range_def split: if_splits)

lemma toCoord_in_range: "toCoord v mx hs = Some f \<Longrightarrow> \<bar>fst f\<bar> \<le> mx * snd f"
  by (auto simp: toCoord_def bind_eq_Some_conv Let_def dest!: in_range_bound
        split: jsval.splits if_splits option.splits prod.splits)

lemma num_fraction_pos: "num_fraction n = Some f \<Longrightarrow> 0 < snd f"
  by (cases n rule: num_fraction.cases) (auto split: if_splits)

lemma parse_minutes_pos: "parse_minutes s = Some f \<Longrightarrow> 0 < snd f"
  by (auto simp: parse_minutes_def split: list.splits if_splits)

lemma parse_xmp_pos: "parse_xmp s = Some (d, m, se, h) \<Longrightarrow> 0 < snd m \<and> 0 < snd se"
  by (auto simp: parse_xmp_def Let_def dest!: parse_minutes_pos split: list.splits if_splits option.splits)

lemma toCoord_pos: "toCoord v mx hs = Some f \<Longrightarrow> 0 < snd f"
  by (auto simp: toCoord_def bind_eq_Some_conv Let_def dest!: in_range_bound num_fraction_pos parse_xmp_pos
        split: jsval.splits if_splits option.splits prod.splits)

lemma coordPair_some: "fst (coordPair a b) = Some x \<Longrightarrow> a = Some x" "snd (coordPair a b) = Some y \<Longrightarrow> b = Some y"
  by (auto simp: coordPair_def split: if_splits)

lemma deriveMetadata_coords:
  assumes "deriveMetadata pb bs mime active = Inr d"
  shows "\<exists>u v. dm_latitude d = fst (coordPair (toCoord u 90 ''NS'') (toCoord v 180 ''EW''))
     \<and> dm_longitude d = snd (coordPair (toCoord u 90 ''NS'') (toCoord v 180 ''EW''))"
proof (cases "isVideoUpload bs mime")
  case True
  with assms show ?thesis
    by (clarsimp simp: deriveMetadata_def deriveVideoMetadata_def Let_def)
       (intro exI conjI, (rule refl)+)
next
  case False
  with assms show ?thesis
    by (clarsimp simp: deriveMetadata_def derivePhotoMetadata_def Let_def)
       (intro exI conjI, (rule refl)+)
qed

text \<open>Derived coordinates are well-formed fractions inside the globe and come in pairs, whatever the
  signed assertion holds.\<close>

lemma derived_coordinates_in_range:
  assumes "deriveMetadata pb bs mime active = Inr d"
  shows "(dm_latitude d = None) = (dm_longitude d = None)
     \<and> (\<forall>n k. dm_latitude d = Some (n, k) \<longrightarrow> 0 < k \<and> \<bar>n\<bar> \<le> 90 * k)
     \<and> (\<forall>n k. dm_longitude d = Some (n, k) \<longrightarrow> 0 < k \<and> \<bar>n\<bar> \<le> 180 * k)"
proof -
  from deriveMetadata_coords[OF assms] obtain u v where
    c: "dm_latitude d = fst (coordPair (toCoord u 90 ''NS'') (toCoord v 180 ''EW''))"
       "dm_longitude d = snd (coordPair (toCoord u 90 ''NS'') (toCoord v 180 ''EW''))"
    by blast
  have "0 < k \<and> \<bar>n\<bar> \<le> 90 * k" if "dm_latitude d = Some (n, k)" for n k
  proof -
    have "toCoord u 90 ''NS'' = Some (n, k)" using that unfolding c by (rule coordPair_some)
    from toCoord_in_range[OF this] toCoord_pos[OF this] show ?thesis by simp
  qed
  moreover have "0 < k \<and> \<bar>n\<bar> \<le> 180 * k" if "dm_longitude d = Some (n, k)" for n k
  proof -
    have "toCoord v 180 ''EW'' = Some (n, k)" using that unfolding c by (rule coordPair_some)
    from toCoord_in_range[OF this] toCoord_pos[OF this] show ?thesis by simp
  qed
  ultimately show ?thesis
    using deriveMetadata_scrubbed(2)[OF assms] by blast
qed

definition ex_located :: manifest where
  "ex_located = blank_manifest\<lparr>mf_assertions := [Some \<lparr>as_label = Some METADATA_ASSERTION_LABEL,
     as_data = JObj [(''exif:GPSLatitude'', JStr ''45,30.5N''), (''exif:GPSLongitude'', JStr ''100,0W'')]\<rparr>]\<rparr>"

definition ex_no_probes :: probes where
  "ex_no_probes = \<lparr>pb_exif = (\<lambda>_. None), pb_exif_gps = (\<lambda>_. None), pb_ffprobe = (\<lambda>_. None),
     pb_to_fixed = (\<lambda>_ _ _. [])\<rparr>"

lemma ex_located_derives:
  "(case deriveMetadata ex_no_probes [0xff, 0xd8, 0xff] ''image/jpeg'' ex_located of
      Inr d \<Rightarrow> dm_longitude d | Inl e \<Rightarrow> None) = Some (- 360000, 3600)"
  by code_simp

theorem derived_coordinates_in_range_witness:
  "\<exists>d n k. deriveMetadata ex_no_probes [0xff, 0xd8, 0xff] ''image/jpeg'' ex_located = Inr d
     \<and> dm_longitude d = Some (n, k) \<and> 0 < k \<and> \<bar>n\<bar> \<le> 180 * k \<and> dm_latitude d \<noteq> None"
proof -
  obtain d where d: "deriveMetadata ex_no_probes [0xff, 0xd8, 0xff] ''image/jpeg'' ex_located = Inr d"
    "dm_longitude d \<noteq> None"
    using ex_located_derives by (auto split: sum.splits)
  with derived_coordinates_in_range[OF d(1)] show ?thesis
    by (metis not_None_eq surj_pair)
qed

text \<open>The location-privacy gate: at the precise level the file may carry GPS only with signed
  coordinates; at any other level neither the file nor the assertion may carry any.\<close>

lemma location_privacy_exact:
  "accepted (enforceLocationPrivacy d lvl)
     = (if lvl = Precise then \<not> (dm_bytesHadGps d \<and> (dm_latitude d = None \<or> dm_longitude d = None))
        else \<not> (dm_bytesHadGps d \<or> (dm_latitude d \<noteq> None \<and> dm_longitude d \<noteq> None)))
   \<and> (accepted (enforceLocationPrivacy d lvl)
      \<or> fails_with (enforceLocationPrivacy d lvl) LOCATION_PRIVACY_VIOLATION)"
  by (cases "enforceLocationPrivacy d lvl")
     (auto simp: enforceLocationPrivacy_def Let_def split: if_splits)

end
