(* ===== verification/VerifyFlow.thy ===== *)
theory VerifyFlow
  imports RealReel DeriveMetadata
begin

text \<open>
  The orchestrator \<open>verifier/src/verify.ts\<close>: the MIME and container gates, the offline read, the
  generative-AI gate, issuer resolution and force-wrap, the time bounds, the RealReel profile
  with its optional network revocation read, the derived metadata and the location backstop.
  The C2PA reader is a parameter: what it answers for given settings and bytes, and after how
  many milliseconds.
\<close>

definition ALLOWED_UPLOAD_MIME_TYPES :: "string list" where
  "ALLOWED_UPLOAD_MIME_TYPES =
    [''image/jpeg'', ''image/heic'', ''image/heif'', ''video/mp4'', ''video/quicktime'']"

definition C2PA_SIGNING_EKU_OIDS :: "string list" where
  "C2PA_SIGNING_EKU_OIDS =
    [''1.3.6.1.5.5.7.3.4'', ''1.3.6.1.5.5.7.3.36'', ''1.3.6.1.5.5.7.3.8'', ''1.3.6.1.5.5.7.3.9'',
     ''1.3.6.1.4.1.311.76.59.1.9'', ''1.3.6.1.4.1.62558.2.1'']"

definition C2PA_SIGNING_EKU_CONFIG :: string where
  "C2PA_SIGNING_EKU_CONFIG = join_with [CHR 0x0A] C2PA_SIGNING_EKU_OIDS @ [CHR 0x0A]"

record reader_settings =
  rs_trustAnchors :: string
  rs_trustConfig :: string
  rs_allowedNetworkHosts :: "string list"
  rs_verifyTimestampTrust :: bool
  rs_remoteManifestFetch :: bool
  rs_ocspFetch :: bool

definition fetchesOcsp :: "string list \<Rightarrow> bool \<Rightarrow> bool" where
  "fetchesOcsp ocspHosts networkRevocation = (networkRevocation \<and> length ocspHosts > 0)"

definition buildVerifierSettings :: "string \<Rightarrow> string list \<Rightarrow> bool \<Rightarrow> reader_settings" where
  "buildVerifierSettings trustAnchorsBundle ocspHosts networkRevocation =
    \<lparr>rs_trustAnchors = trustAnchorsBundle, rs_trustConfig = C2PA_SIGNING_EKU_CONFIG,
     rs_allowedNetworkHosts = ocspHosts, rs_verifyTimestampTrust = True,
     rs_remoteManifestFetch = False, rs_ocspFetch = fetchesOcsp ocspHosts networkRevocation\<rparr>"

text \<open>What the reader answers: it throws, finds no provenance, or returns a store.\<close>

datatype read_outcome = Read_throws string | No_provenance | Read_store manifest_store

record read_reply =
  rp_outcome :: read_outcome
  rp_millis :: nat

type_synonym c2pa_reader = "reader_settings \<Rightarrow> bytes \<Rightarrow> string \<Rightarrow> read_reply"

definition OCSP_FETCH_TIMEOUT_MS :: nat where
  "OCSP_FETCH_TIMEOUT_MS = 10000"

text \<open>The race of the read against the timer; a tie is counted as a timeout.\<close>

definition withOcspTimeout :: "read_reply \<Rightarrow> nat \<Rightarrow> read_outcome res" where
  "withOcspTimeout reply ms =
    (if rp_millis reply < ms then Inr (rp_outcome reply)
     else Inl (verify_err_cat VERIFIER_UNAVAILABLE
            (''c2pa read with OCSP fetch exceeded '' @ show_nat ms @ '' ms'') ''ocsp''))"

definition no_provenance_err :: exn where
  "no_provenance_err = verify_err MANIFEST_MALFORMED ''asset has no embedded C2PA provenance''"

definition readStoreWithOcsp ::
  "c2pa_reader \<Rightarrow> bytes \<Rightarrow> string \<Rightarrow> trust_config \<Rightarrow> string list \<Rightarrow> manifest_store res"
where
  "readStoreWithOcsp reader assetBytes mimeType trustConfig ocspHosts =
    bindR (withOcspTimeout
             (reader (buildVerifierSettings (tc_trustAnchorsBundle trustConfig) ocspHosts True)
                assetBytes mimeType) OCSP_FETCH_TIMEOUT_MS)
      (\<lambda>o'. case o' of
         Read_throws e \<Rightarrow> Inl (OtherErr e)
       | No_provenance \<Rightarrow> Inl no_provenance_err
       | Read_store store \<Rightarrow> Inr store)"

definition readActiveIssuer :: "manifest_store \<Rightarrow> string option" where
  "readActiveIssuer store =
    chain (chain (getActiveManifest store) mf_signature_info) si_issuer"

definition readActiveCommonName :: "manifest_store \<Rightarrow> string option" where
  "readActiveCommonName store =
    chain (chain (getActiveManifest store) mf_signature_info) si_common_name"

record verify_args =
  va_assetBytes :: bytes
  va_mimeType :: string
  va_declaredLocation :: location_level
  va_trustConfig :: trust_config
  va_networkRevocation :: bool

record verify_result =
  vf_sanitizedManifest :: sanitized_store
  vf_derived :: derived_metadata
  vf_contentHash :: string

text \<open>The gate on the declared MIME type, before it selects an asset handler.\<close>

definition mime_gate :: "string \<Rightarrow> bytes \<Rightarrow> string res" where
  "mime_gate mimeType assetBytes =
    (let normalizedMime = map lower_char mimeType in
     bindR (guardR (normalizedMime \<in> set ALLOWED_UPLOAD_MIME_TYPES)
       (verify_err MANIFEST_MALFORMED (''unsupported mimeType '' @ quote1 mimeType))) (\<lambda>_.
     (let expectedContainer = if normalizedMime = ''image/jpeg'' then Jpeg else Isobmff in
      bindR (guardR (sniffContainer assetBytes = expectedContainer)
        (verify_err MANIFEST_MALFORMED
          (''asset bytes do not match declared mimeType '' @ quote1 mimeType))) (\<lambda>_.
      Inr normalizedMime))))"

definition offline_read :: "c2pa_reader \<Rightarrow> trust_config \<Rightarrow> bytes \<Rightarrow> string \<Rightarrow> manifest_store res" where
  "offline_read reader trustConfig assetBytes normalizedMime =
    (case rp_outcome (reader (buildVerifierSettings (tc_trustAnchorsBundle trustConfig)
              (tc_ocspHosts trustConfig) False) assetBytes normalizedMime) of
       Read_throws e \<Rightarrow> Inl (verify_err MANIFEST_MALFORMED e)
     | No_provenance \<Rightarrow> Inl no_provenance_err
     | Read_store store \<Rightarrow> Inr store)"

text \<open>Issuer resolution and force-wrap: the active manifest must resolve to a source of the
  \<open>realreel\<close> profile.\<close>

definition force_wrap :: "manifest_store \<Rightarrow> trust_source_resolver \<Rightarrow> resolved_trust_source res" where
  "force_wrap store resolveSource =
    (case readActiveIssuer store of
       None \<Rightarrow> Inl (verify_err MANIFEST_MALFORMED ''active manifest signature_info.issuer is missing'')
     | Some issuer \<Rightarrow>
         if issuer = []
         then Inl (verify_err MANIFEST_MALFORMED ''active manifest signature_info.issuer is missing'')
         else (case resolveSource issuer (readActiveCommonName store) of
            None \<Rightarrow> Inl (verify_err UNTRUSTED_ISSUER
              (''issuer '' @ quote1 issuer @ '' does not match any configured trust source''))
          | Some source \<Rightarrow>
              if rt_profile source \<noteq> ''realreel''
              then Inl (verify_err UNTRUSTED_ISSUER
                (''active manifest issuer '' @ quote1 issuer @ '' ('' @ rt_name source
                 @ '') is not RealReel '' @ em_dash
                 @ '' every upload must carry a RealReel Stage 2 manifest (force-wrap); ''
                 @ ''raw single-stage '' @ rt_name source @ '' files are not accepted''))
              else Inr source))"

record admitted =
  ad_mime :: string
  ad_store :: manifest_store
  ad_active :: manifest
  ad_source :: resolved_trust_source
  ad_tsaState :: tsa_state

text \<open>Everything before the profile.\<close>

definition admit ::
  "'s realreel_env \<Rightarrow> c2pa_reader \<Rightarrow> verify_args \<Rightarrow> admitted res"
where
  "admit env reader args =
    bindR (mime_gate (va_mimeType args) (va_assetBytes args)) (\<lambda>normalizedMime.
    bindR (offline_read reader (va_trustConfig args) (va_assetBytes args) normalizedMime) (\<lambda>store.
    bindR (enforceNoGenerativeAi store) (\<lambda>_.
    bindR (force_wrap store (makeTrustSourceResolver (va_trustConfig args))) (\<lambda>source.
    bindR (derefR TypeErr (getActiveManifest store)) (\<lambda>active.
    bindR (readTsaState store) (\<lambda>tsaState.
    bindR (checkCertValidityTimeBounds (re_parse_date env) active tsaState (re_now env)) (\<lambda>_.
    Inr \<lparr>ad_mime = normalizedMime, ad_store = store, ad_active = active, ad_source = source,
         ad_tsaState = tsaState\<rparr>)))))))"

definition online_reader ::
  "c2pa_reader \<Rightarrow> verify_args \<Rightarrow> string \<Rightarrow> (string list \<Rightarrow> manifest_store res) option"
where
  "online_reader reader args normalizedMime =
    (if fetchesOcsp (tc_ocspHosts (va_trustConfig args)) (va_networkRevocation args)
     then Some (readStoreWithOcsp reader (va_assetBytes args) normalizedMime (va_trustConfig args))
     else None)"

definition verify ::
  "'s realreel_env \<Rightarrow> c2pa_reader \<Rightarrow> probes \<Rightarrow> verify_args \<Rightarrow> 's \<Rightarrow> verify_result res \<times> 's"
where
  "verify env reader pb args s =
    (case admit env reader args of
       Inl e \<Rightarrow> (Inl e, s)
     | Inr a \<Rightarrow>
         (case verifyRealReel env (ad_store a) (rt_id (ad_source a))
                 (makeTrustSourceResolver (va_trustConfig args)) (ad_tsaState a)
                 (online_reader reader args (ad_mime a)) s of
            (Inl e, s') \<Rightarrow> (Inl e, s')
          | (Inr rr, s') \<Rightarrow>
              (bindR (deriveMetadata pb (va_assetBytes args) (ad_mime a) (ad_active a)) (\<lambda>derived.
               bindR (enforceLocationPrivacy derived (va_declaredLocation args)) (\<lambda>_.
               Inr \<lparr>vf_sanitizedManifest = rv_sanitized rr, vf_derived = derived,
                    vf_contentHash = rv_contentHash rr\<rparr>)), s')))"

section \<open>Facts\<close>

lemma mime_gate_Inr [result_simps]:
  "mime_gate mt bs = Inr nm \<longleftrightarrow> nm = map lower_char mt \<and> nm \<in> set ALLOWED_UPLOAD_MIME_TYPES
     \<and> sniffContainer bs = (if nm = ''image/jpeg'' then Jpeg else Isobmff)"
  by (auto simp: mime_gate_def Let_def)

lemma force_wrap_Inr [result_simps]:
  "force_wrap store resolve = Inr src \<longleftrightarrow>
     (\<exists>issuer. readActiveIssuer store = Some issuer \<and> issuer \<noteq> []
        \<and> resolve issuer (readActiveCommonName store) = Some src \<and> rt_profile src = ''realreel'')"
  by (auto simp: force_wrap_def split: option.splits)

lemma offline_read_Inr [result_simps]:
  "offline_read reader cfg bs nm = Inr store \<longleftrightarrow>
     rp_outcome (reader (buildVerifierSettings (tc_trustAnchorsBundle cfg) (tc_ocspHosts cfg) False) bs nm)
       = Read_store store"
  by (auto simp: offline_read_def split: read_outcome.splits)

lemma enforceNoGenerativeAi_Inr_iff [result_simps]:
  "enforceNoGenerativeAi store = Inr u \<longleftrightarrow> \<not> ai_declared store"
  by (auto simp: enforceNoGenerativeAi_def simp flip: findGenerativeAiSource_None_iff split: option.splits)

text \<open>The offline read never reaches the network.\<close>

lemma offline_settings [simp]:
  "rs_ocspFetch (buildVerifierSettings b hosts False) = False"
  "rs_remoteManifestFetch (buildVerifierSettings b hosts nr) = False"
  "rs_allowedNetworkHosts (buildVerifierSettings b hosts nr) = hosts"
  by (simp_all add: buildVerifierSettings_def fetchesOcsp_def)

lemma readStoreWithOcsp_Inr [result_simps]:
  "readStoreWithOcsp reader bs mt cfg hosts = Inr store \<longleftrightarrow>
     (\<exists>r. reader (buildVerifierSettings (tc_trustAnchorsBundle cfg) hosts True) bs mt = r
        \<and> rp_millis r < OCSP_FETCH_TIMEOUT_MS \<and> rp_outcome r = Read_store store)"
  by (auto simp: readStoreWithOcsp_def withOcspTimeout_def split: read_outcome.splits)

lemma verify_Inr_steps:
  assumes "verify env reader pb args s = (Inr v, s')"
  obtains a rr where "admit env reader args = Inr a"
    "verifyRealReel env (ad_store a) (rt_id (ad_source a))
       (makeTrustSourceResolver (va_trustConfig args)) (ad_tsaState a)
       (online_reader reader args (ad_mime a)) s = (Inr rr, s')"
    "deriveMetadata pb (va_assetBytes args) (ad_mime a) (ad_active a) = Inr (vf_derived v)"
    "enforceLocationPrivacy (vf_derived v) (va_declaredLocation args) = Inr ()"
    "vf_sanitizedManifest v = rv_sanitized rr" "vf_contentHash v = rv_contentHash rr"
  using assms unfolding verify_def by (auto split: sum.splits prod.splits)

lemma admit_steps:
  assumes "admit env reader args = Inr a"
  shows "mime_gate (va_mimeType args) (va_assetBytes args) = Inr (ad_mime a)"
    and "offline_read reader (va_trustConfig args) (va_assetBytes args) (ad_mime a) = Inr (ad_store a)"
    and "\<not> ai_declared (ad_store a)"
    and "force_wrap (ad_store a) (makeTrustSourceResolver (va_trustConfig args)) = Inr (ad_source a)"
    and "getActiveManifest (ad_store a) = Some (ad_active a)"
    and "readTsaState (ad_store a) = Inr (ad_tsaState a)"
    and "checkCertValidityTimeBounds (re_parse_date env) (ad_active a) (ad_tsaState a) (re_now env) = Inr ()"
  using assms unfolding admit_def by (auto simp: enforceNoGenerativeAi_Inr_iff)

text \<open>A second submission of an accepted upload.\<close>

lemma verify_replay:
  assumes "single_use (re_datastore env)" "re_attestationRequired env"
    and "verify env reader pb args s = (Inr v, s')"
  shows "\<exists>x. verify env reader pb args s' = (Inl x, s') \<and> exn_code x = Some ATTESTATION_REPLAY"
proof -
  from assms(3) obtain a rr where adm: "admit env reader args = Inr a" and
    run: "verifyRealReel env (ad_store a) (rt_id (ad_source a)) (makeTrustSourceResolver (va_trustConfig args))
       (ad_tsaState a) (online_reader reader args (ad_mime a)) s = (Inr rr, s')"
    by (rule verify_Inr_steps)
  from verifyRealReel_replay[OF assms(1,2) run] adm show ?thesis
    by (auto simp: verify_def)
qed

text \<open>Where attestation is required, acceptance burned a challenge for a registered key in good standing.\<close>

lemma verify_burned:
  assumes "re_attestationRequired env" "verify env reader pb args s = (Inr v, s')"
  shows "\<exists>serial row n. ds_lookup (re_datastore env) s serial = Inr (Some row) \<and> rr_revoked_at row = None
    \<and> ds_burn (re_datastore env) s (rr_key_id row) n = (Inr (), s')"
proof -
  from assms(2) obtain a :: admitted and rr where
    run: "verifyRealReel env (ad_store a) (rt_id (ad_source a)) (makeTrustSourceResolver (va_trustConfig args))
       (ad_tsaState a) (online_reader reader args (ad_mime a)) s = (Inr rr, s')"
    by (rule verify_Inr_steps) blast
  from run obtain g where
    g: "realreel_gates env (ad_store a) (makeTrustSourceResolver (va_trustConfig args))
          (ad_tsaState a) (online_reader reader args (ad_mime a)) s = Inr g"
    and burn: "consume_stage2 env (gr_row g) (gr_envelope g) s = (Inr (), s')"
    by (rule verifyRealReel_Inr_steps)
  have "attested env (gr_row g) (gr_envelope g) s s'"
    by (rule consume_stage2_Inr[OF burn realreel_gates_envelope[OF g]])
  then have "\<exists>n. ds_burn (re_datastore env) s (rr_key_id (gr_row g)) n = (Inr (), s')"
    using assms(1) by (auto simp: attested_def split: option.splits stage_envelope.splits)
  moreover have "\<exists>serial. ds_lookup (re_datastore env) s serial = Inr (Some (gr_row g)) \<and> rr_revoked_at (gr_row g) = None"
    using realreel_gates_keys[OF g] by (auto simp: keys_ok_def)
  ultimately show ?thesis by blast
qed

end
