(* ===== verification/Examples.thy ===== *)
theory Examples
  imports VerifyFlow
begin

text \<open>
  A concrete upload, on which the properties that span components are instantiated: an iOS capture
  wrapped by a RealReel upload manifest, a registry with the capture's and the upload's keys, and a
  datastore that holds the outstanding challenges.  The parameters of the model (digest, signature
  check, CBOR decoder, reader, date parser) are small concrete functions.
\<close>

definition ex_sha256 :: "bytes \<Rightarrow> bytes" where
  "ex_sha256 bs = take 32 (bs @ replicate 32 0)"

definition ex_crypto :: crypto where
  "ex_crypto = \<lparr>cr_sha256 = ex_sha256,
     cr_cbor_decode = (\<lambda>bs. Inr (CMap [(''signature'', CBytes bs),
        (''authenticatorData'', CBytes (ex_sha256 (utf8 APPLE_APP_ID) @ replicate 5 0))])),
     cr_p256_point_ok = (\<lambda>raw. Inr ()),
     cr_ecdsa_verify = (\<lambda>msg sig key. Inr (length msg = 32 \<and> length sig = 3))\<rparr>"

definition ex_row :: "string \<Rightarrow> revocation_row" where
  "ex_row serial = \<lparr>rr_key_id = ''key-'' @ serial, rr_user_id = Some ''u1'', rr_revoked_at = None,
     rr_cert_serial_number = serial, rr_platform = ''ios'', rr_public_key = Some [1, 2, 3],
     rr_app_attest_public_key = Some (4 # replicate 64 7),
     rr_issued_at = ''2026-01-01'', rr_expires_at = ''2026-03-01''\<rparr>"

text \<open>The state is the list of outstanding challenges, each bound to its key.\<close>

type_synonym challenge_state = "(string \<times> string) list"

definition ex_datastore :: "challenge_state datastore" where
  "ex_datastore = \<lparr>
     ds_lookup = (\<lambda>s serial. Inr (if serial = ''11'' \<or> serial = ''22'' then Some (ex_row serial) else None)),
     ds_burn = (\<lambda>s k n. if (k, n) \<in> set s then (Inr (), filter (\<lambda>x. x \<noteq> (k, n)) s)
                        else (Inl (OtherErr CHALLENGE_UNAVAILABLE), s))\<rparr>"

definition ex_dates :: date_parser where
  "ex_dates t = (if t = ''2026-01-01'' then Some 1000000000
                 else if t = ''2026-02-01'' then Some 2000000000
                 else if t = ''2026-03-01'' then Some 3000000000 else None)"

definition ex_env :: "challenge_state realreel_env" where
  "ex_env = \<lparr>re_crypto = ex_crypto, re_appId = APPLE_APP_ID,
     re_google = \<lparr>go_auth = Auth_throws None, go_decode = (\<lambda>_ _ _. Fetch_throws None None)\<rparr>,
     re_now = 2500000000, re_parse_date = ex_dates, re_datastore = ex_datastore,
     re_playIntegrity = None, re_attestationRequired = True\<rparr>"

lemma ex_env_datastore: "re_datastore ex_env = ex_datastore"
  by (simp add: ex_env_def)

definition ex_info :: "string \<Rightarrow> signature_info" where
  "ex_info serial = blank_info\<lparr>si_issuer := Some ''Whole Earth Labs LLC'',
     si_cert_serial_number := Some serial, si_time := Some ''2026-02-01''\<rparr>"

definition ex_actions :: "string \<Rightarrow> assertion" where
  "ex_actions act = \<lparr>as_label = Some ''c2pa.actions.v2'',
     as_data = JObj [(''actions'', JArr [JObj [(''action'', JStr act)]])]\<rparr>"

definition ex_app_attest :: assertion where
  "ex_app_attest = \<lparr>as_label = Some APP_ATTEST_LABEL,
     as_data = JObj [(''keyId'', JStr ''a2V5''), (''challenge'', JStr ''bm9u''),
       (''assertion'', JStr ''AQID''), (''platform'', JStr ''ios'')]\<rparr>"

definition ex_capture :: manifest where
  "ex_capture = blank_manifest\<lparr>mf_label := Some ''urn:cap'', mf_signature_info := Some (ex_info ''11''),
     mf_assertions := [Some (ex_actions ''c2pa.created'')]\<rparr>"

definition ex_parent_ingredient :: ingredient where
  "ex_parent_ingredient = blank_ingredient\<lparr>ig_active_manifest := Some ''urn:cap'',
     ig_relationship := Some ''parentOf'', ig_label := Some ''c2pa.ingredient.v3'',
     ig_validation_results := Some \<lparr>vr_activeManifest = Some
        \<lparr>bk_success = [Some (status_of_code ''assertion.dataHash.match'')], bk_informational = [],
         bk_failure = []\<rparr>, vr_ingredientDeltas = []\<rparr>\<rparr>"

definition ex_upload :: manifest where
  "ex_upload = blank_manifest\<lparr>mf_label := Some ''urn:up'', mf_signature_info := Some (ex_info ''22''),
     mf_assertions := [Some (ex_actions ''c2pa.opened''), Some ex_app_attest],
     mf_ingredients := [Some ex_parent_ingredient]\<rparr>"

definition ex_store :: manifest_store where
  "ex_store = blank_store\<lparr>ms_active_manifest := Some ''urn:up'',
     ms_manifests := [(''urn:up'', ex_upload), (''urn:cap'', ex_capture)]\<rparr>"

definition ex_config :: trust_config where
  "ex_config = \<lparr>tc_sources = [\<lparr>ts_id = ''realreel'', ts_name = ''RealReel'', ts_root_cert = ''r.pem'',
       ts_profile = ''realreel'', ts_revocation = None, ts_rootCertPem = ''PEM''\<rparr>],
     tc_tsaRoots = [], tc_trustAnchorsBundle = ''PEM'', tc_loadedIds = [''realreel''], tc_ocspHosts = []\<rparr>"

definition ex_reader :: "manifest_store \<Rightarrow> c2pa_reader" where
  "ex_reader store = (\<lambda>settings bs mime. \<lparr>rp_outcome = Read_store store, rp_millis = 5\<rparr>)"

definition ex_probes :: probes where
  "ex_probes = \<lparr>pb_exif = (\<lambda>_. Some []), pb_exif_gps = (\<lambda>_. None), pb_ffprobe = (\<lambda>_. None),
     pb_to_fixed = (\<lambda>_ _ _. [])\<rparr>"

definition ex_args :: verify_args where
  "ex_args = \<lparr>va_assetBytes = [0xff, 0xd8, 0xff, 0xe0], va_mimeType = ''image/JPEG'',
     va_declaredLocation = General, va_trustConfig = ex_config, va_networkRevocation = False\<rparr>"

definition ex_challenges :: challenge_state where
  "ex_challenges = [(''key-22'', ''bm9u''), (''key-9'', ''b3Ro'')]"

text \<open>The upload is accepted, and its challenge, no other, is spent.\<close>

lemma ex_verify:
  "accepted (fst (verify ex_env (ex_reader ex_store) ex_probes ex_args ex_challenges))"
  "snd (verify ex_env (ex_reader ex_store) ex_probes ex_args ex_challenges) = [(''key-9'', ''b3Ro'')]"
  by code_simp+

text \<open>The same upload, sent again, meets a spent challenge.\<close>

lemma ex_replay:
  "fails_with (fst (verify ex_env (ex_reader ex_store) ex_probes ex_args [(''key-9'', ''b3Ro'')]))
     ATTESTATION_REPLAY"
  by code_simp

section \<open>A Pixel capture, with network revocation on\<close>

definition px_capture :: manifest where
  "px_capture = ex_capture\<lparr>mf_signature_info := Some ((ex_info ''99'')
     \<lparr>si_issuer := Some ''Google LLC'', si_common_name := Some ''Pixel Camera''\<rparr>)\<rparr>"

definition px_store :: manifest_store where
  "px_store = ex_store\<lparr>ms_manifests := [(''urn:up'', ex_upload), (''urn:cap'', px_capture)]\<rparr>"

text \<open>The online read of the same store carries the responder's answer about the capture.\<close>

definition px_delta :: ingredient_delta where
  "px_delta = \<lparr>dl_uri = getIngredientAssertionUri (Some ''urn:up'') (Some ''c2pa.ingredient.v3''),
     dl_deltas = Some \<lparr>bk_success = [Some \<lparr>st_code = Some OCSP_NOT_REVOKED, st_explanation = None,
        st_url = Some OCSP_FETCHED_RESPONSE_URL\<rparr>], bk_informational = [], bk_failure = []\<rparr>\<rparr>"

definition px_online :: manifest_store where
  "px_online = px_store\<lparr>ms_validation_results :=
     Some \<lparr>vr_activeManifest = None, vr_ingredientDeltas = [Some px_delta]\<rparr>\<rparr>"

definition px_reader :: c2pa_reader where
  "px_reader = (\<lambda>settings bs mime. \<lparr>rp_outcome =
     Read_store (if rs_ocspFetch settings \<and> rs_allowedNetworkHosts settings = [''ocsp.pki.goog'']
                 then px_online else px_store), rp_millis = 1500\<rparr>)"

definition px_config :: trust_config where
  "px_config = ex_config\<lparr>tc_sources := tc_sources ex_config @
     [\<lparr>ts_id = ''pixel'', ts_name = ''Pixel'', ts_root_cert = ''p.pem'', ts_profile = ''wrap_parent_only'',
       ts_revocation = Some [''ocsp.pki.goog''], ts_rootCertPem = ''PEM2''\<rparr>],
     tc_loadedIds := [''realreel'', ''pixel''], tc_ocspHosts := [''ocsp.pki.goog'']\<rparr>"

definition px_args :: verify_args where
  "px_args = ex_args\<lparr>va_trustConfig := px_config, va_networkRevocation := True\<rparr>"

lemma px_verify: "accepted (fst (verify ex_env px_reader ex_probes px_args ex_challenges))"
  by code_simp

text \<open>With no answer from the responder the same upload is refused.\<close>

lemma px_no_answer:
  "\<not> accepted (fst (verify ex_env (ex_reader px_store) ex_probes px_args ex_challenges))"
  by code_simp

end
