(* ===== verification/CaCommon.thy ===== *)
theory CaCommon
  imports Codec Json
begin

text \<open>
  What the edge functions of \<open>ca/\<close> share: the attestation errors of
  \<open>ca/_shared/attestation/pki.ts\<close> and \<open>android.ts\<close> (a code; their texts only reach the log), the
  environment, requests and responses (\<open>ca/_shared/cors.ts\<close>), and \<open>base64ToBytes\<close> and
  \<open>bytesToBase64\<close> over \<open>atob\<close> and \<open>btoa\<close>.
\<close>

section \<open>Errors\<close>

text \<open>The detail a stale-patch rejection shows the user.\<close>

datatype stale_patch_detail = Os_patch string nat | Firmware_patch string nat

text \<open>\<open>AttestationError\<close> with its code, \<open>StalePatchError\<close>, and every other thrown error.\<close>

datatype att_error = Attestation string | Stale_patch stale_patch_detail | Other_error string

type_synonym 'a ares = "att_error + 'a"

fun att_code :: "att_error \<Rightarrow> string option" where
  "att_code (Attestation c) = Some c"
| "att_code (Stale_patch d) = Some ''ATTESTATION_STALE_PATCH''"
| "att_code (Other_error m) = None"

type_synonym env = "string \<Rightarrow> string option"

section \<open>Requests and responses\<close>

record request =
  rq_method :: string
  rq_authorization :: "string option"
  rq_content_length :: "string option"
  rq_json :: "jsval option"

record response =
  rsp_status :: nat
  rsp_body :: jsval
  rsp_retry_after :: "string option"

definition corsHeaders :: "(string \<times> string) list" where
  "corsHeaders =
    [(''Access-Control-Allow-Origin'', ''*''),
     (''Access-Control-Allow-Headers'', ''authorization, x-client-info, apikey, content-type'')]"

definition jsonResponse :: "jsval \<Rightarrow> nat \<Rightarrow> string option \<Rightarrow> response" where
  "jsonResponse body status retryAfter =
    \<lparr>rsp_status = status, rsp_body = body, rsp_retry_after = retryAfter\<rparr>"

definition handlePreflight :: "request \<Rightarrow> response option" where
  "handlePreflight req =
    (if rq_method req = ''OPTIONS''
     then Some \<lparr>rsp_status = 200, rsp_body = JStr ''ok'', rsp_retry_after = None\<rparr> else None)"

abbreviation error_body :: "string \<Rightarrow> jsval" where
  "error_body m \<equiv> JObj [(''error'', JStr m)]"

definition error_response :: "string \<Rightarrow> nat \<Rightarrow> response" where
  "error_response m status = jsonResponse (error_body m) status None"

lemma error_response_status [simp]: "rsp_status (error_response m n) = n"
  by (simp add: error_response_def jsonResponse_def)

lemma jsonResponse_status [simp]: "rsp_status (jsonResponse b n r) = n"
  by (simp add: jsonResponse_def)

section \<open>Numbers of request bodies\<close>

fun num_greater :: "jsnum \<Rightarrow> int \<Rightarrow> bool" where
  "num_greater NaNum n = False"
| "num_greater (InfNum neg) n = (\<not> neg)"
| "num_greater (DecNum m e) n = (if 0 \<le> e then n < m * 10 ^ nat e else n * 10 ^ nat (- e) < m)"

section \<open>Hexadecimal\<close>

definition bytesToHex :: "bytes \<Rightarrow> string" where
  "bytesToHex bs = concat (map (\<lambda>b. pad0 2 (show_hex (unat b))) bs)"

section \<open>Base64 of the web platform\<close>

text \<open>\<open>atob\<close>: white space is dropped, up to two padding characters are dropped from a text whose
  length is a multiple of four, and any character outside the standard alphabet is an error.\<close>

definition b64_std :: "char \<Rightarrow> nat option" where
  "b64_std c = (if c = CHR ''-'' \<or> c = CHR ''_'' then None else b64_val c)"

definition is_ascii_space :: "char \<Rightarrow> bool" where
  "is_ascii_space c = (c \<in> {CHR 0x09, CHR 0x0A, CHR 0x0C, CHR 0x0D, CHR '' ''})"

definition drop_pad :: "string \<Rightarrow> string" where
  "drop_pad s =
    (if length s mod 4 \<noteq> 0 then s
     else if ends_with ''=='' s then take (length s - 2) s
     else if ends_with ''='' s then take (length s - 1) s else s)"

definition base64ToBytes :: "string \<Rightarrow> bytes option" where
  "base64ToBytes s =
    (let t = drop_pad (filter (\<lambda>c. \<not> is_ascii_space c) s) in
     if length t mod 4 = 1 \<or> list_ex (\<lambda>c. b64_std c = None) t then None
     else Some (bytes_of_sextets (List.map_filter b64_std t)))"

definition bytesToBase64 :: "bytes \<Rightarrow> string" where
  "bytesToBase64 bs = base64 bs"

lemma length_sextets_mod:
  "length (sextets_of_bytes bs) mod 4 = (if length bs mod 3 = 0 then 0 else Suc (length bs mod 3))"
proof (induction bs rule: sextets_of_bytes.induct)
  case (4 a b c bs)
  have "Suc (Suc (Suc (Suc l))) mod 4 = l mod 4" "Suc (Suc (Suc l)) mod 3 = l mod 3" for l
    by presburger+
  with 4 show ?case by simp
qed simp_all

lemma b64_char_std:
  assumes "s < 64"
  shows "b64_std (b64_char (CHR ''+'') (CHR ''/'') s) = Some s"
    and "b64_char (CHR ''+'') (CHR ''/'') s \<noteq> CHR ''=''"
    and "\<not> is_ascii_space (b64_char (CHR ''+'') (CHR ''/'') s)"
proof -
  let ?c = "b64_char (CHR ''+'') (CHR ''/'') s"
  have v: "b64_val ?c = Some s" using assms by (intro b64_val_char) simp_all
  have "?c \<noteq> CHR ''-'' \<and> ?c \<noteq> CHR ''_''"
    using assms by (auto simp: b64_char_def char_of_eq_iff take_bit_eq_mod)
  then show "b64_std ?c = Some s" by (simp add: b64_std_def v)
  show "?c \<noteq> CHR ''=''" "\<not> is_ascii_space ?c"
    using v by (auto simp: is_ascii_space_def b64_val_def Let_def)
qed

lemma drop_pad_body:
  assumes "CHR ''='' \<notin> set body" "k \<le> 2" "length (body @ replicate k (CHR ''='')) mod 4 = 0"
  shows "drop_pad (body @ replicate k (CHR ''='')) = body"
proof -
  have last: "body = [] \<or> last body \<noteq> CHR ''=''" using assms(1) by (metis last_in_set)
  consider "k = 0" | "k = 1" | "k = 2" using assms(2) by linarith
  then show ?thesis
  proof cases
    case 1
    then show ?thesis
      using assms(3) last by (cases body rule: rev_cases) (auto simp: drop_pad_def ends_with_def)
  next
    case 2
    then show ?thesis
      using assms(3) last by (cases body rule: rev_cases) (auto simp: drop_pad_def ends_with_def)
  next
    case 3
    then show ?thesis
      using assms(3) by (auto simp: drop_pad_def ends_with_def numeral_2_eq_2)
  qed
qed

lemma b64_std_map_filter:
  "\<forall>s \<in> set ss. s < 64
    \<Longrightarrow> List.map_filter b64_std (map (b64_char (CHR ''+'') (CHR ''/'')) ss) = ss"
  by (induction ss) (simp_all add: b64_char_std(1) List.map_filter_def)

lemma base64ToBytes_base64 [simp]: "base64ToBytes (bytesToBase64 bs) = Some bs"
proof -
  let ?body = "map (b64_char (CHR ''+'') (CHR ''/'')) (sextets_of_bytes bs)"
  let ?k = "(3 - length bs mod 3) mod 3"
  have sx: "\<forall>s \<in> set (sextets_of_bytes bs). s < 64" by (rule sextets_bound)
  have eq: "bytesToBase64 bs = ?body @ replicate ?k (CHR ''='')"
    by (simp add: bytesToBase64_def base64_def)
  have "filter (\<lambda>c. \<not> is_ascii_space c) (bytesToBase64 bs) = bytesToBase64 bs"
    unfolding eq using sx b64_char_std(3) by (auto simp: filter_id_conv is_ascii_space_def)
  moreover have "drop_pad (bytesToBase64 bs) = ?body"
    unfolding eq
  proof (rule drop_pad_body)
    show "CHR ''='' \<notin> set ?body" using sx b64_char_std(2) by fastforce
    show "?k \<le> 2" by (simp add: less_Suc_eq_le[symmetric])
    have "(a + (3 - r) mod 3) mod 4 = 0" if "a mod 4 = (if r = 0 then 0 else Suc r)" "r < 3" for a r :: nat
    proof -
      from that(2) consider "r = 0" | "r = 1" | "r = 2" by linarith
      then show ?thesis using that(1) by cases (simp_all, presburger+)
    qed
    from this[OF length_sextets_mod] show "length (?body @ replicate ?k (CHR ''='')) mod 4 = 0"
      by simp
  qed
  moreover have "length ?body mod 4 \<noteq> 1"
    by (simp add: length_sextets_mod)
  moreover have "\<not> list_ex (\<lambda>c. b64_std c = None) ?body"
    using sx b64_char_std(1) by (auto simp: list_ex_iff)
  moreover have "List.map_filter b64_std ?body = sextets_of_bytes bs"
    using sx by (rule b64_std_map_filter)
  ultimately show ?thesis by (simp add: base64ToBytes_def Let_def)
qed

interpretation web_b64: codec bytesToBase64 base64ToBytes
  by unfold_locales simp

section \<open>Hexadecimal text is unambiguous\<close>

declare hex_digit.simps [simp del]

text \<open>Two hex digits a byte, so the text of a byte string determines it.\<close>

definition hex2 :: "8 word \<Rightarrow> string" where
  "hex2 b = [hex_digit (unat b div 16), hex_digit (unat b mod 16)]"

lemma byte_div_16: "unat (b :: 8 word) div 16 < 16"
proof -
  have "unat b < 16 * 16" using byte_lt[of b] by simp
  then show ?thesis by (rule less_mult_imp_div_less)
qed

lemma pad_hex: "pad0 2 (show_hex (unat b)) = hex2 b"
proof (cases "unat b < 16")
  case True
  have "CHR ''0'' = hex_digit 0" by code_simp
  with True show ?thesis by (simp add: pad0_def show_hex.simps[of "unat b"] hex2_def)
next
  case False
  then have "show_hex (unat b) = hex2 b"
    using byte_div_16[of b] by (simp add: show_hex.simps[of "unat b"] show_hex.simps[of "unat b div 16"] hex2_def)
  then show ?thesis by (simp add: pad0_def hex2_def)
qed

lemma hex_digit_code: "d < 16 \<Longrightarrow> (of_char (hex_digit d) :: nat) = (if d < 10 then 48 + d else 87 + d)"
  by (simp add: hex_digit.simps)

lemma hex_digit_inject: "d < 16 \<Longrightarrow> e < 16 \<Longrightarrow> hex_digit d = hex_digit e \<longleftrightarrow> d = e"
proof
  assume "d < 16" "e < 16" "hex_digit d = hex_digit e"
  then have "(if d < 10 then 48 + d else 87 + d) = (if e < 10 then 48 + e else 87 + e)"
    using hex_digit_code by metis
  with \<open>d < 16\<close> \<open>e < 16\<close> show "d = e" by (simp split: if_splits)
qed simp

lemma hex2_inject: "hex2 a = hex2 b \<longleftrightarrow> a = b"
proof
  assume "hex2 a = hex2 b"
  then have "unat a div 16 = unat b div 16" "unat a mod 16 = unat b mod 16"
    using byte_div_16 by (auto simp: hex2_def hex_digit_inject)
  then have "unat a = unat b" by (metis div_mult_mod_eq)
  then show "a = b" by (rule word_unat_eq_iff[THEN iffD2])
qed simp

lemma bytesToHex_inject: "bytesToHex a = bytesToHex b \<longleftrightarrow> a = b"
proof
  show "a = b" if "bytesToHex a = bytesToHex b"
    using that
  proof (induction a arbitrary: b)
    case Nil
    then show ?case by (cases b) (auto simp: bytesToHex_def pad_hex hex2_def)
  next
    case (Cons x xs)
    then obtain y ys where b: "b = y # ys" by (cases b) (auto simp: bytesToHex_def pad_hex hex2_def)
    have "length (hex2 x) = length (hex2 y)" by (simp add: hex2_def)
    with Cons.prems b have "hex2 x = hex2 y \<and> bytesToHex xs = bytesToHex ys"
      by (simp add: bytesToHex_def pad_hex)
    with Cons.IH b show ?case by (simp add: hex2_inject)
  qed
qed simp

end
