(* ===== verification/Asn1.thy ===== *)
theory Asn1
  imports CaCommon
begin

text \<open>
  The ASN.1 trees the attestation code walks (asn1js nodes), certificates as far as the code reads
  them, and \<open>TextDecoder\<close>.  The BER decoder, the certificate parser, the comparison of
  distinguished names and the chain engine (asn1js, pkijs) are parameters, collected in
  \<open>pki_lib\<close>.  From \<open>ca/_shared/attestation/pki.ts\<close>: chain verification, the extension lookup
  and the PEM readers.
\<close>

section \<open>Nodes\<close>

text \<open>A \<open>valueBlock.value\<close> is an array of nodes, a Boolean, or a text, whose elements are
  characters and so have none of a node's properties (\<open>Blank\<close>).\<close>

datatype 'n asn1_value = Kids "'n list" | Flag bool | Chars nat

datatype asn1 =
    Blank
  | Node (nd_class: int) (nd_tag: int) (nd_constructed: bool)
      (nd_value: "asn1 asn1_value option") (nd_hexView: "bytes option") (nd_hex: "bytes option")
      (nd_dec: "int option")

fun node_value :: "asn1 option \<Rightarrow> asn1 asn1_value option" where
  "node_value (Some (Node c t k v hv h d)) = v"
| "node_value _ = None"

fun has_tag :: "asn1 option \<Rightarrow> int \<Rightarrow> int \<Rightarrow> bool" where
  "has_tag (Some (Node c t k v hv h d)) cls tag = (c = cls \<and> t = tag)"
| "has_tag _ cls tag = False"

fun is_constructed :: "asn1 \<Rightarrow> bool" where
  "is_constructed (Node c t k v hv h d) = k"
| "is_constructed Blank = False"

text \<open>\<open>for (const x of value)\<close>: a Boolean is not iterable.\<close>

fun iterR :: "asn1 asn1_value \<Rightarrow> asn1 list ares" where
  "iterR (Kids xs) = Inr xs"
| "iterR (Chars n) = Inr (replicate n Blank)"
| "iterR (Flag b) = Inl (Other_error ''not iterable'')"

text \<open>\<open>!value\<close>, \<open>!value.length\<close>, \<open>value[i]\<close> and \<open>value.length < n\<close>.\<close>

fun truthy_value :: "asn1 asn1_value option \<Rightarrow> bool" where
  "truthy_value None = False"
| "truthy_value (Some (Kids xs)) = True"
| "truthy_value (Some (Flag b)) = b"
| "truthy_value (Some (Chars n)) = (n \<noteq> 0)"

fun has_elems :: "asn1 asn1_value option \<Rightarrow> bool" where
  "has_elems (Some (Kids xs)) = (xs \<noteq> [])"
| "has_elems (Some (Chars n)) = (n \<noteq> 0)"
| "has_elems _ = False"

fun elem_at :: "asn1 asn1_value option \<Rightarrow> nat \<Rightarrow> asn1 option" where
  "elem_at (Some (Kids xs)) i = (if i < length xs then Some (xs ! i) else None)"
| "elem_at (Some (Chars n)) i = (if i < n then Some Blank else None)"
| "elem_at _ i = None"

fun shorter_than :: "asn1 asn1_value \<Rightarrow> nat \<Rightarrow> bool" where
  "shorter_than (Kids xs) n = (length xs < n)"
| "shorter_than (Chars k) n = (k < n)"
| "shorter_than (Flag b) n = False"

text \<open>Constructors of the nodes that witnesses use.\<close>

definition seq_node :: "asn1 list \<Rightarrow> asn1" where
  "seq_node xs = Node 1 16 True (Some (Kids xs)) None None None"
definition set_node :: "asn1 list \<Rightarrow> asn1" where
  "set_node xs = Node 1 17 True (Some (Kids xs)) None None None"
definition int_node :: "bytes \<Rightarrow> asn1" where
  "int_node bs = Node 1 2 False None (Some bs) None (Some (int (foldl (\<lambda>v b. v * 256 + unat b) 0 bs)))"
definition octets_node :: "bytes \<Rightarrow> asn1" where
  "octets_node bs = Node 1 4 False (Some (Kids [])) (Some bs) None None"
definition bool_node :: "bool \<Rightarrow> asn1" where
  "bool_node b = Node 1 1 False (Some (Flag b)) None None None"
definition tagged_node :: "int \<Rightarrow> asn1 \<Rightarrow> asn1" where
  "tagged_node t x = Node 3 t True (Some (Kids [x])) None None None"

section \<open>\<open>TextDecoder\<close>\<close>

text \<open>UTF-8 decoding with replacement.  The text is again its UTF-8 bytes, so that well-formed
  sequences are copied and each ill-formed one becomes U+FFFD.  The state is the bytes of the
  sequence read so far, how many are still needed, and the bounds of the next one.\<close>

definition replacement :: string where
  "replacement = [CHR 0xEF, CHR 0xBF, CHR 0xBD]"

type_synonym utf8_state = "bytes \<times> nat \<times> nat \<times> nat"

definition utf8_start :: "8 word \<Rightarrow> string \<times> utf8_state" where
  "utf8_start b =
    (let n = unat b in
     if n \<le> 0x7F then ([char_of_byte b], ([], 0, 0x80, 0xBF))
     else if 0xC2 \<le> n \<and> n \<le> 0xDF then ([], ([b], 1, 0x80, 0xBF))
     else if 0xE0 \<le> n \<and> n \<le> 0xEF
       then ([], ([b], 2, (if n = 0xE0 then 0xA0 else 0x80), (if n = 0xED then 0x9F else 0xBF)))
     else if 0xF0 \<le> n \<and> n \<le> 0xF4
       then ([], ([b], 3, (if n = 0xF0 then 0x90 else 0x80), (if n = 0xF4 then 0x8F else 0xBF)))
     else (replacement, ([], 0, 0x80, 0xBF)))"

fun utf8_decode_from :: "utf8_state \<Rightarrow> bytes \<Rightarrow> string" where
  "utf8_decode_from (seen, need, lo, hi) [] = (if need = 0 then [] else replacement)"
| "utf8_decode_from (seen, need, lo, hi) (b # bs) =
     (if need = 0 then
        (case utf8_start b of (out, st) \<Rightarrow> out @ utf8_decode_from st bs)
      else if lo \<le> unat b \<and> unat b \<le> hi then
        (if need = 1
         then map char_of_byte (seen @ [b]) @ utf8_decode_from ([], 0, 0x80, 0xBF) bs
         else utf8_decode_from (seen @ [b], need - 1, 0x80, 0xBF) bs)
      else
        (case utf8_start b of (out, st) \<Rightarrow> replacement @ out @ utf8_decode_from st bs))"

text \<open>\<open>new TextDecoder().decode(bytes)\<close>; a leading byte-order mark is dropped.\<close>

definition text_decode :: "bytes \<Rightarrow> string" where
  "text_decode bs =
    (let bom = [0xEF, 0xBB, 0xBF] in
     utf8_decode_from ([], 0, 0x80, 0xBF) (if take 3 bs = bom then drop 3 bs else bs))"

lemma text_decode_ascii:
  assumes "list_all (\<lambda>c. of_char c < (128 :: nat)) s"
  shows "text_decode (utf8 s) = s"
proof -
  have u: "unat (byte_of_char c) = of_char c" for c
    by (simp add: byte_of_char_def unat_of_nat)
  have go: "utf8_decode_from ([], 0, 0x80, 0xBF) (utf8 s) = s"
    using assms by (induction s) (simp_all add: utf8_def utf8_start_def Let_def u)
  have "hd (utf8 s) \<noteq> 0xEF" if "s \<noteq> []"
  proof
    assume "hd (utf8 s) = 0xEF"
    with that have "unat (byte_of_char (hd s)) = 0xEF" by (cases s) (simp_all add: utf8_def)
    with assms that show False by (cases s) (simp_all add: u)
  qed
  then have "take 3 (utf8 s) \<noteq> [0xEF, 0xBB, 0xBF]"
    by (cases s) (auto simp: utf8_def)
  with go show ?thesis by (simp add: text_decode_def Let_def)
qed

lemma text_decode_example:
  "text_decode [0xEF, 0xBB, 0xBF, 0x61, 0xC3, 0xA9, 0xE0, 0x80, 0x62, 0xF0, 0x9F]
   = [CHR ''a'', CHR 0xC3, CHR 0xA9] @ replacement @ replacement @ ''b'' @ replacement"
  by code_simp

section \<open>Certificates\<close>

record extension =
  x_oid :: string
  x_critical :: bool
  x_value :: "bytes option"

record cert =
  ct_subject :: string
  ct_issuer :: string
  ct_serial :: bytes
  ct_extensions :: "extension list"
  ct_spki :: bytes
  ct_public_key :: bytes

record pki_lib =
  pl_fromBER :: "bytes \<Rightarrow> asn1 option"
  pl_parseCert :: "bytes \<Rightarrow> string + cert"
  pl_dn_equal :: "string \<Rightarrow> string \<Rightarrow> bool"
  pl_chain_engine :: "cert list \<Rightarrow> cert list \<Rightarrow> int \<Rightarrow> string + unit"

definition isSelfSigned :: "pki_lib \<Rightarrow> cert \<Rightarrow> bool" where
  "isSelfSigned lib c = pl_dn_equal lib (ct_issuer c) (ct_subject c)"

text \<open>Drop a presented self-signed root; hand the rest to the engine, target last.\<close>

definition verifyChainToTrustedRoots ::
  "pki_lib \<Rightarrow> cert list \<Rightarrow> cert list \<Rightarrow> int \<Rightarrow> string + unit"
where
  "verifyChainToTrustedRoots lib certs roots t =
    (if certs = [] then Inl ''empty cert chain''
     else if roots = [] then Inl ''no trusted roots configured''
     else
       let presented = (if length certs > 1 \<and> isSelfSigned lib (last certs)
                        then butlast certs else certs) in
       (case pl_chain_engine lib (rev presented) roots t of
          Inl m \<Rightarrow> Inl (''chain validation failed: '' @ (if m = [] then ''unknown'' else m))
        | Inr u \<Rightarrow> Inr ()))"

definition findExtensionByOid :: "cert \<Rightarrow> string \<Rightarrow> bytes option" where
  "findExtensionByOid c oid =
    (case List.find (\<lambda>x. x_oid x = oid) (ct_extensions c) of
       None \<Rightarrow> None | Some x \<Rightarrow> x_value x)"

text \<open>The engine is always given a non-empty list ending in the leaf, never the presented root.\<close>

lemma verifyChain_Inr_iff:
  "verifyChainToTrustedRoots lib certs roots t = Inr u \<longleftrightarrow>
     certs \<noteq> [] \<and> roots \<noteq> [] \<and>
     pl_chain_engine lib
       (rev (if length certs > 1 \<and> isSelfSigned lib (last certs) then butlast certs else certs))
       roots t = Inr ()"
  by (auto simp: verifyChainToTrustedRoots_def Let_def split: sum.splits)

lemma presented_keeps_leaf:
  assumes "certs \<noteq> []"
  shows "last (rev (if length certs > 1 \<and> P then butlast certs else certs)) = hd certs"
proof (cases "length certs > 1 \<and> P")
  case True
  then obtain a b xs where "certs = a # b # xs"
    by (cases certs; cases "tl certs") auto
  with True show ?thesis by (simp add: last_rev)
next
  case False
  with assms show ?thesis by (auto simp: last_rev)
qed

section \<open>PEM\<close>

text \<open>\<open>replace(/marker/g, "")\<close>, scanning left to right.\<close>

fun remove_all_go :: "nat \<Rightarrow> string \<Rightarrow> string \<Rightarrow> string" where
  "remove_all_go skip m [] = []"
| "remove_all_go skip m (c # cs) =
     (if skip > 0 then remove_all_go (skip - 1) m cs
      else if m \<noteq> [] \<and> starts_with m (c # cs) then remove_all_go (length m - 1) m cs
      else c # remove_all_go 0 m cs)"

definition remove_all :: "string \<Rightarrow> string \<Rightarrow> string" where
  "remove_all m s = remove_all_go 0 m s"

definition CERT_BEGIN :: string where "CERT_BEGIN = ''-----BEGIN CERTIFICATE-----''"
definition CERT_END :: string where "CERT_END = ''-----END CERTIFICATE-----''"

definition pemToDer :: "string \<Rightarrow> bytes option" where
  "pemToDer pem =
    base64ToBytes (filter (\<lambda>c. \<not> is_space c) (remove_all CERT_END (remove_all CERT_BEGIN pem)))"

definition csrPemToDer :: "string \<Rightarrow> bytes option" where
  "csrPemToDer pem =
    base64ToBytes (filter (\<lambda>c. \<not> is_space c)
      (remove_all ''-----END NEW CERTIFICATE REQUEST-----''
        (remove_all ''-----BEGIN NEW CERTIFICATE REQUEST-----''
          (remove_all ''-----END CERTIFICATE REQUEST-----''
            (remove_all ''-----BEGIN CERTIFICATE REQUEST-----'' pem)))))"

definition parseCertFromPem :: "pki_lib \<Rightarrow> string \<Rightarrow> string + cert" where
  "parseCertFromPem lib pem =
    (case pemToDer pem of
       None \<Rightarrow> Inl ''Failed to decode base64'' | Some der \<Rightarrow> pl_parseCert lib der)"

end
