(* ===== verification/Ocsp.thy ===== *)
theory Ocsp
  imports Asn1 Uri
begin

text \<open>
  Certificate status: the shared primitives of \<open>ocsp/ocsp.ts\<close> and the router of the public worker,
  \<open>ocsp/router.ts\<close>.  The DER decoders of pkijs, the digests of WebCrypto, the store of pre-signed
  responses and the hop to the live responder are parameters.
\<close>

section \<open>Constants and helpers\<close>

definition OID_SHA1 :: string where "OID_SHA1 = ''1.3.14.3.2.26''"
definition OID_SHA256 :: string where "OID_SHA256 = ''2.16.840.1.101.3.4.2.1''"
definition OID_SHA384 :: string where "OID_SHA384 = ''2.16.840.1.101.3.4.2.2''"
definition OID_SHA512 :: string where "OID_SHA512 = ''2.16.840.1.101.3.4.2.3''"
definition OID_ECDSA_WITH_SHA256 :: string where "OID_ECDSA_WITH_SHA256 = ''1.2.840.10045.4.3.2''"
definition OID_OCSP_BASIC :: string where "OID_OCSP_BASIC = ''1.3.6.1.5.5.7.48.1.1''"

lemmas hash_oids = OID_SHA1_def OID_SHA256_def OID_SHA384_def OID_SHA512_def

definition KV_KEY_BY_HASH_OID :: "(string \<times> string) list" where
  "KV_KEY_BY_HASH_OID = [(OID_SHA1, ''response:sha1''), (OID_SHA256, ''response:sha256'')]"

definition WEBCRYPTO_ALG_BY_OID :: "(string \<times> string) list" where
  "WEBCRYPTO_ALG_BY_OID = [(OID_SHA1, ''SHA-1''), (OID_SHA256, ''SHA-256'')]"

definition LEAF_WEBCRYPTO_BY_HASH_OID :: "(string \<times> string) list" where
  "LEAF_WEBCRYPTO_BY_HASH_OID =
    [(OID_SHA1, ''SHA-1''), (OID_SHA256, ''SHA-256''), (OID_SHA384, ''SHA-384''), (OID_SHA512, ''SHA-512'')]"

definition errorResponse :: "8 word \<Rightarrow> bytes" where
  "errorResponse status = [0x30, 0x03, 0x0a, 0x01, status]"

definition OCSP_MALFORMED_REQUEST :: bytes where "OCSP_MALFORMED_REQUEST = errorResponse 1"
definition OCSP_INTERNAL_ERROR :: bytes where "OCSP_INTERNAL_ERROR = errorResponse 2"
definition OCSP_UNAUTHORIZED :: bytes where "OCSP_UNAUTHORIZED = errorResponse 6"

lemmas ocsp_errors =
  OCSP_MALFORMED_REQUEST_def OCSP_INTERNAL_ERROR_def OCSP_UNAUTHORIZED_def errorResponse_def

text \<open>What the code reads of a certificate, and the platform it runs on.\<close>

record status_cert =
  sc_issuerDer :: bytes
  sc_subjectDer :: bytes
  sc_keyBits :: bytes
  sc_serial :: bytes
  sc_tbsView :: bytes
  sc_commonName :: "string option"

record cert_id =
  ci_hashOid :: string
  ci_issuerNameHash :: bytes
  ci_issuerKeyHash :: bytes
  ci_serialNumber :: bytes

record issuer_hashes =
  ih_hashOid :: string
  ih_issuerNameHash :: bytes
  ih_issuerKeyHash :: bytes

record ocsp_lib =
  ol_parseCertDer :: "bytes \<Rightarrow> string + status_cert"
  ol_parseRequest :: "bytes \<Rightarrow> cert_id list option"
  ol_digest :: "string \<Rightarrow> bytes \<Rightarrow> bytes"

definition parseCert :: "ocsp_lib \<Rightarrow> string \<Rightarrow> string + status_cert" where
  "parseCert lib pem =
    (case pemToDer pem of
       None \<Rightarrow> Inl ''InvalidCharacterError'' | Some der \<Rightarrow> ol_parseCertDer lib der)"

section \<open>Certificate identifiers\<close>

definition icaCertIdTargets :: "ocsp_lib \<Rightarrow> string \<Rightarrow> string \<Rightarrow> string + cert_id list" where
  "icaCertIdTargets lib rootPem icaPem =
    bindR (parseCert lib rootPem) (\<lambda>root.
    bindR (parseCert lib icaPem) (\<lambda>ica.
    Inr (map (\<lambda>(hashOid, _).
      let alg = the (map_of WEBCRYPTO_ALG_BY_OID hashOid) in
      \<lparr>ci_hashOid = hashOid, ci_issuerNameHash = ol_digest lib alg (sc_issuerDer ica),
       ci_issuerKeyHash = ol_digest lib alg (sc_keyBits root), ci_serialNumber = sc_serial ica\<rparr>)
      KV_KEY_BY_HASH_OID)))"

definition certIdMatches :: "cert_id \<Rightarrow> cert_id \<Rightarrow> bool" where
  "certIdMatches a b =
    (ci_hashOid a = ci_hashOid b \<and> ci_issuerNameHash a = ci_issuerNameHash b
     \<and> ci_issuerKeyHash a = ci_issuerKeyHash b \<and> ci_serialNumber a = ci_serialNumber b)"

definition leafIssuerTargets :: "ocsp_lib \<Rightarrow> string \<Rightarrow> string + issuer_hashes list" where
  "leafIssuerTargets lib icaPem =
    bindR (parseCert lib icaPem) (\<lambda>ica.
    Inr (map (\<lambda>(hashOid, alg).
      \<lparr>ih_hashOid = hashOid, ih_issuerNameHash = ol_digest lib alg (sc_subjectDer ica),
       ih_issuerKeyHash = ol_digest lib alg (sc_keyBits ica)\<rparr>) LEAF_WEBCRYPTO_BY_HASH_OID))"

definition issuerMatches :: "issuer_hashes list \<Rightarrow> cert_id \<Rightarrow> bool" where
  "issuerMatches targets certId =
    list_ex (\<lambda>t. ih_hashOid t = ci_hashOid certId \<and> ih_issuerNameHash t = ci_issuerNameHash certId
               \<and> ih_issuerKeyHash t = ci_issuerKeyHash certId) targets"

section \<open>Responses\<close>

text \<open>What a basic response says of one certificate, before encoding: the \<open>certStatus\<close> choice with the
  revocation time in milliseconds and its reason, and the times the response carries.  The encoder
  of asn1js and pkijs is a parameter.\<close>

datatype cert_status = Cs_good | Cs_revoked int "jsnum option" | Cs_unknown

fun status_tag :: "cert_status \<Rightarrow> nat" where
  "status_tag Cs_good = 0"
| "status_tag (Cs_revoked t r) = 1"
| "status_tag Cs_unknown = 2"

record response_data =
  rs_certId :: cert_id
  rs_certStatus :: cert_status
  rs_thisUpdate :: int
  rs_nextUpdate :: int
  rs_producedAt :: int
  rs_responderKeyHash :: bytes

record ocsp_encoder =
  oe_tbs :: "response_data \<Rightarrow> bytes"
  oe_response :: "response_data \<Rightarrow> bytes \<Rightarrow> status_cert \<Rightarrow> bytes"

section \<open>HTTP\<close>

record web_request =
  wq_method :: string
  wq_pathname :: string
  wq_headers :: "string \<Rightarrow> string option"
  wq_body :: bytes

record web_response =
  wr_status :: nat
  wr_headers :: "(string \<times> string) list"
  wr_body :: bytes

definition ALLOW :: string where "ALLOW = ''GET, POST, HEAD, OPTIONS''"
definition OCSP_CONTENT_TYPE :: string where "OCSP_CONTENT_TYPE = ''application/ocsp-response''"
definition CACHE_OK :: string where "CACHE_OK = ''public, max-age=3600''"
definition MAX_REQUEST_BYTES :: nat where "MAX_REQUEST_BYTES = 8192"

definition cors_headers :: "(string \<times> string) list \<Rightarrow> (string \<times> string) list" where
  "cors_headers extra = extra @ [(''access-control-allow-origin'', ''*'')]"

definition ocspBytes :: "bytes \<Rightarrow> string \<Rightarrow> web_response" where
  "ocspBytes bs cache =
    \<lparr>wr_status = 200,
     wr_headers = cors_headers [(''content-type'', OCSP_CONTENT_TYPE), (''cache-control'', cache)],
     wr_body = bs\<rparr>"

definition decodeGetRequest :: "string \<Rightarrow> bytes option" where
  "decodeGetRequest pathname =
    Option.bind (decodeURIComponent (dropWhile (\<lambda>c. c = CHR ''/'') pathname)) base64ToBytes"

text \<open>The answer of the live responder: its status, its media type and caching headers, its body.\<close>

record upstream =
  up_status :: nat
  up_contentType :: "string option"
  up_cacheControl :: "string option"
  up_body :: bytes

type_synonym leaf_forwarder = "bytes \<Rightarrow> string + upstream"

definition media_type :: "string option \<Rightarrow> string" where
  "media_type h = map lower_char (js_trim (hd (split_char (CHR '';'') (null_or h ''''))))"

definition relayLeaf :: "bytes \<Rightarrow> leaf_forwarder \<Rightarrow> web_response" where
  "relayLeaf der forward =
    (case forward der of
       Inl e \<Rightarrow> ocspBytes OCSP_INTERNAL_ERROR ''no-store''
     | Inr up \<Rightarrow>
         if \<not> (200 \<le> up_status up \<and> up_status up \<le> 299)
            \<or> media_type (up_contentType up) \<noteq> OCSP_CONTENT_TYPE
         then ocspBytes OCSP_INTERNAL_ERROR ''no-store''
         else ocspBytes (up_body up) (null_or (up_cacheControl up) ''no-store''))"

record cert_assets =
  as_rootPem :: string
  as_icaPem :: string

definition options_response :: web_response where
  "options_response =
    \<lparr>wr_status = 204,
     wr_headers = cors_headers [(''allow'', ALLOW), (''access-control-allow-methods'', ALLOW),
       (''access-control-allow-headers'', ''content-type''), (''access-control-max-age'', ''86400'')],
     wr_body = []\<rparr>"

definition method_not_allowed :: web_response where
  "method_not_allowed =
    \<lparr>wr_status = 405,
     wr_headers = cors_headers [(''allow'', ALLOW), (''content-type'', ''text/plain; charset=utf-8'')],
     wr_body = utf8 (''Method Not Allowed'' @ [CHR 0x0A])\<rparr>"

text \<open>The DER of the request: no value is a malformed or missing request.\<close>

definition request_der :: "web_request \<Rightarrow> bytes option" where
  "request_der req =
    (if wq_method req = ''POST''
     then (if num_greater (js_number (null_or (wq_headers req ''content-length'') ''0'')) (int MAX_REQUEST_BYTES)
           then None else if wq_body req = [] then None else Some (wq_body req))
     else decodeGetRequest (wq_pathname req))"

text \<open>The status of the one certificate asked about; the targets are computed once per isolate and
  depend on the bundled certificates only.  A certificate that does not parse escapes as an error.\<close>

definition answer_cert ::
  "ocsp_lib \<Rightarrow> web_request \<Rightarrow> cert_assets \<Rightarrow> (string \<Rightarrow> bytes option) \<Rightarrow> leaf_forwarder option \<Rightarrow> bytes \<Rightarrow> cert_id
     \<Rightarrow> string + web_response"
where
  "answer_cert lib req assets store forwardLeaf der certId =
    bindR (icaCertIdTargets lib (as_rootPem assets) (as_icaPem assets)) (\<lambda>targets.
    (case List.find (\<lambda>t. certIdMatches t certId) targets of
       None \<Rightarrow>
         (case forwardLeaf of
            None \<Rightarrow> Inr (ocspBytes OCSP_UNAUTHORIZED ''no-store'')
          | Some forward \<Rightarrow>
              if wq_method req = ''HEAD'' then Inr (ocspBytes OCSP_UNAUTHORIZED ''no-store'')
              else bindR (leafIssuerTargets lib (as_icaPem assets)) (\<lambda>leafTargets.
                   Inr (if issuerMatches leafTargets certId then relayLeaf der forward
                        else ocspBytes OCSP_UNAUTHORIZED ''no-store'')))
     | Some match \<Rightarrow>
         Inr (case store (the (map_of KV_KEY_BY_HASH_OID (ci_hashOid match))) of
                None \<Rightarrow> ocspBytes OCSP_INTERNAL_ERROR ''no-store''
              | Some bs \<Rightarrow> ocspBytes bs CACHE_OK)))"

definition ocsp_index_html :: string where
  \<open>ocsp_index_html = join_with [CHR 0x0A]
    [''<!doctype html>'',
     ''<html lang="en"><head><meta charset="utf-8">'',
     ''<meta name="viewport" content="width=device-width, initial-scale=1">'',
     ''<title>RealReel C2PA OCSP</title>'',
     ''<style>body{font:15px/1.6 -apple-system,Arial,sans-serif;max-width:42rem;margin:3rem auto;padding:0 1rem;color:#111}code{background:#f4f4f4;padding:1px 5px;border-radius:3px;word-break:break-all}a{color:#2456c8}</style>'',
     ''</head><body>'',
     ''<h1>RealReel C2PA OCSP responder</h1>'',
     ''<p>RFC 6960 OCSP endpoint for the RealReel C2PA Certification Authority, operated by Whole Earth Labs LLC. It answers status requests for the RealReel Claim Signing CA.</p>'',
     ''<p>Send OCSP requests to this host over HTTP GET (base64 request in the path) or POST (<code>application/ocsp-request</code>).</p>'',
     ''<p>CA certificates: <a href="https://pki.realreel.xyz/">pki.realreel.xyz</a></p>'',
     ''</body></html>'']\<close>

definition handleOcsp ::
  "ocsp_lib \<Rightarrow> cert_assets \<Rightarrow> (string \<Rightarrow> bytes option) \<Rightarrow> leaf_forwarder option \<Rightarrow> web_request
     \<Rightarrow> string + web_response"
where
  "handleOcsp lib assets store forwardLeaf req =
    (if wq_method req = ''OPTIONS'' then Inr options_response
     else if wq_method req \<noteq> ''POST'' \<and> wq_method req \<noteq> ''GET'' \<and> wq_method req \<noteq> ''HEAD''
     then Inr method_not_allowed
     else if wq_method req \<noteq> ''POST'' \<and> wq_pathname req = ''/''
     then Inr \<lparr>wr_status = 200,
               wr_headers = cors_headers [(''content-type'', ''text/html; charset=utf-8''), (''cache-control'', CACHE_OK)],
               wr_body = utf8 ocsp_index_html\<rparr>
     else
       (case request_der req of
          None \<Rightarrow> Inr (ocspBytes OCSP_MALFORMED_REQUEST ''no-store'')
        | Some der \<Rightarrow>
            if length der > MAX_REQUEST_BYTES then Inr (ocspBytes OCSP_MALFORMED_REQUEST ''no-store'')
            else
              (case ol_parseRequest lib der of
                 None \<Rightarrow> Inr (ocspBytes OCSP_MALFORMED_REQUEST ''no-store'')
               | Some [certId] \<Rightarrow> answer_cert lib req assets store forwardLeaf der certId
               | Some _ \<Rightarrow> Inr (ocspBytes OCSP_UNAUTHORIZED ''no-store''))))"

section \<open>The GET form\<close>

interpretation ocsp_get: codec_chain bytesToBase64 base64ToBytes encodeURIComponent decodeURIComponent
  by unfold_locales

lemma encode_no_slash: "CHR ''/'' \<notin> set (encodeURIComponent s)"
proof -
  have h: "CHR ''/'' \<noteq> hex_upper d" if "d < 16" for d
  proof
    assume "CHR ''/'' = hex_upper d"
    then have "(of_char (hex_upper d) :: nat) = of_char (CHR ''/'')" by simp
    with that show False by (auto simp: hex_upper_def split: if_splits)
  qed
  have d: "of_char c div 16 < (16 :: nat)" for c :: char
    using nat_of_char_less_256[of c] by (simp add: less_mult_imp_div_less)
  have "\<not> uri_unreserved (CHR ''/'')" by code_simp
  then have "CHR ''/'' \<notin> set (encode_char c)" for c
    using h[OF d[of c]] h[of "of_char c mod 16"] by (auto simp: encode_char_def)
  then show ?thesis by (simp add: encodeURIComponent_def)
qed

lemma decode_get_request:
  "decodeGetRequest (''/'' @ encodeURIComponent (bytesToBase64 der)) = Some der"
proof -
  have "dropWhile (\<lambda>c. c = CHR ''/'') (encodeURIComponent s) = encodeURIComponent s" for s
    using encode_no_slash[of s] by (cases "encodeURIComponent s") auto
  then have "decodeGetRequest (''/'' @ encodeURIComponent (bytesToBase64 der))
      = ocsp_get.chain_dec (ocsp_get.chain_enc der)"
    by (simp add: decodeGetRequest_def ocsp_get.chain_dec_def ocsp_get.chain_enc_def)
  then show ?thesis by (simp only: ocsp_get.chained.dec_enc)
qed

section \<open>What the worker answers for\<close>

text \<open>The identifier of the intermediate under one of the two pre-signed hashes.\<close>

definition names_ica :: "ocsp_lib \<Rightarrow> cert_assets \<Rightarrow> cert_id \<Rightarrow> bool" where
  "names_ica lib assets c =
    (\<exists>root ica. parseCert lib (as_rootPem assets) = Inr root \<and> parseCert lib (as_icaPem assets) = Inr ica
     \<and> (\<exists>alg. (ci_hashOid c, alg) \<in> set WEBCRYPTO_ALG_BY_OID
          \<and> ci_issuerNameHash c = ol_digest lib alg (sc_issuerDer ica)
          \<and> ci_issuerKeyHash c = ol_digest lib alg (sc_keyBits root)
          \<and> ci_serialNumber c = sc_serial ica))"

text \<open>An identifier whose issuer is the intermediate, under any of the four hashes.\<close>

definition issued_by_ica :: "ocsp_lib \<Rightarrow> cert_assets \<Rightarrow> cert_id \<Rightarrow> bool" where
  "issued_by_ica lib assets c =
    (\<exists>ica alg. parseCert lib (as_icaPem assets) = Inr ica
     \<and> (ci_hashOid c, alg) \<in> set LEAF_WEBCRYPTO_BY_HASH_OID
     \<and> ci_issuerNameHash c = ol_digest lib alg (sc_subjectDer ica)
     \<and> ci_issuerKeyHash c = ol_digest lib alg (sc_keyBits ica))"

lemma certIdMatches_eq: "certIdMatches a b \<longleftrightarrow> a = b"
  by (auto simp: certIdMatches_def)

lemma ica_target_iff:
  assumes "icaCertIdTargets lib (as_rootPem assets) (as_icaPem assets) = Inr ts"
  shows "c \<in> set ts \<longleftrightarrow> names_ica lib assets c"
  using assms
  by (cases c) (auto simp: icaCertIdTargets_def names_ica_def KV_KEY_BY_HASH_OID_def
      WEBCRYPTO_ALG_BY_OID_def hash_oids Let_def)

lemma leaf_target_iff:
  assumes "leafIssuerTargets lib (as_icaPem assets) = Inr ts"
  shows "issuerMatches ts c \<longleftrightarrow> issued_by_ica lib assets c"
proof -
  from assms obtain ica where ica: "parseCert lib (as_icaPem assets) = Inr ica"
    and ts: "ts = map (\<lambda>(hashOid, alg).
      \<lparr>ih_hashOid = hashOid, ih_issuerNameHash = ol_digest lib alg (sc_subjectDer ica),
       ih_issuerKeyHash = ol_digest lib alg (sc_keyBits ica)\<rparr>) LEAF_WEBCRYPTO_BY_HASH_OID"
    by (auto simp: leafIssuerTargets_def)
  have "issuerMatches ts c \<longleftrightarrow> (\<exists>(h, alg) \<in> set LEAF_WEBCRYPTO_BY_HASH_OID. h = ci_hashOid c
      \<and> ol_digest lib alg (sc_subjectDer ica) = ci_issuerNameHash c
      \<and> ol_digest lib alg (sc_keyBits ica) = ci_issuerKeyHash c)"
    unfolding ts issuerMatches_def list_ex_iff set_map bex_simps by (simp add: split_beta)
  then show ?thesis unfolding issued_by_ica_def ica by (auto simp: eq_commute)
qed

lemma find_target: "List.find (\<lambda>t. certIdMatches t c) ts = (if c \<in> set ts then Some c else None)"
  by (induction ts) (auto simp: certIdMatches_eq)

text \<open>The answer about one certificate, by what its identifier names.\<close>

definition ocsp_answer ::
  "ocsp_lib \<Rightarrow> web_request \<Rightarrow> cert_assets \<Rightarrow> (string \<Rightarrow> bytes option) \<Rightarrow> leaf_forwarder option \<Rightarrow> bytes \<Rightarrow> cert_id
     \<Rightarrow> web_response"
where
  "ocsp_answer lib req assets store fwd der c =
    (if names_ica lib assets c
     then (case store (if ci_hashOid c = OID_SHA1 then ''response:sha1'' else ''response:sha256'') of
             Some bs \<Rightarrow> ocspBytes bs CACHE_OK
           | None \<Rightarrow> ocspBytes OCSP_INTERNAL_ERROR ''no-store'')
     else (case fwd of
             Some forward \<Rightarrow>
               if wq_method req \<noteq> ''HEAD'' \<and> issued_by_ica lib assets c then relayLeaf der forward
               else ocspBytes OCSP_UNAUTHORIZED ''no-store''
           | None \<Rightarrow> ocspBytes OCSP_UNAUTHORIZED ''no-store''))"

lemma answer_cert_exact:
  assumes "parseCert lib (as_rootPem assets) = Inr root" "parseCert lib (as_icaPem assets) = Inr ica"
  shows "answer_cert lib req assets store fwd der c = Inr (ocsp_answer lib req assets store fwd der c)"
proof -
  obtain ts where ts: "icaCertIdTargets lib (as_rootPem assets) (as_icaPem assets) = Inr ts"
    using assms by (simp add: icaCertIdTargets_def)
  obtain ls where ls: "leafIssuerTargets lib (as_icaPem assets) = Inr ls"
    using assms by (simp add: leafIssuerTargets_def)
  have key: "the (map_of KV_KEY_BY_HASH_OID (ci_hashOid c)) =
      (if ci_hashOid c = OID_SHA1 then ''response:sha1'' else ''response:sha256'')"
    if "names_ica lib assets c"
    using that by (auto simp: names_ica_def KV_KEY_BY_HASH_OID_def WEBCRYPTO_ALG_BY_OID_def hash_oids)
  show ?thesis
    using key
    by (simp add: answer_cert_def ts ls find_target ica_target_iff[OF ts] leaf_target_iff[OF ls]
        ocsp_answer_def split: option.splits)
qed

definition asks_status :: "web_request \<Rightarrow> bool" where
  "asks_status req =
    (wq_method req = ''POST'' \<or> (wq_method req \<in> {''GET'', ''HEAD''} \<and> wq_pathname req \<noteq> ''/''))"

definition good_upstream :: "upstream \<Rightarrow> bool" where
  "good_upstream up =
    (up_status up \<in> {200..299} \<and> media_type (up_contentType up) = OCSP_CONTENT_TYPE)"

lemma relayLeaf_body:
  "wr_body (relayLeaf der f) =
    (case f der of Inr up \<Rightarrow> if good_upstream up then up_body up else OCSP_INTERNAL_ERROR
     | Inl e \<Rightarrow> OCSP_INTERNAL_ERROR)"
  by (auto simp: relayLeaf_def ocspBytes_def good_upstream_def split: sum.splits)

lemma handleOcsp_status:
  assumes "asks_status req" "request_der req = Some der" "length der \<le> 8192"
    and "ol_parseRequest lib der = Some [c]"
  shows "handleOcsp lib assets store fwd req = answer_cert lib req assets store fwd der c"
  using assms by (auto simp: handleOcsp_def asks_status_def MAX_REQUEST_BYTES_def)

lemma answer_cert_parses:
  assumes "answer_cert lib req assets store fwd der c = Inr r"
  shows "(\<exists>root. parseCert lib (as_rootPem assets) = Inr root) \<and> (\<exists>ica. parseCert lib (as_icaPem assets) = Inr ica)"
  using assms by (auto simp: answer_cert_def icaCertIdTargets_def)

text \<open>An answer that is none of the unsigned errors comes from a single readable question.\<close>

lemma handleOcsp_signed:
  assumes "handleOcsp lib assets store fwd req = Inr r" "asks_status req"
    and "wr_body r \<notin> {OCSP_MALFORMED_REQUEST, OCSP_INTERNAL_ERROR, OCSP_UNAUTHORIZED}"
  obtains der c where "request_der req = Some der" "length der \<le> 8192" "ol_parseRequest lib der = Some [c]"
    "answer_cert lib req assets store fwd der c = Inr r"
  using assms
  by (auto simp: handleOcsp_def asks_status_def MAX_REQUEST_BYTES_def ocspBytes_def not_less
      split: option.splits if_splits list.splits)

text \<open>C23. The worker hands out a status that is not one of the three unsigned errors only for a request
  about exactly one certificate, and only where the responder is authoritative: the pre-signed bytes
  stored for the hash used, when the identifier is the intermediate's own, or the live responder's
  answer to the same bytes, when the identifier's issuer is the intermediate; the relay passes on
  nothing but a successful answer of the right media type.\<close>

theorem ocsp_answers_only_ours:
  assumes "handleOcsp lib assets store fwd req = Inr r" "asks_status req"
    and "wr_body r \<notin> {OCSP_MALFORMED_REQUEST, OCSP_INTERNAL_ERROR, OCSP_UNAUTHORIZED}"
  shows "\<exists>der c. request_der req = Some der \<and> length der \<le> 8192 \<and> ol_parseRequest lib der = Some [c] \<and>
    (names_ica lib assets c
       \<and> store (if ci_hashOid c = OID_SHA1 then ''response:sha1'' else ''response:sha256'') = Some (wr_body r)
     \<or> issued_by_ica lib assets c \<and> wq_method req \<noteq> ''HEAD''
       \<and> (\<exists>f up. fwd = Some f \<and> f der = Inr up \<and> good_upstream up \<and> wr_body r = up_body up))"
proof -
  obtain der c where d: "request_der req = Some der" "length der \<le> 8192" "ol_parseRequest lib der = Some [c]"
    and a: "answer_cert lib req assets store fwd der c = Inr r"
    by (rule handleOcsp_signed[OF assms])
  obtain root ica where "parseCert lib (as_rootPem assets) = Inr root" "parseCert lib (as_icaPem assets) = Inr ica"
    using answer_cert_parses[OF a] by blast
  from a answer_cert_exact[OF this] have r: "r = ocsp_answer lib req assets store fwd der c" by simp
  have b [simp]: "wr_body (ocspBytes x y) = x" for x y by (simp add: ocspBytes_def)
  have "names_ica lib assets c
       \<and> store (if ci_hashOid c = OID_SHA1 then ''response:sha1'' else ''response:sha256'') = Some (wr_body r)
     \<or> issued_by_ica lib assets c \<and> wq_method req \<noteq> ''HEAD''
       \<and> (\<exists>f up. fwd = Some f \<and> f der = Inr up \<and> good_upstream up \<and> wr_body r = up_body up)"
    using assms(3) unfolding r ocsp_answer_def
    by (auto simp: relayLeaf_body split: option.splits if_splits sum.splits)
  with d show ?thesis by blast
qed

text \<open>A leaf of the intermediate is never disowned: with a live responder configured, its answer or an
  internal error is given.\<close>

lemma leaf_never_disowned:
  assumes "asks_status req" "wq_method req \<noteq> ''HEAD''" "request_der req = Some der" "length der \<le> 8192"
    and "ol_parseRequest lib der = Some [c]" "issued_by_ica lib assets c" "\<not> names_ica lib assets c"
    and "parseCert lib (as_rootPem assets) = Inr root" "fwd = Some f"
  shows "\<exists>r. handleOcsp lib assets store fwd req = Inr r \<and> wr_body r =
    (case f der of Inr up \<Rightarrow> if good_upstream up then up_body up else OCSP_INTERNAL_ERROR
     | Inl e \<Rightarrow> OCSP_INTERNAL_ERROR)"
proof -
  obtain ica where "parseCert lib (as_icaPem assets) = Inr ica" using assms(6) by (auto simp: issued_by_ica_def)
  from answer_cert_exact[OF assms(8) this] handleOcsp_status[OF assms(1,3-5)]
  have "handleOcsp lib assets store fwd req = Inr (ocsp_answer lib req assets store fwd der c)" by simp
  with assms(2,6,7,9) show ?thesis by (simp add: ocsp_answer_def relayLeaf_body)
qed

end
