(* ===== verification/AndroidRevocation.thy ===== *)
theory AndroidRevocation
  imports Codec Json
begin

text \<open>
  Google's attestation revocation list, \<open>ca/_shared/attestation/android_revocation.ts\<close>: the two
  written forms of a serial, the fail-closed parse of the list, and the caching loader as a state
  machine over its calls.  The network is a parameter: what one fetch answers.
\<close>

definition REFRESH_AFTER_MS :: int where
  "REFRESH_AFTER_MS = 24 * 60 * 60 * 1000"
definition USABLE_FOR_MS :: int where
  "USABLE_FOR_MS = 7 * 24 * 60 * 60 * 1000"
definition RETRY_AFTER_FAILURE_MS :: int where
  "RETRY_AFTER_FAILURE_MS = 5 * 60 * 1000"

record android_revocation_entry =
  av_status :: string
  av_reason :: "string option"

text \<open>A \<open>Map\<close> keyed by serial.\<close>

type_synonym android_revocation_list = "string \<Rightarrow> android_revocation_entry option"

definition be_nat :: "bytes \<Rightarrow> nat" where
  "be_nat bs = foldl (\<lambda>v b. v * 256 + unat b) 0 bs"

definition serialForms :: "bytes \<Rightarrow> string \<times> string" where
  "serialForms der = (let v = be_nat der in (show_hex v, show_nat v))"

definition findRevoked ::
  "bytes \<Rightarrow> android_revocation_list \<Rightarrow> (string \<times> android_revocation_entry) option"
where
  "findRevoked serialDer list =
    (case serialForms serialDer of (hex, dec) \<Rightarrow>
      (case list hex of
         Some e \<Rightarrow> Some (hex, e)
       | None \<Rightarrow> (case list dec of Some e \<Rightarrow> Some (dec, e) | None \<Rightarrow> None)))"

definition is_lower_hex :: "char \<Rightarrow> bool" where
  "is_lower_hex c = (is_digit c \<or> c \<in> set ''abcdef'')"

text \<open>\<open>key.replace(/^0+(?=.)/, "")\<close>.\<close>

fun strip_zeros :: "string \<Rightarrow> string" where
  "strip_zeros (c # d # cs) = (if c = CHR ''0'' then strip_zeros (d # cs) else c # d # cs)"
| "strip_zeros s = s"

definition entry_of_json :: "jsval \<Rightarrow> android_revocation_entry" where
  "entry_of_json v =
    \<lparr>av_status = null_or (as_str (opt_get v ''status'')) ''UNKNOWN'',
     av_reason = as_str (opt_get v ''reason'')\<rparr>"

fun collect_entries ::
  "(string \<times> jsval) list \<Rightarrow> android_revocation_list \<Rightarrow> string + android_revocation_list"
where
  "collect_entries [] out = Inr out"
| "collect_entries ((serial, v) # kvs) out =
     (let key = map lower_char serial in
      if key = [] \<or> \<not> list_all is_lower_hex key
      then Inl (''attestation status list has a non-numeric serial: '' @ take 64 serial)
      else collect_entries kvs (out(strip_zeros key \<mapsto> entry_of_json v)))"

definition parseAndroidRevocationList :: "jsval \<Rightarrow> string + android_revocation_list" where
  "parseAndroidRevocationList json =
    (case opt_get json ''entries'' of
       JObj kvs \<Rightarrow>
         bindR (collect_entries kvs (\<lambda>_. None)) (\<lambda>out.
           if kvs = [] then Inl ''attestation status list is empty'' else Inr out)
     | _ \<Rightarrow> Inl ''attestation status list has no entries object'')"

section \<open>The caching loader\<close>

text \<open>One fetch: it throws (a timeout included), answers with a status outside 200..299, or answers
  with a body, whose JSON may not parse.\<close>

datatype list_fetch = Fetch_fails string | Http_status nat | Http_body "string + jsval"

record loader_state =
  ld_cached :: "(android_revocation_list \<times> int) option"
  ld_retryAt :: int

definition loader_start :: loader_state where
  "loader_start = \<lparr>ld_cached = None, ld_retryAt = 0\<rparr>"

fun fetched_list :: "list_fetch \<Rightarrow> string + android_revocation_list" where
  "fetched_list (Fetch_fails m) = Inl m"
| "fetched_list (Http_status n) = Inl (''HTTP '' @ show_nat n)"
| "fetched_list (Http_body (Inl m)) = Inl m"
| "fetched_list (Http_body (Inr json)) = parseAndroidRevocationList json"

definition usable_copy :: "int \<Rightarrow> loader_state \<Rightarrow> (android_revocation_list \<times> int) option" where
  "usable_copy t st =
    (case ld_cached st of
       Some (l, at) \<Rightarrow> if t - at < USABLE_FOR_MS then Some (l, at) else None
     | None \<Rightarrow> None)"

text \<open>One call of the loader at time \<open>t\<close>; \<open>answer\<close> is what a fetch would bring.\<close>

definition load_list ::
  "int \<Rightarrow> list_fetch \<Rightarrow> loader_state \<Rightarrow> (string + android_revocation_list) \<times> loader_state"
where
  "load_list t answer st =
    (let refetch =
       (case fetched_list answer of
          Inr l \<Rightarrow> (Inr l, st\<lparr>ld_cached := Some (l, t)\<rparr>)
        | Inl msg \<Rightarrow>
            (let st' = st\<lparr>ld_retryAt := t + RETRY_AFTER_FAILURE_MS\<rparr> in
             (case usable_copy t st of
                Some (l, _) \<Rightarrow> (Inr l, st')
              | None \<Rightarrow> (Inl (''Android attestation revocation list unavailable: '' @ msg), st')))) in
     (case usable_copy t st of
        Some (l, at) \<Rightarrow>
          if t - at < REFRESH_AFTER_MS \<or> t < ld_retryAt st then (Inr l, st) else refetch
      | None \<Rightarrow> refetch))"

text \<open>A run of calls, each with its time and what the network would answer.\<close>

fun run_loader ::
  "(int \<times> list_fetch) list \<Rightarrow> loader_state \<Rightarrow> (string + android_revocation_list) list \<times> loader_state"
where
  "run_loader [] st = ([], st)"
| "run_loader ((t, a) # calls) st =
     (let (r, st') = load_list t a st; (rs, st'') = run_loader calls st' in (r # rs, st''))"

section \<open>Facts\<close>

lemma strip_zeros_pad: "s \<noteq> [] \<Longrightarrow> strip_zeros (replicate n (CHR ''0'') @ s) = strip_zeros s"
proof (induction n)
  case (Suc n)
  obtain c cs where "replicate n (CHR ''0'') @ s = c # cs"
    using Suc.prems by (cases "replicate n (CHR ''0'') @ s") auto
  then have "strip_zeros (replicate (Suc n) (CHR ''0'') @ s) = strip_zeros (replicate n (CHR ''0'') @ s)"
    by simp
  with Suc show ?case by simp
qed simp

lemma strip_zeros_no_lead: "s = [c] \<or> hd s \<noteq> CHR ''0'' \<Longrightarrow> strip_zeros s = s"
  by (cases s rule: strip_zeros.cases) auto

lemma hex_digit_zero: "d < 16 \<Longrightarrow> hex_digit d = CHR ''0'' \<longleftrightarrow> d = 0"
  by (cases "d < 10") (auto simp: char_of_eq_iff take_bit_eq_mod)

lemma show_hex_Nil [simp]: "show_hex n \<noteq> []"
  by (subst show_hex.simps)
       (simp add: char_of_eq_iff take_bit_eq_mod)

lemma show_hex_hd: "0 < n \<Longrightarrow> hd (show_hex n) \<noteq> CHR ''0''"
proof (induction n rule: show_hex.induct)
  case (1 n)
  show ?case
  proof (cases "n < 16")
    case True
    with 1(2) show ?thesis by (simp add: show_hex.simps[of n] hex_digit_zero del: hex_digit.simps)
  next
    case False
    then have "0 < n div 16" by simp
    with 1(1)[OF False this] False show ?thesis by (simp add: show_hex.simps[of n] del: hex_digit.simps)
  qed
qed

lemma strip_zeros_show_hex: "strip_zeros (show_hex n) = show_hex n"
proof (cases "n = 0")
  case True
  then show ?thesis by (simp add: show_hex.simps)
next
  case False
  with show_hex_hd[of n] show ?thesis by (intro strip_zeros_no_lead) simp
qed

lemma load_list_served:
  assumes "load_list t a st = (Inr l, st')"
  shows "(\<exists>at. ld_cached st = Some (l, at) \<and> t - at < USABLE_FOR_MS) \<or> fetched_list a = Inr l"
  using assms
  by (auto simp: load_list_def usable_copy_def Let_def split: option.splits if_splits sum.splits prod.splits)

lemma load_list_cached:
  assumes "load_list t a st = (r, st')" "ld_cached st' = Some (l, at)"
  shows "ld_cached st = Some (l, at) \<or> (at = t \<and> fetched_list a = Inr l)"
  using assms
  by (auto simp: load_list_def usable_copy_def Let_def split: option.splits if_splits sum.splits prod.splits)

text \<open>Every list a run serves was fetched and parsed in that run, at most \<open>USABLE_FOR_MS\<close> before.\<close>

lemma run_loader_fresh:
  assumes "run_loader calls st = (rs, st')" "i < length rs" "rs ! i = Inr l"
    and "\<And>l at. ld_cached st = Some (l, at) \<Longrightarrow> P l at"
    and "\<And>t a l. (t, a) \<in> set calls \<Longrightarrow> fetched_list a = Inr l \<Longrightarrow> P l t"
  shows "\<exists>at. P l at \<and> fst (calls ! i) - at < USABLE_FOR_MS"
  using assms
proof (induction calls arbitrary: st rs i)
  case Nil
  then show ?case by simp
next
  case (Cons c calls)
  obtain t a where c: "c = (t, a)" by (cases c)
  obtain r st1 where step: "load_list t a st = (r, st1)" by fastforce
  obtain rs1 where rest: "run_loader calls st1 = (rs1, st')" and rs: "rs = r # rs1"
    using Cons.prems(1) step c by (auto split: prod.splits)
  show ?case
  proof (cases i)
    case 0
    with Cons.prems(3) rs have "load_list t a st = (Inr l, st1)" using step by simp
    from load_list_served[OF this] consider at where "P l at" "t - at < USABLE_FOR_MS"
      | "fetched_list a = Inr l"
      using Cons.prems(4) by blast
    then show ?thesis
    proof cases
      case 1
      with 0 c show ?thesis by auto
    next
      case 2
      with Cons.prems(5)[of t a l] 0 c show ?thesis by (auto simp: USABLE_FOR_MS_def)
    qed
  next
    case (Suc j)
    have "P l' at" if "ld_cached st1 = Some (l', at)" for l' at
      using load_list_cached[OF step that] Cons.prems(4) Cons.prems(5)[of t a l'] unfolding c by auto
    note cached = this
    have "P l' t'" if "(t', a') \<in> set calls" "fetched_list a' = Inr l'" for t' a' l'
      using Cons.prems(5)[of t' a' l'] that by simp
    with Cons.IH[OF rest _ _ cached, of j] Cons.prems(2,3) rs Suc
    have "\<exists>at. P l at \<and> fst (calls ! j) - at < USABLE_FOR_MS" by simp
    then show ?thesis using Suc by simp
  qed
qed

lemma show_nat_hd: "0 < n \<Longrightarrow> hd (show_nat n) \<noteq> CHR ''0''"
proof (induction n rule: show_nat.induct)
  case (1 n)
  show ?case
  proof (cases "n < 10")
    case True
    with 1(2) show ?thesis
      by (auto simp: show_nat.simps[of n] char_of_eq_iff take_bit_eq_mod)
  next
    case False
    then have "0 < n div 10" by simp
    with 1(1)[OF False this] False show ?thesis by (simp add: show_nat.simps[of n] del: digit_char.simps)
  qed
qed

lemma strip_zeros_show_nat: "strip_zeros (show_nat n) = show_nat n"
proof (cases "n = 0")
  case True
  then show ?thesis by (simp add: show_nat.simps)
next
  case False
  with show_nat_hd[of n] show ?thesis by (intro strip_zeros_no_lead) simp
qed

lemma collect_entries_keeps:
  "collect_entries kvs out = Inr list \<Longrightarrow> dom out \<subseteq> dom list"
proof (induction kvs out rule: collect_entries.induct)
  case (2 serial v kvs out)
  from 2(2) have rest: "collect_entries kvs (out(strip_zeros (map lower_char serial) \<mapsto> entry_of_json v)) = Inr list"
    and ok: "\<not> (map lower_char serial = [] \<or> \<not> list_all is_lower_hex (map lower_char serial))"
    by (simp_all add: Let_def split: if_splits)
  have "dom out \<subseteq> dom (out(strip_zeros (map lower_char serial) \<mapsto> entry_of_json v))" by auto
  with 2(1)[OF refl ok rest] show ?case by blast
qed simp

lemma collect_entries_dom:
  "collect_entries kvs out = Inr list \<Longrightarrow> (s, v) \<in> set kvs \<Longrightarrow>
     strip_zeros (map lower_char s) \<in> dom list"
proof (induction kvs out rule: collect_entries.induct)
  case (2 serial w kvs out)
  from 2(2) have rest: "collect_entries kvs (out(strip_zeros (map lower_char serial) \<mapsto> entry_of_json w)) = Inr list"
    and ok: "\<not> (map lower_char serial = [] \<or> \<not> list_all is_lower_hex (map lower_char serial))"
    by (simp_all add: Let_def split: if_splits)
  show ?case
  proof (cases "(s, v) \<in> set kvs")
    case True
    with 2(1)[OF refl ok rest] show ?thesis by simp
  next
    case False
    with 2(3) have "s = serial" by simp
    with collect_entries_keeps[OF rest] show ?thesis by auto
  qed
qed simp

text \<open>A revoked serial is found however the list writes it: in hexadecimal or in decimal, with any
  case and any padding with zeros.\<close>

lemma revoked_serial_found:
  assumes "parseAndroidRevocationList json = Inr list"
    and "opt_get json ''entries'' = JObj kvs" "(s, v) \<in> set kvs"
    and "map lower_char s = replicate n (CHR ''0'') @ show_hex (be_nat der)
      \<or> map lower_char s = replicate n (CHR ''0'') @ show_nat (be_nat der)"
  shows "findRevoked der list \<noteq> None"
proof -
  have "collect_entries kvs (\<lambda>_. None) = Inr list"
    using assms(1,2) by (auto simp: parseAndroidRevocationList_def split: if_splits)
  from collect_entries_dom[OF this assms(3)]
  have "strip_zeros (map lower_char s) \<in> dom list" .
  then have "show_hex (be_nat der) \<in> dom list \<or> show_nat (be_nat der) \<in> dom list"
    using assms(4) by (auto simp: strip_zeros_pad strip_zeros_show_hex strip_zeros_show_nat)
  then show ?thesis
    by (auto simp: findRevoked_def serialForms_def Let_def split: option.splits)
qed

definition ex_status_list :: jsval where
  "ex_status_list = JObj [(''entries'', JObj [(''00C35F'', JObj [(''status'', JStr ''REVOKED'')])])]"

lemma ex_status_list_parses:
  "(case fetched_list (Http_body (Inr ex_status_list)) of Inr l \<Rightarrow> l ''c35f'' | Inl m \<Rightarrow> None)
     = Some \<lparr>av_status = ''REVOKED'', av_reason = None\<rparr>"
  by code_simp

lemma ex_status_list_list:
  obtains l where "fetched_list (Http_body (Inr ex_status_list)) = Inr l"
    "l ''c35f'' = Some \<lparr>av_status = ''REVOKED'', av_reason = None\<rparr>"
  using ex_status_list_parses
  by (cases "fetched_list (Http_body (Inr ex_status_list))") (simp_all del: fetched_list.simps)

lemma ex_serial: "map lower_char ''00C35F'' = replicate 2 (CHR ''0'') @ show_hex (be_nat [0xc3, 0x5f])"
proof -
  have "be_nat [0xc3, 0x5f] = 50015" by (simp add: be_nat_def)
  moreover have "show_hex 50015 = ''c35f''"
    by (subst show_hex.simps, subst show_hex.simps, subst show_hex.simps, subst show_hex.simps)
       (simp add: char_of_eq_iff take_bit_eq_mod)
  moreover have "map lower_char ''00C35F'' = ''00c35f''"
    by (simp add: lower_char_def char_of_eq_iff take_bit_eq_mod)
  ultimately show ?thesis by (simp add: numeral_2_eq_2)
qed

theorem revoked_serial_found_witness:
  "\<exists>l. parseAndroidRevocationList ex_status_list = Inr l \<and> findRevoked [0xc3, 0x5f] l \<noteq> None"
proof -
  obtain l where l: "parseAndroidRevocationList ex_status_list = Inr l"
    by (rule ex_status_list_list) (simp only: fetched_list.simps(4))
  moreover have "opt_get ex_status_list ''entries'' = JObj [(''00C35F'', JObj [(''status'', JStr ''REVOKED'')])]"
    by (simp add: ex_status_list_def opt_get_def)
  ultimately show ?thesis
    using revoked_serial_found[OF l, of _ "''00C35F''" _ 2] ex_serial by (metis list.set_intros(1))
qed

text \<open>C17. The loader never serves a list it did not parse from a response, nor one older than seven days:
  whatever the network does, an enrollment is judged by a list fetched in the last week or refused.\<close>

theorem served_list_is_fresh:
  assumes "run_loader calls loader_start = (rs, st)" "i < length rs" "rs ! i = Inr l"
  shows "\<exists>t a. (t, a) \<in> set calls \<and> fetched_list a = Inr l \<and> fst (calls ! i) - t < 7 * 86400000"
proof -
  have "\<exists>at. (\<exists>a. (at, a) \<in> set calls \<and> fetched_list a = Inr l) \<and> fst (calls ! i) - at < USABLE_FOR_MS"
    using assms by (rule run_loader_fresh) (auto simp: loader_start_def)
  then show ?thesis by (auto simp: USABLE_FOR_MS_def)
qed

theorem served_list_is_fresh_witness:
  "\<exists>l (t::int) a. l ''c35f'' = Some \<lparr>av_status = ''REVOKED'', av_reason = None\<rparr>
     \<and> (t, a) \<in> set [(0, Http_body (Inr ex_status_list)), (90000000, Http_status 500)]
     \<and> fetched_list a = Inr l \<and> 90000000 - t < 7 * 86400000"
proof -
  let ?calls = "[(0, Http_body (Inr ex_status_list)), (90000000, Http_status 500)]"
  obtain l where l: "fetched_list (Http_body (Inr ex_status_list)) = Inr l"
    "l ''c35f'' = Some \<lparr>av_status = ''REVOKED'', av_reason = None\<rparr>"
    by (rule ex_status_list_list)
  then obtain st where "run_loader ?calls loader_start = ([Inr l, Inr l], st)"
    by (simp add: load_list_def loader_start_def usable_copy_def Let_def USABLE_FOR_MS_def
        REFRESH_AFTER_MS_def del: fetched_list.simps(4))
  from served_list_is_fresh[OF this, of 1 l] l(2) show ?thesis by auto
qed

end
