(* ===== verification/OcspLeaf.thy ===== *)
theory OcspLeaf
  imports Ocsp AndroidRevocation
begin

text \<open>
  The live responder for leaf certificates: \<open>ocsp-leaf/responder.ts\<close>, \<open>relay-auth.ts\<close> and
  \<open>main.ts\<close>.  The ledger query, the signer and the DER encoder are parameters; the cache of signed
  responses is the state.  A request reads the clock three times: when it looks in the cache, when it
  dates the response, and when it stores it.
\<close>

section \<open>Status and response\<close>

datatype leaf_status = Status_good | Status_revoked int | Status_unknown

definition serialToDecimal :: "bytes \<Rightarrow> string" where
  "serialToDecimal serial = show_nat (be_nat serial)"

text \<open>The columns of the rows found; their time in milliseconds.\<close>

definition lookupStatus :: "int option list \<Rightarrow> leaf_status" where
  "lookupStatus rows =
    (case rows of
       [] \<Rightarrow> Status_unknown
     | None # _ \<Rightarrow> Status_good
     | Some t # _ \<Rightarrow> Status_revoked t)"

text \<open>A revocation is dated in whole seconds and states no reason.\<close>

definition certStatusSchema :: "leaf_status \<Rightarrow> cert_status" where
  "certStatusSchema s =
    (case s of
       Status_good \<Rightarrow> Cs_good
     | Status_revoked t \<Rightarrow> Cs_revoked (t div 1000 * 1000) None
     | Status_unknown \<Rightarrow> Cs_unknown)"

record leaf_deps =
  lf_issuerTargets :: "issuer_hashes list"
  lf_responderPem :: string
  lf_ledger :: "string \<Rightarrow> string + int option list"
  lf_signTbs :: "bytes \<Rightarrow> string + bytes"
  lf_validityMs :: int
  lf_cacheSize :: nat
  lf_readAt :: int
  lf_now :: int
  lf_storedAt :: int

definition leaf_response :: "ocsp_lib \<Rightarrow> status_cert \<Rightarrow> leaf_deps \<Rightarrow> cert_id \<Rightarrow> leaf_status \<Rightarrow> response_data" where
  "leaf_response lib responder deps certId status =
    (let now = lf_now deps div 1000 * 1000 in
     \<lparr>rs_certId = certId, rs_certStatus = certStatusSchema status, rs_thisUpdate = now,
      rs_nextUpdate = now + lf_validityMs deps, rs_producedAt = now,
      rs_responderKeyHash = ol_digest lib ''SHA-1'' (sc_keyBits responder)\<rparr>)"

definition buildLeafOcspResponseDer ::
  "ocsp_lib \<Rightarrow> ocsp_encoder \<Rightarrow> leaf_deps \<Rightarrow> cert_id \<Rightarrow> leaf_status \<Rightarrow> string + bytes"
where
  "buildLeafOcspResponseDer lib enc deps certId status =
    bindR (parseCert lib (lf_responderPem deps)) (\<lambda>responder.
    let data = leaf_response lib responder deps certId status in
    bindR (lf_signTbs deps (oe_tbs enc data)) (\<lambda>signature.
    Inr (oe_response enc data signature responder)))"

section \<open>The cache\<close>

text \<open>A \<open>Map\<close> keeps its entries in insertion order; the oldest is first.\<close>

type_synonym response_cache = "(string \<times> bytes \<times> int) list"

definition certIdCacheKey :: "cert_id \<Rightarrow> string" where
  "certIdCacheKey c =
    ci_hashOid c @ '':'' @ bytesToHex (ci_issuerNameHash c) @ '':'' @ bytesToHex (ci_issuerKeyHash c)
    @ '':'' @ bytesToHex (ci_serialNumber c)"

definition lru_get :: "int \<Rightarrow> string \<Rightarrow> response_cache \<Rightarrow> bytes option \<times> response_cache" where
  "lru_get now key entries =
    (case map_of entries key of
       None \<Rightarrow> (None, entries)
     | Some (der, expiresAt) \<Rightarrow>
         (let rest = filter (\<lambda>(k, _). k \<noteq> key) entries in
          if now \<ge> expiresAt then (None, rest) else (Some der, rest @ [(key, der, expiresAt)])))"

definition map_set :: "string \<Rightarrow> 'v \<Rightarrow> (string \<times> 'v) list \<Rightarrow> (string \<times> 'v) list" where
  "map_set key v entries =
    (if key \<in> fst ` set entries then map (\<lambda>(k, w). if k = key then (k, v) else (k, w)) entries
     else entries @ [(key, v)])"

definition lru_set :: "nat \<Rightarrow> int \<Rightarrow> int \<Rightarrow> string \<Rightarrow> bytes \<Rightarrow> response_cache \<Rightarrow> response_cache" where
  "lru_set maxEntries ttlMs now key der entries =
    map_set key (der, now + ttlMs) (if length entries \<ge> maxEntries then drop 1 entries else entries)"

section \<open>The pipeline\<close>

text \<open>An error is a failing ledger or signer.\<close>

definition respond ::
  "ocsp_lib \<Rightarrow> ocsp_encoder \<Rightarrow> leaf_deps \<Rightarrow> bytes \<Rightarrow> response_cache \<Rightarrow> (string + bytes \<times> bool) \<times> response_cache"
where
  "respond lib enc deps requestDer cache =
    (case ol_parseRequest lib requestDer of
       None \<Rightarrow> (Inr (OCSP_MALFORMED_REQUEST, False), cache)
     | Some [certId] \<Rightarrow>
         if \<not> issuerMatches (lf_issuerTargets deps) certId then (Inr (OCSP_UNAUTHORIZED, False), cache)
         else
           (let key = certIdCacheKey certId in
            (case lru_get (lf_readAt deps) key cache of
               (Some der, c1) \<Rightarrow> (Inr (der, True), c1)
             | (None, c1) \<Rightarrow>
                 (case lf_ledger deps (serialToDecimal (ci_serialNumber certId)) of
                    Inl e \<Rightarrow> (Inl e, c1)
                  | Inr rows \<Rightarrow>
                      (let status = lookupStatus rows in
                       if status = Status_unknown then (Inr (OCSP_UNAUTHORIZED, False), c1)
                       else
                         (case buildLeafOcspResponseDer lib enc deps certId status of
                            Inl e \<Rightarrow> (Inl e, c1)
                          | Inr der \<Rightarrow>
                              (Inr (der, True),
                               lru_set (lf_cacheSize deps) (lf_validityMs deps) (lf_storedAt deps) key der c1))))))
     | Some _ \<Rightarrow> (Inr (OCSP_UNAUTHORIZED, False), cache))"

section \<open>HTTP\<close>

definition relayAuthorized :: "web_request \<Rightarrow> string \<Rightarrow> bool" where
  "relayAuthorized req expected =
    (case wq_headers req ''x-realreel-relay-secret'' of
       None \<Rightarrow> False
     | Some provided \<Rightarrow>
         (let a = utf8 provided; b = utf8 (js_trim expected) in
          if length b = 0 then False else length a = length b \<and> ctEqual a b))"

definition ocspHttpResponse :: "bytes \<Rightarrow> bool \<Rightarrow> web_response" where
  "ocspHttpResponse der cacheable =
    \<lparr>wr_status = 200,
     wr_headers = [(''content-type'', OCSP_CONTENT_TYPE),
       (''cache-control'', if cacheable then ''public, max-age=300'' else ''no-store'')],
     wr_body = der\<rparr>"

definition readRequestDer :: "web_request \<Rightarrow> bytes option" where
  "readRequestDer req =
    (if wq_method req = ''POST''
     then (if wq_body req \<noteq> [] \<and> length (wq_body req) \<le> MAX_REQUEST_BYTES then Some (wq_body req) else None)
     else
       (let encoded = drop 1 (wq_pathname req) in
        if encoded = [] \<or> length encoded > MAX_REQUEST_BYTES * 2 then None
        else
          (case Option.bind (decodeURIComponent encoded) base64ToBytes of
             Some der \<Rightarrow> if length der \<le> MAX_REQUEST_BYTES then Some der else None
           | None \<Rightarrow> None)))"

definition plain_response :: "nat \<Rightarrow> string \<Rightarrow> web_response" where
  "plain_response status text = \<lparr>wr_status = status, wr_headers = [], wr_body = utf8 text\<rparr>"

definition handleLeaf ::
  "ocsp_lib \<Rightarrow> ocsp_encoder \<Rightarrow> leaf_deps \<Rightarrow> string \<Rightarrow> web_request \<Rightarrow> response_cache \<Rightarrow> web_response \<times> response_cache"
where
  "handleLeaf lib enc deps relaySecret req cache =
    (if wq_method req = ''GET'' \<and> wq_pathname req = ''/healthz'' then (plain_response 200 ''ok'', cache)
     else if wq_method req = ''GET'' \<and> wq_pathname req = ''/healthz/ready''
     then (case lf_ledger deps ''0'' of
             Inr rows \<Rightarrow> (plain_response 200 ''ready'', cache)
           | Inl e \<Rightarrow> (plain_response 503 ''db unavailable'', cache))
     else if \<not> relayAuthorized req relaySecret then (plain_response 403 ''forbidden'', cache)
     else if wq_method req \<noteq> ''POST'' \<and> wq_method req \<noteq> ''GET''
     then (plain_response 405 ''method not allowed'', cache)
     else
       (case readRequestDer req of
          None \<Rightarrow> (ocspHttpResponse OCSP_MALFORMED_REQUEST False, cache)
        | Some requestDer \<Rightarrow>
            (case respond lib enc deps requestDer cache of
               (Inr (der, isSigned), c) \<Rightarrow> (ocspHttpResponse der isSigned, c)
             | (Inl e, c) \<Rightarrow> (ocspHttpResponse OCSP_INTERNAL_ERROR False, c))))"

section \<open>Start-up and the signer\<close>

text \<open>The configuration; the validity in milliseconds, a fraction of one rounded down.\<close>

definition validity_ms :: "jsnum \<Rightarrow> int option" where
  "validity_ms n =
    (case n of
       DecNum m e \<Rightarrow>
         if \<not> dec_less_int m e 1 \<and> \<not> num_greater n 72
         then Some (if 0 \<le> e then m * 10 ^ nat e * 3600000 else m * 3600000 div 10 ^ nat (- e)) else None
     | _ \<Rightarrow> None)"

record leaf_config =
  lg_databaseUrl :: string
  lg_kmsKeyResource :: string
  lg_relaySecret :: string
  lg_validityMs :: int

definition requiredEnv :: "env \<Rightarrow> string \<Rightarrow> string + string" where
  "requiredEnv env name =
    (case env name of
       Some v \<Rightarrow> if v = [] then Inl (name @ '' is required'') else Inr v
     | None \<Rightarrow> Inl (name @ '' is required''))"

definition leafStartup :: "env \<Rightarrow> string + leaf_config" where
  "leafStartup env =
    bindR (requiredEnv env ''DATABASE_URL'') (\<lambda>databaseUrl.
    bindR (requiredEnv env ''GCP_KMS_KEY_RESOURCE'') (\<lambda>kmsKeyResource.
    bindR (requiredEnv env ''LEAF_RELAY_SECRET'') (\<lambda>relaySecret.
    bindR (guardR (js_trim relaySecret \<noteq> []) ''LEAF_RELAY_SECRET must not be blank'') (\<lambda>_.
    bindR (derefR ''OCSP_LEAF_VALIDITY_HOURS must be 1..72''
      (validity_ms (js_number (null_or (env ''OCSP_LEAF_VALIDITY_HOURS'') ''24'')))) (\<lambda>validityMs.
    Inr \<lparr>lg_databaseUrl = databaseUrl, lg_kmsKeyResource = kmsKeyResource, lg_relaySecret = relaySecret,
         lg_validityMs = validityMs\<rparr>)))))"

text \<open>The responder certificate is issued by the intermediate.\<close>

definition responder_check :: "ocsp_lib \<Rightarrow> string \<Rightarrow> string \<Rightarrow> string + unit" where
  "responder_check lib icaPem responderPem =
    bindR (parseCert lib icaPem) (\<lambda>ica.
    bindR (parseCert lib responderPem) (\<lambda>responder.
    guardR (sc_subjectDer ica = sc_issuerDer responder) ''responder cert issuer DN is not ICA subject DN''))"

text \<open>The metadata token, with the two readings of the clock: before and after the fetch.\<close>

record metadata_token =
  mt_value :: jsval
  mt_mintedAt :: int
  mt_expiresIn :: jsnum

definition getMetadataToken ::
  "list_fetch \<Rightarrow> int \<Rightarrow> int \<Rightarrow> metadata_token option \<Rightarrow> (string + jsval) \<times> metadata_token option"
where
  "getMetadataToken answer before after cached =
    (let fresh = (case answer of
           Fetch_fails m \<Rightarrow> (Inl m, cached)
         | Http_status n \<Rightarrow> (Inl (''metadata token fetch failed: '' @ show_nat n), cached)
         | Http_body (Inl m) \<Rightarrow> (Inl m, cached)
         | Http_body (Inr json) \<Rightarrow>
             if is_nullish json then (Inl ''TypeError'', cached)
             else (Inr (obj_get json ''access_token''),
                   Some \<lparr>mt_value = obj_get json ''access_token'', mt_mintedAt = after,
                         mt_expiresIn = (case obj_get json ''expires_in'' of
                           JNum n \<Rightarrow> n | JStr s \<Rightarrow> js_number s | JNull \<Rightarrow> DecNum 0 0
                         | JBool b \<Rightarrow> DecNum (if b then 1 else 0) 0 | _ \<Rightarrow> NaNum)\<rparr>)) in
     (case cached of
        Some t \<Rightarrow>
          if num_greater (case mt_expiresIn t of DecNum m e \<Rightarrow> DecNum m (e + 3) | n \<Rightarrow> n)
               (before + 60000 - mt_mintedAt t)
          then (Inr (mt_value t), cached) else fresh
      | None \<Rightarrow> fresh))"

definition kmsSignViaMetadata ::
  "string \<Rightarrow> (string \<Rightarrow> jsval \<Rightarrow> jsval \<Rightarrow> list_fetch) \<Rightarrow> string + jsval \<Rightarrow> bytes \<Rightarrow> string + bytes"
where
  "kmsSignViaMetadata kmsKeyResource signCall token digest =
    bindR token (\<lambda>tok.
    (case signCall (''https://cloudkms.googleapis.com/v1/'' @ kmsKeyResource @ '':asymmetricSign'') tok
            (JObj [(''digest'', JObj [(''sha256'', JStr (bytesToBase64 digest))])]) of
       Fetch_fails m \<Rightarrow> Inl m
     | Http_status n \<Rightarrow> Inl (''KMS asymmetricSign returned '' @ show_nat n)
     | Http_body (Inl m) \<Rightarrow> Inl m
     | Http_body (Inr json) \<Rightarrow>
         if is_nullish json then Inl ''TypeError''
         else if \<not> truthy (obj_get json ''signature'') then Inl ''KMS response missing signature''
         else derefR ''InvalidCharacterError'' (base64ToBytes (js_display (obj_get json ''signature'')))))"

section \<open>A cached answer is about the certificate asked for\<close>

lemma hex_no_colon: "CHR '':'' \<notin> set (bytesToHex bs)"
proof -
  have "CHR '':'' \<noteq> hex_digit d" if "d < 16" for d
  proof
    assume "CHR '':'' = hex_digit d"
    then have "(of_char (CHR '':'') :: nat) = (if d < 10 then 48 + d else 87 + d)"
      using hex_digit_code[OF that] by simp
    then show False using that by (simp split: if_splits)
  qed
  then have "CHR '':'' \<notin> set (hex2 b)" for b
    using byte_div_16[of b] by (simp add: hex2_def)
  then show ?thesis by (simp add: bytesToHex_def pad_hex)
qed

lemma first_split:
  "x \<notin> set b \<Longrightarrow> x \<notin> set d \<Longrightarrow> b @ x # a = d @ x # c \<longleftrightarrow> b = d \<and> a = c"
proof (induction b arbitrary: d)
  case Nil
  then show ?case by (cases d) auto
next
  case (Cons y b)
  then show ?case by (cases d) auto
qed

text \<open>A text is cut at its last colon in one way.\<close>

lemma last_colon:
  assumes "CHR '':'' \<notin> set b" "CHR '':'' \<notin> set d"
  shows "a @ '':'' @ b = c @ '':'' @ d \<longleftrightarrow> a = c \<and> b = d"
proof
  assume e: "a @ '':'' @ b = c @ '':'' @ d"
  have "rev b @ CHR '':'' # rev a = rev d @ CHR '':'' # rev c"
    using arg_cong[OF e, of rev] by simp
  with assms show "a = c \<and> b = d"
    using first_split[of "CHR '':''" "rev b" "rev d" "rev a" "rev c"] by simp
qed simp

lemma cache_key_eq_iff: "certIdCacheKey a = certIdCacheKey b \<longleftrightarrow> a = b"
proof
  assume "certIdCacheKey a = certIdCacheKey b"
  then have "((ci_hashOid a @ '':'' @ bytesToHex (ci_issuerNameHash a)) @ '':'' @ bytesToHex (ci_issuerKeyHash a))
       @ '':'' @ bytesToHex (ci_serialNumber a)
    = ((ci_hashOid b @ '':'' @ bytesToHex (ci_issuerNameHash b)) @ '':'' @ bytesToHex (ci_issuerKeyHash b))
       @ '':'' @ bytesToHex (ci_serialNumber b)"
    by (simp add: certIdCacheKey_def)
  then show "a = b"
    unfolding last_colon[OF hex_no_colon hex_no_colon] bytesToHex_inject by simp
qed simp

section \<open>Every answer is fresh\<close>

type_synonym leaf_event = "leaf_deps \<times> bytes"

fun leaf_run ::
  "ocsp_lib \<Rightarrow> ocsp_encoder \<Rightarrow> leaf_event list \<Rightarrow> response_cache \<Rightarrow> (string + bytes \<times> bool) list \<times> response_cache"
where
  "leaf_run lib enc [] cache = ([], cache)"
| "leaf_run lib enc ((deps, der) # events) cache =
     (let (r, cache') = respond lib enc deps der cache; (rs, cache'') = leaf_run lib enc events cache' in
      (r # rs, cache''))"

text \<open>The answer a request with these dependencies computes about \<open>c\<close>: the ledger's status, signed.\<close>

definition answered :: "ocsp_lib \<Rightarrow> ocsp_encoder \<Rightarrow> leaf_deps \<Rightarrow> cert_id \<Rightarrow> bytes \<Rightarrow> bool" where
  "answered lib enc deps c der =
    (\<exists>rows. lf_ledger deps (serialToDecimal (ci_serialNumber c)) = Inr rows
       \<and> lookupStatus rows \<noteq> Status_unknown
       \<and> buildLeafOcspResponseDer lib enc deps c (lookupStatus rows) = Inr der)"

definition cache_from :: "(leaf_deps \<Rightarrow> cert_id \<Rightarrow> bytes \<Rightarrow> bool) \<Rightarrow> response_cache \<Rightarrow> bool" where
  "cache_from Q cache =
    (\<forall>(key, der, expiresAt) \<in> set cache.
       \<exists>d c. key = certIdCacheKey c \<and> Q d c der \<and> expiresAt = lf_storedAt d + lf_validityMs d)"

lemma cache_from_subset: "cache_from Q cache \<Longrightarrow> set cache' \<subseteq> set cache \<Longrightarrow> cache_from Q cache'"
  unfolding cache_from_def by blast

lemma lru_get_subset: "lru_get t key cache = (r, cache') \<Longrightarrow> set cache' \<subseteq> set cache"
  by (auto simp: lru_get_def Let_def dest: map_of_SomeD split: option.splits prod.splits if_splits)

lemma lru_get_found:
  assumes "cache_from Q cache" "lru_get t (certIdCacheKey c) cache = (Some der, cache')"
  shows "\<exists>d. Q d c der \<and> t < lf_storedAt d + lf_validityMs d"
proof -
  from assms(2) obtain e where "(certIdCacheKey c, der, e) \<in> set cache" "t < e"
    by (auto simp: lru_get_def Let_def dest!: map_of_SomeD split: option.splits prod.splits if_splits)
  with assms(1) show ?thesis unfolding cache_from_def by (fastforce simp: cache_key_eq_iff)
qed

lemma cache_from_set:
  assumes "cache_from Q cache" "Q d c der"
  shows "cache_from Q (lru_set n (lf_validityMs d) (lf_storedAt d) (certIdCacheKey c) der cache)"
proof -
  have m: "set (map_set k v es) \<subseteq> insert (k, v) (set es)" for k and v :: "bytes \<times> int" and es
    by (auto simp: map_set_def split: if_splits)
  have "set (if n \<le> length cache then drop 1 cache else cache) \<subseteq> set cache"
    using set_drop_subset[of 1 cache] by simp
  with m have "set (lru_set n (lf_validityMs d) (lf_storedAt d) (certIdCacheKey c) der cache)
      \<subseteq> insert (certIdCacheKey c, der, lf_storedAt d + lf_validityMs d) (set cache)"
    unfolding lru_set_def by (meson insert_mono order_trans)
  with assms show ?thesis unfolding cache_from_def by blast
qed

lemma respond_signed:
  assumes "respond lib enc deps req cache = (Inr (der, True), cache')" "cache_from Q cache"
  obtains c d where "ol_parseRequest lib req = Some [c]" "issuerMatches (lf_issuerTargets deps) c"
    "(Q d c der \<and> lf_readAt deps < lf_storedAt d + lf_validityMs d) \<or> answered lib enc deps c der"
proof -
  from assms(1) obtain c where c: "ol_parseRequest lib req = Some [c]" "issuerMatches (lf_issuerTargets deps) c"
    by (auto simp: respond_def split: option.splits list.splits if_splits)
  show ?thesis
  proof (cases "lru_get (lf_readAt deps) (certIdCacheKey c) cache")
    case (Pair found c1)
    show ?thesis
    proof (cases found)
      case None
      with assms(1) c Pair have "answered lib enc deps c der"
        by (auto simp: respond_def answered_def Let_def split: sum.splits if_splits)
      with that c show ?thesis by blast
    next
      case (Some der')
      with assms(1) c Pair have "der' = der" by (simp add: respond_def Let_def)
      with lru_get_found[OF assms(2), of "lf_readAt deps" c] Pair Some that c show ?thesis by blast
    qed
  qed
qed

lemma respond_cache:
  assumes "respond lib enc deps req cache = (r, cache')" "cache_from Q cache"
    and "\<And>c der. answered lib enc deps c der \<Longrightarrow> Q deps c der"
  shows "cache_from Q cache'"
proof (cases "cache' = cache")
  case False
  with assms(1) obtain c where c: "ol_parseRequest lib req = Some [c]" "issuerMatches (lf_issuerTargets deps) c"
    by (auto simp: respond_def split: option.splits list.splits if_splits)
  obtain found c1 where g: "lru_get (lf_readAt deps) (certIdCacheKey c) cache = (found, c1)" by fastforce
  note c1 = cache_from_subset[OF assms(2) lru_get_subset[OF g]]
  from assms(1) c g consider "cache' = c1"
    | der where "answered lib enc deps c der"
        "cache' = lru_set (lf_cacheSize deps) (lf_validityMs deps) (lf_storedAt deps) (certIdCacheKey c) der c1"
    by (auto simp: respond_def answered_def Let_def split: sum.splits if_splits option.splits)
  then show ?thesis using c1 cache_from_set[OF c1 assms(3)] by cases auto
qed (use assms(2) in simp)

lemma leaf_run_signed:
  assumes "leaf_run lib enc events cache = (rs, cache')" "i < length rs" "rs ! i = Inr (der, True)"
    and "cache_from Q cache"
    and "\<And>d c b. d \<in> fst ` set events \<Longrightarrow> answered lib enc d c b \<Longrightarrow> Q d c b"
  shows "\<exists>c d. ol_parseRequest lib (snd (events ! i)) = Some [c]
    \<and> issuerMatches (lf_issuerTargets (fst (events ! i))) c
    \<and> (Q d c der \<and> lf_readAt (fst (events ! i)) < lf_storedAt d + lf_validityMs d
       \<or> answered lib enc (fst (events ! i)) c der)"
  using assms
proof (induction events arbitrary: cache rs i)
  case (Cons e events)
  obtain deps req where e: "e = (deps, req)" by fastforce
  obtain r c1 where step: "respond lib enc deps req cache = (r, c1)" by fastforce
  obtain rs1 where run: "leaf_run lib enc events c1 = (rs1, cache')" and rs: "rs = r # rs1"
    using Cons.prems(1) step e by (auto split: prod.splits)
  have Q: "Q d c b" if "d \<in> fst ` set (e # events)" "answered lib enc d c b" for d c b
    using Cons.prems(5) that by blast
  have c1: "cache_from Q c1" by (rule respond_cache[OF step Cons.prems(4)]) (use Q e in simp)
  show ?case
  proof (cases i)
    case 0
    with Cons.prems(3) rs have "r = Inr (der, True)" by simp
    from respond_signed[OF step[unfolded this] Cons.prems(4)] show ?thesis
      unfolding 0 e nth_Cons_0 fst_conv snd_conv by metis
  next
    case (Suc j)
    have "\<exists>c d. ol_parseRequest lib (snd (events ! j)) = Some [c]
      \<and> issuerMatches (lf_issuerTargets (fst (events ! j))) c
      \<and> (Q d c der \<and> lf_readAt (fst (events ! j)) < lf_storedAt d + lf_validityMs d
         \<or> answered lib enc (fst (events ! j)) c der)"
      by (rule Cons.IH[OF run _ _ c1]) (use Cons.prems(2,3) rs Suc Q in auto)
    then show ?thesis by (simp add: Suc)
  qed
qed simp

lemma leaf_run_length: "leaf_run lib enc events cache = (rs, cache') \<Longrightarrow> length rs = length events"
  by (induction events arbitrary: rs cache) (auto split: prod.splits)

lemma leaf_run_Cons:
  "leaf_run lib enc ((deps, der) # events) cache = (rs, cache')
     \<longleftrightarrow> (\<exists>r c rs1. respond lib enc deps der cache = (r, c) \<and> leaf_run lib enc events c = (rs1, cache')
            \<and> rs = r # rs1)"
  by (auto split: prod.splits)

lemma leaf_run_take:
  "leaf_run lib enc events cache = (rs, cache')
     \<Longrightarrow> \<exists>c. leaf_run lib enc (take n events) cache = (take n rs, c)"
proof (induction events arbitrary: rs cache n)
  case (Cons e events)
  obtain deps der where e: "e = (deps, der)" by fastforce
  with Cons.prems obtain r c rs1 where st: "respond lib enc deps der cache = (r, c)"
    "leaf_run lib enc events c = (rs1, cache')" "rs = r # rs1"
    by (auto simp: leaf_run_Cons simp del: leaf_run.simps)
  show ?case
  proof (cases n)
    case (Suc m)
    from Cons.IH[OF st(2), of m] obtain c2 where "leaf_run lib enc (take m events) c = (take m rs1, c2)" ..
    with st e Suc show ?thesis by simp
  qed simp
qed simp

text \<open>C24. Every signed answer the live responder gives is about the one certificate the request asks
  for, issued by the intermediate, and states what the ledger said of its serial when it was signed:
  in this very request, or in an earlier one of the run stored less than the validity before, for the
  same certificate identifier.  A revocation is therefore visible within the validity of its
  recording.\<close>

theorem leaf_answers_fresh:
  assumes "leaf_run lib enc events [] = (rs, cache)" "i < length rs" "rs ! i = Inr (der, True)"
  shows "\<exists>c d. ol_parseRequest lib (snd (events ! i)) = Some [c]
    \<and> issuerMatches (lf_issuerTargets (fst (events ! i))) c
    \<and> d \<in> fst ` set (take (Suc i) events) \<and> answered lib enc d c der
    \<and> (d = fst (events ! i) \<or> lf_readAt (fst (events ! i)) < lf_storedAt d + lf_validityMs d)"
proof -
  let ?past = "take (Suc i) events"
  have i: "i < length events" using assms(1,2) leaf_run_length by metis
  obtain cache' where run: "leaf_run lib enc ?past [] = (take (Suc i) rs, cache')"
    using leaf_run_take[OF assms(1), of "Suc i"] by blast
  let ?Q = "\<lambda>d c b. d \<in> fst ` set ?past \<and> answered lib enc d c b"
  have "cache_from ?Q []" by (simp add: cache_from_def)
  from leaf_run_signed[OF run _ _ this, of i der] assms(2,3) obtain c d where
    "ol_parseRequest lib (snd (?past ! i)) = Some [c]" "issuerMatches (lf_issuerTargets (fst (?past ! i))) c"
    "?Q d c der \<and> lf_readAt (fst (?past ! i)) < lf_storedAt d + lf_validityMs d
     \<or> answered lib enc (fst (?past ! i)) c der"
    by auto
  moreover have "?past ! i = events ! i" by simp
  moreover have "fst (events ! i) \<in> fst ` set ?past"
    using i by (simp add: take_Suc_conv_app_nth)
  ultimately show ?thesis unfolding \<open>?past ! i = events ! i\<close> by blast
qed

text \<open>An instance: two requests about one leaf, the second answered from the cache.  The clock moves on
  between the date of a response and its storage, so the cached copy is still served half a second
  after the \<open>nextUpdate\<close> it carries.\<close>

definition ex_status_cert :: status_cert where
  "ex_status_cert = \<lparr>sc_issuerDer = [1], sc_subjectDer = [2], sc_keyBits = [3], sc_serial = [4],
     sc_tbsView = [1, 2, 3, 4], sc_commonName = None\<rparr>"

definition ex_ocsp :: ocsp_lib where
  "ex_ocsp = \<lparr>ol_parseCertDer = (\<lambda>der. Inr ex_status_cert),
     ol_parseRequest = (\<lambda>der. Some [\<lparr>ci_hashOid = OID_SHA1, ci_issuerNameHash = [2], ci_issuerKeyHash = [3],
       ci_serialNumber = der\<rparr>]), ol_digest = (\<lambda>alg bs. bs)\<rparr>"

definition ex_encoder :: ocsp_encoder where
  "ex_encoder = \<lparr>oe_tbs = (\<lambda>d. []), oe_response = (\<lambda>d sig r. of_nat (status_tag (rs_certStatus d)) # sig)\<rparr>"

definition ex_leaf_deps :: "int \<Rightarrow> int \<Rightarrow> int \<Rightarrow> leaf_deps" where
  "ex_leaf_deps readAt now storedAt =
    \<lparr>lf_issuerTargets = [\<lparr>ih_hashOid = OID_SHA1, ih_issuerNameHash = [2], ih_issuerKeyHash = [3]\<rparr>],
     lf_responderPem = [], lf_ledger = (\<lambda>s. Inr [None]), lf_signTbs = (\<lambda>tbs. Inr [9]),
     lf_validityMs = 3600000, lf_cacheSize = 8192, lf_readAt = readAt, lf_now = now, lf_storedAt = storedAt\<rparr>"

definition ex_leaf_events :: "leaf_event list" where
  "ex_leaf_events = [(ex_leaf_deps 0 999 1500, [5]), (ex_leaf_deps 3600500 3600500 3600500, [5])]"

lemma ex_leaf_run:
  "fst (leaf_run ex_ocsp ex_encoder ex_leaf_events []) = [Inr ([0, 9], True), Inr ([0, 9], True)]"
  by code_simp

lemma cached_past_next_update:
  "rs_nextUpdate (leaf_response ex_ocsp ex_status_cert (fst (ex_leaf_events ! 0)) c Status_good)
     < lf_readAt (fst (ex_leaf_events ! 1))"
  "fst (leaf_run ex_ocsp ex_encoder ex_leaf_events []) ! 1
     = fst (leaf_run ex_ocsp ex_encoder ex_leaf_events []) ! 0"
proof -
  show "rs_nextUpdate (leaf_response ex_ocsp ex_status_cert (fst (ex_leaf_events ! 0)) c Status_good)
     < lf_readAt (fst (ex_leaf_events ! 1))"
    by (simp add: leaf_response_def ex_leaf_events_def ex_leaf_deps_def Let_def)
  show "fst (leaf_run ex_ocsp ex_encoder ex_leaf_events []) ! 1
     = fst (leaf_run ex_ocsp ex_encoder ex_leaf_events []) ! 0"
    by (simp add: ex_leaf_run)
qed

theorem leaf_answers_fresh_witness:
  "\<exists>c d. ol_parseRequest ex_ocsp [5] = Some [c] \<and> d \<in> fst ` set ex_leaf_events
     \<and> answered ex_ocsp ex_encoder d c [0, 9]"
proof -
  obtain cache where run: "leaf_run ex_ocsp ex_encoder ex_leaf_events []
      = ([Inr ([0, 9], True), Inr ([0, 9], True)], cache)"
    using ex_leaf_run by (metis prod.collapse)
  have "snd (ex_leaf_events ! 1) = [5]" by (simp add: ex_leaf_events_def)
  then show ?thesis
    using leaf_answers_fresh[OF run, of 1 "[0, 9]"] by (auto dest: in_set_takeD)
qed

text \<open>A worker that asks for the status of the intermediate, and finds the pre-signed bytes.\<close>

definition ex_assets :: cert_assets where
  "ex_assets = \<lparr>as_rootPem = [], as_icaPem = []\<rparr>"

definition ex_status_request :: web_request where
  "ex_status_request = \<lparr>wq_method = ''POST'', wq_pathname = ''/'', wq_headers = (\<lambda>h. None), wq_body = [4]\<rparr>"

definition ex_ica_ocsp :: ocsp_lib where
  "ex_ica_ocsp = ex_ocsp\<lparr>ol_parseRequest := (\<lambda>der. Some [\<lparr>ci_hashOid = OID_SHA1, ci_issuerNameHash = [1],
     ci_issuerKeyHash = [3], ci_serialNumber = der\<rparr>])\<rparr>"

lemma ex_presigned:
  "map_option wr_body (case handleOcsp ex_ica_ocsp ex_assets (\<lambda>k. Some (utf8 k)) None ex_status_request of
     Inr r \<Rightarrow> Some r | Inl e \<Rightarrow> None) = Some (utf8 ''response:sha1'')"
  by code_simp

theorem ocsp_answers_only_ours_witness:
  "names_ica ex_ica_ocsp ex_assets \<lparr>ci_hashOid = OID_SHA1, ci_issuerNameHash = [1],
     ci_issuerKeyHash = [3], ci_serialNumber = [4]\<rparr>"
proof -
  obtain r where r: "handleOcsp ex_ica_ocsp ex_assets (\<lambda>k. Some (utf8 k)) None ex_status_request = Inr r"
    "wr_body r = utf8 ''response:sha1''"
    using ex_presigned by (auto split: sum.splits)
  have "asks_status ex_status_request" by (simp add: asks_status_def ex_status_request_def)
  moreover have "utf8 ''response:sha1'' \<notin> {OCSP_MALFORMED_REQUEST, OCSP_INTERNAL_ERROR, OCSP_UNAUTHORIZED}"
    by (simp add: utf8_def ocsp_errors)
  ultimately obtain der c where "ol_parseRequest ex_ica_ocsp der = Some [c]"
    "request_der ex_status_request = Some der" "names_ica ex_ica_ocsp ex_assets c"
    using ocsp_answers_only_ours[OF r(1)] r(2) by auto
  moreover from this(2) have "der = [4]"
    by (simp add: request_der_def ex_status_request_def split: if_splits)
  ultimately show ?thesis by (simp add: ex_ica_ocsp_def)
qed

end
