(* ===== verification/OcspWorker.thy ===== *)
theory OcspWorker
  imports OcspLeaf
begin

text \<open>
  The entry point of the OCSP worker, \<open>ocsp/index.ts\<close>: the environment bound to the router, and the hop to the live
  responder of \<open>ocsp-leaf/\<close>.  The bundled certificates, the key-value store and the network are parameters; the last
  part puts the responder itself on the other end of the network.
\<close>

section \<open>Header values\<close>

text \<open>\<open>fetch\<close> strips HTTP white space from a header value and refuses one with a line break, a null character or a
  character beyond U+00FF, whose first UTF-8 byte is at least 0xC4.\<close>

definition http_space :: "char \<Rightarrow> bool" where
  "http_space c = (c \<in> {CHR 0x09, CHR 0x0A, CHR 0x0D, CHR '' ''})"

definition http_trim :: "string \<Rightarrow> string" where
  "http_trim s = rev (dropWhile http_space (rev (dropWhile http_space s)))"

definition header_char :: "char \<Rightarrow> bool" where
  "header_char c = (c \<notin> {CHR 0x00, CHR 0x0A, CHR 0x0D} \<and> of_char c < (0xC4 :: nat))"

definition header_value :: "string \<Rightarrow> string + string" where
  "header_value s = (if list_all header_char (http_trim s) then Inr (http_trim s) else Inl ''TypeError'')"

lemma http_trim_eq:
  assumes "\<forall>c \<in> set s. http_space c = is_space c"
  shows "http_trim s = js_trim s"
proof -
  have "dropWhile http_space t = dropWhile is_space t" if "set t \<subseteq> set s" for t
    using that assms by (intro dropWhile_cong) auto
  moreover have "set (rev (dropWhile is_space s)) \<subseteq> set s" by (auto dest: set_dropWhileD)
  ultimately show ?thesis by (simp add: http_trim_def js_trim_def)
qed

section \<open>The environment\<close>

record worker_env =
  we_responses :: "string \<Rightarrow> bytes option"
  we_origin :: "string option"
  we_secret :: "string option"

text \<open>An empty string counts as unset, as in the code's conditions.\<close>

definition nonempty_str :: "string option \<Rightarrow> string option" where
  "nonempty_str v = (case v of Some [] \<Rightarrow> None | _ \<Rightarrow> v)"

definition relay_headers :: "string option \<Rightarrow> string option \<Rightarrow> (string \<times> string) list" where
  "relay_headers clientIp secret =
    (''content-type'', ''application/ocsp-request'')
    # (case nonempty_str clientIp of Some ip \<Rightarrow> [(''x-forwarded-for'', ip)] | None \<Rightarrow> [])
    @ (case nonempty_str secret of Some s \<Rightarrow> [(''x-realreel-relay-secret'', s)] | None \<Rightarrow> [])"

text \<open>The request that leaves for the origin; its path is the origin's own.\<close>

definition relay_request :: "string \<Rightarrow> string option \<Rightarrow> string option \<Rightarrow> bytes \<Rightarrow> string + web_request" where
  "relay_request path clientIp secret der =
    bindR (mapR (\<lambda>(k, v). bindR (header_value v) (\<lambda>w. Inr (k, w))) (relay_headers clientIp secret)) (\<lambda>hs.
    Inr \<lparr>wq_method = ''POST'', wq_pathname = path, wq_headers = map_of hs, wq_body = der\<rparr>)"

record worker_net =
  wn_path :: "string \<Rightarrow> string"
  wn_fetch :: "string \<Rightarrow> web_request \<Rightarrow> string + upstream"

definition leafForwarder :: "worker_net \<Rightarrow> worker_env \<Rightarrow> string option \<Rightarrow> leaf_forwarder option" where
  "leafForwarder net env clientIp =
    map_option (\<lambda>origin der.
        bindR (relay_request (wn_path net origin) clientIp (we_secret env) der) (wn_fetch net origin))
      (nonempty_str (we_origin env))"

definition SECRET_UNSET_WARNING :: string where
  "SECRET_UNSET_WARNING =
    ''[ocsp] LEAF_RESPONDER_ORIGIN is set but LEAF_RELAY_SECRET is not '' @ em_dash
    @ '' the origin will 403 every relayed request (`wrangler secret put LEAF_RELAY_SECRET`)''"

text \<open>One request: what is logged, and the answer.\<close>

definition workerFetch ::
  "ocsp_lib \<Rightarrow> cert_assets \<Rightarrow> worker_net \<Rightarrow> worker_env \<Rightarrow> web_request \<Rightarrow> string list \<times> (string + web_response)"
where
  "workerFetch lib assets net env req =
    ((if nonempty_str (we_origin env) \<noteq> None \<and> nonempty_str (we_secret env) = None then [SECRET_UNSET_WARNING] else []),
     handleOcsp lib assets (we_responses env)
       (leafForwarder net env (wq_headers req ''cf-connecting-ip'')) req)"

section \<open>The responder on the other end\<close>

text \<open>What the relay reads of the responder's answer.\<close>

definition relay_view :: "web_response \<Rightarrow> upstream" where
  "relay_view r =
    \<lparr>up_status = wr_status r, up_contentType = map_of (wr_headers r) ''content-type'',
     up_cacheControl = map_of (wr_headers r) ''cache-control'', up_body = wr_body r\<rparr>"

definition responder_net ::
  "ocsp_lib \<Rightarrow> ocsp_encoder \<Rightarrow> leaf_deps \<Rightarrow> string \<Rightarrow> response_cache \<Rightarrow> worker_net"
where
  "responder_net lib enc deps relaySecret cache =
    \<lparr>wn_path = (\<lambda>origin. ''/''),
     wn_fetch = (\<lambda>origin req. Inr (relay_view (fst (handleLeaf lib enc deps relaySecret req cache))))\<rparr>"

text \<open>The body the responder gives for a request it accepts.\<close>

definition leaf_body :: "ocsp_lib \<Rightarrow> ocsp_encoder \<Rightarrow> leaf_deps \<Rightarrow> response_cache \<Rightarrow> bytes \<Rightarrow> bytes" where
  "leaf_body lib enc deps cache der =
    (case fst (respond lib enc deps der cache) of Inr (b, _) \<Rightarrow> b | Inl e \<Rightarrow> OCSP_INTERNAL_ERROR)"

section \<open>The two services together\<close>

text \<open>The secrets bound on the two sides agree: the worker's arrives as the responder's without its outer white space.\<close>

definition secrets_agree :: "string option \<Rightarrow> string \<Rightarrow> bool" where
  "secrets_agree workerSecret relaySecret =
    (case nonempty_str workerSecret of
       None \<Rightarrow> False
     | Some s \<Rightarrow> js_trim relaySecret \<noteq> [] \<and> header_value s = Inr (js_trim relaySecret))"

lemma header_value_Inr: "header_value s = Inr t \<longleftrightarrow> t = http_trim s \<and> list_all header_char t"
  by (auto simp: header_value_def)

lemma nonempty_str_Some: "nonempty_str v = Some s \<longleftrightarrow> v = Some s \<and> s \<noteq> []"
  by (auto simp: nonempty_str_def split: option.splits list.splits)

lemma header_value_const [simp]: "header_value ''application/ocsp-request'' = Inr ''application/ocsp-request''"
  by code_simp

lemma relay_request_secret:
  assumes "relay_request path clientIp secret der = Inr req"
  shows "wq_method req = ''POST'' \<and> wq_body req = der
    \<and> wq_headers req ''x-realreel-relay-secret'' = map_option http_trim (nonempty_str secret)"
  using assms
  by (auto simp: relay_request_def relay_headers_def header_value_Inr split: option.splits)

lemma relay_request_fails:
  assumes "\<forall>ip. nonempty_str clientIp = Some ip \<longrightarrow> isl (header_value ip) = False"
    and "relay_request path clientIp secret der = Inl e"
  shows "\<exists>s. nonempty_str secret = Some s \<and> isl (header_value s)"
  using assms
  by (auto simp: relay_request_def relay_headers_def bindR_Inl_iff isl_def split: option.splits)

lemma media_type_ocsp [simp]: "media_type (Some OCSP_CONTENT_TYPE) = OCSP_CONTENT_TYPE"
  by code_simp

lemma responder_answer:
  assumes "wq_method req = ''POST''" "wq_body req = der" "der \<noteq> []" "length der \<le> 8192"
  shows "wr_body (relayLeaf der' (\<lambda>_. Inr (relay_view (fst (handleLeaf lib enc deps secret req cache))))) =
    (if relayAuthorized req secret then leaf_body lib enc deps cache der else OCSP_INTERNAL_ERROR)"
  using assms
  by (auto simp: relayLeaf_body handleLeaf_def readRequestDer_def MAX_REQUEST_BYTES_def relay_view_def
      good_upstream_def ocspHttpResponse_def plain_response_def leaf_body_def split: sum.splits prod.splits)

lemma utf8_empty [simp]: "utf8 s = [] \<longleftrightarrow> s = []"
  by (simp add: utf8_def)

lemma relay_authorized_iff:
  assumes "relay_request path clientIp secret der = Inr req"
  shows "relayAuthorized req relaySecret \<longleftrightarrow> secrets_agree secret relaySecret"
proof -
  have "nonempty_str secret = Some s \<Longrightarrow> header_value s = Inr (http_trim s)" for s
    using assms by (auto simp: relay_request_def relay_headers_def header_value_Inr split: option.splits)
  then show ?thesis
    using relay_request_secret[OF assms]
    by (auto simp: relayAuthorized_def secrets_agree_def Let_def header_value_Inr split: option.splits)
qed

lemma same_secret_agrees:
  assumes "js_trim s \<noteq> []" "\<forall>c \<in> set s. http_space c = is_space c" "list_all header_char (js_trim s)"
  shows "secrets_agree (Some s) s"
proof -
  have "s \<noteq> []" using assms(1) by (auto simp: js_trim_def)
  with assms http_trim_eq[OF assms(2)] show ?thesis
    by (simp add: secrets_agree_def nonempty_str_Some[THEN iffD2] header_value_def)
qed

text \<open>C25. A client that asks the worker about a leaf of the intermediate receives, with a responder configured, exactly
  what the responder answers to the same bytes - the signed word of the ledger, or its refusal - if the two sides hold
  the same relay secret, and an unsigned internal error otherwise; a wrong or missing secret never turns into a
  status.\<close>

theorem relayed_answer_exact:
  assumes "asks_status req" "wq_method req \<noteq> ''HEAD''" "request_der req = Some der" "der \<noteq> []" "length der \<le> 8192"
    and "ol_parseRequest lib der = Some [c]" "issued_by_ica lib assets c" "\<not> names_ica lib assets c"
    and "parseCert lib (as_rootPem assets) = Inr root"
    and "nonempty_str (we_origin env) = Some origin"
    and "\<forall>ip. nonempty_str (wq_headers req ''cf-connecting-ip'') = Some ip \<longrightarrow> \<not> isl (header_value ip)"
  shows "\<exists>r. snd (workerFetch lib assets (responder_net lib enc deps relaySecret cache) env req) = Inr r
    \<and> wr_body r = (if secrets_agree (we_secret env) relaySecret then leaf_body lib enc deps cache der
                  else OCSP_INTERNAL_ERROR)"
proof -
  let ?net = "responder_net lib enc deps relaySecret cache" and ?ip = "wq_headers req ''cf-connecting-ip''"
  let ?out = "relay_request ''/'' ?ip (we_secret env) der"
  obtain f where f: "leafForwarder ?net env ?ip = Some f" and fd: "f der = bindR ?out (wn_fetch ?net origin)"
    using assms(10) by (simp add: leafForwarder_def responder_net_def)
  from leaf_never_disowned[OF assms(1-3,5-9) f] obtain r where
    r: "snd (workerFetch lib assets ?net env req) = Inr r" and
    b: "wr_body r = wr_body (relayLeaf der f)"
    by (auto simp: workerFetch_def relayLeaf_body f)
  have "wr_body (relayLeaf der f) =
    (if secrets_agree (we_secret env) relaySecret then leaf_body lib enc deps cache der else OCSP_INTERNAL_ERROR)"
  proof (cases ?out)
    case (Inl e)
    with relay_request_fails[OF _ Inl] assms(11) have "\<not> secrets_agree (we_secret env) relaySecret"
      by (auto simp: secrets_agree_def isl_def split: option.splits)
    with Inl fd show ?thesis by (simp add: relayLeaf_body)
  next
    case (Inr out)
    with fd have "f der = Inr (relay_view (fst (handleLeaf lib enc deps relaySecret out cache)))"
      by (simp add: responder_net_def)
    with responder_answer[of out der] relay_request_secret[OF Inr] relay_authorized_iff[OF Inr] assms(4,5)
    show ?thesis by (simp add: relayLeaf_body)
  qed
  with r b show ?thesis by simp
qed

text \<open>An instance: the worker's secret was stored with the newline of a shell command.\<close>

definition ex_worker_env :: worker_env where
  "ex_worker_env =
    \<lparr>we_responses = (\<lambda>k. None), we_origin = Some ''https://leaf.example'', we_secret = Some [CHR ''k'', CHR 0x0A]\<rparr>"

lemma ex_leaf_body: "leaf_body ex_ocsp ex_encoder (ex_leaf_deps 0 999 1500) [] [4] = [0, 9]"
  by code_simp

theorem relayed_answer_exact_witness:
  "\<exists>r. snd (workerFetch ex_ocsp ex_assets
      (responder_net ex_ocsp ex_encoder (ex_leaf_deps 0 999 1500) ''k'' []) ex_worker_env ex_status_request) = Inr r
    \<and> wr_body r = [0, 9]"
proof -
  have req: "asks_status ex_status_request" "wq_method ex_status_request \<noteq> ''HEAD''"
    "request_der ex_status_request = Some [4]"
    by code_simp+
  have p: "parseCert ex_ocsp [] = Inr ex_status_cert"
    by code_simp
  let ?c = "\<lparr>ci_hashOid = OID_SHA1, ci_issuerNameHash = [2], ci_issuerKeyHash = [3], ci_serialNumber = [4]\<rparr>"
  have c: "ol_parseRequest ex_ocsp [4] = Some [?c]"
    by (simp add: ex_ocsp_def)
  have "(OID_SHA1, ''SHA-1'') \<in> set LEAF_WEBCRYPTO_BY_HASH_OID"
    by code_simp
  then have i: "issued_by_ica ex_ocsp ex_assets ?c"
    using p by (auto simp: issued_by_ica_def ex_assets_def ex_ocsp_def ex_status_cert_def)
  have n: "\<not> names_ica ex_ocsp ex_assets ?c"
    using p by (auto simp: names_ica_def ex_assets_def ex_ocsp_def ex_status_cert_def)
  have s: "secrets_agree (we_secret ex_worker_env) ''k''"
    by code_simp
  have o: "nonempty_str (we_origin ex_worker_env) = Some ''https://leaf.example''"
    by code_simp
  have r: "parseCert ex_ocsp (as_rootPem ex_assets) = Inr ex_status_cert"
    using p by (simp add: ex_assets_def)
  have ip: "\<forall>ip. nonempty_str (wq_headers ex_status_request ''cf-connecting-ip'') = Some ip \<longrightarrow> \<not> isl (header_value ip)"
    by (simp add: ex_status_request_def nonempty_str_def)
  from relayed_answer_exact[where enc = ex_encoder and deps = "ex_leaf_deps 0 999 1500" and relaySecret = "''k''"
      and cache = "[]", OF req _ _ c i n r o ip] s
  show ?thesis by (simp add: ex_leaf_body)
qed

end
