(* ===== verification/AnchorAudit.thy ===== *)
theory AnchorAudit
  imports Json Dates "HOL-Library.Product_Lexorder" "HOL-Library.Multiset"
begin

text \<open>
  The expiry audit of the trust anchors, \<open>verifier/scripts/audit-trust-anchors.ts\<close>: the certificate reader
  over the text openssl prints, the audit, its report and the command.  Running openssl, \<open>Date.parse\<close> and the
  YAML parser are parameters.
\<close>

section \<open>Thresholds\<close>

datatype audit_status = Status_ok | Status_warn | Status_crit | Status_error

fun status_text :: "audit_status \<Rightarrow> string" where
  "status_text Status_ok = ''OK''"
| "status_text Status_warn = ''WARN''"
| "status_text Status_crit = ''CRIT''"
| "status_text Status_error = ''ERROR''"

text \<open>\<open>Math.floor((t - now) / MS_PER_DAY)\<close>, and where it falls.\<close>

definition days_until :: "int \<Rightarrow> int \<Rightarrow> int" where
  "days_until now t = (t - now) div MS_PER_DAY"

definition expiry_status :: "int \<Rightarrow> int \<Rightarrow> int \<Rightarrow> audit_status" where
  "expiry_status warn crit days = (if days < crit then Status_crit else if days < warn then Status_warn else Status_ok)"

definition worst_exit :: "audit_status list \<Rightarrow> nat" where
  "worst_exit ss =
    (if list_ex (\<lambda>s. s = Status_crit \<or> s = Status_error) ss then 2
     else if list_ex (\<lambda>s. s = Status_warn) ss then 1 else 0)"

lemma status_exhaust: "s = Status_ok \<or> s = Status_warn \<or> s = Status_crit \<or> s = Status_error"
  by (cases s) simp_all

lemma worst_exit_2: "worst_exit ss = 2 \<longleftrightarrow> (\<exists>s \<in> set ss. s = Status_crit \<or> s = Status_error)"
  by (auto simp: worst_exit_def list_ex_iff)

lemma worst_exit_0: "worst_exit ss = 0 \<longleftrightarrow> (\<forall>s \<in> set ss. s = Status_ok)"
  using status_exhaust by (auto simp: worst_exit_def list_ex_iff)

lemma worst_exit_1:
  "worst_exit ss = 1 \<longleftrightarrow> Status_warn \<in> set ss \<and> (\<forall>s \<in> set ss. s = Status_ok \<or> s = Status_warn)"
  using status_exhaust by (auto simp: worst_exit_def list_ex_iff)

lemma worst_exit_bound: "worst_exit ss \<le> 2"
  by (simp add: worst_exit_def)

text \<open>Whole days left are at least a threshold exactly when the time left is.\<close>

lemma days_until_at_least: "n \<le> days_until now t \<longleftrightarrow> now + n * MS_PER_DAY \<le> t"
proof
  assume "n \<le> days_until now t"
  then have "n * MS_PER_DAY \<le> (t - now) div MS_PER_DAY * MS_PER_DAY"
    by (simp add: days_until_def MS_PER_DAY_def)
  also have "\<dots> \<le> t - now" by (simp add: MS_PER_DAY_def)
  finally show "now + n * MS_PER_DAY \<le> t" by simp
next
  assume "now + n * MS_PER_DAY \<le> t"
  then have "n * MS_PER_DAY div MS_PER_DAY \<le> (t - now) div MS_PER_DAY"
    by (intro zdiv_mono1) (simp_all add: MS_PER_DAY_def)
  then show "n \<le> days_until now t" by (simp add: days_until_def MS_PER_DAY_def)
qed

lemma expiry_status_ok:
  "crit \<le> warn \<Longrightarrow> expiry_status warn crit (days_until now t) = Status_ok \<longleftrightarrow> now + warn * MS_PER_DAY \<le> t"
  by (auto simp: expiry_status_def days_until_at_least[symmetric])

text \<open>The strict parse of an environment variable.\<close>

definition parsePositiveInt :: "string option \<Rightarrow> int \<Rightarrow> string + int" where
  "parsePositiveInt value defaultValue =
    (case value of
       None \<Rightarrow> Inr defaultValue
     | Some v \<Rightarrow>
         if v = [] then Inr defaultValue
         else if \<not> list_all is_digit v then Inl ''must be a positive integer''
         else let parsed = int (parse_digits 0 v) in
           if parsed < 1 then Inl ''must be a positive integer'' else Inr parsed)"

lemma parsePositiveInt_pos: "parsePositiveInt v d = Inr n \<Longrightarrow> 1 \<le> d \<Longrightarrow> 1 \<le> n"
  by (auto simp: parsePositiveInt_def Let_def split: option.splits if_splits)

section \<open>The audit\<close>

record anchor_source =
  an_id :: string
  an_root_cert :: string
  an_warnDays :: "int option"
  an_critDays :: "int option"
  an_selfSigned :: "bool option"

definition OPERATIONAL_CERTS :: "anchor_source list" where
  "OPERATIONAL_CERTS =
    [\<lparr>an_id = ''realreel-ica'', an_root_cert = ''trust-sources/realreel/realreel-claim-signing-ca.pem'',
      an_warnDays = None, an_critDays = None, an_selfSigned = Some False\<rparr>,
     \<lparr>an_id = ''realreel-ocsp-responder'', an_root_cert = ''trust-sources/realreel/realreel-ocsp-responder-1.pem'',
      an_warnDays = Some 60, an_critDays = Some 21, an_selfSigned = Some False\<rparr>,
     \<lparr>an_id = ''realreel-leaf-ocsp-responder'', an_root_cert = ''trust-sources/realreel/realreel-leaf-ocsp-responder-1.pem'',
      an_warnDays = Some 60, an_critDays = Some 21, an_selfSigned = Some False\<rparr>]"

record anchor_info =
  ai_subjectCn :: string
  ai_notAfter :: int

record audit_row =
  au_id :: string
  au_subjectCn :: string
  au_notAfter :: "int option"
  au_days :: "int option"
  au_status :: audit_status
  au_error :: "string option"
  au_overrides :: "(int \<times> int) option"

record audit_result =
  ar_rows :: "audit_row list"
  ar_exitCode :: nat
  ar_warnDays :: int
  ar_critDays :: int
  ar_now :: int

definition audit_source :: "int \<Rightarrow> int \<Rightarrow> int \<Rightarrow> (anchor_source \<Rightarrow> string + anchor_info) \<Rightarrow> anchor_source \<Rightarrow> audit_row" where
  "audit_source warnDays critDays now getCertInfo src =
    (let warn = null_or (an_warnDays src) warnDays; crit = null_or (an_critDays src) critDays in
     (case getCertInfo src of
        Inr info \<Rightarrow>
          (let days = days_until now (ai_notAfter info) in
           \<lparr>au_id = an_id src, au_subjectCn = ai_subjectCn info, au_notAfter = Some (ai_notAfter info), au_days = Some days,
            au_status = expiry_status warn crit days, au_error = None,
            au_overrides = (if an_warnDays src \<noteq> None \<or> an_critDays src \<noteq> None then Some (warn, crit) else None)\<rparr>)
      | Inl e \<Rightarrow>
          \<lparr>au_id = an_id src, au_subjectCn = ''(unreadable)'', au_notAfter = None, au_days = None,
           au_status = Status_error, au_error = Some e, au_overrides = None\<rparr>))"

text \<open>The order of the report: unreadable rows first, then by days.  \<open>Array.prototype.sort\<close> is stable.\<close>

definition row_rank :: "audit_row \<Rightarrow> bool \<times> int" where
  "row_rank r = (au_status r \<noteq> Status_error, null_or (au_days r) 0)"

definition auditAnchors ::
  "anchor_source list \<Rightarrow> int \<Rightarrow> int \<Rightarrow> int \<Rightarrow> (anchor_source \<Rightarrow> string + anchor_info) \<Rightarrow> audit_result"
where
  "auditAnchors sources warnDays critDays now getCertInfo =
    (let rows = sort_key row_rank (map (audit_source warnDays critDays now getCertInfo) sources) in
     \<lparr>ar_rows = rows, ar_exitCode = worst_exit (map au_status rows), ar_warnDays = warnDays, ar_critDays = critDays,
      ar_now = now\<rparr>)"

section \<open>Reading what openssl prints\<close>

text \<open>\<open>\s*([^sep]+)\<close> at a position: greedy white space, given back from its end when nothing else is left to
  capture.\<close>

definition captured :: "(char \<Rightarrow> bool) \<Rightarrow> string \<Rightarrow> string option" where
  "captured sep s =
    (let t = takeWhile (\<lambda>c. \<not> sep c) (dropWhile is_space s);
         ws = filter (\<lambda>c. \<not> sep c) (takeWhile is_space s) in
     if t \<noteq> [] then Some t else if ws = [] then None else Some [last ws])"

text \<open>\<open>key\s*=\s*([^sep]+)\<close> at a position.\<close>

definition field_here :: "string \<Rightarrow> (char \<Rightarrow> bool) \<Rightarrow> string \<Rightarrow> string option" where
  "field_here key sep s =
    (if \<not> starts_with key s then None
     else (case dropWhile is_space (drop (length key) s) of
        [] \<Rightarrow> None | c # r \<Rightarrow> if c = CHR ''='' then captured sep r else None))"

text \<open>The first match, at any position or (with \<open>^\<close> and the flag \<open>m\<close>) at the start of a line.\<close>

fun find_field :: "bool \<Rightarrow> bool \<Rightarrow> string \<Rightarrow> (char \<Rightarrow> bool) \<Rightarrow> string \<Rightarrow> string option" where
  "find_field lineStart anchored key sep [] = None"
| "find_field lineStart anchored key sep (c # cs) =
     (case (if anchored \<and> \<not> lineStart then None else field_here key sep (c # cs)) of
        Some t \<Rightarrow> Some t
      | None \<Rightarrow> find_field (c = CHR 0x0A \<or> c = CHR 0x0D) anchored key sep cs)"

definition end_of_line :: "char \<Rightarrow> bool" where
  "end_of_line c = (c = CHR 0x0A \<or> c = CHR 0x0D)"

text \<open>\<open>replace(/\s+/g, " ")\<close>.\<close>

fun collapse_spaces :: "bool \<Rightarrow> string \<Rightarrow> string" where
  "collapse_spaces inRun [] = []"
| "collapse_spaces inRun (c # cs) =
     (if is_space c then (if inRun then [] else '' '') @ collapse_spaces True cs else c # collapse_spaces False cs)"

definition makeOpensslCertReader ::
  "(string \<Rightarrow> string + string) \<Rightarrow> (string \<Rightarrow> int option) \<Rightarrow> anchor_source \<Rightarrow> string + anchor_info"
where
  "makeOpensslCertReader openssl parse_date src =
    bindR (openssl (an_root_cert src)) (\<lambda>stdout.
    bindR (derefR (''openssl output unparseable for '' @ an_id src)
      (case (find_field True False ''notAfter'' end_of_line stdout, find_field True True ''subject'' end_of_line stdout,
             find_field True True ''issuer'' end_of_line stdout) of
         (Some na, Some su, Some iss) \<Rightarrow> Some (na, su, iss) | _ \<Rightarrow> None)) (\<lambda>(na, su, iss).
    let subjectDn = js_trim su; issuerDn = js_trim iss in
    bindR (guardR (\<not> (null_or (an_selfSigned src) True \<and> subjectDn \<noteq> issuerDn))
      (an_id src @ '' is not a self-signed root cert (subject=\"'' @ subjectDn @ ''\" issuer=\"'' @ issuerDn @ ''\")'')) (\<lambda>_.
    bindR (derefR (''no CN in subject DN for '' @ an_id src @ '': '' @ subjectDn)
      (find_field True False ''CN'' (\<lambda>c. c = CHR '','' \<or> c = CHR 0x0A) subjectDn)) (\<lambda>cn.
    let dateStr = js_trim (collapse_spaces False na) in
    bindR (derefR (''unparseable notAfter for '' @ an_id src @ '': '' @ dateStr) (parse_date dateStr)) (\<lambda>t.
      Inr \<lparr>ai_subjectCn = js_trim cn, ai_notAfter = t\<rparr>)))))"

section \<open>The report\<close>

definition padEnd :: "nat \<Rightarrow> string \<Rightarrow> string" where
  "padEnd n s = s @ replicate (n - length s) (CHR '' '')"

definition padStart :: "nat \<Rightarrow> string \<Rightarrow> string" where
  "padStart n s = replicate (n - length s) (CHR '' '') @ s"

definition dashes :: "nat \<Rightarrow> string" where
  "dashes n = replicate n (CHR ''-'')"

definition iso_seconds :: "int \<Rightarrow> string" where
  "iso_seconds t = (let s = iso_string t in take (length s - 5) s @ ''Z'')"

definition runbook :: string where
  "runbook = ''; see verifier/OPERATIONS.md '' @ [CHR 0xC2, CHR 0xA7] @ '' trust-anchor rotation.''"

definition table_line :: "nat \<Rightarrow> nat \<Rightarrow> string \<Rightarrow> string \<Rightarrow> string \<Rightarrow> string \<Rightarrow> string \<Rightarrow> string" where
  "table_line idW cnW ident cn na days status =
    padEnd idW ident @ ''  '' @ padEnd cnW cn @ ''  '' @ padEnd 20 na @ ''  '' @ padStart 5 days @ ''  '' @ status"

definition row_line :: "nat \<Rightarrow> nat \<Rightarrow> audit_row \<Rightarrow> string" where
  "row_line idW cnW r =
    table_line idW cnW (au_id r) (au_subjectCn r)
      (case au_notAfter r of None \<Rightarrow> ''(n/a)'' | Some t \<Rightarrow> iso_seconds t)
      (case au_days r of None \<Rightarrow> ''n/a'' | Some d \<Rightarrow> show_int d)
      (case au_overrides r of
         None \<Rightarrow> status_text (au_status r)
       | Some (w, c) \<Rightarrow> status_text (au_status r) @ '' (warn <'' @ show_int w @ ''d, crit <'' @ show_int c @ ''d)'')"

definition with_status :: "audit_status \<Rightarrow> audit_row list \<Rightarrow> audit_row list" where
  "with_status s rows = filter (\<lambda>r. au_status r = s) rows"

definition summary_line :: "audit_row list \<Rightarrow> nat \<Rightarrow> string" where
  "summary_line rows exitCode =
    (let crits = with_status Status_crit rows; errors = with_status Status_error rows; warns = with_status Status_warn rows;
         days = (\<lambda>r. case au_days r of None \<Rightarrow> ''null'' | Some d \<Rightarrow> show_int d);
         plural = (if length warns = 1 then '''' else ''s'') in
     if exitCode = 0 then ''OK: all '' @ show_nat (length rows) @ '' trust anchors within validity windows.''
     else if exitCode = 1 then
       ''WARN: '' @ show_nat (length warns) @ '' warning'' @ plural @ '' ('' @ au_id (hd warns) @ '': '' @ days (hd warns)
         @ '' days). Plan rotation'' @ runbook
     else ''FAIL: '' @ join_with '', ''
         ((if crits \<noteq> [] then [show_nat (length crits) @ '' CRITICAL ('' @ au_id (hd crits) @ '': '' @ days (hd crits) @ '' days)''] else [])
          @ (if errors \<noteq> [] then [show_nat (length errors) @ '' ERROR ('' @ au_id (hd errors) @ '': '' @ null_or (au_error (hd errors)) ''undefined'' @ '')''] else [])
          @ (if warns \<noteq> [] then [show_nat (length warns) @ '' warning'' @ plural] else []))
         @ ''. Rotate now'' @ runbook)"

definition renderAudit :: "audit_result \<Rightarrow> string" where
  "renderAudit result =
    (let rows = ar_rows result;
         idW = foldr max (map (\<lambda>r. length (au_id r)) rows) (length ''id'');
         cnW = foldr max (map (\<lambda>r. length (au_subjectCn r)) rows) (length ''subject CN'') in
     join_with [CHR 0x0A]
       ([''Trust anchor expiry audit (warn at <'' @ show_int (ar_warnDays result) @ ''d, crit at <''
           @ show_int (ar_critDays result) @ ''d)'',
         ''Now: '' @ iso_string (ar_now result), '''',
         table_line idW cnW ''id'' ''subject CN'' ''notAfter'' ''days'' ''status'',
         table_line idW cnW (dashes idW) (dashes cnW) (dashes 20) (dashes 5) ''------'']
        @ map (row_line idW cnW) rows @ ['''', summary_line rows (ar_exitCode result)]))"

section \<open>The command\<close>

text \<open>An entry of \<open>trust-sources.yaml\<close>: only its two known fields are kept.  An entry, or a list of entries, of
  another shape ends the command with 2, by the check or by a TypeError.\<close>

definition anchor_of :: "jsval \<Rightarrow> anchor_source option" where
  "anchor_of v =
    (case (as_nonempty_str (obj_get v ''id''), as_nonempty_str (obj_get v ''root_cert'')) of
       (Some i, Some p) \<Rightarrow>
         Some \<lparr>an_id = i, an_root_cert = p, an_warnDays = None, an_critDays = None, an_selfSigned = None\<rparr>
     | _ \<Rightarrow> None)"

definition yaml_anchors :: "jsval \<Rightarrow> anchor_source list option" where
  "yaml_anchors parsed =
    (if is_nullish parsed then None
     else case obj_get parsed ''sources'' of
       JArr vs \<Rightarrow> those (map anchor_of vs)
     | JUndef \<Rightarrow> Some [] | JNull \<Rightarrow> Some []
     | _ \<Rightarrow> None)"

text \<open>The exit code, and the report when one is printed.\<close>

definition anchor_audit_main ::
  "string option \<Rightarrow> string option \<Rightarrow> string + jsval \<Rightarrow> (string \<Rightarrow> string + string) \<Rightarrow> (string \<Rightarrow> int option) \<Rightarrow> int
     \<Rightarrow> nat \<times> string option"
where
  "anchor_audit_main warnEnv critEnv yaml openssl parse_date now =
    (case (parsePositiveInt warnEnv 365, parsePositiveInt critEnv 90) of
       (Inr warnDays, Inr critDays) \<Rightarrow>
         if warnDays < critDays then (2, None)
         else (case yaml of
           Inl _ \<Rightarrow> (2, None)
         | Inr parsed \<Rightarrow> (case yaml_anchors parsed of
             None \<Rightarrow> (2, None)
           | Some anchors \<Rightarrow>
               let result = auditAnchors (anchors @ OPERATIONAL_CERTS) warnDays critDays now
                     (makeOpensslCertReader openssl parse_date) in
               (ar_exitCode result, Some (renderAudit result))))
     | _ \<Rightarrow> (2, None))"

section \<open>What the audit says\<close>

definition warn_of :: "int \<Rightarrow> anchor_source \<Rightarrow> int" where
  "warn_of w src = null_or (an_warnDays src) w"

definition crit_of :: "int \<Rightarrow> anchor_source \<Rightarrow> int" where
  "crit_of c src = null_or (an_critDays src) c"

lemma audit_source_status:
  "au_status (audit_source w c now get src) =
    (case get src of Inl _ \<Rightarrow> Status_error
     | Inr info \<Rightarrow> expiry_status (warn_of w src) (crit_of c src) (days_until now (ai_notAfter info)))"
  by (simp add: audit_source_def Let_def warn_of_def crit_of_def split: sum.splits)

lemma set_statuses:
  "set (map au_status (ar_rows (auditAnchors sources w c now get))) = (\<lambda>s. au_status (audit_source w c now get s)) ` set sources"
  by (simp add: auditAnchors_def Let_def image_comp comp_def)

text \<open>A certificate has time left: it is read, and neither threshold is crossed.\<close>

definition has_time_left :: "int \<Rightarrow> int \<Rightarrow> int \<Rightarrow> (anchor_source \<Rightarrow> string + anchor_info) \<Rightarrow> anchor_source \<Rightarrow> bool" where
  "has_time_left w c now get src =
    (case get src of Inl _ \<Rightarrow> False
     | Inr info \<Rightarrow> now + max (warn_of w src) (crit_of c src) * MS_PER_DAY \<le> ai_notAfter info)"

definition is_critical :: "int \<Rightarrow> int \<Rightarrow> (anchor_source \<Rightarrow> string + anchor_info) \<Rightarrow> anchor_source \<Rightarrow> bool" where
  "is_critical c now get src =
    (case get src of Inl _ \<Rightarrow> True | Inr info \<Rightarrow> ai_notAfter info < now + crit_of c src * MS_PER_DAY)"

lemma status_ok_iff: "au_status (audit_source w c now get src) = Status_ok \<longleftrightarrow> has_time_left w c now get src"
  by (auto simp: audit_source_status has_time_left_def expiry_status_def max_def days_until_at_least[symmetric] not_less
      split: sum.splits)

lemma status_crit_iff:
  "(au_status (audit_source w c now get src) = Status_crit \<or> au_status (audit_source w c now get src) = Status_error)
    \<longleftrightarrow> is_critical c now get src"
  using days_until_at_least[of "crit_of c src" now]
  by (auto simp: audit_source_status is_critical_def expiry_status_def not_less split: sum.splits)
     (meson not_less)+

lemma audit_lists_each:
  "mset (map au_id (ar_rows (auditAnchors sources w c now get))) = mset (map an_id sources)"
proof -
  have "au_id (audit_source w c now get s) = an_id s" for s
    by (simp add: audit_source_def Let_def split: sum.splits)
  then show ?thesis by (simp add: auditAnchors_def Let_def multiset.map_comp comp_def)
qed

lemma audit_exit_exact:
  "ar_exitCode (auditAnchors sources w c now get) =
    (if \<exists>s \<in> set sources. is_critical c now get s then 2
     else if \<forall>s \<in> set sources. has_time_left w c now get s then 0 else 1)"
proof -
  let ?ss = "map au_status (ar_rows (auditAnchors sources w c now get))"
  have e: "ar_exitCode (auditAnchors sources w c now get) = worst_exit ?ss"
    by (simp add: auditAnchors_def Let_def)
  have "worst_exit ?ss = 2 \<longleftrightarrow> (\<exists>s \<in> set sources. is_critical c now get s)"
    unfolding worst_exit_2 set_statuses by (simp add: status_crit_iff)
  moreover have "worst_exit ?ss = 0 \<longleftrightarrow> (\<forall>s \<in> set sources. has_time_left w c now get s)"
    unfolding worst_exit_0 set_statuses by (simp add: status_ok_iff)
  ultimately show ?thesis using e worst_exit_bound[of ?ss] by auto
qed

text \<open>The subject and the issuer of a certificate, as openssl prints them, are the same name.\<close>

definition prints_self_signed :: "(string \<Rightarrow> string + string) \<Rightarrow> anchor_source \<Rightarrow> bool" where
  "prints_self_signed openssl src =
    (case openssl (an_root_cert src) of Inl _ \<Rightarrow> False
     | Inr out \<Rightarrow> (case (find_field True True ''subject'' end_of_line out, find_field True True ''issuer'' end_of_line out) of
         (Some su, Some iss) \<Rightarrow> js_trim su = js_trim iss | _ \<Rightarrow> False))"

lemma reader_checks_root:
  "makeOpensslCertReader openssl pd src = Inr info \<Longrightarrow> an_selfSigned src = None \<Longrightarrow> prints_self_signed openssl src"
  by (cases "openssl (an_root_cert src)"; cases "find_field True True ''subject'' end_of_line (projr (openssl (an_root_cert src)))";
      cases "find_field True True ''issuer'' end_of_line (projr (openssl (an_root_cert src)))")
     (auto simp: makeOpensslCertReader_def prints_self_signed_def Let_def split: option.splits)

lemma yaml_anchor_defaults:
  assumes "yaml_anchors parsed = Some anchors" "src \<in> set anchors"
  shows "an_selfSigned src = None \<and> an_warnDays src = None \<and> an_critDays src = None"
proof -
  obtain v where "anchor_of v = Some src"
  proof -
    have "\<exists>v. anchor_of v = Some src" if "those (map anchor_of vs) = Some anchors" for vs
      using that assms(2) by (induction vs arbitrary: anchors) (auto split: option.splits)
    then show ?thesis using assms that by (auto simp: yaml_anchors_def split: if_splits jsval.splits)
  qed
  then show ?thesis by (auto simp: anchor_of_def split: option.splits)
qed

lemma not_critical:
  "has_time_left w c now get src \<Longrightarrow> \<not> is_critical c now get src"
proof -
  have "crit_of c src * MS_PER_DAY \<le> max (warn_of w src) (crit_of c src) * MS_PER_DAY"
    by (intro mult_right_mono) (simp_all add: MS_PER_DAY_def)
  then show "has_time_left w c now get src \<Longrightarrow> \<not> is_critical c now get src"
    by (auto simp: has_time_left_def is_critical_def split: sum.splits)
qed

lemma main_settings:
  assumes "fst (anchor_audit_main warnEnv critEnv yaml openssl pd now) = 0"
  shows "\<exists>w c parsed anchors. parsePositiveInt warnEnv 365 = Inr w \<and> parsePositiveInt critEnv 90 = Inr c \<and> c \<le> w
       \<and> yaml = Inr parsed \<and> yaml_anchors parsed = Some anchors"
  using assms by (auto simp: anchor_audit_main_def not_less split: sum.splits if_splits option.splits)

lemma main_exit:
  assumes "parsePositiveInt warnEnv 365 = Inr w" "parsePositiveInt critEnv 90 = Inr c" "c \<le> w" "yaml = Inr parsed"
    and "yaml_anchors parsed = Some anchors"
  shows "fst (anchor_audit_main warnEnv critEnv yaml openssl pd now) = 0 \<longleftrightarrow>
    (\<forall>src \<in> set (anchors @ OPERATIONAL_CERTS). has_time_left w c now (makeOpensslCertReader openssl pd) src)"
proof -
  have "fst (anchor_audit_main warnEnv critEnv yaml openssl pd now)
      = ar_exitCode (auditAnchors (anchors @ OPERATIONAL_CERTS) w c now (makeOpensslCertReader openssl pd))"
    using assms by (simp add: anchor_audit_main_def Let_def)
  then show ?thesis unfolding audit_exit_exact using not_critical by (auto simp del: set_append)
qed

lemma main_green_iff:
  "fst (anchor_audit_main warnEnv critEnv yaml openssl pd now) = 0 \<longleftrightarrow>
    (\<exists>w c parsed anchors. parsePositiveInt warnEnv 365 = Inr w \<and> parsePositiveInt critEnv 90 = Inr c \<and> c \<le> w
       \<and> yaml = Inr parsed \<and> yaml_anchors parsed = Some anchors
       \<and> (\<forall>src \<in> set (anchors @ OPERATIONAL_CERTS). has_time_left w c now (makeOpensslCertReader openssl pd) src))"
  (is "?L \<longleftrightarrow> ?R")
proof
  assume l: ?L
  from main_settings[OF l] obtain w c parsed anchors where s: "parsePositiveInt warnEnv 365 = Inr w"
    "parsePositiveInt critEnv 90 = Inr c" "c \<le> w" "yaml = Inr parsed" "yaml_anchors parsed = Some anchors" by blast
  with l main_exit[OF s] show ?R by (metis (no_types))
next
  assume ?R
  then obtain w c parsed anchors where s: "parsePositiveInt warnEnv 365 = Inr w"
    "parsePositiveInt critEnv 90 = Inr c" "c \<le> w" "yaml = Inr parsed" "yaml_anchors parsed = Some anchors"
    and h: "\<forall>src \<in> set (anchors @ OPERATIONAL_CERTS). has_time_left w c now (makeOpensslCertReader openssl pd) src" by (elim exE conjE)
  then show ?L using main_exit[OF s] by simp
qed

text \<open>The anchor audit is green exactly when nothing needs attention: its settings are whole positive numbers
  of days in the right order, the list of sources is well-formed, and every anchor of the list and every
  operational certificate is readable with at least its warning period left, the anchors being
  self-signed and held to the default thresholds whatever else their entries say.\<close>

lemma anchor_audit_green:
  "fst (anchor_audit_main warnEnv critEnv yaml openssl pd now) = 0 \<longleftrightarrow>
    (\<exists>w c parsed anchors. parsePositiveInt warnEnv 365 = Inr w \<and> parsePositiveInt critEnv 90 = Inr c \<and> c \<le> w
       \<and> yaml = Inr parsed \<and> yaml_anchors parsed = Some anchors
       \<and> (\<forall>src \<in> set anchors. prints_self_signed openssl src \<and> warn_of w src = w)
       \<and> (\<forall>src \<in> set (anchors @ OPERATIONAL_CERTS). \<exists>info. makeOpensslCertReader openssl pd src = Inr info
            \<and> now + warn_of w src * MS_PER_DAY \<le> ai_notAfter info))"
  (is "?L \<longleftrightarrow> ?R")
proof -
  let ?get = "makeOpensslCertReader openssl pd"
  have order: "crit_of c src \<le> warn_of w src"
    if "c \<le> w" "yaml_anchors parsed = Some anchors" "src \<in> set (anchors @ OPERATIONAL_CERTS)" for c w parsed anchors src
    using that yaml_anchor_defaults[OF that(2), of src]
    by (auto simp: crit_of_def warn_of_def OPERATIONAL_CERTS_def)
  have left: "has_time_left w c now ?get src \<longleftrightarrow>
      (\<exists>info. ?get src = Inr info \<and> now + warn_of w src * MS_PER_DAY \<le> ai_notAfter info)"
    if "crit_of c src \<le> warn_of w src" for w c src
    using that by (auto simp: has_time_left_def max_def split: sum.splits)
  have "?L \<longleftrightarrow> (\<exists>w c parsed anchors. parsePositiveInt warnEnv 365 = Inr w \<and> parsePositiveInt critEnv 90 = Inr c \<and> c \<le> w
       \<and> yaml = Inr parsed \<and> yaml_anchors parsed = Some anchors
       \<and> (\<forall>src \<in> set (anchors @ OPERATIONAL_CERTS). has_time_left w c now ?get src))"
    by (rule main_green_iff)
  also have "\<dots> \<longleftrightarrow> ?R"
  proof -
    have "(\<forall>src \<in> set (anchors @ OPERATIONAL_CERTS). has_time_left w c now ?get src) \<longleftrightarrow>
      (\<forall>src \<in> set anchors. prints_self_signed openssl src \<and> warn_of w src = w)
       \<and> (\<forall>src \<in> set (anchors @ OPERATIONAL_CERTS). \<exists>info. ?get src = Inr info
            \<and> now + warn_of w src * MS_PER_DAY \<le> ai_notAfter info)"
      if "c \<le> w" "yaml_anchors parsed = Some anchors" for w c parsed anchors
    proof -
      have "prints_self_signed openssl src \<and> warn_of w src = w"
        if "has_time_left w c now ?get src" "src \<in> set anchors" for src
        using that yaml_anchor_defaults[OF \<open>yaml_anchors parsed = Some anchors\<close> that(2)] reader_checks_root[of openssl pd src]
        by (auto simp: has_time_left_def warn_of_def split: sum.splits)
      then show ?thesis using left[OF order[OF that]] by (metis Un_iff set_append)
    qed
    then show ?thesis by (intro ex_cong1 conj_cong refl) blast+
  qed
  finally show ?thesis .
qed

section \<open>An instance\<close>

definition ex_openssl :: "string \<Rightarrow> string + string" where
  "ex_openssl path =
    (if path = ''trust-sources/google/root.pem''
     then Inr (''notAfter=May  5 20:29:34 2051 GMT'' @ [CHR 0x0A] @ ''subject=C=US, O=Google LLC, CN=Google C2PA Root CA G3''
            @ [CHR 0x0A] @ ''issuer=C=US, O=Google LLC, CN=Google C2PA Root CA G3'' @ [CHR 0x0A])
     else Inr (''notAfter=Jan  1 00:00:00 2030 GMT'' @ [CHR 0x0A] @ ''subject=CN=Responder'' @ [CHR 0x0A] @ ''issuer=CN=Root'' @ [CHR 0x0A]))"

definition ex_date :: "string \<Rightarrow> int option" where
  "ex_date s = (if s = ''May 5 20:29:34 2051 GMT'' then Some 2567622574000
     else if s = ''Jan 1 00:00:00 2030 GMT'' then Some 1893456000000 else None)"

definition ex_sources :: jsval where
  "ex_sources = JObj [(''sources'', JArr [JObj [(''id'', JStr ''google''), (''root_cert'', JStr ''trust-sources/google/root.pem''),
     (''selfSigned'', JBool False), (''warnDays'', JNum (DecNum 1 0))]])]"

theorem anchor_audit_green_witness:
  "prints_self_signed ex_openssl \<lparr>an_id = ''google'', an_root_cert = ''trust-sources/google/root.pem'',
      an_warnDays = None, an_critDays = None, an_selfSigned = None\<rparr>"
proof -
  let ?src = "\<lparr>an_id = ''google'', an_root_cert = ''trust-sources/google/root.pem'',
      an_warnDays = None, an_critDays = None, an_selfSigned = None\<rparr>"
  have "fst (anchor_audit_main None (Some ''30'') (Inr ex_sources) ex_openssl ex_date 1800000000000) = 0"
  proof (subst main_exit)
    show "parsePositiveInt None 365 = Inr 365" "parsePositiveInt (Some ''30'') 90 = Inr 30" "(30 :: int) \<le> 365"
      "(Inr ex_sources :: string + jsval) = Inr ex_sources" "yaml_anchors ex_sources = Some [?src]"
      by code_simp+
    show "\<forall>src \<in> set ([?src] @ OPERATIONAL_CERTS).
        has_time_left 365 30 1800000000000 (makeOpensslCertReader ex_openssl ex_date) src"
      by code_simp
  qed
  then obtain w c parsed anchors where p: "(Inr ex_sources :: string + jsval) = Inr parsed" "yaml_anchors parsed = Some anchors"
    and a: "\<forall>src \<in> set anchors. prints_self_signed ex_openssl src \<and> warn_of w src = w"
    unfolding anchor_audit_green by (elim exE conjE)
  have "yaml_anchors ex_sources = Some [?src]" by code_simp
  then show ?thesis using p a by auto
qed

end
