(* ===== verification/RootAudit.thy ===== *)
theory RootAudit
  imports AnchorAudit Asn1
begin

text \<open>
  The audit of the pinned attestation roots, \<open>ca/scripts/audit-attestation-roots.ts\<close>: expiry of every pin and
  drift from the set Google publishes.  Certificate parsing, the digest and the answers of the endpoint are
  parameters, and so are the pins, constants of \<open>roots.ts\<close>.
\<close>

section \<open>Attempts\<close>

text \<open>One attempt after the other from \<open>k\<close> to \<open>n\<close>, until one succeeds; the last error is thrown.\<close>

function attempts_from :: "(nat \<Rightarrow> 'e + 'a) \<Rightarrow> nat \<Rightarrow> nat \<Rightarrow> 'e + 'a" where
  "attempts_from f n k =
     (case f k of Inr x \<Rightarrow> Inr x | Inl e \<Rightarrow> if k < n then attempts_from f n (Suc k) else Inl e)"
  by pat_completeness auto
termination
  by (relation "measure (\<lambda>(f, n, k). n - k)") auto

declare attempts_from.simps [simp del]

lemma attempts_from_Inr:
  "k \<le> n \<Longrightarrow> attempts_from f n k = Inr x \<longleftrightarrow>
     (\<exists>j. k \<le> j \<and> j \<le> n \<and> f j = Inr x \<and> (\<forall>i. k \<le> i \<and> i < j \<longrightarrow> isl (f i)))"
proof (induction f n k rule: attempts_from.induct)
  case (1 f n k)
  show ?case
  proof (cases "f k")
    case (Inr y)
    then have "(\<exists>j. k \<le> j \<and> j \<le> n \<and> f j = Inr x \<and> (\<forall>i. k \<le> i \<and> i < j \<longrightarrow> isl (f i))) \<longleftrightarrow> y = x"
      using 1(2) by (auto intro!: exI[of _ k]) (metis isl_def le_neq_implies_less order_refl sum.simps(4) sum.inject(2))
    with Inr show ?thesis by (simp add: attempts_from.simps)
  next
    case (Inl e)
    show ?thesis
    proof (cases "k < n")
      case True
      have "(\<exists>j. Suc k \<le> j \<and> j \<le> n \<and> f j = Inr x \<and> (\<forall>i. Suc k \<le> i \<and> i < j \<longrightarrow> isl (f i)))
          \<longleftrightarrow> (\<exists>j. k \<le> j \<and> j \<le> n \<and> f j = Inr x \<and> (\<forall>i. k \<le> i \<and> i < j \<longrightarrow> isl (f i)))"
        using Inl by (metis Suc_le_eq isl_def le_neq_implies_less less_imp_le sum.simps(4))
      with 1(1)[OF Inl True] True Inl show ?thesis by (simp add: attempts_from.simps)
    next
      case False
      with Inl 1(2) show ?thesis by (subst attempts_from.simps) (auto simp: le_antisym)
    qed
  qed
qed

text \<open>An answer of the network: none, or a status and a body whose reading may fail.\<close>

datatype 'a http_answer = No_answer string | Http_answer nat "string + 'a"

definition answer_body :: "'a http_answer \<Rightarrow> string + 'a" where
  "answer_body r =
    (case r of No_answer e \<Rightarrow> Inl e
     | Http_answer status body \<Rightarrow> if 200 \<le> status \<and> status \<le> 299 then body else Inl (''HTTP '' @ show_nat status))"

section \<open>Expiry of the pins\<close>

record root_lib =
  rl_notAfter :: "string \<Rightarrow> string + int option"
  rl_sha256 :: "bytes \<Rightarrow> bytes"
  rl_published :: "nat \<Rightarrow> jsval http_answer"

text \<open>Here white space around the number is tolerated.\<close>

definition rootParsePositiveInt :: "string option \<Rightarrow> int \<Rightarrow> string \<Rightarrow> string + int" where
  "rootParsePositiveInt value fallback name =
    (case value of
       None \<Rightarrow> Inr fallback
     | Some v \<Rightarrow>
         if js_trim v = [] then Inr fallback
         else if \<not> list_all is_digit (js_trim v) \<or> int (parse_digits 0 (js_trim v)) < 1
         then Inl (name @ '' must be a positive integer, got: '' @ json_stringify (JStr v))
         else Inr (int (parse_digits 0 (js_trim v))))"

record pin_row =
  pr_id :: string
  pr_notAfter :: "int option"
  pr_days :: "int option"
  pr_status :: audit_status

definition pin_ids :: "string list \<Rightarrow> (string \<times> string) list" where
  "pin_ids googlePems =
    map (\<lambda>(i, pem). (''google-hw-attestation-root-'' @ show_nat (i + 1), pem)) (List.enumerate 0 googlePems)"

definition PINS :: "string \<Rightarrow> string list \<Rightarrow> (string \<times> string) list" where
  "PINS applePem googlePems = (''apple-appattest-root'', applePem) # pin_ids googlePems"

text \<open>\<open>Some None\<close> of the parser is an invalid date.\<close>

definition audit_pin :: "root_lib \<Rightarrow> int \<Rightarrow> int \<Rightarrow> int \<Rightarrow> string \<times> string \<Rightarrow> pin_row" where
  "audit_pin lib now warnDays critDays = (\<lambda>(i, pem).
    (case rl_notAfter lib pem of
       Inr (Some t) \<Rightarrow>
         (let days = days_until now t in
          \<lparr>pr_id = i, pr_notAfter = Some t, pr_days = Some days, pr_status = expiry_status warnDays critDays days\<rparr>)
     | _ \<Rightarrow> \<lparr>pr_id = i, pr_notAfter = None, pr_days = None, pr_status = Status_error\<rparr>))"

definition auditPins :: "root_lib \<Rightarrow> (string \<times> string) list \<Rightarrow> int \<Rightarrow> int \<Rightarrow> int \<Rightarrow> pin_row list \<times> nat" where
  "auditPins lib pins now warnDays critDays =
    (let rows = map (audit_pin lib now warnDays critDays) pins in (rows, worst_exit (map pr_status rows)))"

definition render_pins :: "pin_row list \<Rightarrow> int \<Rightarrow> int \<Rightarrow> int \<Rightarrow> string" where
  "render_pins rows now warnDays critDays =
    (let idW = foldr max (map (\<lambda>r. length (pr_id r)) rows) (length ''id'');
         line = (\<lambda>i na days status. padEnd idW i @ ''  '' @ padEnd 11 na @ ''  '' @ padStart 6 days @ ''  '' @ status) in
     join_with [CHR 0x0A]
       ([''Attestation-root expiry audit (warn <'' @ show_int warnDays @ ''d, crit <'' @ show_int critDays @ ''d)'',
         ''Now: '' @ iso_string now, '''', line ''id'' ''notAfter'' ''days'' ''status'',
         line (dashes idW) (dashes 11) (dashes 6) ''------'']
        @ map (\<lambda>r. line (pr_id r) (case pr_notAfter r of None \<Rightarrow> ''(unparsed)'' | Some t \<Rightarrow> take 10 (iso_string t))
             (case pr_days r of None \<Rightarrow> ''n/a'' | Some d \<Rightarrow> show_int d) (status_text (pr_status r))) rows
        @ ['''']))"

section \<open>Drift from the published set\<close>

datatype drift_status = In_sync | Drifted | Unavailable

definition ACKNOWLEDGED_UNPUBLISHED_PINS :: "(string \<times> string) list" where
  "ACKNOWLEDGED_UNPUBLISHED_PINS =
    [(''19de1c3e1da7e06f3c2712301342c17941b1ec90ba5ee396a8ec2ee4f46dfad2'',
      ''Google root serial e35d38c6897d47e8 (RSA, notAfter 2028-03-18), delisted by Google ''
      @ ''but still rooting chains from devices provisioned before the rotation. The pin stays ''
      @ ''until that population ages out; the expiry gate above is the backstop.'')]"

definition ACKNOWLEDGED_UNPINNED_PUBLISHED :: "(string \<times> string) list" where
  "ACKNOWLEDGED_UNPINNED_PUBLISHED = []"

definition sha256OfPem :: "root_lib \<Rightarrow> string \<Rightarrow> string + string" where
  "sha256OfPem lib pem =
    bindR (derefR ''invalid base64'' (pemToDer pem)) (\<lambda>der. Inr (bytesToHex (rl_sha256 lib der)))"

definition fetchPublishedRoots :: "root_lib \<Rightarrow> string + jsval" where
  "fetchPublishedRoots lib = attempts_from (\<lambda>k. answer_body (rl_published lib k)) 3 1"

text \<open>The two sets of fingerprints, or why they are not known.\<close>

definition published_pems :: "jsval \<Rightarrow> string + string list" where
  "published_pems json =
    derefR ''expected a JSON array of PEM strings''
      (case json of JArr vs \<Rightarrow> those (map as_str vs) | _ \<Rightarrow> None)"

definition fingerprint_sets :: "root_lib \<Rightarrow> string list \<Rightarrow> string + string list \<times> string list" where
  "fingerprint_sets lib googlePems =
    bindR (fetchPublishedRoots lib) (\<lambda>json.
    bindR (published_pems json) (\<lambda>pems.
    bindR (mapR (sha256OfPem lib) googlePems) (\<lambda>pinned.
    bindR (mapR (sha256OfPem lib) pems) (\<lambda>published.
    Inr (uniq pinned, uniq published)))))"

definition ellipsis :: string where "ellipsis = [CHR 0xE2, CHR 0x80, CHR 0xA6]"

text \<open>The notes for the fingerprints of one set that the other lacks, and how many of them nobody has
  acknowledged.\<close>

definition drift_notes ::
  "(string \<times> string) list \<Rightarrow> string \<Rightarrow> (string \<Rightarrow> string) \<Rightarrow> string list \<Rightarrow> string list \<Rightarrow> string list \<times> nat"
where
  "drift_notes acknowledged ackText driftText fps others =
    (let missing = filter (\<lambda>fp. fp \<notin> set others) fps in
     (map (\<lambda>fp. case map_of acknowledged fp of
             Some reason \<Rightarrow> ackText @ reason @ '' [sha256='' @ take 16 fp @ ellipsis @ '']''
           | None \<Rightarrow> driftText fp) missing,
      length (filter (\<lambda>fp. map_of acknowledged fp = None) missing)))"

definition unpinned_note :: "string \<Rightarrow> string" where
  "unpinned_note fp = ''DRIFT: Google publishes a root we do NOT pin (sha256='' @ fp @ '').'' @ [CHR 0x0A]
     @ ''  This is what a root rotation looks like, and devices chaining to it will fail enrollment.'' @ [CHR 0x0A]
     @ ''  Add it to GOOGLE_HW_ATTESTATION_ROOT_PEMS (PEM + EXPECTED_FINGERPRINTS), or, if we are'' @ [CHR 0x0A]
     @ ''  deliberately not supporting that device population, record it in ACKNOWLEDGED_UNPINNED_PUBLISHED.''"

definition unpublished_note :: "string \<Rightarrow> string" where
  "unpublished_note fp = ''DRIFT: We pin a root Google no longer publishes (sha256='' @ fp @ '').'' @ [CHR 0x0A]
     @ ''  Google delists a root when it stops provisioning new devices with it. Keep the pin while'' @ [CHR 0x0A]
     @ ''  field devices still chain to it, then retire it. Either way, record the decision in'' @ [CHR 0x0A]
     @ ''  ACKNOWLEDGED_UNPUBLISHED_PINS or remove the pin.''"

definition checkGooglePublishedSet :: "root_lib \<Rightarrow> string list \<Rightarrow> drift_status \<times> string list" where
  "checkGooglePublishedSet lib googlePems =
    (case fingerprint_sets lib googlePems of
       Inl e \<Rightarrow> (Unavailable,
         [''DRIFT CHECK UNAVAILABLE after 3 attempts: '' @ e, ''Endpoint: https://android.googleapis.com/attestation/root'',
          ''Until this is fixed the rotation watch is blind, so a new Google root could ship unnoticed.''])
     | Inr (pinned, published) \<Rightarrow>
         (case (drift_notes ACKNOWLEDGED_UNPINNED_PUBLISHED ''(acknowledged) Google publishes a root we do not pin: ''
                  unpinned_note published pinned,
                drift_notes ACKNOWLEDGED_UNPUBLISHED_PINS ''(acknowledged) We pin a root Google no longer publishes: ''
                  unpublished_note pinned published) of
            ((n1, u1), (n2, u2)) \<Rightarrow>
              let notes = n1 @ n2; unacknowledged = u1 + u2 in
              (if unacknowledged > 0 then Drifted else In_sync,
               if unacknowledged = 0 \<and> notes = []
               then [''Google published-set: in sync with pinned Google roots.''] else notes)))"

section \<open>The command\<close>

definition root_problems :: "pin_row list \<Rightarrow> nat \<Rightarrow> drift_status \<Rightarrow> int \<Rightarrow> string list" where
  "root_problems rows expiryExit drift critDays =
    (if expiryExit = 2
     then [''CRIT: a pinned attestation root is expired, within '' @ show_int critDays @ ''d, or unparseable '' @ em_dash @ '' rotate now.'']
     else [])
    @ (if drift = Drifted
       then [''DRIFT: the pinned Google root set no longer matches Google'' @ [CHR 0x27] @ ''s published set '' @ em_dash @ '' see above.'']
       else [])
    @ (if drift = Unavailable
       then [''BLIND: the drift check could not run, so the rotation watch is not working '' @ em_dash @ '' see above.'']
       else [])
    @ (if expiryExit = 1
       then (case List.find (\<lambda>r. pr_status r = Status_warn) rows of None \<Rightarrow> []
         | Some w \<Rightarrow> [''WARN: '' @ pr_id w @ '' expires in '' @ (case pr_days w of None \<Rightarrow> ''null'' | Some d \<Rightarrow> show_int d)
              @ ''d. Rotate the pin in ca/_shared/attestation/roots.ts before then.''])
       else [])"

definition root_exit :: "nat \<Rightarrow> drift_status \<Rightarrow> nat" where
  "root_exit expiryExit drift =
    (if expiryExit = 2 then 2 else if drift = Drifted then 3 else if drift = Unavailable then 4 else 1)"

text \<open>The exit code and the lines that are printed.\<close>

definition root_audit_main ::
  "root_lib \<Rightarrow> string \<Rightarrow> string list \<Rightarrow> string option \<Rightarrow> string option \<Rightarrow> int \<Rightarrow> nat \<times> string list"
where
  "root_audit_main lib applePem googlePems warnEnv critEnv now =
    (case bindR (rootParsePositiveInt warnEnv 180 ''ATTEST_ROOT_WARN_DAYS'') (\<lambda>w.
          bindR (rootParsePositiveInt critEnv 30 ''ATTEST_ROOT_CRIT_DAYS'') (\<lambda>c. Inr (w, c))) of
       Inl e \<Rightarrow> (2, [''CONFIG ERROR: '' @ e])
     | Inr (warnDays, critDays) \<Rightarrow>
         if warnDays < critDays
         then (2, [''CONFIG ERROR: WARN window ('' @ show_int warnDays @ ''d) must be >= CRIT window ('' @ show_int critDays @ ''d).''])
         else (case (auditPins lib (PINS applePem googlePems) now warnDays critDays, checkGooglePublishedSet lib googlePems) of
           ((rows, expiryExit), (drift, notes)) \<Rightarrow>
             let report = [render_pins rows now warnDays critDays, join_with [CHR 0x0A] notes, ''''];
                 problems = root_problems rows expiryExit drift critDays in
             if problems = []
             then (0, report @ [''OK: all '' @ show_nat (length rows) @ '' pinned attestation roots are >= '' @ show_int warnDays
                    @ ''d from expiry, and there is no unacknowledged drift from Google'' @ [CHR 0x27] @ ''s published set.''])
             else (root_exit expiryExit drift, report @ problems)))"

section \<open>What the audit says\<close>

definition lives_until :: "root_lib \<Rightarrow> int \<Rightarrow> string \<Rightarrow> bool" where
  "lives_until lib limit pem = (case rl_notAfter lib pem of Inr (Some t) \<Rightarrow> limit \<le> t | _ \<Rightarrow> False)"

text \<open>A fingerprint that one set has and the other lacks, without anybody having acknowledged it.\<close>

definition unexplained_drift :: "string list \<Rightarrow> string list \<Rightarrow> bool" where
  "unexplained_drift pinned published =
    ((\<exists>fp \<in> set published - set pinned. map_of ACKNOWLEDGED_UNPINNED_PUBLISHED fp = None)
     \<or> (\<exists>fp \<in> set pinned - set published. map_of ACKNOWLEDGED_UNPUBLISHED_PINS fp = None))"

lemma pin_status_cases:
  assumes "c \<le> w"
  shows "pr_status (audit_pin lib now w c p) = Status_ok \<longleftrightarrow> lives_until lib (now + w * MS_PER_DAY) (snd p)"
    and "(pr_status (audit_pin lib now w c p) = Status_crit \<or> pr_status (audit_pin lib now w c p) = Status_error)
      \<longleftrightarrow> \<not> lives_until lib (now + c * MS_PER_DAY) (snd p)"
  using assms
  by (cases p; auto simp: audit_pin_def lives_until_def Let_def expiry_status_def days_until_at_least[symmetric] not_less not_le
      split: sum.splits option.splits)+

lemma auditPins_exit:
  assumes "c \<le> w"
  shows "snd (auditPins lib pins now w c) =
    (if \<exists>p \<in> set pins. \<not> lives_until lib (now + c * MS_PER_DAY) (snd p) then 2
     else if \<exists>p \<in> set pins. \<not> lives_until lib (now + w * MS_PER_DAY) (snd p) then 1 else 0)"
proof -
  let ?ss = "map (\<lambda>p. pr_status (audit_pin lib now w c p)) pins"
  have e: "snd (auditPins lib pins now w c) = worst_exit ?ss"
    by (simp add: auditPins_def Let_def comp_def)
  have "worst_exit ?ss = 2 \<longleftrightarrow> (\<exists>p \<in> set pins. \<not> lives_until lib (now + c * MS_PER_DAY) (snd p))"
    unfolding worst_exit_2 by (simp add: pin_status_cases(2)[OF assms])
  moreover have "worst_exit ?ss = 0 \<longleftrightarrow> (\<forall>p \<in> set pins. lives_until lib (now + w * MS_PER_DAY) (snd p))"
    unfolding worst_exit_0 by (simp add: pin_status_cases(1)[OF assms])
  ultimately show ?thesis using e worst_exit_bound[of ?ss] by auto
qed

lemma drift_unacknowledged:
  "snd (drift_notes ack a d fps others) > 0 \<longleftrightarrow> (\<exists>fp \<in> set fps - set others. map_of ack fp = None)"
  by (auto simp: drift_notes_def Let_def filter_empty_conv)

lemma drift_exact:
  "fst (checkGooglePublishedSet lib pems) =
    (case fingerprint_sets lib pems of Inl _ \<Rightarrow> Unavailable
     | Inr (pinned, published) \<Rightarrow> if unexplained_drift pinned published then Drifted else In_sync)"
proof (cases "fingerprint_sets lib pems")
  case (Inr s)
  obtain pinned published where s: "s = (pinned, published)" by fastforce
  obtain n1 u1 where 1: "drift_notes ACKNOWLEDGED_UNPINNED_PUBLISHED ''(acknowledged) Google publishes a root we do not pin: ''
      unpinned_note published pinned = (n1, u1)" by fastforce
  obtain n2 u2 where 2: "drift_notes ACKNOWLEDGED_UNPUBLISHED_PINS ''(acknowledged) We pin a root Google no longer publishes: ''
      unpublished_note pinned published = (n2, u2)" by fastforce
  have "u1 > 0 \<longleftrightarrow> (\<exists>fp \<in> set published - set pinned. map_of ACKNOWLEDGED_UNPINNED_PUBLISHED fp = None)"
    using drift_unacknowledged[of ACKNOWLEDGED_UNPINNED_PUBLISHED _ unpinned_note published pinned] 1 by (metis snd_conv)
  moreover have "u2 > 0 \<longleftrightarrow> (\<exists>fp \<in> set pinned - set published. map_of ACKNOWLEDGED_UNPUBLISHED_PINS fp = None)"
    using drift_unacknowledged[of ACKNOWLEDGED_UNPUBLISHED_PINS _ unpublished_note pinned published] 2 by (metis snd_conv)
  ultimately have "u1 + u2 > 0 \<longleftrightarrow> unexplained_drift pinned published" by (auto simp: unexplained_drift_def)
  then show ?thesis using Inr by (simp add: checkGooglePublishedSet_def s 1 2 Let_def)
qed (simp add: checkGooglePublishedSet_def)

text \<open>A row that warns is found when the exit code says that there is one.\<close>

lemma warn_row_found:
  assumes "auditPins lib pins now w c = (rows, 1)"
  shows "\<exists>r. List.find (\<lambda>r. pr_status r = Status_warn) rows = Some r"
proof -
  have "rows = map (audit_pin lib now w c) pins" "worst_exit (map pr_status rows) = 1"
    using assms by (auto simp: auditPins_def Let_def)
  then have "\<exists>r \<in> set rows. pr_status r = Status_warn" using worst_exit_1 by auto
  then show ?thesis by (cases "List.find (\<lambda>r. pr_status r = Status_warn) rows") (auto simp: find_None_iff)
qed

text \<open>C40. The exit code of the root audit is exactly the most severe of its findings, and none masks another:
  2 when a pin cannot be read or is within the critical period, else 3 when a root is pinned or published
  on one side only and nobody has acknowledged it, else 4 when the published set could not be learned, else 1 in
  the warning period, else 0; drift and blindness are reported whatever the exit code.\<close>

theorem root_audit_exact:
  fixes lib apple google now
  assumes "rootParsePositiveInt warnEnv 180 ''ATTEST_ROOT_WARN_DAYS'' = Inr w"
    and "rootParsePositiveInt critEnv 30 ''ATTEST_ROOT_CRIT_DAYS'' = Inr c" "c \<le> w"
  defines "run \<equiv> root_audit_main lib apple google warnEnv critEnv now"
    and "doomed \<equiv> \<exists>p \<in> set (PINS apple google). \<not> lives_until lib (now + c * MS_PER_DAY) (snd p)"
    and "ageing \<equiv> \<exists>p \<in> set (PINS apple google). \<not> lives_until lib (now + w * MS_PER_DAY) (snd p)"
    and "drift \<equiv> case fingerprint_sets lib google of Inl _ \<Rightarrow> False | Inr (p, q) \<Rightarrow> unexplained_drift p q"
    and "blind \<equiv> isl (fingerprint_sets lib google)"
  shows "fst run = (if doomed then 2 else if drift then 3 else if blind then 4 else if ageing then 1 else 0)
    \<and> (drift \<longleftrightarrow> list_ex (starts_with ''DRIFT: the pinned'') (drop 3 (snd run)))
    \<and> (blind \<longleftrightarrow> list_ex (starts_with ''BLIND: '') (drop 3 (snd run)))"
proof -
  obtain rows e where p: "auditPins lib (PINS apple google) now w c = (rows, e)" by fastforce
  obtain d said where g: "checkGooglePublishedSet lib google = (d, said)" by fastforce
  have e: "e = (if doomed then 2 else if ageing then 1 else 0)"
    using auditPins_exit[OF assms(3), of lib "PINS apple google" now] p by (simp add: doomed_def ageing_def)
  have d: "d = (if blind then Unavailable else if drift then Drifted else In_sync)"
    using drift_exact[of lib google] g by (auto simp: blind_def drift_def isl_def split: sum.splits)
  have excl: "drift \<Longrightarrow> \<not> blind" by (auto simp: blind_def drift_def isl_def split: sum.splits)
  have run: "run = (let report = [render_pins rows now w c, join_with [CHR 0x0A] said, ''''];
                 problems = root_problems rows e d c in
             if problems = []
             then (0, report @ [''OK: all '' @ show_nat (length rows) @ '' pinned attestation roots are >= '' @ show_int w
                    @ ''d from expiry, and there is no unacknowledged drift from Google'' @ [CHR 0x27] @ ''s published set.''])
             else (root_exit e d, report @ problems))"
    using assms(1-3) p g by (simp add: run_def root_audit_main_def)
  have warn: "\<exists>r. List.find (\<lambda>r. pr_status r = Status_warn) rows = Some r" if "e = 1"
    using warn_row_found[OF p[unfolded that]] .
  then obtain r where r: "e = 1 \<Longrightarrow> List.find (\<lambda>r. pr_status r = Status_warn) rows = Some r" by blast
  have none: "root_problems rows e d c = [] \<longleftrightarrow> e = 0 \<and> d = In_sync"
    using r e by (cases d) (auto simp: root_problems_def split: option.splits)
  have "fst run = (if e = 0 \<and> d = In_sync then 0 else root_exit e d)"
    using run none by (simp add: Let_def)
  then have "fst run = (if doomed then 2 else if drift then 3 else if blind then 4 else if ageing then 1 else 0)"
    using e d excl by (simp add: root_exit_def)
  moreover have "list_ex (starts_with q) (drop 3 (snd run)) \<longleftrightarrow> list_ex (starts_with q) (root_problems rows e d c)"
    if "\<not> starts_with q (''O'' @ x)" "q \<noteq> []" "hd q \<noteq> CHR ''O''" for q x
    using that none by (cases q) (auto simp: run Let_def root_problems_def)
  then have "list_ex (starts_with q) (drop 3 (snd run)) \<longleftrightarrow> list_ex (starts_with q) (root_problems rows e d c)"
    if "q = ''DRIFT: the pinned'' \<or> q = ''BLIND: ''" for q
    using that by fastforce
  moreover have "list_ex (starts_with ''DRIFT: the pinned'') (root_problems rows e d c) \<longleftrightarrow> drift"
    "list_ex (starts_with ''BLIND: '') (root_problems rows e d c) \<longleftrightarrow> blind"
    using d excl by (auto simp: root_problems_def split: option.splits)
  ultimately show ?thesis by simp
qed

section \<open>An instance\<close>

text \<open>The third attempt tells of a root that is not pinned.\<close>

definition ex_pem :: "string \<Rightarrow> string" where
  "ex_pem b = CERT_BEGIN @ [CHR 0x0A] @ b @ [CHR 0x0A] @ CERT_END"

definition ex_root_lib :: root_lib where
  "ex_root_lib = \<lparr>rl_notAfter = (\<lambda>_. Inr (Some 2000000000000)), rl_sha256 = (\<lambda>b. b),
     rl_published = (\<lambda>k. if k = 1 then No_answer ''timeout'' else if k = 2 then Http_answer 503 (Inr JNull)
        else Http_answer 200 (Inr (JArr [JStr (ex_pem ''AAAA''), JStr (ex_pem ''AQID'')])))\<rparr>"

lemma ex_fingerprints: "fingerprint_sets ex_root_lib [ex_pem ''AAAA''] = Inr ([''000000''], [''000000'', ''010203''])"
  by code_simp

theorem root_audit_exact_witness:
  "fst (root_audit_main ex_root_lib (ex_pem ''AAAA'') [ex_pem ''AAAA''] None (Some '' 30 '') 1800000000000) = 3"
proof -
  have w: "rootParsePositiveInt None 180 ''ATTEST_ROOT_WARN_DAYS'' = Inr 180"
    and c: "rootParsePositiveInt (Some '' 30 '') 30 ''ATTEST_ROOT_CRIT_DAYS'' = Inr 30" by code_simp+
  have "\<forall>p \<in> set (PINS (ex_pem ''AAAA'') [ex_pem ''AAAA'']). lives_until ex_root_lib (1800000000000 + 30 * MS_PER_DAY) (snd p)"
    by (simp add: lives_until_def ex_root_lib_def MS_PER_DAY_def)
  moreover have "unexplained_drift [''000000''] [''000000'', ''010203'']" by code_simp
  ultimately show ?thesis
    using root_audit_exact[OF w c, of ex_root_lib "ex_pem ''AAAA''" "[ex_pem ''AAAA'']" 1800000000000]
    by (simp add: ex_fingerprints)
qed

end
