(* ===== verification/PinnedRoots.thy ===== *)
theory PinnedRoots
  imports RootAudit
begin

text \<open>
  The self-check of the pinned attestation roots, \<open>ca/_shared/attestation/roots.ts\<close>, which runs when the module is
  loaded and keeps the function from starting.  The PEM texts and SHA-256 are parameters; the fingerprints are the
  source's.
\<close>

record embedded_root =
  em_name :: string
  em_pem :: string
  em_fingerprint :: string

definition EXPECTED_FINGERPRINTS :: "string \<Rightarrow> string \<Rightarrow> string \<Rightarrow> string \<Rightarrow> embedded_root list" where
  "EXPECTED_FINGERPRINTS apple google1 google2 google3 =
    [\<lparr>em_name = ''Apple App Attestation Root CA'', em_pem = apple,
      em_fingerprint = ''1CB9823BA28BA6AD2D33A006941DE2AE4F513EF1D4E831B9F7E0FA7B6242C932''\<rparr>,
     \<lparr>em_name = ''Google HW Attestation Root #1 (e35d38c6897d47e8)'', em_pem = google1,
      em_fingerprint = ''19DE1C3E1DA7E06F3C2712301342C17941B1EC90BA5EE396A8EC2EE4F46DFAD2''\<rparr>,
     \<lparr>em_name = ''Google HW Attestation Root #2 (f92009e853b6b045, 2022 re-issue)'', em_pem = google2,
      em_fingerprint = ''CEDB1CB6DC896AE5EC797348BCE9286753C2B38EE71CE0FBE34A9A1248800DFC''\<rparr>,
     \<lparr>em_name = ''Google HW Attestation Root #3 (Key Attestation CA1)'', em_pem = google3,
      em_fingerprint = ''6D9DB4CE6C5C0B293166D08986E05774A8776CEB525D9E4329520DE12BA4BCC0''\<rparr>]"

text \<open>\<open>atob\<close> throws on a character outside its alphabet.\<close>

definition hexUpper :: "bytes \<Rightarrow> string" where
  "hexUpper bs = concat (map (\<lambda>b. map upper_char (pad0 2 (show_hex (unat b)))) bs)"

definition sha256HexOfPemDer :: "(bytes \<Rightarrow> bytes) \<Rightarrow> string \<Rightarrow> string + string" where
  "sha256HexOfPemDer sha pem = bindR (derefR ''InvalidCharacterError'' (pemToDer pem)) (\<lambda>der. Inr (hexUpper (sha der)))"

definition mismatch_text :: "embedded_root \<Rightarrow> string \<Rightarrow> string" where
  "mismatch_text r actual =
    ''Embedded root cert '' @ json_stringify (JStr (em_name r)) @ '' fingerprint mismatch.'' @ [CHR 0x0A]
    @ ''  expected: '' @ em_fingerprint r @ [CHR 0x0A] @ ''  actual:   '' @ actual @ [CHR 0x0A]
    @ ''The PEM body in roots.ts may have been corrupted by a formatter or accidental edit.''"

definition check_root :: "(bytes \<Rightarrow> bytes) \<Rightarrow> embedded_root \<Rightarrow> string + unit" where
  "check_root sha r =
    bindR (sha256HexOfPemDer sha (em_pem r)) (\<lambda>actual. guardR (actual = em_fingerprint r) (mismatch_text r actual))"

definition load_roots :: "(bytes \<Rightarrow> bytes) \<Rightarrow> embedded_root list \<Rightarrow> string + unit" where
  "load_roots sha roots = eachR (check_root sha) roots"

section \<open>What a loaded module holds\<close>

lemma hexUpper_hex: "hexUpper bs = map upper_char (bytesToHex bs)"
  by (simp add: hexUpper_def bytesToHex_def map_concat comp_def)

text \<open>Upper case loses nothing of a hexadecimal text.\<close>

lemma lower_upper_hex: "d < 16 \<Longrightarrow> lower_char (upper_char (hex_digit d)) = hex_digit d"
proof (cases "d < 10")
  case True
  then show ?thesis
    by (simp add: upper_char_def lower_char_def hex_digit_code Let_def del: hex_digit.simps)
next
  assume "d < 16"
  case False
  with \<open>d < 16\<close> have "upper_char (hex_digit d) = char_of (55 + d)"
    by (simp add: upper_char_def hex_digit_code Let_def del: hex_digit.simps)
  with False \<open>d < 16\<close> show ?thesis
    by (simp add: lower_char_def hex_digit.simps Let_def)
qed

lemma lower_hexUpper: "map lower_char (hexUpper bs) = bytesToHex bs"
proof (induction bs)
  case (Cons b bs)
  have "unat b mod 16 < 16" by simp
  then have "map (\<lambda>c. lower_char (upper_char c)) (hex2 b) = hex2 b"
    using byte_div_16[of b] by (simp add: hex2_def lower_upper_hex del: hex_digit.simps)
  with Cons show ?case by (simp add: hexUpper_def bytesToHex_def pad_hex comp_def del: hex_digit.simps)
qed (simp add: hexUpper_def bytesToHex_def)

lemma load_roots_exact:
  "load_roots sha roots = Inr () \<longleftrightarrow>
     (\<forall>r \<in> set roots. \<exists>der. pemToDer (em_pem r) = Some der \<and> hexUpper (sha der) = em_fingerprint r)"
  by (auto simp: load_roots_def check_root_def sha256HexOfPemDer_def)

text \<open>A module that loads hands the validators and the audit exactly the certificates of the listed fingerprints: what
  the audit computes of a pin is the expected fingerprint in lower case.\<close>

lemma loaded_pins_as_listed:
  assumes "load_roots (rl_sha256 lib) roots = Inr ()" "r \<in> set roots"
  shows "sha256OfPem lib (em_pem r) = Inr (map lower_char (em_fingerprint r))"
  using assms by (force simp: load_roots_exact sha256OfPem_def lower_hexUpper[symmetric])

end
