(* ===== verification/VerifierConfig.thy ===== *)
theory VerifierConfig
  imports CaCommon PlayIntegrity
begin

text \<open>
  The environment of the verifier, \<open>verifier/src/config.ts\<close>: parsed once, at start-up, so that a bad
  value stops the process instead of weakening a gate.  The compilation of a regular expression is a
  parameter; a compiled expression is its test.
\<close>

type_synonym regex_test = "string \<Rightarrow> bool"

record verifier_config =
  cf_port :: int
  cf_trustSourcesPath :: string
  cf_sharedSecret :: string
  cf_databaseUrl :: string
  cf_assetStorageHostRegex :: regex_test
  cf_assetStorageHostAllowlist :: "string list"
  cf_maxAssetBytes :: int
  cf_sentryDsn :: "string option"
  cf_isProduction :: bool
  cf_playIntegrity :: "play_integrity_config option"
  cf_attestationRequired :: bool
  cf_networkRevocation :: bool

definition requireEnv :: "env \<Rightarrow> string \<Rightarrow> string + string" where
  "requireEnv env name =
    (case env name of
       Some v \<Rightarrow> if v = [] then Inl (''Missing required env var: '' @ name) else Inr v
     | None \<Rightarrow> Inl (''Missing required env var: '' @ name))"

definition compileHostRegex :: "(string \<Rightarrow> string + regex_test) \<Rightarrow> string \<Rightarrow> string + regex_test" where
  "compileHostRegex compile pattern =
    (case compile pattern of
       Inr test \<Rightarrow> Inr test
     | Inl m \<Rightarrow> Inl (''Invalid ASSET_STORAGE_HOST_REGEX: '' @ m))"

definition DEFAULT_MAX_ASSET_MIB :: int where "DEFAULT_MAX_ASSET_MIB = 50"
definition MAX_ASSET_MIB_CEILING :: int where "MAX_ASSET_MIB_CEILING = 512"

text \<open>\<open>Math.floor(mib * 1024 * 1024)\<close>.\<close>

definition mib_bytes :: "int \<Rightarrow> int \<Rightarrow> int" where
  "mib_bytes m e = (if 0 \<le> e then m * 10 ^ nat e * 1048576 else m * 1048576 div 10 ^ nat (- e))"

definition parseMaxAssetBytes :: "string option \<Rightarrow> string + int" where
  "parseMaxAssetBytes raw =
    (if js_trim (null_or raw []) = [] then Inr (DEFAULT_MAX_ASSET_MIB * 1024 * 1024)
     else
       (case js_number (null_or raw []) of
          DecNum m e \<Rightarrow>
            if m \<le> 0 \<or> num_greater (DecNum m e) MAX_ASSET_MIB_CEILING
            then Inl (''Invalid MAX_ASSET_MIB: '' @ null_or raw []) else Inr (mib_bytes m e)
        | _ \<Rightarrow> Inl (''Invalid MAX_ASSET_MIB: '' @ null_or raw [])))"

definition parseHostAllowlist :: "string option \<Rightarrow> string + string list" where
  "parseHostAllowlist raw =
    (if js_trim (null_or raw []) = []
     then Inl ''Missing required env var: ASSET_STORAGE_HOST_ALLOWLIST (comma-separated hosts; see config.ts)''
     else
       (let hosts = filter (\<lambda>h. length h > 0)
              (map (\<lambda>h. map lower_char (js_trim h)) (split_char (CHR '','') (null_or raw []))) in
        if hosts = []
        then Inl ''ASSET_STORAGE_HOST_ALLOWLIST parsed to zero hosts, refusing to start with no allowlisted hosts''
        else Inr (uniq hosts)))"

text \<open>\<open>parseInt(s, 10)\<close>: an optional sign and the digits after leading white space, whatever follows.\<close>

definition parseInt10 :: "string \<Rightarrow> int option" where
  "parseInt10 s =
    (let t = dropWhile is_space s;
         neg = starts_with ''-'' t;
         ds = takeWhile is_digit (if neg \<or> starts_with ''+'' t then drop 1 t else t) in
     if ds = [] then None
     else Some (if neg then - int (parse_digits 0 ds) else int (parse_digits 0 ds)))"

definition parsePort :: "string option \<Rightarrow> string + int" where
  "parsePort raw =
    (let portRaw = null_or raw ''8080'' in
     case parseInt10 portRaw of
       None \<Rightarrow> Inl (''Invalid PORT: '' @ portRaw)
     | Some port \<Rightarrow> if port \<le> 0 \<or> port > 65535 then Inl (''Invalid PORT: '' @ portRaw) else Inr port)"

text \<open>The Play Integrity configuration: both variables or neither.  The project number is read and never
  used.\<close>

definition loadPlayIntegrityConfig :: "env \<Rightarrow> string + play_integrity_config option" where
  "loadPlayIntegrityConfig env =
    (let pkg = null_or (env ''PLAY_INTEGRITY_PACKAGE_NAME'') [];
         proj = null_or (env ''PLAY_INTEGRITY_CLOUD_PROJECT_NUMBER'') [] in
     if pkg = [] \<and> proj = [] then Inr None
     else if pkg = [] \<or> proj = [] then Inl ''Play Integrity config partially set''
     else Inr (Some \<lparr>pc_packageName = pkg\<rparr>))"

definition parseAttestationRequired :: "env \<Rightarrow> play_integrity_config option \<Rightarrow> bool \<Rightarrow> string + bool" where
  "parseAttestationRequired env playIntegrity isProduction =
    (let raw = env ''ATTESTATION_REQUIRED'' in
     if isProduction \<and> raw \<noteq> Some ''true'' \<and> raw \<noteq> Some ''false''
     then Inl ''ATTESTATION_REQUIRED must be explicitly true or false in production''
     else if raw \<noteq> Some ''true'' then Inr False
     else if playIntegrity = None then Inl ''ATTESTATION_REQUIRED=true but Play Integrity config is unset''
     else Inr True)"

definition parseNetworkRevocation :: "env \<Rightarrow> bool \<Rightarrow> string + bool" where
  "parseNetworkRevocation env isProduction =
    (let raw = env ''NETWORK_REVOCATION'' in
     if isProduction \<and> raw \<noteq> Some ''true'' \<and> raw \<noteq> Some ''false''
     then Inl ''NETWORK_REVOCATION must be explicitly true or false in production''
     else Inr (raw = Some ''true''))"

definition loadConfig :: "(string \<Rightarrow> string + regex_test) \<Rightarrow> env \<Rightarrow> string + verifier_config" where
  "loadConfig compile env =
    (let isProduction = (env ''NODE_ENV'' = Some ''production'') in
     bindR (parsePort (env ''PORT'')) (\<lambda>port.
     bindR (loadPlayIntegrityConfig env) (\<lambda>playIntegrity.
     bindR (parseAttestationRequired env playIntegrity isProduction) (\<lambda>attestationRequired.
     bindR (requireEnv env ''VERIFIER_SHARED_SECRET'') (\<lambda>sharedSecret.
     bindR (requireEnv env ''DATABASE_URL'') (\<lambda>databaseUrl.
     bindR (requireEnv env ''ASSET_STORAGE_HOST_REGEX'') (\<lambda>pattern.
     bindR (compileHostRegex compile pattern) (\<lambda>regex.
     bindR (parseHostAllowlist (env ''ASSET_STORAGE_HOST_ALLOWLIST'')) (\<lambda>hosts.
     bindR (parseMaxAssetBytes (env ''MAX_ASSET_MIB'')) (\<lambda>maxAssetBytes.
     bindR (parseNetworkRevocation env isProduction) (\<lambda>networkRevocation.
     Inr \<lparr>cf_port = port, cf_trustSourcesPath = null_or (env ''TRUST_SOURCES_PATH'') ''./trust-sources.yaml'',
          cf_sharedSecret = sharedSecret, cf_databaseUrl = databaseUrl, cf_assetStorageHostRegex = regex,
          cf_assetStorageHostAllowlist = hosts, cf_maxAssetBytes = maxAssetBytes, cf_sentryDsn = env ''SENTRY_DSN'',
          cf_isProduction = isProduction, cf_playIntegrity = playIntegrity,
          cf_attestationRequired = attestationRequired, cf_networkRevocation = networkRevocation\<rparr>)))))))))))"

section \<open>What a loaded configuration is\<close>

text \<open>Ten inputs can be wrong; a configuration that loads has none of them.\<close>

definition config_wf :: "verifier_config \<Rightarrow> bool" where
  "config_wf c =
    (cf_port c \<in> {1..65535} \<and> cf_sharedSecret c \<noteq> [] \<and> cf_databaseUrl c \<noteq> []
     \<and> cf_assetStorageHostAllowlist c \<noteq> [] \<and> distinct (cf_assetStorageHostAllowlist c)
     \<and> (\<forall>h \<in> set (cf_assetStorageHostAllowlist c). h \<noteq> [] \<and> map lower_char h = h)
     \<and> cf_maxAssetBytes c \<in> {0..512 * 1024 * 1024}
     \<and> (cf_attestationRequired c \<longrightarrow> (\<exists>p. cf_playIntegrity c = Some p \<and> pc_packageName p \<noteq> [])))"

lemma lower_idem: "lower_char (lower_char c) = lower_char c"
proof -
  have "(of_char (char_of (of_char c + 32 :: nat)) :: nat) = of_char c + 32" if "(of_char c :: nat) \<le> 90"
    using that by simp
  then show ?thesis by (auto simp: lower_char_def Let_def)
qed

lemma allowlist_wf:
  assumes "parseHostAllowlist raw = Inr hosts"
  shows "hosts \<noteq> [] \<and> distinct hosts \<and> (\<forall>h \<in> set hosts. h \<noteq> [] \<and> map lower_char h = h)"
  using assms by (auto simp: parseHostAllowlist_def Let_def lower_idem split: if_splits)

lemma mib_bytes_bounds:
  assumes "0 < m" "\<not> num_greater (DecNum m e) 512"
  shows "mib_bytes m e \<in> {0..512 * 1024 * 1024}"
proof (cases "0 \<le> e")
  case True
  with assms have "m * 10 ^ nat e \<le> 512" "0 \<le> m * 10 ^ nat e" by simp_all
  with True show ?thesis by (simp add: mib_bytes_def)
next
  case False
  let ?d = "10 ^ nat (- e) :: int"
  from assms False have "m \<le> 512 * ?d" by simp
  then have "m * 1048576 div ?d \<le> (512 * 1048576 * ?d) div ?d"
    by (intro zdiv_mono1) simp_all
  moreover have "0 \<le> m * 1048576 div ?d" using assms(1) by (simp add: pos_imp_zdiv_nonneg_iff)
  ultimately show ?thesis using False by (simp add: mib_bytes_def)
qed

lemma max_asset_bounds:
  assumes "parseMaxAssetBytes raw = Inr n"
  shows "n \<in> {0..512 * 1024 * 1024}"
proof -
  from assms have "n = 52428800 \<or> (\<exists>m e. 0 < m \<and> \<not> num_greater (DecNum m e) 512 \<and> n = mib_bytes m e)"
    by (auto simp: parseMaxAssetBytes_def DEFAULT_MAX_ASSET_MIB_def MAX_ASSET_MIB_CEILING_def not_le
        simp del: num_greater.simps split: if_splits jsnum.splits)
  then show ?thesis using mib_bytes_bounds by fastforce
qed

lemma loadConfig_steps:
  assumes "loadConfig compile env = Inr c"
  shows "parsePort (env ''PORT'') = Inr (cf_port c)" "loadPlayIntegrityConfig env = Inr (cf_playIntegrity c)"
    "parseAttestationRequired env (cf_playIntegrity c) (env ''NODE_ENV'' = Some ''production'')
      = Inr (cf_attestationRequired c)"
    "requireEnv env ''VERIFIER_SHARED_SECRET'' = Inr (cf_sharedSecret c)"
    "requireEnv env ''DATABASE_URL'' = Inr (cf_databaseUrl c)"
    "parseHostAllowlist (env ''ASSET_STORAGE_HOST_ALLOWLIST'') = Inr (cf_assetStorageHostAllowlist c)"
    "parseMaxAssetBytes (env ''MAX_ASSET_MIB'') = Inr (cf_maxAssetBytes c)"
    "parseNetworkRevocation env (env ''NODE_ENV'' = Some ''production'') = Inr (cf_networkRevocation c)"
  using assms unfolding loadConfig_def Let_def by auto

lemma requireEnv_nonempty: "requireEnv env name = Inr v \<Longrightarrow> v \<noteq> []"
  by (auto simp: requireEnv_def split: option.splits if_splits)

lemma port_bounds: "parsePort raw = Inr p \<Longrightarrow> p \<in> {1..65535}"
  by (auto simp: parsePort_def Let_def split: option.splits if_splits)

lemma package_nonempty: "loadPlayIntegrityConfig env = Inr (Some p) \<Longrightarrow> pc_packageName p \<noteq> []"
  by (auto simp: loadPlayIntegrityConfig_def Let_def split: if_splits)

lemma attestation_config: "parseAttestationRequired env pc live = Inr True \<Longrightarrow> pc \<noteq> None"
  by (auto simp: parseAttestationRequired_def Let_def split: if_splits)

lemma loadConfig_wf:
  assumes "loadConfig compile env = Inr c"
  shows "config_wf c"
proof -
  note st = loadConfig_steps[OF assms]
  have "cf_attestationRequired c \<longrightarrow> (\<exists>p. cf_playIntegrity c = Some p \<and> pc_packageName p \<noteq> [])"
  proof
    assume "cf_attestationRequired c"
    with st(3) attestation_config obtain p where "cf_playIntegrity c = Some p" by fastforce
    with st(2) package_nonempty[of env p] show "\<exists>p. cf_playIntegrity c = Some p \<and> pc_packageName p \<noteq> []" by simp
  qed
  with port_bounds[OF st(1)] requireEnv_nonempty[OF st(4)] requireEnv_nonempty[OF st(5)] allowlist_wf[OF st(6)]
    max_asset_bounds[OF st(7)]
  show ?thesis unfolding config_wf_def by blast
qed

text \<open>Start-up fails closed.  A configuration that loads is well-formed (a valid port, a non-empty secret,
  at least one allowlisted host in lower case, an asset limit of at most 512 MiB); in production it
  loads only when the two safety switches are set to the literals \<open>true\<close> or \<open>false\<close>, and each is on
  exactly when its literal is \<open>true\<close>; and attestation is required only where Android tokens can be
  decoded.\<close>

lemma startup_fails_closed:
  assumes "loadConfig compile env = Inr c"
  shows "config_wf c
    \<and> (cf_attestationRequired c \<longleftrightarrow> env ''ATTESTATION_REQUIRED'' = Some ''true'')
    \<and> (cf_networkRevocation c \<longleftrightarrow> env ''NETWORK_REVOCATION'' = Some ''true'')
    \<and> (env ''NODE_ENV'' = Some ''production'' \<longrightarrow>
         env ''ATTESTATION_REQUIRED'' \<in> {Some ''true'', Some ''false''}
       \<and> env ''NETWORK_REVOCATION'' \<in> {Some ''true'', Some ''false''})"
  using loadConfig_wf[OF assms] loadConfig_steps(3,8)[OF assms]
  by (auto simp: parseAttestationRequired_def parseNetworkRevocation_def Let_def split: if_splits)

definition ex_settings_env :: env where
  "ex_settings_env = map_of [(''NODE_ENV'', ''production''), (''ATTESTATION_REQUIRED'', ''true''),
     (''NETWORK_REVOCATION'', ''false''), (''PLAY_INTEGRITY_PACKAGE_NAME'', ''com.realreel.app''),
     (''PLAY_INTEGRITY_CLOUD_PROJECT_NUMBER'', ''1''), (''VERIFIER_SHARED_SECRET'', ''s''), (''DATABASE_URL'', ''d''),
     (''ASSET_STORAGE_HOST_REGEX'', ''^https''), (''ASSET_STORAGE_HOST_ALLOWLIST'', '' A.supabase.co, b ''),
     (''MAX_ASSET_MIB'', ''0.5'')]"

definition ex_settings :: verifier_config where
  "ex_settings =
    \<lparr>cf_port = 8080, cf_trustSourcesPath = ''./trust-sources.yaml'', cf_sharedSecret = ''s'', cf_databaseUrl = ''d'',
     cf_assetStorageHostRegex = (\<lambda>s. True), cf_assetStorageHostAllowlist = [''a.supabase.co'', ''b''],
     cf_maxAssetBytes = 524288, cf_sentryDsn = None, cf_isProduction = True,
     cf_playIntegrity = Some \<lparr>pc_packageName = ''com.realreel.app''\<rparr>, cf_attestationRequired = True,
     cf_networkRevocation = False\<rparr>"

lemma ex_settings_load: "loadConfig (\<lambda>p. Inr (\<lambda>s. True)) ex_settings_env = Inr ex_settings"
proof -
  have "parsePort None = Inr 8080" "parseHostAllowlist (Some '' A.supabase.co, b '') = Inr [''a.supabase.co'', ''b'']"
    "parseMaxAssetBytes (Some ''0.5'') = Inr 524288"
    by code_simp+
  then show ?thesis
    by (simp add: loadConfig_def ex_settings_env_def ex_settings_def loadPlayIntegrityConfig_def parseAttestationRequired_def
        requireEnv_def compileHostRegex_def parseNetworkRevocation_def Let_def)
qed

theorem startup_fails_closed_witness:
  "cf_attestationRequired ex_settings \<longleftrightarrow> ex_settings_env ''ATTESTATION_REQUIRED'' = Some ''true''"
  using startup_fails_closed[OF ex_settings_load] by blast

end
