(* ===== verification/VerifierServer.thy ===== *)
theory VerifierServer
  imports VerifyFlow VerifierConfig
begin

text \<open>
  The HTTP service around the verifier, \<open>verifier/src/server.ts\<close>: the bearer gate, the two-step defence
  of the storage fetch, the size gates, the run of the pipeline and the mapping of its errors.  The
  framework's routing and body parser, the URL parser, the storage and the state of the datastore
  are parameters; the fetches a request makes are part of its outcome.  Telemetry and logging are
  left out.
\<close>

section \<open>Requests and replies\<close>

datatype server_route = Route_verify | Route_live | Route_ready

text \<open>A request as the framework delivers it: the matched route, the header, and the body, which is parsed
  only after the hooks (an error is one the framework raises).\<close>

record server_request =
  sq_route :: server_route
  sq_authorization :: "string option"
  sq_body :: "string + jsval"

datatype reply_body =
    Reject verify_error_code "string option"
  | Verdict_ok sanitized_store derived_metadata string
  | Live
  | Ready_ok
  | Ready_down string

record server_reply =
  sp_status :: nat
  sp_body :: reply_body

definition reject :: "nat \<Rightarrow> verify_error_code \<Rightarrow> string option \<Rightarrow> server_reply" where
  "reject status code detail = \<lparr>sp_status = status, sp_body = Reject code detail\<rparr>"

record verify_body =
  vb_signedUrl :: string
  vb_expectedUserId :: string
  vb_expectedEtag :: string
  vb_expectedContentLength :: jsnum
  vb_mimeType :: string
  vb_declaredLocation :: location_level

definition level_of :: "string \<Rightarrow> location_level option" where
  "level_of s = List.find (\<lambda>l. level_string l = s) [None_level, General, Precise]"

definition as_num :: "jsval \<Rightarrow> jsnum option" where
  "as_num v = (case v of JNum n \<Rightarrow> Some n | _ \<Rightarrow> None)"

definition parse_verify_body :: "jsval \<Rightarrow> verify_body option" where
  "parse_verify_body body =
    (if \<not> truthy body then None
     else
       (case (as_str (obj_get body ''signedUrl''), as_str (obj_get body ''expectedUserId''),
              as_str (obj_get body ''expectedEtag''), as_num (obj_get body ''expectedContentLength''),
              as_str (obj_get body ''mimeType''), Option.bind (as_str (obj_get body ''declaredLocation'')) level_of) of
          (Some signedUrl, Some userId, Some etag, Some len, Some mime, Some level) \<Rightarrow>
            Some \<lparr>vb_signedUrl = signedUrl, vb_expectedUserId = userId, vb_expectedEtag = etag,
                  vb_expectedContentLength = len, vb_mimeType = mime, vb_declaredLocation = level\<rparr>
        | _ \<Rightarrow> None))"

section \<open>The asset\<close>

text \<open>What the storage answers to a GET with an \<open>If-Match\<close>; a redirect, a timeout or a network failure is
  an error, and so may be reading the body.\<close>

record asset_reply =
  ar_status :: nat
  ar_contentLength :: "string option"
  ar_body :: "string + bytes"

type_synonym asset_storage = "string \<Rightarrow> string \<Rightarrow> string + asset_reply"
type_synonym asset_fetch = "string \<times> string"

definition bearer_ok :: "verifier_config \<Rightarrow> string option \<Rightarrow> bool" where
  "bearer_ok config auth =
    (let authBuf = utf8 (null_or auth []); expectedBuf = utf8 (''Bearer '' @ cf_sharedSecret config) in
     if length authBuf \<noteq> length expectedBuf then False else ctEqual authBuf expectedBuf)"

text \<open>The shape of the URL, then its host.\<close>

definition url_gate :: "verifier_config \<Rightarrow> (string \<Rightarrow> string option) \<Rightarrow> string \<Rightarrow> bool" where
  "url_gate config urlHost signedUrl =
    (if \<not> cf_assetStorageHostRegex config signedUrl then False
     else
       (case urlHost signedUrl of
          None \<Rightarrow> False
        | Some host \<Rightarrow> map lower_char host \<in> set (cf_assetStorageHostAllowlist config)))"

definition num_is :: "jsnum \<Rightarrow> int \<Rightarrow> bool" where
  "num_is n k = (case n of DecNum m e \<Rightarrow> if 0 \<le> e then m * 10 ^ nat e = k else m = k * 10 ^ nat (- e) | _ \<Rightarrow> False)"

definition content_length :: "asset_reply \<Rightarrow> jsnum" where
  "content_length r =
    (case ar_contentLength r of None \<Rightarrow> NaNum | Some h \<Rightarrow> if h = [] then NaNum else js_number h)"

definition STORAGE_ETAG_DETAIL :: string where
  "STORAGE_ETAG_DETAIL = ''object changed between signing and fetch (If-Match failed)''"

definition internal_error :: server_reply where
  "internal_error = reject 500 VERIFIER_UNAVAILABLE None"

text \<open>The bytes, or the reply that refuses them.\<close>

definition fetch_asset :: "verifier_config \<Rightarrow> asset_storage \<Rightarrow> verify_body \<Rightarrow> server_reply + bytes" where
  "fetch_asset config storage body =
    (case storage (vb_signedUrl body) (vb_expectedEtag body) of
       Inl e \<Rightarrow> Inl (reject 502 STORAGE_FETCH_FAILED None)
     | Inr response \<Rightarrow>
         if ar_status response = 412 then Inl (reject 422 STORAGE_FETCH_FAILED (Some STORAGE_ETAG_DETAIL))
         else if \<not> (200 \<le> ar_status response \<and> ar_status response \<le> 299)
         then Inl (reject 502 STORAGE_FETCH_FAILED (Some (''storage GET returned '' @ show_nat (ar_status response))))
         else
           (let contentLength = content_length response in
            if \<not> is_finite_num contentLength \<or> contentLength \<noteq> vb_expectedContentLength body
               \<or> num_greater contentLength (cf_maxAssetBytes config)
            then Inl (reject 422 STORAGE_FETCH_FAILED
                   (Some (''content-length mismatch or oversize (got '' @ js_num_string contentLength
                          @ '', expected '' @ js_num_string (vb_expectedContentLength body) @ '')'')))
            else
              (case ar_body response of
                 Inl e \<Rightarrow> Inl internal_error
               | Inr assetBytes \<Rightarrow>
                   if \<not> num_is contentLength (int (length assetBytes))
                   then Inl (reject 422 STORAGE_FETCH_FAILED (Some ''streamed bytes differ from content-length header''))
                   else Inr assetBytes)))"

section \<open>The routes\<close>

definition error_reply :: "exn \<Rightarrow> server_reply" where
  "error_reply e =
    (case e of
       VerifyErr err \<Rightarrow> reject 422 (err_code err) (err_detail err)
     | _ \<Rightarrow> internal_error)"

text \<open>What the configuration puts into the pipeline.\<close>

definition configured :: "verifier_config \<Rightarrow> 's realreel_env \<Rightarrow> 's realreel_env" where
  "configured config env =
    env\<lparr>re_playIntegrity := cf_playIntegrity config, re_attestationRequired := cf_attestationRequired config\<rparr>"

definition verify_args_of :: "verifier_config \<Rightarrow> trust_config \<Rightarrow> verify_body \<Rightarrow> bytes \<Rightarrow> verify_args" where
  "verify_args_of config trustConfig body assetBytes =
    \<lparr>va_assetBytes = assetBytes, va_mimeType = vb_mimeType body, va_declaredLocation = vb_declaredLocation body,
     va_trustConfig = trustConfig, va_networkRevocation = cf_networkRevocation config\<rparr>"

record 's server_env =
  se_config :: verifier_config
  se_trustConfig :: trust_config
  se_env :: "'s realreel_env"
  se_reader :: c2pa_reader
  se_probes :: probes
  se_urlHost :: "string \<Rightarrow> string option"
  se_storage :: asset_storage
  se_pingDb :: "'s \<Rightarrow> string + unit"

definition run_verify :: "'s server_env \<Rightarrow> verify_body \<Rightarrow> bytes \<Rightarrow> 's \<Rightarrow> verify_result res \<times> 's" where
  "run_verify se body assetBytes s =
    verify (configured (se_config se) (se_env se)) (se_reader se) (se_probes se)
      (verify_args_of (se_config se) (se_trustConfig se) body assetBytes) s"

definition verify_route :: "'s server_env \<Rightarrow> jsval \<Rightarrow> 's \<Rightarrow> server_reply \<times> 's \<times> asset_fetch list" where
  "verify_route se json s =
    (case parse_verify_body json of
       None \<Rightarrow> (reject 400 MANIFEST_MALFORMED (Some ''missing or malformed request body fields''), s, [])
     | Some body \<Rightarrow>
         if \<not> url_gate (se_config se) (se_urlHost se) (vb_signedUrl body)
         then (reject 400 STORAGE_FETCH_FAILED None, s, [])
         else
           (let fetches = [(vb_signedUrl body, vb_expectedEtag body)] in
            (case fetch_asset (se_config se) (se_storage se) body of
               Inl reply \<Rightarrow> (reply, s, fetches)
             | Inr assetBytes \<Rightarrow>
                 (case run_verify se body assetBytes s of
                    (Inl e, s') \<Rightarrow> (error_reply e, s', fetches)
                  | (Inr v, s') \<Rightarrow>
                      (\<lparr>sp_status = 200,
                        sp_body = Verdict_ok (vf_sanitizedManifest v) (vf_derived v) (vf_contentHash v)\<rparr>, s', fetches)))))"

definition serve :: "'s server_env \<Rightarrow> server_request \<Rightarrow> 's \<Rightarrow> server_reply \<times> 's \<times> asset_fetch list" where
  "serve se req s =
    (case sq_route req of
       Route_live \<Rightarrow> (\<lparr>sp_status = 200, sp_body = Live\<rparr>, s, [])
     | Route_ready \<Rightarrow>
         (case se_pingDb se s of
            Inr u \<Rightarrow> (\<lparr>sp_status = 200, sp_body = Ready_ok\<rparr>, s, [])
          | Inl detail \<Rightarrow> (\<lparr>sp_status = 503, sp_body = Ready_down detail\<rparr>, s, []))
     | Route_verify \<Rightarrow>
         if \<not> bearer_ok (se_config se) (sq_authorization req) then (reject 401 UNAUTHORIZED None, s, [])
         else
           (case sq_body req of
              Inl e \<Rightarrow> (internal_error, s, [])
            | Inr json \<Rightarrow> verify_route se json s))"

section \<open>What a reply tells\<close>

lemma bearer_ok_iff: "bearer_ok config auth \<longleftrightarrow> null_or auth [] = ''Bearer '' @ cf_sharedSecret config"
  by (auto simp: bearer_ok_def Let_def)

definition level_wf :: "verify_body \<Rightarrow> jsval \<Rightarrow> bool" where
  "level_wf body json \<longleftrightarrow> obj_get json ''declaredLocation'' = JStr (level_string (vb_declaredLocation body))"

lemma level_of_Some: "level_of s = Some l \<Longrightarrow> level_string l = s"
  by (auto simp: level_of_def split: if_splits)

text \<open>An asset that passed the gates: fetched once, under the tag the caller saw, at exactly the size the
  caller named and within the limit.\<close>

definition fetched_asset :: "verifier_config \<Rightarrow> asset_storage \<Rightarrow> verify_body \<Rightarrow> bytes \<Rightarrow> bool" where
  "fetched_asset config storage body assetBytes \<longleftrightarrow>
    (\<exists>response. storage (vb_signedUrl body) (vb_expectedEtag body) = Inr response
       \<and> ar_status response \<in> {200..299} \<and> ar_body response = Inr assetBytes
       \<and> num_is (vb_expectedContentLength body) (int (length assetBytes))
       \<and> int (length assetBytes) \<le> cf_maxAssetBytes config)"

lemma num_is_greater: "num_is n k \<Longrightarrow> num_greater n b \<longleftrightarrow> b < k"
  by (cases n) (auto simp: num_is_def split: if_splits)

lemma fetch_asset_Inr:
  assumes "fetch_asset config storage body = Inr assetBytes"
  shows "fetched_asset config storage body assetBytes"
proof -
  from assms obtain response where r: "storage (vb_signedUrl body) (vb_expectedEtag body) = Inr response"
    "200 \<le> ar_status response" "ar_status response \<le> 299" "ar_body response = Inr assetBytes"
    "content_length response = vb_expectedContentLength body"
    "\<not> num_greater (content_length response) (cf_maxAssetBytes config)"
    "num_is (content_length response) (int (length assetBytes))"
    by (auto simp: fetch_asset_def Let_def simp del: num_greater.simps split: sum.splits if_splits)
  with num_is_greater[OF r(7)] show ?thesis by (auto simp: fetched_asset_def)
qed

lemma verify_route_200:
  assumes "verify_route se json s = (\<lparr>sp_status = 200, sp_body = b\<rparr>, s', fetches)"
  obtains body assetBytes v where "parse_verify_body json = Some body"
    "url_gate (se_config se) (se_urlHost se) (vb_signedUrl body)"
    "fetches = [(vb_signedUrl body, vb_expectedEtag body)]"
    "fetch_asset (se_config se) (se_storage se) body = Inr assetBytes"
    "run_verify se body assetBytes s = (Inr v, s')"
    "b = Verdict_ok (vf_sanitizedManifest v) (vf_derived v) (vf_contentHash v)"
proof -
  have err: "sp_status (error_reply e) \<noteq> 200" for e
    by (cases e) (simp_all add: error_reply_def internal_error_def reject_def)
  have ref: "fetch_asset c st bd = Inl r \<Longrightarrow> sp_status r \<noteq> 200" for c st bd r
    by (auto simp: fetch_asset_def reject_def internal_error_def Let_def split: sum.splits if_splits)
  from assms obtain body where body: "parse_verify_body json = Some body"
    "url_gate (se_config se) (se_urlHost se) (vb_signedUrl body)"
    by (auto simp: verify_route_def reject_def split: option.splits if_splits)
  obtain assetBytes where a: "fetch_asset (se_config se) (se_storage se) body = Inr assetBytes"
    using assms body ref by (cases "fetch_asset (se_config se) (se_storage se) body")
      (fastforce simp: verify_route_def)+
  obtain r s1 where v: "run_verify se body assetBytes s = (r, s1)" by fastforce
  show ?thesis
  proof (cases r)
    case (Inl e)
    with assms body a v have "sp_status (error_reply e) = 200" by (simp add: verify_route_def)
    with err show ?thesis by blast
  next
    case (Inr w)
    with assms body a v that show ?thesis by (simp add: verify_route_def)
  qed
qed

lemma served_200:
  assumes "serve se req s = (\<lparr>sp_status = 200, sp_body = b\<rparr>, s', fetches)" "sq_route req = Route_verify"
  obtains json body assetBytes v where "bearer_ok (se_config se) (sq_authorization req)" "sq_body req = Inr json"
    "parse_verify_body json = Some body" "url_gate (se_config se) (se_urlHost se) (vb_signedUrl body)"
    "fetches = [(vb_signedUrl body, vb_expectedEtag body)]"
    "fetch_asset (se_config se) (se_storage se) body = Inr assetBytes"
    "run_verify se body assetBytes s = (Inr v, s')"
    "b = Verdict_ok (vf_sanitizedManifest v) (vf_derived v) (vf_contentHash v)"
proof -
  from assms obtain json where j: "bearer_ok (se_config se) (sq_authorization req)" "sq_body req = Inr json"
    and r: "verify_route se json s = (\<lparr>sp_status = 200, sp_body = b\<rparr>, s', fetches)"
    by (auto simp: serve_def reject_def internal_error_def split: if_splits sum.splits)
  from r show ?thesis by (rule verify_route_200) (rule that[OF j])
qed

text \<open>The same request in a state in which the pipeline refuses it.\<close>

lemma served_refusal:
  assumes "sq_route req = Route_verify" "bearer_ok (se_config se) (sq_authorization req)" "sq_body req = Inr json"
    and "parse_verify_body json = Some body" "url_gate (se_config se) (se_urlHost se) (vb_signedUrl body)"
    and "fetch_asset (se_config se) (se_storage se) body = Inr assetBytes"
    and "run_verify se body assetBytes s = (Inl e, s')"
  shows "serve se req s = (error_reply e, s', [(vb_signedUrl body, vb_expectedEtag body)])"
  using assms by (simp add: serve_def verify_route_def)

text \<open>C28. The verifier says \<open>ok\<close> only about what it checked: a reply of 200 to a verification means that the
  caller presented the shared secret, that the URL has the configured shape and an allowlisted host,
  that the asset was fetched exactly once under the expected tag, is as long as the caller expects
  and within the limit, and that the pipeline, configured from the environment, accepted these very
  bytes for the declared location level.\<close>

theorem served_ok_is_verified:
  assumes "serve se req s = (\<lparr>sp_status = 200, sp_body = b\<rparr>, s', fetches)" "sq_route req = Route_verify"
  shows "\<exists>json body host assetBytes v.
     sq_authorization req = Some (''Bearer '' @ cf_sharedSecret (se_config se))
     \<and> sq_body req = Inr json \<and> parse_verify_body json = Some body
     \<and> cf_assetStorageHostRegex (se_config se) (vb_signedUrl body)
     \<and> se_urlHost se (vb_signedUrl body) = Some host
     \<and> map lower_char host \<in> set (cf_assetStorageHostAllowlist (se_config se))
     \<and> fetches = [(vb_signedUrl body, vb_expectedEtag body)]
     \<and> fetched_asset (se_config se) (se_storage se) body assetBytes
     \<and> verify (configured (se_config se) (se_env se)) (se_reader se) (se_probes se)
         (verify_args_of (se_config se) (se_trustConfig se) body assetBytes) s = (Inr v, s')
     \<and> b = Verdict_ok (vf_sanitizedManifest v) (vf_derived v) (vf_contentHash v)"
proof -
  from assms obtain json body assetBytes v where r: "bearer_ok (se_config se) (sq_authorization req)" "sq_body req = Inr json"
    "parse_verify_body json = Some body" "url_gate (se_config se) (se_urlHost se) (vb_signedUrl body)"
    "fetches = [(vb_signedUrl body, vb_expectedEtag body)]"
    "fetch_asset (se_config se) (se_storage se) body = Inr assetBytes"
    "run_verify se body assetBytes s = (Inr v, s')"
    "b = Verdict_ok (vf_sanitizedManifest v) (vf_derived v) (vf_contentHash v)"
    by (rule served_200)
  have "sq_authorization req = Some (''Bearer '' @ cf_sharedSecret (se_config se))"
    using r(1) by (auto simp: bearer_ok_iff split: option.splits)
  moreover obtain host where "cf_assetStorageHostRegex (se_config se) (vb_signedUrl body)"
    "se_urlHost se (vb_signedUrl body) = Some host"
    "map lower_char host \<in> set (cf_assetStorageHostAllowlist (se_config se))"
    using r(4) by (auto simp: url_gate_def split: if_splits option.splits)
  ultimately show ?thesis using r fetch_asset_Inr unfolding run_verify_def by blast
qed

text \<open>C29. The verifier fetches nothing for strangers and nothing from elsewhere: a request makes at most one
  fetch, and makes one only for a caller with the shared secret, to the signed URL of its body, under
  its tag, on an allowlisted host; and a request that fetches nothing leaves the datastore as it was.\<close>

theorem fetches_only_allowlisted:
  assumes "serve se req s = (reply, s', fetches)"
  shows "(fetches = [] \<and> s' = s)
    \<or> (\<exists>json body host. fetches = [(vb_signedUrl body, vb_expectedEtag body)]
        \<and> bearer_ok (se_config se) (sq_authorization req)
        \<and> sq_body req = Inr json \<and> parse_verify_body json = Some body
        \<and> se_urlHost se (vb_signedUrl body) = Some host
        \<and> map lower_char host \<in> set (cf_assetStorageHostAllowlist (se_config se)))"
  using assms
  by (auto simp: serve_def verify_route_def url_gate_def Let_def
      split: server_route.splits sum.splits if_splits option.splits prod.splits)

text \<open>The replies of the verification route, by status.\<close>

definition reply_wf :: "server_reply \<Rightarrow> bool" where
  "reply_wf r =
    (case sp_body r of
       Verdict_ok m d h \<Rightarrow> sp_status r = 200
     | Reject code detail \<Rightarrow>
         (sp_status r = 401 \<and> code = UNAUTHORIZED)
         \<or> (sp_status r = 400 \<and> code \<in> {MANIFEST_MALFORMED, STORAGE_FETCH_FAILED})
         \<or> (sp_status r = 502 \<and> code = STORAGE_FETCH_FAILED)
         \<or> (sp_status r = 500 \<and> code = VERIFIER_UNAVAILABLE \<and> detail = None)
         \<or> sp_status r = 422
     | _ \<Rightarrow> False)"

lemma reply_wf_reject [simp]:
  "reply_wf (reject 401 UNAUTHORIZED d)" "reply_wf (reject 400 MANIFEST_MALFORMED d)"
  "reply_wf (reject 400 STORAGE_FETCH_FAILED d)" "reply_wf (reject 502 STORAGE_FETCH_FAILED d)"
  "reply_wf (reject 422 c d)" "reply_wf internal_error"
  by (simp_all add: reply_wf_def reject_def internal_error_def)

lemma error_reply_wf [simp]: "reply_wf (error_reply e)"
  by (cases e) (simp_all add: error_reply_def)

lemma fetch_asset_Inl: "fetch_asset config storage body = Inl r \<Longrightarrow> reply_wf r \<and> sp_status r \<noteq> 401"
  by (auto simp: fetch_asset_def Let_def split: sum.splits if_splits) (auto simp: reject_def internal_error_def)

lemma verify_route_wf:
  assumes "verify_route se json s = (reply, s', fetches)"
  shows "reply_wf reply \<and> sp_status reply \<noteq> 401"
proof -
  have "sp_status (error_reply e) \<noteq> 401" for e
    by (cases e) (simp_all add: error_reply_def internal_error_def reject_def)
  with assms show ?thesis
    by (auto simp: verify_route_def Let_def dest: fetch_asset_Inl split: option.splits if_splits sum.splits prod.splits)
       (auto simp: reply_wf_def reject_def)
qed

text \<open>C30. Every reply of the verification route is an answer and tells whose fault it is: 200 with a verdict,
  401 exactly for a caller without the secret, 400 for a request that cannot be used, 422 for an
  object or an upload that does not qualify, 502 for a storage that does not deliver, 500 for the
  service itself.  A rejection by the pipeline reaches the caller with its code and detail under 422,
  and any other failure of the pipeline tells nothing but that the verifier is unavailable.\<close>

theorem replies_classified:
  assumes "serve se req s = (reply, s', fetches)" "sq_route req = Route_verify"
  shows "reply_wf reply \<and> (sp_status reply = 401 \<longleftrightarrow> \<not> bearer_ok (se_config se) (sq_authorization req))
    \<and> (\<forall>json body assetBytes e. bearer_ok (se_config se) (sq_authorization req) \<and> sq_body req = Inr json
         \<and> parse_verify_body json = Some body \<and> url_gate (se_config se) (se_urlHost se) (vb_signedUrl body)
         \<and> fetch_asset (se_config se) (se_storage se) body = Inr assetBytes
         \<and> fst (run_verify se body assetBytes s) = Inl e \<longrightarrow>
         reply = (case e of VerifyErr err \<Rightarrow> reject 422 (err_code err) (err_detail err)
                  | _ \<Rightarrow> reject 500 VERIFIER_UNAVAILABLE None))"
proof (intro conjI allI impI)
  have "reply_wf reply \<and> (sp_status reply = 401 \<longleftrightarrow> \<not> bearer_ok (se_config se) (sq_authorization req))"
  proof (cases "sq_body req")
    case (Inl e)
    with assms show ?thesis
      by (auto simp: serve_def reject_def internal_error_def reply_wf_def split: if_splits)
  next
    case (Inr json)
    show ?thesis
    proof (cases "bearer_ok (se_config se) (sq_authorization req)")
      case True
      with assms Inr have "verify_route se json s = (reply, s', fetches)" by (simp add: serve_def)
      from verify_route_wf[OF this] True show ?thesis by simp
    next
      case False
      with assms have "reply = reject 401 UNAUTHORIZED None" by (simp add: serve_def)
      with False show ?thesis by simp (simp add: reject_def)
    qed
  qed
  then show "reply_wf reply" "sp_status reply = 401 \<longleftrightarrow> \<not> bearer_ok (se_config se) (sq_authorization req)" by auto
  fix json body assetBytes e
  assume "bearer_ok (se_config se) (sq_authorization req) \<and> sq_body req = Inr json
    \<and> parse_verify_body json = Some body \<and> url_gate (se_config se) (se_urlHost se) (vb_signedUrl body)
    \<and> fetch_asset (se_config se) (se_storage se) body = Inr assetBytes
    \<and> fst (run_verify se body assetBytes s) = Inl e"
  then have "reply = error_reply e"
    using assms by (auto simp: serve_def verify_route_def Let_def split: prod.splits sum.splits)
  then show "reply = (case e of VerifyErr err \<Rightarrow> reject 422 (err_code err) (err_detail err)
      | _ \<Rightarrow> reject 500 VERIFIER_UNAVAILABLE None)"
    by (simp only: error_reply_def internal_error_def)
qed

end
