(* ===== verification/Telemetry.thy ===== *)
theory Telemetry
  imports VerifierServer
begin

text \<open>
  Error reporting of the CA (\<open>ca/_shared/sentry.ts\<close>) and of the verifier (\<open>verifier/src/observability.ts\<close> with the
  error handler of \<open>server.ts\<close>), and the Postgres adapter (\<open>verifier/src/db.ts\<close>).  The Sentry SDK, its loading and the
  SQL functions are parameters.
\<close>

section \<open>The CA\<close>

text \<open>Events go to the console until the SDK is loaded, with the DSN and the environment it was initialised with.\<close>

datatype sentry_impl = Console_fallback | Sentry_sdk string string

record sentry_state =
  ss_impl :: sentry_impl
  ss_initialized :: bool

definition sentry_start :: sentry_state where
  "sentry_start = \<lparr>ss_impl = Console_fallback, ss_initialized = False\<rparr>"

text \<open>\<open>initSentry\<close> up to its dynamic import: the flag is set before the DSN is looked at, and the import, if any, is
  returned as the pair of DSN and environment it will be initialised with.\<close>

definition init_begin :: "env \<Rightarrow> sentry_state \<Rightarrow> (string \<times> string) option \<times> sentry_state" where
  "init_begin env s =
    (if ss_initialized s then (None, s)
     else
       ((case env ''SENTRY_DSN_EDGE'' of
           None \<Rightarrow> None
         | Some dsn \<Rightarrow> if dsn = [] then None else Some (dsn, null_or (env ''SUPABASE_ENV'') ''unknown'')),
        s\<lparr>ss_initialized := True\<rparr>))"

definition load_failure_line :: "string \<Rightarrow> string" where
  "load_failure_line e =
    ''[sentry-fallback] Sentry SDK failed to load: '' @ e @ '' '' @ em_dash @ '' staying on console fallback''"

text \<open>The rest of it, when the import has ended: with what it logs.\<close>

definition init_loaded :: "string \<times> string \<Rightarrow> string option \<Rightarrow> sentry_state \<Rightarrow> string list \<times> sentry_state" where
  "init_loaded target failure s =
    (case failure of
       Some e \<Rightarrow> ([load_failure_line e], s)
     | None \<Rightarrow> ([], s\<lparr>ss_impl := Sentry_sdk (fst target) (snd target)\<rparr>))"

text \<open>The life of an isolate: calls of \<open>initSentry\<close>, the end of the import a call started, and captures.\<close>

datatype sentry_event = Init_called env | Import_ended "string option" | Captured string

record sentry_run =
  sr_state :: sentry_state
  sr_pending :: "(string \<times> string) option"
  sr_sent :: "(sentry_impl \<times> string) list"
  sr_imports :: "(string \<times> string) list"

definition run_start :: sentry_run where
  "run_start = \<lparr>sr_state = sentry_start, sr_pending = None, sr_sent = [], sr_imports = []\<rparr>"

fun sentry_step :: "sentry_event \<Rightarrow> sentry_run \<Rightarrow> sentry_run" where
  "sentry_step (Init_called env) r =
     (case init_begin env (sr_state r) of
        (None, s) \<Rightarrow> r\<lparr>sr_state := s\<rparr>
      | (Some target, s) \<Rightarrow>
          r\<lparr>sr_state := s, sr_pending := Some target, sr_imports := sr_imports r @ [target]\<rparr>)"
| "sentry_step (Import_ended failure) r =
     (case sr_pending r of
        None \<Rightarrow> r
      | Some target \<Rightarrow> r\<lparr>sr_state := snd (init_loaded target failure (sr_state r)), sr_pending := None\<rparr>)"
| "sentry_step (Captured m) r = r\<lparr>sr_sent := sr_sent r @ [(ss_impl (sr_state r), m)]\<rparr>"

definition run_wf :: "sentry_run \<Rightarrow> bool" where
  "run_wf r =
    (length (sr_imports r) \<le> 1
     \<and> (sr_imports r \<noteq> [] \<longrightarrow> ss_initialized (sr_state r))
     \<and> (\<forall>t. sr_pending r = Some t \<longrightarrow> t \<in> set (sr_imports r))
     \<and> (\<forall>d e. ss_impl (sr_state r) = Sentry_sdk d e \<longrightarrow> (d, e) \<in> set (sr_imports r))
     \<and> (\<forall>m d e. (Sentry_sdk d e, m) \<in> set (sr_sent r) \<longrightarrow> (d, e) \<in> set (sr_imports r)))"

lemma sentry_step_wf: "run_wf r \<Longrightarrow> run_wf (sentry_step ev r)"
  by (cases ev)
    (auto simp: run_wf_def init_begin_def init_loaded_def split: option.splits if_splits prod.splits)

lemma sentry_run_wf: "run_wf (fold sentry_step evs run_start)"
proof -
  have "run_wf r \<Longrightarrow> run_wf (fold sentry_step evs r)" for r
    by (induction evs arbitrary: r) (simp_all add: sentry_step_wf)
  then show ?thesis by (simp add: run_wf_def run_start_def sentry_start_def)
qed

text \<open>However often and in whatever order the functions of an isolate call it, the SDK is imported at most once, and
  every event reaches the console or the one DSN of that import; none is lost.\<close>

lemma sentry_initialised_once:
  "length (sr_imports (fold sentry_step evs run_start)) \<le> 1
     \<and> map snd (sr_sent (fold sentry_step evs run_start))
         = List.map_filter (\<lambda>ev. case ev of Captured m \<Rightarrow> Some m | _ \<Rightarrow> None) evs"
proof
  show "length (sr_imports (fold sentry_step evs run_start)) \<le> 1"
    using sentry_run_wf by (simp add: run_wf_def)
  have "map snd (sr_sent (fold sentry_step evs r))
      = map snd (sr_sent r) @ List.map_filter (\<lambda>ev. case ev of Captured m \<Rightarrow> Some m | _ \<Rightarrow> None) evs" for r
    by (induction evs arbitrary: r)
      (auto simp: List.map_filter_def split: sentry_event.splits option.splits prod.splits)
  then show "map snd (sr_sent (fold sentry_step evs run_start))
         = List.map_filter (\<lambda>ev. case ev of Captured m \<Rightarrow> Some m | _ \<Rightarrow> None) evs"
    by (simp add: run_start_def)
qed

section \<open>The verifier\<close>

definition shouldReportFastifyError :: "exn \<Rightarrow> bool" where
  "shouldReportFastifyError e = (case e of VerifyErr _ \<Rightarrow> False | _ \<Rightarrow> True)"

record sdk_options =
  so_dsn :: string
  so_environment :: string
  so_shouldHandleError :: "exn \<Rightarrow> bool"

text \<open>The state is the flag; the result is the initialisation of the SDK, if there is one.\<close>

definition initObservability :: "verifier_config \<Rightarrow> bool \<Rightarrow> sdk_options option \<times> bool" where
  "initObservability config initialized =
    (if initialized then (None, initialized)
     else
       ((case cf_sentryDsn config of
           None \<Rightarrow> None
         | Some dsn \<Rightarrow>
             if dsn = [] then None
             else Some \<lparr>so_dsn = dsn, so_environment = (if cf_isProduction config then ''production'' else ''development''),
                        so_shouldHandleError = shouldReportFastifyError\<rparr>),
        True))"

record sentry_message =
  sm_message :: string
  sm_warning :: bool
  sm_tags :: "(string \<times> string) list"
  sm_detail :: "string option"

text \<open>What one throw files: the integration's exception, the handler's structured message, the handler's own exception.\<close>

datatype report = Unhandled_exception | Structured sentry_message | Handler_exception

definition verify_error_message :: "verify_error \<Rightarrow> sentry_message" where
  "verify_error_message err =
    \<lparr>sm_message = ''verify_error.'' @ code_string (err_code err),
     sm_warning = (err_code err = VERIFIER_UNAVAILABLE),
     sm_tags = (''error_code'', code_string (err_code err))
       # (case err_category err of Some c \<Rightarrow> if c = [] then [] else [(''category'', c)] | None \<Rightarrow> []),
     sm_detail = (case err_detail err of Some d \<Rightarrow> if d = [] then None else Some d | None \<Rightarrow> None)\<rparr>"

definition reports_of :: "exn \<Rightarrow> report list" where
  "reports_of e =
    (if shouldReportFastifyError e then [Unhandled_exception] else [])
    @ (case e of VerifyErr err \<Rightarrow> [Structured (verify_error_message err)] | _ \<Rightarrow> [Handler_exception])"

text \<open>A rejection is filed once, as a message and never as an exception, and exactly when the reply is not a 500.\<close>

lemma verdicts_do_not_page:
  "sp_status (error_reply e) = 500 \<longleftrightarrow> Unhandled_exception \<in> set (reports_of e)"
  "sp_status (error_reply e) \<noteq> 500 \<longleftrightarrow> (\<exists>m. reports_of e = [Structured m])"
  by (cases e;
      simp add: error_reply_def reports_of_def shouldReportFastifyError_def reject_def internal_error_def)+

section \<open>The Postgres adapter\<close>

text \<open>The module's client: none, or the one of a URL.  The database itself is the state behind it.\<close>

type_synonym db_client = "string option"

definition initDb :: "string \<Rightarrow> db_client \<Rightarrow> exn + db_client" where
  "initDb databaseUrl client =
    (case client of
       Some _ \<Rightarrow> Inl (OtherErr (''initDb called twice '' @ em_dash @ '' verifier expects single init''))
     | None \<Rightarrow> Inr (Some databaseUrl))"

definition getSql :: "db_client \<Rightarrow> exn + string" where
  "getSql client =
    derefR (OtherErr (''Postgres client not initialized '' @ em_dash @ '' call initDb(config.databaseUrl) at startup'')) client"

record 's sql_functions =
  sq_lookup :: "'s \<Rightarrow> string \<Rightarrow> revocation_row list res"
  sq_consume :: "'s \<Rightarrow> string \<Rightarrow> string \<Rightarrow> unit res \<times> 's"
  sq_ping :: "'s \<Rightarrow> unit res"

definition lookupSigningKeyRevocation :: "'s sql_functions \<Rightarrow> db_client \<Rightarrow> 's \<Rightarrow> string \<Rightarrow> revocation_row option res" where
  "lookupSigningKeyRevocation sql client db serial =
    bindR (getSql client) (\<lambda>_. bindR (sq_lookup sql db serial) (\<lambda>rows.
    Inr (case rows of [] \<Rightarrow> None | row # _ \<Rightarrow> Some row)))"

definition consumeAndRecordAttestation ::
  "'s sql_functions \<Rightarrow> db_client \<Rightarrow> 's \<Rightarrow> string \<Rightarrow> string \<Rightarrow> unit res \<times> 's"
where
  "consumeAndRecordAttestation sql client db keyId nonce =
    (case getSql client of Inl e \<Rightarrow> (Inl e, db) | Inr _ \<Rightarrow> sq_consume sql db keyId nonce)"

definition pingDb :: "'s sql_functions \<Rightarrow> db_client \<Rightarrow> 's \<Rightarrow> unit res" where
  "pingDb sql client db = bindR (getSql client) (\<lambda>_. sq_ping sql db)"

definition closeDbPool :: "db_client \<Rightarrow> db_client" where
  "closeDbPool client = None"

definition postgresAdapter :: "'s sql_functions \<Rightarrow> db_client \<Rightarrow> 's datastore" where
  "postgresAdapter sql client =
    \<lparr>ds_lookup = lookupSigningKeyRevocation sql client, ds_burn = consumeAndRecordAttestation sql client\<rparr>"

text \<open>Before start-up has initialised it, the adapter refuses every operation and leaves the database alone; afterwards
  it is initialised once, with the configured URL.\<close>

lemma adapter_needs_init:
  "isl (ds_lookup (postgresAdapter sql None) db serial)"
  "isl (fst (ds_burn (postgresAdapter sql None) db keyId nonce))"
  "snd (ds_burn (postgresAdapter sql None) db keyId nonce) = db"
  "isl (pingDb sql None db)"
  by (simp_all add: postgresAdapter_def lookupSigningKeyRevocation_def consumeAndRecordAttestation_def pingDb_def
      getSql_def)

lemma initDb_once: "initDb u client = Inr client' \<longleftrightarrow> client = None \<and> client' = Some u"
  by (auto simp: initDb_def split: option.splits)

lemma adapter_delegates:
  "initDb u None = Inr client \<Longrightarrow>
     ds_burn (postgresAdapter sql client) = sq_consume sql
     \<and> (\<forall>db s. ds_lookup (postgresAdapter sql client) db s = bindR (sq_lookup sql db s)
          (\<lambda>rows. Inr (if rows = [] then None else Some (hd rows))))"
  by (auto simp: initDb_once postgresAdapter_def lookupSigningKeyRevocation_def consumeAndRecordAttestation_def
      getSql_def fun_eq_iff split: list.splits intro!: bindR_cong)

end
