(* ===== verification/LeafIssuance.thy ===== *)
theory LeafIssuance
  imports Asn1 AndroidRevocation Dates
begin

text \<open>
  Issuance of a signing certificate, the CA half of \<open>ca/_shared/attestation/pki.ts\<close>: the leaf
  profile from the environment, the certificate template, and \<open>issueLeafChainFromCSR\<close>.  The DER
  encoder, the hashes and the signer (Cloud KMS) are parameters; the random serial and the clock are
  arguments.
\<close>

section \<open>Identifiers\<close>

definition OID_countryName :: string where "OID_countryName = ''2.5.4.6''"
definition OID_organizationName :: string where "OID_organizationName = ''2.5.4.10''"
definition OID_commonName :: string where "OID_commonName = ''2.5.4.3''"
definition OID_basicConstraints :: string where "OID_basicConstraints = ''2.5.29.19''"
definition OID_keyUsage :: string where "OID_keyUsage = ''2.5.29.15''"
definition OID_extKeyUsage :: string where "OID_extKeyUsage = ''2.5.29.37''"
definition OID_subjectKeyIdentifier :: string where "OID_subjectKeyIdentifier = ''2.5.29.14''"
definition OID_authorityKeyIdentifier :: string where "OID_authorityKeyIdentifier = ''2.5.29.35''"
definition OID_certificatePolicies :: string where "OID_certificatePolicies = ''2.5.29.32''"
definition OID_authorityInfoAccess :: string where "OID_authorityInfoAccess = ''1.3.6.1.5.5.7.1.1''"
definition OID_adOcsp :: string where "OID_adOcsp = ''1.3.6.1.5.5.7.48.1''"
definition OID_adCaIssuers :: string where "OID_adCaIssuers = ''1.3.6.1.5.5.7.48.2''"
definition OID_ecdsaWithSHA384 :: string where "OID_ecdsaWithSHA384 = ''1.2.840.10045.4.3.3''"
definition OID_ekuEmailProtection :: string where "OID_ekuEmailProtection = ''1.3.6.1.5.5.7.3.4''"
definition OID_ekuDocumentSigning :: string where "OID_ekuDocumentSigning = ''1.3.6.1.5.5.7.3.36''"
definition OID_ekuC2PAClaimSigning :: string where "OID_ekuC2PAClaimSigning = ''1.3.6.1.4.1.62558.2.1''"
definition OID_c2paCertPolicy :: string where "OID_c2paCertPolicy = ''1.3.6.1.4.1.62558.1.1''"
definition OID_c2paAssuranceLevel :: string where "OID_c2paAssuranceLevel = ''1.3.6.1.4.1.62558.3''"
definition OID_c2paAssuranceLevel1 :: string where "OID_c2paAssuranceLevel1 = ''1.3.6.1.4.1.62558.3.10''"
definition OID_c2paAssuranceLevel2 :: string where "OID_c2paAssuranceLevel2 = ''1.3.6.1.4.1.62558.3.20''"
definition OID_c2paCplRecord :: string where "OID_c2paCplRecord = ''1.3.6.1.4.1.62558.4''"

lemmas oid_defs =
  OID_countryName_def OID_organizationName_def OID_commonName_def OID_basicConstraints_def
  OID_keyUsage_def OID_extKeyUsage_def OID_subjectKeyIdentifier_def OID_authorityKeyIdentifier_def
  OID_certificatePolicies_def OID_authorityInfoAccess_def OID_adOcsp_def OID_adCaIssuers_def
  OID_ecdsaWithSHA384_def OID_ekuEmailProtection_def OID_ekuDocumentSigning_def
  OID_ekuC2PAClaimSigning_def OID_c2paCertPolicy_def OID_c2paAssuranceLevel_def
  OID_c2paAssuranceLevel1_def OID_c2paAssuranceLevel2_def OID_c2paCplRecord_def

section \<open>The leaf profile\<close>

datatype leaf_platform = Leaf_ios | Leaf_android
datatype assurance_level = AL1 | AL2

record leaf_profile =
  lp_platform :: leaf_platform
  lp_assuranceLevel :: assurance_level
  lp_cplRecordUuid :: string
  lp_ocspUrl :: string
  lp_caIssuersUrl :: string

definition is_hex :: "char \<Rightarrow> bool" where
  "is_hex c = (is_digit c \<or> c \<in> set ''abcdefABCDEF'')"

text \<open>The pattern \<open>UUID_36\<close>: five hex groups of 8, 4, 4, 4 and 12 digits.\<close>

definition UUID_36 :: "string \<Rightarrow> bool" where
  "UUID_36 s =
    (let gs = split_char (CHR ''-'') s in
     map length gs = [8, 4, 4, 4, 12] \<and> list_all (list_all is_hex) gs)"

definition resolveLeafProfile :: "env \<Rightarrow> leaf_platform \<Rightarrow> assurance_level \<Rightarrow> leaf_profile ares" where
  "resolveLeafProfile env platform al =
    (let uuid = null_or (env (case platform of Leaf_ios \<Rightarrow> ''LEAF_CPL_RECORD_UUID_IOS''
                              | Leaf_android \<Rightarrow> ''LEAF_CPL_RECORD_UUID_ANDROID'')) '''' in
     if \<not> UUID_36 uuid then Inl (Attestation ''CA_CONFIG_INVALID'')
     else Inr \<lparr>lp_platform = platform, lp_assuranceLevel = al, lp_cplRecordUuid = uuid,
               lp_ocspUrl = null_or (env ''LEAF_AIA_OCSP_URL'') ''http://ocsp.realreel.xyz'',
               lp_caIssuersUrl = null_or (env ''LEAF_AIA_CA_ISSUERS_URL'')
                 ''http://pki.realreel.xyz/realreel-claim-signing-ca.cer''\<rparr>)"

text \<open>The subject: one attribute per relative distinguished name, with its string type.\<close>

datatype string_class = Printable_string | Utf8_string

definition realReelLeafSubject :: "env \<Rightarrow> leaf_platform \<Rightarrow> (string \<times> string \<times> string_class) list" where
  "realReelLeafSubject env platform =
    [(OID_countryName, null_or (env ''LEAF_SUBJECT_COUNTRY_V2'') ''US'', Printable_string),
     (OID_organizationName, null_or (env ''LEAF_SUBJECT_ORG_V2'') ''Whole Earth Labs LLC'', Utf8_string),
     (OID_commonName,
      (case platform of
         Leaf_ios \<Rightarrow> null_or (env ''LEAF_SUBJECT_CN_IOS'') ''RealReel iOS''
       | Leaf_android \<Rightarrow> null_or (env ''LEAF_SUBJECT_CN_ANDROID'') ''RealReel Android''), Utf8_string)]"

section \<open>The certificate\<close>

record csr =
  cs_spki :: bytes
  cs_public_key :: bytes

text \<open>What an extension carries, before DER.\<close>

datatype leaf_ext_value =
    Basic_constraints bool
  | Key_usage bytes nat
  | Key_purposes "string list"
  | Octets bytes
  | Authority_key_id bytes
  | Policies "string list"
  | Access_descriptions "(string \<times> string) list"
  | Object_identifier string
  | Utf8_text string

record leaf_ext =
  lx_oid :: string
  lx_critical :: bool
  lx_value :: leaf_ext_value

record leaf_cert =
  lc_version :: nat
  lc_serialNumber :: bytes
  lc_issuer :: string
  lc_subject :: "(string \<times> string \<times> string_class) list"
  lc_notBefore :: int
  lc_notAfter :: int
  lc_spki :: bytes
  lc_signature_algorithm :: string
  lc_extensions :: "leaf_ext list"

record leaf_template =
  lt_csr :: csr
  lt_intermediate :: cert
  lt_validityDays :: int
  lt_serialNumber :: bytes
  lt_profile :: leaf_profile

text \<open>The serial as the certificate carries it: high bit cleared, leading byte not zero.\<close>

fun canonical_serial :: "bytes \<Rightarrow> bytes" where
  "canonical_serial [] = []"
| "canonical_serial (b # bs) = (let m = b AND 0x7f in (if m = 0 then 1 else m) # bs)"

definition readSubjectKeyIdentifier :: "pki_lib \<Rightarrow> cert \<Rightarrow> bytes option" where
  "readSubjectKeyIdentifier lib c =
    (case findExtensionByOid c OID_subjectKeyIdentifier of
       None \<Rightarrow> None
     | Some inner \<Rightarrow>
         if inner = [] then None
         else (case pl_fromBER lib inner of
                 Some (Node cl t k v hv h d) \<Rightarrow> hv | _ \<Rightarrow> None))"

definition leaf_extensions ::
  "(bytes \<Rightarrow> bytes) \<Rightarrow> csr \<Rightarrow> bytes \<Rightarrow> leaf_profile \<Rightarrow> leaf_ext list"
where
  "leaf_extensions sha1 cr interSki p =
    [\<lparr>lx_oid = OID_basicConstraints, lx_critical = True, lx_value = Basic_constraints False\<rparr>,
     \<lparr>lx_oid = OID_keyUsage, lx_critical = True, lx_value = Key_usage [0xc0] 6\<rparr>,
     \<lparr>lx_oid = OID_extKeyUsage, lx_critical = False,
      lx_value = Key_purposes [OID_ekuEmailProtection, OID_ekuDocumentSigning, OID_ekuC2PAClaimSigning]\<rparr>,
     \<lparr>lx_oid = OID_subjectKeyIdentifier, lx_critical = False,
      lx_value = Octets (sha1 (cs_public_key cr))\<rparr>,
     \<lparr>lx_oid = OID_authorityKeyIdentifier, lx_critical = False, lx_value = Authority_key_id interSki\<rparr>,
     \<lparr>lx_oid = OID_certificatePolicies, lx_critical = False, lx_value = Policies [OID_c2paCertPolicy]\<rparr>,
     \<lparr>lx_oid = OID_authorityInfoAccess, lx_critical = False,
      lx_value = Access_descriptions [(OID_adOcsp, lp_ocspUrl p), (OID_adCaIssuers, lp_caIssuersUrl p)]\<rparr>,
     \<lparr>lx_oid = OID_c2paAssuranceLevel, lx_critical = False,
      lx_value = Object_identifier (if lp_assuranceLevel p = AL2 then OID_c2paAssuranceLevel2
                                    else OID_c2paAssuranceLevel1)\<rparr>,
     \<lparr>lx_oid = OID_c2paCplRecord, lx_critical = False, lx_value = Utf8_text (lp_cplRecordUuid p)\<rparr>]"

definition buildLeafCertificate ::
  "env \<Rightarrow> pki_lib \<Rightarrow> (bytes \<Rightarrow> bytes) \<Rightarrow> int \<Rightarrow> leaf_template \<Rightarrow> leaf_cert ares"
where
  "buildLeafCertificate env lib sha1 now t =
    bindR (guardR (\<not> lt_validityDays t \<le> 0) (Attestation ''LEAF_BUILD_FAILED'')) (\<lambda>_.
    bindR (guardR (\<not> (length (lt_serialNumber t) = 0 \<or> length (lt_serialNumber t) > 20))
      (Attestation ''LEAF_BUILD_FAILED'')) (\<lambda>_.
    bindR (derefR (Attestation ''INTERMEDIATE_MISSING_SKI'')
      (readSubjectKeyIdentifier lib (lt_intermediate t))) (\<lambda>interSki.
    bindR (guardR (UUID_36 (lp_cplRecordUuid (lt_profile t))) (Attestation ''LEAF_BUILD_FAILED'')) (\<lambda>_.
      let start = now - now mod 1000; notBefore = start - 5 * 60000 in
      Inr \<lparr>lc_version = 2,
           lc_serialNumber = canonical_serial (lt_serialNumber t),
           lc_issuer = ct_subject (lt_intermediate t),
           lc_subject = realReelLeafSubject env (lp_platform (lt_profile t)),
           lc_notBefore = notBefore,
           lc_notAfter = notBefore + lt_validityDays t * 86400000 - 1000,
           lc_spki = cs_spki (lt_csr t),
           lc_signature_algorithm = OID_ecdsaWithSHA384,
           lc_extensions = leaf_extensions sha1 (lt_csr t) interSki (lt_profile t)\<rparr>))))"

section \<open>Issuance\<close>

fun chunks_of :: "nat \<Rightarrow> 'a list \<Rightarrow> 'a list list" where
  "chunks_of n [] = []"
| "chunks_of n (x # xs) = take (Suc n) (x # xs) # chunks_of n (drop n xs)"

definition derToCertPem :: "bytes \<Rightarrow> string" where
  "derToCertPem der =
    CERT_BEGIN @ [CHR 0x0A] @ join_with [CHR 0x0A] (chunks_of 63 (bytesToBase64 der)) @ [CHR 0x0A]
    @ CERT_END @ [CHR 0x0A]"

text \<open>The encoders and hashes the issuance calls.\<close>

record issue_lib =
  il_encodeTBS :: "leaf_cert \<Rightarrow> bytes"
  il_encodeCert :: "leaf_cert \<Rightarrow> bytes \<Rightarrow> bytes"
  il_sha1 :: "bytes \<Rightarrow> bytes"
  il_sha384 :: "bytes \<Rightarrow> bytes"

record issue_opts =
  io_intermediatePem :: string
  io_validityDays :: int
  io_signer :: "bytes \<Rightarrow> bytes ares"
  io_profile :: leaf_profile

record issued_leaf_chain =
  ic_pem :: string
  ic_serialDecimal :: string
  ic_serialBytes :: bytes
  ic_notAfter :: int

definition finalizeLeafPEM :: "issue_lib \<Rightarrow> leaf_cert \<Rightarrow> bytes \<Rightarrow> string" where
  "finalizeLeafPEM il leaf signatureDer = derToCertPem (il_encodeCert il leaf signatureDer)"

definition bytesToBigIntDecimal :: "bytes \<Rightarrow> string" where
  "bytesToBigIntDecimal bs = show_nat (be_nat bs)"

text \<open>\<open>random\<close> is the answer of \<open>crypto.getRandomValues\<close> for 20 bytes.\<close>

definition issueLeafChainFromCSR ::
  "env \<Rightarrow> pki_lib \<Rightarrow> issue_lib \<Rightarrow> int \<Rightarrow> bytes \<Rightarrow> csr \<Rightarrow> issue_opts \<Rightarrow> issued_leaf_chain ares"
where
  "issueLeafChainFromCSR env lib il now random cr opts =
    bindR (case parseCertFromPem lib (io_intermediatePem opts) of
             Inl m \<Rightarrow> Inl (Attestation ''INTERMEDIATE_PARSE_FAILED'') | Inr c \<Rightarrow> Inr c) (\<lambda>intermediate.
    bindR (buildLeafCertificate env lib (il_sha1 il) now
      \<lparr>lt_csr = cr, lt_intermediate = intermediate, lt_validityDays = io_validityDays opts,
       lt_serialNumber = random, lt_profile = io_profile opts\<rparr>) (\<lambda>leaf.
    bindR (io_signer opts (il_sha384 il (il_encodeTBS il leaf))) (\<lambda>signatureDer.
      let leafPem = finalizeLeafPEM il leaf signatureDer;
          intermediatePem = (if ends_with [CHR 0x0A] (io_intermediatePem opts)
                             then io_intermediatePem opts else io_intermediatePem opts @ [CHR 0x0A]) in
      Inr \<lparr>ic_pem = leafPem @ intermediatePem,
           ic_serialDecimal = bytesToBigIntDecimal (canonical_serial random),
           ic_serialBytes = canonical_serial random,
           ic_notAfter = lc_notAfter leaf\<rparr>)))"

section \<open>Chains of PEM blocks\<close>

text \<open>The first occurrence of a marker: the text before it and after it.\<close>

fun find_sub :: "string \<Rightarrow> string \<Rightarrow> (string \<times> string) option" where
  "find_sub m [] = (if m = [] then Some ([], []) else None)"
| "find_sub m (c # cs) =
     (if starts_with m (c # cs) then Some ([], drop (length m) (c # cs))
      else map_option (\<lambda>(a, b). (c # a, b)) (find_sub m cs))"

lemma find_sub_split: "find_sub m s = Some (a, b) \<Longrightarrow> s = a @ m @ b"
proof (induction m s arbitrary: a b rule: find_sub.induct)
  case (2 m c cs)
  then show ?case
    by (auto simp: starts_with_prefix prefix_def split: if_splits)
qed (auto split: if_splits)

text \<open>\<open>match(/BEGIN[\s\S]*?END/g)\<close>.\<close>

function cert_blocks :: "string \<Rightarrow> string list" where
  "cert_blocks s =
    (case find_sub CERT_BEGIN s of
       None \<Rightarrow> []
     | Some (a, r) \<Rightarrow>
         (case find_sub CERT_END r of
            None \<Rightarrow> []
          | Some (body, r') \<Rightarrow> (CERT_BEGIN @ body @ CERT_END) # cert_blocks r'))"
  by pat_completeness auto

termination
  by (relation "measure length") (auto dest!: find_sub_split simp: CERT_BEGIN_def)

declare cert_blocks.simps [simp del]

definition verifyChainToRealReelRoot ::
  "pki_lib \<Rightarrow> int \<Rightarrow> string \<Rightarrow> string \<Rightarrow> unit ares"
where
  "verifyChainToRealReelRoot lib now chainPem rootPem =
    (let failed = (\<lambda>r :: string + cert. case r of
           Inl m \<Rightarrow> Inl (Attestation ''CHAIN_PARSE_FAILED'') | Inr c \<Rightarrow> Inr c) in
     if cert_blocks chainPem = [] then Inl (Attestation ''CHAIN_PARSE_FAILED'')
     else
       bindR (mapR (\<lambda>b. failed (parseCertFromPem lib b)) (cert_blocks chainPem)) (\<lambda>certs.
       bindR (failed (parseCertFromPem lib rootPem)) (\<lambda>root.
         (case verifyChainToTrustedRoots lib certs [root] now of
            Inl m \<Rightarrow> Inl (Other_error m) | Inr u \<Rightarrow> Inr ()))))"

section \<open>Round trip of a PEM block\<close>

lemma find_sub_here [simp]: "find_sub m (m @ r) = Some ([], r)"
proof (cases "m @ r")
  case (Cons c cs)
  have "starts_with m (m @ r)" "drop (length m) (m @ r) = r" by simp_all
  with Cons show ?thesis by simp
qed simp

lemma find_sub_skip:
  assumes "c \<notin> set a" "m \<noteq> []" "hd m = c"
  shows "find_sub m (a @ m @ r) = Some (a, r)"
  using assms(1)
proof (induction a)
  case (Cons x a)
  then have "\<not> starts_with m (x # a @ m @ r)" using assms(2,3) by (cases m) auto
  with Cons show ?case by simp
qed simp

lemma concat_chunks: "concat (chunks_of n xs) = xs"
proof (induction n xs rule: chunks_of.induct)
  case (2 n x xs)
  then show ?case by simp
qed simp

lemma set_join: "set (join_with sep xs) \<subseteq> set sep \<union> set (concat xs)"
  by (induction sep xs rule: join_with.induct) auto

lemma filter_join:
  "filter P sep = [] \<Longrightarrow> filter P (join_with sep xs) = filter P (concat xs)"
  by (induction sep xs rule: join_with.induct) auto

lemma base64_chars: "c \<in> set (bytesToBase64 bs) \<Longrightarrow> c = CHR ''='' \<or> b64_std c \<noteq> None"
proof -
  assume c: "c \<in> set (bytesToBase64 bs)"
  have sx: "\<forall>s \<in> set (sextets_of_bytes bs). s < 64" by (rule sextets_bound)
  from c sx show ?thesis
    by (auto simp: bytesToBase64_def base64_def b64_char_std(1))
qed

lemma base64_plain:
  assumes "c \<in> set (bytesToBase64 bs)"
  shows "c \<noteq> CHR ''-''" "\<not> is_space c"
proof -
  show "c \<noteq> CHR ''-''" using base64_chars[OF assms] by (auto simp: b64_std_def)
  show "\<not> is_space c"
    using base64_chars[OF assms] by (auto simp: b64_std_def b64_val_def is_space_def Let_def split: if_splits)
qed

lemma remove_all_go_skip: "remove_all_go (length a) m (a @ s) = remove_all_go 0 m s"
  by (induction a) auto

lemma remove_all_here:
  assumes "m \<noteq> []" shows "remove_all m (m @ s) = remove_all m s"
proof -
  obtain c cs where m: "m = c # cs" using assms by (cases m) auto
  have "remove_all_go (length cs) (c # cs) (cs @ s) = remove_all_go 0 (c # cs) s"
    by (rule remove_all_go_skip)
  then show ?thesis by (simp add: remove_all_def m)
qed

lemma remove_all_other:
  assumes "m \<noteq> []" "hd m \<notin> set a" shows "remove_all m (a @ s) = a @ remove_all m s"
  using assms by (induction a) (auto simp: remove_all_def neq_Nil_conv)

definition pem_block :: "bytes \<Rightarrow> string" where
  "pem_block der = CERT_BEGIN @ [CHR 0x0A] @ join_with [CHR 0x0A] (chunks_of 63 (bytesToBase64 der))
     @ [CHR 0x0A] @ CERT_END"

lemma pem_body_no_dash:
  "CHR ''-'' \<notin> set ([CHR 0x0A] @ join_with [CHR 0x0A] (chunks_of 63 (bytesToBase64 der)) @ [CHR 0x0A])"
proof -
  have "set (join_with [CHR 0x0A] (chunks_of 63 (bytesToBase64 der)))
      \<subseteq> {CHR 0x0A} \<union> set (bytesToBase64 der)"
    using set_join[of "[CHR 0x0A]" "chunks_of 63 (bytesToBase64 der)"]
    by (simp add: concat_chunks)
  then show ?thesis using base64_plain(1) by auto
qed

lemma pemToDer_block_tail:
  assumes "tail = [] \<or> tail = [CHR 0x0A]"
  shows "pemToDer (pem_block der @ tail) = Some der"
proof -
  have dash: "CHR ''-'' \<notin> set tail" using assms by auto
  have sp: "filter (\<lambda>c. \<not> is_space c) tail = []" using assms by (auto simp: is_space_def)
  let ?body = "[CHR 0x0A] @ join_with [CHR 0x0A] (chunks_of 63 (bytesToBase64 der)) @ [CHR 0x0A]"
  have hd: "hd CERT_BEGIN = CHR ''-''" "hd CERT_END = CHR ''-''" "CERT_BEGIN \<noteq> []" "CERT_END \<noteq> []"
    by (simp_all add: CERT_BEGIN_def CERT_END_def)
  have "remove_all CERT_BEGIN (CERT_END @ []) = CERT_END @ remove_all CERT_BEGIN []"
      "remove_all CERT_BEGIN (CERT_END @ [CHR 0x0A]) = CERT_END @ remove_all CERT_BEGIN [CHR 0x0A]"
    by code_simp+
  with assms have e: "remove_all CERT_BEGIN (CERT_END @ tail) = CERT_END @ remove_all CERT_BEGIN tail" by auto
  have none: "remove_all m tail = tail" if "m \<noteq> []" "hd m = CHR ''-''" for m
    using remove_all_other[of m tail "[]"] that dash by (simp add: remove_all_def)
  have "remove_all CERT_BEGIN (pem_block der @ tail) = remove_all CERT_BEGIN (?body @ CERT_END @ tail)"
    using remove_all_here[OF hd(3), of "?body @ CERT_END @ tail"] by (simp add: pem_block_def)
  also have "\<dots> = ?body @ CERT_END @ tail"
    using remove_all_other[OF hd(3), of ?body "CERT_END @ tail"] pem_body_no_dash[of der] hd(1) e none[OF hd(3,1)] by simp
  finally have b: "remove_all CERT_BEGIN (pem_block der @ tail) = ?body @ CERT_END @ tail" .
  have "remove_all CERT_END (?body @ CERT_END @ tail) = ?body @ tail"
    using remove_all_other[OF hd(4), of ?body "CERT_END @ tail"] remove_all_here[OF hd(4), of tail]
      pem_body_no_dash[of der] hd(2) none[OF hd(4,2)] by simp
  moreover have "filter (\<lambda>c. \<not> is_space c) (?body @ tail) = bytesToBase64 der"
  proof -
    have nl: "filter (\<lambda>c. \<not> is_space c) [CHR 0x0A] = []" by code_simp
    have "filter (\<lambda>c. \<not> is_space c) (bytesToBase64 der) = bytesToBase64 der"
      using base64_plain(2) by (simp add: filter_id_conv)
    then show ?thesis unfolding filter_append filter_join[OF nl] concat_chunks nl sp by simp
  qed
  ultimately show ?thesis unfolding pemToDer_def b by simp
qed

lemma pemToDer_block: "pemToDer (pem_block der) = Some der"
  using pemToDer_block_tail[of "[]" der] by simp

lemma pemToDer_derToCertPem: "pemToDer (derToCertPem der) = Some der"
proof -
  have "derToCertPem der = pem_block der @ [CHR 0x0A]" by (simp add: derToCertPem_def pem_block_def)
  then show ?thesis using pemToDer_block_tail[of "[CHR 0x0A]" der] by simp
qed

lemma cert_blocks_derToCertPem:
  "cert_blocks (derToCertPem der @ rest) = pem_block der # cert_blocks rest"
proof -
  let ?body = "[CHR 0x0A] @ join_with [CHR 0x0A] (chunks_of 63 (bytesToBase64 der)) @ [CHR 0x0A]"
  have e: "derToCertPem der @ rest = CERT_BEGIN @ (?body @ CERT_END @ ([CHR 0x0A] @ rest))"
    by (simp add: derToCertPem_def)
  have f: "find_sub CERT_END (?body @ CERT_END @ r) = Some (?body, r)" for r
    by (rule find_sub_skip[where c = "CHR ''-''"]) (use pem_body_no_dash in \<open>simp_all add: CERT_END_def\<close>)
  have nl: "find_sub CERT_BEGIN ([CHR 0x0A] @ r) = map_option (\<lambda>(a, b). (CHR 0x0A # a, b)) (find_sub CERT_BEGIN r)" for r
    by (simp add: CERT_BEGIN_def)
  have "cert_blocks ([CHR 0x0A] @ rest) = cert_blocks rest"
    unfolding cert_blocks.simps[of "[CHR 0x0A] @ rest"] cert_blocks.simps[of rest] nl
    by (cases "find_sub CERT_BEGIN rest") auto
  moreover have "cert_blocks (CERT_BEGIN @ (?body @ CERT_END @ r)) = (CERT_BEGIN @ ?body @ CERT_END) # cert_blocks r" for r
    by (subst cert_blocks.simps) (simp only: find_sub_here f option.case prod.case)
  ultimately show ?thesis unfolding e by (simp add: pem_block_def)
qed

text \<open>The leaf's PEM text reads back: in any chain text that begins with it, the first block decodes to
  the leaf's DER bytes and the blocks after it are those of the rest.\<close>

lemma leaf_pem_round_trip:
  "map pemToDer (cert_blocks (finalizeLeafPEM il leaf sig @ rest))
     = Some (il_encodeCert il leaf sig) # map pemToDer (cert_blocks rest)"
  by (simp add: finalizeLeafPEM_def cert_blocks_derToCertPem pemToDer_block)

section \<open>Serials\<close>

lemma low_bits_lt: "unat ((b :: 8 word) AND 0x7f) < 128"
proof -
  have "(0x7f :: 8 word) = mask 7" by (simp add: mask_eq_exp_minus_1)
  then have "b AND 0x7f = take_bit 7 b" by (simp add: take_bit_eq_mask)
  then have "unat (b AND 0x7f) = take_bit 7 (unat b)" by (simp add: unsigned_take_bit_eq)
  then show ?thesis by (simp add: take_bit_eq_mod)
qed

text \<open>A positive, minimally encoded INTEGER: non-empty, at most 20 bytes, first byte in 1..127.\<close>

definition der_positive :: "bytes \<Rightarrow> bool" where
  "der_positive bs = (bs \<noteq> [] \<and> length bs \<le> 20 \<and> 0 < unat (hd bs) \<and> unat (hd bs) < 128)"

lemma canonical_serial_positive:
  assumes "bs \<noteq> []" "length bs \<le> 20"
  shows "der_positive (canonical_serial bs)"
proof -
  obtain b r where bs: "bs = b # r" using assms(1) by (cases bs) auto
  have "0 < unat (b AND 0x7f)" if "b AND 0x7f \<noteq> 0" using that by (simp add: unat_gt_0)
  then show ?thesis
    using assms(2) low_bits_lt[of b] by (simp add: bs der_positive_def Let_def)
qed

lemma foldl_be_ge: "v \<le> foldl (\<lambda>v b. v * 256 + unat b) v (bs :: bytes)"
proof (induction bs arbitrary: v)
  case (Cons b bs)
  have "v \<le> v * 256 + unat b" by simp
  also have "\<dots> \<le> foldl (\<lambda>v b. v * 256 + unat b) (v * 256 + unat b) bs" by (rule Cons)
  finally show ?case by simp
qed simp

lemma der_positive_be_nat: "der_positive bs \<Longrightarrow> 0 < be_nat bs"
  by (cases bs) (auto simp: der_positive_def be_nat_def intro: less_le_trans[OF _ foldl_be_ge])

lemma buildLeafCertificate_Inr:
  "buildLeafCertificate env lib sha1 now t = Inr leaf \<Longrightarrow>
     0 < lt_validityDays t \<and> lc_serialNumber leaf = canonical_serial (lt_serialNumber t)
     \<and> der_positive (lc_serialNumber leaf) \<and> UUID_36 (lp_cplRecordUuid (lt_profile t))
     \<and> lc_notBefore leaf = now - now mod 1000 - 300000
     \<and> lc_notAfter leaf = lc_notBefore leaf + lt_validityDays t * 86400000 - 1000
     \<and> lc_spki leaf = cs_spki (lt_csr t) \<and> lc_issuer leaf = ct_subject (lt_intermediate t)
     \<and> lc_subject leaf = realReelLeafSubject env (lp_platform (lt_profile t))
     \<and> (\<exists>ski. lc_extensions leaf = leaf_extensions sha1 (lt_csr t) ski (lt_profile t))"
  by (auto simp: buildLeafCertificate_def Let_def canonical_serial_positive)

lemma issueLeafChain_Inr:
  assumes "issueLeafChainFromCSR env lib il now random cr opts = Inr ic"
  obtains inter leaf sig where
    "parseCertFromPem lib (io_intermediatePem opts) = Inr inter"
    "buildLeafCertificate env lib (il_sha1 il) now
      \<lparr>lt_csr = cr, lt_intermediate = inter, lt_validityDays = io_validityDays opts,
       lt_serialNumber = random, lt_profile = io_profile opts\<rparr> = Inr leaf"
    "io_signer opts (il_sha384 il (il_encodeTBS il leaf)) = Inr sig"
    "ic_serialBytes ic = canonical_serial random"
    "ic_serialDecimal ic = show_nat (be_nat (canonical_serial random))"
    "ic_notAfter ic = lc_notAfter leaf"
    "\<exists>rest. ic_pem ic = finalizeLeafPEM il leaf sig @ rest"
  using assms
  by (auto simp: issueLeafChainFromCSR_def Let_def bytesToBigIntDecimal_def split: sum.splits)

section \<open>What an issued chain is\<close>

definition issued_for ::
  "env \<Rightarrow> issue_lib \<Rightarrow> int \<Rightarrow> csr \<Rightarrow> issue_opts \<Rightarrow> issued_leaf_chain \<Rightarrow> leaf_cert \<Rightarrow> bytes \<Rightarrow> bool"
where
  "issued_for env il now cr opts ic leaf sig =
    (io_signer opts (il_sha384 il (il_encodeTBS il leaf)) = Inr sig
     \<and> hd (map pemToDer (cert_blocks (ic_pem ic))) = Some (il_encodeCert il leaf sig)
     \<and> lc_spki leaf = cs_spki cr
     \<and> lc_subject leaf = realReelLeafSubject env (lp_platform (io_profile opts))
     \<and> der_positive (lc_serialNumber leaf)
     \<and> ic_serialBytes ic = lc_serialNumber leaf
     \<and> parse_digits 0 (ic_serialDecimal ic) = be_nat (lc_serialNumber leaf)
     \<and> 0 < be_nat (lc_serialNumber leaf)
     \<and> ic_notAfter ic = lc_notAfter leaf
     \<and> lc_notAfter leaf + 1000 - lc_notBefore leaf = io_validityDays opts * MS_PER_DAY
     \<and> lc_notBefore leaf \<le> now \<and> now - lc_notBefore leaf < 301000
     \<and> now \<le> lc_notAfter leaf)"

lemma issued_chain_wf:
  assumes "issueLeafChainFromCSR env lib il now random cr opts = Inr ic"
  shows "\<exists>leaf sig. issued_for env il now cr opts ic leaf sig"
proof -
  obtain inter leaf sig rest where
    b: "buildLeafCertificate env lib (il_sha1 il) now
      \<lparr>lt_csr = cr, lt_intermediate = inter, lt_validityDays = io_validityDays opts,
       lt_serialNumber = random, lt_profile = io_profile opts\<rparr> = Inr leaf"
    and s: "io_signer opts (il_sha384 il (il_encodeTBS il leaf)) = Inr sig"
    and i: "ic_serialBytes ic = canonical_serial random"
      "ic_serialDecimal ic = show_nat (be_nat (canonical_serial random))"
      "ic_notAfter ic = lc_notAfter leaf" "ic_pem ic = finalizeLeafPEM il leaf sig @ rest"
    using issueLeafChain_Inr[OF assms] by metis
  note l = buildLeafCertificate_Inr[OF b, simplified]
  have "1 \<le> io_validityDays opts" using l by linarith
  moreover have "0 \<le> now mod 1000" "now mod 1000 < 1000" by simp_all
  ultimately have "lc_notBefore leaf \<le> now" "now - lc_notBefore leaf < 301000"
    "now \<le> lc_notAfter leaf" using l by linarith+
  moreover from l have ser: "canonical_serial random = lc_serialNumber leaf" by simp
  moreover from l have pos: "der_positive (lc_serialNumber leaf)" by blast
  moreover from l have "lc_spki leaf = cs_spki cr"
    "lc_subject leaf = realReelLeafSubject env (lp_platform (io_profile opts))"
    "lc_notAfter leaf = lc_notBefore leaf + io_validityDays opts * 86400000 - 1000" by blast+
  moreover have "hd (map pemToDer (cert_blocks (ic_pem ic))) = Some (il_encodeCert il leaf sig)"
    by (simp add: i(4) finalizeLeafPEM_def cert_blocks_derToCertPem pemToDer_block)
  ultimately have "issued_for env il now cr opts ic leaf sig"
    using s der_positive_be_nat[OF pos] i(1-3)[unfolded ser]
    by (simp add: issued_for_def MS_PER_DAY_def)
  then show ?thesis by blast
qed

text \<open>A small instance: an intermediate with a subject key identifier, and identity encoders.\<close>

definition ex_ica :: cert where
  "ex_ica = \<lparr>ct_subject = ''ICA'', ct_issuer = ''Root'', ct_serial = [7],
     ct_extensions = [\<lparr>x_oid = OID_subjectKeyIdentifier, x_critical = False, x_value = Some [4, 1, 9]\<rparr>],
     ct_spki = [1, 1], ct_public_key = [1]\<rparr>"

definition ex_pki :: pki_lib where
  "ex_pki = \<lparr>pl_fromBER = (\<lambda>bs. case bs of t # n # rest \<Rightarrow> Some (octets_node rest) | _ \<Rightarrow> None),
     pl_parseCert = (\<lambda>der. if der = [] then Inl ''empty'' else Inr ex_ica),
     pl_dn_equal = (=), pl_chain_engine = (\<lambda>cs roots t. Inr ())\<rparr>"

definition ex_il :: issue_lib where
  "ex_il = \<lparr>il_encodeTBS = lc_serialNumber, il_encodeCert = (\<lambda>leaf sig. lc_serialNumber leaf @ sig),
     il_sha1 = (\<lambda>bs. bs), il_sha384 = (\<lambda>bs. bs)\<rparr>"

definition ex_profile :: leaf_profile where
  "ex_profile = \<lparr>lp_platform = Leaf_android, lp_assuranceLevel = AL2,
     lp_cplRecordUuid = ''0123abcd-0123-4567-89AB-0123456789ab'',
     lp_ocspUrl = ''http://ocsp.realreel.xyz'', lp_caIssuersUrl = ''http://pki.realreel.xyz/ca.cer''\<rparr>"

definition ex_issue :: issue_opts where
  "ex_issue = \<lparr>io_intermediatePem = derToCertPem [1, 2, 3], io_validityDays = 90,
     io_signer = (\<lambda>d. Inr [0x30]), io_profile = ex_profile\<rparr>"

definition ex_csr :: csr where
  "ex_csr = \<lparr>cs_spki = [2, 2], cs_public_key = [2]\<rparr>"

definition is_issued :: "issued_leaf_chain ares \<Rightarrow> bool" where
  "is_issued r = (case r of Inr ic \<Rightarrow> True | Inl e \<Rightarrow> False)"

lemma ex_uuid: "UUID_36 (lp_cplRecordUuid ex_profile)"
  by code_simp

lemma ex_parse_ica: "parseCertFromPem ex_pki (io_intermediatePem ex_issue) = Inr ex_ica"
proof -
  have "pemToDer (pem_block [1, 2, 3] @ [CHR 0x0A]) = Some [1, 2, 3]" by code_simp
  moreover have "derToCertPem [1, 2, 3] = pem_block [1, 2, 3] @ [CHR 0x0A]"
    by (simp add: derToCertPem_def pem_block_def)
  ultimately show ?thesis by (simp add: parseCertFromPem_def ex_issue_def ex_pki_def)
qed

lemma ex_ski: "readSubjectKeyIdentifier ex_pki ex_ica = Some [9]"
  by code_simp

lemma ex_issued: "is_issued (issueLeafChainFromCSR (\<lambda>_. None) ex_pki ex_il now (0x80 # replicate 19 1) ex_csr ex_issue)"
  using ex_uuid ex_ski ex_parse_ica
  by (simp add: is_issued_def issueLeafChainFromCSR_def buildLeafCertificate_def Let_def ex_issue_def)

text \<open>C20. An issued chain starts with a leaf for the requested key, under the platform's subject, that
  the signer signed over the digest of its encoding; its serial is a positive, minimally encoded
  integer, and the serial and expiry handed to the ledger are those of the certificate; its validity
  counts exactly the requested days, inclusive bounds included, and contains the time of issue.\<close>

theorem issued_chain_sound:
  assumes "issueLeafChainFromCSR env lib il now random cr opts = Inr ic"
  shows "\<exists>leaf sig. issued_for env il now cr opts ic leaf sig"
  using assms by (rule issued_chain_wf)

theorem issued_chain_sound_witness:
  "\<exists>ic leaf sig. issued_for (\<lambda>_. None) ex_il 1700000000123 ex_csr ex_issue ic leaf sig"
proof -
  obtain ic where "issueLeafChainFromCSR (\<lambda>_. None) ex_pki ex_il 1700000000123
      (0x80 # replicate 19 1) ex_csr ex_issue = Inr ic"
    using ex_issued[of 1700000000123] by (auto simp: is_issued_def split: sum.splits)
  from issued_chain_sound[OF this] show ?thesis by blast
qed

text \<open>A leaf is built only with a well-formed CPL record identifier, and declares exactly it and the
  assurance level of its profile, each in one extension; it is no CA certificate, and its critical
  extensions are the basic constraints and the key usage (digital signature and non-repudiation).\<close>

lemma leaf_declares_profile:
  assumes "buildLeafCertificate env lib sha1 now t = Inr leaf"
  shows "UUID_36 (lp_cplRecordUuid (lt_profile t))
    \<and> map lx_value (filter (\<lambda>x. lx_oid x = OID_c2paCplRecord) (lc_extensions leaf))
        = [Utf8_text (lp_cplRecordUuid (lt_profile t))]
    \<and> map lx_value (filter (\<lambda>x. lx_oid x = OID_c2paAssuranceLevel) (lc_extensions leaf))
        = [Object_identifier (case lp_assuranceLevel (lt_profile t) of
             AL1 \<Rightarrow> ''1.3.6.1.4.1.62558.3.10'' | AL2 \<Rightarrow> ''1.3.6.1.4.1.62558.3.20'')]
    \<and> map lx_value (filter lx_critical (lc_extensions leaf))
        = [Basic_constraints False, Key_usage [0b11000000] 6]
    \<and> distinct (map lx_oid (lc_extensions leaf))"
proof -
  obtain ski where "lc_extensions leaf = leaf_extensions sha1 (lt_csr t) ski (lt_profile t)"
    "UUID_36 (lp_cplRecordUuid (lt_profile t))"
    using buildLeafCertificate_Inr[OF assms] by blast
  then show ?thesis
    by (simp add: leaf_extensions_def oid_defs split: assurance_level.splits)
qed

theorem leaf_declares_profile_witness:
  "\<exists>leaf :: leaf_cert. map lx_value (filter (\<lambda>x. lx_oid x = OID_c2paAssuranceLevel) (lc_extensions leaf))
       = [Object_identifier ''1.3.6.1.4.1.62558.3.20'']"
proof -
  let ?t = "\<lparr>lt_csr = ex_csr, lt_intermediate = ex_ica, lt_validityDays = 90,
             lt_serialNumber = [0, 1], lt_profile = ex_profile\<rparr>"
  obtain leaf where "buildLeafCertificate (\<lambda>_. None) ex_pki (\<lambda>bs. bs) 0 ?t = Inr leaf"
    using ex_uuid ex_ski by (simp add: buildLeafCertificate_def Let_def)
  from leaf_declares_profile[OF this]
  have h: "map lx_value (filter (\<lambda>x. lx_oid x = OID_c2paAssuranceLevel) (lc_extensions leaf))
      = [Object_identifier ''1.3.6.1.4.1.62558.3.20'']"
    unfolding ex_profile_def leaf_template.simps leaf_profile.simps assurance_level.case by blast
  show ?thesis by (rule exI[of _ leaf]) (rule h)
qed

end
