(* ===== verification/NativePlugin.thy ===== *)
theory NativePlugin
  imports LeafIssuance
begin

text \<open>
  The build plugin of the capture module, \<open>native/plugin/src/index.ts\<close>: the version it reads, the Ruby it writes into
  the Podfile of an app, and the build phase it adds to the Xcode project.  The file system is the text of the two
  files; the project library that adds a phase is a parameter.
\<close>

section \<open>Constants\<close>

definition C2PA_REPOSITORY_URL :: string where "C2PA_REPOSITORY_URL = ''https://github.com/contentauth/c2pa-swift.git''"
definition C2PA_PRODUCT_NAME :: string where "C2PA_PRODUCT_NAME = ''C2PA''"
definition POD_TARGET_NAME :: string where "POD_TARGET_NAME = ''PhotoAttest''"
definition C2PA_PODFILE_SENTINEL :: string where "C2PA_PODFILE_SENTINEL = ''# c2pa-ios-spm-pod-attach''"
definition SWIFT_CERT_REPOSITORY_URL :: string where
  "SWIFT_CERT_REPOSITORY_URL = ''https://github.com/apple/swift-certificates.git''"
definition SWIFT_CERT_PRODUCT_NAME :: string where "SWIFT_CERT_PRODUCT_NAME = ''X509''"
definition SWIFT_CERT_VERSION :: string where "SWIFT_CERT_VERSION = ''1.21.0''"
definition SWIFT_CERT_PODFILE_SENTINEL :: string where
  "SWIFT_CERT_PODFILE_SENTINEL = ''# swift-certificates-spm-pod-attach''"

section \<open>The version\<close>

text \<open>\<open>/^[0-9]+\.[0-9]+\.[0-9]+([-+][0-9A-Za-z.-]+)?$/\<close>; each run of digits ends at a character that is none, so
  taking the longest loses no match.\<close>

definition version_tail :: "string \<Rightarrow> bool" where
  "version_tail s =
    (case s of
       [] \<Rightarrow> True
     | c # cs \<Rightarrow> (c = CHR ''-'' \<or> c = CHR ''+'') \<and> cs \<noteq> []
         \<and> list_all (\<lambda>x. is_alnum x \<or> x = CHR ''.'' \<or> x = CHR ''-'') cs)"

definition after_number :: "string \<Rightarrow> string option" where
  "after_number s = (if takeWhile is_digit s = [] then None else Some (dropWhile is_digit s))"

definition after_dot :: "string \<Rightarrow> string option" where
  "after_dot s = (case s of c # cs \<Rightarrow> if c = CHR ''.'' then Some cs else None | [] \<Rightarrow> None)"

definition is_version :: "string \<Rightarrow> bool" where
  "is_version s =
    (case Option.bind (after_number s) (\<lambda>r1. Option.bind (after_dot r1) (\<lambda>r2.
          Option.bind (after_number r2) (\<lambda>r3. Option.bind (after_dot r3) after_number))) of
       None \<Rightarrow> False
     | Some rest \<Rightarrow> version_tail rest)"

definition readC2paVersion :: "string \<Rightarrow> string + string" where
  "readC2paVersion file =
    (let version = js_trim file in
     bindR (guardR (is_version version)
         (''[@realreel/photo-attest] ios/C2PA.version is not a valid version: '' @ json_stringify (JStr version)))
       (\<lambda>_. Inr version))"

section \<open>The snippets\<close>

record attach_opts =
  at_sentinel :: string
  at_lambdaName :: string
  at_repo :: string
  at_product :: string
  at_version :: string

definition quote :: string where "quote = [CHR 0x27]"

definition buildAttachSnippet :: "attach_opts \<Rightarrow> string" where
  "buildAttachSnippet opts = join_with [CHR 0x0A]
    [[],
     ''  '' @ at_sentinel opts @ '' (managed by @realreel/photo-attest)'',
     ''  # Attaches the '' @ at_product opts @ '' SPM product to the '' @ POD_TARGET_NAME @ '' pod target'',
     ''  # so `import '' @ at_product opts @ ''` resolves during pod compilation. Without this,'',
     ''  # only the app target sees the SPM dep and the pod'' @ quote @ ''s Swift compile fails.'',
     ''  '' @ at_lambdaName opts @ '' = lambda do |installer|'',
     ''    pkg_class = Xcodeproj::Project::Object::XCRemoteSwiftPackageReference'',
     ''    prod_class = Xcodeproj::Project::Object::XCSwiftPackageProductDependency'',
     ''    repo = '' @ quote @ at_repo opts @ quote,
     ''    product = '' @ quote @ at_product opts @ quote,
     ''    pods_project = installer.pods_project'',
     [],
     ''    target = pods_project.targets.find { |t| t.name == '' @ quote @ POD_TARGET_NAME @ quote @ '' }'',
     ''    next unless target'',
     [],
     ''    package_ref = pods_project.root_object.package_references.find do |r|'',
     ''      r.is_a?(pkg_class) && r.repositoryURL == repo'',
     ''    end'',
     ''    unless package_ref'',
     ''      package_ref = pods_project.new(pkg_class)'',
     ''      package_ref.repositoryURL = repo'',
     ''      package_ref.requirement = { '' @ quote @ ''kind'' @ quote @ '' => '' @ quote @ ''exactVersion'' @ quote @ '', '' @ quote @ ''version'' @ quote @ '' => '' @ quote @ at_version opts @ quote @ '' }'',
     ''      pods_project.root_object.package_references << package_ref'',
     ''    end'',
     [],
     ''    already_attached = (target.package_product_dependencies || []).any? do |d|'',
     ''      d.product_name == product'',
     ''    end'',
     ''    unless already_attached'',
     ''      product_dep = pods_project.new(prod_class)'',
     ''      product_dep.package = package_ref'',
     ''      product_dep.product_name = product'',
     ''      target.package_product_dependencies ||= []'',
     ''      target.package_product_dependencies << product_dep'',
     ''    end'',
     [],
     ''    pods_project.save'',
     ''  end'',
     ''  '' @ at_lambdaName opts @ ''.call(installer)'',
     []]"

definition c2pa_opts :: "string \<Rightarrow> attach_opts" where
  "c2pa_opts c2paVersion =
    \<lparr>at_sentinel = C2PA_PODFILE_SENTINEL, at_lambdaName = ''c2pa_attach'', at_repo = C2PA_REPOSITORY_URL,
     at_product = C2PA_PRODUCT_NAME, at_version = c2paVersion\<rparr>"

definition swift_cert_opts :: attach_opts where
  "swift_cert_opts =
    \<lparr>at_sentinel = SWIFT_CERT_PODFILE_SENTINEL, at_lambdaName = ''swift_certificates_attach'',
     at_repo = SWIFT_CERT_REPOSITORY_URL, at_product = SWIFT_CERT_PRODUCT_NAME, at_version = SWIFT_CERT_VERSION\<rparr>"

definition snippets_for :: "string \<Rightarrow> string \<Rightarrow> string list" where
  "snippets_for podfile c2paVersion =
    (if includes_str C2PA_PODFILE_SENTINEL podfile then [] else [buildAttachSnippet (c2pa_opts c2paVersion)])
    @ (if includes_str SWIFT_CERT_PODFILE_SENTINEL podfile then [] else [buildAttachSnippet swift_cert_opts])"

text \<open>The first match of \<open>react_native_post_install\([\s\S]*?\)\n\<close>: the first call that is followed by a closing
  parenthesis at the end of a line, up to the nearest one.  The text is split behind it.\<close>

definition POST_INSTALL :: string where "POST_INSTALL = ''react_native_post_install(''"

definition split_marker :: "string \<Rightarrow> (string \<times> string) option" where
  "split_marker podfile =
    (case find_sub POST_INSTALL podfile of
       None \<Rightarrow> None
     | Some (a, r) \<Rightarrow>
         (case find_sub [CHR '')'', CHR 0x0A] r of
            None \<Rightarrow> None
          | Some (b, after) \<Rightarrow> Some (a @ POST_INSTALL @ b @ [CHR '')'', CHR 0x0A], after)))"

text \<open>The new text of the Podfile; none when the file is left alone.  \<open>replace\<close> gives \<open>$\<close> a meaning in its
  replacement, but no snippet holds one (\<open>injected_no_dollar\<close>).\<close>

definition injectIntoPodfile :: "string \<Rightarrow> string \<Rightarrow> string + string option" where
  "injectIntoPodfile podfile c2paVersion =
    (let snippets = snippets_for podfile c2paVersion in
     if snippets = [] then Inr None
     else
       (case split_marker podfile of
          None \<Rightarrow> Inl (''[@realreel/photo-attest] Could not find react_native_post_install(...) in the ''
            @ ''Podfile to anchor the SPM injection. Is this an Expo-generated iOS project?'')
        | Some (before, after) \<Rightarrow> Inr (Some (before @ concat snippets @ after))))"

text \<open>The plugin's first step: the file is written only when there is something to add.\<close>

definition withC2PAiOS :: "string \<Rightarrow> string \<Rightarrow> string + string" where
  "withC2PAiOS versionFile podfile =
    bindR (readC2paVersion versionFile) (\<lambda>version.
    bindR (injectIntoPodfile podfile version) (\<lambda>written.
    Inr (null_or written podfile)))"

section \<open>The Xcode project\<close>

definition SIGNATURE_PHASE_NAME :: string where
  "SIGNATURE_PHASE_NAME = ''Remove duplicate C2PAC.xcframework signature (Xcode archive fix)''"
definition SIGNATURE_PHASE_KEY :: string where "SIGNATURE_PHASE_KEY = ''C2PAC.xcframework signature''"
definition SIGNATURE_SCRIPT :: string where
  \<open>SIGNATURE_SCRIPT = ''rm -rf "$CONFIGURATION_BUILD_DIR/C2PAC.xcframework-ios.signature"''\<close>

text \<open>The map of shell phases also holds comments; a phase may lack a name.  The library decides what it stores of a
  name and a script, and the comment beside them; the plugin then sets \<open>alwaysOutOfDate\<close>, the last component.\<close>

datatype phase_entry = Phase_comment string | Phase "string option" string bool

definition is_ours :: "phase_entry \<Rightarrow> bool" where
  "is_ours p = (case p of Phase (Some name) _ _ \<Rightarrow> includes_str SIGNATURE_PHASE_KEY name | _ \<Rightarrow> False)"

definition withRemoveC2PACSignature ::
  "(string \<Rightarrow> string \<Rightarrow> string option \<times> string \<times> string) \<Rightarrow> phase_entry list \<Rightarrow> phase_entry list"
where
  "withRemoveC2PACSignature addBuildPhase shellPhases =
    (if list_ex is_ours shellPhases then shellPhases
     else
       (let (name, script, comment) = addBuildPhase SIGNATURE_PHASE_NAME SIGNATURE_SCRIPT in
        shellPhases @ [Phase name script True, Phase_comment comment]))"

text \<open>The plugin over both files.\<close>

definition withPhotoAttestIos ::
  "(string \<Rightarrow> string \<Rightarrow> string option \<times> string \<times> string) \<Rightarrow> string \<Rightarrow> string \<times> phase_entry list
     \<Rightarrow> string + string \<times> phase_entry list"
where
  "withPhotoAttestIos addBuildPhase versionFile project =
    bindR (withC2PAiOS versionFile (fst project)) (\<lambda>podfile.
    Inr (podfile, withRemoveC2PACSignature addBuildPhase (snd project)))"

section \<open>What reaches the Podfile\<close>

text \<open>An accepted version holds no quote, line break or other character with a meaning in the Ruby string around it.\<close>

lemma version_inert:
  assumes "readC2paVersion file = Inr v" "c \<in> set v"
  shows "is_alnum c \<or> c \<in> set ''.-+''"
proof -
  have n: "after_number s = Some r \<Longrightarrow> set s \<subseteq> {c. is_alnum c} \<union> set r" for s r
    by (auto simp: after_number_def is_alnum_def split: if_splits)
      (metis Un_iff set_append set_takeWhileD takeWhile_dropWhile_id)
  have d: "after_dot s = Some r \<Longrightarrow> set s = insert (CHR ''.'') (set r)" for s r
    by (auto simp: after_dot_def split: list.splits if_splits)
  have t: "version_tail s \<Longrightarrow> c \<in> set s \<Longrightarrow> is_alnum c \<or> c \<in> set ''.-+''" for s
    by (auto simp: version_tail_def list_all_iff split: list.splits)
  from assms(1) obtain r1 r2 r3 r4 r5 where r: "after_number v = Some r1" "after_dot r1 = Some r2"
    "after_number r2 = Some r3" "after_dot r3 = Some r4" "after_number r4 = Some r5" "version_tail r5"
    by (auto simp: readC2paVersion_def is_version_def Let_def bind_eq_Some_conv split: option.splits)
  have "c \<in> {c. is_alnum c} \<union> insert (CHR ''.'') (set r5)"
    using n[OF r(1)] n[OF r(3)] n[OF r(5)] assms(2) unfolding d[OF r(2)] d[OF r(4)] by blast
  with t[OF r(6)] show ?thesis by fastforce
qed

lemma split_marker_split:
  "split_marker p = Some (x, y) \<Longrightarrow> p = x @ y \<and> (\<exists>x0. x = x0 @ [CHR 0x0A])"
  by (auto simp: split_marker_def dest!: find_sub_split split: option.splits)

text \<open>A text without a line break that occurs across a cut behind a line break occurs on one side of it.\<close>

lemma includes_insert:
  assumes "includes_str m (x @ y)" "x = x0 @ [n]" "n \<notin> set m"
  shows "includes_str m (x @ z @ y)"
proof -
  from assms(1) obtain a b where "x @ y = a @ m @ b" by (auto simp: includes_str_iff)
  then consider us where "x @ us = a" "y = us @ m @ b"
    | us where "x = a @ us" "us @ y = m @ b" by (auto simp: append_eq_append_conv2)
  then show ?thesis
  proof cases
    case 1
    then have "x @ z @ y = (x @ z @ us) @ m @ b" by simp
    then show ?thesis unfolding includes_str_iff by blast
  next
    case (2 us)
    from 2(2) consider vs where "us = m @ vs" | vs where "us @ vs = m" "y = vs @ b"
      by (auto simp: append_eq_append_conv2)
    then show ?thesis
    proof cases
      case (1 vs)
      with 2 have "x @ z @ y = a @ m @ (vs @ z @ y)" by simp
      then show ?thesis unfolding includes_str_iff by blast
    next
      case vs: (2 vs)
      have "us = []"
      proof (rule ccontr)
        assume "us \<noteq> []"
        with 2(1) assms(2) have "last us = n" by (metis last_appendR last_snoc)
        with \<open>us \<noteq> []\<close> vs(1) assms(3) show False by auto
      qed
      with vs have "x @ z @ y = (x @ z) @ m @ b" by simp
      then show ?thesis unfolding includes_str_iff by blast
    qed
  qed
qed

lemma includes_part: "includes_str m s \<Longrightarrow> includes_str m (a @ s @ b)"
  by (auto simp: includes_str_iff) (metis append.assoc)

lemma includes_second_line: "includes_str s (join_with sep ([] # (u @ s @ w) # rest))"
proof -
  have "\<exists>r. join_with sep (x # rest) = x @ r" for x by (cases rest) auto
  then obtain r where "join_with sep ((u @ s @ w) # rest) = (u @ s @ w) @ r" ..
  then have "join_with sep ([] # (u @ s @ w) # rest) = (sep @ u) @ s @ (w @ r)" by simp
  then show ?thesis unfolding includes_str_iff by blast
qed

lemma snippet_sentinel: "includes_str (at_sentinel opts) (buildAttachSnippet opts)"
  unfolding buildAttachSnippet_def by (rule includes_second_line)

text \<open>A snippet holds no dollar sign, so \<open>replace\<close> inserts it as it is.\<close>

lemma join_with_chars: "c \<notin> set sep \<Longrightarrow> \<forall>x \<in> set xs. c \<notin> set x \<Longrightarrow> c \<notin> set (join_with sep xs)"
  by (induction sep xs rule: join_with.induct) auto

lemma snippet_no_dollar:
  assumes "\<forall>s \<in> {at_sentinel opts, at_lambdaName opts, at_repo opts, at_product opts, at_version opts}. CHR ''$'' \<notin> set s"
  shows "CHR ''$'' \<notin> set (buildAttachSnippet opts)"
  unfolding buildAttachSnippet_def
  using assms by (intro join_with_chars) (simp_all add: POD_TARGET_NAME_def quote_def)

lemma injected_no_dollar:
  assumes "readC2paVersion file = Inr v" "s \<in> set (snippets_for podfile v)"
  shows "CHR ''$'' \<notin> set s"
proof -
  have "\<not> (is_alnum (CHR ''$'') \<or> CHR ''$'' \<in> set ''.-+'')" by code_simp
  then have v: "CHR ''$'' \<notin> set v" using version_inert[OF assms(1)] by blast
  have "CHR ''$'' \<notin> set (buildAttachSnippet (c2pa_opts v))"
    by (rule snippet_no_dollar)
      (simp add: v c2pa_opts_def C2PA_PODFILE_SENTINEL_def C2PA_REPOSITORY_URL_def C2PA_PRODUCT_NAME_def)
  moreover have "CHR ''$'' \<notin> set (buildAttachSnippet swift_cert_opts)"
    by (rule snippet_no_dollar)
      (simp add: swift_cert_opts_def SWIFT_CERT_PODFILE_SENTINEL_def SWIFT_CERT_REPOSITORY_URL_def
        SWIFT_CERT_PRODUCT_NAME_def SWIFT_CERT_VERSION_def)
  moreover have "s = buildAttachSnippet (c2pa_opts v) \<or> s = buildAttachSnippet swift_cert_opts"
    using assms(2) by (auto simp: snippets_for_def split: if_splits)
  ultimately show ?thesis by blast
qed

lemma sentinels_one_line:
  "CHR 0x0A \<notin> set C2PA_PODFILE_SENTINEL" "CHR 0x0A \<notin> set SWIFT_CERT_PODFILE_SENTINEL"
  by (simp_all add: C2PA_PODFILE_SENTINEL_def SWIFT_CERT_PODFILE_SENTINEL_def)

lemma snippets_add:
  assumes "x = x0 @ [CHR 0x0A]"
  shows "snippets_for (x @ concat (snippets_for (x @ y) v) @ y) w = []"
proof -
  let ?p = "x @ y" and ?q = "x @ concat (snippets_for (x @ y) v) @ y"
  have keep: "includes_str m ?q" if "includes_str m ?p" "CHR 0x0A \<notin> set m" for m
    using includes_insert[OF that(1) assms that(2)] .
  have new: "includes_str (at_sentinel opts) ?q" if "buildAttachSnippet opts \<in> set (snippets_for ?p v)" for opts
  proof -
    from that obtain xs ys where "snippets_for ?p v = xs @ buildAttachSnippet opts # ys" by (meson split_list)
    then have "?q = (x @ concat xs) @ buildAttachSnippet opts @ (concat ys @ y)" by simp
    with includes_part[OF snippet_sentinel[of opts]] show ?thesis by metis
  qed
  have "includes_str C2PA_PODFILE_SENTINEL ?q"
    using keep[OF _ sentinels_one_line(1)] new[of "c2pa_opts v"]
    by (cases "includes_str C2PA_PODFILE_SENTINEL ?p") (simp_all add: snippets_for_def c2pa_opts_def)
  moreover have "includes_str SWIFT_CERT_PODFILE_SENTINEL ?q"
    using keep[OF _ sentinels_one_line(2)] new[of swift_cert_opts]
    by (cases "includes_str SWIFT_CERT_PODFILE_SENTINEL ?p") (simp_all add: snippets_for_def swift_cert_opts_def)
  ultimately show ?thesis by (simp add: snippets_for_def)
qed

text \<open>Nothing of the Podfile is lost, and running the plugin again, even with another version, leaves it alone.\<close>

lemma inject_once:
  assumes "injectIntoPodfile p v = Inr (Some q)"
  shows "\<exists>x y. p = x @ y \<and> q = x @ concat (snippets_for p v) @ y" "injectIntoPodfile q w = Inr None"
proof -
  from assms obtain x y where s: "split_marker p = Some (x, y)" and q: "q = x @ concat (snippets_for p v) @ y"
    by (auto simp: injectIntoPodfile_def Let_def split: if_splits option.splits)
  from split_marker_split[OF s] obtain x0 where p: "p = x @ y" and x: "x = x0 @ [CHR 0x0A]" by blast
  from p q show "\<exists>x y. p = x @ y \<and> q = x @ concat (snippets_for p v) @ y" by blast
  from snippets_add[OF x, of y v w] p q show "injectIntoPodfile q w = Inr None" by (simp add: injectIntoPodfile_def)
qed

lemma inject_left_alone: "injectIntoPodfile p v = Inr None \<Longrightarrow> injectIntoPodfile p w = Inr None"
  by (auto simp: injectIntoPodfile_def snippets_for_def Let_def split: if_splits option.splits)

lemma withC2PAiOS_Inr:
  assumes "withC2PAiOS file p = Inr q"
  obtains v w where "readC2paVersion file = Inr v" "injectIntoPodfile p v = Inr w" "q = null_or w p"
  using assms unfolding withC2PAiOS_def bindR_Inr_iff by blast

text \<open>A second run of the plugin changes neither file, provided the library stores a name that still contains the
  phase's key.\<close>

lemma plugin_idempotent:
  assumes "withPhotoAttestIos add file project = Inr project'" "readC2paVersion file' = Inr v'"
    and "\<exists>name. fst (add SIGNATURE_PHASE_NAME SIGNATURE_SCRIPT) = Some name \<and> includes_str SIGNATURE_PHASE_KEY name"
  shows "withPhotoAttestIos add file' project' = Inr project'"
proof -
  from assms(1) have "withC2PAiOS file (fst project) = Inr (fst project')"
    and s: "snd project' = withRemoveC2PACSignature add (snd project)"
    unfolding withPhotoAttestIos_def bindR_Inr_iff by auto
  from this(1) obtain v w where i: "injectIntoPodfile (fst project) v = Inr w" and
    f: "fst project' = null_or w (fst project)"
    by (rule withC2PAiOS_Inr)
  have "injectIntoPodfile (fst project') v' = Inr None"
  proof (cases w)
    case None
    with f i inject_left_alone[of "fst project" v v'] show ?thesis by simp
  next
    case (Some q)
    with f i inject_once(2)[of "fst project" v q v'] show ?thesis by simp
  qed
  moreover have "withRemoveC2PACSignature add (snd project') = snd project'"
    using assms(3) s
    by (auto simp: withRemoveC2PACSignature_def is_ours_def Let_def split: prod.splits if_splits)
  ultimately show ?thesis
    using assms(2) by (simp add: withPhotoAttestIos_def withC2PAiOS_def)
qed

text \<open>An instance: the library quotes the name, as Xcode projects do.\<close>

definition ex_podfile :: string where
  "ex_podfile = ''post_install do |i|'' @ [CHR 0x0A] @ ''react_native_post_install(i)'' @ [CHR 0x0A] @ ''end''"

lemma ex_podfile_split:
  "split_marker ex_podfile = Some (''post_install do |i|'' @ [CHR 0x0A] @ ''react_native_post_install(i)'' @ [CHR 0x0A], ''end'')"
  by code_simp

lemma ex_version: "readC2paVersion (''0.0.14'' @ [CHR 0x0A]) = Inr ''0.0.14''"
  by code_simp

lemma bad_version: "isl (readC2paVersion (''0.0.14'' @ quote @ ''; system(1)''))"
  by code_simp

end
