(* ===== verification/ChainLog.thy ===== *)
theory ChainLog
  imports Asn1 Dates
begin

text \<open>
  The one-line description of a presented chain that goes into a rejection, \<open>describeCertChain\<close> of
  \<open>ca/_shared/attestation/pki.ts\<close>.  A text is the list of its code points, as the loop of the code sees it; the values
  of a name come from the device.
\<close>

type_synonym code_points = "nat list"

abbreviation ascii :: "string \<Rightarrow> code_points" where
  "ascii s \<equiv> map of_char s"

text \<open>The values of a certificate, or none where reading one throws; a date is none when it is not valid.\<close>

record dn_attr =
  da_type :: string
  da_value :: "code_points option"

record chain_cert =
  cc_subject :: "dn_attr list"
  cc_issuer :: "dn_attr list"
  cc_serial :: "bytes option"
  cc_notBefore :: "int option"
  cc_notAfter :: "int option"

definition isoDay_cert :: "int option \<Rightarrow> string" where
  "isoDay_cert d = (case d of Some t \<Rightarrow> take 10 (iso_string t) | None \<Rightarrow> ''invalid'')"

definition DN_OID_NAMES :: "(string \<times> string) list" where
  "DN_OID_NAMES =
    [(''2.5.4.3'', ''CN''), (''2.5.4.5'', ''SERIALNUMBER''), (''2.5.4.6'', ''C''), (''2.5.4.10'', ''O''), (''2.5.4.11'', ''OU'')]"

definition isBreak :: "nat \<Rightarrow> bool" where
  "isBreak c = (c \<le> 0x1F \<or> c = 0x7F \<or> (c \<ge> 0x80 \<and> c \<le> 0x9F) \<or> c = 0x2028 \<or> c = 0x2029)"

text \<open>The length counts UTF-16 units, and is looked at after each character.\<close>

definition units_length :: "code_points \<Rightarrow> nat" where
  "units_length s = sum_list (map (\<lambda>c. if c < 0x10000 then 1 else 2) s)"

fun sanitize_from :: "code_points \<Rightarrow> code_points \<Rightarrow> code_points" where
  "sanitize_from out [] = out"
| "sanitize_from out (c # cs) =
     (let out' = (if isBreak c then out else out @ [c]) in
      if units_length out' \<ge> 128 then out' else sanitize_from out' cs)"

definition sanitizeDnValue :: "code_points \<Rightarrow> code_points" where
  "sanitizeDnValue value = sanitize_from [] value"

fun join_codes :: "code_points \<Rightarrow> code_points list \<Rightarrow> code_points" where
  "join_codes sep [] = []"
| "join_codes sep [x] = x"
| "join_codes sep (x # y # ys) = x @ sep @ join_codes sep (y # ys)"

definition rdnToString :: "dn_attr list \<Rightarrow> code_points option" where
  "rdnToString rdn =
    map_option (join_codes (ascii '',''))
      (those (map (\<lambda>tv. map_option (\<lambda>v.
        ascii (null_or (map_of DN_OID_NAMES (da_type tv)) (da_type tv)) @ ascii ''='' @ sanitizeDnValue v) (da_value tv)) rdn))"

definition describe_cert :: "chain_cert \<Rightarrow> code_points option" where
  "describe_cert cert =
    Option.bind (cc_serial cert) (\<lambda>serial.
    Option.bind (rdnToString (cc_subject cert)) (\<lambda>subject.
    Option.bind (rdnToString (cc_issuer cert)) (\<lambda>issuer.
    Some (ascii '' subj='' @ [34] @ subject @ [34] @ ascii '' issuer='' @ [34] @ issuer @ [34]
      @ ascii '' serial='' @ ascii (bytesToHex serial) @ ascii '' valid='' @ ascii (isoDay_cert (cc_notBefore cert))
      @ ascii ''..'' @ ascii (isoDay_cert (cc_notAfter cert))))))"

definition describeCertChain :: "chain_cert list \<Rightarrow> code_points" where
  "describeCertChain certs =
    join_codes (ascii '' | '')
      (map (\<lambda>(i, cert). ascii (''['' @ show_nat i @ '']'') @ null_or (describe_cert cert) (ascii '' <undescribable cert>''))
        (List.enumerate 0 certs))"

section \<open>One line, of bounded length\<close>

lemma units_length_append [simp]: "units_length (a @ b) = units_length a + units_length b"
  by (simp add: units_length_def)

lemma sanitize_from_clean:
  "\<forall>c \<in> set out. \<not> isBreak c \<Longrightarrow> \<forall>c \<in> set (sanitize_from out cs). \<not> isBreak c"
proof (induction out cs rule: sanitize_from.induct)
  case (2 out c cs)
  define next_out where "next_out = (if isBreak c then out else out @ [c])"
  have "\<forall>x \<in> set next_out. \<not> isBreak x" using 2(2) by (simp add: next_out_def)
  moreover from this 2(1)[OF next_out_def] have "units_length next_out < 128
      \<Longrightarrow> \<forall>x \<in> set (sanitize_from next_out cs). \<not> isBreak x" by simp
  moreover have "sanitize_from out (c # cs) =
      (if 128 \<le> units_length next_out then next_out else sanitize_from next_out cs)"
    unfolding sanitize_from.simps Let_def next_out_def ..
  ultimately show ?case by simp
qed simp

lemma sanitize_from_length:
  "units_length out < 128 \<Longrightarrow> units_length (sanitize_from out cs) \<le> 129"
proof (induction out cs rule: sanitize_from.induct)
  case (2 out c cs)
  let ?out = "if isBreak c then out else out @ [c]"
  have "units_length ?out \<le> 129" using 2(2) by (simp add: units_length_def)
  with 2(1)[OF refl] show ?case by (simp add: Let_def not_le)
qed simp

lemma sanitize_from_filter:
  "units_length (sanitize_from out cs) < 128 \<Longrightarrow> sanitize_from out cs = out @ filter (\<lambda>c. \<not> isBreak c) cs"
  by (induction out cs rule: sanitize_from.induct) (auto simp: Let_def split: if_splits)

text \<open>A value loses its line breaks and nothing else, unless it is cut; the cut comes after 128 units, or 129 where a
  character of two units crosses the bound.\<close>

lemma sanitizeDnValue_exact:
  "c \<in> set (sanitizeDnValue v) \<Longrightarrow> \<not> isBreak c"
  "units_length (sanitizeDnValue v) \<le> 129"
  "units_length (sanitizeDnValue v) < 128 \<Longrightarrow> sanitizeDnValue v = filter (\<lambda>c. \<not> isBreak c) v"
proof -
  show "c \<in> set (sanitizeDnValue v) \<Longrightarrow> \<not> isBreak c"
    using sanitize_from_clean[of "[]" v] by (simp add: sanitizeDnValue_def)
  show "units_length (sanitizeDnValue v) \<le> 129"
    using sanitize_from_length[of "[]" v] by (simp add: sanitizeDnValue_def units_length_def)
  show "units_length (sanitizeDnValue v) < 128 \<Longrightarrow> sanitizeDnValue v = filter (\<lambda>c. \<not> isBreak c) v"
    using sanitize_from_filter[of "[]" v] by (simp add: sanitizeDnValue_def)
qed

text \<open>Texts in which nothing is a break.\<close>

abbreviation single_line :: "code_points \<Rightarrow> bool" where
  "single_line s \<equiv> (\<forall>c \<in> set s. \<not> isBreak c)"

definition printable :: "string \<Rightarrow> bool" where
  "printable s = (\<forall>c \<in> set s. 0x20 \<le> (of_char c :: nat) \<and> of_char c < (0x7F :: nat))"

lemma printable_one_line: "printable s \<Longrightarrow> single_line (ascii s)"
  by (fastforce simp: printable_def isBreak_def)

lemma printable_simps [simp]:
  "printable []"
  "printable (c # s) \<longleftrightarrow> 0x20 \<le> (of_char c :: nat) \<and> of_char c < (0x7F :: nat) \<and> printable s"
  "printable (a @ b) \<longleftrightarrow> printable a \<and> printable b"
  by (auto simp: printable_def)

lemma printable_take: "printable s \<Longrightarrow> printable (take n s)"
  by (meson in_set_takeD printable_def)

lemma printable_show_nat [simp]: "printable (show_nat n)"
  using show_nat_digits[of n] by (fastforce simp: printable_def list_all_iff is_digit_def simp del: show_nat_digits)

lemma printable_pad0 [simp]: "printable s \<Longrightarrow> printable (pad0 n s)"
proof -
  have "printable (replicate k (CHR ''0''))" for k by (induction k) simp_all
  then show "printable s \<Longrightarrow> printable (pad0 n s)" by (simp add: pad0_def)
qed

lemma printable_iso: "printable (iso_string t)"
  by (simp add: iso_string_def iso_year_def Let_def split_beta)

lemma printable_isoDay_cert: "printable (isoDay_cert d)"
  by (cases d) (simp_all add: isoDay_cert_def printable_take printable_iso)

lemma printable_hex: "printable (bytesToHex bs)"
proof -
  have d: "printable [hex_digit d]" if "d < 16" for d
    using that by (simp add: hex_digit_code)
  have "printable (hex2 b)" for b
    using d[OF byte_div_16[of b]] d[of "unat b mod 16"] by (simp add: hex2_def)
  then show ?thesis by (induction bs) (simp_all add: bytesToHex_def pad_hex)
qed

lemma one_line_append: "single_line (a @ b) \<longleftrightarrow> single_line a \<and> single_line b"
  by auto

lemma one_line_join: "single_line sep \<Longrightarrow> \<forall>x \<in> set xs. single_line x \<Longrightarrow> single_line (join_codes sep xs)"
  by (induction sep xs rule: join_codes.induct) auto

lemma those_map_member: "those (map f xs) = Some ys \<Longrightarrow> y \<in> set ys \<Longrightarrow> \<exists>x \<in> set xs. f x = Some y"
  by (induction xs arbitrary: ys) (auto split: option.splits)

lemma rdnToString_clean:
  assumes "rdnToString rdn = Some s" "\<forall>a \<in> set rdn. printable (da_type a)"
  shows "single_line s"
proof -
  let ?f = "\<lambda>tv. map_option (\<lambda>v. ascii (null_or (map_of DN_OID_NAMES (da_type tv)) (da_type tv)) @ ascii ''='' @ sanitizeDnValue v)
    (da_value tv)"
  from assms(1) obtain xs where xs: "those (map ?f rdn) = Some xs" and s: "s = join_codes (ascii '','') xs"
    by (auto simp: rdnToString_def)
  have names: "\<forall>(k, n) \<in> set DN_OID_NAMES. printable n" by (simp add: DN_OID_NAMES_def)
  have attr: "single_line x" if "a \<in> set rdn" "?f a = Some x" for a x
  proof -
    have "printable (null_or (map_of DN_OID_NAMES (da_type a)) (da_type a))"
      using names assms(2) that(1) by (cases "map_of DN_OID_NAMES (da_type a)") (auto dest: map_of_SomeD)
    from printable_one_line[OF this] that(2) printable_one_line[of "''=''"] sanitizeDnValue_exact(1)
    show ?thesis by (auto simp del: list.map)
  qed
  have "\<forall>x \<in> set xs. single_line x"
    using those_map_member[OF xs] attr by blast
  with one_line_join[of "ascii '',''" xs] printable_one_line[of "'',''"] show ?thesis unfolding s by simp
qed

lemma describe_cert_clean:
  assumes "describe_cert cert = Some s" "\<forall>a \<in> set (cc_subject cert @ cc_issuer cert). printable (da_type a)"
  shows "single_line s"
proof -
  from assms(1) obtain serial subject issuer where r: "rdnToString (cc_subject cert) = Some subject"
    "rdnToString (cc_issuer cert) = Some issuer" and
    s: "s = ascii '' subj='' @ [34] @ subject @ [34] @ ascii '' issuer='' @ [34] @ issuer @ [34]
      @ ascii ('' serial='' @ bytesToHex serial @ '' valid='' @ isoDay_cert (cc_notBefore cert)
      @ ''..'' @ isoDay_cert (cc_notAfter cert))"
    by (auto simp: describe_cert_def bind_eq_Some_conv)
  have "single_line (ascii '' subj='')" "single_line (ascii '' issuer='')" "single_line [34]"
    by (simp_all add: printable_one_line isBreak_def)
  moreover have "single_line (ascii ('' serial='' @ bytesToHex serial @ '' valid='' @ isoDay_cert (cc_notBefore cert)
      @ ''..'' @ isoDay_cert (cc_notAfter cert)))"
    by (rule printable_one_line) (simp add: printable_hex printable_isoDay_cert)
  moreover have "single_line subject" "single_line issuer"
    using rdnToString_clean[OF r(1)] rdnToString_clean[OF r(2)] assms(2) by simp_all
  ultimately show ?thesis unfolding s one_line_append by blast
qed

text \<open>Whatever names a device puts into its certificates, the description of the chain is one line: it cannot forge
  another entry of the log.  The types of the attributes are dotted decimals, so they are printable.\<close>

lemma chain_description_one_line:
  assumes "\<forall>cert \<in> set certs. \<forall>a \<in> set (cc_subject cert @ cc_issuer cert). printable (da_type a)"
    and "c \<in> set (describeCertChain certs)"
  shows "\<not> isBreak c"
proof -
  have "single_line (ascii (''['' @ show_nat i @ '']'') @ null_or (describe_cert cert) (ascii '' <undescribable cert>''))"
    if "cert \<in> set certs" for i cert
  proof -
    have "single_line (ascii (''['' @ show_nat i @ '']''))" by (rule printable_one_line) simp
    moreover have "single_line (ascii '' <undescribable cert>'')" by (rule printable_one_line) simp
    moreover have "single_line s" if "describe_cert cert = Some s" for s
      using describe_cert_clean[OF that] assms(1) \<open>cert \<in> set certs\<close> by blast
    ultimately show ?thesis
      unfolding one_line_append by (cases "describe_cert cert") (simp_all only: option.case, blast+)
  qed
  then have "\<forall>x \<in> set (map (\<lambda>(i, cert). ascii (''['' @ show_nat i @ '']'')
      @ null_or (describe_cert cert) (ascii '' <undescribable cert>'')) (List.enumerate 0 certs)). single_line x"
    by (auto simp: enumerate_eq_zip simp del: list.map map_append dest!: set_zip_rightD)
  moreover have "single_line (ascii '' | '')" by (rule printable_one_line) simp
  ultimately show ?thesis using one_line_join assms(2) unfolding describeCertChain_def by blast
qed

text \<open>An instance: a subject with a line feed in its name.\<close>

definition ex_chain_cert :: chain_cert where
  "ex_chain_cert =
    \<lparr>cc_subject = [\<lparr>da_type = ''2.5.4.3'', da_value = Some [65, 10, 66]\<rparr>], cc_issuer = [], cc_serial = Some [1],
     cc_notBefore = Some 0, cc_notAfter = None\<rparr>"

lemma ex_sanitized: "sanitizeDnValue [65, 10, 66] = [65, 66]"
  by (simp add: sanitizeDnValue_def units_length_def isBreak_def)

lemma chain_description_one_line_witness: "10 \<notin> set (describeCertChain [ex_chain_cert])"
proof
  assume "10 \<in> set (describeCertChain [ex_chain_cert])"
  moreover have "\<forall>cert \<in> set [ex_chain_cert]. \<forall>a \<in> set (cc_subject cert @ cc_issuer cert). printable (da_type a)"
    by (simp add: ex_chain_cert_def)
  ultimately have "\<not> isBreak 10" by (rule chain_description_one_line[rotated])
  then show False by (simp add: isBreak_def)
qed

end
