(* ===== verification/TrustLoader.thy ===== *)
theory TrustLoader
  imports Dispatcher Errors Json
begin

text \<open>
  Loading of \<open>trust-sources.yaml\<close>, \<open>verifier/src/trust/loader.ts\<close>.  The parsed YAML is a
  JavaScript value; the file system is a parameter \<open>files\<close> from the certificate path of an
  entry (resolved against the YAML's directory) to the contents of the file, \<open>None\<close> when it
  is not accessible.  Warnings and telemetry are left out.
\<close>

definition err :: "string \<Rightarrow> exn" where
  "err m = OtherErr m"

definition alnum_or_dash :: "char \<Rightarrow> bool" where
  "alnum_or_dash c = (is_alnum c \<or> c = CHR ''-'')"

text \<open>\<open>OCSP_HOST_PATTERN\<close>: \<open>scheme://[*.]host[:port]\<close>.\<close>

definition host_label_ok :: "string \<Rightarrow> bool" where
  "host_label_ok l = (l \<noteq> [] \<and> is_alnum (hd l) \<and> is_alnum (last l) \<and> list_all alnum_or_dash l)"

definition ocsp_host_ok :: "string \<Rightarrow> bool" where
  "ocsp_host_ok s =
    (let l = map lower_char s;
         rest = (if starts_with ''http://'' l then Some (drop 7 s)
                 else if starts_with ''https://'' l then Some (drop 8 s) else None) in
     (case rest of
        None \<Rightarrow> False
      | Some r \<Rightarrow>
          (let r' = (if starts_with ''*.'' r then drop 2 r else r) in
           (case split_char (CHR '':'') r' of
              [host] \<Rightarrow> list_all host_label_ok (split_char (CHR ''.'') host)
            | [host, port] \<Rightarrow> list_all host_label_ok (split_char (CHR ''.'') host)
                \<and> 1 \<le> length port \<and> length port \<le> 5 \<and> list_all is_digit port
            | _ \<Rightarrow> False))))"

fun host_of_entry :: "string \<Rightarrow> jsval \<Rightarrow> string res" where
  "host_of_entry ctx v =
    (case as_str v of
       Some h \<Rightarrow> if ocsp_host_ok h then Inr h
                 else Inl (err (ctx @ '': revocation.ocsp_hosts entry '' @ json_quote h @ '' is not a host pattern''))
     | None \<Rightarrow> Inl (err (ctx @ '': revocation.ocsp_hosts entry '' @ json_stringify v @ '' is not a host pattern'')))"

definition validateRevocationConfig :: "string \<Rightarrow> jsval \<Rightarrow> string list res" where
  "validateRevocationConfig ctx revocation =
    (case revocation of
       JObj kvs \<Rightarrow>
         (case List.find (\<lambda>k. k \<noteq> ''ocsp_hosts'') (map fst kvs) of
            Some k \<Rightarrow> Inl (err (ctx @ '': unknown revocation key '' @ k))
          | None \<Rightarrow>
              (case obj_get revocation ''ocsp_hosts'' of
                 JArr hosts \<Rightarrow>
                   if length hosts = 0 then Inl (err (ctx @ '': revocation.ocsp_hosts must be a non-empty list''))
                   else mapR (host_of_entry ctx) hosts
               | _ \<Rightarrow> Inl (err (ctx @ '': revocation.ocsp_hosts must be a non-empty list''))))
     | _ \<Rightarrow> Inl (err (ctx @ '': revocation must be a mapping with ocsp_hosts'')))"

text \<open>Reading a property of null or undefined throws.\<close>

definition prop_get :: "jsval \<Rightarrow> string \<Rightarrow> jsval res" where
  "prop_get v k = (if v = JNull \<or> v = JUndef then Inl TypeErr else Inr (obj_get v k))"

definition required_str :: "string \<Rightarrow> jsval \<Rightarrow> string \<Rightarrow> string res" where
  "required_str ctx cfg k =
    bindR (prop_get cfg k)
      (\<lambda>v. derefR (err (ctx @ '': missing or non-string '' @ k)) (as_nonempty_str v))"

definition profile_of :: "string \<Rightarrow> jsval \<Rightarrow> string res" where
  "profile_of ctx v =
    (case v of
       JStr p \<Rightarrow> if p = ''realreel'' \<or> p = ''wrap_parent_only'' then Inr p
                 else Inl (err (ctx @ '': unknown verification_profile '' @ p))
     | _ \<Rightarrow> Inl (err (ctx @ '': unknown verification_profile '' @ js_display v)))"

definition revocation_of :: "string \<Rightarrow> string \<Rightarrow> jsval \<Rightarrow> string list option res" where
  "revocation_of ctx profile v =
    (if v = JUndef then Inr None
     else if profile = ''realreel''
     then Inl (err (ctx @ '': a realreel source cannot declare revocation''))
     else bindR (validateRevocationConfig ctx v) (\<lambda>hosts. Inr (Some hosts)))"

text \<open>\<open>validateSourceConfig\<close>: the validated fields of an entry, its PEM still to be read.\<close>

definition validateSourceConfig :: "string \<Rightarrow> jsval \<Rightarrow> trust_source res" where
  "validateSourceConfig yamlPath cfg =
    (let ctx = ''trust-sources.yaml entry (path='' @ yamlPath @ '')'' in
     bindR (required_str ctx cfg ''id'') (\<lambda>sid.
     bindR (guardR (list_ex (\<lambda>entry. ti_id entry = sid) TRUSTED_ISSUERS)
              (err (ctx @ '': id '' @ sid @ '' has no matching entry in TRUSTED_ISSUERS''))) (\<lambda>_.
     bindR (required_str (ctx @ '' '' @ sid) cfg ''root_cert'') (\<lambda>root_cert.
     bindR (profile_of (ctx @ '' '' @ sid) (obj_get cfg ''verification_profile'')) (\<lambda>profile.
     bindR (revocation_of (ctx @ '' '' @ sid) profile (obj_get cfg ''revocation'')) (\<lambda>revocation.
     Inr \<lparr>ts_id = sid, ts_name = null_or (as_str (obj_get cfg ''name'')) [], ts_root_cert = root_cert,
          ts_profile = profile, ts_revocation = revocation, ts_rootCertPem = []\<rparr>))))))"

definition validateTsaRootConfig :: "string \<Rightarrow> jsval \<Rightarrow> tsa_root res" where
  "validateTsaRootConfig yamlPath cfg =
    (let ctx = ''trust-sources.yaml tsa_roots entry (path='' @ yamlPath @ '')'' in
     bindR (required_str ctx cfg ''id'') (\<lambda>sid.
     bindR (required_str (ctx @ '' '' @ sid) cfg ''root_cert'') (\<lambda>root_cert.
     Inr \<lparr>tr_id = sid, tr_root_cert = root_cert, tr_rootCertPem = []\<rparr>)))"

type_synonym file_system = "string \<Rightarrow> string option"

definition load_source :: "file_system \<Rightarrow> string \<Rightarrow> jsval \<Rightarrow> trust_source option res" where
  "load_source files yamlPath cfg =
    bindR (validateSourceConfig yamlPath cfg)
      (\<lambda>s. Inr (map_option (\<lambda>pem. s\<lparr>ts_rootCertPem := pem\<rparr>) (files (ts_root_cert s))))"

definition load_tsa_root :: "file_system \<Rightarrow> string \<Rightarrow> jsval \<Rightarrow> tsa_root option res" where
  "load_tsa_root files yamlPath cfg =
    bindR (validateTsaRootConfig yamlPath cfg)
      (\<lambda>t. Inr (map_option (\<lambda>pem. t\<lparr>tr_rootCertPem := pem\<rparr>) (files (tr_root_cert t))))"

datatype id_kind = Source_kind | Tsa_root_kind

fun kind_string :: "id_kind \<Rightarrow> string" where
  "kind_string Source_kind = ''source''"
| "kind_string Tsa_root_kind = ''tsa_root''"

fun check_duplicate_ids :: "(string \<times> id_kind) list \<Rightarrow> (string \<times> id_kind) list \<Rightarrow> unit res" where
  "check_duplicate_ids seen [] = Inr ()"
| "check_duplicate_ids seen ((i, kind) # ids) =
     (case map_of seen i of
        Some prior \<Rightarrow> Inl (err (''trust-sources.yaml: duplicate id '' @ i @ '': already declared as ''
                          @ kind_string prior @ '', conflicts with '' @ kind_string kind))
      | None \<Rightarrow> check_duplicate_ids ((i, kind) # seen) ids)"

text \<open>The values a \<open>for ... of\<close> over \<open>raw.tsa_roots ?? []\<close> delivers.\<close>

fun iterate_or_empty :: "jsval \<Rightarrow> jsval list res" where
  "iterate_or_empty JUndef = Inr []"
| "iterate_or_empty JNull = Inr []"
| "iterate_or_empty (JArr vs) = Inr vs"
| "iterate_or_empty (JStr s) = Inr (map (\<lambda>c. JStr [c]) s)"
| "iterate_or_empty _ = Inl TypeErr"

definition build_trust_config :: "trust_source list \<Rightarrow> tsa_root list \<Rightarrow> trust_config" where
  "build_trust_config sources tsaRoots =
    \<lparr>tc_sources = sources, tc_tsaRoots = tsaRoots,
     tc_trustAnchorsBundle =
       join_with [CHR 0x0A] (map (\<lambda>s. js_trim (ts_rootCertPem s)) sources
                             @ map (\<lambda>t. js_trim (tr_rootCertPem t)) tsaRoots),
     tc_loadedIds = uniq (map ts_id sources),
     tc_ocspHosts = uniq (concat (map (\<lambda>s. null_or (ts_revocation s) []) sources))\<rparr>"

definition loadTrustConfig :: "file_system \<Rightarrow> string \<Rightarrow> jsval \<Rightarrow> trust_config res" where
  "loadTrustConfig files yamlPath raw =
    (case obj_get raw ''sources'' of
       JArr entries \<Rightarrow>
         bindR (mapR (load_source files yamlPath) entries) (\<lambda>loaded.
         (let sources = non_null loaded in
          bindR (guardR (length sources \<noteq> 0)
                  (err (''trust-sources.yaml at '' @ yamlPath @ '' produced zero usable sources''))) (\<lambda>_.
          bindR (iterate_or_empty (obj_get raw ''tsa_roots'')) (\<lambda>rawTsa.
          bindR (mapR (load_tsa_root files yamlPath) rawTsa) (\<lambda>loadedTsa.
          (let tsaRoots = non_null loadedTsa in
           bindR (check_duplicate_ids [] (map (\<lambda>s. (ts_id s, Source_kind)) sources
                                          @ map (\<lambda>t. (tr_id t, Tsa_root_kind)) tsaRoots)) (\<lambda>_.
           Inr (build_trust_config sources tsaRoots))))))))
     | _ \<Rightarrow> Inl (err (''trust-sources.yaml missing or malformed: '' @ yamlPath)))"

section \<open>What a loaded configuration guarantees\<close>

lemma check_duplicate_ids_distinct:
  "check_duplicate_ids seen ids = Inr () \<longleftrightarrow>
     distinct (map fst ids) \<and> fst ` set ids \<inter> fst ` set seen = {}"
proof (induction seen ids rule: check_duplicate_ids.induct)
  case (1 seen)
  then show ?case by simp
next
  case (2 seen i kind ids)
  show ?case
  proof (cases "map_of seen i")
    case None
    then have "i \<notin> fst ` set seen" by (simp add: map_of_eq_None_iff)
    with 2[OF None] None show ?thesis by auto
  next
    case (Some k)
    then have "i \<in> fst ` set seen" by (force dest: map_of_SomeD)
    with Some show ?thesis by auto
  qed
qed

definition source_wf :: "trust_source \<Rightarrow> bool" where
  "source_wf s \<longleftrightarrow>
    ts_id s \<in> set (map ti_id TRUSTED_ISSUERS)
    \<and> ts_profile s \<in> {''realreel'', ''wrap_parent_only''}
    \<and> (\<forall>hosts. ts_revocation s = Some hosts \<longrightarrow>
         ts_profile s = ''wrap_parent_only'' \<and> hosts \<noteq> [] \<and> (\<forall>h \<in> set hosts. ocsp_host_ok h))"

definition trust_config_wf :: "trust_config \<Rightarrow> bool" where
  "trust_config_wf cfg \<longleftrightarrow>
    tc_sources cfg \<noteq> []
    \<and> (\<forall>s \<in> set (tc_sources cfg). source_wf s)
    \<and> distinct (map ts_id (tc_sources cfg) @ map tr_id (tc_tsaRoots cfg))
    \<and> set (tc_loadedIds cfg) = ts_id ` set (tc_sources cfg)
    \<and> set (tc_ocspHosts cfg) = (\<Union>s \<in> set (tc_sources cfg). set (null_or (ts_revocation s) []))"

lemma host_of_entry_ok: "host_of_entry ctx v = Inr h \<Longrightarrow> ocsp_host_ok h"
  by (auto split: option.splits if_splits)

lemma validateRevocationConfig_ok:
  assumes "validateRevocationConfig ctx v = Inr hosts"
  shows "hosts \<noteq> [] \<and> (\<forall>h \<in> set hosts. ocsp_host_ok h)"
proof -
  from assms obtain kvs where v: "v = JObj kvs"
    by (cases v) (simp_all add: validateRevocationConfig_def)
  with assms obtain vs where vs: "obj_get v ''ocsp_hosts'' = JArr vs"
    by (cases "obj_get v ''ocsp_hosts''")
       (simp_all add: validateRevocationConfig_def del: obj_get.simps split: option.splits)
  with assms v have ne: "vs \<noteq> []" and m: "mapR (host_of_entry ctx) vs = Inr hosts"
    by (simp_all add: validateRevocationConfig_def del: obj_get.simps split: option.splits if_splits)
  from m have "length hosts = length vs" by (rule mapR_Inr_length)
  moreover from mapR_set[OF m] have "\<forall>h \<in> set hosts. ocsp_host_ok h"
    using host_of_entry_ok by blast
  ultimately show ?thesis using ne by auto
qed

lemma profile_of_ok: "profile_of ctx v = Inr p \<Longrightarrow> p \<in> {''realreel'', ''wrap_parent_only''}"
  by (auto simp: profile_of_def split: jsval.splits if_splits)

lemma revocation_of_ok:
  "revocation_of ctx prof v = Inr r \<Longrightarrow> r = Some hosts \<Longrightarrow>
     prof \<noteq> ''realreel'' \<and> hosts \<noteq> [] \<and> (\<forall>h \<in> set hosts. ocsp_host_ok h)"
  by (auto simp: revocation_of_def dest: validateRevocationConfig_ok split: if_splits)

lemma validateSourceConfig_wf:
  assumes "validateSourceConfig p cfg = Inr s"
  shows "source_wf s"
proof -
  from assms obtain ctx where
    known: "list_ex (\<lambda>entry. ti_id entry = ts_id s) TRUSTED_ISSUERS" and
    prof: "profile_of ctx (obj_get cfg ''verification_profile'') = Inr (ts_profile s)" and
    rev: "revocation_of ctx (ts_profile s) (obj_get cfg ''revocation'') = Inr (ts_revocation s)"
    unfolding validateSourceConfig_def Let_def by auto
  from known have "ts_id s \<in> set (map ti_id TRUSTED_ISSUERS)"
    unfolding list_ex_iff set_map by (metis imageI)
  with profile_of_ok[OF prof] revocation_of_ok[OF rev] show ?thesis
    unfolding source_wf_def by auto
qed

lemma load_source_wf: "load_source files p cfg = Inr (Some s) \<Longrightarrow> source_wf s"
  by (auto simp: load_source_def source_wf_def dest!: validateSourceConfig_wf)

lemma loadTrustConfig_wf:
  assumes "loadTrustConfig files p raw = Inr cfg"
  shows "trust_config_wf cfg"
proof -
  from assms obtain entries loaded loadedTsa where
    l: "mapR (load_source files p) entries = Inr loaded" and
    ne: "non_null loaded \<noteq> []" and
    d: "check_duplicate_ids [] (map (\<lambda>s. (ts_id s, Source_kind)) (non_null loaded)
            @ map (\<lambda>t. (tr_id t, Tsa_root_kind)) (non_null loadedTsa)) = Inr ()" and
    cfg: "cfg = build_trust_config (non_null loaded) (non_null loadedTsa)"
    unfolding loadTrustConfig_def Let_def
    by (cases "obj_get raw ''sources''") (simp_all del: obj_get.simps, blast)
  have "\<forall>s \<in> set (non_null loaded). source_wf s"
    using mapR_set[OF l] load_source_wf by fastforce
  moreover have "distinct (map ts_id (non_null loaded) @ map tr_id (non_null loadedTsa))"
    using d by (simp add: check_duplicate_ids_distinct comp_def image_iff) 
  ultimately show ?thesis
    using ne by (simp add: trust_config_wf_def cfg build_trust_config_def)
qed

text \<open>C15. A configuration that loads has at least one source; each has a curated id, a known profile, and
  responders only as a capture source with valid host patterns; no id is used twice; and the id and
  host sets the verifier consults are those of the sources.\<close>

theorem loaded_config_wf:
  assumes "loadTrustConfig files p raw = Inr cfg"
  shows "trust_config_wf cfg"
  using assms by (rule loadTrustConfig_wf)

text \<open>A configuration file with one RealReel and one Pixel source.\<close>

definition ex_yaml :: jsval where
  "ex_yaml = JObj [(''sources'', JArr [
     JObj [(''id'', JStr ''realreel''), (''name'', JStr ''RealReel''), (''root_cert'', JStr ''r.pem''),
           (''verification_profile'', JStr ''realreel'')],
     JObj [(''id'', JStr ''pixel''), (''name'', JStr ''Pixel''), (''root_cert'', JStr ''p.pem''),
           (''verification_profile'', JStr ''wrap_parent_only''),
           (''revocation'', JObj [(''ocsp_hosts'', JArr [JStr ''http://*.pki.goog'']) ])]])]"

lemma ex_yaml_loads:
  "accepted (loadTrustConfig (\<lambda>f. Some ''PEM'') ''t.yaml'' ex_yaml)"
  by code_simp

theorem loaded_config_wf_witness:
  "\<exists>cfg. loadTrustConfig (\<lambda>f. Some ''PEM'') ''t.yaml'' ex_yaml = Inr cfg \<and> trust_config_wf cfg"
  using ex_yaml_loads loaded_config_wf unfolding accepted_iff by blast

end
