(* ===== verification/EcdsaFallback.thy ===== *)
theory EcdsaFallback
  imports Asn1 AndroidRevocation
begin

text \<open>
  The signature check behind every certificate link and request, the crypto engine of
  \<open>ca/_shared/attestation/pki.ts\<close>: pairs of curve and hash that WebCrypto does not implement are
  verified with a second library.  WebCrypto, the curve library and the digests are parameters.
\<close>

datatype ec_curve = P256 | P384 | P521

text \<open>\<open>EC_CURVE_BY_OID\<close>: the curve and its natural hash.\<close>

definition EC_CURVE_BY_OID :: "(string \<times> ec_curve \<times> string) list" where
  "EC_CURVE_BY_OID =
    [(''1.2.840.10045.3.1.7'', P256, ''SHA-256''),
     (''1.3.132.0.34'', P384, ''SHA-384''),
     (''1.3.132.0.35'', P521, ''SHA-512'')]"

definition ECDSA_SIG_HASH_BY_OID :: "(string \<times> string) list" where
  "ECDSA_SIG_HASH_BY_OID =
    [(''1.2.840.10045.4.3.2'', ''SHA-256''), (''1.2.840.10045.4.3.3'', ''SHA-384''),
     (''1.2.840.10045.4.3.4'', ''SHA-512'')]"

definition FALLBACK_HASHES :: "string list" where
  "FALLBACK_HASHES = map snd ECDSA_SIG_HASH_BY_OID"

definition OID_EC_PUBLIC_KEY :: string where "OID_EC_PUBLIC_KEY = ''1.2.840.10045.2.1''"
definition OID_RSA_PSS :: string where "OID_RSA_PSS = ''1.2.840.113549.1.1.10''"

text \<open>Algorithm parameters are an object identifier or anything else.\<close>

datatype alg_params = Oid_params string | Other_params

record public_key_info =
  pk_algorithm :: "string option"
  pk_params :: alg_params
  pk_point :: "bytes option"

record crypto_lib =
  cl_webcrypto_verify :: "bytes \<Rightarrow> bytes \<Rightarrow> public_key_info \<Rightarrow> string option \<Rightarrow> string option \<Rightarrow> string + bool"
  cl_fromBER :: "bytes \<Rightarrow> asn1 option"
  cl_in_range :: "ec_curve \<Rightarrow> nat \<Rightarrow> nat \<Rightarrow> bool"
  cl_digest :: "string \<Rightarrow> bytes \<Rightarrow> bytes"
  cl_curve_verify :: "ec_curve \<Rightarrow> nat \<times> nat \<Rightarrow> bytes \<Rightarrow> bytes \<Rightarrow> string + bool"

definition ecdsaFallbackParams ::
  "public_key_info \<Rightarrow> string option \<Rightarrow> string option \<Rightarrow> (ec_curve \<times> string) option"
where
  "ecdsaFallbackParams key sigAlg sha =
    (if pk_algorithm key \<noteq> Some OID_EC_PUBLIC_KEY then None
     else if sigAlg = Some OID_RSA_PSS then None
     else
       (case pk_params key of
          Other_params \<Rightarrow> None
        | Oid_params oid \<Rightarrow>
            (case map_of EC_CURVE_BY_OID oid of
               None \<Rightarrow> None
             | Some (curve, naturalHash) \<Rightarrow>
                 (case (case sha of Some h \<Rightarrow> Some h
                        | None \<Rightarrow> Option.bind sigAlg (map_of ECDSA_SIG_HASH_BY_OID)) of
                    None \<Rightarrow> None
                  | Some hash \<Rightarrow>
                      if hash = [] \<or> hash \<notin> set FALLBACK_HASHES then None
                      else if hash = naturalHash then None
                      else Some (curve, hash)))))"

fun integer_value :: "asn1 \<Rightarrow> nat option" where
  "integer_value (Node c t k v hv h d) = (if c = 1 \<and> t = 2 then map_option be_nat hv else None)"
| "integer_value Blank = None"

definition ecdsaSigFromBer :: "crypto_lib \<Rightarrow> ec_curve \<Rightarrow> bytes \<Rightarrow> (nat \<times> nat) option" where
  "ecdsaSigFromBer lib curve sigDer =
    (case cl_fromBER lib sigDer of
       Some n \<Rightarrow>
         if has_tag (Some n) 1 16 then
           (case node_value (Some n) of
              Some (Kids [r, s]) \<Rightarrow>
                (case (integer_value r, integer_value s) of
                   (Some rv, Some sv) \<Rightarrow> if cl_in_range lib curve rv sv then Some (rv, sv) else None
                 | _ \<Rightarrow> None)
            | _ \<Rightarrow> None)
         else None
     | None \<Rightarrow> None)"

definition verifyWithPublicKey ::
  "crypto_lib \<Rightarrow> bytes \<Rightarrow> bytes \<Rightarrow> public_key_info \<Rightarrow> string option \<Rightarrow> string option \<Rightarrow> string + bool"
where
  "verifyWithPublicKey lib data signature key sigAlg sha =
    (if pk_algorithm key = Some OID_RSA_PSS then Inr False
     else
       (case ecdsaFallbackParams key sigAlg sha of
          None \<Rightarrow> cl_webcrypto_verify lib data signature key sigAlg sha
        | Some (curve, hash) \<Rightarrow>
            (case pk_point key of
               Some (b # point) \<Rightarrow>
                 if b \<noteq> 4 then Inr False
                 else
                   (case ecdsaSigFromBer lib curve signature of
                      None \<Rightarrow> Inr False
                    | Some rs \<Rightarrow>
                        (case cl_curve_verify lib curve rs (cl_digest lib hash data) (b # point) of
                           Inl m \<Rightarrow> Inr False | Inr ok \<Rightarrow> Inr ok))
             | _ \<Rightarrow> Inr False)))"

section \<open>What the fallback accepts\<close>

text \<open>The mismatched pairs of a curve and a SHA-2 hash; the hash is the caller's if it names one.\<close>

inductive mismatched_pair :: "public_key_info \<Rightarrow> string option \<Rightarrow> string option \<Rightarrow> ec_curve \<Rightarrow> string \<Rightarrow> bool"
where
  pair: "pk_algorithm key = Some OID_EC_PUBLIC_KEY \<Longrightarrow> sigAlg \<noteq> Some OID_RSA_PSS \<Longrightarrow>
    pk_params key = Oid_params oid \<Longrightarrow> (oid, curve, natural) \<in> set EC_CURVE_BY_OID \<Longrightarrow>
    (sha = Some hash \<or> sha = None \<and> (\<exists>a. sigAlg = Some a \<and> (a, hash) \<in> set ECDSA_SIG_HASH_BY_OID)) \<Longrightarrow>
    hash \<in> {''SHA-256'', ''SHA-384'', ''SHA-512''} \<Longrightarrow> hash \<noteq> natural \<Longrightarrow>
    mismatched_pair key sigAlg sha curve hash"

lemma fallback_hashes: "set FALLBACK_HASHES = {''SHA-256'', ''SHA-384'', ''SHA-512''}"
  by (simp add: FALLBACK_HASHES_def ECDSA_SIG_HASH_BY_OID_def)

lemma curve_table: "map_of EC_CURVE_BY_OID oid = Some e \<longleftrightarrow> (oid, e) \<in> set EC_CURVE_BY_OID"
  by (rule map_of_eq_Some_iff) (simp add: EC_CURVE_BY_OID_def)

lemma hash_table: "map_of ECDSA_SIG_HASH_BY_OID a = Some h \<longleftrightarrow> (a, h) \<in> set ECDSA_SIG_HASH_BY_OID"
  by (rule map_of_eq_Some_iff) (simp add: ECDSA_SIG_HASH_BY_OID_def)

lemma ecdsaFallbackParams_iff:
  "ecdsaFallbackParams key sigAlg sha = Some (curve, hash) \<longleftrightarrow> mismatched_pair key sigAlg sha curve hash"
proof
  assume "ecdsaFallbackParams key sigAlg sha = Some (curve, hash)"
  then show "mismatched_pair key sigAlg sha curve hash"
    by (auto simp: ecdsaFallbackParams_def mismatched_pair.simps fallback_hashes curve_table hash_table
        bind_eq_Some_conv split: if_splits option.splits alg_params.splits)
next
  assume "mismatched_pair key sigAlg sha curve hash"
  then show "ecdsaFallbackParams key sigAlg sha = Some (curve, hash)"
  proof cases
    case (pair oid natural)
    then have "map_of EC_CURVE_BY_OID oid = Some (curve, natural)" by (simp add: curve_table)
    moreover have "(case sha of Some h \<Rightarrow> Some h
        | None \<Rightarrow> Option.bind sigAlg (map_of ECDSA_SIG_HASH_BY_OID)) = Some hash"
      using pair(5) by (auto simp: hash_table)
    moreover have "hash \<noteq> []" "hash \<in> set FALLBACK_HASHES" using pair(6) by (auto simp: fallback_hashes)
    ultimately show ?thesis using pair by (simp add: ecdsaFallbackParams_def)
  qed
qed

text \<open>A signature verifies exactly when the key is not keyed as RSA-PSS and, for a mismatched pair of
  curve and hash, the key is an uncompressed point, the signature a sequence of two integers in
  range that the curve accepts over the digest, and for every other pair WebCrypto accepts it: the
  fallback neither widens nor narrows what WebCrypto decides, and a fallback failure never passes.\<close>

lemma signature_check_exact:
  "verifyWithPublicKey lib data signature key sigAlg sha = Inr True \<longleftrightarrow>
     pk_algorithm key \<noteq> Some OID_RSA_PSS \<and>
     (if \<exists>c h. mismatched_pair key sigAlg sha c h
      then \<exists>c h point rs. mismatched_pair key sigAlg sha c h \<and> pk_point key = Some (4 # point)
             \<and> ecdsaSigFromBer lib c signature = Some rs
             \<and> cl_curve_verify lib c rs (cl_digest lib h data) (4 # point) = Inr True
      else cl_webcrypto_verify lib data signature key sigAlg sha = Inr True)"
proof (cases "ecdsaFallbackParams key sigAlg sha")
  case None
  then have "\<nexists>c h. mismatched_pair key sigAlg sha c h" by (metis ecdsaFallbackParams_iff option.distinct(1))
  with None show ?thesis by (simp add: verifyWithPublicKey_def)
next
  case (Some p)
  obtain c h where p: "p = (c, h)" by fastforce
  have only: "mismatched_pair key sigAlg sha c' h' \<longleftrightarrow> c' = c \<and> h' = h" for c' h'
    using Some p by (auto simp flip: ecdsaFallbackParams_iff)
  show ?thesis
    unfolding only using Some p
    by (auto simp: verifyWithPublicKey_def split: option.splits list.splits sum.splits)
qed

end
