(* ===== verification/AndroidAttestation.thy ===== *)
theory AndroidAttestation
  imports Asn1 AndroidRevocation Dates
begin

text \<open>
  Android key attestation, \<open>ca/_shared/attestation/android.ts\<close>: the walk over the KeyDescription
  extension, the evidence table of assurance level 2, and the ten steps of
  \<open>validateAndroidAttestation\<close>.  Integers read from the tree are unbounded here; the code's
  doubles agree on every value its comparisons can accept.
\<close>

definition OID_ANDROID_KEY_DESCRIPTION_V300 :: string where
  "OID_ANDROID_KEY_DESCRIPTION_V300 = ''1.3.6.1.4.1.11129.2.1.30''"
definition OID_ANDROID_KEY_DESCRIPTION_LEGACY :: string where
  "OID_ANDROID_KEY_DESCRIPTION_LEGACY = ''1.3.6.1.4.1.11129.2.1.17''"
definition SECURITY_LEVEL_SOFTWARE :: int where "SECURITY_LEVEL_SOFTWARE = 0"
definition SECURITY_LEVEL_TEE :: int where "SECURITY_LEVEL_TEE = 1"
definition SECURITY_LEVEL_STRONG_BOX :: int where "SECURITY_LEVEL_STRONG_BOX = 2"
definition KM_PURPOSE_SIGN :: int where "KM_PURPOSE_SIGN = 2"
definition KM_ALGORITHM_EC :: int where "KM_ALGORITHM_EC = 3"
definition KM_DIGEST_SHA_2_256 :: int where "KM_DIGEST_SHA_2_256 = 4"
definition KM_EC_CURVE_P_256 :: int where "KM_EC_CURVE_P_256 = 1"
definition KM_ORIGIN_GENERATED :: int where "KM_ORIGIN_GENERATED = 0"
definition VERIFIED_BOOT_STATE_VERIFIED :: int where "VERIFIED_BOOT_STATE_VERIFIED = 0"

lemmas android_consts =
  SECURITY_LEVEL_SOFTWARE_def SECURITY_LEVEL_TEE_def SECURITY_LEVEL_STRONG_BOX_def
  KM_PURPOSE_SIGN_def KM_ALGORITHM_EC_def KM_DIGEST_SHA_2_256_def KM_EC_CURVE_P_256_def
  KM_ORIGIN_GENERATED_def VERIFIED_BOOT_STATE_VERIFIED_def

datatype expected_security_level = Strongbox | Tee

record app_package =
  ap_name :: string
  ap_version :: "int option"

record root_of_trust =
  rt_deviceLocked :: bool
  rt_verifiedBootState :: int

record key_description =
  kd_attestationVersion :: int
  kd_attestationSecurityLevel :: int
  kd_keymasterVersion :: int
  kd_keymasterSecurityLevel :: int
  kd_attestationChallenge :: bytes
  kd_appPackages :: "app_package list"
  kd_appSigningCertDigests :: "bytes list"
  kd_purposes :: "int list option"
  kd_algorithm :: "int option"
  kd_keySize :: "int option"
  kd_digests :: "int list option"
  kd_ecCurve :: "int option"
  kd_origin :: "int option"
  kd_rootOfTrust :: "root_of_trust option"
  kd_osPatchLevel :: "int option"
  kd_vendorPatchLevel :: "int option"
  kd_bootPatchLevel :: "int option"

section \<open>Walking the tree\<close>

fun findFirstSequence :: "asn1 \<Rightarrow> asn1 option"
  and find_in :: "asn1 list \<Rightarrow> asn1 option"
where
  "findFirstSequence (Node c t k v hv h d) =
     (if c = 1 \<and> t = 16 then Some (Node c t k v hv h d)
      else (case v of Some (Kids xs) \<Rightarrow> find_in xs | _ \<Rightarrow> None))"
| "findFirstSequence Blank = None"
| "find_in [] = None"
| "find_in (x # xs) =
     (case findFirstSequence x of Some n \<Rightarrow> Some n | None \<Rightarrow> find_in xs)"

text \<open>\<open>(v << 8) | byte\<close> on Int32.\<close>

definition be_int32 :: "bytes \<Rightarrow> int" where
  "be_int32 bs = sint (foldl (\<lambda>v b. (push_bit 8 v) OR ucast b) (0 :: 32 word) bs)"

fun readInt :: "asn1 option \<Rightarrow> int" where
  "readInt (Some (Node c t k v hv h (Some n))) = n"
| "readInt (Some (Node c t k v (Some bs) h None)) = be_int32 bs"
| "readInt _ = 0"

fun readOctetString :: "asn1 option \<Rightarrow> bytes" where
  "readOctetString (Some (Node c t k v (Some bs) h d)) = bs"
| "readOctetString (Some (Node c t k v None (Some bs) d)) = bs"
| "readOctetString _ = []"

text \<open>The first child of a context tag, or null.\<close>

definition findTaggedField :: "asn1 option \<Rightarrow> int \<Rightarrow> asn1 option ares" where
  "findTaggedField authList tag =
    (case node_value authList of
       Some v \<Rightarrow>
         if truthy_value (Some v)
         then bindR (iterR v) (\<lambda>xs. Inr (List.find (\<lambda>f. has_tag (Some f) 3 tag) xs))
         else Inr None
     | None \<Rightarrow> Inr None)"

definition raw_bytes :: "asn1 option \<Rightarrow> bytes option" where
  "raw_bytes node =
    (case node of
       Some (Node c t k v hv h d) \<Rightarrow>
         (case hv of Some bs \<Rightarrow> if bs \<noteq> [] then Some bs else h | None \<Rightarrow> h)
     | _ \<Rightarrow> None)"

definition readNodeUint :: "asn1 option \<Rightarrow> int option" where
  "readNodeUint node =
    (case raw_bytes node of
       Some bs \<Rightarrow> if bs = [] then None else Some (int (be_nat bs))
     | None \<Rightarrow> None)"

definition tagged_int :: "asn1 \<Rightarrow> int option" where
  "tagged_int f =
    (if is_constructed f then
       let inner = elem_at (node_value (Some f)) 0 in
       (if has_tag inner 1 2 \<or> has_tag inner 1 10 then readNodeUint inner else None)
     else readNodeUint (Some f))"

definition readTaggedInt :: "asn1 option \<Rightarrow> int \<Rightarrow> int option ares" where
  "readTaggedInt authList tag =
    bindR (findTaggedField authList tag) (\<lambda>fo.
      Inr (case fo of None \<Rightarrow> None | Some f \<Rightarrow> tagged_int f))"

definition readTaggedIntSet :: "asn1 option \<Rightarrow> int \<Rightarrow> int list option ares" where
  "readTaggedIntSet authList tag =
    bindR (findTaggedField authList tag) (\<lambda>fo.
      case fo of
        None \<Rightarrow> Inr None
      | Some f \<Rightarrow>
          (let children = node_value (Some f); first = elem_at children 0;
               members = (if has_tag first 1 17 then node_value first else children) in
           if \<not> truthy_value members then Inr None
           else bindR (iterR (the members)) (\<lambda>ms.
                  Inr (Some (List.map_filter (\<lambda>m. readNodeUint (Some m)) ms)))))"

definition extractRootOfTrust :: "asn1 option \<Rightarrow> root_of_trust option ares" where
  "extractRootOfTrust authList =
    bindR (findTaggedField authList 704) (\<lambda>fo.
      Inr (case fo of
        None \<Rightarrow> None
      | Some f \<Rightarrow>
          (let fields = node_value (elem_at (node_value (Some f)) 0) in
           if \<not> truthy_value fields \<or> shorter_than (the fields) 3 then None
           else
             (case readNodeUint (elem_at fields 2) of
                None \<Rightarrow> None
              | Some s \<Rightarrow>
                  Some \<lparr>rt_deviceLocked = (node_value (elem_at fields 1) = Some (Flag True)),
                        rt_verifiedBootState = s\<rparr>))))"

definition extractDayPatchLevel :: "asn1 option \<Rightarrow> int \<Rightarrow> int option ares" where
  "extractDayPatchLevel authList tag =
    bindR (readTaggedInt authList tag) (\<lambda>vo.
      Inr (case vo of
        None \<Rightarrow> None
      | Some v \<Rightarrow>
          (let value = (if v < 10000000 then v * 100 + 1 else v) in
           if value < 20000101 \<or> value > 21001231 then None else Some value)))"

definition extractOsPatchLevel :: "asn1 option \<Rightarrow> int option ares" where
  "extractOsPatchLevel authList =
    bindR (findTaggedField authList 706) (\<lambda>fo.
      Inr (case fo of
        None \<Rightarrow> None
      | Some f \<Rightarrow>
          (let raw =
             (if is_constructed f then
                let inner = elem_at (node_value (Some f)) 0 in
                (if has_tag inner 1 2 then raw_bytes inner else None)
              else raw_bytes (Some f)) in
           (case raw of
              None \<Rightarrow> None
            | Some bs \<Rightarrow>
                if bs = [] then None
                else
                  (let v = int (be_nat bs); value = (if v \<ge> 10000000 then v div 100 else v) in
                   if value < 200001 \<or> value > 210012 then None else Some value)))))"

text \<open>The packages and the signing digests of \<open>attestationApplicationId\<close>.\<close>

definition app_package_of :: "asn1 \<Rightarrow> app_package option" where
  "app_package_of entry =
    (let fields = node_value (Some entry); nameBytes = readOctetString (elem_at fields 0) in
     if \<not> has_elems fields \<or> nameBytes = [] then None
     else Some \<lparr>ap_name = text_decode nameBytes,
                ap_version = (case elem_at fields 1 of
                   None \<Rightarrow> None | Some n \<Rightarrow> Some (readInt (Some n)))\<rparr>)"

definition digests_of :: "asn1 asn1_value option \<Rightarrow> bytes list ares" where
  "digests_of entries =
    (if truthy_value entries
     then bindR (iterR (the entries)) (\<lambda>ds.
            Inr (filter (\<lambda>b. b \<noteq> []) (map (\<lambda>d. readOctetString (Some d)) ds)))
     else Inr [])"

definition extractAttestationApplicationId ::
  "pki_lib \<Rightarrow> asn1 option \<Rightarrow> (app_package list \<times> bytes list) option ares"
where
  "extractAttestationApplicationId lib authList =
    bindR (findTaggedField authList 709) (\<lambda>fo.
      case fo of
        None \<Rightarrow> Inr None
      | Some f \<Rightarrow>
          (let inner = node_value (Some f); octets = readOctetString (elem_at inner 0) in
           if \<not> has_elems inner \<or> octets = [] then Inr None
           else
             (case pl_fromBER lib octets of
                None \<Rightarrow> Inr None
              | Some decoded \<Rightarrow>
                  (let aid = node_value (Some decoded);
                       pkgs = node_value (elem_at aid 0) in
                   if \<not> has_elems aid \<or> \<not> truthy_value pkgs then Inr None
                   else
                     bindR (iterR (the pkgs)) (\<lambda>entries.
                     bindR (digests_of (node_value (elem_at aid 1))) (\<lambda>ds.
                       Inr (Some (List.map_filter app_package_of entries, ds))))))))"

definition parseKeyDescription :: "pki_lib \<Rightarrow> bytes \<Rightarrow> key_description ares" where
  "parseKeyDescription lib extValue =
    (case pl_fromBER lib extValue of
       None \<Rightarrow> Inl (Attestation ''KEY_DESCRIPTION_INVALID'')
     | Some outer \<Rightarrow>
         (case findFirstSequence outer of
            None \<Rightarrow> Inl (Attestation ''KEY_DESCRIPTION_INVALID'')
          | Some seq \<Rightarrow>
              (let fields = null_or (node_value (Some seq)) (Kids []);
                   fld = elem_at (Some fields); hw = fld 7 in
               if shorter_than fields 8 then Inl (Attestation ''KEY_DESCRIPTION_INVALID'')
               else
                 bindR (extractAttestationApplicationId lib (fld 6)) (\<lambda>sw.
                 bindR (if sw = None then extractAttestationApplicationId lib hw else Inr sw) (\<lambda>appId.
                 bindR (readTaggedIntSet hw 1) (\<lambda>purposes.
                 bindR (readTaggedInt hw 2) (\<lambda>algorithm.
                 bindR (readTaggedInt hw 3) (\<lambda>keySize.
                 bindR (readTaggedIntSet hw 5) (\<lambda>digests.
                 bindR (readTaggedInt hw 10) (\<lambda>ecCurve.
                 bindR (readTaggedInt hw 702) (\<lambda>origin.
                 bindR (extractRootOfTrust hw) (\<lambda>rot.
                 bindR (extractOsPatchLevel hw) (\<lambda>os.
                 bindR (extractDayPatchLevel hw 718) (\<lambda>vendor.
                 bindR (extractDayPatchLevel hw 719) (\<lambda>boot.
                   Inr \<lparr>kd_attestationVersion = readInt (fld 0),
                        kd_attestationSecurityLevel = readInt (fld 1),
                        kd_keymasterVersion = readInt (fld 2),
                        kd_keymasterSecurityLevel = readInt (fld 3),
                        kd_attestationChallenge = readOctetString (fld 4),
                        kd_appPackages = (case appId of None \<Rightarrow> [] | Some (p, _) \<Rightarrow> p),
                        kd_appSigningCertDigests = (case appId of None \<Rightarrow> [] | Some (_, d) \<Rightarrow> d),
                        kd_purposes = purposes, kd_algorithm = algorithm, kd_keySize = keySize,
                        kd_digests = digests, kd_ecCurve = ecCurve, kd_origin = origin,
                        kd_rootOfTrust = rot, kd_osPatchLevel = os,
                        kd_vendorPatchLevel = vendor, kd_bootPatchLevel = boot\<rparr>)))))))))))))))"

section \<open>The evidence table of assurance level 2\<close>

definition PATCH_STALE_ROWS :: "string list" where
  "PATCH_STALE_ROWS = [''AL2_OS_PATCH_STALE'', ''AL2_VENDOR_PATCH_STALE'', ''AL2_BOOT_PATCH_STALE'']"
definition OS_PATCH_MAX_AGE_MONTHS :: nat where "OS_PATCH_MAX_AGE_MONTHS = 3"
definition FIRMWARE_PATCH_MAX_AGE_DAYS :: nat where "FIRMWARE_PATCH_MAX_AGE_DAYS = 90"

record al2_opts =
  al_packageName :: string
  al_signingCertSha256Digests :: "bytes list"
  al_minAppVersionCode :: "int option"
  al_now :: int

definition isoMonth :: "int \<Rightarrow> string" where
  "isoMonth yyyymm = show_int (yyyymm div 100) @ ''-'' @ pad0 2 (show_int (yyyymm mod 100))"

definition isoDay :: "int \<Rightarrow> string" where
  "isoDay yyyymmdd = isoMonth (yyyymmdd div 100) @ ''-'' @ pad0 2 (show_int (yyyymmdd mod 100))"

definition stalePatchDetail :: "key_description \<Rightarrow> string list \<Rightarrow> stale_patch_detail" where
  "stalePatchDetail desc failures =
    (if ''AL2_OS_PATCH_STALE'' \<in> set failures
     then Os_patch (isoMonth (the (kd_osPatchLevel desc))) OS_PATCH_MAX_AGE_MONTHS
     else
       let stale = (if ''AL2_VENDOR_PATCH_STALE'' \<in> set failures
                    then [the (kd_vendorPatchLevel desc)] else [])
                 @ (if ''AL2_BOOT_PATCH_STALE'' \<in> set failures
                    then [the (kd_bootPatchLevel desc)] else []) in
       Firmware_patch (isoDay (foldl min (hd stale) stale)) FIRMWARE_PATCH_MAX_AGE_DAYS)"

text \<open>The year of \<open>Date.UTC\<close>: 0..99 mean 1900..1999.  Its month may lie outside the year.\<close>

definition utc_year :: "int \<Rightarrow> int" where
  "utc_year y = (if 0 \<le> y \<and> y \<le> 99 then 1900 + y else y)"

definition yyyymmFloor :: "int \<Rightarrow> int \<Rightarrow> int" where
  "yyyymmFloor now monthsBack =
    (case civil_from_days (now div MS_PER_DAY) of (y, m, d) \<Rightarrow>
      (let k = utc_year y * 12 + (m - 1) - monthsBack in k div 12 * 100 + (k mod 12 + 1)))"

definition yyyymmddFloor :: "int \<Rightarrow> int \<Rightarrow> int" where
  "yyyymmddFloor now daysBack =
    (case civil_from_days ((now - daysBack * MS_PER_DAY) div MS_PER_DAY) of (y, m, d) \<Rightarrow>
      y * 10000 + m * 100 + d)"

text \<open>One patch-level row.\<close>

definition patch_row :: "string \<Rightarrow> int option \<Rightarrow> int \<Rightarrow> int \<Rightarrow> string list" where
  "patch_row name level lo hi =
    (case level of
       None \<Rightarrow> [''AL2_'' @ name @ ''_PATCH_MISSING'']
     | Some v \<Rightarrow> if v < lo then [''AL2_'' @ name @ ''_PATCH_STALE'']
                 else if v > hi then [''AL2_'' @ name @ ''_PATCH_FUTURE''] else [])"

definition version_row :: "key_description \<Rightarrow> al2_opts \<Rightarrow> string list" where
  "version_row desc opts =
    (case al_minAppVersionCode opts of
       None \<Rightarrow> []
     | Some floor \<Rightarrow>
         (let versions = non_null (map ap_version
                (filter (\<lambda>p. ap_name p = al_packageName opts) (kd_appPackages desc))) in
          if versions = [] \<or> foldl max (hd versions) versions < floor
          then [''AL2_APP_VERSION_BELOW_FLOOR''] else []))"

text \<open>The failures: those of the key and boot rows, then one per patch level.\<close>

definition key_and_boot_failures :: "key_description \<Rightarrow> al2_opts \<Rightarrow> string list" where
  "key_and_boot_failures desc opts =
    (if list_ex (\<lambda>got. list_ex (ctEqual got) (al_signingCertSha256Digests opts))
          (kd_appSigningCertDigests desc)
     then [] else [''AL2_APP_SIGNING_CERT_MISMATCH''])
    @ version_row desc opts
    @ (case kd_purposes desc of
         Some ps \<Rightarrow> if KM_PURPOSE_SIGN \<in> set ps then [] else [''AL2_KEY_PURPOSE'']
       | None \<Rightarrow> [''AL2_KEY_PURPOSE''])
    @ (if kd_algorithm desc = Some KM_ALGORITHM_EC then [] else [''AL2_KEY_ALGORITHM''])
    @ (if kd_keySize desc = Some 256 then [] else [''AL2_KEY_SIZE''])
    @ (case kd_digests desc of
         Some ds \<Rightarrow> if KM_DIGEST_SHA_2_256 \<in> set ds then [] else [''AL2_KEY_DIGEST'']
       | None \<Rightarrow> [''AL2_KEY_DIGEST''])
    @ (if kd_ecCurve desc = Some KM_EC_CURVE_P_256 then [] else [''AL2_KEY_CURVE''])
    @ (if kd_origin desc = Some KM_ORIGIN_GENERATED then [] else [''AL2_KEY_ORIGIN''])
    @ (case kd_rootOfTrust desc of
         None \<Rightarrow> [''AL2_ROOT_OF_TRUST_MISSING'']
       | Some r \<Rightarrow>
           (if rt_deviceLocked r then [] else [''AL2_DEVICE_NOT_LOCKED''])
           @ (if rt_verifiedBootState r = VERIFIED_BOOT_STATE_VERIFIED then []
              else [''AL2_VERIFIED_BOOT_NOT_VERIFIED'']))"

definition al2_failures :: "key_description \<Rightarrow> al2_opts \<Rightarrow> string list" where
  "al2_failures desc opts =
    key_and_boot_failures desc opts
    @ patch_row ''OS'' (kd_osPatchLevel desc)
        (yyyymmFloor (al_now opts) (int OS_PATCH_MAX_AGE_MONTHS)) (yyyymmFloor (al_now opts) (-1))
    @ patch_row ''VENDOR'' (kd_vendorPatchLevel desc)
        (yyyymmddFloor (al_now opts) (int FIRMWARE_PATCH_MAX_AGE_DAYS))
        (yyyymmddFloor (al_now opts) (-31))
    @ patch_row ''BOOT'' (kd_bootPatchLevel desc)
        (yyyymmddFloor (al_now opts) (int FIRMWARE_PATCH_MAX_AGE_DAYS))
        (yyyymmddFloor (al_now opts) (-31))"

definition enforceAl2Evidence :: "key_description \<Rightarrow> al2_opts \<Rightarrow> unit ares" where
  "enforceAl2Evidence desc opts =
    (let failures = al2_failures desc opts in
     if failures = [] then Inr ()
     else if list_all (\<lambda>f. f \<in> set PATCH_STALE_ROWS) failures
     then Inl (Stale_patch (stalePatchDetail desc failures))
     else Inl (Attestation ''AL2_EVIDENCE_FAILED''))"

section \<open>The validator\<close>

record android_opts =
  ao_certChainBase64 :: "jsval list"
  ao_challenge :: bytes
  ao_sePublicKey :: bytes
  ao_packageName :: string
  ao_signingCertSha256Digests :: "bytes list"
  ao_minAppVersionCode :: "int option"
  ao_revokedSerials :: android_revocation_list
  ao_expectedSecurityLevel :: expected_security_level
  ao_now :: int

text \<open>The presented chain; \<open>atob\<close> reads an element that is no string as its text.\<close>

definition parse_chain :: "pki_lib \<Rightarrow> jsval list \<Rightarrow> cert list ares" where
  "parse_chain lib b64s =
    mapR (\<lambda>v. case base64ToBytes (js_display v) of
            None \<Rightarrow> Inl (Attestation ''ATTESTATION_DECODE_FAILED'')
          | Some der \<Rightarrow>
              (case pl_parseCert lib der of
                 Inl m \<Rightarrow> Inl (Attestation ''ATTESTATION_DECODE_FAILED'') | Inr c \<Rightarrow> Inr c)) b64s"

definition key_description_ext :: "cert \<Rightarrow> bytes option" where
  "key_description_ext leaf =
    (case findExtensionByOid leaf OID_ANDROID_KEY_DESCRIPTION_V300 of
       Some e \<Rightarrow> Some e
     | None \<Rightarrow> findExtensionByOid leaf OID_ANDROID_KEY_DESCRIPTION_LEGACY)"

definition security_level_gate :: "expected_security_level \<Rightarrow> key_description \<Rightarrow> unit ares" where
  "security_level_gate expected desc =
    bindR (guardR (kd_attestationSecurityLevel desc \<noteq> SECURITY_LEVEL_SOFTWARE)
      (Attestation ''SOFTWARE_ATTESTATION'')) (\<lambda>_.
    bindR (guardR (kd_keymasterSecurityLevel desc \<noteq> SECURITY_LEVEL_SOFTWARE)
      (Attestation ''SOFTWARE_KEYMASTER'')) (\<lambda>_.
    (case expected of
       Strongbox \<Rightarrow>
         bindR (guardR (kd_attestationSecurityLevel desc = SECURITY_LEVEL_STRONG_BOX)
           (Attestation ''SECURITY_LEVEL_MISMATCH'')) (\<lambda>_.
         guardR (kd_keymasterSecurityLevel desc = SECURITY_LEVEL_STRONG_BOX)
           (Attestation ''SECURITY_LEVEL_MISMATCH''))
     | Tee \<Rightarrow>
         guardR (kd_attestationSecurityLevel desc = SECURITY_LEVEL_TEE \<or>
                 kd_attestationSecurityLevel desc = SECURITY_LEVEL_STRONG_BOX)
           (Attestation ''SECURITY_LEVEL_MISMATCH''))))"

definition validateAndroidAttestation ::
  "pki_lib \<Rightarrow> cert list \<Rightarrow> android_opts \<Rightarrow> unit ares"
where
  "validateAndroidAttestation lib googleRoots opts =
    (if length (ao_certChainBase64 opts) < 2 then Inl (Attestation ''ATTESTATION_DECODE_FAILED'')
     else
       bindR (parse_chain lib (ao_certChainBase64 opts)) (\<lambda>certs.
       bindR (case verifyChainToTrustedRoots lib certs googleRoots (ao_now opts) of
                Inl m \<Rightarrow> Inl (Attestation ''CHAIN_INVALID'') | Inr u \<Rightarrow> Inr ()) (\<lambda>_.
       bindR (eachR (\<lambda>c. guardR (findRevoked (ct_serial c) (ao_revokedSerials opts) = None)
                (Attestation ''ATTESTATION_CERT_REVOKED'')) certs) (\<lambda>_.
       let leaf = hd certs in
       bindR (derefR (Attestation ''KEY_DESCRIPTION_MISSING'') (key_description_ext leaf)) (\<lambda>ext.
       bindR (parseKeyDescription lib ext) (\<lambda>desc.
       bindR (guardR (ctEqual (kd_attestationChallenge desc) (ao_challenge opts))
         (Attestation ''CHALLENGE_MISMATCH'')) (\<lambda>_.
       bindR (security_level_gate (ao_expectedSecurityLevel opts) desc) (\<lambda>_.
       bindR (guardR (ctEqual (ct_spki leaf) (ao_sePublicKey opts))
         (Attestation ''PUBLIC_KEY_MISMATCH'')) (\<lambda>_.
       bindR (guardR (list_ex (\<lambda>p. ap_name p = ao_packageName opts) (kd_appPackages desc))
         (Attestation ''PACKAGE_NAME_MISMATCH'')) (\<lambda>_.
       enforceAl2Evidence desc
         \<lparr>al_packageName = ao_packageName opts,
          al_signingCertSha256Digests = ao_signingCertSha256Digests opts,
          al_minAppVersionCode = ao_minAppVersionCode opts,
          al_now = ao_now opts\<rparr>))))))))))"

section \<open>What the evidence table demands\<close>

datatype patch_state = Missing | Stale | Current | Future

fun patch_state_of :: "int option \<Rightarrow> int \<Rightarrow> int \<Rightarrow> patch_state" where
  "patch_state_of None lo hi = Missing"
| "patch_state_of (Some v) lo hi = (if v < lo then Stale else if v > hi then Future else Current)"

definition os_state :: "key_description \<Rightarrow> al2_opts \<Rightarrow> patch_state" where
  "os_state desc opts =
    patch_state_of (kd_osPatchLevel desc) (yyyymmFloor (al_now opts) 3) (yyyymmFloor (al_now opts) (-1))"
definition vendor_state :: "key_description \<Rightarrow> al2_opts \<Rightarrow> patch_state" where
  "vendor_state desc opts =
    patch_state_of (kd_vendorPatchLevel desc)
      (yyyymmddFloor (al_now opts) 90) (yyyymmddFloor (al_now opts) (-31))"
definition boot_state :: "key_description \<Rightarrow> al2_opts \<Rightarrow> patch_state" where
  "boot_state desc opts =
    patch_state_of (kd_bootPatchLevel desc)
      (yyyymmddFloor (al_now opts) 90) (yyyymmddFloor (al_now opts) (-31))"

text \<open>The rows about the app, the key and the boot state.\<close>

definition key_and_boot_ok :: "key_description \<Rightarrow> al2_opts \<Rightarrow> bool" where
  "key_and_boot_ok desc opts =
    (set (kd_appSigningCertDigests desc) \<inter> set (al_signingCertSha256Digests opts) \<noteq> {}
     \<and> (case al_minAppVersionCode opts of
          None \<Rightarrow> True
        | Some floor \<Rightarrow> \<exists>p \<in> set (kd_appPackages desc). ap_name p = al_packageName opts \<and>
            (\<exists>v. ap_version p = Some v \<and> floor \<le> v))
     \<and> (\<exists>ps. kd_purposes desc = Some ps \<and> 2 \<in> set ps)
     \<and> kd_algorithm desc = Some 3 \<and> kd_keySize desc = Some 256
     \<and> (\<exists>ds. kd_digests desc = Some ds \<and> 4 \<in> set ds)
     \<and> kd_ecCurve desc = Some 1 \<and> kd_origin desc = Some 0
     \<and> kd_rootOfTrust desc = Some \<lparr>rt_deviceLocked = True, rt_verifiedBootState = 0\<rparr>)"

lemma foldl_max_less: "foldl max a xs < (c :: int) \<longleftrightarrow> a < c \<and> (\<forall>x \<in> set xs. x < c)"
  by (induction xs arbitrary: a) auto

lemma version_row_ok:
  "version_row desc opts = [] \<longleftrightarrow>
     (case al_minAppVersionCode opts of
        None \<Rightarrow> True
      | Some floor \<Rightarrow> \<exists>p \<in> set (kd_appPackages desc). ap_name p = al_packageName opts \<and>
          (\<exists>v. ap_version p = Some v \<and> floor \<le> v))"
proof (cases "al_minAppVersionCode opts")
  case (Some floor)
  define vs where "vs = non_null (map ap_version
    (filter (\<lambda>p. ap_name p = al_packageName opts) (kd_appPackages desc)))"
  have "version_row desc opts = [] \<longleftrightarrow> \<not> (vs = [] \<or> foldl max (hd vs) vs < floor)"
    by (simp add: version_row_def Some vs_def Let_def)
  also have "\<dots> \<longleftrightarrow> (\<exists>v \<in> set vs. floor \<le> v)"
    by (cases vs) (auto simp: foldl_max_less not_less)
  also have "\<dots> \<longleftrightarrow> (\<exists>p \<in> set (kd_appPackages desc). ap_name p = al_packageName opts \<and>
                      (\<exists>v. ap_version p = Some v \<and> floor \<le> v))"
    by (auto simp: vs_def image_iff) (metis, force)
  finally show ?thesis by (simp add: Some)
qed (simp add: version_row_def)

lemma key_and_boot_failures_Nil: "key_and_boot_failures desc opts = [] \<longleftrightarrow> key_and_boot_ok desc opts"
proof -
  have sig: "list_ex (\<lambda>got. list_ex (ctEqual got) ws) gs \<longleftrightarrow> set gs \<inter> set ws \<noteq> {}" for ws gs
    by (auto simp: list_ex_iff)
  have incl: "(case p of Some xs \<Rightarrow> if k \<in> set xs then [] else [e] | None \<Rightarrow> [e]) = []
                \<longleftrightarrow> (\<exists>xs. p = Some xs \<and> k \<in> set xs)" for p and k :: int and e :: string
    by (cases p) auto
  have rot: "(case r of None \<Rightarrow> [e] | Some (x :: root_of_trust) \<Rightarrow>
                (if rt_deviceLocked x then [] else [f])
                @ (if rt_verifiedBootState x = VERIFIED_BOOT_STATE_VERIFIED then [] else [g])) = []
              \<longleftrightarrow> r = Some \<lparr>rt_deviceLocked = True, rt_verifiedBootState = 0\<rparr>" for r and e f g :: string
    by (cases r) (auto simp: android_consts)
  have one: "(if c then [] else [e]) = [] \<longleftrightarrow> c" for c and e :: string by simp
  show ?thesis
    unfolding key_and_boot_failures_def append_is_Nil_conv incl rot one sig version_row_ok
      key_and_boot_ok_def
    by (simp only: android_consts)
qed

lemma key_and_boot_failures_not_stale:
  "f \<in> set (key_and_boot_failures desc opts) \<Longrightarrow> f \<notin> set PATCH_STALE_ROWS"
  unfolding key_and_boot_failures_def version_row_def Let_def set_append Un_iff
  by (elim disjE) (auto simp: PATCH_STALE_ROWS_def split: option.splits if_splits)

lemma al2_failures_split:
  "al2_failures desc opts = key_and_boot_failures desc opts
    @ patch_row ''OS'' (kd_osPatchLevel desc) (yyyymmFloor (al_now opts) 3) (yyyymmFloor (al_now opts) (-1))
    @ patch_row ''VENDOR'' (kd_vendorPatchLevel desc)
        (yyyymmddFloor (al_now opts) 90) (yyyymmddFloor (al_now opts) (-31))
    @ patch_row ''BOOT'' (kd_bootPatchLevel desc)
        (yyyymmddFloor (al_now opts) 90) (yyyymmddFloor (al_now opts) (-31))"
  by (simp add: al2_failures_def OS_PATCH_MAX_AGE_MONTHS_def
      FIRMWARE_PATCH_MAX_AGE_DAYS_def)

lemma patch_row_Nil: "patch_row n l lo hi = [] \<longleftrightarrow> patch_state_of l lo hi = Current"
  by (cases l) (simp_all add: patch_row_def)

lemma patch_row_states:
  "patch_row n l lo hi =
    (case patch_state_of l lo hi of
       Missing \<Rightarrow> [''AL2_'' @ n @ ''_PATCH_MISSING''] | Stale \<Rightarrow> [''AL2_'' @ n @ ''_PATCH_STALE'']
     | Future \<Rightarrow> [''AL2_'' @ n @ ''_PATCH_FUTURE''] | Current \<Rightarrow> [])"
  by (cases l) (simp_all add: patch_row_def)

lemma patch_row_all_stale:
  assumes "n \<in> {''OS'', ''VENDOR'', ''BOOT''}"
  shows "list_all (\<lambda>f. f \<in> set PATCH_STALE_ROWS) (patch_row n l lo hi) \<longleftrightarrow>
           patch_state_of l lo hi \<in> {Current, Stale}"
  using assms by (auto simp: patch_row_states PATCH_STALE_ROWS_def split: patch_state.split)

lemma all_stale_iff:
  "list_all (\<lambda>f. f \<in> set PATCH_STALE_ROWS) (al2_failures desc opts) \<longleftrightarrow>
     key_and_boot_ok desc opts \<and> os_state desc opts \<in> {Current, Stale} \<and>
     vendor_state desc opts \<in> {Current, Stale} \<and> boot_state desc opts \<in> {Current, Stale}"
proof -
  have "list_all (\<lambda>f. f \<in> set PATCH_STALE_ROWS) (key_and_boot_failures desc opts) \<longleftrightarrow>
          key_and_boot_failures desc opts = []"
  proof (cases "key_and_boot_failures desc opts")
    case (Cons f fs)
    then have "f \<notin> set PATCH_STALE_ROWS" using key_and_boot_failures_not_stale[of f desc opts] by simp
    with Cons show ?thesis by simp
  qed simp
  moreover have "list_all (\<lambda>f. f \<in> set PATCH_STALE_ROWS) (patch_row ''OS'' l lo hi) \<longleftrightarrow>
      patch_state_of l lo hi \<in> {Current, Stale}"
    "list_all (\<lambda>f. f \<in> set PATCH_STALE_ROWS) (patch_row ''VENDOR'' l lo hi) \<longleftrightarrow>
      patch_state_of l lo hi \<in> {Current, Stale}"
    "list_all (\<lambda>f. f \<in> set PATCH_STALE_ROWS) (patch_row ''BOOT'' l lo hi) \<longleftrightarrow>
      patch_state_of l lo hi \<in> {Current, Stale}" for l lo hi
    by (rule patch_row_all_stale, simp)+
  ultimately show ?thesis
    by (simp add: al2_failures_split key_and_boot_failures_Nil os_state_def
        vendor_state_def boot_state_def del: insert_iff)
qed

lemma al2_failures_Nil:
  "al2_failures desc opts = [] \<longleftrightarrow>
     key_and_boot_ok desc opts \<and> os_state desc opts = Current \<and>
     vendor_state desc opts = Current \<and> boot_state desc opts = Current"
  by (simp add: al2_failures_split key_and_boot_failures_Nil patch_row_Nil os_state_def
      vendor_state_def boot_state_def)

lemma patch_row_stale_mem:
  assumes "n \<in> {''OS'', ''VENDOR'', ''BOOT''}" "m \<in> {''OS'', ''VENDOR'', ''BOOT''}"
  shows "''AL2_'' @ n @ ''_PATCH_STALE'' \<in> set (patch_row m l lo hi) \<longleftrightarrow>
           m = n \<and> patch_state_of l lo hi = Stale"
  using assms by (auto simp: patch_row_states split: patch_state.split)

lemma stale_mem_al2_failures:
  "''AL2_OS_PATCH_STALE'' \<in> set (al2_failures desc opts) \<longleftrightarrow> os_state desc opts = Stale"
  "''AL2_VENDOR_PATCH_STALE'' \<in> set (al2_failures desc opts) \<longleftrightarrow> vendor_state desc opts = Stale"
  "''AL2_BOOT_PATCH_STALE'' \<in> set (al2_failures desc opts) \<longleftrightarrow> boot_state desc opts = Stale"
proof -
  have "f \<notin> set (key_and_boot_failures desc opts)" if "f \<in> set PATCH_STALE_ROWS" for f
    using that key_and_boot_failures_not_stale by blast
  note no = this[unfolded PATCH_STALE_ROWS_def]
  show "''AL2_OS_PATCH_STALE'' \<in> set (al2_failures desc opts) \<longleftrightarrow> os_state desc opts = Stale"
    using patch_row_stale_mem[of "''OS''"] no[of "''AL2_OS_PATCH_STALE''"]
    by (simp add: al2_failures_split os_state_def)
  show "''AL2_VENDOR_PATCH_STALE'' \<in> set (al2_failures desc opts) \<longleftrightarrow> vendor_state desc opts = Stale"
    using patch_row_stale_mem[of "''VENDOR''"] no[of "''AL2_VENDOR_PATCH_STALE''"]
    by (simp add: al2_failures_split vendor_state_def)
  show "''AL2_BOOT_PATCH_STALE'' \<in> set (al2_failures desc opts) \<longleftrightarrow> boot_state desc opts = Stale"
    using patch_row_stale_mem[of "''BOOT''"] no[of "''AL2_BOOT_PATCH_STALE''"]
    by (simp add: al2_failures_split boot_state_def)
qed

text \<open>What the table answers: accept, "update your device" with the patch the user can act on, or
  the generic refusal.\<close>

definition al2_answer :: "key_description \<Rightarrow> al2_opts \<Rightarrow> unit ares" where
  "al2_answer desc opts =
    (let os = os_state desc opts; vendor = vendor_state desc opts; boot = boot_state desc opts in
     if \<not> key_and_boot_ok desc opts \<or> {os, vendor, boot} \<inter> {Missing, Future} \<noteq> {}
     then Inl (Attestation ''AL2_EVIDENCE_FAILED'')
     else if os = Stale then Inl (Stale_patch (Os_patch (isoMonth (the (kd_osPatchLevel desc))) 3))
     else if vendor = Stale \<or> boot = Stale then
       Inl (Stale_patch (Firmware_patch
         (isoDay (if vendor = Stale \<and> boot = Stale
                  then min (the (kd_vendorPatchLevel desc)) (the (kd_bootPatchLevel desc))
                  else if vendor = Stale then the (kd_vendorPatchLevel desc)
                  else the (kd_bootPatchLevel desc))) 90))
     else Inr ())"

lemma al2_table: "enforceAl2Evidence desc opts = al2_answer desc opts"
proof -
  have two: "s \<in> {Current, Stale} \<longleftrightarrow> s \<notin> {Missing, Future}" for s by (cases s) auto
  have disj: "{a, b, c} \<inter> {Missing, Future} \<noteq> {} \<longleftrightarrow>
      a \<notin> {Current, Stale} \<or> b \<notin> {Current, Stale} \<or> c \<notin> {Current, Stale}" for a b c
    unfolding two by blast
  consider (bad) "\<not> list_all (\<lambda>f. f \<in> set PATCH_STALE_ROWS) (al2_failures desc opts)"
    | (none) "al2_failures desc opts = []"
    | (stale) "list_all (\<lambda>f. f \<in> set PATCH_STALE_ROWS) (al2_failures desc opts)"
        "al2_failures desc opts \<noteq> []" by blast
  then show ?thesis
  proof cases
    case bad
    then have "al2_failures desc opts \<noteq> []" by auto
    with bad have "enforceAl2Evidence desc opts = Inl (Attestation ''AL2_EVIDENCE_FAILED'')"
      by (simp add: enforceAl2Evidence_def)
    moreover have "al2_answer desc opts = Inl (Attestation ''AL2_EVIDENCE_FAILED'')"
      using bad unfolding all_stale_iff al2_answer_def Let_def disj by auto
    ultimately show ?thesis by simp
  next
    case none
    then show ?thesis by (simp add: enforceAl2Evidence_def al2_answer_def al2_failures_Nil)
  next
    case stale
    then have ok: "key_and_boot_ok desc opts" "os_state desc opts \<in> {Current, Stale}"
      "vendor_state desc opts \<in> {Current, Stale}" "boot_state desc opts \<in> {Current, Stale}"
      by (simp_all add: all_stale_iff)
    have "enforceAl2Evidence desc opts =
            Inl (Stale_patch (stalePatchDetail desc (al2_failures desc opts)))"
      using stale by (simp add: enforceAl2Evidence_def)
    also have "\<dots> = al2_answer desc opts"
      using stale(2) ok
      by (auto simp: stalePatchDetail_def al2_answer_def stale_mem_al2_failures al2_failures_Nil
          OS_PATCH_MAX_AGE_MONTHS_def FIRMWARE_PATCH_MAX_AGE_DAYS_def min_def)
    finally show ?thesis .
  qed
qed

text \<open>The evidence table of assurance level 2 accepts exactly the descriptions whose app, key
  and boot rows hold and whose three patch levels are present, recent enough and not in the future.
  It answers ATTESTATION_STALE_PATCH exactly when stale patch levels are the only thing wrong, with
  the OS month when that is stale and else with the older of the stale firmware dates; a missing or
  future patch level, or any other failed row, is AL2_EVIDENCE_FAILED.\<close>

lemma al2_evidence_exact: "enforceAl2Evidence desc opts = al2_answer desc opts"
  by (rule al2_table)

text \<open>Comparing YYYYMM numbers is comparing months.\<close>

lemma year_month_order:
  fixes pm py q r :: int
  assumes "1 \<le> pm" "pm \<le> 12" "0 \<le> r" "r < 12"
  shows "py * 100 + pm < q * 100 + (r + 1) \<longleftrightarrow> py * 12 + pm < q * 12 + r + 1"
    and "q * 100 + (r + 1) < py * 100 + pm \<longleftrightarrow> q * 12 + r + 1 < py * 12 + pm"
proof -
  consider "py < q" | "py = q" | "q < py" by linarith
  then have "(py * 100 + pm < q * 100 + (r + 1) \<longleftrightarrow> py * 12 + pm < q * 12 + r + 1)
      \<and> (q * 100 + (r + 1) < py * 100 + pm \<longleftrightarrow> q * 12 + r + 1 < py * 12 + pm)"
    using assms by cases linarith+
  then show "py * 100 + pm < q * 100 + (r + 1) \<longleftrightarrow> py * 12 + pm < q * 12 + r + 1"
    and "q * 100 + (r + 1) < py * 100 + pm \<longleftrightarrow> q * 12 + r + 1 < py * 12 + pm" by blast+
qed

text \<open>The OS patch window is in calendar months: a level YYYYMM passes exactly when its month
  lies between three months before the month of the request and one month after it, across year
  ends.\<close>

lemma os_patch_window:
  assumes "civil_from_days (now div MS_PER_DAY) = (y, m, d)" "100 \<le> y"
    and "1 \<le> pm" "pm \<le> 12"
  shows "patch_state_of (Some (py * 100 + pm)) (yyyymmFloor now 3) (yyyymmFloor now (-1)) = Current
         \<longleftrightarrow> y * 12 + m - 3 \<le> py * 12 + pm \<and> py * 12 + pm \<le> y * 12 + m + 1"
proof -
  have ge: "py * 100 + pm < k div 12 * 100 + (k mod 12 + 1) \<longleftrightarrow> py * 12 + pm < k + 1"
    and le: "k div 12 * 100 + (k mod 12 + 1) < py * 100 + pm \<longleftrightarrow> k + 1 < py * 12 + pm" for k
    using year_month_order[OF assms(3,4), where r = "k mod 12" and py = py and q = "k div 12"] by simp_all
  have fl: "yyyymmFloor now b =
      (y * 12 + (m - 1) - b) div 12 * 100 + ((y * 12 + (m - 1) - b) mod 12 + 1)" for b
    using assms(1,2) by (simp add: yyyymmFloor_def utc_year_def Let_def)
  have cur: "patch_state_of (Some v) lo hi = Current \<longleftrightarrow> \<not> v < lo \<and> \<not> hi < v" for v lo hi by simp
  show ?thesis unfolding fl cur ge le by linarith
qed

lemma os_patch_window_example:
  "patch_state_of (Some (2025 * 100 + 10)) (yyyymmFloor 1768000000000 3) (yyyymmFloor 1768000000000 (-1))
     = Current \<longleftrightarrow> 2026 * 12 + 1 - 3 \<le> (2025 * 12 + 10 :: int) \<and> 2025 * 12 + 10 \<le> (2026 * 12 + 1 + 1 :: int)"
  by (rule os_patch_window[where d = 9]) (code_simp, simp_all)

section \<open>What an accepted attestation shows\<close>

text \<open>The levels the platform claims are the levels of the key.\<close>

definition backed_as :: "expected_security_level \<Rightarrow> key_description \<Rightarrow> bool" where
  "backed_as expected desc =
    (case expected of
       Strongbox \<Rightarrow> kd_attestationSecurityLevel desc = 2 \<and> kd_keymasterSecurityLevel desc = 2
     | Tee \<Rightarrow> kd_attestationSecurityLevel desc \<in> {1, 2} \<and> kd_keymasterSecurityLevel desc \<noteq> 0)"

lemma security_level_gate_iff [simp]:
  "security_level_gate expected desc = Inr u \<longleftrightarrow> backed_as expected desc"
  by (cases expected) (auto simp: security_level_gate_def backed_as_def android_consts)

definition android_attested ::
  "pki_lib \<Rightarrow> cert list \<Rightarrow> android_opts \<Rightarrow> cert list \<Rightarrow> key_description \<Rightarrow> bool"
where
  "android_attested lib roots opts certs desc =
    (let al = \<lparr>al_packageName = ao_packageName opts,
               al_signingCertSha256Digests = ao_signingCertSha256Digests opts,
               al_minAppVersionCode = ao_minAppVersionCode opts, al_now = ao_now opts\<rparr> in
     2 \<le> length (ao_certChainBase64 opts)
     \<and> parse_chain lib (ao_certChainBase64 opts) = Inr certs
     \<and> verifyChainToTrustedRoots lib certs roots (ao_now opts) = Inr ()
     \<and> (\<forall>c \<in> set certs. findRevoked (ct_serial c) (ao_revokedSerials opts) = None)
     \<and> Some (Inr desc) = map_option (parseKeyDescription lib) (key_description_ext (hd certs))
     \<and> kd_attestationChallenge desc = ao_challenge opts
     \<and> backed_as (ao_expectedSecurityLevel opts) desc
     \<and> ct_spki (hd certs) = ao_sePublicKey opts
     \<and> ao_packageName opts \<in> ap_name ` set (kd_appPackages desc)
     \<and> al2_answer desc al = Inr ())"

lemma validateAndroidAttestation_iff:
  "validateAndroidAttestation lib roots opts = Inr u \<longleftrightarrow>
     (\<exists>certs desc. android_attested lib roots opts certs desc)"
proof (cases "length (ao_certChainBase64 opts) < 2")
  case True
  then show ?thesis by (simp add: validateAndroidAttestation_def android_attested_def Let_def)
next
  case False
  have chain_ok: "(case v of Inl m \<Rightarrow> Inl e | Inr x \<Rightarrow> Inr ()) = Inr y \<longleftrightarrow> v = Inr ()"
    for v :: "string + unit" and e :: att_error and y by (cases v) auto
  have pkg: "list_ex (\<lambda>p. ap_name p = n) ps \<longleftrightarrow> n \<in> ap_name ` set ps" for n and ps :: "app_package list"
    by (auto simp: list_ex_iff)
  have ext: "Some (Inr d) = map_option f o' \<longleftrightarrow> (\<exists>x. o' = Some x \<and> f x = Inr d)"
    for d :: key_description and f :: "bytes \<Rightarrow> key_description ares" and o' by (cases o') auto
  show ?thesis
    using False
    unfolding validateAndroidAttestation_def android_attested_def Let_def
    by (simp add: chain_ok pkg ext al2_table not_less) blast
qed

text \<open>C18. An Android attestation is accepted exactly when a chain of at least two certificates
  decodes and verifies to a pinned Google root, none of its serials is on Google's revocation list
  in either written form, and the leaf's key description carries the server's challenge, hardware
  security levels (both StrongBox when StrongBox is claimed), the claimed public key, the package of
  the app and evidence that the assurance-level-2 table accepts.\<close>

theorem android_attestation_exact:
  "validateAndroidAttestation lib roots opts = Inr () \<longleftrightarrow>
     (\<exists>certs desc. android_attested lib roots opts certs desc)"
  by (rule validateAndroidAttestation_iff)

end
