(* ===== verification/AppleEnrollment.thy ===== *)
theory AppleEnrollment
  imports Asn1 AndroidRevocation
begin

text \<open>
  App Attest validation at enrollment, \<open>ca/_shared/attestation/apple.ts\<close>: the byte layout of the
  authenticator data, the nonce extension and the nine steps.  The CBOR decoder, SHA-256, and what
  JavaScript makes of a decoded value that is no byte string are parameters.
\<close>

definition OID_APPLE_APPATTEST_NONCE :: string where
  "OID_APPLE_APPATTEST_NONCE = ''1.2.840.113635.100.8.2''"
definition AAGUID_PRODUCTION :: bytes where
  "AAGUID_PRODUCTION = [0x61, 0x70, 0x70, 0x61, 0x74, 0x74, 0x65, 0x73, 0x74, 0, 0, 0, 0, 0, 0, 0]"
definition AAGUID_DEVELOPMENT :: bytes where
  "AAGUID_DEVELOPMENT = [0x61, 0x70, 0x70, 0x61, 0x74, 0x74, 0x65, 0x73, 0x74, 0x64, 0x65, 0x76,
     0x65, 0x6c, 0x6f, 0x70]"

datatype cbor_value =
    C_bytes bytes
  | C_text string
  | C_array "cbor_value list"
  | C_map "(string \<times> cbor_value) list"
  | C_null
  | C_other string

record apple_lib =
  ap_pki :: pki_lib
  ap_cbor :: "bytes \<Rightarrow> string + cbor_value"
  ap_sha256 :: "bytes \<Rightarrow> bytes"
  ap_to_bytes :: "cbor_value \<Rightarrow> string + bytes"

record apple_opts =
  po_attestation :: bytes
  po_challenge :: bytes
  po_keyId :: string
  po_sePublicKey :: bytes
  po_appId :: string
  po_requireProduction :: bool
  po_now :: int

record auth_data =
  ad_rpIdHash :: bytes
  ad_flags :: "8 word"
  ad_counter :: "32 word"
  ad_aaguid :: bytes
  ad_credentialId :: bytes
  ad_credentialPublicKey :: bytes

section \<open>Authenticator data\<close>

definition be_word32 :: "bytes \<Rightarrow> 32 word" where
  "be_word32 bs =
    push_bit 24 (ucast (bs ! 0)) OR push_bit 16 (ucast (bs ! 1)) OR push_bit 8 (ucast (bs ! 2))
    OR ucast (bs ! 3)"

definition be_word16 :: "bytes \<Rightarrow> 32 word" where
  "be_word16 bs = push_bit 8 (ucast (bs ! 0)) OR ucast (bs ! 1)"

definition parseAuthData :: "bytes \<Rightarrow> auth_data ares" where
  "parseAuthData a =
    (if length a < 37 then Inl (Attestation ''AUTH_DATA_TRUNCATED'')
     else if a ! 32 AND 0x40 = 0 then Inl (Attestation ''AUTH_DATA_NO_ATTESTED_CRED'')
     else if length a < 55 then Inl (Attestation ''AUTH_DATA_TRUNCATED'')
     else
       let credIdLen = unat (be_word16 (take 2 (drop 53 a))) in
       if length a < 55 + credIdLen then Inl (Attestation ''AUTH_DATA_TRUNCATED'')
       else Inr \<lparr>ad_rpIdHash = take 32 a, ad_flags = a ! 32,
                 ad_counter = be_word32 (take 4 (drop 33 a)),
                 ad_aaguid = take 16 (drop 37 a),
                 ad_credentialId = take credIdLen (drop 55 a),
                 ad_credentialPublicKey = drop (55 + credIdLen) a\<rparr>)"

section \<open>The nonce extension\<close>

definition parseAppleNonceExtension :: "pki_lib \<Rightarrow> bytes \<Rightarrow> bytes ares" where
  "parseAppleNonceExtension lib ext =
    (let bad = Attestation ''NONCE_EXTENSION_INVALID'' in
     bindR (derefR bad (pl_fromBER lib ext)) (\<lambda>seq.
     bindR (guardR (has_tag (Some seq) 1 16) bad) (\<lambda>_.
     bindR (case node_value (Some seq) of Some (Kids xs) \<Rightarrow> Inr xs | _ \<Rightarrow> Inl bad) (\<lambda>children.
     bindR (derefR bad (List.find (\<lambda>c. has_tag (Some c) 3 1) children)) (\<lambda>tagged.
     let octet = (case node_value (Some tagged) of
                    Some (Kids xs) \<Rightarrow> elem_at (Some (Kids xs)) 0 | _ \<Rightarrow> Some tagged) in
     bindR (guardR (has_tag octet 1 4) bad) (\<lambda>_.
     (case octet of
        Some (Node c t k v (Some bs) h d) \<Rightarrow> if length bs = 32 then Inr bs else Inl bad
      | Some (Node c t k v None (Some bs) d) \<Rightarrow> if length bs = 32 then Inr bs else Inl bad
      | _ \<Rightarrow> Inl bad)))))))"

section \<open>The validator\<close>

fun c_get :: "cbor_value \<Rightarrow> string \<Rightarrow> cbor_value option" where
  "c_get (C_map kvs) k = map_of kvs k"
| "c_get _ k = None"

fun cbor_is_object :: "cbor_value \<Rightarrow> bool" where
  "cbor_is_object (C_bytes b) = True"
| "cbor_is_object (C_array xs) = True"
| "cbor_is_object (C_map kvs) = True"
| "cbor_is_object _ = False"

definition to_bytes :: "apple_lib \<Rightarrow> cbor_value \<Rightarrow> bytes ares" where
  "to_bytes lib v =
    (case v of
       C_bytes b \<Rightarrow> Inr b
     | _ \<Rightarrow> (case ap_to_bytes lib v of Inl m \<Rightarrow> Inl (Other_error m) | Inr b \<Rightarrow> Inr b))"

text \<open>Steps 0 and 1 up to the raw chain: the authenticator data and the certificates' bytes.\<close>

definition apple_envelope :: "apple_lib \<Rightarrow> bytes \<Rightarrow> (bytes \<times> bytes list) ares" where
  "apple_envelope lib attestation =
    (let bad = Attestation ''ATTESTATION_DECODE_FAILED'' in
     bindR (case ap_cbor lib attestation of Inl m \<Rightarrow> Inl bad | Inr v \<Rightarrow> Inr v) (\<lambda>obj.
     bindR (guardR (cbor_is_object obj) bad) (\<lambda>_.
     bindR (guardR (c_get obj ''fmt'' = Some (C_text ''apple-appattest''))
       (Attestation ''WRONG_FORMAT'')) (\<lambda>_.
     bindR (case c_get obj ''authData'' of
              None \<Rightarrow> Inr [] | Some C_null \<Rightarrow> Inr [] | Some v \<Rightarrow> to_bytes lib v) (\<lambda>authData.
     bindR (guardR (authData \<noteq> []) bad) (\<lambda>_.
     (case chain (c_get obj ''attStmt'') (\<lambda>s. c_get s ''x5c'') of
        Some (C_array cs) \<Rightarrow>
          if length cs < 2 then Inl bad
          else bindR (mapR (to_bytes lib) cs) (\<lambda>ders. Inr (authData, ders))
      | _ \<Rightarrow> Inl bad)))))))"

definition parse_apple_chain :: "apple_lib \<Rightarrow> bytes list \<Rightarrow> cert list ares" where
  "parse_apple_chain lib ders =
    mapR (\<lambda>der. case pl_parseCert (ap_pki lib) der of
            Inl m \<Rightarrow> Inl (Attestation ''CERT_PARSE_FAILED'') | Inr c \<Rightarrow> Inr c) ders"

definition aaguid_gate :: "bool \<Rightarrow> bytes \<Rightarrow> unit ares" where
  "aaguid_gate requireProduction aaguid =
    (let isProduction = ctEqual aaguid AAGUID_PRODUCTION;
         isDevelopment = ctEqual aaguid AAGUID_DEVELOPMENT in
     bindR (guardR (isProduction \<or> isDevelopment) (Attestation ''AAGUID_UNKNOWN'')) (\<lambda>_.
     guardR (\<not> (requireProduction \<and> \<not> isProduction)) (Attestation ''AAGUID_NOT_PRODUCTION'')))"

definition validateAppleAttestation :: "apple_lib \<Rightarrow> cert \<Rightarrow> apple_opts \<Rightarrow> bytes ares" where
  "validateAppleAttestation lib appleRoot opts =
    bindR (apple_envelope lib (po_attestation opts)) (\<lambda>(authData, ders).
    bindR (parse_apple_chain lib ders) (\<lambda>certs.
    bindR (case verifyChainToTrustedRoots (ap_pki lib) certs [appleRoot] (po_now opts) of
             Inl m \<Rightarrow> Inl (Attestation ''CHAIN_INVALID'') | Inr u \<Rightarrow> Inr ()) (\<lambda>_.
    let credCert = hd certs; sha = ap_sha256 lib;
        clientDataHash = sha (po_challenge opts @ po_sePublicKey opts);
        expectedNonce = sha (authData @ clientDataHash) in
    bindR (derefR (Attestation ''NONCE_EXTENSION_MISSING'')
      (findExtensionByOid credCert OID_APPLE_APPATTEST_NONCE)) (\<lambda>ext.
    bindR (parseAppleNonceExtension (ap_pki lib) ext) (\<lambda>nonce.
    bindR (guardR (ctEqual nonce expectedNonce) (Attestation ''NONCE_MISMATCH'')) (\<lambda>_.
    bindR (guardR (bytesToBase64 (sha (ct_public_key credCert)) = po_keyId opts)
      (Attestation ''KEY_ID_MISMATCH'')) (\<lambda>_.
    bindR (parseAuthData authData) (\<lambda>ad.
    bindR (guardR (ctEqual (ad_rpIdHash ad) (sha (utf8 (po_appId opts))))
      (Attestation ''RP_ID_MISMATCH'')) (\<lambda>_.
    bindR (guardR (ad_counter ad = 0) (Attestation ''COUNTER_NONZERO'')) (\<lambda>_.
    bindR (aaguid_gate (po_requireProduction opts) (ad_aaguid ad)) (\<lambda>_.
    bindR (guardR (bytesToBase64 (ad_credentialId ad) = po_keyId opts)
      (Attestation ''CREDENTIAL_ID_MISMATCH'')) (\<lambda>_.
    Inr (ct_public_key credCert)))))))))))))"

section \<open>The layout of authenticator data\<close>

definition be4 :: "32 word \<Rightarrow> bytes" where
  "be4 w = [ucast (drop_bit 24 w), ucast (drop_bit 16 w), ucast (drop_bit 8 w), ucast w]"

definition be2 :: "32 word \<Rightarrow> bytes" where
  "be2 w = [ucast (drop_bit 8 w), ucast w]"

definition auth_data_bytes :: "auth_data \<Rightarrow> bytes" where
  "auth_data_bytes ad = ad_rpIdHash ad @ [ad_flags ad] @ be4 (ad_counter ad) @ ad_aaguid ad
     @ be2 (of_nat (length (ad_credentialId ad))) @ ad_credentialId ad @ ad_credentialPublicKey ad"

definition auth_data_wf :: "auth_data \<Rightarrow> bool" where
  "auth_data_wf ad = (length (ad_rpIdHash ad) = 32 \<and> ad_flags ad AND 0x40 \<noteq> 0
     \<and> length (ad_aaguid ad) = 16 \<and> length (ad_credentialId ad) < 65536)"

lemma length_be [simp]: "length (be4 w) = 4" "length (be2 w) = 2"
  by (simp_all add: be4_def be2_def)

lemma byte_high_bits [simp]:
  "bit (b :: 8 word) (8 + n) \<longleftrightarrow> False" "bit b (16 + n) \<longleftrightarrow> False" "bit b (24 + n) \<longleftrightarrow> False"
  by (auto dest: bit_imp_le_length)

lemma be4_be_word32: "be4 (be_word32 [a, b, c, d]) = [a, b, c, d]"
  by (auto simp: be4_def be_word32_def bit_simps intro!: bit_word_eqI dest: bit_imp_le_length)

lemma be_word32_be4: "be_word32 (be4 w) = w"
proof (rule bit_word_eqI)
  fix n assume "n < LENGTH(32)"
  then consider "n < 8" | "8 \<le> n" "n < 16" | "16 \<le> n" "n < 24" | "24 \<le> n" "n < 32"
    by fastforce
  then show "bit (be_word32 (be4 w)) n \<longleftrightarrow> bit w n"
    by cases (auto simp: be4_def be_word32_def bit_simps)
qed

lemma be2_be_word16: "be2 (be_word16 [a, b]) = [a, b]"
  by (auto simp: be2_def be_word16_def bit_simps intro!: bit_word_eqI dest: bit_imp_le_length)

lemma be_word16_be2: "take_bit 16 w = w \<Longrightarrow> be_word16 (be2 w) = w"
proof -
  assume w: "take_bit 16 w = w"
  have "be_word16 (be2 w) = take_bit 16 w"
    by (rule bit_word_eqI) (auto simp: be2_def be_word16_def bit_simps)
  with w show ?thesis by simp
qed

lemma be_word16_lt: "unat (be_word16 [a, b]) < 65536"
proof -
  have "take_bit 16 (be_word16 [a, b]) = be_word16 [a, b]"
    by (rule bit_word_eqI) (auto simp: be_word16_def bit_simps dest: bit_imp_le_length)
  then have "unat (be_word16 [a, b]) = take_bit 16 (unat (be_word16 [a, b]))"
    by (metis unsigned_take_bit_eq)
  then show ?thesis using take_bit_nat_less_exp[of 16 "unat (be_word16 [a, b])"] by simp
qed

lemma slice: "drop k a = take m (drop k a) @ drop (k + m) a"
  by (metis append_take_drop_id drop_drop add.commute)

lemma list4: "length xs = 4 \<Longrightarrow> \<exists>a b c d. xs = [a, b, c, d]"
  by (auto simp: length_Suc_conv eval_nat_numeral)

lemma list2: "length xs = 2 \<Longrightarrow> \<exists>a b. xs = [a, b]"
  by (auto simp: length_Suc_conv eval_nat_numeral)

lemma parseAuthData_iff:
  "parseAuthData a = Inr ad \<longleftrightarrow> auth_data_wf ad \<and> a = auth_data_bytes ad"
proof
  assume p: "parseAuthData a = Inr ad"
  define n where "n = unat (be_word16 (take 2 (drop 53 a)))"
  have len: "55 + n \<le> length a" and fl: "a ! 32 AND 0x40 \<noteq> 0"
    and ad: "ad = \<lparr>ad_rpIdHash = take 32 a, ad_flags = a ! 32,
                 ad_counter = be_word32 (take 4 (drop 33 a)), ad_aaguid = take 16 (drop 37 a),
                 ad_credentialId = take n (drop 55 a), ad_credentialPublicKey = drop (55 + n) a\<rparr>"
    using p by (auto simp: parseAuthData_def Let_def n_def split: if_splits)
  obtain b0 b1 where two: "take 2 (drop 53 a) = [b0, b1]" using len list2[of "take 2 (drop 53 a)"] by auto
  obtain c0 c1 c2 c3 where four: "take 4 (drop 33 a) = [c0, c1, c2, c3]"
    using len list4[of "take 4 (drop 33 a)"] by auto
  have l: "length (take n (drop 55 a)) = n" using len by simp
  have "n < 65536" unfolding n_def two by (rule be_word16_lt)
  have "a = take 32 a @ [a ! 32] @ drop 33 a"
    using id_take_nth_drop[of 32 a] len by simp
  also have "drop 33 a = take 4 (drop 33 a) @ take 16 (drop 37 a) @ take 2 (drop 53 a)
          @ take n (drop 55 a) @ drop (55 + n) a"
    using slice[of 33 a 4] slice[of 37 a 16] slice[of 53 a 2] slice[of 55 a n] by simp
  finally have "a = take 32 a @ [a ! 32] @ [c0, c1, c2, c3] @ take 16 (drop 37 a) @ [b0, b1]
          @ take n (drop 55 a) @ drop (55 + n) a"
    unfolding two four .
  moreover have "of_nat n = be_word16 [b0, b1]" by (simp add: n_def two)
  ultimately show "auth_data_wf ad \<and> a = auth_data_bytes ad"
    using len fl l \<open>n < 65536\<close>
    by (simp add: ad auth_data_wf_def auth_data_bytes_def two four be4_be_word32 be2_be_word16)
next
  assume h: "auth_data_wf ad \<and> a = auth_data_bytes ad"
  define n where "n = length (ad_credentialId ad)"
  have wf: "length (ad_rpIdHash ad) = 32" "ad_flags ad AND 0x40 \<noteq> 0" "length (ad_aaguid ad) = 16"
    "n < 65536" using h by (simp_all add: auth_data_wf_def n_def)
  have a: "a = ad_rpIdHash ad @ [ad_flags ad] @ be4 (ad_counter ad) @ ad_aaguid ad
     @ be2 (of_nat n) @ ad_credentialId ad @ ad_credentialPublicKey ad"
    using h by (simp add: auth_data_bytes_def n_def)
  have "take_bit 16 (of_nat n :: 32 word) = of_nat n"
    using wf(4) by (simp add: take_bit_of_nat take_bit_nat_eq_self)
  then have "unat (be_word16 (be2 (of_nat n))) = n"
    using wf(4) by (simp add: be_word16_be2 unat_of_nat)
  moreover have "length a = 55 + n + length (ad_credentialPublicKey ad)" "a ! 32 = ad_flags ad"
    "take 32 a = ad_rpIdHash ad" "take 4 (drop 33 a) = be4 (ad_counter ad)"
    "take 16 (drop 37 a) = ad_aaguid ad" "take 2 (drop 53 a) = be2 (of_nat n)"
    "drop 55 a = ad_credentialId ad @ ad_credentialPublicKey ad"
    unfolding a using wf n_def by (simp_all add: nth_append)
  moreover from this(7) have "take n (drop 55 a) = ad_credentialId ad"
    "drop (55 + n) a = ad_credentialPublicKey ad"
    using n_def by (simp_all add: add.commute[of 55] flip: drop_drop)
  ultimately show "parseAuthData a = Inr ad"
    using wf by (simp add: parseAuthData_def be_word32_be4)
qed

text \<open>The authenticator data parses to exactly the record whose fixed byte layout it is: 32 bytes of
  relying-party hash, flags with the attested-credential bit, a big-endian counter, 16 bytes of
  AAGUID, a two-byte length and as many bytes of credential id, and the credential key.\<close>

lemma auth_data_layout:
  "parseAuthData a = Inr ad \<longleftrightarrow> auth_data_wf ad \<and> a = auth_data_bytes ad"
  by (rule parseAuthData_iff)

lemma counter_zero_iff: "be_word32 [a, b, c, d] = 0 \<longleftrightarrow> a = 0 \<and> b = 0 \<and> c = 0 \<and> d = 0"
proof
  assume "be_word32 [a, b, c, d] = 0"
  then have "be4 (be_word32 [a, b, c, d]) = be4 0" by simp
  then show "a = 0 \<and> b = 0 \<and> c = 0 \<and> d = 0"
    unfolding be4_be_word32 by (simp add: be4_def)
qed (simp add: be_word32_def)

section \<open>What an accepted attestation shows\<close>

text \<open>The credential certificate chains to Apple's root, its nonce binds the authenticator data, the
  challenge and the signing key, and the authenticator data is that of a new credential of the app.\<close>

definition allowed_aaguids :: "bool \<Rightarrow> bytes set" where
  "allowed_aaguids requireProduction =
    (if requireProduction then {AAGUID_PRODUCTION} else {AAGUID_PRODUCTION, AAGUID_DEVELOPMENT})"

definition apple_attested ::
  "apple_lib \<Rightarrow> cert \<Rightarrow> apple_opts \<Rightarrow> bytes \<Rightarrow> bytes list \<Rightarrow> cert list \<Rightarrow> auth_data \<Rightarrow> bool"
where
  "apple_attested lib root opts authData ders certs ad =
    (let sha = ap_sha256 lib; credCert = hd certs in
     apple_envelope lib (po_attestation opts) = Inr (authData, ders)
     \<and> parse_apple_chain lib ders = Inr certs
     \<and> verifyChainToTrustedRoots (ap_pki lib) certs [root] (po_now opts) = Inr ()
     \<and> (\<exists>ext. findExtensionByOid credCert OID_APPLE_APPATTEST_NONCE = Some ext
          \<and> parseAppleNonceExtension (ap_pki lib) ext
              = Inr (sha (authData @ sha (po_challenge opts @ po_sePublicKey opts))))
     \<and> po_keyId opts = bytesToBase64 (sha (ct_public_key credCert))
     \<and> auth_data_wf ad \<and> authData = auth_data_bytes ad
     \<and> ad_rpIdHash ad = sha (utf8 (po_appId opts))
     \<and> ad_counter ad = 0
     \<and> ad_aaguid ad \<in> allowed_aaguids (po_requireProduction opts)
     \<and> ad_credentialId ad = sha (ct_public_key credCert))"

lemma bytesToBase64_inject [simp]: "bytesToBase64 a = bytesToBase64 b \<longleftrightarrow> a = b"
  by (rule web_b64.enc_inj)

lemma aaguid_gate_iff: "aaguid_gate req a = Inr u \<longleftrightarrow> a \<in> allowed_aaguids req"
  by (cases req) (auto simp: aaguid_gate_def allowed_aaguids_def Let_def)

lemma validateAppleAttestation_iff:
  "validateAppleAttestation lib root opts = Inr pk \<longleftrightarrow>
     (\<exists>authData ders certs ad. apple_attested lib root opts authData ders certs ad
        \<and> pk = ct_public_key (hd certs))"
proof -
  have chain_ok: "(case v of Inl m \<Rightarrow> Inl e | Inr x \<Rightarrow> Inr ()) = Inr y \<longleftrightarrow> v = Inr ()"
    for v :: "string + unit" and e :: att_error and y by (cases v) auto
  have layout: "parseAuthData a = Inr ad \<longleftrightarrow> auth_data_wf ad \<and> a = auth_data_bytes ad" for a ad
    by (rule parseAuthData_iff)
  show ?thesis
    unfolding validateAppleAttestation_def apple_attested_def Let_def
    by (auto simp: chain_ok layout aaguid_gate_iff split_beta) (metis bytesToBase64_inject)
qed

text \<open>C19. An App Attest enrollment is accepted exactly when the certificates chain to Apple's root, the
  nonce in the credential certificate is the hash over the authenticator data, the challenge and the
  signing key, and the authenticator data is that of a fresh credential (counter zero) of this app,
  whose id and the claimed key id are the hash of the certificate's public key, in the production
  environment where that is required; the value returned is that public key.\<close>

theorem apple_attestation_exact:
  "validateAppleAttestation lib root opts = Inr pk \<longleftrightarrow>
     (\<exists>authData ders certs ad. apple_attested lib root opts authData ders certs ad
        \<and> pk = ct_public_key (hd certs))"
  by (rule validateAppleAttestation_iff)

end
