(* ===== verification/JsonParse.thy ===== *)
theory JsonParse
  imports Json Utf16
begin

text \<open>
  \<open>JSON.parse\<close> of the standard library.  A text is its UTF-8 bytes; an escaped lone surrogate is
  kept as the three bytes it would have.  The recursion is bounded by the length of the text, which
  every step shortens.
\<close>

definition is_json_ws :: "char \<Rightarrow> bool" where
  "is_json_ws c = (c \<in> {CHR '' '', CHR 0x09, CHR 0x0A, CHR 0x0D})"

definition skip_ws :: "string \<Rightarrow> string" where
  "skip_ws s = dropWhile is_json_ws s"

text \<open>Four hex digits.\<close>

definition hex4 :: "string \<Rightarrow> (nat \<times> string) option" where
  "hex4 s =
    (let h = take 4 s in
     if length h = 4 \<and> list_all (\<lambda>c. radix_val c < 16) h
     then Some (foldl (\<lambda>a c. a * 16 + radix_val c) 0 h, drop 4 s) else None)"

definition unicode_escape :: "string \<Rightarrow> (string \<times> string) option" where
  "unicode_escape s =
    (case hex4 s of
       None \<Rightarrow> None
     | Some (hi, r) \<Rightarrow>
         (case (if 0xD800 \<le> hi \<and> hi < 0xDC00 \<and> take 2 r = [CHR 0x5C, CHR ''u'']
                then hex4 (drop 2 r) else None) of
            Some (lo, r') \<Rightarrow>
              if 0xDC00 \<le> lo \<and> lo < 0xE000
              then Some (utf8_of_code (0x10000 + (hi - 0xD800) * 1024 + (lo - 0xDC00)), r')
              else Some (utf8_of_code hi, r)
          | None \<Rightarrow> Some (utf8_of_code hi, r)))"

definition simple_escape :: "char \<Rightarrow> char option" where
  "simple_escape c =
    map_of [(CHR 0x22, CHR 0x22), (CHR 0x5C, CHR 0x5C), (CHR ''/'', CHR ''/''), (CHR ''b'', CHR 0x08),
      (CHR ''f'', CHR 0x0C), (CHR ''n'', CHR 0x0A), (CHR ''r'', CHR 0x0D), (CHR ''t'', CHR 0x09)] c"

text \<open>The body of a string, after its opening quote.\<close>

fun parse_string_body :: "nat \<Rightarrow> string \<Rightarrow> (string \<times> string) option" where
  "parse_string_body 0 s = None"
| "parse_string_body (Suc n) s =
     (case s of
        [] \<Rightarrow> None
      | c # cs \<Rightarrow>
          if c = CHR 0x22 then Some ([], cs)
          else if (of_char c :: nat) < 0x20 then None
          else if c = CHR 0x5C then
            (case cs of
               [] \<Rightarrow> None
             | e # r \<Rightarrow>
                 (case (if e = CHR ''u'' then unicode_escape r
                        else map_option (\<lambda>x. ([x], r)) (simple_escape e)) of
                    None \<Rightarrow> None
                  | Some (out, r') \<Rightarrow> map_option (\<lambda>(t, z). (out @ t, z)) (parse_string_body n r')))
          else map_option (\<lambda>(t, z). (c # t, z)) (parse_string_body n cs))"

definition parse_string :: "string \<Rightarrow> (string \<times> string) option" where
  "parse_string s = parse_string_body (length s) s"

text \<open>A number: the longest prefix of the grammar.\<close>

definition parse_number :: "string \<Rightarrow> (jsval \<times> string) option" where
  "parse_number s =
    (let neg = starts_with ''-'' s; u = (if neg then drop 1 s else s);
         ip = takeWhile is_digit u; r1 = dropWhile is_digit u;
         fp = (if starts_with ''.'' r1 then takeWhile is_digit (drop 1 r1) else []);
         r2 = (if starts_with ''.'' r1 then dropWhile is_digit (drop 1 r1) else r1);
         hasExp = (starts_with ''e'' r2 \<or> starts_with ''E'' r2);
         sg = (if starts_with ''+'' (drop 1 r2) \<or> starts_with ''-'' (drop 1 r2) then 2 else 1);
         ex = takeWhile is_digit (drop sg r2);
         r3 = (if hasExp then dropWhile is_digit (drop sg r2) else r2) in
     if ip = [] \<or> (length ip > 1 \<and> hd ip = CHR ''0'') \<or> (starts_with ''.'' r1 \<and> fp = [])
        \<or> (hasExp \<and> ex = []) then None
     else Some (JNum (parse_decimal neg (take (length u - length r3) u)), r3))"

text \<open>A repeated key keeps its place and takes the last value.\<close>

fun put_member :: "string \<Rightarrow> jsval \<Rightarrow> (string \<times> jsval) list \<Rightarrow> (string \<times> jsval) list" where
  "put_member k v [] = [(k, v)]"
| "put_member k v ((k', v') # kvs) = (if k = k' then (k, v) # kvs else (k', v') # put_member k v kvs)"

fun parse_value :: "nat \<Rightarrow> string \<Rightarrow> (jsval \<times> string) option"
  and parse_elems :: "nat \<Rightarrow> jsval list \<Rightarrow> string \<Rightarrow> (jsval \<times> string) option"
  and parse_members :: "nat \<Rightarrow> (string \<times> jsval) list \<Rightarrow> string \<Rightarrow> (jsval \<times> string) option"
where
  "parse_value 0 s = None"
| "parse_value (Suc n) s =
     (case skip_ws s of
        [] \<Rightarrow> None
      | c # r \<Rightarrow>
          if c = CHR 0x22 then map_option (\<lambda>(t, z). (JStr t, z)) (parse_string r)
          else if c = CHR ''['' then
            (if starts_with '']'' (skip_ws r) then Some (JArr [], drop 1 (skip_ws r))
             else parse_elems n [] r)
          else if c = CHR ''{'' then
            (if starts_with ''}'' (skip_ws r) then Some (JObj [], drop 1 (skip_ws r))
             else parse_members n [] r)
          else if starts_with ''true'' (c # r) then Some (JBool True, drop 3 r)
          else if starts_with ''false'' (c # r) then Some (JBool False, drop 4 r)
          else if starts_with ''null'' (c # r) then Some (JNull, drop 3 r)
          else parse_number (c # r))"
| "parse_elems 0 acc s = None"
| "parse_elems (Suc n) acc s =
     (case parse_value n s of
        None \<Rightarrow> None
      | Some (v, r) \<Rightarrow>
          (case skip_ws r of
             c # z \<Rightarrow> if c = CHR '','' then parse_elems n (acc @ [v]) z
                      else if c = CHR '']'' then Some (JArr (acc @ [v]), z) else None
           | [] \<Rightarrow> None))"
| "parse_members 0 acc s = None"
| "parse_members (Suc n) acc s =
     (case skip_ws s of
        c # r \<Rightarrow>
          if c \<noteq> CHR 0x22 then None
          else
            (case parse_string r of
               None \<Rightarrow> None
             | Some (k, r1) \<Rightarrow>
                 (case skip_ws r1 of
                    d # r2 \<Rightarrow>
                      if d \<noteq> CHR '':'' then None
                      else
                        (case parse_value n r2 of
                           None \<Rightarrow> None
                         | Some (v, r3) \<Rightarrow>
                             (case skip_ws r3 of
                                e # z \<Rightarrow>
                                  if e = CHR '','' then parse_members n (put_member k v acc) z
                                  else if e = CHR ''}'' then Some (JObj (put_member k v acc), z)
                                  else None
                              | [] \<Rightarrow> None))
                  | [] \<Rightarrow> None))
      | [] \<Rightarrow> None)"

definition json_parse :: "string \<Rightarrow> jsval option" where
  "json_parse s =
    (case parse_value (Suc (2 * length s)) s of
       Some (v, r) \<Rightarrow> if skip_ws r = [] then Some v else None
     | None \<Rightarrow> None)"

text \<open>Texts with a tilde for the quote and a caret for the backslash.\<close>

definition json_text :: "string \<Rightarrow> string" where
  "json_text s = map (\<lambda>c. if c = CHR ''~'' then CHR 0x22 else if c = CHR 0x5E then CHR 0x5C else c) s"

lemma json_parse_examples:
  "json_parse (json_text '' { ~a~ : [1, -2.50e1, true, null], ~b~:~x^n~, ~a~:{} } '')
     = Some (JObj [(''a'', JObj []), (''b'', JStr [CHR ''x'', CHR 0x0A])])"
  "json_parse ''[1,]'' = None" "json_parse ''01'' = None" "json_parse ''{} x'' = None" "json_parse [] = None"
  by code_simp+

lemma json_parse_stringify_example:
  "json_parse (json_stringify (JObj [(''ok'', JBool True), (''n'', JNum (DecNum (- 25) (- 1))), (''s'', JStr [CHR 0x22])]))
     = Some (JObj [(''ok'', JBool True), (''n'', JNum (DecNum (- 25) (- 1))), (''s'', JStr [CHR 0x22])])"
  by code_simp

end
