(* ===== verification/CaAuth.thy ===== *)
theory CaAuth
  imports CaCommon JsonParse
begin

text \<open>
  Who calls, \<open>ca/_shared/auth.ts\<close>, and the contract every handler of the CA keeps: a preflight is
  answered, another method is refused, and nobody but an authenticated caller changes the state.
  Supabase (user lookup, the MFA function) is a parameter.
\<close>

datatype aal = Aal1 | Aal2

record auth_user =
  au_id :: string
  au_email :: "string option"
  au_aal :: aal
  au_jwt :: string

record supabase_auth =
  sa_getUser :: "string \<Rightarrow> (string \<times> string option) option"
  sa_hasVerifiedMfa :: "string \<Rightarrow> string + jsval"

definition resolveServiceKey :: "env \<Rightarrow> jsval" where
  "resolveServiceKey env =
    (let legacy = JStr (null_or (env ''SUPABASE_SERVICE_ROLE_KEY'') '''');
         candidate = (\<lambda>kvs. case map_of kvs ''default'' of
            Some v \<Rightarrow> if is_nullish v then (case kvs of [] \<Rightarrow> JUndef | (k, w) # _ \<Rightarrow> w) else v
          | None \<Rightarrow> (case kvs of [] \<Rightarrow> JUndef | (k, w) # _ \<Rightarrow> w)) in
     (case env ''SUPABASE_SECRET_KEYS'' of
        Some json \<Rightarrow>
          (case (if json = [] then None else json_parse json) of
             Some (JObj kvs) \<Rightarrow> if truthy (candidate kvs) then candidate kvs else legacy
           | Some (JArr (v # vs)) \<Rightarrow> if truthy v then v else legacy
           | Some (JStr (c # cs)) \<Rightarrow> JStr (of_units (take 1 (units (c # cs))))
           | _ \<Rightarrow> legacy)
      | None \<Rightarrow> legacy))"

text \<open>The token of the header, or none.\<close>

definition userScopedClient :: "request \<Rightarrow> string option" where
  "userScopedClient req =
    (let authHeader = null_or (rq_authorization req) '''' in
     if \<not> starts_with ''Bearer '' authHeader then None
     else let jwt = js_trim (drop 7 authHeader) in if jwt = [] then None else Some jwt)"

text \<open>A byte string as the text \<open>atob\<close> makes of it: one character per byte.\<close>

definition latin1_text :: "bytes \<Rightarrow> string" where
  "latin1_text bs = concat (map (\<lambda>b. utf8_of_code (unat b)) bs)"

definition decodeJwtPayload :: "string \<Rightarrow> jsval option" where
  "decodeJwtPayload jwt =
    (let parts = split_char (CHR ''.'') jwt in
     if length parts \<noteq> 3 then None
     else
       let seg = map (\<lambda>c. if c = CHR ''-'' then CHR ''+'' else if c = CHR ''_'' then CHR ''/'' else c) (parts ! 1);
           padded = seg @ replicate ((length seg + 3) div 4 * 4 - length seg) (CHR ''='') in
       Option.bind (base64ToBytes padded) (\<lambda>bs. json_parse (latin1_text bs)))"

definition getUserFromAuthHeader :: "supabase_auth \<Rightarrow> request \<Rightarrow> auth_user option" where
  "getUserFromAuthHeader lib req =
    (case userScopedClient req of
       None \<Rightarrow> None
     | Some client \<Rightarrow>
         (let jwt = js_trim (dropWhile is_space (drop 6 (null_or (rq_authorization req) ''''))) in
          (case sa_getUser lib jwt of
             None \<Rightarrow> None
           | Some (uid, email) \<Rightarrow>
               (let claim = opt_get (null_or (decodeJwtPayload jwt) JNull) ''aal'' in
                Some \<lparr>au_id = uid, au_email = email,
                      au_aal = (if claim = JStr ''aal2'' then Aal2 else Aal1), au_jwt = client\<rparr>))))"

definition requireAal2IfMfaEnrolled :: "supabase_auth \<Rightarrow> auth_user \<Rightarrow> response option" where
  "requireAal2IfMfaEnrolled lib user =
    (if au_aal user = Aal2 then None
     else
       (case sa_hasVerifiedMfa lib (au_jwt user) of
          Inl err \<Rightarrow> Some (error_response ''Could not verify MFA state'' 500)
        | Inr v \<Rightarrow> if v = JBool True
                   then Some (error_response ''AAL2 required for this action'' 403) else None))"

section \<open>The contract of a handler\<close>

text \<open>\<open>authorized\<close> is what a handler demands of the caller beyond the method.\<close>

locale ca_handler =
  fixes handle :: "request \<Rightarrow> 's \<Rightarrow> response \<times> 's"
    and authorized :: "request \<Rightarrow> bool"
  assumes preflight: "rq_method req = ''OPTIONS'' \<Longrightarrow> snd (handle req s) = s"
    and only_post: "rq_method req \<noteq> ''OPTIONS'' \<Longrightarrow> rq_method req \<noteq> ''POST'' \<Longrightarrow>
      snd (handle req s) = s \<and> rsp_status (fst (handle req s)) = 405"
    and unauthorized: "rq_method req = ''POST'' \<Longrightarrow> \<not> authorized req \<Longrightarrow>
      snd (handle req s) = s \<and> rsp_status (fst (handle req s)) \<noteq> 200"
begin

lemma change_authorized:
  assumes "snd (handle req s) \<noteq> s"
  shows "rq_method req = ''POST'' \<and> authorized req"
  using assms preflight only_post unauthorized by blast

lemma success_authorized:
  assumes "rsp_status (fst (handle req s)) = 200" "rq_method req \<noteq> ''OPTIONS''"
  shows "rq_method req = ''POST'' \<and> authorized req"
  using assms only_post[of req s] unauthorized[of req s] by (cases "rq_method req = ''POST''") auto

end

text \<open>Any number of requests, in order.\<close>

fun serve_all :: "('r \<Rightarrow> 's \<Rightarrow> response \<times> 's) \<Rightarrow> 'r list \<Rightarrow> 's \<Rightarrow> 's" where
  "serve_all h [] s = s"
| "serve_all h (r # rs) s = serve_all h rs (snd (h r s))"

context ca_handler begin

lemma strangers_change_nothing:
  assumes "\<forall>r \<in> set reqs. rq_method r \<noteq> ''POST'' \<or> \<not> authorized r"
  shows "serve_all handle reqs s = s"
  using assms
proof (induction reqs arbitrary: s)
  case (Cons r rs)
  then have "snd (handle r s) = s" using change_authorized[of r s] by auto
  with Cons show ?case by simp
qed simp

end

text \<open>A caller that passes both checks.\<close>

definition aal_cleared :: "supabase_auth \<Rightarrow> request \<Rightarrow> bool" where
  "aal_cleared lib req =
    (case getUserFromAuthHeader lib req of
       None \<Rightarrow> False | Some user \<Rightarrow> requireAal2IfMfaEnrolled lib user = None)"

definition signed_in :: "supabase_auth \<Rightarrow> request \<Rightarrow> bool" where
  "signed_in lib req = (getUserFromAuthHeader lib req \<noteq> None)"

lemma requireAal2_status:
  "requireAal2IfMfaEnrolled lib user = Some r \<Longrightarrow> rsp_status r \<noteq> 200"
  by (auto simp: requireAal2IfMfaEnrolled_def split: if_splits sum.splits)

text \<open>Who passes: a second factor in the session, or none enrolled, and a failing lookup passes nobody.\<close>

lemma requireAal2_None_iff:
  "requireAal2IfMfaEnrolled lib user = None \<longleftrightarrow>
     au_aal user = Aal2 \<or> (\<exists>v. sa_hasVerifiedMfa lib (au_jwt user) = Inr v \<and> v \<noteq> JBool True)"
  by (auto simp: requireAal2IfMfaEnrolled_def split: sum.splits)

lemma getUser_aal2:
  "getUserFromAuthHeader lib req = Some user \<Longrightarrow> au_aal user = Aal2 \<Longrightarrow>
     \<exists>jwt v. decodeJwtPayload jwt = Some v \<and> opt_get v ''aal'' = JStr ''aal2''"
  by (auto simp: getUserFromAuthHeader_def Let_def opt_get_def split: option.splits prod.splits if_splits)

end
