(* ===== verification/CaConfig.thy ===== *)
theory CaConfig
  imports CaCommon
begin

text \<open>
  The app identity the CA pins, \<open>ca/_shared/config.ts\<close>, with the relaxation for a local
  development stack.
\<close>

record dev_attestation_pins =
  dp_appleBundleId :: string
  dp_androidPackageName :: string
  dp_requireProductionAppAttest :: bool

definition local_hosts :: "string list" where
  "local_hosts = [''127.0.0.1'', ''localhost'', ''kong'', ''host.docker.internal'']"

text \<open>The rest of the pattern after the host: an optional port, then a slash or the end.\<close>

definition slash_or_end :: "string \<Rightarrow> bool" where
  "slash_or_end s = (case s of [] \<Rightarrow> True | c # _ \<Rightarrow> c = CHR ''/'')"

definition after_host :: "string \<Rightarrow> bool" where
  "after_host s =
    (case s of
       c # cs \<Rightarrow>
         if c = CHR '':'' then takeWhile is_digit cs \<noteq> [] \<and> slash_or_end (dropWhile is_digit cs)
         else slash_or_end s
     | [] \<Rightarrow> True)"

definition LOCAL_SUPABASE_HOST :: "string \<Rightarrow> bool" where
  "LOCAL_SUPABASE_HOST url =
    (let u = map lower_char url in
     list_ex (\<lambda>scheme. list_ex (\<lambda>host.
       starts_with (scheme @ ''://'' @ host) u
       \<and> after_host (drop (length (scheme @ ''://'' @ host)) u)) local_hosts) [''http'', ''https''])"

definition resolveDevAttestation :: "env \<Rightarrow> string + dev_attestation_pins" where
  "resolveDevAttestation env =
    (let appleBase = null_or (env ''APPLE_BUNDLE_ID'') ''com.realreel.app'';
         androidBase = null_or (env ''ANDROID_PACKAGE_NAME'') ''com.realreel.app'';
         optIn = (env ''ALLOW_DEV_BUILD_ATTESTATION'' = Some ''true'');
         supabaseUrl = null_or (env ''SUPABASE_URL'') '''';
         isLocal = LOCAL_SUPABASE_HOST supabaseUrl in
     if ends_with ''.dev'' appleBase then Inl (''APPLE_BUNDLE_ID='' @ appleBase @ '' ends in .dev'')
     else if ends_with ''.dev'' androidBase
     then Inl (''ANDROID_PACKAGE_NAME='' @ androidBase @ '' ends in .dev'')
     else if optIn \<and> \<not> isLocal then Inl ''ALLOW_DEV_BUILD_ATTESTATION is set off-local''
     else
       let relax = (optIn \<and> isLocal) in
       Inr \<lparr>dp_appleBundleId = (if relax then appleBase @ ''.dev'' else appleBase),
            dp_androidPackageName = (if relax then androidBase @ ''.dev'' else androidBase),
            dp_requireProductionAppAttest = (\<not> relax)\<rparr>)"

definition APPLE_APP_ID_of :: "env \<Rightarrow> dev_attestation_pins \<Rightarrow> string" where
  "APPLE_APP_ID_of env pins =
    null_or (env ''APPLE_TEAM_ID'') ''7RPHYY66U6'' @ ''.'' @ dp_appleBundleId pins"

definition MAX_SIGNING_KEY_ID_CHARS :: nat where "MAX_SIGNING_KEY_ID_CHARS = 128"

section \<open>What counts as local\<close>

text \<open>A URL of a local host: scheme, host, an optional port of digits, and nothing or a path.\<close>

inductive local_url :: "string \<Rightarrow> bool" where
  no_port: "\<lbrakk>scheme \<in> {''http'', ''https''}; host \<in> set local_hosts; path = [] \<or> hd path = CHR ''/''\<rbrakk>
    \<Longrightarrow> local_url (scheme @ ''://'' @ host @ path)"
| port: "\<lbrakk>scheme \<in> {''http'', ''https''}; host \<in> set local_hosts; ds \<noteq> []; list_all is_digit ds;
    path = [] \<or> hd path = CHR ''/''\<rbrakk>
    \<Longrightarrow> local_url (scheme @ ''://'' @ host @ '':'' @ ds @ path)"

lemma slash_or_end_iff: "slash_or_end s \<longleftrightarrow> s = [] \<or> hd s = CHR ''/''"
  by (cases s) (simp_all add: slash_or_end_def)

lemma takeWhile_digits:
  assumes "list_all is_digit ds" "path = [] \<or> hd path = CHR ''/''"
  shows "takeWhile is_digit (ds @ path) = ds" "dropWhile is_digit (ds @ path) = path"
proof -
  have p: "takeWhile is_digit path = []" "dropWhile is_digit path = path"
    using assms(2) by (cases path; simp add: is_digit_def)+
  have "\<forall>d \<in> set ds. is_digit d" using assms(1) by (simp add: list_all_iff)
  with p show "takeWhile is_digit (ds @ path) = ds" "dropWhile is_digit (ds @ path) = path" by simp_all
qed

lemma after_host_iff:
  "after_host r \<longleftrightarrow>
     (r = [] \<or> hd r = CHR ''/'') \<or>
     (\<exists>ds path. r = '':'' @ ds @ path \<and> ds \<noteq> [] \<and> list_all is_digit ds \<and> (path = [] \<or> hd path = CHR ''/''))"
proof (cases r)
  case Nil
  then show ?thesis by (simp add: after_host_def)
next
  case (Cons c cs)
  show ?thesis
  proof (cases "c = CHR '':''")
    case False
    with Cons show ?thesis by (simp add: after_host_def slash_or_end_iff)
  next
    case True
    have "takeWhile is_digit cs \<noteq> [] \<and> slash_or_end (dropWhile is_digit cs) \<longleftrightarrow>
        (\<exists>ds path. cs = ds @ path \<and> ds \<noteq> [] \<and> list_all is_digit ds \<and> (path = [] \<or> hd path = CHR ''/''))"
    proof
      assume a: "takeWhile is_digit cs \<noteq> [] \<and> slash_or_end (dropWhile is_digit cs)"
      have "cs = takeWhile is_digit cs @ dropWhile is_digit cs" "list_all is_digit (takeWhile is_digit cs)"
        by (auto simp: list_all_iff dest: set_takeWhileD)
      with a show "\<exists>ds path. cs = ds @ path \<and> ds \<noteq> [] \<and> list_all is_digit ds \<and> (path = [] \<or> hd path = CHR ''/'')"
        unfolding slash_or_end_iff by blast
    next
      assume "\<exists>ds path. cs = ds @ path \<and> ds \<noteq> [] \<and> list_all is_digit ds \<and> (path = [] \<or> hd path = CHR ''/'')"
      then obtain ds path where d: "cs = ds @ path" "ds \<noteq> []" "list_all is_digit ds"
        "path = [] \<or> hd path = CHR ''/''" by blast
      show "takeWhile is_digit cs \<noteq> [] \<and> slash_or_end (dropWhile is_digit cs)"
        unfolding d(1) takeWhile_digits[OF d(3,4)] slash_or_end_iff using d(2,4) by blast
    qed
    with Cons True show ?thesis by (simp add: after_host_def)
  qed
qed

lemma local_host_iff: "LOCAL_SUPABASE_HOST url \<longleftrightarrow> local_url (map lower_char url)"
proof -
  let ?u = "map lower_char url"
  have "LOCAL_SUPABASE_HOST url \<longleftrightarrow> (\<exists>scheme \<in> {''http'', ''https''}. \<exists>host \<in> set local_hosts. \<exists>r.
      ?u = scheme @ ''://'' @ host @ r \<and> after_host r)"
  proof -
    have pref: "starts_with p ?u \<and> after_host (drop (length p) ?u) \<longleftrightarrow> (\<exists>r. ?u = p @ r \<and> after_host r)" for p
      by (auto simp: starts_with_prefix prefix_def)
    show ?thesis unfolding LOCAL_SUPABASE_HOST_def Let_def pref list_ex_iff by simp
  qed
  also have "\<dots> \<longleftrightarrow> local_url ?u"
    unfolding after_host_iff local_url.simps by blast
  finally show ?thesis .
qed

text \<open>The attestation pins are relaxed exactly on the explicit opt-in against a local stack: then
  the development bundle ids and environment are accepted, and otherwise the configured ids with the
  production environment; an opt-in against any other URL, or a configured id that already ends in
  \<open>.dev\<close>, refuses to start.\<close>

lemma dev_relaxation_gated:
  "resolveDevAttestation env = Inr pins \<longleftrightarrow>
    (let apple = null_or (env ''APPLE_BUNDLE_ID'') ''com.realreel.app'';
         android = null_or (env ''ANDROID_PACKAGE_NAME'') ''com.realreel.app'';
         optIn = (env ''ALLOW_DEV_BUILD_ATTESTATION'' = Some ''true'');
         loc = local_url (map lower_char (null_or (env ''SUPABASE_URL'') '''')) in
     \<not> suffix ''.dev'' apple \<and> \<not> suffix ''.dev'' android \<and>
     (optIn, loc) \<noteq> (True, False) \<and>
     pins = (if optIn
       then \<lparr>dp_appleBundleId = apple @ ''.dev'', dp_androidPackageName = android @ ''.dev'',
             dp_requireProductionAppAttest = False\<rparr>
       else \<lparr>dp_appleBundleId = apple, dp_androidPackageName = android,
             dp_requireProductionAppAttest = True\<rparr>))"
  by (auto simp: resolveDevAttestation_def Let_def local_host_iff ends_with_suffix)

end
