(* ===== verification/RateLimit.thy ===== *)
theory RateLimit
  imports CaCommon
begin

text \<open>
  The rate limiter of the edge functions, \<open>ca/_shared/rate_limit.ts\<close>.  The key-value store is a
  map from keys to counters with an expiry and a version; between the read and the commit of an
  attempt other requests may change it, which is an argument of the attempt.
\<close>

record rate_window =
  rw_windowSec :: int
  rw_max :: nat

datatype rate_result = Rate_ok | Rate_refused int

type_synonym kv_key = "string \<times> string \<times> int \<times> int"

record kv_entry =
  ke_value :: nat
  ke_expiresAt :: int
  ke_version :: nat

record kv_store =
  kv_entries :: "kv_key \<Rightarrow> kv_entry option"
  kv_next :: nat

text \<open>A read at time \<open>t\<close> (in milliseconds) does not see an expired entry.\<close>

definition kv_get :: "int \<Rightarrow> kv_key \<Rightarrow> kv_store \<Rightarrow> kv_entry option" where
  "kv_get t k kv =
    (case kv_entries kv k of
       Some e \<Rightarrow> if t < ke_expiresAt e then Some e else None | None \<Rightarrow> None)"

text \<open>\<open>atomic().check(entry).set(key, value, expireIn).commit()\<close>: the commit succeeds when the entry
  still has the version that was read.\<close>

definition kv_commit ::
  "int \<Rightarrow> kv_key \<Rightarrow> kv_entry option \<Rightarrow> nat \<Rightarrow> int \<Rightarrow> kv_store \<Rightarrow> bool \<times> kv_store"
where
  "kv_commit t k read v ttlMs kv =
    (if map_option ke_version (kv_get t k kv) = map_option ke_version read
     then (True, kv\<lparr>kv_entries := (kv_entries kv)(k \<mapsto>
              \<lparr>ke_value = v, ke_expiresAt = t + ttlMs, ke_version = kv_next kv\<rparr>),
            kv_next := Suc (kv_next kv)\<rparr>)
     else (False, kv))"

text \<open>One attempt per element of \<open>others\<close>, what other requests do between its read and its commit.\<close>

fun bump_attempts ::
  "int \<Rightarrow> kv_key \<Rightarrow> nat \<Rightarrow> int \<Rightarrow> (kv_store \<Rightarrow> kv_store) list \<Rightarrow> kv_store \<Rightarrow> bool \<times> kv_store"
where
  "bump_attempts t k mx ttlMs [] kv = (False, kv)"
| "bump_attempts t k mx ttlMs (other # others) kv =
     (let entry = kv_get t k kv;
          current = (case entry of Some e \<Rightarrow> ke_value e | None \<Rightarrow> 0) in
      if current \<ge> mx then (False, kv)
      else
        (case kv_commit t k entry (current + 1) ttlMs (other kv) of
           (True, kv') \<Rightarrow> (True, kv')
         | (False, kv') \<Rightarrow> bump_attempts t k mx ttlMs others kv'))"

definition bumpBucket ::
  "int \<Rightarrow> kv_key \<Rightarrow> nat \<Rightarrow> int \<Rightarrow> (nat \<Rightarrow> kv_store \<Rightarrow> kv_store) \<Rightarrow> kv_store \<Rightarrow> bool \<times> kv_store"
where
  "bumpBucket t k mx ttlMs interfere kv = bump_attempts t k mx ttlMs (map interfere [0..<4]) kv"

text \<open>The attempts are numbered through: four to a window.\<close>

fun rate_windows ::
  "int \<Rightarrow> string \<Rightarrow> string \<Rightarrow> (nat \<Rightarrow> kv_store \<Rightarrow> kv_store) \<Rightarrow> rate_window list \<Rightarrow> kv_store
     \<Rightarrow> rate_result \<times> kv_store"
where
  "rate_windows nowMs pfx ident interfere [] kv = (Rate_ok, kv)"
| "rate_windows nowMs pfx ident interfere (w # ws) kv =
     (let now = nowMs div 1000; bucket = now div rw_windowSec w in
      (case bumpBucket nowMs (pfx, ident, rw_windowSec w, bucket) (rw_max w)
              ((rw_windowSec w + 5) * 1000) interfere kv of
         (False, kv') \<Rightarrow> (Rate_refused (rw_windowSec w - now mod rw_windowSec w), kv')
       | (True, kv') \<Rightarrow> rate_windows nowMs pfx ident (\<lambda>n. interfere (n + 4)) ws kv'))"

text \<open>\<open>Deno.openKv\<close> may throw, and then the request passes; on Supabase it always does.\<close>

definition enforceRateLimit ::
  "bool \<Rightarrow> int \<Rightarrow> (nat \<Rightarrow> kv_store \<Rightarrow> kv_store) \<Rightarrow> string \<Rightarrow> string \<Rightarrow> rate_window list \<Rightarrow> kv_store
     \<Rightarrow> rate_result \<times> kv_store"
where
  "enforceRateLimit kvAvailable nowMs interfere pfx ident windows kv =
    (if \<not> kvAvailable then (Rate_ok, kv) else rate_windows nowMs pfx ident interfere windows kv)"

section \<open>Counters never pass their limit\<close>

text \<open>The count a reader at time \<open>t\<close> sees.\<close>

definition kv_count :: "int \<Rightarrow> kv_key \<Rightarrow> kv_store \<Rightarrow> nat" where
  "kv_count t k kv = (case kv_get t k kv of Some e \<Rightarrow> ke_value e | None \<Rightarrow> 0)"

text \<open>Versions are handed out once: those in the store are below the next one.  A store another
  request produced keeps that, and an entry it changed has a new version.\<close>

definition kv_wf :: "kv_store \<Rightarrow> bool" where
  "kv_wf kv = (\<forall>k e. kv_entries kv k = Some e \<longrightarrow> ke_version e < kv_next kv)"

definition kv_evolves :: "kv_store \<Rightarrow> kv_store \<Rightarrow> bool" where
  "kv_evolves kv kv' = (kv_wf kv' \<and> kv_next kv \<le> kv_next kv' \<and>
     (\<forall>k e'. kv_entries kv' k = Some e' \<longrightarrow> kv_entries kv k = Some e' \<or> kv_next kv \<le> ke_version e'))"

lemma kv_get_Some: "kv_get t k kv = Some e \<longleftrightarrow> kv_entries kv k = Some e \<and> t < ke_expiresAt e"
  by (auto simp: kv_get_def split: option.splits if_splits)

text \<open>An unchanged version means an unchanged entry.\<close>

lemma same_version_same_entry:
  assumes "kv_wf kv" "kv_evolves kv kv'"
    and "map_option ke_version (kv_get t k kv') = map_option ke_version (kv_get t k kv)"
  shows "kv_get t k kv' = kv_get t k kv"
proof (cases "kv_get t k kv'")
  case None
  with assms(3) show ?thesis by simp
next
  case (Some e')
  with assms(3) obtain e where e: "kv_get t k kv = Some e" "ke_version e = ke_version e'"
    by (cases "kv_get t k kv") auto
  then have "kv_entries kv k = Some e" by (simp add: kv_get_Some)
  with assms(1) have "ke_version e < kv_next kv" unfolding kv_wf_def by blast
  with e(2) have "ke_version e' < kv_next kv" by simp
  moreover from Some have s: "kv_entries kv' k = Some e'" by (simp add: kv_get_Some)
  ultimately have "kv_entries kv k = Some e'"
    using assms(2) unfolding kv_evolves_def by (meson not_le)
  with e(1) have "kv_get t k kv = Some e'" by (auto simp: kv_get_Some)
  with Some show ?thesis by simp
qed

lemma kv_commit_evolves:
  assumes "kv_wf kv" "kv_commit t k r v ttl kv = (b, kv')"
  shows "kv_evolves kv kv'"
  using assms
  by (auto simp: kv_commit_def kv_evolves_def kv_wf_def less_Suc_eq split: if_splits)

lemma kv_evolves_trans: "kv_evolves a b \<Longrightarrow> kv_evolves b c \<Longrightarrow> kv_evolves a c"
  unfolding kv_evolves_def by (meson order_trans)

lemma kv_evolves_refl: "kv_wf kv \<Longrightarrow> kv_evolves kv kv"
  by (simp add: kv_evolves_def)

text \<open>A successful bump found fewer than the limit at its commit and added one; a refused one, and
  every other key, it left as the other requests made them.\<close>

lemma kv_commit_counts:
  assumes "0 < ttl" "kv_commit t k r v ttl kv = (True, kv')"
  shows "kv_count t k kv' = v" "k' \<noteq> k \<Longrightarrow> kv_entries kv' k' = kv_entries kv k'"
  using assms by (auto simp: kv_commit_def kv_count_def kv_get_def split: if_splits)

lemma kv_commit_False: "kv_commit t k r v ttl kv = (False, kv') \<Longrightarrow> kv' = kv"
  by (simp add: kv_commit_def split: if_splits)

lemma bump_attempts_True:
  assumes "bump_attempts t k mx ttl others kv = (True, kv')"
    and "0 < ttl" "kv_wf kv" "\<And>o' s. o' \<in> set others \<Longrightarrow> kv_wf s \<Longrightarrow> kv_evolves s (o' s)"
  shows "\<exists>s. kv_evolves kv s \<and> kv_count t k s < mx \<and> kv_count t k kv' = Suc (kv_count t k s)
           \<and> (\<forall>k'. k' \<noteq> k \<longrightarrow> kv_entries kv' k' = kv_entries s k')"
  using assms(1,3,4)
proof (induction others arbitrary: kv)
  case Nil
  then show ?case by simp
next
  case (Cons o' os)
  define c where "c = kv_count t k kv"
  have ev: "kv_evolves kv (o' kv)" using Cons.prems by simp
  have wf': "kv_wf (o' kv)" using ev by (simp add: kv_evolves_def)
  have lt: "c < mx"
    using Cons.prems(1) by (auto simp: c_def kv_count_def Let_def not_le split: if_splits option.splits)
  obtain b s1 where cm: "kv_commit t k (kv_get t k kv) (c + 1) ttl (o' kv) = (b, s1)" by fastforce
  have c': "c = (case kv_get t k kv of None \<Rightarrow> 0 | Some e \<Rightarrow> ke_value e)"
    by (simp add: c_def kv_count_def)
  show ?case
  proof (cases b)
    case True
    have "kv' = s1" using Cons.prems(1) cm True lt by (simp add: Let_def flip: c')
    moreover have "kv_get t k (o' kv) = kv_get t k kv"
      using same_version_same_entry[OF Cons.prems(2) ev] cm True
      by (auto simp: kv_commit_def split: if_splits)
    then have "kv_count t k (o' kv) = c" by (simp add: kv_count_def c_def)
    ultimately show ?thesis
      using ev lt kv_commit_counts[OF assms(2), of t k "kv_get t k kv" "c + 1" "o' kv" s1] cm True
      by (intro exI[of _ "o' kv"]) simp
  next
    case False
    with cm have s1: "s1 = o' kv" using kv_commit_False by (cases b) auto
    have "bump_attempts t k mx ttl os (o' kv) = (True, kv')"
      using Cons.prems(1) cm False lt s1 by (simp add: Let_def flip: c')
    from Cons.IH[OF this wf'] Cons.prems(3) show ?thesis
      using kv_evolves_trans[OF ev] by fastforce
  qed
qed

section \<open>Requests among others\<close>

definition bucket_of :: "int \<Rightarrow> rate_window \<Rightarrow> int" where
  "bucket_of t w = t div 1000 div rw_windowSec w"

definition window_key :: "string \<Rightarrow> string \<Rightarrow> int \<Rightarrow> rate_window \<Rightarrow> kv_key" where
  "window_key pfx i t w = (pfx, i, rw_windowSec w, bucket_of t w)"

text \<open>What other requests do to the store: each successful commit counts one more in a window of some limiter,
  identity and time.\<close>

type_synonym bump = "string \<times> string \<times> int \<times> rate_window"

fun bump_key :: "bump \<Rightarrow> kv_key" where
  "bump_key (p, i, t, w) = window_key p i t w"

fun kv_bump :: "bump \<Rightarrow> kv_store \<Rightarrow> kv_store" where
  "kv_bump (p, i, t, w) kv =
     (let k = window_key p i t w in
      snd (kv_commit t k (kv_get t k kv) (kv_count t k kv + 1) ((rw_windowSec w + 5) * 1000) kv))"

fun bump_wf :: "bump \<Rightarrow> bool" where
  "bump_wf (p, i, t, w) = (0 < rw_windowSec w)"

text \<open>A call: whether the store can be opened, its time and identity, what other requests committed since the previous
  call, and what they commit between the read and the commit of each of its attempts.\<close>

record rate_call =
  rc_available :: bool
  rc_now :: int
  rc_identity :: string
  rc_before :: "bump list"
  rc_others :: "nat \<Rightarrow> bump list"

definition call_wf :: "rate_call \<Rightarrow> bool" where
  "call_wf c = (list_all bump_wf (rc_before c) \<and> (\<forall>n. list_all bump_wf (rc_others c n)))"

fun rate_run ::
  "string \<Rightarrow> rate_window list \<Rightarrow> rate_call list \<Rightarrow> kv_store \<Rightarrow> rate_result list \<times> kv_store"
where
  "rate_run pfx ws [] kv = ([], kv)"
| "rate_run pfx ws (c # cs) kv =
     (case enforceRateLimit (rc_available c) (rc_now c) (\<lambda>n. fold kv_bump (rc_others c n)) pfx (rc_identity c) ws
             (fold kv_bump (rc_before c) kv) of
        (r, kv') \<Rightarrow> (case rate_run pfx ws cs kv' of (rs, kv'') \<Rightarrow> (r # rs, kv'')))"

text \<open>The calls of identity \<open>i\<close> in bucket \<open>b\<close> of window \<open>w\<close> that reached the store and passed.\<close>

definition admitted :: "string \<Rightarrow> rate_window \<Rightarrow> int \<Rightarrow> rate_call list \<Rightarrow> rate_result list \<Rightarrow> nat" where
  "admitted i w b cs rs =
    length (filter (\<lambda>(c, r). rc_available c \<and> rc_identity c = i \<and> bucket_of (rc_now c) w = b \<and> r = Rate_ok)
      (zip cs rs))"

section \<open>The store represents plain counters\<close>

text \<open>An entry outlives its bucket.\<close>

definition kv_live :: "kv_store \<Rightarrow> bool" where
  "kv_live kv = (\<forall>p i W b e. kv_entries kv (p, i, W, b) = Some e \<and> 0 < W \<longrightarrow>
     (b + 1) * W * 1000 \<le> ke_expiresAt e)"

definition kv_value :: "kv_key \<Rightarrow> kv_store \<Rightarrow> nat" where
  "kv_value k kv = (case kv_entries kv k of Some e \<Rightarrow> ke_value e | None \<Rightarrow> 0)"

definition counters :: "kv_store \<Rightarrow> kv_key \<Rightarrow> nat" where
  "counters kv k = kv_value k kv"

definition kv_ok :: "kv_store \<Rightarrow> bool" where
  "kv_ok kv = (kv_wf kv \<and> kv_live kv)"

lemma time_in_bucket:
  assumes "0 < W" "t div 1000 div W = (b :: int)"
  shows "b * W * 1000 \<le> t" "t < (b + 1) * W * 1000"
proof -
  have e: "t div 1000 = b * W + t div 1000 mod W"
    using div_mult_mod_eq[of "t div 1000" W] assms(2) by simp
  have m: "0 \<le> t div 1000 mod W" "t div 1000 mod W < W" using assms(1) by simp_all
  have "b * W \<le> t div 1000" using e m by linarith
  then show "b * W * 1000 \<le> t" by linarith
  have "t div 1000 < (b + 1) * W" using e m by (simp add: algebra_simps)
  then show "t < (b + 1) * W * 1000" by linarith
qed

lemma live_get:
  assumes "kv_live kv" "0 < rw_windowSec w"
  shows "kv_get t (window_key pfx i t w) kv = kv_entries kv (window_key pfx i t w)"
proof (cases "kv_entries kv (window_key pfx i t w)")
  case (Some e)
  have "t < (bucket_of t w + 1) * rw_windowSec w * 1000"
    using time_in_bucket(2)[OF assms(2)] by (simp add: bucket_of_def)
  also have "\<dots> \<le> ke_expiresAt e" using assms Some by (auto simp: kv_live_def window_key_def)
  finally show ?thesis using Some by (simp add: kv_get_def)
qed (simp add: kv_get_def)

lemma live_count:
  assumes "kv_live kv" "0 < rw_windowSec w"
  shows "kv_count t (window_key pfx i t w) kv = counters kv (window_key pfx i t w)"
  by (simp add: kv_count_def live_get[OF assms] counters_def kv_value_def)

text \<open>A commit that succeeds keeps the store in order and sets one counter.\<close>

lemma commit_ok:
  assumes "kv_ok kv" "0 < rw_windowSec w"
    and "kv_commit t (window_key pfx i t w) e v ((rw_windowSec w + 5) * 1000) kv = (True, kv')"
  shows "kv_ok kv'" "counters kv' = (counters kv)(window_key pfx i t w := v)"
    and "k \<noteq> window_key pfx i t w \<Longrightarrow> kv_entries kv' k = kv_entries kv k"
proof -
  let ?k = "window_key pfx i t w"
  from assms(3) have kv': "kv_entries kv' = (kv_entries kv)(?k \<mapsto>
     \<lparr>ke_value = v, ke_expiresAt = t + (rw_windowSec w + 5) * 1000, ke_version = kv_next kv\<rparr>)"
    by (auto simp: kv_commit_def split: if_splits)
  have "(bucket_of t w + 1) * rw_windowSec w * 1000 \<le> t + (rw_windowSec w + 5) * 1000"
    using time_in_bucket(1)[OF assms(2), of t] by (simp add: bucket_of_def algebra_simps)
  with assms(1) kv' have "kv_live kv'" by (auto simp: kv_ok_def kv_live_def window_key_def)
  moreover have "kv_wf kv'"
    using kv_commit_evolves[OF _ assms(3)] assms(1) by (simp add: kv_ok_def kv_evolves_def)
  ultimately show "kv_ok kv'" by (simp add: kv_ok_def)
  show "counters kv' = (counters kv)(?k := v)" by (auto simp: kv' counters_def kv_value_def)
  show "k \<noteq> ?k \<Longrightarrow> kv_entries kv' k = kv_entries kv k" by (simp add: kv')
qed

fun n_bump :: "bump \<Rightarrow> (kv_key \<Rightarrow> nat) \<Rightarrow> (kv_key \<Rightarrow> nat)" where
  "n_bump b n = n(bump_key b := Suc (n (bump_key b)))"

lemma kv_bump_ok:
  assumes "kv_ok kv" "bump_wf b"
  shows "kv_ok (kv_bump b kv)" "counters (kv_bump b kv) = n_bump b (counters kv)" "kv_evolves kv (kv_bump b kv)"
    and "k \<noteq> bump_key b \<Longrightarrow> kv_entries (kv_bump b kv) k = kv_entries kv k"
proof -
  obtain p i t w where b: "b = (p, i, t, w)" by (cases b) auto
  let ?k = "window_key p i t w"
  have w: "0 < rw_windowSec w" using assms(2) by (simp add: b)
  have c: "kv_count t ?k kv = counters kv ?k" using live_count[OF _ w] assms(1) by (simp add: kv_ok_def)
  have cmt: "kv_commit t ?k (kv_get t ?k kv) (counters kv ?k + 1) ((rw_windowSec w + 5) * 1000) kv = (True, kv_bump b kv)"
    by (simp add: b kv_commit_def Let_def c)
  note cm = commit_ok[OF assms(1) w cmt]
  show "kv_ok (kv_bump b kv)" by (rule cm(1))
  show "counters (kv_bump b kv) = n_bump b (counters kv)" using cm(2) by (simp add: b)
  show "k \<noteq> bump_key b \<Longrightarrow> kv_entries (kv_bump b kv) k = kv_entries kv k" using cm(3) by (simp add: b)
  show "kv_evolves kv (kv_bump b kv)"
    using kv_commit_evolves[OF _ cmt] assms(1) by (simp add: kv_ok_def)
qed

lemma kv_bumps_ok:
  assumes "kv_ok kv" "list_all bump_wf bs"
  shows "kv_ok (fold kv_bump bs kv) \<and> counters (fold kv_bump bs kv) = fold n_bump bs (counters kv)
    \<and> kv_evolves kv (fold kv_bump bs kv)
    \<and> (kv_entries (fold kv_bump bs kv) k = kv_entries kv k \<or> kv_value k kv < kv_value k (fold kv_bump bs kv))"
  using assms
proof (induction bs arbitrary: kv)
  case Nil
  then show ?case by (simp add: kv_ok_def kv_evolves_refl)
next
  case (Cons b bs)
  have wf: "bump_wf b" "list_all bump_wf bs" using Cons.prems(2) by simp_all
  note one = kv_bump_ok[OF Cons.prems(1) wf(1)]
  note ih = Cons.IH[OF one(1) wf(2)]
  have "kv_entries (kv_bump b kv) k = kv_entries kv k \<or> kv_value k kv < kv_value k (kv_bump b kv)"
    using one(4)[of k] fun_cong[OF one(2), of k] by (cases "k = bump_key b") (simp_all add: counters_def)
  moreover have "kv_value k (kv_bump b kv) = kv_value k kv" if "kv_entries (kv_bump b kv) k = kv_entries kv k"
    using that by (simp add: kv_value_def)
  ultimately show ?case
    using ih one(2) kv_evolves_trans[OF one(3)] by (auto simp: kv_value_def simp del: n_bump.simps)
qed

section \<open>The specification\<close>

text \<open>A counter per identity, window and bucket that nothing ever resets; the store's versions, expiry times and commits
  do not appear in it.  A request counts unless the limit is reached; if others counted in the same bucket meanwhile
  it looks again, and after four such collisions it is refused.\<close>

fun counter_attempts :: "kv_key \<Rightarrow> nat \<Rightarrow> bump list list \<Rightarrow> (kv_key \<Rightarrow> nat) \<Rightarrow> bool \<times> (kv_key \<Rightarrow> nat)" where
  "counter_attempts k mx [] n = (False, n)"
| "counter_attempts k mx (others # rest) n =
     (let n' = fold n_bump others n in
      if mx \<le> n k then (False, n)
      else if n' k = n k then (True, n'(k := Suc (n k)))
      else counter_attempts k mx rest n')"

fun counter_windows ::
  "int \<Rightarrow> string \<Rightarrow> string \<Rightarrow> (nat \<Rightarrow> bump list) \<Rightarrow> rate_window list \<Rightarrow> (kv_key \<Rightarrow> nat) \<Rightarrow> rate_result \<times> (kv_key \<Rightarrow> nat)"
where
  "counter_windows t pfx i others [] n = (Rate_ok, n)"
| "counter_windows t pfx i others (w # ws) n =
     (case counter_attempts (window_key pfx i t w) (rw_max w) (map others [0..<4]) n of
        (True, n') \<Rightarrow> counter_windows t pfx i (\<lambda>j. others (j + 4)) ws n'
      | (False, n') \<Rightarrow> (Rate_refused (rw_windowSec w - t div 1000 mod rw_windowSec w), n'))"

text \<open>A request that finds no store passes and counts nothing.\<close>

definition counter_call ::
  "string \<Rightarrow> rate_window list \<Rightarrow> rate_call \<Rightarrow> (kv_key \<Rightarrow> nat) \<Rightarrow> rate_result \<times> (kv_key \<Rightarrow> nat)"
where
  "counter_call pfx ws c n =
    (let n' = fold n_bump (rc_before c) n in
     if rc_available c then counter_windows (rc_now c) pfx (rc_identity c) (rc_others c) ws n' else (Rate_ok, n'))"

fun counter_run ::
  "string \<Rightarrow> rate_window list \<Rightarrow> rate_call list \<Rightarrow> (kv_key \<Rightarrow> nat) \<Rightarrow> rate_result list \<times> (kv_key \<Rightarrow> nat)"
where
  "counter_run pfx ws [] n = ([], n)"
| "counter_run pfx ws (c # cs) n =
     (case counter_call pfx ws c n of
        (r, n') \<Rightarrow> (case counter_run pfx ws cs n' of (rs, n'') \<Rightarrow> (r # rs, n'')))"

section \<open>Refinement\<close>

lemma attempts_refine:
  assumes "kv_ok kv" "0 < rw_windowSec w" "\<forall>bs \<in> set oss. list_all bump_wf bs"
    and "bump_attempts t (window_key pfx i t w) mx ((rw_windowSec w + 5) * 1000) (map (fold kv_bump) oss) kv = (ok, kv')"
  shows "counter_attempts (window_key pfx i t w) mx oss (counters kv) = (ok, counters kv') \<and> kv_ok kv'"
  using assms(1,3,4)
proof (induction oss arbitrary: kv)
  case (Cons bs oss)
  let ?k = "window_key pfx i t w" and ?kv1 = "fold kv_bump bs kv"
  have bs: "list_all bump_wf bs" using Cons.prems(2) by simp
  note ok = kv_bumps_ok[OF Cons.prems(1) bs, of ?k]
  have live: "kv_live kv" "kv_live ?kv1" using Cons.prems(1) ok by (simp_all add: kv_ok_def)
  note g = live_get[OF live(1) assms(2), of t pfx i] live_get[OF live(2) assms(2), of t pfx i]
  have cur: "(case kv_get t ?k kv of None \<Rightarrow> 0 | Some e \<Rightarrow> ke_value e) = counters kv ?k"
    by (simp add: g counters_def kv_value_def)
  have step: "(ok, kv') = (if mx \<le> counters kv ?k then (False, kv)
      else (case kv_commit t ?k (kv_get t ?k kv) (counters kv ?k + 1) ((rw_windowSec w + 5) * 1000) ?kv1 of
        (True, s) \<Rightarrow> (True, s)
      | (False, s) \<Rightarrow> bump_attempts t ?k mx ((rw_windowSec w + 5) * 1000) (map (fold kv_bump) oss) s))"
    unfolding Cons.prems(3)[symmetric] list.map bump_attempts.simps Let_def cur ..
  have same: "map_option ke_version (kv_get t ?k ?kv1) = map_option ke_version (kv_get t ?k kv)
      \<longleftrightarrow> counters ?kv1 ?k = counters kv ?k"
  proof
    assume "map_option ke_version (kv_get t ?k ?kv1) = map_option ke_version (kv_get t ?k kv)"
    with same_version_same_entry[of kv ?kv1 t ?k] ok Cons.prems(1) have "kv_get t ?k ?kv1 = kv_get t ?k kv"
      by (simp add: kv_ok_def)
    then show "counters ?kv1 ?k = counters kv ?k" by (simp add: g counters_def kv_value_def)
  next
    assume "counters ?kv1 ?k = counters kv ?k"
    moreover have "kv_entries ?kv1 ?k = kv_entries kv ?k \<or> kv_value ?k kv < kv_value ?k ?kv1" using ok by blast
    ultimately have "kv_entries ?kv1 ?k = kv_entries kv ?k" unfolding counters_def by linarith
    then show "map_option ke_version (kv_get t ?k ?kv1) = map_option ke_version (kv_get t ?k kv)" by (simp add: g)
  qed
  have n': "fold n_bump bs (counters kv) = counters ?kv1" using ok by simp
  obtain okay s where cm: "kv_commit t ?k (kv_get t ?k kv) (counters kv ?k + 1) ((rw_windowSec w + 5) * 1000) ?kv1 = (okay, s)"
    by fastforce
  have dn: "okay \<longleftrightarrow> counters ?kv1 ?k = counters kv ?k" using cm same by (auto simp: kv_commit_def split: if_splits)
  consider "mx \<le> counters kv ?k" | "\<not> mx \<le> counters kv ?k" "okay" | "\<not> mx \<le> counters kv ?k" "\<not> okay" by blast
  then show ?case
  proof cases
    case 1
    then show ?thesis using step Cons.prems(1) by (simp add: Let_def)
  next
    case 2
    have s: "kv_ok s" "counters s = (counters ?kv1)(?k := Suc (counters kv ?k))"
      using commit_ok[OF conjunct1[OF ok] assms(2), of t pfx i] cm 2(2) by auto
    have "(ok, kv') = (True, s)" using step cm 2 by simp
    then have r: "ok = True" "kv' = s" by blast+
    have "counter_attempts ?k mx (bs # oss) (counters kv) = (True, counters s)"
      unfolding counter_attempts.simps Let_def n' s(2) if_not_P[OF 2(1)] if_P[OF iffD1[OF dn 2(2)]] ..
    then show ?thesis unfolding r using s(1) by blast
  next
    case 3
    then have "s = ?kv1" using cm kv_commit_False by simp
    then have "bump_attempts t ?k mx ((rw_windowSec w + 5) * 1000) (map (fold kv_bump) oss) ?kv1 = (ok, kv')"
      using step cm 3 by simp
    from Cons.IH[OF _ _ this] ok Cons.prems(2)
    have "counter_attempts ?k mx oss (counters ?kv1) = (ok, counters kv') \<and> kv_ok kv'" by auto
    moreover have ne: "\<not> counters ?kv1 ?k = counters kv ?k" using dn 3(2) by blast
    ultimately show ?thesis unfolding counter_attempts.simps Let_def n' if_not_P[OF 3(1)] if_not_P[OF ne] by blast
  qed
qed simp

lemma windows_refine:
  assumes "kv_ok kv" "\<forall>w \<in> set ws. 0 < rw_windowSec w" "\<forall>n. list_all bump_wf (others n)"
    and "rate_windows t pfx i (\<lambda>n. fold kv_bump (others n)) ws kv = (r, kv')"
  shows "counter_windows t pfx i others ws (counters kv) = (r, counters kv') \<and> kv_ok kv'"
  using assms
proof (induction ws arbitrary: kv others)
  case (Cons w ws)
  let ?os = "map others [0..<4]"
  obtain ok s where b: "bumpBucket t (window_key pfx i t w) (rw_max w) ((rw_windowSec w + 5) * 1000)
      (\<lambda>n. fold kv_bump (others n)) kv = (ok, s)" by fastforce
  have "map (\<lambda>n. fold kv_bump (others n)) [0..<4] = map (fold kv_bump) ?os" by simp
  with b have "bump_attempts t (window_key pfx i t w) (rw_max w) ((rw_windowSec w + 5) * 1000) (map (fold kv_bump) ?os) kv
      = (ok, s)" by (simp only: bumpBucket_def)
  with attempts_refine[OF Cons.prems(1) _ _ this] Cons.prems(2,3)
  have ref: "counter_attempts (window_key pfx i t w) (rw_max w) ?os (counters kv) = (ok, counters s)" "kv_ok s"
    by (auto simp del: upt_Suc)
  have eq: "(r, kv') = (if ok then rate_windows t pfx i (\<lambda>n. fold kv_bump (others (n + 4))) ws s
      else (Rate_refused (rw_windowSec w - t div 1000 mod rw_windowSec w), s))"
    using Cons.prems(4) b by (auto simp: Let_def window_key_def bucket_of_def split: bool.splits)
  have "rate_windows t pfx i (\<lambda>n. fold kv_bump (others (n + 4))) ws s = (r, kv')
      \<Longrightarrow> counter_windows t pfx i (\<lambda>j. others (j + 4)) ws (counters s) = (r, counters kv') \<and> kv_ok kv'"
    using Cons.IH[OF ref(2), of "\<lambda>j. others (j + 4)"] Cons.prems(2,3) by simp
  then show ?case using eq ref by (cases ok) simp_all
qed simp

lemma run_refines:
  assumes "\<forall>w \<in> set ws. 0 < rw_windowSec w" "kv_ok kv" "list_all call_wf cs"
    and "rate_run pfx ws cs kv = (rs, kv')"
  shows "counter_run pfx ws cs (counters kv) = (rs, counters kv') \<and> kv_ok kv'"
  using assms(2-4)
proof (induction cs arbitrary: kv rs)
  case (Cons c cs)
  let ?kv1 = "fold kv_bump (rc_before c) kv"
  have wf: "list_all bump_wf (rc_before c)" "\<forall>n. list_all bump_wf (rc_others c n)"
    using Cons.prems(2) by (simp_all add: call_wf_def)
  have pre: "kv_ok ?kv1" "counters ?kv1 = fold n_bump (rc_before c) (counters kv)"
    using kv_bumps_ok[OF Cons.prems(1) wf(1)] by simp_all
  obtain r s where e: "enforceRateLimit (rc_available c) (rc_now c) (\<lambda>n. fold kv_bump (rc_others c n)) pfx
      (rc_identity c) ws ?kv1 = (r, s)" by fastforce
  obtain rs' where run: "rate_run pfx ws cs s = (rs', kv')" and rs: "rs = r # rs'"
    using Cons.prems(3) e by (auto split: prod.splits)
  have "counter_call pfx ws c (counters kv) = (r, counters s) \<and> kv_ok s"
  proof (cases "rc_available c")
    case True
    then show ?thesis
      using e windows_refine[OF pre(1) assms(1) wf(2)] by (simp add: counter_call_def enforceRateLimit_def pre(2))
  next
    case False
    then show ?thesis using e pre by (simp add: counter_call_def enforceRateLimit_def)
  qed
  with Cons.IH[OF _ _ run] Cons.prems(2) show ?case by (simp add: rs)
qed simp

section \<open>Limits\<close>

text \<open>Counters only rise.\<close>

lemma n_bumps_mono: "n k \<le> fold n_bump bs n k"
proof (induction bs arbitrary: n)
  case (Cons b bs)
  have "n k \<le> n_bump b n k" by simp
  also have "\<dots> \<le> fold n_bump bs (n_bump b n) k" by (rule Cons.IH)
  finally show ?case by (simp del: n_bump.simps)
qed simp

lemma counter_attempts_counts:
  assumes "counter_attempts k mx oss n = (ok, n')"
  shows "n j \<le> n' j \<and> (ok \<longrightarrow> n k < mx \<and> n k < n' k)"
  using assms
proof (induction oss arbitrary: n)
  case (Cons bs oss)
  have up: "n i \<le> fold n_bump bs n i" for i by (rule n_bumps_mono)
  show ?case
  proof (cases "mx \<le> n k \<or> fold n_bump bs n k = n k")
    case True
    then show ?thesis using Cons.prems up[of j] by (auto simp: Let_def split: if_splits)
  next
    case False
    then have "counter_attempts k mx oss (fold n_bump bs n) = (ok, n')" using Cons.prems by (simp add: Let_def)
    from Cons.IH[OF this] False up[of j] up[of k] show ?thesis by linarith
  qed
qed simp

lemma counter_windows_counts:
  assumes "counter_windows t pfx i others ws n = (r, n')"
  shows "n k \<le> n' k \<and> (r = Rate_ok \<longrightarrow> (\<forall>w \<in> set ws. n (window_key pfx i t w) < rw_max w
    \<and> n (window_key pfx i t w) < n' (window_key pfx i t w)))"
  using assms
proof (induction ws arbitrary: n others k)
  case (Cons v ws)
  obtain ok m where a: "counter_attempts (window_key pfx i t v) (rw_max v) (map others [0..<4]) n = (ok, m)" by fastforce
  note up = counter_attempts_counts[OF a]
  have eq: "(r, n') = (if ok then counter_windows t pfx i (\<lambda>j. others (j + 4)) ws m
      else (Rate_refused (rw_windowSec v - t div 1000 mod rw_windowSec v), m))"
    using Cons.prems a by (auto split: bool.splits)
  show ?case
  proof (cases ok)
    case False
    then show ?thesis using eq up by simp
  next
    case True
    then have rest: "counter_windows t pfx i (\<lambda>j. others (j + 4)) ws m = (r, n')" using eq by simp
    have le: "m k \<le> n' k" for k using Cons.IH[OF rest] by blast
    have "n (window_key pfx i t w) < rw_max w \<and> n (window_key pfx i t w) < n' (window_key pfx i t w)"
      if "r = Rate_ok" "w \<in> set (v # ws)" for w
    proof (cases "w = v")
      case True
      then show ?thesis using up[of "window_key pfx i t v"] le[of "window_key pfx i t v"] \<open>ok\<close> by fastforce
    next
      case False
      with Cons.IH[OF rest] that up[of "window_key pfx i t w"] show ?thesis by fastforce
    qed
    moreover have "n k \<le> n' k" using up[of k] le[of k] by linarith
    ultimately show ?thesis by blast
  qed
qed simp

lemma counter_run_admits:
  assumes "w \<in> set ws" "counter_run pfx ws cs n = (rs, n')"
  shows "admitted i w b cs rs + n (pfx, i, rw_windowSec w, b) \<le> max (rw_max w) (n (pfx, i, rw_windowSec w, b))"
  using assms(2)
proof (induction cs arbitrary: n rs)
  case Nil
  then show ?case by (simp add: admitted_def)
next
  case (Cons c cs)
  let ?k = "(pfx, i, rw_windowSec w, b)"
  obtain r m where e: "counter_call pfx ws c n = (r, m)" by fastforce
  obtain rs' where run: "counter_run pfx ws cs m = (rs', n')" and rs: "rs = r # rs'"
    using Cons.prems e by (auto split: prod.splits)
  have pre: "n ?k \<le> fold n_bump (rc_before c) n ?k" by (rule n_bumps_mono)
  have up: "n ?k \<le> m ?k"
  proof (cases "rc_available c")
    case True
    with e counter_windows_counts[of "rc_now c" pfx "rc_identity c" "rc_others c" ws "fold n_bump (rc_before c) n" r m ?k]
    show ?thesis using pre by (simp add: counter_call_def Let_def)
  next
    case False
    with e pre show ?thesis by (simp add: counter_call_def Let_def)
  qed
  have "n ?k < rw_max w \<and> n ?k < m ?k"
    if "rc_available c" "rc_identity c = i" "bucket_of (rc_now c) w = b" "r = Rate_ok"
  proof -
    have "window_key pfx (rc_identity c) (rc_now c) w = ?k" using that by (simp add: window_key_def)
    with e that assms(1) pre
      counter_windows_counts[of "rc_now c" pfx "rc_identity c" "rc_others c" ws "fold n_bump (rc_before c) n" r m ?k]
    show ?thesis by (fastforce simp: counter_call_def Let_def)
  qed
  with Cons.IH[OF run] up show ?case by (auto simp: admitted_def rs)
qed

lemma unavailable_passes:
  "rate_run pfx ws cs kv = (rs, kv') \<Longrightarrow> list_all2 (\<lambda>c r. \<not> rc_available c \<longrightarrow> r = Rate_ok) cs rs"
proof (induction cs arbitrary: kv rs)
  case (Cons c cs)
  obtain r s where e: "enforceRateLimit (rc_available c) (rc_now c) (\<lambda>n. fold kv_bump (rc_others c n)) pfx
      (rc_identity c) ws (fold kv_bump (rc_before c) kv) = (r, s)" by fastforce
  then obtain rs' where "rate_run pfx ws cs s = (rs', kv')" "rs = r # rs'"
    using Cons.prems by (auto split: prod.splits)
  with Cons.IH[OF this(1)] e show ?case by (auto simp: enforceRateLimit_def)
qed simp

text \<open>C21. Of the calls of one identity that reach the store in one of the fixed time buckets of a window, no more
  than the window's limit pass, whatever their order and spread, and whatever other requests count in the meantime,
  between the calls or between the read and the commit of an attempt; a store that already counts some lets
  accordingly fewer pass.  A call that cannot open the store - on Supabase every call - is not limited at all: it
  passes.\<close>

theorem rate_limit_enforced:
  assumes "\<forall>w \<in> set ws. 0 < rw_windowSec w" "w \<in> set ws"
    and "kv_ok kv" "list_all call_wf cs" "rate_run pfx ws cs kv = (rs, kv')"
  shows "admitted i w b cs rs \<le> rw_max w - kv_value (pfx, i, rw_windowSec w, b) kv
    \<and> list_all2 (\<lambda>c r. \<not> rc_available c \<longrightarrow> r = Rate_ok) cs rs"
proof
  from run_refines[OF assms(1,3,4,5)] have "counter_run pfx ws cs (counters kv) = (rs, counters kv')" by blast
  from counter_run_admits[OF assms(2) this, of i b]
  show "admitted i w b cs rs \<le> rw_max w - kv_value (pfx, i, rw_windowSec w, b) kv"
    unfolding counters_def by linarith
  show "list_all2 (\<lambda>c r. \<not> rc_available c \<longrightarrow> r = Rate_ok) cs rs" by (rule unavailable_passes[OF assms(5)])
qed

text \<open>C39. The rate limiter refines plain counters, under contention and outages too: over any sequence of calls, with
  any counting of other requests before a call and between the read and the commit of each attempt, its answers,
  retry hints included, are those of counters that are never reset - of which a call counts one in each window below
  its limit, looks again up to four times when others counted in the same bucket and is refused after that, and
  passes without counting when there is no store - and the store it leaves behind represents theirs.  The expiry of
  entries is invisible, because no entry expires before its bucket is over, and so is the version check, because every
  commit counts.\<close>

theorem rate_limiter_refines_counters:
  assumes "\<forall>w \<in> set ws. 0 < rw_windowSec w" "kv_ok kv" "list_all call_wf cs"
    and "rate_run pfx ws cs kv = (rs, kv')"
  shows "counter_run pfx ws cs (counters kv) = (rs, counters kv') \<and> kv_ok kv'"
  by (rule run_refines[OF assms])

section \<open>An instance\<close>

definition kv_empty :: kv_store where
  "kv_empty = \<lparr>kv_entries = (\<lambda>_. None), kv_next = 0\<rparr>"

lemma kv_empty_ok: "kv_ok kv_empty"
  by (simp add: kv_ok_def kv_wf_def kv_live_def kv_empty_def)

text \<open>Calls of one user, at most two an hour.  During the first, another request of the same user counts between read
  and commit, so that the second is refused; the third finds no store; the fourth comes in the next hour.\<close>

definition ex_windows :: "rate_window list" where
  "ex_windows = [\<lparr>rw_windowSec = 3600, rw_max = 2\<rparr>, \<lparr>rw_windowSec = 86400, rw_max = 20\<rparr>]"

definition ex_call :: "int \<Rightarrow> bool \<Rightarrow> (nat \<Rightarrow> bump list) \<Rightarrow> rate_call" where
  "ex_call t up others =
    \<lparr>rc_available = up, rc_now = t, rc_identity = ''u'', rc_before = [], rc_others = others\<rparr>"

definition ex_calls :: "rate_call list" where
  "ex_calls =
    [ex_call 1000 True (\<lambda>n. if n = 0 then [(''revoke'', ''u'', 1000, hd ex_windows)] else []),
     ex_call 2000 True (\<lambda>n. []), ex_call 3000 False (\<lambda>n. []), ex_call 3600000 True (\<lambda>n. [])]"

lemma ex_calls_wf: "list_all call_wf ex_calls"
  by (simp add: ex_calls_def ex_call_def call_wf_def ex_windows_def)

lemma ex_windows_wf: "\<forall>w \<in> set ex_windows. 0 < rw_windowSec w"
  by (simp add: ex_windows_def)

lemma ex_rate_run:
  "fst (rate_run ''revoke'' ex_windows ex_calls kv_empty) = [Rate_ok, Rate_refused 3598, Rate_ok, Rate_ok]"
  by code_simp

theorem rate_limit_enforced_witness:
  "admitted ''u'' (hd ex_windows) 0 ex_calls [Rate_ok, Rate_refused 3598, Rate_ok, Rate_ok] \<le> 2"
proof -
  obtain kv' where run: "rate_run ''revoke'' ex_windows ex_calls kv_empty
      = ([Rate_ok, Rate_refused 3598, Rate_ok, Rate_ok], kv')"
    using ex_rate_run by (metis prod.collapse)
  have "hd ex_windows \<in> set ex_windows" by (simp add: ex_windows_def)
  from rate_limit_enforced[OF ex_windows_wf this kv_empty_ok ex_calls_wf run, of "''u''" 0] show ?thesis
    by (simp add: ex_windows_def kv_value_def kv_empty_def)
qed

theorem rate_limiter_refines_counters_witness:
  "fst (counter_run ''revoke'' ex_windows ex_calls (counters kv_empty)) = [Rate_ok, Rate_refused 3598, Rate_ok, Rate_ok]"
proof -
  obtain kv' where "rate_run ''revoke'' ex_windows ex_calls kv_empty
      = ([Rate_ok, Rate_refused 3598, Rate_ok, Rate_ok], kv')"
    using ex_rate_run by (metis prod.collapse)
  from rate_limiter_refines_counters[OF ex_windows_wf kv_empty_ok ex_calls_wf this] show ?thesis by simp
qed

end
