(* ===== verification/EdgeFunctions.thy ===== *)
theory EdgeFunctions
  imports CaAuth CaConfig RateLimit Dates
begin

text \<open>
  The small edge functions of the CA: \<open>ca/get-attestation-challenge/index.ts\<close>,
  \<open>ca/mint-attestation-challenges/index.ts\<close> and \<open>ca/revoke-signing-key/index.ts\<close>, over a state
  of rate-limit counters, the table of signing keys and whatever else the database holds (\<open>'d\<close>).
  The stored procedures are parameters; the one query written in the source, the soft delete of
  a key, is spelled out on the table.
\<close>

record key_row =
  kr_user_id :: string
  kr_key_id :: string
  kr_revoked_at :: "string option"

record 'd ca_state =
  cs_kv :: kv_store
  cs_keys :: "key_row list"
  cs_db :: 'd

record rpc_error =
  re_code :: "string option"
  re_message :: "string option"

text \<open>What a request sees of the platform: environment, one reading of the clock, the services.\<close>

record 'd edge_platform =
  ep_env :: env
  ep_now :: int
  ep_auth :: supabase_auth
  ep_kvAvailable :: bool
  ep_interfere :: "nat \<Rightarrow> kv_store \<Rightarrow> kv_store"
  ep_updateError :: "string option"
  ep_issueChallenge :: "string \<Rightarrow> string \<Rightarrow> 'd \<Rightarrow> (rpc_error + jsval) \<times> 'd"
  ep_mintChallenges :: "string \<Rightarrow> string \<Rightarrow> int \<Rightarrow> 'd \<Rightarrow> (rpc_error + jsval) \<times> 'd"

text \<open>An exception that escapes a handler is answered by the server.\<close>

definition internal_error :: response where
  "internal_error = \<lparr>rsp_status = 500, rsp_body = JStr ''Internal Server Error'', rsp_retry_after = None\<rparr>"

lemma internal_error_status [simp]: "rsp_status internal_error = 500"
  by (simp add: internal_error_def)

text \<open>The rate limit of a handler: a refusal carries \<open>Retry-After\<close>.\<close>

definition charge_rate ::
  "('d, 'z) edge_platform_scheme \<Rightarrow> string \<Rightarrow> string \<Rightarrow> rate_window list \<Rightarrow> ('d, 'y) ca_state_scheme
     \<Rightarrow> response option \<times> ('d, 'y) ca_state_scheme"
where
  "charge_rate p name uid windows s =
    (case enforceRateLimit (ep_kvAvailable p) (ep_now p) (ep_interfere p) name uid windows (cs_kv s) of
       (Rate_ok, kv) \<Rightarrow> (None, s\<lparr>cs_kv := kv\<rparr>)
     | (Rate_refused n, kv) \<Rightarrow>
         (Some (jsonResponse (error_body ''Rate limit exceeded'') 429 (Some (show_int n))), s\<lparr>cs_kv := kv\<rparr>))"

lemma charge_rate_status: "charge_rate p name uid ws s = (Some r, s') \<Longrightarrow> rsp_status r = 429"
  by (auto simp: charge_rate_def split: prod.splits rate_result.splits)

lemma charge_rate_keys:
  "charge_rate p name uid ws s = (r, s') \<Longrightarrow> cs_keys s' = cs_keys s \<and> cs_db s' = cs_db s"
  by (auto simp: charge_rate_def split: prod.splits rate_result.splits)

section \<open>revoke-signing-key\<close>

definition REVOKE_WINDOWS :: "rate_window list" where
  "REVOKE_WINDOWS =
    [\<lparr>rw_windowSec = 3600, rw_max = 20\<rparr>, \<lparr>rw_windowSec = 86400, rw_max = 60\<rparr>]"

text \<open>\<open>update({revoked_at}).eq("user_id", u).eq("key_id", k).is("revoked_at", null)\<close>.\<close>

definition soft_delete :: "string \<Rightarrow> string \<Rightarrow> string \<Rightarrow> key_row list \<Rightarrow> key_row list" where
  "soft_delete at uid keyId rows =
    map (\<lambda>r. if kr_user_id r = uid \<and> kr_key_id r = keyId \<and> kr_revoked_at r = None
             then r\<lparr>kr_revoked_at := Some at\<rparr> else r) rows"

definition handleRevoke ::
  "'d edge_platform \<Rightarrow> request \<Rightarrow> 'd ca_state \<Rightarrow> response \<times> 'd ca_state"
where
  "handleRevoke p req s =
    (case handlePreflight req of
       Some r \<Rightarrow> (r, s)
     | None \<Rightarrow>
     if rq_method req \<noteq> ''POST'' then (error_response ''Method not allowed'' 405, s)
     else
     (case getUserFromAuthHeader (ep_auth p) req of
        None \<Rightarrow> (error_response ''Unauthorized'' 401, s)
      | Some user \<Rightarrow>
      (case requireAal2IfMfaEnrolled (ep_auth p) user of
         Some r \<Rightarrow> (r, s)
       | None \<Rightarrow>
       (case charge_rate p ''revoke-signing-key'' (au_id user) REVOKE_WINDOWS s of
          (Some r, s1) \<Rightarrow> (r, s1)
        | (None, s1) \<Rightarrow>
        (case rq_json req of
           None \<Rightarrow> (error_response ''Invalid JSON body'' 400, s1)
         | Some body \<Rightarrow>
             if is_nullish body then (internal_error, s1)
             else
               (case obj_get body ''keyId'' of
                  JStr keyId \<Rightarrow>
                    if keyId = [] \<or> length (units keyId) > MAX_SIGNING_KEY_ID_CHARS
                    then (error_response ''Missing or malformed keyId'' 400, s1)
                    else
                      (case ep_updateError p of
                         Some e \<Rightarrow> (error_response ''Revoke failed'' 500, s1)
                       | None \<Rightarrow>
                           (jsonResponse (JObj [(''ok'', JBool True)]) 200 None,
                            s1\<lparr>cs_keys := soft_delete (iso_string (ep_now p)) (au_id user) keyId (cs_keys s1)\<rparr>))
                | _ \<Rightarrow> (error_response ''Missing or malformed keyId'' 400, s1)))))))"

section \<open>mint-attestation-challenges\<close>

definition DEFAULT_COUNT :: int where "DEFAULT_COUNT = 100"
definition MAX_COUNT :: int where "MAX_COUNT = 200"
definition MAX_BODY_BYTES :: int where "MAX_BODY_BYTES = 256"

fun floor_num :: "jsnum \<Rightarrow> int option" where
  "floor_num (DecNum m e) = Some (if 0 \<le> e then m * 10 ^ nat e else m div 10 ^ nat (- e))"
| "floor_num _ = None"

definition requested_count :: "jsval \<Rightarrow> int" where
  "requested_count v = (case v of JNum n \<Rightarrow> null_or (floor_num n) DEFAULT_COUNT | _ \<Rightarrow> DEFAULT_COUNT)"

definition nonces_of :: "jsval list \<Rightarrow> jsval list" where
  "nonces_of rows = map JStr (List.map_filter (\<lambda>row. as_nonempty_str (opt_get row ''nonce'')) rows)"

definition mint_error :: "rpc_error \<Rightarrow> response" where
  "mint_error e =
    (if re_code e = Some ''42501'' then error_response ''keyId not owned by user or revoked'' 403
     else if re_code e = Some ''22023''
     then jsonResponse (JObj [(''error'', case re_message e of Some m \<Rightarrow> JStr m | None \<Rightarrow> JUndef)]) 400 None
     else error_response ''Failed to mint challenges'' 500)"

definition handleMintChallenges ::
  "'d edge_platform \<Rightarrow> request \<Rightarrow> 'd ca_state \<Rightarrow> response \<times> 'd ca_state"
where
  "handleMintChallenges p req s =
    (case handlePreflight req of
       Some r \<Rightarrow> (r, s)
     | None \<Rightarrow>
     if rq_method req \<noteq> ''POST'' then (error_response ''Method not allowed'' 405, s)
     else if num_greater (case rq_content_length req of Some h \<Rightarrow> js_number h | None \<Rightarrow> DecNum 0 0) MAX_BODY_BYTES
     then (error_response ''Payload too large'' 413, s)
     else
     (case getUserFromAuthHeader (ep_auth p) req of
        None \<Rightarrow> (error_response ''Unauthorized'' 401, s)
      | Some user \<Rightarrow>
      (case rq_json req of
         None \<Rightarrow> (error_response ''Invalid JSON body'' 400, s)
       | Some body \<Rightarrow>
         (case as_nonempty_str (opt_get body ''keyId'') of
            None \<Rightarrow> (error_response ''keyId is required'' 400, s)
          | Some keyId \<Rightarrow>
              let count = requested_count (opt_get body ''count'') in
              if count < 1 \<or> count > MAX_COUNT
              then (error_response (''count must be between 1 and '' @ show_int MAX_COUNT) 400, s)
              else
                (case ep_mintChallenges p keyId (au_id user) count (cs_db s) of
                   (Inl e, d) \<Rightarrow> (mint_error e, s\<lparr>cs_db := d\<rparr>)
                 | (Inr (JArr rows), d) \<Rightarrow>
                     (jsonResponse (JObj [(''challenges'', JArr (nonces_of rows))]) 200 None, s\<lparr>cs_db := d\<rparr>)
                 | (Inr _, d) \<Rightarrow> (error_response ''Failed to mint challenges'' 500, s\<lparr>cs_db := d\<rparr>))))))"

section \<open>get-attestation-challenge\<close>

definition DEFAULT_KEY_VERSION :: string where "DEFAULT_KEY_VERSION = ''4''"

definition CHALLENGE_WINDOWS :: "rate_window list" where
  "CHALLENGE_WINDOWS =
    [\<lparr>rw_windowSec = 3600, rw_max = 10\<rparr>, \<lparr>rw_windowSec = 86400, rw_max = 30\<rparr>]"

definition handleGetChallenge ::
  "'d edge_platform \<Rightarrow> request \<Rightarrow> 'd ca_state \<Rightarrow> response \<times> 'd ca_state"
where
  "handleGetChallenge p req s =
    (case handlePreflight req of
       Some r \<Rightarrow> (r, s)
     | None \<Rightarrow>
     if rq_method req \<noteq> ''POST'' then (error_response ''Method not allowed'' 405, s)
     else
     (case getUserFromAuthHeader (ep_auth p) req of
        None \<Rightarrow> (error_response ''Unauthorized'' 401, s)
      | Some user \<Rightarrow>
      (case charge_rate p ''get-attestation-challenge'' (au_id user) CHALLENGE_WINDOWS s of
         (Some r, s1) \<Rightarrow> (r, s1)
       | (None, s1) \<Rightarrow>
         (let keyVersion = null_or (as_nonempty_str (opt_get (null_or (rq_json req) (JObj [])) ''keyVersion''))
                             DEFAULT_KEY_VERSION in
          (case ep_issueChallenge p (au_id user) keyVersion (cs_db s1) of
             (Inl e, d) \<Rightarrow> (error_response ''Server error'' 500, s1\<lparr>cs_db := d\<rparr>)
           | (Inr row, d) \<Rightarrow>
               if \<not> truthy row then (error_response ''Server error'' 500, s1\<lparr>cs_db := d\<rparr>)
               else (jsonResponse (JObj [(''challenge'', obj_get row ''challenge''),
                       (''expiresAt'', obj_get row ''expires_at''), (''keyVersion'', JStr keyVersion)]) 200 None,
                     s1\<lparr>cs_db := d\<rparr>))))))"

section \<open>The contract of the handlers\<close>

lemmas handler_defs = handlePreflight_def error_response_def

lemma preflight_iff: "handlePreflight req = None \<longleftrightarrow> rq_method req \<noteq> ''OPTIONS''"
  by (simp add: handlePreflight_def)

interpretation revoke_contract: ca_handler "handleRevoke p" "aal_cleared (ep_auth p)"
proof unfold_locales
  fix req s
  show "snd (handleRevoke p req s) = s" if "rq_method req = ''OPTIONS''"
    using that by (simp add: handleRevoke_def handlePreflight_def)
  show "snd (handleRevoke p req s) = s \<and> rsp_status (fst (handleRevoke p req s)) = 405"
    if "rq_method req \<noteq> ''OPTIONS''" "rq_method req \<noteq> ''POST''"
    using that by (simp add: handleRevoke_def handlePreflight_def)
  show "snd (handleRevoke p req s) = s \<and> rsp_status (fst (handleRevoke p req s)) \<noteq> 200"
    if "rq_method req = ''POST''" "\<not> aal_cleared (ep_auth p) req"
    using that requireAal2_status
    by (auto simp: handleRevoke_def handlePreflight_def aal_cleared_def split: option.splits)
qed

interpretation mint_contract: ca_handler "handleMintChallenges p" "signed_in (ep_auth p)"
proof unfold_locales
  fix req s
  show "snd (handleMintChallenges p req s) = s" if "rq_method req = ''OPTIONS''"
    using that by (simp add: handleMintChallenges_def handlePreflight_def)
  show "snd (handleMintChallenges p req s) = s \<and> rsp_status (fst (handleMintChallenges p req s)) = 405"
    if "rq_method req \<noteq> ''OPTIONS''" "rq_method req \<noteq> ''POST''"
    using that by (simp add: handleMintChallenges_def handlePreflight_def)
  show "snd (handleMintChallenges p req s) = s \<and> rsp_status (fst (handleMintChallenges p req s)) \<noteq> 200"
    if "rq_method req = ''POST''" "\<not> signed_in (ep_auth p) req"
    using that by (simp add: handleMintChallenges_def handlePreflight_def signed_in_def)
qed

interpretation challenge_contract: ca_handler "handleGetChallenge p" "signed_in (ep_auth p)"
proof unfold_locales
  fix req s
  show "snd (handleGetChallenge p req s) = s" if "rq_method req = ''OPTIONS''"
    using that by (simp add: handleGetChallenge_def handlePreflight_def)
  show "snd (handleGetChallenge p req s) = s \<and> rsp_status (fst (handleGetChallenge p req s)) = 405"
    if "rq_method req \<noteq> ''OPTIONS''" "rq_method req \<noteq> ''POST''"
    using that by (simp add: handleGetChallenge_def handlePreflight_def)
  show "snd (handleGetChallenge p req s) = s \<and> rsp_status (fst (handleGetChallenge p req s)) \<noteq> 200"
    if "rq_method req = ''POST''" "\<not> signed_in (ep_auth p) req"
    using that by (simp add: handleGetChallenge_def handlePreflight_def signed_in_def)
qed

section \<open>What revocation does to the keys\<close>

text \<open>The request of a caller cleared for \<open>uid\<close> that names \<open>keyId\<close>.\<close>

definition revokes_as :: "'d edge_platform \<Rightarrow> request \<Rightarrow> string \<Rightarrow> string \<Rightarrow> bool" where
  "revokes_as p req uid keyId =
    (rq_method req = ''POST''
     \<and> (case getUserFromAuthHeader (ep_auth p) req of
          Some user \<Rightarrow> au_id user = uid \<and> requireAal2IfMfaEnrolled (ep_auth p) user = None
        | None \<Rightarrow> False)
     \<and> (case rq_json req of Some body \<Rightarrow> opt_get body ''keyId'' = JStr keyId | None \<Rightarrow> False))"

text \<open>Every answer leaves the keys alone, except the success, which soft-deletes for the caller.\<close>

lemma handleRevoke_cases:
  assumes "handleRevoke p req s = (r, s')"
  shows "(rsp_status r \<noteq> 200 \<or> rq_method req = ''OPTIONS'') \<and> cs_keys s' = cs_keys s
    \<or> (\<exists>uid keyId. revokes_as p req uid keyId \<and> rsp_status r = 200
        \<and> cs_keys s' = soft_delete (iso_string (ep_now p)) uid keyId (cs_keys s))"
  using assms charge_rate_status charge_rate_keys requireAal2_status
  by (fastforce simp: handleRevoke_def revokes_as_def handlePreflight_def opt_get_def
      split: option.splits if_splits jsval.splits prod.splits)

definition revoked_by :: "('d edge_platform \<times> request) list \<Rightarrow> key_row \<Rightarrow> key_row \<Rightarrow> bool" where
  "revoked_by calls r r' =
    (kr_user_id r' = kr_user_id r \<and> kr_key_id r' = kr_key_id r \<and>
     (r' = r \<or> kr_revoked_at r = None \<and>
        (\<exists>(p, req) \<in> set calls. revokes_as p req (kr_user_id r) (kr_key_id r)
           \<and> kr_revoked_at r' = Some (iso_string (ep_now p)))))"

abbreviation serve_revokes :: "('d edge_platform \<times> request) list \<Rightarrow> 'd ca_state \<Rightarrow> 'd ca_state" where
  "serve_revokes \<equiv> serve_all (\<lambda>(p, req). handleRevoke p req)"

lemma revoked_by_refl: "revoked_by calls r r"
  by (simp add: revoked_by_def)

lemma revoked_by_trans:
  assumes "revoked_by [c] r r'" "revoked_by cs r' r''"
  shows "revoked_by (c # cs) r r''"
  using assms by (auto simp: revoked_by_def)

lemma soft_delete_revokes:
  assumes "revokes_as p req uid keyId"
  shows "list_all2 (revoked_by [(p, req)]) rows (soft_delete (iso_string (ep_now p)) uid keyId rows)"
  using assms by (induction rows) (auto simp: soft_delete_def revoked_by_def)

lemma one_revoke: "list_all2 (revoked_by [(p, req)]) (cs_keys s) (cs_keys (snd (handleRevoke p req s)))"
proof (cases "handleRevoke p req s")
  case (Pair r s')
  note c = handleRevoke_cases[OF this]
  show ?thesis
  proof (cases "cs_keys s' = cs_keys s")
    case True
    then show ?thesis using Pair by (simp add: list_all2_refl revoked_by_refl)
  next
    case False
    with c soft_delete_revokes[of p req] Pair show ?thesis by auto
  qed
qed

lemma many_revokes: "list_all2 (revoked_by calls) (cs_keys s) (cs_keys (serve_revokes calls s))"
proof (induction calls arbitrary: s)
  case Nil
  show ?case by (simp add: list_all2_refl revoked_by_refl)
next
  case (Cons c cs)
  obtain p req where c: "c = (p, req)" by fastforce
  note one = one_revoke[of p req s]
  show ?case
    unfolding c serve_all.simps prod.case
    by (rule list_all2_trans[OF revoked_by_trans one Cons.IH])
qed

text \<open>C10. Whatever requests arrive, in whatever order, no key changes its owner, its identifier or a
  revocation date it has; a key is revoked only by a request of its own owner, cleared by the MFA
  gate, that names it, and is dated with that request.\<close>

theorem revocation_owner_only:
  "list_all2 (revoked_by calls) (cs_keys s) (cs_keys (serve_revokes calls s))"
  by (rule many_revokes)

lemma soft_delete_effect:
  "\<forall>row \<in> set (soft_delete at uid k rows). kr_user_id row = uid \<and> kr_key_id row = k \<longrightarrow> kr_revoked_at row \<noteq> None"
  unfolding soft_delete_def set_map by (rule ballI, erule imageE) simp

lemma revoked_stays:
  assumes "\<forall>row \<in> set (cs_keys s). kr_user_id row = uid \<and> kr_key_id row = k \<longrightarrow> kr_revoked_at row \<noteq> None"
    and "row' \<in> set (cs_keys (serve_revokes calls s))" "kr_user_id row' = uid" "kr_key_id row' = k"
  shows "kr_revoked_at row' \<noteq> None"
proof -
  obtain i where i: "i < length (cs_keys (serve_revokes calls s))" "row' = cs_keys (serve_revokes calls s) ! i"
    using assms(2) by (auto simp: in_set_conv_nth)
  have "revoked_by calls (cs_keys s ! i) row'" "cs_keys s ! i \<in> set (cs_keys s)"
    using many_revokes[of calls s] i by (auto simp: list_all2_conv_all_nth)
  then show ?thesis using assms(1,3,4) by (auto simp: revoked_by_def)
qed

text \<open>A revocation answered with success is final: from then on, whatever requests follow, the
  caller has no active key of the identifier the request named.\<close>

lemma revocation_final:
  assumes "handleRevoke p req s = (r, s1)" "rsp_status r = 200" "rq_method req = ''POST''"
  shows "\<exists>uid keyId. revokes_as p req uid keyId \<and>
    (\<forall>calls. \<forall>row \<in> set (cs_keys (serve_revokes calls s1)).
       kr_user_id row = uid \<and> kr_key_id row = keyId \<longrightarrow> kr_revoked_at row \<noteq> None)"
proof -
  from handleRevoke_cases[OF assms(1)] assms(2,3) obtain uid k where
    "revokes_as p req uid k" "cs_keys s1 = soft_delete (iso_string (ep_now p)) uid k (cs_keys s)"
    by auto
  then have "\<forall>row \<in> set (cs_keys s1). kr_user_id row = uid \<and> kr_key_id row = k \<longrightarrow> kr_revoked_at row \<noteq> None"
    using soft_delete_effect by simp
  note stays = revoked_stays[OF this]
  show ?thesis
    by (rule exI[of _ uid], rule exI[of _ k]) (simp add: stays \<open>revokes_as p req uid k\<close>)
qed

definition ex_edge :: "unit edge_platform" where
  "ex_edge = \<lparr>ep_env = (\<lambda>_. None), ep_now = 1700000000000,
     ep_auth = \<lparr>sa_getUser = (\<lambda>jwt. if jwt = ''tok'' then Some (''u1'', None) else None),
                sa_hasVerifiedMfa = (\<lambda>jwt. Inr (JBool False))\<rparr>,
     ep_kvAvailable = True, ep_interfere = (\<lambda>n kv. kv), ep_updateError = None,
     ep_issueChallenge = (\<lambda>uid kv d. (Inr (JObj [(''challenge'', JStr ''abc'')]), d)),
     ep_mintChallenges = (\<lambda>k uid n d. (Inr (JArr []), d))\<rparr>"

definition ex_revoke_request :: request where
  "ex_revoke_request = \<lparr>rq_method = ''POST'', rq_authorization = Some ''Bearer tok'',
     rq_content_length = None, rq_json = Some (JObj [(''keyId'', JStr ''k1'')])\<rparr>"

definition ex_ca_state :: "unit ca_state" where
  "ex_ca_state = \<lparr>cs_kv = \<lparr>kv_entries = (\<lambda>_. None), kv_next = 0\<rparr>,
     cs_keys = [\<lparr>kr_user_id = ''u1'', kr_key_id = ''k1'', kr_revoked_at = None\<rparr>,
                \<lparr>kr_user_id = ''u2'', kr_key_id = ''k1'', kr_revoked_at = None\<rparr>], cs_db = ()\<rparr>"

lemma ex_revoke:
  "rsp_status (fst (handleRevoke ex_edge ex_revoke_request ex_ca_state)) = 200"
  "map (\<lambda>row. kr_revoked_at row = None) (cs_keys (snd (handleRevoke ex_edge ex_revoke_request ex_ca_state)))
     = [False, True]"
  by code_simp+

theorem revocation_final_witness:
  "\<exists>uid keyId. revokes_as ex_edge ex_revoke_request uid keyId \<and>
    (\<forall>calls. \<forall>row \<in> set (cs_keys (serve_revokes calls
        (snd (handleRevoke ex_edge ex_revoke_request ex_ca_state)))).
       kr_user_id row = uid \<and> kr_key_id row = keyId \<longrightarrow> kr_revoked_at row \<noteq> None)"
proof (rule revocation_final)
  show "handleRevoke ex_edge ex_revoke_request ex_ca_state =
    (fst (handleRevoke ex_edge ex_revoke_request ex_ca_state),
     snd (handleRevoke ex_edge ex_revoke_request ex_ca_state))" by simp
  show "rsp_status (fst (handleRevoke ex_edge ex_revoke_request ex_ca_state)) = 200" by (rule ex_revoke)
  show "rq_method ex_revoke_request = ''POST''" by (simp add: ex_revoke_request_def)
qed

end
