(* ===== verification/Enrollment.thy ===== *)
theory Enrollment
  imports AndroidAttestation AppleEnrollment LeafIssuance EdgeFunctions Kms
begin

text \<open>
  Enrollment of a device key, \<open>ca/register-signing-key/index.ts\<close>.  The handler runs in stages; each
  either answers with a response, which ends the request, or hands a value on, and both may change
  the state.  The dependencies the source injects (\<open>RegisterDeps\<close>) are a record; the two stored
  procedures, the CSR parser and Cloud KMS are parameters among them.
\<close>

section \<open>Stages\<close>

type_synonym ('s, 'a) stage = "'s \<Rightarrow> (response + 'a) \<times> 's"

definition bindS :: "('s, 'a) stage \<Rightarrow> ('a \<Rightarrow> ('s, 'b) stage) \<Rightarrow> ('s, 'b) stage" where
  "bindS m f s = (case m s of (Inl r, s') \<Rightarrow> (Inl r, s') | (Inr x, s') \<Rightarrow> f x s')"

definition liftS :: "response + 'a \<Rightarrow> ('s, 'a) stage" where
  "liftS r s = (r, s)"

definition answer_of :: "(response + response) \<times> 's \<Rightarrow> response \<times> 's" where
  "answer_of x = (case x of (Inl r, s) \<Rightarrow> (r, s) | (Inr r, s) \<Rightarrow> (r, s))"

lemma bindS_Inr_iff [simp, result_simps]:
  "bindS m f s = (Inr y, s2) \<longleftrightarrow> (\<exists>x s1. m s = (Inr x, s1) \<and> f x s1 = (Inr y, s2))"
  by (auto simp: bindS_def split: prod.splits sum.splits)

lemma bindS_Inl_iff [result_simps]:
  "bindS m f s = (Inl r, s2) \<longleftrightarrow>
     m s = (Inl r, s2) \<or> (\<exists>x s1. m s = (Inr x, s1) \<and> f x s1 = (Inl r, s2))"
  by (auto simp: bindS_def split: prod.splits sum.splits)

lemma liftS_iff [simp, result_simps]: "liftS r s = (x, s') \<longleftrightarrow> r = x \<and> s' = s"
  by (auto simp: liftS_def)

section \<open>Policy\<close>

definition leafValidityDays :: "assurance_level \<Rightarrow> int" where
  "leafValidityDays al = (if al = AL2 then 90 else 180)"

definition assuranceLevelFor :: "leaf_platform \<Rightarrow> assurance_level" where
  "assuranceLevelFor platform = (if platform = Leaf_android then AL2 else AL1)"

definition RATE_LIMIT_WINDOWS :: "rate_window list" where
  "RATE_LIMIT_WINDOWS =
    [\<lparr>rw_windowSec = 3600, rw_max = 5\<rparr>, \<lparr>rw_windowSec = 86400, rw_max = 20\<rparr>]"

definition ALLOWED_PLATFORMS :: "string list" where
  "ALLOWED_PLATFORMS = [''ios'', ''android-strongbox'', ''android-tee'']"

definition MAX_DEVICE_LABEL_CHARS :: nat where "MAX_DEVICE_LABEL_CHARS = 64"
definition MAX_CSR_PEM_CHARS :: nat where "MAX_CSR_PEM_CHARS = 2 * 1024"

section \<open>Configuration of the Android checks\<close>

definition hex_byte :: "char \<Rightarrow> char \<Rightarrow> 8 word" where
  "hex_byte a b = of_nat (16 * radix_val a + radix_val b)"

fun bytes_of_hex :: "string \<Rightarrow> bytes" where
  "bytes_of_hex (a # b # s) = hex_byte a b # bytes_of_hex s"
| "bytes_of_hex _ = []"

definition androidSigningCertDigestsFromEnv :: "env \<Rightarrow> bytes list ares" where
  "androidSigningCertDigestsFromEnv env =
    (let raw = null_or (env ''ANDROID_APP_SIGNING_CERT_SHA256'') '''';
         entries = filter (\<lambda>e. e \<noteq> []) (map js_trim (split_char (CHR '','') raw)) in
     if entries = [] then Inl (Attestation ''CA_CONFIG_INVALID'')
     else mapR (\<lambda>entry. if length entry = 64 \<and> list_all is_hex entry then Inr (bytes_of_hex entry)
                        else Inl (Attestation ''CA_CONFIG_INVALID'')) entries)"

fun integer_num :: "jsnum \<Rightarrow> int option" where
  "integer_num (DecNum m e) =
     (if 0 \<le> e then Some (m * 10 ^ nat e)
      else if m mod 10 ^ nat (- e) = 0 then Some (m div 10 ^ nat (- e)) else None)"
| "integer_num _ = None"

definition androidMinAppVersionCodeFromEnv :: "env \<Rightarrow> int option ares" where
  "androidMinAppVersionCodeFromEnv env =
    (case env ''ANDROID_MIN_APP_VERSION_CODE'' of
       None \<Rightarrow> Inr None
     | Some raw \<Rightarrow>
         if raw = [] then Inr None
         else (case integer_num (js_number raw) of
                 Some n \<Rightarrow> if n < 0 then Inl (Attestation ''CA_CONFIG_INVALID'') else Inr (Some n)
               | None \<Rightarrow> Inl (Attestation ''CA_CONFIG_INVALID'')))"

section \<open>The intermediate and Cloud KMS\<close>

text \<open>The state is whether a check has succeeded; a failed one leaves nothing behind.\<close>

definition buildCachedIntermediateCheck ::
  "pki_lib \<Rightarrow> (kms_credentials \<Rightarrow> kms_public_key ares) \<Rightarrow> kms_credentials \<Rightarrow> string \<Rightarrow> bool
     \<Rightarrow> unit ares \<times> bool"
where
  "buildCachedIntermediateCheck lib getPublicKey creds intermediatePem cached =
    (if cached then (Inr (), True)
     else
       (case (bindR (getPublicKey creds) (\<lambda>pk.
              bindR (guardR (kp_algorithm pk = JStr KMS_EXPECTED_ALGORITHM)
                (Attestation ''KMS_ALGORITHM_MISMATCH'')) (\<lambda>_.
              bindR (case parseCertFromPem lib intermediatePem of
                       Inl m \<Rightarrow> Inl (Attestation ''INTERMEDIATE_PARSE_FAILED'') | Inr c \<Rightarrow> Inr c) (\<lambda>intCert.
              guardR (ctEqual (kp_spki pk) (ct_spki intCert))
                (Attestation ''KMS_INTERMEDIATE_MISMATCH''))))) of
          Inl e \<Rightarrow> (Inl e, False)
        | Inr u \<Rightarrow> (Inr (), True)))"

section \<open>Certificate requests\<close>

record csr_lib =
  cl_parse :: "bytes \<Rightarrow> csr option"
  cl_verify :: "csr \<Rightarrow> string + bool"

definition parseCSRFromPem :: "csr_lib \<Rightarrow> string \<Rightarrow> csr ares" where
  "parseCSRFromPem lib pem =
    bindR (derefR (Other_error ''InvalidCharacterError'') (csrPemToDer pem)) (\<lambda>der.
    derefR (Attestation ''CSR_PARSE_FAILED'') (cl_parse lib der))"

definition verifyCSRSignature :: "csr_lib \<Rightarrow> csr \<Rightarrow> unit ares" where
  "verifyCSRSignature lib cr =
    (case cl_verify lib cr of
       Inr ok \<Rightarrow> guardR ok (Attestation ''CSR_SIG_INVALID'')
     | Inl m \<Rightarrow> Inl (Attestation ''CSR_SIG_INVALID''))"

section \<open>Dependencies, state and request\<close>

record registration =
  rg_user_id :: string
  rg_key_version :: string
  rg_public_key :: string
  rg_platform :: string
  rg_attestation_blob :: string
  rg_key_id :: string
  rg_leaf_cert_pem :: string
  rg_cert_serial_number :: string
  rg_expires_at :: string
  rg_device_label :: "string option"
  rg_app_attest_public_key :: "string option"
  rg_supersede_key_id :: "string option"

record 'd register_deps = "'d edge_platform" +
  rd_apple :: apple_lib
  rd_appleRoot :: cert
  rd_googleRoots :: "cert list"
  rd_pins :: dev_attestation_pins
  rd_csr :: csr_lib
  rd_issue :: issue_lib
  rd_random :: bytes
  rd_listFetch :: list_fetch
  rd_loadKmsCredentials :: "kms_credentials ares"
  rd_kmsGetPublicKey :: "kms_credentials \<Rightarrow> kms_public_key ares"
  rd_kmsSignDigest :: "bytes \<Rightarrow> kms_credentials \<Rightarrow> kms_hash \<Rightarrow> bytes ares"
  rd_burn :: "string \<Rightarrow> string \<Rightarrow> 'd \<Rightarrow> (rpc_error + jsval) \<times> 'd"
  rd_register :: "registration \<Rightarrow> 'd \<Rightarrow> rpc_error option \<times> 'd"

record 'd enroll_state = "'d ca_state" +
  es_list :: loader_state
  es_kmsChecked :: bool

record enroll_body =
  eb_publicKey :: string
  eb_platform :: string
  eb_attestation :: string
  eb_keyId :: string
  eb_keyVersion :: string
  eb_challenge :: string
  eb_csr :: string
  eb_deviceLabel :: "string option"
  eb_supersedeKeyId :: "string option"

text \<open>The label to persist: at most 64 UTF-16 units, and no high surrogate at its end.\<close>

definition clamp_label :: "string \<Rightarrow> string" where
  "clamp_label label =
    (let clamped = take MAX_DEVICE_LABEL_CHARS (units label) in
     of_units (drop_high clamped))"

definition device_label :: "jsval \<Rightarrow> response + string option" where
  "device_label v =
    (if is_nullish v then Inr None
     else (case v of JStr s \<Rightarrow> Inr (Some (clamp_label s))
           | _ \<Rightarrow> Inl (error_response ''Malformed deviceLabel'' 400)))"

definition supersede_key :: "jsval \<Rightarrow> response + string option" where
  "supersede_key v =
    (if is_nullish v then Inr None
     else (case v of
             JStr s \<Rightarrow> if s = [] \<or> length (units s) > MAX_SIGNING_KEY_ID_CHARS
                       then Inl (error_response ''Malformed supersedeKeyId'' 400) else Inr (Some s)
           | _ \<Rightarrow> Inl (error_response ''Malformed supersedeKeyId'' 400)))"

definition CSR_BEGIN :: string where "CSR_BEGIN = ''-----BEGIN CERTIFICATE REQUEST-----''"

definition parse_body :: "jsval \<Rightarrow> response + enroll_body" where
  "parse_body body =
    (if is_nullish body then Inl internal_error
     else
     (case (obj_get body ''publicKey'', obj_get body ''platform'', obj_get body ''attestation'',
            obj_get body ''keyId'', obj_get body ''keyVersion'', obj_get body ''challenge'',
            obj_get body ''csr'') of
        (JStr publicKey, JStr platform, JStr attestation, JStr keyId, JStr keyVersion, JStr challenge,
         JStr csrPem) \<Rightarrow>
          if platform \<notin> set ALLOWED_PLATFORMS
          then Inl (error_response ''Missing or malformed fields'' 400)
          else
            bindR (device_label (obj_get body ''deviceLabel'')) (\<lambda>label.
            bindR (supersede_key (obj_get body ''supersedeKeyId'')) (\<lambda>supersede.
            bindR (guardR (\<not> length (units csrPem) > MAX_CSR_PEM_CHARS)
              (error_response ''CSR too large'' 413)) (\<lambda>_.
            bindR (guardR (includes_str CSR_BEGIN csrPem) (error_response ''Malformed csr'' 400)) (\<lambda>_.
            Inr \<lparr>eb_publicKey = publicKey, eb_platform = platform, eb_attestation = attestation,
                 eb_keyId = keyId, eb_keyVersion = keyVersion, eb_challenge = challenge, eb_csr = csrPem,
                 eb_deviceLabel = label, eb_supersedeKeyId = supersede\<rparr>))))
      | _ \<Rightarrow> Inl (error_response ''Missing or malformed fields'' 400)))"

section \<open>The stages\<close>

record android_inputs =
  an_certChainBase64 :: "jsval list"
  an_signingCertSha256Digests :: "bytes list"
  an_minAppVersionCode :: "int option"
  an_revokedSerials :: android_revocation_list

definition misconfigured :: response where
  "misconfigured = error_response ''Server misconfiguration'' 500"
definition unavailable :: response where
  "unavailable = jsonResponse (error_body ''Service temporarily unavailable'') 503 (Some ''60'')"

definition android_stage ::
  "'d register_deps \<Rightarrow> enroll_body \<Rightarrow> ('d enroll_state, android_inputs option) stage"
where
  "android_stage p b s =
    (if eb_platform b = ''ios'' then (Inr None, s)
     else
       (case json_parse (eb_attestation b) of
          Some (JArr certChain) \<Rightarrow>
            (case bindR (androidSigningCertDigestsFromEnv (ep_env p)) (\<lambda>digests.
                  bindR (androidMinAppVersionCodeFromEnv (ep_env p)) (\<lambda>minVersion.
                  Inr (digests, minVersion))) of
               Inl e \<Rightarrow> (Inl (if att_code e = Some ''CA_CONFIG_INVALID'' then misconfigured else unavailable), s)
             | Inr (digests, minVersion) \<Rightarrow>
                 (case load_list (ep_now p) (rd_listFetch p) (es_list s) of
                    (Inl m, l) \<Rightarrow> (Inl unavailable, s\<lparr>es_list := l\<rparr>)
                  | (Inr revoked, l) \<Rightarrow>
                      (Inr (Some \<lparr>an_certChainBase64 = certChain, an_signingCertSha256Digests = digests,
                                 an_minAppVersionCode = minVersion, an_revokedSerials = revoked\<rparr>),
                       s\<lparr>es_list := l\<rparr>)))
        | _ \<Rightarrow> (Inl (error_response ''Invalid attestation'' 400), s)))"

definition rate_stage :: "'d register_deps \<Rightarrow> string \<Rightarrow> ('d enroll_state, unit) stage" where
  "rate_stage p uid s =
    (case charge_rate p ''register-signing-key'' uid RATE_LIMIT_WINDOWS s of
       (Some r, s') \<Rightarrow> (Inl r, s') | (None, s') \<Rightarrow> (Inr (), s'))"

definition burn_stage :: "'d register_deps \<Rightarrow> string \<Rightarrow> enroll_body \<Rightarrow> ('d enroll_state, unit) stage" where
  "burn_stage p uid b s =
    (case rd_burn p (eb_challenge b) uid (cs_db s) of
       (Inl e, d) \<Rightarrow>
         (Inl (if re_code e = Some ''P0001''
                  \<and> includes_str ''enrollment_challenge_unavailable'' (null_or (re_message e) '''')
               then error_response ''Challenge expired or already used'' 400
               else error_response ''Server error'' 500), s\<lparr>cs_db := d\<rparr>)
     | (Inr version, d) \<Rightarrow>
         (if version \<noteq> JStr (eb_keyVersion b)
          then Inl (error_response ''Challenge / keyVersion mismatch'' 400) else Inr (), s\<lparr>cs_db := d\<rparr>))"

text \<open>The decoded challenge, public key and, for iOS, attestation.\<close>

definition decode_stage :: "enroll_body \<Rightarrow> response + (bytes \<times> bytes \<times> bytes option)" where
  "decode_stage b =
    derefR (error_response ''Invalid attestation'' 400)
      (Option.bind (base64ToBytes (eb_challenge b)) (\<lambda>challenge.
       Option.bind (base64ToBytes (eb_publicKey b)) (\<lambda>sePublicKey.
       if eb_platform b = ''ios''
       then map_option (\<lambda>a. (challenge, sePublicKey, Some a)) (base64ToBytes (eb_attestation b))
       else Some (challenge, sePublicKey, None))))"

definition csr_stage :: "'d register_deps \<Rightarrow> enroll_body \<Rightarrow> bytes \<Rightarrow> response + csr" where
  "csr_stage p b sePublicKey =
    (case parseCSRFromPem (rd_csr p) (eb_csr b) of
       Inl e \<Rightarrow> Inl (error_response ''Malformed csr'' 400)
     | Inr cr \<Rightarrow>
         (case verifyCSRSignature (rd_csr p) cr of
            Inl e \<Rightarrow> Inl (error_response ''Invalid csr signature'' 400)
          | Inr u \<Rightarrow>
              if \<not> ctEqual (cs_spki cr) sePublicKey
              then Inl (error_response ''CSR public key does not match attested key'' 400) else Inr cr))"

fun stale_patch_json :: "stale_patch_detail \<Rightarrow> jsval" where
  "stale_patch_json (Os_patch month n) =
     JObj [(''kind'', JStr ''os''), (''patchMonth'', JStr month), (''maxAgeMonths'', JNum (DecNum (int n) 0))]"
| "stale_patch_json (Firmware_patch day n) =
     JObj [(''kind'', JStr ''firmware''), (''patchDate'', JStr day), (''maxAgeDays'', JNum (DecNum (int n) 0))]"

definition attestation_refusal :: "att_error \<Rightarrow> response" where
  "attestation_refusal e =
    (if att_code e = Some ''ATTESTATION_STALE_PATCH''
     then jsonResponse (JObj ([(''error'', JStr ''Device security patch level out of date''),
            (''code'', JStr ''ATTESTATION_STALE_PATCH'')] @
            (case e of Stale_patch d \<Rightarrow> [(''stalePatch'', stale_patch_json d)] | _ \<Rightarrow> []))) 400 None
     else error_response ''Invalid attestation'' 400)"

definition leafPlatform :: "enroll_body \<Rightarrow> leaf_platform" where
  "leafPlatform b = (if eb_platform b = ''ios'' then Leaf_ios else Leaf_android)"

definition apple_opts_of :: "'d register_deps \<Rightarrow> enroll_body \<Rightarrow> bytes \<Rightarrow> bytes \<Rightarrow> bytes \<Rightarrow> apple_opts" where
  "apple_opts_of p b attestation challenge sePublicKey =
    \<lparr>po_attestation = attestation, po_challenge = challenge, po_keyId = eb_keyId b,
     po_sePublicKey = sePublicKey, po_appId = APPLE_APP_ID_of (ep_env p) (rd_pins p),
     po_requireProduction = dp_requireProductionAppAttest (rd_pins p), po_now = ep_now p\<rparr>"

definition android_opts_of ::
  "'d register_deps \<Rightarrow> enroll_body \<Rightarrow> android_inputs \<Rightarrow> bytes \<Rightarrow> bytes \<Rightarrow> android_opts"
where
  "android_opts_of p b inputs challenge sePublicKey =
    \<lparr>ao_certChainBase64 = an_certChainBase64 inputs, ao_challenge = challenge,
     ao_sePublicKey = sePublicKey, ao_packageName = dp_androidPackageName (rd_pins p),
     ao_signingCertSha256Digests = an_signingCertSha256Digests inputs,
     ao_minAppVersionCode = an_minAppVersionCode inputs, ao_revokedSerials = an_revokedSerials inputs,
     ao_expectedSecurityLevel = (if eb_platform b = ''android-strongbox'' then Strongbox else Tee),
     ao_now = ep_now p\<rparr>"

text \<open>The public key of the App Attest credential, on iOS.\<close>

definition attest_stage ::
  "'d register_deps \<Rightarrow> enroll_body \<Rightarrow> android_inputs option \<Rightarrow> bytes \<Rightarrow> bytes \<Rightarrow> bytes option
     \<Rightarrow> response + bytes option"
where
  "attest_stage p b inputs challenge sePublicKey attestation =
    (case (if eb_platform b = ''ios''
           then bindR (validateAppleAttestation (rd_apple p) (rd_appleRoot p)
                        (apple_opts_of p b (null_or attestation []) challenge sePublicKey)) (\<lambda>pk. Inr (Some pk))
           else bindR (derefR (Other_error ''Android inputs unresolved'') inputs) (\<lambda>inp.
                bindR (validateAndroidAttestation (ap_pki (rd_apple p)) (rd_googleRoots p)
                        (android_opts_of p b inp challenge sePublicKey)) (\<lambda>_. Inr None))) of
       Inl e \<Rightarrow> Inl (attestation_refusal e) | Inr pk \<Rightarrow> Inr pk)"

definition issue_opts_of ::
  "'d register_deps \<Rightarrow> string \<Rightarrow> kms_credentials \<Rightarrow> assurance_level \<Rightarrow> leaf_profile \<Rightarrow> issue_opts"
where
  "issue_opts_of p intermediatePem creds al profile =
    \<lparr>io_intermediatePem = intermediatePem, io_validityDays = leafValidityDays al,
     io_signer = (\<lambda>digest. rd_kmsSignDigest p digest creds Sha384_digest), io_profile = profile\<rparr>"

definition issue_stage ::
  "'d register_deps \<Rightarrow> enroll_body \<Rightarrow> string \<Rightarrow> csr \<Rightarrow> ('d enroll_state, issued_leaf_chain) stage"
where
  "issue_stage p b intermediatePem cr s =
    (let failed = Inl (error_response ''Issuance failed'' 500);
         pf = leafPlatform b; al = assuranceLevelFor pf; lib = ap_pki (rd_apple p) in
     (case rd_loadKmsCredentials p of
        Inl e \<Rightarrow> (failed, s)
      | Inr creds \<Rightarrow>
          (case buildCachedIntermediateCheck lib (rd_kmsGetPublicKey p) creds intermediatePem (es_kmsChecked s) of
             (Inl e, checked) \<Rightarrow> (failed, s\<lparr>es_kmsChecked := checked\<rparr>)
           | (Inr u, checked) \<Rightarrow>
               (case bindR (resolveLeafProfile (ep_env p) pf al) (\<lambda>profile.
                     issueLeafChainFromCSR (ep_env p) lib (rd_issue p) (ep_now p) (rd_random p) cr
                       (issue_opts_of p intermediatePem creds al profile)) of
                  Inl e \<Rightarrow> (failed, s\<lparr>es_kmsChecked := checked\<rparr>)
                | Inr issued \<Rightarrow> (Inr issued, s\<lparr>es_kmsChecked := checked\<rparr>)))))"

definition hex_literal :: "bytes \<Rightarrow> string" where
  "hex_literal bs = [CHR 0x5C, CHR ''x''] @ bytesToHex bs"

definition registration_of ::
  "'d register_deps \<Rightarrow> string \<Rightarrow> enroll_body \<Rightarrow> bytes \<Rightarrow> bytes option \<Rightarrow> bytes option \<Rightarrow> issued_leaf_chain
     \<Rightarrow> registration"
where
  "registration_of p uid b sePublicKey attestation appAttestKey issued =
    \<lparr>rg_user_id = uid, rg_key_version = eb_keyVersion b, rg_public_key = hex_literal sePublicKey,
     rg_platform = eb_platform b,
     rg_attestation_blob =
       hex_literal (if eb_platform b = ''ios'' then null_or attestation [] else utf8 (eb_attestation b)),
     rg_key_id = bytesToBase64 (ap_sha256 (rd_apple p) sePublicKey),
     rg_leaf_cert_pem = ic_pem issued, rg_cert_serial_number = ic_serialDecimal issued,
     rg_expires_at = iso_string (ic_notAfter issued), rg_device_label = eb_deviceLabel b,
     rg_app_attest_public_key = map_option hex_literal appAttestKey,
     rg_supersede_key_id = eb_supersedeKeyId b\<rparr>"

definition persist_stage ::
  "'d register_deps \<Rightarrow> registration \<Rightarrow> ('d enroll_state, response) stage"
where
  "persist_stage p rg s =
    (case rd_register p rg (cs_db s) of
       (Some e, d) \<Rightarrow>
         (Inl (if re_code e = Some ''23505'' then error_response ''Key already registered'' 409
               else error_response ''Persist failed'' 500), s\<lparr>cs_db := d\<rparr>)
     | (None, d) \<Rightarrow>
         (Inr (jsonResponse (JObj [(''ok'', JBool True), (''leafChainPEM'', JStr (rg_leaf_cert_pem rg)),
            (''keyId'', JStr (rg_key_id rg))]) 200 None), s\<lparr>cs_db := d\<rparr>))"

section \<open>The handler\<close>

definition enroll ::
  "'d register_deps \<Rightarrow> string \<Rightarrow> string \<Rightarrow> jsval \<Rightarrow> ('d enroll_state, response) stage"
where
  "enroll p intermediatePem uid body =
    bindS (liftS (parse_body body)) (\<lambda>b.
    bindS (android_stage p b) (\<lambda>inputs.
    bindS (rate_stage p uid) (\<lambda>_.
    bindS (burn_stage p uid b) (\<lambda>_.
    bindS (liftS (decode_stage b)) (\<lambda>(challenge, sePublicKey, attestation).
    bindS (liftS (csr_stage p b sePublicKey)) (\<lambda>cr.
    bindS (liftS (attest_stage p b inputs challenge sePublicKey attestation)) (\<lambda>appAttestKey.
    bindS (issue_stage p b intermediatePem cr) (\<lambda>issued.
    persist_stage p (registration_of p uid b sePublicKey attestation appAttestKey issued)))))))))"

definition handleRegister ::
  "'d register_deps \<Rightarrow> request \<Rightarrow> 'd enroll_state \<Rightarrow> response \<times> 'd enroll_state"
where
  "handleRegister p req s =
    (case handlePreflight req of
       Some r \<Rightarrow> (r, s)
     | None \<Rightarrow>
     if rq_method req \<noteq> ''POST'' then (error_response ''Method not allowed'' 405, s)
     else
     let intermediatePem = null_or (ep_env p ''REALREEL_INTERMEDIATE_CERT_PEM'') '''' in
     if intermediatePem = [] then (misconfigured, s)
     else
     (case getUserFromAuthHeader (ep_auth p) req of
        None \<Rightarrow> (error_response ''Unauthorized'' 401, s)
      | Some user \<Rightarrow>
      (case requireAal2IfMfaEnrolled (ep_auth p) user of
         Some r \<Rightarrow> (r, s)
       | None \<Rightarrow>
       (case rq_json req of
          None \<Rightarrow> (error_response ''Invalid JSON body'' 400, s)
        | Some body \<Rightarrow> answer_of (enroll p intermediatePem (au_id user) body s)))))"

section \<open>Refusals\<close>

named_theorems stage_refuses \<open>a refusing stage does not answer 200\<close>

lemma parse_body_refuses [stage_refuses]: "parse_body body = Inl r \<Longrightarrow> rsp_status r \<in> {400, 413, 500}"
  by (auto simp: parse_body_def device_label_def supersede_key_def bindR_Inl_iff
      split: if_splits jsval.splits)

lemma android_stage_refuses [stage_refuses]:
  "android_stage p b s = (Inl r, s') \<Longrightarrow> rsp_status r \<in> {400, 500, 503}"
  by (auto simp: android_stage_def misconfigured_def unavailable_def
      split: if_splits option.splits jsval.splits sum.splits prod.splits)

lemma rate_stage_refuses [stage_refuses]: "rate_stage p uid s = (Inl r, s') \<Longrightarrow> rsp_status r = 429"
  by (auto simp: rate_stage_def split: prod.splits option.splits dest: charge_rate_status)

lemma burn_stage_refuses [stage_refuses]: "burn_stage p uid b s = (Inl r, s') \<Longrightarrow> rsp_status r \<in> {400, 500}"
  by (auto simp: burn_stage_def split: prod.splits sum.splits if_splits)

lemma decode_stage_refuses [stage_refuses]: "decode_stage b = Inl r \<Longrightarrow> rsp_status r = 400"
  by (auto simp: decode_stage_def)

lemma csr_stage_refuses [stage_refuses]: "csr_stage p b k = Inl r \<Longrightarrow> rsp_status r = 400"
  by (auto simp: csr_stage_def split: sum.splits if_splits)

lemma attest_stage_refuses [stage_refuses]: "attest_stage p b i c k a = Inl r \<Longrightarrow> rsp_status r = 400"
  by (simp add: attest_stage_def attestation_refusal_def split: sum.splits if_splits) auto

lemma issue_stage_refuses [stage_refuses]: "issue_stage p b pem cr s = (Inl r, s') \<Longrightarrow> rsp_status r = 500"
  by (auto simp: issue_stage_def Let_def split: sum.splits prod.splits)

lemma persist_stage_refuses [stage_refuses]: "persist_stage p rg s = (Inl r, s') \<Longrightarrow> rsp_status r \<in> {409, 500}"
  by (auto simp: persist_stage_def split: prod.splits option.splits if_splits)

text \<open>What a stage leaves of the database.\<close>

lemma android_stage_db:
  "android_stage p b s = (x, s') \<Longrightarrow> cs_db s' = cs_db s \<and> cs_keys s' = cs_keys s \<and> cs_kv s' = cs_kv s"
  by (auto simp: android_stage_def split: if_splits option.splits jsval.splits sum.splits prod.splits)

lemma rate_stage_db: "rate_stage p uid s = (x, s') \<Longrightarrow> cs_db s' = cs_db s \<and> cs_keys s' = cs_keys s"
  by (auto simp: rate_stage_def split: prod.splits option.splits dest!: charge_rate_keys)

lemma issue_stage_db: "issue_stage p b pem cr s = (x, s') \<Longrightarrow> cs_db s' = cs_db s \<and> cs_keys s' = cs_keys s"
  by (auto simp: issue_stage_def Let_def split: sum.splits prod.splits)

section \<open>The contract\<close>

lemma handleRegister_stranger:
  assumes "rq_method req = ''POST''" "\<not> aal_cleared (ep_auth p) req"
  shows "snd (handleRegister p req s) = s \<and> rsp_status (fst (handleRegister p req s)) \<noteq> 200"
  using assms requireAal2_status
  by (auto simp: handleRegister_def handlePreflight_def aal_cleared_def misconfigured_def Let_def
      split: option.splits)

interpretation register_contract: ca_handler "handleRegister p" "aal_cleared (ep_auth p)"
proof unfold_locales
  fix req s
  show "snd (handleRegister p req s) = s" if "rq_method req = ''OPTIONS''"
    using that by (simp add: handleRegister_def handlePreflight_def)
  show "snd (handleRegister p req s) = s \<and> rsp_status (fst (handleRegister p req s)) = 405"
    if "rq_method req \<noteq> ''OPTIONS''" "rq_method req \<noteq> ''POST''"
    using that by (simp add: handleRegister_def handlePreflight_def)
  show "snd (handleRegister p req s) = s \<and> rsp_status (fst (handleRegister p req s)) \<noteq> 200"
    if "rq_method req = ''POST''" "\<not> aal_cleared (ep_auth p) req"
    using handleRegister_stranger[OF that] .
qed

section \<open>What an enrollment proves\<close>

text \<open>The key is attested by the platform the request claims, for this challenge.\<close>

definition key_attested :: "'d register_deps \<Rightarrow> enroll_body \<Rightarrow> bytes \<Rightarrow> bytes \<Rightarrow> bytes option \<Rightarrow> bool" where
  "key_attested p b challenge sePublicKey appAttestKey =
    (if eb_platform b = ''ios''
     then \<exists>att authData ders certs ad. base64ToBytes (eb_attestation b) = Some att
       \<and> apple_attested (rd_apple p) (rd_appleRoot p) (apple_opts_of p b att challenge sePublicKey)
           authData ders certs ad
       \<and> appAttestKey = Some (ct_public_key (hd certs))
     else \<exists>inputs certs desc. json_parse (eb_attestation b) = Some (JArr (an_certChainBase64 inputs))
       \<and> android_attested (ap_pki (rd_apple p)) (rd_googleRoots p)
           (android_opts_of p b inputs challenge sePublicKey) certs desc
       \<and> appAttestKey = None)"

text \<open>The certificate is for the key, of the platform's profile and lifetime, signed by Cloud KMS, and
  the ledger row repeats its serial and expiry.\<close>

definition certified :: "'d register_deps \<Rightarrow> string \<Rightarrow> enroll_body \<Rightarrow> csr \<Rightarrow> issued_leaf_chain \<Rightarrow> leaf_cert \<Rightarrow> bool" where
  "certified p pem b cr issued leaf =
    (\<exists>creds profile sig. rd_loadKmsCredentials p = Inr creds
       \<and> resolveLeafProfile (ep_env p) (leafPlatform b) (assuranceLevelFor (leafPlatform b)) = Inr profile
       \<and> issued_for (ep_env p) (rd_issue p) (ep_now p) cr
           (issue_opts_of p pem creds (assuranceLevelFor (leafPlatform b)) profile) issued leaf sig)"

definition registered ::
  "'d register_deps \<Rightarrow> string \<Rightarrow> string \<Rightarrow> enroll_body \<Rightarrow> 'd enroll_state \<Rightarrow> 'd enroll_state
     \<Rightarrow> registration \<Rightarrow> leaf_cert \<Rightarrow> bool"
where
  "registered p pem uid b s s' row leaf =
    (\<exists>d challenge sePublicKey att cr appAttestKey issued.
       rd_burn p (eb_challenge b) uid (cs_db s) = (Inr (JStr (eb_keyVersion b)), d)
       \<and> base64ToBytes (eb_challenge b) = Some challenge
       \<and> base64ToBytes (eb_publicKey b) = Some sePublicKey
       \<and> parseCSRFromPem (rd_csr p) (eb_csr b) = Inr cr \<and> cl_verify (rd_csr p) cr = Inr True
       \<and> cs_spki cr = sePublicKey
       \<and> key_attested p b challenge sePublicKey appAttestKey
       \<and> certified p pem b cr issued leaf
       \<and> row = registration_of p uid b sePublicKey att appAttestKey issued
       \<and> rd_register p row d = (None, cs_db s'))"

lemma attest_stage_Inr:
  assumes "attest_stage p b inputs challenge sePublicKey att = Inr pk"
    and "eb_platform b = ''ios'' \<longrightarrow> base64ToBytes (eb_attestation b) = att \<and> att \<noteq> None"
    and "eb_platform b \<noteq> ''ios'' \<longrightarrow>
      (\<exists>i. inputs = Some i \<and> json_parse (eb_attestation b) = Some (JArr (an_certChainBase64 i)))"
  shows "key_attested p b challenge sePublicKey pk"
  using assms
  by (auto simp: attest_stage_def key_attested_def validateAppleAttestation_iff
      validateAndroidAttestation_iff split: sum.splits if_splits) blast+

lemma android_stage_Inr:
  "android_stage p b s = (Inr inputs, s') \<Longrightarrow> eb_platform b \<noteq> ''ios'' \<Longrightarrow>
     \<exists>i. inputs = Some i \<and> json_parse (eb_attestation b) = Some (JArr (an_certChainBase64 i))"
  by (auto simp: android_stage_def split: option.splits jsval.splits sum.splits prod.splits)

lemma decode_stage_Inr:
  "decode_stage b = Inr (challenge, k, att) \<longleftrightarrow>
     base64ToBytes (eb_challenge b) = Some challenge \<and> base64ToBytes (eb_publicKey b) = Some k \<and>
     (if eb_platform b = ''ios'' then att = base64ToBytes (eb_attestation b) \<and> att \<noteq> None else att = None)"
  by (auto simp: decode_stage_def bind_eq_Some_conv split: if_splits)

lemma csr_stage_Inr:
  "csr_stage p b k = Inr cr \<longleftrightarrow>
     parseCSRFromPem (rd_csr p) (eb_csr b) = Inr cr \<and> cl_verify (rd_csr p) cr = Inr True \<and> cs_spki cr = k"
  by (auto simp: csr_stage_def verifyCSRSignature_def guardR_def split: sum.splits if_splits)

lemma issue_stage_Inr:
  assumes "issue_stage p b pem cr s = (Inr issued, s')"
  shows "\<exists>leaf. certified p pem b cr issued leaf"
proof -
  from assms obtain creds profile where
    "rd_loadKmsCredentials p = Inr creds"
    "resolveLeafProfile (ep_env p) (leafPlatform b) (assuranceLevelFor (leafPlatform b)) = Inr profile"
    "issueLeafChainFromCSR (ep_env p) (ap_pki (rd_apple p)) (rd_issue p) (ep_now p) (rd_random p) cr
       (issue_opts_of p pem creds (assuranceLevelFor (leafPlatform b)) profile) = Inr issued"
    by (auto simp: issue_stage_def Let_def split: sum.splits prod.splits)
  moreover from issued_chain_wf[OF this(3)] obtain leaf sig where
    "issued_for (ep_env p) (rd_issue p) (ep_now p) cr
       (issue_opts_of p pem creds (assuranceLevelFor (leafPlatform b)) profile) issued leaf sig" by blast
  ultimately show ?thesis unfolding certified_def by blast
qed

lemma burn_stage_Inr:
  "burn_stage p uid b s = (Inr u, s') \<longleftrightarrow>
     (\<exists>d. rd_burn p (eb_challenge b) uid (cs_db s) = (Inr (JStr (eb_keyVersion b)), d) \<and> s' = s\<lparr>cs_db := d\<rparr>)"
  by (auto simp: burn_stage_def split: prod.splits sum.splits if_splits)

lemma persist_stage_Inr:
  "persist_stage p rg s = (Inr r, s') \<longleftrightarrow>
     (\<exists>d. rd_register p rg (cs_db s) = (None, d) \<and> s' = s\<lparr>cs_db := d\<rparr>
        \<and> r = jsonResponse (JObj [(''ok'', JBool True), (''leafChainPEM'', JStr (rg_leaf_cert_pem rg)),
                (''keyId'', JStr (rg_key_id rg))]) 200 None)"
  by (auto simp: persist_stage_def split: prod.splits option.splits)

lemma enroll_Inr:
  assumes "enroll p pem uid body s = (Inr r, s')"
  shows "\<exists>b row leaf. parse_body body = Inr b \<and> registered p pem uid b s s' row leaf \<and>
    r = jsonResponse (JObj [(''ok'', JBool True), (''leafChainPEM'', JStr (rg_leaf_cert_pem row)),
          (''keyId'', JStr (rg_key_id row))]) 200 None"
proof -
  from assms obtain b inputs s1 s2 s3 challenge k att cr pk issued s4 where
    b: "parse_body body = Inr b"
    and a: "android_stage p b s = (Inr inputs, s1)" and rl: "rate_stage p uid s1 = (Inr (), s2)"
    and bu: "burn_stage p uid b s2 = (Inr (), s3)" and de: "decode_stage b = Inr (challenge, k, att)"
    and c: "csr_stage p b k = Inr cr" and at: "attest_stage p b inputs challenge k att = Inr pk"
    and i: "issue_stage p b pem cr s3 = (Inr issued, s4)"
    and w: "persist_stage p (registration_of p uid b k att pk issued) s4 = (Inr r, s')"
    by (auto simp: enroll_def split: prod.splits)
  let ?row = "registration_of p uid b k att pk issued"
  have db: "cs_db s2 = cs_db s" using android_stage_db[OF a] rate_stage_db[OF rl] by simp
  from bu obtain d where d: "rd_burn p (eb_challenge b) uid (cs_db s) = (Inr (JStr (eb_keyVersion b)), d)"
    "cs_db s3 = d" by (auto simp: burn_stage_Inr db)
  have att: "key_attested p b challenge k pk"
    by (rule attest_stage_Inr[OF at]) (use de[unfolded decode_stage_Inr] android_stage_Inr[OF a] in \<open>auto split: if_splits\<close>)
  obtain leaf where leaf: "certified p pem b cr issued leaf" using issue_stage_Inr[OF i] by blast
  have db4: "cs_db s4 = d" using issue_stage_db[OF i] d(2) by simp
  from w have w': "rd_register p ?row d = (None, cs_db s')"
    "r = jsonResponse (JObj [(''ok'', JBool True), (''leafChainPEM'', JStr (rg_leaf_cert_pem ?row)),
          (''keyId'', JStr (rg_key_id ?row))]) 200 None"
    by (auto simp: persist_stage_Inr db4)
  have "registered p pem uid b s s' ?row leaf"
    unfolding registered_def
    using d(1) de[unfolded decode_stage_Inr] c[unfolded csr_stage_Inr] att leaf w'(1) by blast
  with b w'(2) show ?thesis by blast
qed

lemma enroll_refuses: "enroll p pem uid body s = (Inl r, s') \<Longrightarrow> rsp_status r \<noteq> 200"
  by (auto simp: enroll_def bindS_Inl_iff split: prod.splits dest!: stage_refuses)

lemma handleRegister_body:
  assumes "rq_method req = ''POST''" "rsp_status (fst (handleRegister p req s)) = 200"
  obtains user body where
    "getUserFromAuthHeader (ep_auth p) req = Some user"
    "requireAal2IfMfaEnrolled (ep_auth p) user = None" "rq_json req = Some body"
    "handleRegister p req s =
       answer_of (enroll p (null_or (ep_env p ''REALREEL_INTERMEDIATE_CERT_PEM'') '''') (au_id user) body s)"
proof -
  from register_contract.success_authorized[OF assms(2)] assms(1) have "aal_cleared (ep_auth p) req" by simp
  then show ?thesis
    using assms that
    by (auto simp: handleRegister_def handlePreflight_def aal_cleared_def misconfigured_def Let_def
        split: option.splits if_splits)
qed

text \<open>The ledger row of a certificate: its serial, its expiry, and a key id that is the key's hash.\<close>

definition ledger_row_of :: "'d register_deps \<Rightarrow> enroll_body \<Rightarrow> registration \<Rightarrow> leaf_cert \<Rightarrow> bool" where
  "ledger_row_of p b row leaf =
    (parse_digits 0 (rg_cert_serial_number row) = be_nat (lc_serialNumber leaf)
     \<and> rg_expires_at row = iso_string (lc_notAfter leaf)
     \<and> rg_key_id row = bytesToBase64 (ap_sha256 (rd_apple p) (lc_spki leaf))
     \<and> lc_notAfter leaf + 1000 - lc_notBefore leaf = (if eb_platform b = ''ios'' then 180 else 90) * MS_PER_DAY)"

lemma registered_ledger: "registered p pem uid b s s' row leaf \<Longrightarrow> ledger_row_of p b row leaf"
  by (auto simp: registered_def certified_def issued_for_def ledger_row_of_def registration_of_def
      issue_opts_of_def leafValidityDays_def assuranceLevelFor_def leafPlatform_def)

text \<open>C8. A device key is enrolled only for an authenticated caller the MFA gate clears, whose challenge
  was burned for the key version claimed, who proved possession of the key with a certificate
  request, and whose key the platform's attestation covers for that challenge; the certificate
  issued is signed by Cloud KMS for that key with the platform's profile, and the row the database
  registers repeats its serial and expiry, the lifetime being 90 days for Android (assurance level 2)
  and 180 for iOS.\<close>

theorem enrollment_sound:
  assumes "handleRegister p req s = (r, s')" "rsp_status r = 200" "rq_method req = ''POST''"
  shows "\<exists>user body b row leaf.
    getUserFromAuthHeader (ep_auth p) req = Some user
    \<and> requireAal2IfMfaEnrolled (ep_auth p) user = None
    \<and> rq_json req = Some body \<and> parse_body body = Inr b
    \<and> registered p (null_or (ep_env p ''REALREEL_INTERMEDIATE_CERT_PEM'') '''') (au_id user) b s s' row leaf
    \<and> ledger_row_of p b row leaf
    \<and> obj_get (rsp_body r) ''leafChainPEM'' = JStr (rg_leaf_cert_pem row)"
proof -
  from assms have "rsp_status (fst (handleRegister p req s)) = 200" by simp
  with assms(3) obtain user body where u: "getUserFromAuthHeader (ep_auth p) req = Some user"
    "requireAal2IfMfaEnrolled (ep_auth p) user = None" "rq_json req = Some body"
    and h: "handleRegister p req s =
       answer_of (enroll p (null_or (ep_env p ''REALREEL_INTERMEDIATE_CERT_PEM'') '''') (au_id user) body s)"
    by (rule handleRegister_body)
  from h assms(1) have "answer_of (enroll p (null_or (ep_env p ''REALREEL_INTERMEDIATE_CERT_PEM'') '''')
      (au_id user) body s) = (r, s')" by simp
  with assms(2) have "enroll p (null_or (ep_env p ''REALREEL_INTERMEDIATE_CERT_PEM'') '''') (au_id user) body s
      = (Inr r, s')"
    by (auto simp: answer_of_def split: prod.splits sum.splits dest: enroll_refuses)
  from enroll_Inr[OF this] u registered_ledger show ?thesis
    by (fastforce simp: jsonResponse_def)
qed

section \<open>The device label\<close>

lemma units_clamp_label: "units (clamp_label l) = drop_high (take 64 (units l))"
proof -
  have "\<forall>u \<in> set (drop_high (take 64 (units l))). u < 0x10000"
    using units_bound by (auto simp: drop_high_def dest!: in_set_butlastD in_set_takeD)
  then show ?thesis by (simp add: clamp_label_def MAX_DEVICE_LABEL_CHARS_def Let_def units_of_units)
qed

text \<open>A label whose emoji would be cut in half.\<close>

lemma ex_long_label: "surrogates_paired (units (replicate 63 (CHR ''a'') @ utf8_of_code 0x1F600))"
proof -
  have u: "units (replicate k (CHR ''a'') @ s) = replicate k 97 @ units s" for k s
    by (induction k) simp_all
  have p: "surrogates_paired (replicate k 97 @ us) = surrogates_paired us" for k us
    by (induction k) (simp_all add: is_high_def is_low_def)
  have "units (utf8_of_code 0x1F600) = [0xD83D, 0xDE00]"
    using units_utf8_4[of "0x1F600" "[]"] by (simp add: units_of_code_def)
  then show ?thesis unfolding u p by (simp add: is_high_def is_low_def)
qed

text \<open>A device label never blocks an enrollment and never overflows its column: what is persisted is
  the label's first 64 UTF-16 units, less a high surrogate the cut would leave at the end, and a label
  that is well formed stays well formed.\<close>

lemma label_clamped:
  "length (units (clamp_label l)) \<le> 64
   \<and> (units (clamp_label l) = take 64 (units l)
      \<or> (\<exists>u. is_high u \<and> units (clamp_label l) @ [u] = take 64 (units l)))
   \<and> (surrogates_paired (units l) \<longrightarrow> surrogates_paired (units (clamp_label l)))"
proof (intro conjI impI)
  have d: "drop_high us = us \<or> (us \<noteq> [] \<and> is_high (last us) \<and> drop_high us = butlast us)" for us
    by (simp add: drop_high_def)
  show "length (units (clamp_label l)) \<le> 64"
    unfolding units_clamp_label using d[of "take 64 (units l)"] by auto
  show "units (clamp_label l) = take 64 (units l)
      \<or> (\<exists>u. is_high u \<and> units (clamp_label l) @ [u] = take 64 (units l))"
    unfolding units_clamp_label using d[of "take 64 (units l)"] append_butlast_last_id by metis
  show "surrogates_paired (units (clamp_label l))" if "surrogates_paired (units l)"
    unfolding units_clamp_label using paired_take[OF that] .
qed

theorem label_clamped_witness:
  "surrogates_paired (units (clamp_label (replicate 63 (CHR ''a'') @ utf8_of_code 0x1F600)))"
  using label_clamped[of "replicate 63 (CHR ''a'') @ utf8_of_code 0x1F600"]
    ex_long_label by simp

section \<open>What a refusal costs\<close>

text \<open>A refusal that is not the fault of the request, or comes before the challenge is looked at.\<close>

definition early_refusal :: "response \<Rightarrow> bool" where
  "early_refusal r = (r = misconfigured \<or> rsp_status r \<in> {401, 403, 405, 413, 429, 503})"

lemma misconfigured_other:
  "error_response m n = misconfigured \<longleftrightarrow> m = ''Server misconfiguration'' \<and> n = 500"
  by (auto simp: misconfigured_def error_response_def jsonResponse_def)

lemma not_early:
  "burn_stage p uid b s = (Inl r, s') \<Longrightarrow> \<not> early_refusal r"
  "decode_stage b = Inl r \<Longrightarrow> \<not> early_refusal r"
  "csr_stage p b k = Inl r \<Longrightarrow> \<not> early_refusal r"
  "attest_stage p b i c k a = Inl r \<Longrightarrow> \<not> early_refusal r"
  "issue_stage p b pem cr s = (Inl r, s') \<Longrightarrow> \<not> early_refusal r"
  "persist_stage p rg s = (Inl r, s') \<Longrightarrow> \<not> early_refusal r"
proof -
  have "\<not> early_refusal r" if "rsp_status r = 400" for r
    using that by (auto simp: early_refusal_def misconfigured_def)
  then show "decode_stage b = Inl r \<Longrightarrow> \<not> early_refusal r" "csr_stage p b k = Inl r \<Longrightarrow> \<not> early_refusal r"
    "attest_stage p b i c k a = Inl r \<Longrightarrow> \<not> early_refusal r"
    by (simp_all add: decode_stage_refuses csr_stage_refuses attest_stage_refuses)
  show "burn_stage p uid b s = (Inl r, s') \<Longrightarrow> \<not> early_refusal r"
    by (auto simp: burn_stage_def early_refusal_def misconfigured_other
        split: prod.splits sum.splits if_splits)
  show "issue_stage p b pem cr s = (Inl r, s') \<Longrightarrow> \<not> early_refusal r"
    by (auto simp: issue_stage_def Let_def early_refusal_def misconfigured_other
        split: prod.splits sum.splits)
  show "persist_stage p rg s = (Inl r, s') \<Longrightarrow> \<not> early_refusal r"
    by (auto simp: persist_stage_def early_refusal_def misconfigured_other
        split: prod.splits option.splits if_splits)
qed

lemma enroll_early:
  assumes "enroll p pem uid body s = (Inl r, s')" "early_refusal r"
  shows "cs_db s' = cs_db s \<and> (rsp_status r \<noteq> 429 \<longrightarrow> cs_kv s' = cs_kv s)"
proof -
  consider "s' = s"
    | b s1 where "android_stage p b s = (Inl r, s')"
    | b s1 i where "android_stage p b s = (Inr i, s1)" "rate_stage p uid s1 = (Inl r, s')"
    using assms by (auto simp: enroll_def bindS_Inl_iff split: prod.splits dest: not_early)
  then show ?thesis
  proof cases
    case (3 b s1 i)
    then show ?thesis using android_stage_db[OF 3(1)] rate_stage_db[OF 3(2)] rate_stage_refuses[OF 3(2)] by simp
  qed (auto dest: android_stage_db)
qed

lemma handleRegister_early:
  assumes "handleRegister p req s = (r, s')" "early_refusal r"
  shows "cs_db s' = cs_db s \<and> (rsp_status r \<noteq> 429 \<longrightarrow> cs_kv s' = cs_kv s)"
proof (cases "s' = s")
  case False
  with assms(1) obtain pem body and user :: auth_user where
    ans: "answer_of (enroll p pem (au_id user) body s) = (r, s')"
    by (auto simp: handleRegister_def Let_def split: option.splits if_splits)
  have "enroll p pem (au_id user) body s \<noteq> (Inr r, s')"
    using enroll_Inr[of p pem "au_id user" body s r s'] assms(2)
    by (auto simp: early_refusal_def misconfigured_def error_response_def jsonResponse_def)
  with ans have "enroll p pem (au_id user) body s = (Inl r, s')"
    by (auto simp: answer_of_def split: prod.splits sum.splits)
  from enroll_early[OF this assms(2)] show ?thesis .
qed simp

text \<open>C22. An enrollment turned away for a missing session, a rate limit, an oversized request, a
  misconfigured server or an unreachable revocation list costs the caller no challenge and registers
  nothing; and unless the rate limit itself refused, it costs no slot of the rate limit either.\<close>

theorem outage_costs_nothing:
  assumes "handleRegister p req s = (r, s')"
    and "r = misconfigured \<or> rsp_status r \<in> {401, 403, 405, 413, 429, 503}"
  shows "cs_db s' = cs_db s \<and> (rsp_status r \<noteq> 429 \<longrightarrow> cs_kv s' = cs_kv s)"
  using handleRegister_early[OF assms(1)] assms(2) by (simp add: early_refusal_def)

section \<open>Strangers\<close>

text \<open>C9. Requests without a session of an existing user, of any method and in any number, leave the
  state of every edge function of the CA as it was: no key is enrolled or revoked, no challenge is
  issued, minted or burned, and no rate-limit slot is taken.\<close>

theorem strangers_leave_ca_alone:
  assumes "\<forall>r \<in> set reqs. rq_method r \<noteq> ''POST'' \<or> getUserFromAuthHeader lib r = None"
    and "ep_auth p = lib" "ep_auth q = lib"
  shows "serve_all (handleRegister p) reqs s = s \<and> serve_all (handleRevoke q) reqs t = t
    \<and> serve_all (handleMintChallenges q) reqs t = t \<and> serve_all (handleGetChallenge q) reqs t = t"
proof -
  have "\<forall>r \<in> set reqs. rq_method r \<noteq> ''POST'' \<or> \<not> aal_cleared lib r"
    "\<forall>r \<in> set reqs. rq_method r \<noteq> ''POST'' \<or> \<not> signed_in lib r"
    using assms(1) by (auto simp: aal_cleared_def signed_in_def)
  then show ?thesis
    using register_contract.strangers_change_nothing[of reqs p s]
      revoke_contract.strangers_change_nothing[of reqs q t]
      mint_contract.strangers_change_nothing[of reqs q t]
      challenge_contract.strangers_change_nothing[of reqs q t] assms(2,3) by simp
qed

end
