(* ===== verification/EnrollmentExample.thy ===== *)
theory EnrollmentExample
  imports Enrollment
begin

text \<open>
  A concrete iOS enrollment that succeeds, evaluated by the kernel: small stand-ins for the
  libraries, a platform and a request.  It shows that the hypotheses of the enrollment theorems can
  hold.
\<close>

definition en_cert :: cert where
  "en_cert = \<lparr>ct_subject = ''ICA'', ct_issuer = ''Root'', ct_serial = [7],
     ct_extensions =
       [\<lparr>x_oid = OID_subjectKeyIdentifier, x_critical = False, x_value = Some [4, 1, 9]\<rparr>,
        \<lparr>x_oid = OID_APPLE_APPATTEST_NONCE, x_critical = False, x_value = Some (0x30 # replicate 32 119)\<rparr>],
     ct_spki = [1, 1], ct_public_key = [1]\<rparr>"

definition en_pki :: pki_lib where
  "en_pki = \<lparr>pl_fromBER = (\<lambda>bs. case bs of
       t # rest \<Rightarrow> Some (if t = 0x30 then seq_node [tagged_node 1 (octets_node rest)]
                         else octets_node (drop 1 rest)) | [] \<Rightarrow> None),
     pl_parseCert = (\<lambda>der. if der = [] then Inl ''empty'' else Inr en_cert),
     pl_dn_equal = (=), pl_chain_engine = (\<lambda>cs roots t. Inr ())\<rparr>"

text \<open>A hash that depends on the length only.\<close>

definition en_sha :: "bytes \<Rightarrow> bytes" where
  "en_sha bs = replicate 32 (of_nat (length bs))"

definition en_auth_data :: bytes where
  "en_auth_data = replicate 32 27 @ [0x40] @ [0, 0, 0, 0] @ AAGUID_PRODUCTION @ [0, 32] @ replicate 32 1"

definition en_apple :: apple_lib where
  "en_apple = \<lparr>ap_pki = en_pki,
     ap_cbor = (\<lambda>bs. Inr (C_map [(''fmt'', C_text ''apple-appattest''), (''authData'', C_bytes en_auth_data),
        (''attStmt'', C_map [(''x5c'', C_array [C_bytes [1], C_bytes [2]])])])),
     ap_sha256 = en_sha, ap_to_bytes = (\<lambda>v. Inl ''TypeError'')\<rparr>"

definition en_ica_pem :: string where
  "en_ica_pem = CERT_BEGIN @ ''AQID'' @ CERT_END"

definition en_env :: env where
  "en_env = [''REALREEL_INTERMEDIATE_CERT_PEM'' \<mapsto> en_ica_pem,
     ''LEAF_CPL_RECORD_UUID_IOS'' \<mapsto> ''0123abcd-0123-4567-89AB-0123456789ab'']"

definition en_creds :: kms_credentials where
  "en_creds = \<lparr>kc_resource = ''r'', kc_saClientEmail = JStr ''sa'', kc_saPrivateKey = [],
     kc_saPrivateKeyId = JUndef\<rparr>"

definition en_issue :: issue_lib where
  "en_issue = \<lparr>il_encodeTBS = lc_serialNumber, il_encodeCert = (\<lambda>leaf sig. lc_serialNumber leaf @ sig),
     il_sha1 = en_sha, il_sha384 = en_sha\<rparr>"

definition en_deps :: "registration list register_deps" where
  "en_deps = \<lparr>ep_env = en_env, ep_now = 1700000000123,
     ep_auth = \<lparr>sa_getUser = (\<lambda>jwt. if jwt = ''tok'' then Some (''u1'', None) else None),
                sa_hasVerifiedMfa = (\<lambda>jwt. Inr (JBool False))\<rparr>,
     ep_kvAvailable = True, ep_interfere = (\<lambda>n kv. kv), ep_updateError = None,
     ep_issueChallenge = (\<lambda>uid kv d. (Inr JNull, d)), ep_mintChallenges = (\<lambda>k uid n d. (Inr (JArr []), d)),
     rd_apple = en_apple, rd_appleRoot = en_cert, rd_googleRoots = [],
     rd_pins = \<lparr>dp_appleBundleId = ''com.realreel.app'', dp_androidPackageName = ''com.realreel.app'',
                dp_requireProductionAppAttest = True\<rparr>,
     rd_csr = \<lparr>cl_parse = (\<lambda>der. Some \<lparr>cs_spki = [2, 2], cs_public_key = [2]\<rparr>), cl_verify = (\<lambda>c. Inr True)\<rparr>,
     rd_issue = en_issue, rd_random = [5], rd_listFetch = Http_status 500,
     rd_loadKmsCredentials = Inr en_creds,
     rd_kmsGetPublicKey = (\<lambda>c. Inr \<lparr>kp_spki = [1, 1], kp_algorithm = JStr KMS_EXPECTED_ALGORITHM\<rparr>),
     rd_kmsSignDigest = (\<lambda>d c h. Inr [0x30]),
     rd_burn = (\<lambda>ch uid d. (Inr (JStr ''4''), d)), rd_register = (\<lambda>row d. (None, row # d))\<rparr>"

definition en_request :: request where
  "en_request = \<lparr>rq_method = ''POST'', rq_authorization = Some ''Bearer tok'', rq_content_length = None,
     rq_json = Some (JObj [(''publicKey'', JStr ''AgI=''), (''platform'', JStr ''ios''),
       (''attestation'', JStr ''AAAA''), (''keyId'', JStr ''AQEBAQEBAQEBAQEBAQEBAQEBAQEBAQEBAQEBAQEBAQE=''),
       (''keyVersion'', JStr ''4''), (''challenge'', JStr ''AAAA''),
       (''csr'', JStr (CSR_BEGIN @ ''AAAA''))])\<rparr>"

definition en_state :: "registration list enroll_state" where
  "en_state = \<lparr>cs_kv = \<lparr>kv_entries = (\<lambda>_. None), kv_next = 0\<rparr>, cs_keys = [], cs_db = [],
     es_list = loader_start, es_kmsChecked = False\<rparr>"

lemma en_succeeds: "rsp_status (fst (handleRegister en_deps en_request en_state)) = 200"
  by code_simp

theorem enrollment_sound_witness:
  "\<exists>b row leaf. registered en_deps en_ica_pem ''u1'' b en_state
       (snd (handleRegister en_deps en_request en_state)) row leaf
     \<and> ledger_row_of en_deps b row leaf"
proof -
  have "handleRegister en_deps en_request en_state =
    (fst (handleRegister en_deps en_request en_state), snd (handleRegister en_deps en_request en_state))"
    by simp
  moreover have "rq_method en_request = ''POST''" by (simp add: en_request_def)
  ultimately obtain user body b row leaf where
    u: "getUserFromAuthHeader (ep_auth en_deps) en_request = Some user" and
    r: "registered en_deps (null_or (ep_env en_deps ''REALREEL_INTERMEDIATE_CERT_PEM'') '''') (au_id user) b
          en_state (snd (handleRegister en_deps en_request en_state)) row leaf"
       "ledger_row_of en_deps b row leaf"
    using enrollment_sound[OF _ en_succeeds] by metis
  have "map_option au_id (getUserFromAuthHeader (ep_auth en_deps) en_request) = Some ''u1''"
    by code_simp
  with u have "au_id user = ''u1''" by simp
  moreover have "null_or (ep_env en_deps ''REALREEL_INTERMEDIATE_CERT_PEM'') '''' = en_ica_pem"
    by (simp add: en_deps_def en_env_def)
  ultimately have "registered en_deps en_ica_pem ''u1'' b en_state
      (snd (handleRegister en_deps en_request en_state)) row leaf" using r(1) by simp
  with r(2) show ?thesis by blast
qed

text \<open>An Android enrollment while Google's list cannot be fetched: 503, and nothing spent.\<close>

definition en_android_deps :: "registration list register_deps" where
  "en_android_deps = en_deps\<lparr>ep_env := en_env(''ANDROID_APP_SIGNING_CERT_SHA256'' \<mapsto> replicate 64 (CHR ''a''))\<rparr>"

definition en_android_request :: request where
  "en_android_request = en_request\<lparr>rq_json := Some (JObj [(''publicKey'', JStr ''AgI=''),
     (''platform'', JStr ''android-tee''), (''attestation'', JStr ''[]''), (''keyId'', JStr ''k''),
     (''keyVersion'', JStr ''4''), (''challenge'', JStr ''AAAA''), (''csr'', JStr CSR_BEGIN)])\<rparr>"

lemma en_unavailable: "fst (handleRegister en_android_deps en_android_request en_state) = unavailable"
  by code_simp

theorem outage_costs_nothing_witness:
  "cs_kv (snd (handleRegister en_android_deps en_android_request en_state)) = cs_kv en_state"
  using outage_costs_nothing[OF prod.collapse[symmetric, of "handleRegister en_android_deps en_android_request en_state"]]
  by (simp add: en_unavailable unavailable_def)

theorem strangers_leave_ca_alone_witness:
  "serve_all (handleRegister en_deps) [en_request\<lparr>rq_authorization := None\<rparr>] en_state = en_state"
proof -
  have "getUserFromAuthHeader (ep_auth en_deps) (en_request\<lparr>rq_authorization := None\<rparr>) = None"
    by (simp add: getUserFromAuthHeader_def userScopedClient_def)
  then show ?thesis
    using strangers_leave_ca_alone[of "[en_request\<lparr>rq_authorization := None\<rparr>]" "ep_auth en_deps" en_deps ex_edge]
    by (simp add: en_deps_def ex_edge_def)
qed

end
