(* ===== verification/JsonRoundTrip.thy ===== *)
theory JsonRoundTrip
  imports JsonParse
begin

text \<open>
  \<open>JSON.parse\<close> reads back what \<open>JSON.stringify\<close> writes, for every value built of strings, booleans,
  nulls, arrays and objects: the escapes of a string are undone, separators are found where they
  were put, and the bound on the recursion is enough for the whole text.
\<close>

section \<open>Strings\<close>

declare hex_digit.simps [simp del]

lemma hex_digit_radix: "d < 16 \<Longrightarrow> radix_val (hex_digit d) = d"
  by (simp add: radix_val_def hex_digit.simps is_digit_def)

lemma radix_zero [simp]: "radix_val (CHR ''0'') = 0"
  by code_simp

lemma hex4_byte:
  "d < 16 \<Longrightarrow> e < 16 \<Longrightarrow>
     hex4 (CHR ''0'' # CHR ''0'' # hex_digit d # hex_digit e # t) = Some (d * 16 + e, t)"
  by (simp add: hex4_def hex_digit_radix eval_nat_numeral)

lemma control_escape:
  assumes "b < 32"
  shows "unicode_escape (CHR ''0'' # CHR ''0'' # hex_digit (b div 16) # hex_digit (b mod 16) # t)
    = Some ([char_of b], t)"
proof -
  have "b div 16 < 16" using assms by (simp add: less_mult_imp_div_less)
  from hex4_byte[OF this, of "b mod 16" t]
  have "hex4 (CHR ''0'' # CHR ''0'' # hex_digit (b div 16) # hex_digit (b mod 16) # t) = Some (b, t)" by simp
  with assms show ?thesis unfolding unicode_escape_def by (simp add: utf8_of_code_def)
qed

lemma escaped_chars:
  "(of_char c :: nat) = 34 \<longleftrightarrow> c = CHR 0x22" "(of_char c :: nat) = 92 \<longleftrightarrow> c = CHR 0x5C"
  "(of_char c :: nat) = 8 \<longleftrightarrow> c = CHR 0x08" "(of_char c :: nat) = 9 \<longleftrightarrow> c = CHR 0x09"
  "(of_char c :: nat) = 10 \<longleftrightarrow> c = CHR 0x0A" "(of_char c :: nat) = 12 \<longleftrightarrow> c = CHR 0x0C"
  "(of_char c :: nat) = 13 \<longleftrightarrow> c = CHR 0x0D"
  using of_char_eq_iff[of c "CHR 0x22", where ?'a = nat] of_char_eq_iff[of c "CHR 0x5C", where ?'a = nat]
    of_char_eq_iff[of c "CHR 0x08", where ?'a = nat] of_char_eq_iff[of c "CHR 0x09", where ?'a = nat]
    of_char_eq_iff[of c "CHR 0x0A", where ?'a = nat] of_char_eq_iff[of c "CHR 0x0C", where ?'a = nat]
    of_char_eq_iff[of c "CHR 0x0D", where ?'a = nat]
  by simp_all

text \<open>An escape costs one step of the bound and reads back as its character.\<close>

lemma parse_escape:
  "parse_string_body (Suc n) (json_escape c @ s)
     = map_option (\<lambda>(t, z). (c # t, z)) (parse_string_body n s)"
proof -
  let ?b = "of_char c :: nat"
  consider (simple) "?b \<in> {34, 92, 8, 9, 10, 12, 13}"
    | (control) "?b \<notin> {34, 92, 8, 9, 10, 12, 13}" "?b < 32"
    | (plain) "?b \<notin> {34, 92, 8, 9, 10, 12, 13}" "32 \<le> ?b" by fastforce
  then show ?thesis
  proof cases
    case simple
    then have "c \<in> {CHR 0x22, CHR 0x5C, CHR 0x08, CHR 0x09, CHR 0x0A, CHR 0x0C, CHR 0x0D}"
      by (auto simp: escaped_chars)
    then show ?thesis
      by (elim insertE; simp add: json_escape_def simple_escape_def split: option.splits)
  next
    case control
    then show ?thesis
      by (simp add: json_escape_def Let_def control_escape split: option.splits)
  next
    case plain
    then have "c \<noteq> CHR 0x22" "c \<noteq> CHR 0x5C" by auto
    with plain show ?thesis by (simp add: json_escape_def Let_def)
  qed
qed

lemma parse_string_escapes:
  "length s < n \<Longrightarrow> parse_string_body n (concat (map json_escape s) @ CHR 0x22 # r) = Some (s, r)"
proof (induction s arbitrary: n)
  case Nil
  then show ?case by (cases n) auto
next
  case (Cons c s)
  then obtain m where n: "n = Suc m" by (cases n) auto
  with Cons have "parse_string_body m (concat (map json_escape s) @ CHR 0x22 # r) = Some (s, r)" by simp
  then show ?case unfolding n by (simp add: parse_escape del: parse_string_body.simps)
qed

lemma length_escapes: "length s \<le> length (concat (map json_escape s))"
proof (induction s)
  case (Cons c s)
  have "1 \<le> length (json_escape c)" by (simp add: json_escape_def Let_def)
  with Cons show ?case by simp
qed simp

lemma parse_quoted [simp]: "parse_string (concat (map json_escape s) @ CHR 0x22 # r) = Some (s, r)"
  using length_escapes[of s] unfolding parse_string_def
  by (intro parse_string_escapes) (simp add: less_Suc_eq_le trans_le_add1)

section \<open>Values\<close>

text \<open>The values without numbers: their texts need no arithmetic to read back.\<close>

fun json_plain :: "jsval \<Rightarrow> bool" where
  "json_plain JUndef = False"
| "json_plain JNull = True"
| "json_plain (JBool b) = True"
| "json_plain (JNum n) = False"
| "json_plain (JStr s) = True"
| "json_plain (JArr vs) = (\<forall>v \<in> set vs. json_plain v)"
| "json_plain (JObj kvs) = (distinct (map fst kvs) \<and> (\<forall>(k, v) \<in> set kvs. json_plain v))"

lemma no_ws [simp]:
  "\<not> is_json_ws (CHR 0x22)" "\<not> is_json_ws (CHR ''['')" "\<not> is_json_ws (CHR ''{'')" "\<not> is_json_ws (CHR ''t'')"
  "\<not> is_json_ws (CHR ''f'')" "\<not> is_json_ws (CHR ''n'')" "\<not> is_json_ws (CHR '','')" "\<not> is_json_ws (CHR '':'')"
  "\<not> is_json_ws (CHR '']'')" "\<not> is_json_ws (CHR ''}'')"
  by (simp_all add: is_json_ws_def)

lemma skip_ws_Cons [simp]: "\<not> is_json_ws c \<Longrightarrow> skip_ws (c # s) = c # s"
  by (simp add: skip_ws_def)

lemma stringify_head:
  "json_plain v \<Longrightarrow> \<exists>c t. json_stringify v = c # t \<and> \<not> is_json_ws c \<and> c \<noteq> CHR '']''"
  by (cases v) (auto simp: json_quote_def)

text \<open>What every value satisfies: a bound of its length is enough to read it back.\<close>

definition reads_back :: "jsval \<Rightarrow> bool" where
  "reads_back v = (\<forall>n r. length (json_stringify v) \<le> n \<longrightarrow> parse_value n (json_stringify v @ r) = Some (v, r))"

lemma reads_backD: "reads_back v \<Longrightarrow> length (json_stringify v) \<le> n \<Longrightarrow> parse_value n (json_stringify v @ r) = Some (v, r)"
  by (simp add: reads_back_def)

lemma parse_elems_ok:
  assumes "vs \<noteq> []" "\<forall>v \<in> set vs. reads_back v" "length (join_with '','' (map json_stringify vs)) < n"
  shows "parse_elems n acc (join_with '','' (map json_stringify vs) @ CHR '']'' # r) = Some (JArr (acc @ vs), r)"
  using assms
proof (induction vs arbitrary: n acc)
  case (Cons v vs)
  then obtain m where n: "n = Suc m" by (cases n) auto
  show ?case
  proof (cases "vs = []")
    case True
    with Cons.prems n show ?thesis by (simp add: reads_backD)
  next
    case False
    then have j: "join_with '','' (map json_stringify (v # vs))
        = json_stringify v @ CHR '','' # join_with '','' (map json_stringify vs)"
      by (cases vs) auto
    have "parse_elems m (acc @ [v]) (join_with '','' (map json_stringify vs) @ CHR '']'' # r)
        = Some (JArr ((acc @ [v]) @ vs), r)"
      by (rule Cons.IH) (use Cons.prems False n j in auto)
    moreover have "reads_back v" "length (json_stringify v) \<le> m" using Cons.prems j n by auto
    ultimately show ?thesis unfolding j n by (simp add: reads_backD)
  qed
qed simp

definition member_text :: "string \<times> jsval \<Rightarrow> string" where
  "member_text m = json_quote (fst m) @ CHR '':'' # json_stringify (snd m)"

lemma put_member_new: "k \<notin> fst ` set kvs \<Longrightarrow> put_member k v kvs = kvs @ [(k, v)]"
  by (induction kvs) auto

lemma parse_members_ok:
  assumes "kvs \<noteq> []" "\<forall>m \<in> set kvs. reads_back (snd m)" "length (join_with '','' (map member_text kvs)) < n"
    and "distinct (map fst (acc @ kvs))"
  shows "parse_members n acc (join_with '','' (map member_text kvs) @ CHR ''}'' # r) = Some (JObj (acc @ kvs), r)"
  using assms
proof (induction kvs arbitrary: n acc)
  case (Cons m kvs)
  then obtain n' where n: "n = Suc n'" by (cases n) auto
  obtain k v where m: "m = (k, v)" by fastforce
  from Cons.prems m have new: "put_member k v acc = acc @ [(k, v)]" by (auto intro: put_member_new)
  show ?case
  proof (cases "kvs = []")
    case True
    with Cons.prems n m new show ?thesis by (simp add: reads_backD member_text_def json_quote_def)
  next
    case False
    then have j: "join_with '','' (map member_text (m # kvs))
        = member_text m @ CHR '','' # join_with '','' (map member_text kvs)"
      by (cases kvs) auto
    have "parse_members n' (acc @ [m]) (join_with '','' (map member_text kvs) @ CHR ''}'' # r)
        = Some (JObj ((acc @ [m]) @ kvs), r)"
      by (rule Cons.IH) (use Cons.prems False n j in auto)
    moreover from Cons.prems(3) j have "length (member_text m) < n" by simp
    then have "length (json_stringify v) \<le> n'" unfolding m n by (simp add: member_text_def)
    moreover have "reads_back v" using Cons.prems(2) m by simp
    ultimately show ?thesis
      unfolding j n using new m by (simp add: reads_backD member_text_def json_quote_def)
  qed
qed simp

lemma stringify_members:
  "\<forall>(k, v) \<in> set kvs. v \<noteq> JUndef \<Longrightarrow>
     json_stringify (JObj kvs) = CHR ''{'' # join_with '','' (map member_text kvs) @ ''}''"
proof -
  assume "\<forall>(k, v) \<in> set kvs. v \<noteq> JUndef"
  then have "concat (map (\<lambda>(k, v). if v = JUndef then [] else [json_quote k @ '':'' @ json_stringify v]) kvs)
      = map member_text kvs"
    by (induction kvs) (auto simp: member_text_def)
  then show ?thesis by simp
qed

lemma plain_reads_back: "json_plain v \<Longrightarrow> reads_back v"
proof (induction v)
  case (JArr vs)
  show ?case
    unfolding reads_back_def
  proof (intro allI impI)
    fix n r
    assume n: "length (json_stringify (JArr vs)) \<le> n"
    then obtain m where m: "n = Suc m" by (cases n) auto
    show "parse_value n (json_stringify (JArr vs) @ r) = Some (JArr vs, r)"
    proof (cases vs)
      case Nil
      with m show ?thesis by simp
    next
      case (Cons v ws)
      obtain c t where head: "json_stringify v = c # t" "\<not> is_json_ws c" "c \<noteq> CHR '']''"
        using stringify_head[of v] JArr.prems Cons by auto
      have "join_with '','' (map json_stringify vs) @ CHR '']'' # r
          = c # (t @ (if ws = [] then [] else CHR '','' # join_with '','' (map json_stringify ws)) @ CHR '']'' # r)"
        using Cons head(1) by (cases ws) auto
      with head have "\<not> starts_with '']'' (skip_ws (join_with '','' (map json_stringify vs) @ CHR '']'' # r))"
        by simp
      moreover have "parse_elems m [] (join_with '','' (map json_stringify vs) @ CHR '']'' # r) = Some (JArr ([] @ vs), r)"
        by (rule parse_elems_ok) (use JArr Cons n m in auto)
      ultimately show ?thesis using m by simp
    qed
  qed
next
  case (JObj kvs)
  then have "\<forall>(k, v) \<in> set kvs. v \<noteq> JUndef" by fastforce
  note written = stringify_members[OF this]
  have members: "\<forall>p \<in> set kvs. reads_back (snd p)"
    using JObj by fastforce
  show ?case
    unfolding reads_back_def
  proof (intro allI impI)
    fix n r
    assume n: "length (json_stringify (JObj kvs)) \<le> n"
    then obtain m where m: "n = Suc m" by (cases n) auto
    show "parse_value n (json_stringify (JObj kvs) @ r) = Some (JObj kvs, r)"
    proof (cases kvs)
      case Nil
      with m show ?thesis by simp
    next
      case (Cons p ps)
      have "\<exists>t. join_with '','' (map member_text kvs) @ CHR ''}'' # r = CHR 0x22 # t"
        using Cons by (cases ps) (auto simp: member_text_def json_quote_def)
      then have "\<not> starts_with ''}'' (skip_ws (join_with '','' (map member_text kvs) @ CHR ''}'' # r))"
        by auto
      moreover have "parse_members m [] (join_with '','' (map member_text kvs) @ CHR ''}'' # r)
          = Some (JObj ([] @ kvs), r)"
        by (rule parse_members_ok) (use members JObj.prems Cons n m written in auto)
      ultimately show ?thesis unfolding written using m by simp
    qed
  qed
qed (auto simp: reads_back_def json_quote_def dest: Suc_le_D)

lemma json_parse_stringify: "json_plain v \<Longrightarrow> json_parse (json_stringify v) = Some v"
  using plain_reads_back[of v] reads_backD[of v "Suc (2 * length (json_stringify v))" "[]"]
  by (simp add: json_parse_def skip_ws_def del: parse_value.simps)

end
