(* ===== verification/OcspRefresh.thy ===== *)
theory OcspRefresh
  imports Ocsp JsonRoundTrip
begin

text \<open>
  The daily refresh of the pre-signed status of the intermediate: \<open>ocsp/refresh-ops.ts\<close> (which status
  to publish, how it persists, when the publication is visible) and \<open>ocsp/build-ocsp-responses.ts\<close>
  (building, signing and checking the responses).  The network, the files, the date parser, the DER
  codecs and the signature algorithms are parameters.
\<close>

section \<open>The status to publish\<close>

record status_record =
  sr_status :: string
  sr_revocationTime :: string
  sr_revocationReason :: string

record resolved_status =
  rv_record :: status_record
  rv_explicit :: bool

text \<open>The characters of an ISO-8601 timestamp, as the code lists them.\<close>

definition is_iso_char :: "char \<Rightarrow> bool" where
  "is_iso_char c = (is_alnum c \<or> c \<in> {CHR '':'', CHR ''.'', CHR ''+'', CHR ''-''})"

definition checkStatusRecord :: "status_record \<Rightarrow> string + status_record" where
  "checkStatusRecord r =
    (if sr_status r \<noteq> ''good'' \<and> sr_status r \<noteq> ''revoked''
     then Inl (''unexpected status '' @ [CHR 0x27] @ sr_status r @ [CHR 0x27] @ '' (want good|revoked)'')
     else if \<not> list_all is_iso_char (sr_revocationTime r)
     then Inl ''revocationTime contains characters outside an ISO-8601 timestamp''
     else if \<not> list_all is_digit (sr_revocationReason r)
     then Inl ''revocationReason must be empty or an integer''
     else if sr_status r = ''revoked'' \<and> sr_revocationTime r = []
     then Inl ''status=revoked requires a revocation time (dispatch input or persisted ica-status)''
     else Inr r)"

text \<open>What the store answers: the code and the text of the response.\<close>

type_synonym kv_read = "string + nat \<times> string"

definition str_or_empty :: "jsval \<Rightarrow> string" where
  "str_or_empty v = (case v of JStr s \<Rightarrow> s | _ \<Rightarrow> [])"

definition persisted_record :: "jsval \<Rightarrow> status_record" where
  "persisted_record parsed =
    (let s = str_or_empty (obj_get parsed ''status'') in
     \<lparr>sr_status = (if s = [] then ''good'' else s),
      sr_revocationTime = str_or_empty (obj_get parsed ''revocationTime''),
      sr_revocationReason = str_or_empty (obj_get parsed ''revocationReason'')\<rparr>)"

definition resolveStatus :: "string \<Rightarrow> string \<Rightarrow> string \<Rightarrow> kv_read \<Rightarrow> string + resolved_status" where
  "resolveStatus inputStatus inputTime inputReason readPersisted =
    (if inputStatus \<noteq> [] \<and> inputStatus \<noteq> ''inherit''
     then bindR (checkStatusRecord
            \<lparr>sr_status = inputStatus, sr_revocationTime = inputTime, sr_revocationReason = inputReason\<rparr>)
            (\<lambda>r. Inr \<lparr>rv_record = r, rv_explicit = True\<rparr>)
     else
       bindR readPersisted (\<lambda>(code, body).
       if code = 404
       then Inr \<lparr>rv_record = \<lparr>sr_status = ''good'', sr_revocationTime = [], sr_revocationReason = []\<rparr>,
                 rv_explicit = False\<rparr>
       else if code \<noteq> 200
       then Inl (''reading persisted ica-status from KV failed (HTTP '' @ show_nat code @ '')'')
       else
         (case json_parse body of
            None \<Rightarrow> Inl ''persisted ica-status is not valid JSON''
          | Some parsed \<Rightarrow>
              if is_nullish parsed then Inl ''TypeError''
              else bindR (checkStatusRecord (persisted_record parsed))
                     (\<lambda>r. Inr \<lparr>rv_record = r, rv_explicit = False\<rparr>))))"

text \<open>\<open>JSON.stringify(record)\<close>.\<close>

definition record_json :: "status_record \<Rightarrow> jsval" where
  "record_json r =
    JObj [(''status'', JStr (sr_status r)), (''revocationTime'', JStr (sr_revocationTime r)),
          (''revocationReason'', JStr (sr_revocationReason r))]"

text \<open>The first match of \<open>binding = "OCSP_RESPONSES", id = "<32 lower-case hex digits>"\<close>.\<close>

definition is_lower_hex :: "char \<Rightarrow> bool" where
  "is_lower_hex c = (is_digit c \<or> c \<in> set ''abcdef'')"

definition namespace_prefix :: string where
  \<open>namespace_prefix = ''binding = "OCSP_RESPONSES", id = "''\<close>

definition namespace_match :: "string \<Rightarrow> string option" where
  "namespace_match s =
    (if \<not> starts_with namespace_prefix s then None
     else let r = drop (length namespace_prefix) s; h = take 32 r in
       if length h = 32 \<and> list_all is_lower_hex h \<and> starts_with [CHR 0x22] (drop 32 r) then Some h else None)"

fun namespaceIdFromWranglerToml :: "string \<Rightarrow> string option" where
  "namespaceIdFromWranglerToml [] = None"
| "namespaceIdFromWranglerToml (c # s) =
     (case namespace_match (c # s) of Some h \<Rightarrow> Some h | None \<Rightarrow> namespaceIdFromWranglerToml s)"

section \<open>The live check\<close>

datatype live_call = Live_post string bytes | Live_get string

text \<open>The bytes of a well-formed answer; an error is a failing request.\<close>

definition fetchOcspBytes :: "string + upstream \<Rightarrow> string + bytes option" where
  "fetchOcspBytes answer =
    bindR answer (\<lambda>res.
    Inr (if up_status res \<noteq> 200 then None
         else if \<not> starts_with OCSP_CONTENT_TYPE (null_or (up_contentType res) '''') then None
         else Some (up_body res)))"

text \<open>One attempt: both transports, in this order, serve the expected bytes.\<close>

definition live_attempt :: "(live_call \<Rightarrow> string + upstream) \<Rightarrow> string \<Rightarrow> bytes \<Rightarrow> bytes \<Rightarrow> bool" where
  "live_attempt fetch url requestDer expected =
    (case bindR (fetchOcspBytes (fetch (Live_post url requestDer))) (\<lambda>viaPost.
          bindR (fetchOcspBytes (fetch (Live_get (url @ ''/'' @ encodeURIComponent (bytesToBase64 requestDer)))))
            (\<lambda>viaGet. Inr (viaPost = Some expected \<and> viaGet = Some expected))) of
       Inr ok \<Rightarrow> ok
     | Inl e \<Rightarrow> False)"

text \<open>The attempt that succeeds, and the pauses taken; the network answers each attempt anew.\<close>

function live_from ::
  "(nat \<Rightarrow> live_call \<Rightarrow> string + upstream) \<Rightarrow> string \<Rightarrow> bytes \<Rightarrow> bytes \<Rightarrow> nat \<Rightarrow> nat
     \<Rightarrow> (string + nat) \<times> nat list"
where
  "live_from fetch url requestDer expected attempts attempt =
    (if attempt > attempts then (Inl ''live endpoint never served the freshly published response'', [])
     else if live_attempt (fetch attempt) url requestDer expected then (Inr attempt, [])
     else let (r, pauses) = live_from fetch url requestDer expected attempts (Suc attempt) in
       (r, if attempt < attempts then 30000 # pauses else pauses))"
  by pat_completeness auto
termination
  by (relation "measure (\<lambda>(_, _, _, _, attempts, attempt). Suc attempts - attempt)") auto

declare live_from.simps [simp del]

definition verifyLive ::
  "(nat \<Rightarrow> live_call \<Rightarrow> string + upstream) \<Rightarrow> string \<Rightarrow> bytes \<Rightarrow> bytes \<Rightarrow> nat \<Rightarrow> (string + nat) \<times> nat list"
where
  "verifyLive fetch url requestDer expected attempts = live_from fetch url requestDer expected attempts 1"

section \<open>The commands of the workflow\<close>

record kv_config =
  kc_token :: string
  kc_accountId :: string
  kc_namespaceId :: string

definition kvStatusUrl :: "kv_config \<Rightarrow> string" where
  "kvStatusUrl cfg =
    ''https://api.cloudflare.com/client/v4/accounts/'' @ kc_accountId cfg
    @ ''/storage/kv/namespaces/'' @ kc_namespaceId cfg @ ''/values/ica-status''"

text \<open>What a command reads and calls: the environment, the files, the store (by address and token) and
  the live endpoint.\<close>

record refresh_world =
  rw_env :: env
  rw_wranglerToml :: "string + string"
  rw_rootPem :: "string + string"
  rw_icaPem :: "string + string"
  rw_builtResponse :: "string + bytes"
  rw_kvGet :: "string \<Rightarrow> string \<Rightarrow> kv_read"
  rw_kvPut :: "string \<Rightarrow> string \<Rightarrow> string \<Rightarrow> string + nat"
  rw_live :: "nat \<Rightarrow> live_call \<Rightarrow> string + upstream"

definition env_or_empty :: "env \<Rightarrow> string \<Rightarrow> string" where
  "env_or_empty env k = null_or (env k) []"

definition kvConfigFromEnv :: "refresh_world \<Rightarrow> string + kv_config" where
  "kvConfigFromEnv w =
    (let token = env_or_empty (rw_env w) ''CLOUDFLARE_API_TOKEN'';
         accountId = env_or_empty (rw_env w) ''CLOUDFLARE_ACCOUNT_ID'' in
     if token = [] \<or> accountId = []
     then Inl ''CLOUDFLARE_API_TOKEN and CLOUDFLARE_ACCOUNT_ID must be set''
     else bindR (rw_wranglerToml w) (\<lambda>toml.
          bindR (derefR ''could not find the OCSP_RESPONSES namespace id in wrangler.toml''
                   (namespaceIdFromWranglerToml toml)) (\<lambda>namespaceId.
          Inr \<lparr>kc_token = token, kc_accountId = accountId, kc_namespaceId = namespaceId\<rparr>)))"

definition sha1Target :: "ocsp_lib \<Rightarrow> refresh_world \<Rightarrow> string + cert_id" where
  "sha1Target lib w =
    bindR (rw_rootPem w) (\<lambda>rootPem.
    bindR (rw_icaPem w) (\<lambda>icaPem.
    bindR (icaCertIdTargets lib rootPem icaPem) (\<lambda>targets.
    derefR ''no SHA-1 CertID target'' (List.find (\<lambda>t. ci_hashOid t = OID_SHA1) targets))))"

text \<open>The step outputs of \<open>resolve-status\<close>.\<close>

definition status_outputs :: "resolved_status \<Rightarrow> string list" where
  "status_outputs resolved =
    [''status='' @ sr_status (rv_record resolved), ''time='' @ sr_revocationTime (rv_record resolved),
     ''reason='' @ sr_revocationReason (rv_record resolved),
     ''explicit='' @ (if rv_explicit resolved then ''true'' else ''false'')]"

definition resolve_status_cmd :: "refresh_world \<Rightarrow> string + string list" where
  "resolve_status_cmd w =
    bindR (kvConfigFromEnv w) (\<lambda>cfg.
    bindR (resolveStatus (env_or_empty (rw_env w) ''INPUT_STATUS'') (env_or_empty (rw_env w) ''INPUT_TIME'')
             (env_or_empty (rw_env w) ''INPUT_REASON'') (rw_kvGet w (kvStatusUrl cfg) (kc_token cfg)))
      (\<lambda>resolved. Inr (status_outputs resolved)))"

text \<open>The line printed, and the address and text put into the store.\<close>

definition persist_status_cmd :: "refresh_world \<Rightarrow> string + string list \<times> string \<times> string" where
  "persist_status_cmd w =
    bindR (kvConfigFromEnv w) (\<lambda>cfg.
    bindR (checkStatusRecord
             \<lparr>sr_status = env_or_empty (rw_env w) ''STATUS'',
              sr_revocationTime = env_or_empty (rw_env w) ''REVOCATION_TIME'',
              sr_revocationReason = env_or_empty (rw_env w) ''REVOCATION_REASON''\<rparr>) (\<lambda>record.
    let body = json_stringify (record_json record) in
    bindR (rw_kvPut w (kvStatusUrl cfg) (kc_token cfg) body) (\<lambda>status.
    if status \<noteq> 200 then Inl (''persisting ica-status to KV failed (HTTP '' @ show_nat status @ '')'')
    else Inr ([''persisted ica-status: '' @ body], kvStatusUrl cfg, body))))"

definition ocsp_url :: "refresh_world \<Rightarrow> string" where
  "ocsp_url w =
    (let u = env_or_empty (rw_env w) ''OCSP_URL'' in if u = [] then ''http://ocsp.realreel.xyz'' else u)"

definition verify_live_cmd :: "ocsp_lib \<Rightarrow> (cert_id \<Rightarrow> bytes) \<Rightarrow> refresh_world \<Rightarrow> string + nat" where
  "verify_live_cmd lib buildOcspRequestDer w =
    bindR (rw_builtResponse w) (\<lambda>expected.
    bindR (sha1Target lib w) (\<lambda>target.
    fst (verifyLive (rw_live w) (ocsp_url w) (buildOcspRequestDer target) expected 10)))"

text \<open>The exit code of the tool.\<close>

definition refresh_exit :: "ocsp_lib \<Rightarrow> (cert_id \<Rightarrow> bytes) \<Rightarrow> refresh_world \<Rightarrow> string option \<Rightarrow> nat" where
  "refresh_exit lib buildOcspRequestDer w command =
    (let code = (\<lambda>r :: string + unit. case r of Inr u \<Rightarrow> 0 | Inl e \<Rightarrow> 1) in
     if command = Some ''resolve-status'' then code (bindR (resolve_status_cmd w) (\<lambda>_. Inr ()))
     else if command = Some ''persist-status'' then code (bindR (persist_status_cmd w) (\<lambda>_. Inr ()))
     else if command = Some ''verify-live''
     then code (bindR (verify_live_cmd lib buildOcspRequestDer w) (\<lambda>_. Inr ()))
     else 2)"

section \<open>Building a response\<close>

fun replace_first :: "char \<Rightarrow> char \<Rightarrow> string \<Rightarrow> string" where
  "replace_first c d [] = []"
| "replace_first c d (x # s) = (if x = c then d # s else x # replace_first c d s)"

definition OUT_FILE_BY_HASH_OID :: "(string \<times> string) list" where
  "OUT_FILE_BY_HASH_OID =
    map (\<lambda>(oid, kvKey). (oid, replace_first (CHR '':'') (CHR ''-'') kvKey @ ''.der'')) KV_KEY_BY_HASH_OID"

record build_opts =
  bo_rootPem :: string
  bo_icaPem :: string
  bo_responderPem :: string
  bo_hashOid :: string
  bo_status :: string
  bo_revocationTime :: "int option"
  bo_revocationReason :: "jsnum option"
  bo_now :: int
  bo_validityDays :: int
  bo_signTbs :: "bytes \<Rightarrow> string + bytes"

text \<open>A whole number from 0 to 10.\<close>

definition is_crl_reason :: "jsnum \<Rightarrow> bool" where
  "is_crl_reason n =
    (case n of
       DecNum m e \<Rightarrow> (m = 0 \<or> 0 \<le> e) \<and> \<not> dec_less_int m e 0 \<and> \<not> num_greater n 10
     | _ \<Rightarrow> False)"

definition icaCertStatusSchema :: "build_opts \<Rightarrow> string + cert_status" where
  "icaCertStatusSchema opts =
    (if bo_status opts = ''good'' then Inr Cs_good
     else
       (case bo_revocationTime opts of
          None \<Rightarrow> Inl ''revoked status requires revocationTime''
        | Some t \<Rightarrow>
            (case bo_revocationReason opts of
               None \<Rightarrow> Inr (Cs_revoked t None)
             | Some n \<Rightarrow>
                 if \<not> is_crl_reason n
                 then Inl (''revocationReason must be a CRLReason integer 0..10, got '' @ js_num_string n)
                 else Inr (Cs_revoked t (Some n)))))"

definition ica_response :: "ocsp_lib \<Rightarrow> status_cert \<Rightarrow> cert_id \<Rightarrow> cert_status \<Rightarrow> build_opts \<Rightarrow> response_data" where
  "ica_response lib responder target status opts =
    (let now = bo_now opts div 1000 * 1000 in
     \<lparr>rs_certId = target, rs_certStatus = status, rs_thisUpdate = now,
      rs_nextUpdate = now + bo_validityDays opts * 86400000, rs_producedAt = now,
      rs_responderKeyHash = ol_digest lib ''SHA-1'' (sc_keyBits responder)\<rparr>)"

definition buildOcspResponseDer :: "ocsp_lib \<Rightarrow> ocsp_encoder \<Rightarrow> build_opts \<Rightarrow> string + bytes" where
  "buildOcspResponseDer lib enc opts =
    bindR (parseCert lib (bo_responderPem opts)) (\<lambda>responder.
    bindR (icaCertIdTargets lib (bo_rootPem opts) (bo_icaPem opts)) (\<lambda>targets.
    bindR (derefR (''unsupported CertID hash OID: '' @ bo_hashOid opts)
             (List.find (\<lambda>t. ci_hashOid t = bo_hashOid opts) targets)) (\<lambda>target.
    bindR (icaCertStatusSchema opts) (\<lambda>status.
    let data = ica_response lib responder target status opts in
    bindR (bo_signTbs opts (oe_tbs enc data)) (\<lambda>signature.
    Inr (oe_response enc data signature responder))))))"

section \<open>Checking a response\<close>

text \<open>What the decoder reads.\<close>

record single_response =
  sg_certId :: cert_id
  sg_tagClass :: nat
  sg_tagNumber :: nat
  sg_thisUpdate :: int
  sg_nextUpdate :: "int option"

record basic_response =
  ba_signatureAlgorithm :: string
  ba_responses :: "single_response list"
  ba_producedAt :: int
  ba_tbsView :: bytes
  ba_signature :: bytes
  ba_certs :: "status_cert list"

record ocsp_decoder =
  od_response :: "bytes \<Rightarrow> string + bytes \<times> (string \<times> bytes) option"
  od_basic :: "bytes \<Rightarrow> string + basic_response"
  od_compactSignature :: "bytes \<Rightarrow> string + bytes"
  od_p256Verify :: "bytes \<Rightarrow> bytes \<Rightarrow> bytes \<Rightarrow> string + bool"

record verify_opts =
  vo_rootPem :: string
  vo_icaPem :: string
  vo_hashOid :: string
  vo_status :: string
  vo_now :: int
  vo_signerKeyBits :: "bytes option"
  vo_expectEmbeddedCertPem :: "string option"

record verified_response =
  vd_producedAt :: int
  vd_thisUpdate :: int
  vd_nextUpdate :: int
  vd_signerCn :: string

definition verify_fail :: "string \<Rightarrow> string" where
  "verify_fail msg = ''OCSP response self-verify failed: '' @ msg"

definition check_that :: "bool \<Rightarrow> string \<Rightarrow> string + unit" where
  "check_that b msg = guardR b (verify_fail msg)"

text \<open>The one \<open>SingleResponse\<close>: it names the intermediate, has the status, and is current.\<close>

definition check_single :: "ocsp_lib \<Rightarrow> verify_opts \<Rightarrow> basic_response \<Rightarrow> string + single_response \<times> int" where
  "check_single lib opts basic =
    bindR (check_that (length (ba_responses basic) = 1)
             (''expected 1 SingleResponse, got '' @ show_nat (length (ba_responses basic)))) (\<lambda>_.
    let single = hd (ba_responses basic) in
    bindR (icaCertIdTargets lib (vo_rootPem opts) (vo_icaPem opts)) (\<lambda>targets.
    bindR (check_that (case List.find (\<lambda>t. ci_hashOid t = vo_hashOid opts) targets of
                         Some expected \<Rightarrow> certIdMatches expected (sg_certId single) | None \<Rightarrow> False)
             ''CertID does not name the ICA under the requested hash algorithm'') (\<lambda>_.
    bindR (check_that (sg_tagClass single = 3 \<and> sg_tagNumber single = (if vo_status opts = ''good'' then 0 else 1))
             (''certStatus is not '' @ [CHR 0x27] @ vo_status opts @ [CHR 0x27])) (\<lambda>_.
    bindR (derefR (verify_fail ''nextUpdate is absent'') (sg_nextUpdate single)) (\<lambda>nextUpdate.
    bindR (check_that (\<not> sg_thisUpdate single > vo_now opts) ''thisUpdate is in the future'') (\<lambda>_.
    bindR (check_that (\<not> nextUpdate \<le> vo_now opts) ''nextUpdate is not in the future'') (\<lambda>_.
    Inr (single, nextUpdate))))))))"

text \<open>The embedded certificate and the signature.\<close>

definition check_signer :: "ocsp_lib \<Rightarrow> ocsp_decoder \<Rightarrow> verify_opts \<Rightarrow> basic_response \<Rightarrow> string + status_cert" where
  "check_signer lib dec opts basic =
    bindR (derefR (verify_fail ''responder certificate is not embedded in certs'')
             (case ba_certs basic of [] \<Rightarrow> None | cert # _ \<Rightarrow> Some cert)) (\<lambda>cert.
    bindR (case vo_expectEmbeddedCertPem opts of
             None \<Rightarrow> Inr ()
           | Some pem \<Rightarrow>
               bindR (parseCert lib pem) (\<lambda>want.
               check_that (sc_tbsView cert = sc_tbsView want)
                 ''embedded certs[0] does not match the expected responder certificate'')) (\<lambda>_.
    let signerKeyBits = null_or (vo_signerKeyBits opts) (sc_keyBits cert);
        digest = ol_digest lib ''SHA-256'' (ba_tbsView basic) in
    bindR (od_compactSignature dec (ba_signature basic)) (\<lambda>sig.
    bindR (od_p256Verify dec sig digest signerKeyBits) (\<lambda>ok.
    bindR (check_that ok ''signature does not verify against the responder public key'') (\<lambda>_.
    Inr cert)))))"

definition verifyOcspResponseDer ::
  "ocsp_lib \<Rightarrow> ocsp_decoder \<Rightarrow> bytes \<Rightarrow> verify_opts \<Rightarrow> string + verified_response"
where
  "verifyOcspResponseDer lib dec der opts =
    bindR (od_response dec der) (\<lambda>(statusBytes, responseBytes).
    bindR (check_that (take 1 statusBytes = [0]) ''responseStatus is not successful'') (\<lambda>_.
    bindR (derefR (verify_fail ''responseBytes is not id-pkix-ocsp-basic'')
             (case responseBytes of
                Some (responseType, inner) \<Rightarrow> if responseType = OID_OCSP_BASIC then Some inner else None
              | None \<Rightarrow> None)) (\<lambda>inner.
    bindR (od_basic dec inner) (\<lambda>basic.
    bindR (check_that (ba_signatureAlgorithm basic = OID_ECDSA_WITH_SHA256)
             (''unexpected signatureAlgorithm '' @ ba_signatureAlgorithm basic)) (\<lambda>_.
    bindR (check_single lib opts basic) (\<lambda>(single, nextUpdate).
    bindR (check_signer lib dec opts basic) (\<lambda>cert.
    Inr \<lparr>vd_producedAt = ba_producedAt basic, vd_thisUpdate = sg_thisUpdate single, vd_nextUpdate = nextUpdate,
         vd_signerCn = null_or (sc_commonName cert) ''(no CN)''\<rparr>)))))))"

section \<open>The refresh tool\<close>

definition getFlag :: "string list \<Rightarrow> string \<Rightarrow> string option" where
  "getFlag args flag =
    (case dropWhile (\<lambda>a. a \<noteq> flag) args of
       _ # v # _ \<Rightarrow> if v \<noteq> [] \<and> \<not> starts_with ''--'' v then Some v else None
     | _ \<Rightarrow> None)"

record build_world =
  bw_args :: "string list"
  bw_env :: env
  bw_parseDate :: "string \<Rightarrow> int option"
  bw_rootPem :: "string + string"
  bw_icaPem :: "string + string"
  bw_responderPem :: "string + string"
  bw_now :: int
  bw_signTbs :: "bytes \<Rightarrow> string + bytes"

record build_flags =
  bf_outDir :: string
  bf_status :: string
  bf_revocationTime :: "int option"
  bf_revocationReason :: "jsnum option"
  bf_validityDays :: int

text \<open>A whole number from 1 to 30.\<close>

definition validity_days :: "jsnum \<Rightarrow> int option" where
  "validity_days n =
    (case n of
       DecNum m e \<Rightarrow>
         if (m = 0 \<or> 0 \<le> e) \<and> \<not> dec_less_int m e 1 \<and> \<not> num_greater n 30 then Some (m * 10 ^ nat e) else None
     | _ \<Rightarrow> None)"

text \<open>The flags; an error is the message of exit code 2.\<close>

definition parse_flags :: "build_world \<Rightarrow> string + build_flags" where
  "parse_flags w =
    (let status = null_or (getFlag (bw_args w) ''--status'') ''good'';
         revocationTime = Option.bind (getFlag (bw_args w) ''--revocation-time'') (bw_parseDate w) in
     bindR (guardR (status = ''good'' \<or> status = ''revoked'') ''--status must be good or revoked'') (\<lambda>_.
     bindR (guardR (\<not> (status = ''revoked'' \<and> revocationTime = None))
              ''--status revoked requires --revocation-time <ISO-8601>'') (\<lambda>_.
     bindR (case getFlag (bw_args w) ''--revocation-reason'' of
              None \<Rightarrow> Inr None
            | Some raw \<Rightarrow>
                if raw = [] \<or> \<not> list_all is_digit raw \<or> num_greater (js_number raw) 10
                then Inl ''--revocation-reason must be a CRLReason integer 0..10''
                else Inr (Some (js_number raw))) (\<lambda>revocationReason.
     bindR (derefR ''OCSP_VALIDITY_DAYS must be an integer in 1..30''
              (validity_days (js_number (null_or (bw_env w ''OCSP_VALIDITY_DAYS'') ''7'')))) (\<lambda>validityDays.
     Inr \<lparr>bf_outDir = null_or (getFlag (bw_args w) ''--out-dir'') ''out'', bf_status = status,
          bf_revocationTime = revocationTime, bf_revocationReason = revocationReason,
          bf_validityDays = validityDays\<rparr>)))))"

text \<open>One file: built, checked, and only then written.\<close>

definition build_file ::
  "ocsp_lib \<Rightarrow> ocsp_encoder \<Rightarrow> ocsp_decoder \<Rightarrow> build_world \<Rightarrow> build_flags \<Rightarrow> string \<Rightarrow> string
     \<Rightarrow> string \<Rightarrow> string \<Rightarrow> string + string \<times> bytes"
where
  "build_file lib enc dec w flags rootPem icaPem responderPem hashOid =
    bindR (buildOcspResponseDer lib enc
             \<lparr>bo_rootPem = rootPem, bo_icaPem = icaPem, bo_responderPem = responderPem, bo_hashOid = hashOid,
              bo_status = bf_status flags, bo_revocationTime = bf_revocationTime flags,
              bo_revocationReason = bf_revocationReason flags, bo_now = bw_now w,
              bo_validityDays = bf_validityDays flags, bo_signTbs = bw_signTbs w\<rparr>) (\<lambda>der.
    bindR (verifyOcspResponseDer lib dec der
             \<lparr>vo_rootPem = rootPem, vo_icaPem = icaPem, vo_hashOid = hashOid, vo_status = bf_status flags,
              vo_now = bw_now w, vo_signerKeyBits = None, vo_expectEmbeddedCertPem = Some responderPem\<rparr>) (\<lambda>verified.
    Inr (bf_outDir flags @ ''/'' @ the (map_of OUT_FILE_BY_HASH_OID hashOid), der)))"

text \<open>The files in turn; the first failure ends the run, and what was written stays.\<close>

fun build_files :: "(string \<Rightarrow> string + string \<times> bytes) \<Rightarrow> string list \<Rightarrow> nat \<times> (string \<times> bytes) list" where
  "build_files one [] = (0, [])"
| "build_files one (hashOid # oids) =
     (case one hashOid of
        Inl e \<Rightarrow> (1, [])
      | Inr file \<Rightarrow> (let (code, files) = build_files one oids in (code, file # files)))"

definition build_main ::
  "ocsp_lib \<Rightarrow> ocsp_encoder \<Rightarrow> ocsp_decoder \<Rightarrow> build_world \<Rightarrow> nat \<times> (string \<times> bytes) list"
where
  "build_main lib enc dec w =
    (case parse_flags w of
       Inl message \<Rightarrow> (2, [])
     | Inr flags \<Rightarrow>
         (case (bw_rootPem w, bw_icaPem w, bw_responderPem w) of
            (Inr rootPem, Inr icaPem, Inr responderPem) \<Rightarrow>
              build_files (build_file lib enc dec w flags rootPem icaPem responderPem) (map fst KV_KEY_BY_HASH_OID)
          | _ \<Rightarrow> (1, [])))"

section \<open>Which status is published\<close>

definition clean_record :: "status_record \<Rightarrow> bool" where
  "clean_record r =
    (sr_status r \<in> {''good'', ''revoked''} \<and> list_all is_iso_char (sr_revocationTime r)
     \<and> list_all is_digit (sr_revocationReason r) \<and> (sr_status r = ''revoked'' \<longrightarrow> sr_revocationTime r \<noteq> []))"

lemma checkStatusRecord_Inr_iff [simp, result_simps]: "checkStatusRecord r = Inr r' \<longleftrightarrow> clean_record r \<and> r' = r"
  by (auto simp: checkStatusRecord_def clean_record_def)

lemma resolved_clean: "resolveStatus s t n read = Inr r \<Longrightarrow> clean_record (rv_record r)"
  by (auto simp: resolveStatus_def clean_record_def split: if_splits option.splits)

lemma iso_char_line: "is_iso_char c \<Longrightarrow> c \<noteq> CHR 0x0A" "is_digit c \<Longrightarrow> c \<noteq> CHR 0x0A"
proof -
  have "\<not> is_iso_char (CHR 0x0A)" "\<not> is_digit (CHR 0x0A)" by code_simp+
  then show "is_iso_char c \<Longrightarrow> c \<noteq> CHR 0x0A" "is_digit c \<Longrightarrow> c \<noteq> CHR 0x0A" by auto
qed

text \<open>Whatever the operator dispatches and whatever the store holds, the outputs of
  \<open>resolve-status\<close> are four lines, none of which contains a line break: the status is \<open>good\<close> or
  \<open>revoked\<close>, the time is made of timestamp characters and is present for a revocation, and the reason
  is digits.\<close>

lemma status_outputs_clean:
  assumes "resolve_status_cmd w = Inr lines"
  shows "length lines = 4 \<and> (\<forall>line \<in> set lines. CHR 0x0A \<notin> set line)
    \<and> (\<exists>r. lines = status_outputs r \<and> clean_record (rv_record r))"
proof -
  from assms obtain r where r: "lines = status_outputs r" "clean_record (rv_record r)"
    by (auto simp: resolve_status_cmd_def dest: resolved_clean)
  then have "CHR 0x0A \<notin> set (sr_status (rv_record r))" "CHR 0x0A \<notin> set (sr_revocationTime (rv_record r))"
    "CHR 0x0A \<notin> set (sr_revocationReason (rv_record r))"
    using iso_char_line by (auto simp: clean_record_def list_all_iff)
  with r have "\<forall>line \<in> set lines. CHR 0x0A \<notin> set line" by (simp add: status_outputs_def)
  moreover from r have "length lines = 4" by (simp add: status_outputs_def)
  ultimately show ?thesis using r by blast
qed

text \<open>What is persisted reads back.\<close>

lemma persisted_reads_back:
  "clean_record r \<Longrightarrow> persisted_record (record_json r) = r"
  by (auto simp: persisted_record_def record_json_def str_or_empty_def clean_record_def)

lemma record_json_parses: "json_parse (json_stringify (record_json r)) = Some (record_json r)"
  by (rule json_parse_stringify) (simp add: record_json_def)

lemma resolve_persisted:
  assumes "clean_record r" "s = [] \<or> s = ''inherit''"
  shows "resolveStatus s t n (Inr (200, json_stringify (record_json r))) = Inr \<lparr>rv_record = r, rv_explicit = False\<rparr>"
proof -
  have "\<not> is_nullish (record_json r)" by (simp add: is_nullish_def record_json_def)
  with assms show ?thesis
    by (auto simp: resolveStatus_def record_json_parses persisted_reads_back simp del: json_stringify.simps)
qed

text \<open>A published status is sticky: when \<open>persist-status\<close> succeeds and a later \<open>resolve-status\<close> gets no
  status from its dispatch, reads the same store entry and finds the text that was put there, it
  resolves to exactly the persisted status, time and reason, as a status inherited rather than
  explicit.  A persisted revocation is therefore signed again at every refresh.\<close>

lemma published_status_sticky:
  assumes "persist_status_cmd w = Inr (out, url, body)"
    and "kvConfigFromEnv later = Inr cfg" "kvStatusUrl cfg = url"
    and "rw_kvGet later url (kc_token cfg) = Inr (200, body)"
    and "env_or_empty (rw_env later) ''INPUT_STATUS'' \<in> {[], ''inherit''}"
  shows "resolve_status_cmd later = Inr
    [''status='' @ env_or_empty (rw_env w) ''STATUS'', ''time='' @ env_or_empty (rw_env w) ''REVOCATION_TIME'',
     ''reason='' @ env_or_empty (rw_env w) ''REVOCATION_REASON'', ''explicit=false'']"
proof -
  let ?r = "\<lparr>sr_status = env_or_empty (rw_env w) ''STATUS'',
    sr_revocationTime = env_or_empty (rw_env w) ''REVOCATION_TIME'',
    sr_revocationReason = env_or_empty (rw_env w) ''REVOCATION_REASON''\<rparr>"
  from assms(1) have "clean_record ?r" "body = json_stringify (record_json ?r)"
    by (auto simp: persist_status_cmd_def Let_def split: if_splits simp del: json_stringify.simps)
  then have "resolveStatus (env_or_empty (rw_env later) ''INPUT_STATUS'') t n
      (rw_kvGet later (kvStatusUrl cfg) (kc_token cfg)) = Inr \<lparr>rv_record = ?r, rv_explicit = False\<rparr>" for t n
    using assms(3-5) by (auto intro: resolve_persisted)
  with assms(2) show ?thesis by (simp add: resolve_status_cmd_def status_outputs_def)
qed

text \<open>A failing read is an error, never \<open>good\<close>; but a persisted text that parses and has no status of
  its own resolves to \<open>good\<close>, an empty array among them.\<close>

lemma inherited_good:
  assumes "resolveStatus s t n read = Inr r" "sr_status (rv_record r) = ''good''" "\<not> rv_explicit r"
  obtains body where "read = Inr (404, body)"
    | body parsed where "read = Inr (200, body)" "json_parse body = Some parsed"
        "str_or_empty (obj_get parsed ''status'') \<in> {[], ''good''}"
  using assms
  by (auto simp: resolveStatus_def persisted_record_def clean_record_def Let_def split: if_splits option.splits)

lemma shapeless_record_is_good:
  "resolveStatus [] [] [] (Inr (200, ''[]''))
     = Inr \<lparr>rv_record = \<lparr>sr_status = ''good'', sr_revocationTime = [], sr_revocationReason = []\<rparr>, rv_explicit = False\<rparr>"
  by code_simp

section \<open>When the publication is visible\<close>

text \<open>The search from attempt \<open>k\<close> on, by the first attempt that succeeds.\<close>

lemma live_from_eq:
  "live_from fetch url req expected attempts k =
    (case List.find (\<lambda>a. live_attempt (fetch a) url req expected) [k ..< Suc attempts] of
       Some a \<Rightarrow> (Inr a, replicate (a - k) 30000)
     | None \<Rightarrow> (Inl ''live endpoint never served the freshly published response'', replicate (attempts - k) 30000))"
proof (induction "Suc attempts - k" arbitrary: k)
  case 0
  then show ?case by (simp add: live_from.simps)
next
  case (Suc n)
  then have k: "k \<le> attempts" by simp
  then have u: "[k ..< Suc attempts] = k # [Suc k ..< Suc attempts]"
    by (simp add: upt_conv_Cons del: upt_Suc)
  have unroll: "live_from fetch url req expected attempts k =
      (if live_attempt (fetch k) url req expected then (Inr k, [])
       else let (r, pauses) = live_from fetch url req expected attempts (Suc k) in
         (r, if k < attempts then 30000 # pauses else pauses))"
    using k by (simp add: live_from.simps[of _ _ _ _ _ k])
  note IH = Suc.hyps(1)[of "Suc k"]
  show ?case
  proof (cases "List.find (\<lambda>a. live_attempt (fetch a) url req expected) [Suc k ..< Suc attempts]")
    case None
    with IH Suc.hyps(2) k show ?thesis
      unfolding unroll u by (cases "k = attempts") (auto simp: Suc_diff_Suc simp del: upt_Suc simp flip: replicate_Suc)
  next
    case (Some a)
    then have "Suc k \<le> a" "a \<le> attempts" by (auto dest!: find_SomeD simp del: upt_Suc)
    with Some IH Suc.hyps(2) k show ?thesis
      unfolding unroll u by (auto simp: Suc_diff_Suc simp del: upt_Suc simp flip: replicate_Suc)
  qed
qed

text \<open>The answer of one transport carries the published bytes: it arrived, with status 200, a content type that begins
  with the one of OCSP responses, and exactly these bytes.\<close>

definition carries :: "bytes \<Rightarrow> string + upstream \<Rightarrow> bool" where
  "carries published answer =
    (\<exists>res rest. answer = Inr res \<and> up_status res = 200 \<and> up_body res = published
       \<and> up_contentType res = Some (''application/ocsp-response'' @ rest))"

lemma fetchOcspBytes_carries: "fetchOcspBytes answer = Inr (Some bs) \<longleftrightarrow> carries bs answer"
  by (auto simp: fetchOcspBytes_def carries_def OCSP_CONTENT_TYPE_def starts_with_prefix prefix_def
      split: option.splits if_splits)

definition both_carry :: "(live_call \<Rightarrow> string + upstream) \<Rightarrow> string \<Rightarrow> bytes \<Rightarrow> bytes \<Rightarrow> bool" where
  "both_carry net url req published =
    (carries published (net (Live_post url req))
     \<and> carries published (net (Live_get (url @ ''/'' @ encodeURIComponent (bytesToBase64 req)))))"

lemma live_attempt_iff: "live_attempt net url req published \<longleftrightarrow> both_carry net url req published"
  by (auto simp: live_attempt_def both_carry_def simp flip: fetchOcspBytes_carries split: sum.splits)

lemma find_upt_Some:
  "List.find P [k ..< n] = Some a \<longleftrightarrow> k \<le> a \<and> a < n \<and> P a \<and> (\<forall>b. k \<le> b \<and> b < a \<longrightarrow> \<not> P b)"
proof (induction "n - k" arbitrary: k)
  case 0
  then show ?case by simp
next
  case (Suc m)
  then have u: "[k ..< n] = k # [Suc k ..< n]" and kn: "k < n" by (simp_all add: upt_conv_Cons)
  note IH = Suc.hyps(1)[of "Suc k"]
  show ?case
  proof (cases "P k")
    case True
    then have "(\<forall>b. k \<le> b \<and> b < a \<longrightarrow> \<not> P b) \<longleftrightarrow> a \<le> k" by (auto simp: not_le[symmetric])
    with True kn show ?thesis unfolding u by auto
  next
    case False
    have "k \<le> b \<longleftrightarrow> b = k \<or> Suc k \<le> b" for b by auto
    with False IH Suc.hyps(2) show ?thesis unfolding u by auto
  qed
qed

lemma find_upt_None: "List.find P [k ..< n] = None \<longleftrightarrow> (\<forall>b. k \<le> b \<and> b < n \<longrightarrow> \<not> P b)"
  by (auto simp: find_None_iff)

text \<open>C26. The live check always ends.  It reports attempt \<open>a\<close> exactly when \<open>a\<close> is the first of the allowed attempts
  in which both transports carry the published bytes - the POST of the request to the address, and the GET of the
  address, a slash and the escaped Base64 of the request, each answered with status 200, a content type that begins
  with \<open>application/ocsp-response\<close> and exactly these bytes; one transport alone, or a request that fails, is not
  enough.  When there is no such attempt it fails.  It pauses thirty seconds before every attempt but the first, and
  never after the last.\<close>

theorem live_check_exact:
  "(verifyLive net url req published attempts = (Inr a, pauses) \<longleftrightarrow>
      a \<in> {1..attempts} \<and> both_carry (net a) url req published
      \<and> {b \<in> {1..<a}. both_carry (net b) url req published} = {} \<and> pauses = replicate (a - 1) 30000)
   \<and> (verifyLive net url req published attempts = (Inl e, pauses) \<longleftrightarrow>
      {b \<in> {1..attempts}. both_carry (net b) url req published} = {}
      \<and> e = ''live endpoint never served the freshly published response'' \<and> pauses = replicate (attempts - 1) 30000)"
proof (cases "List.find (\<lambda>a. both_carry (net a) url req published) [1 ..< Suc attempts]")
  case None
  then have "{b \<in> {1..attempts}. both_carry (net b) url req published} = {}" unfolding find_upt_None by auto
  with None show ?thesis unfolding verifyLive_def live_from_eq live_attempt_iff by auto
next
  case (Some k)
  then have k: "k \<in> {1..attempts}" "both_carry (net k) url req published"
    "{b \<in> {1..<k}. both_carry (net b) url req published} = {}"
    unfolding find_upt_Some by auto
  have unique: "a = k" if "a \<in> {1..attempts}" "both_carry (net a) url req published"
    "{b \<in> {1..<a}. both_carry (net b) url req published} = {}"
    using that k by (cases a k rule: linorder_cases) auto
  have "verifyLive net url req published attempts = (Inr k, replicate (k - 1) 30000)"
    unfolding verifyLive_def live_from_eq live_attempt_iff Some by simp
  with k unique show ?thesis by auto
qed

text \<open>An instance: the first answer to the GET is still the old one, so the second attempt is reported.\<close>

definition ex_net :: "nat \<Rightarrow> live_call \<Rightarrow> string + upstream" where
  "ex_net attempt call =
    Inr \<lparr>up_status = 200, up_contentType = Some ''application/ocsp-response'', up_cacheControl = None,
         up_body = (case call of Live_post a der \<Rightarrow> [1] | Live_get a \<Rightarrow> if attempt = 1 then [0] else [1])\<rparr>"

theorem live_check_exact_witness:
  "verifyLive ex_net ''http://ocsp'' [3] [1] 10 = (Inr 2, [30000])"
proof -
  have post: "carries [1] (ex_net b (Live_post ''http://ocsp'' [3]))" for b
    by (simp add: carries_def ex_net_def)
  have get: "carries [1] (ex_net b (Live_get u)) \<longleftrightarrow> b \<noteq> 1" for b u
    by (simp add: carries_def ex_net_def)
  have both: "both_carry (ex_net b) ''http://ocsp'' [3] [1] \<longleftrightarrow> b \<noteq> 1" for b
    unfolding both_carry_def by (simp only: post get simp_thms)
  show ?thesis
    using live_check_exact[of ex_net "''http://ocsp''" "[3]" "[1]" 10 2 "[30000]"] both by auto
qed

end
