(* ===== verification/OcspPublication.thy ===== *)
theory OcspPublication
  imports OcspRefresh
begin

text \<open>
  The refresh and the worker together: what the refresh tool writes has been checked, what it builds
  passes its own check, and a store that holds the published bytes satisfies the live check through
  both transports of the worker.
\<close>

section \<open>The worker behind the live check\<close>

definition upstream_of :: "string + web_response \<Rightarrow> upstream" where
  "upstream_of answer =
    (case answer of
       Inl e \<Rightarrow> \<lparr>up_status = 500, up_contentType = None, up_cacheControl = None, up_body = []\<rparr>
     | Inr r \<Rightarrow> \<lparr>up_status = wr_status r, up_contentType = map_of (wr_headers r) ''content-type'',
                up_cacheControl = map_of (wr_headers r) ''cache-control'', up_body = wr_body r\<rparr>)"

text \<open>The requests of the live check as the worker at \<open>url\<close> gets them.\<close>

definition live_request :: "string \<Rightarrow> live_call \<Rightarrow> web_request" where
  "live_request url call =
    (case call of
       Live_post address der \<Rightarrow>
         \<lparr>wq_method = ''POST'', wq_pathname = ''/'', wq_headers = (\<lambda>h. None), wq_body = der\<rparr>
     | Live_get address \<Rightarrow>
         \<lparr>wq_method = ''GET'', wq_pathname = drop (length url) address, wq_headers = (\<lambda>h. None), wq_body = []\<rparr>)"

definition worker_answer ::
  "ocsp_lib \<Rightarrow> cert_assets \<Rightarrow> (string \<Rightarrow> bytes option) \<Rightarrow> leaf_forwarder option \<Rightarrow> string \<Rightarrow> live_call
     \<Rightarrow> string + upstream"
where
  "worker_answer lib assets store fwd url call =
    Inr (upstream_of (handleOcsp lib assets store fwd (live_request url call)))"

lemma handleOcsp_names_ica:
  assumes "asks_status req" "request_der req = Some der" "length der \<le> 8192"
    and "ol_parseRequest lib der = Some [c]" "names_ica lib assets c"
    and "store (if ci_hashOid c = OID_SHA1 then ''response:sha1'' else ''response:sha256'') = Some published"
  shows "handleOcsp lib assets store fwd req = Inr (ocspBytes published CACHE_OK)"
proof -
  obtain root ica where "parseCert lib (as_rootPem assets) = Inr root" "parseCert lib (as_icaPem assets) = Inr ica"
    using assms(5) by (auto simp: names_ica_def)
  from answer_cert_exact[OF this] handleOcsp_status[OF assms(1-4)]
  have "handleOcsp lib assets store fwd req = Inr (ocsp_answer lib req assets store fwd der c)" by simp
  with assms(5,6) show ?thesis by (simp add: ocsp_answer_def)
qed

lemma fetch_published: "fetchOcspBytes (Inr (upstream_of (Inr (ocspBytes bs CACHE_OK)))) = Inr (Some bs)"
  by (simp add: fetchOcspBytes_def upstream_of_def ocspBytes_def cors_headers_def)

lemma base64_nonempty: "bytesToBase64 der \<noteq> []" if "der \<noteq> []"
  using that web_b64.enc_inj[of der "[]"] by (auto simp: bytesToBase64_def base64_def)

lemma encode_nonempty: "encodeURIComponent s = [] \<longleftrightarrow> s = []"
  using uri.enc_inj[of s "[]"] by (simp add: encodeURIComponent_def)

lemma live_requests_ask:
  assumes "der \<noteq> []"
  shows "asks_status (live_request url (Live_post a der))"
    "request_der (live_request url (Live_post a der)) = Some der"
    "asks_status (live_request url (Live_get (url @ ''/'' @ encodeURIComponent (bytesToBase64 der))))"
    "request_der (live_request url (Live_get (url @ ''/'' @ encodeURIComponent (bytesToBase64 der)))) = Some der"
proof -
  have "\<not> num_greater (js_number ''0'') (int MAX_REQUEST_BYTES)" by code_simp
  with assms show "request_der (live_request url (Live_post a der)) = Some der"
    by (simp add: request_der_def live_request_def)
  show "asks_status (live_request url (Live_post a der))" by (simp add: asks_status_def live_request_def)
  show "asks_status (live_request url (Live_get (url @ ''/'' @ encodeURIComponent (bytesToBase64 der))))"
    using assms by (simp add: asks_status_def live_request_def encode_nonempty base64_nonempty)
  show "request_der (live_request url (Live_get (url @ ''/'' @ encodeURIComponent (bytesToBase64 der)))) = Some der"
    using decode_get_request[of der] by (simp add: request_der_def live_request_def)
qed

lemma worker_attempt:
  assumes "der \<noteq> []" "length der \<le> 8192" "ol_parseRequest lib der = Some [c]" "names_ica lib assets c"
    and "store (if ci_hashOid c = OID_SHA1 then ''response:sha1'' else ''response:sha256'') = Some published"
  shows "live_attempt (worker_answer lib assets store fwd url) url der published"
proof -
  note ask = live_requests_ask[OF assms(1), of url]
  have serve: "worker_answer lib assets store fwd url call = Inr (upstream_of (Inr (ocspBytes published CACHE_OK)))"
    if "asks_status (live_request url call)" "request_der (live_request url call) = Some der" for call
    unfolding worker_answer_def
    by (simp add: handleOcsp_names_ica[where store = store and lib = lib and assets = assets, OF that assms(2,3,4,5)])
  show ?thesis
    using serve[OF ask(1,2)] serve[OF ask(3,4)] by (simp add: live_attempt_def fetch_published)
qed

lemma sha1_target_names_ica:
  assumes "sha1Target lib w = Inr c" "rw_rootPem w = Inr (as_rootPem assets)" "rw_icaPem w = Inr (as_icaPem assets)"
  shows "names_ica lib assets c \<and> ci_hashOid c = OID_SHA1"
proof -
  from assms obtain ts where "icaCertIdTargets lib (as_rootPem assets) (as_icaPem assets) = Inr ts"
    "List.find (\<lambda>t. ci_hashOid t = OID_SHA1) ts = Some c"
    by (auto simp: sha1Target_def)
  with ica_target_iff[of lib assets ts c] show ?thesis by (auto dest: find_SomeD)
qed

text \<open>A publication is visible at once: when the store of the worker holds the freshly built bytes under
  the key of SHA-1, and the request of the live check reads back as the one identifier it was built
  from, \<open>verify-live\<close> succeeds in its first attempt, through POST and through GET.\<close>

lemma published_is_visible:
  assumes "rw_rootPem w = Inr (as_rootPem assets)" "rw_icaPem w = Inr (as_icaPem assets)"
    and "sha1Target lib w = Inr c" "rw_builtResponse w = Inr published"
    and "store ''response:sha1'' = Some published"
    and "ol_parseRequest lib (encodeRequest c) = Some [c]" "encodeRequest c \<noteq> []" "length (encodeRequest c) \<le> 8192"
    and "rw_live w = (\<lambda>attempt. worker_answer lib assets store fwd (ocsp_url w))"
  shows "verify_live_cmd lib encodeRequest w = Inr 1"
proof -
  have "live_attempt (rw_live w 1) (ocsp_url w) (encodeRequest c) published"
    unfolding assms(9)
    by (rule worker_attempt[OF assms(7,8,6)]) (use sha1_target_names_ica[OF assms(3,1,2)] assms(5) in simp_all)
  then have "verifyLive (rw_live w) (ocsp_url w) (encodeRequest c) published 10 = (Inr 1, [])"
    by (simp add: verifyLive_def live_from.simps)
  then show ?thesis by (simp add: verify_live_cmd_def assms(3,4))
qed

section \<open>What the refresh writes\<close>

text \<open>What a response says that passes the check for these options: it is a successful basic response
  signed with ECDSA over SHA-256, of one status of the intermediate under the requested hash, current
  at the time of the check, whose embedded responder certificate is the expected one, and whose
  signature the responder key verifies.\<close>

definition checked_response :: "ocsp_lib \<Rightarrow> ocsp_decoder \<Rightarrow> verify_opts \<Rightarrow> bytes \<Rightarrow> basic_response \<Rightarrow> bool" where
  "checked_response lib dec opts der basic =
    (\<exists>inner rest single cert nextUpdate sig.
       od_response dec der = Inr (0 # rest, Some (OID_OCSP_BASIC, inner)) \<and> od_basic dec inner = Inr basic
     \<and> ba_signatureAlgorithm basic = OID_ECDSA_WITH_SHA256 \<and> ba_responses basic = [single]
     \<and> names_ica lib \<lparr>as_rootPem = vo_rootPem opts, as_icaPem = vo_icaPem opts\<rparr> (sg_certId single)
     \<and> ci_hashOid (sg_certId single) = vo_hashOid opts
     \<and> sg_tagClass single = 3 \<and> sg_tagNumber single = (if vo_status opts = ''good'' then 0 else 1)
     \<and> sg_thisUpdate single \<le> vo_now opts \<and> sg_nextUpdate single = Some nextUpdate \<and> vo_now opts < nextUpdate
     \<and> ba_certs basic \<noteq> [] \<and> cert = hd (ba_certs basic)
     \<and> (\<forall>pem. vo_expectEmbeddedCertPem opts = Some pem
          \<longrightarrow> (\<exists>want. parseCert lib pem = Inr want \<and> sc_tbsView cert = sc_tbsView want))
     \<and> od_compactSignature dec (ba_signature basic) = Inr sig
     \<and> od_p256Verify dec sig (ol_digest lib ''SHA-256'' (ba_tbsView basic))
         (null_or (vo_signerKeyBits opts) (sc_keyBits cert)) = Inr True)"

lemma check_that_Inr [simp]: "check_that b m = Inr u \<longleftrightarrow> b"
  by (simp add: check_that_def)

lemma check_single_Inr:
  assumes "check_single lib opts basic = Inr (single, nextUpdate)"
  shows "ba_responses basic = [single]
    \<and> names_ica lib \<lparr>as_rootPem = vo_rootPem opts, as_icaPem = vo_icaPem opts\<rparr> (sg_certId single)
    \<and> ci_hashOid (sg_certId single) = vo_hashOid opts
    \<and> sg_tagClass single = 3 \<and> sg_tagNumber single = (if vo_status opts = ''good'' then 0 else 1)
    \<and> sg_thisUpdate single \<le> vo_now opts \<and> sg_nextUpdate single = Some nextUpdate \<and> vo_now opts < nextUpdate"
proof -
  from assms obtain ts e where one: "length (ba_responses basic) = 1" "single = hd (ba_responses basic)"
    and ts: "icaCertIdTargets lib (vo_rootPem opts) (vo_icaPem opts) = Inr ts"
    and e: "List.find (\<lambda>t. ci_hashOid t = vo_hashOid opts) ts = Some e" "certIdMatches e (sg_certId single)"
    and rest: "sg_tagClass single = 3" "sg_tagNumber single = (if vo_status opts = ''good'' then 0 else 1)"
      "sg_thisUpdate single \<le> vo_now opts" "sg_nextUpdate single = Some nextUpdate" "vo_now opts < nextUpdate"
    by (auto simp: check_single_def Let_def not_less not_le split: option.splits)
  from one have "ba_responses basic = [single]" by (cases "ba_responses basic") auto
  moreover from e have "sg_certId single \<in> set ts" "ci_hashOid (sg_certId single) = vo_hashOid opts"
    by (auto simp: certIdMatches_eq dest: find_SomeD)
  ultimately show ?thesis
    using rest ica_target_iff[of lib "\<lparr>as_rootPem = vo_rootPem opts, as_icaPem = vo_icaPem opts\<rparr>" ts] ts by simp
qed

lemma check_signer_Inr:
  assumes "check_signer lib dec opts basic = Inr cert"
  shows "ba_certs basic \<noteq> [] \<and> cert = hd (ba_certs basic)
    \<and> (\<forall>pem. vo_expectEmbeddedCertPem opts = Some pem
         \<longrightarrow> (\<exists>want. parseCert lib pem = Inr want \<and> sc_tbsView cert = sc_tbsView want))
    \<and> (\<exists>sig. od_compactSignature dec (ba_signature basic) = Inr sig
         \<and> od_p256Verify dec sig (ol_digest lib ''SHA-256'' (ba_tbsView basic))
             (null_or (vo_signerKeyBits opts) (sc_keyBits cert)) = Inr True)"
  using assms by (auto simp: check_signer_def Let_def split: list.splits option.splits)

lemma take_first [simp]: "take (Suc 0) xs = [a] \<longleftrightarrow> (\<exists>r. xs = a # r)"
  by (cases xs) auto

lemma verified_is_checked:
  assumes "verifyOcspResponseDer lib dec der opts = Inr v"
  obtains basic where "checked_response lib dec opts der basic"
proof -
  from assms obtain rest inner basic single nextUpdate cert
    where r: "od_response dec der = Inr (0 # rest, Some (OID_OCSP_BASIC, inner))" "od_basic dec inner = Inr basic"
      "ba_signatureAlgorithm basic = OID_ECDSA_WITH_SHA256"
    and s: "check_single lib opts basic = Inr (single, nextUpdate)" "check_signer lib dec opts basic = Inr cert"
    by (auto simp: verifyOcspResponseDer_def split: option.splits if_splits)
  with check_single_Inr[OF s(1)] check_signer_Inr[OF s(2)] that show ?thesis
    unfolding checked_response_def by blast
qed

lemma build_files_written:
  "file \<in> set (snd (build_files one oids)) \<Longrightarrow> \<exists>oid \<in> set oids. one oid = Inr file"
  by (induction oids) (auto split: sum.splits prod.splits)

lemma out_files:
  "map_of OUT_FILE_BY_HASH_OID OID_SHA1 = Some ''response-sha1.der''"
  "map_of OUT_FILE_BY_HASH_OID OID_SHA256 = Some ''response-sha256.der''"
  by code_simp+

definition published_names :: "(string \<times> string) set" where
  "published_names = {(OID_SHA1, ''response-sha1.der''), (OID_SHA256, ''response-sha256.der'')}"

text \<open>C27. The refresh tool writes nothing unchecked: every file it writes, even in a run that fails later,
  bears the name of one of the two supported hashes and holds a successful response about the
  intermediate under that hash, with the status asked for, current at the time of the run, embedding
  the deployed responder certificate and verified under its key.\<close>

theorem written_files_checked:
  assumes "(path, der) \<in> set (snd (build_main lib enc dec w))"
  shows "\<exists>flags rootPem icaPem responderPem hashOid name basic.
     parse_flags w = Inr flags \<and> bw_rootPem w = Inr rootPem \<and> bw_icaPem w = Inr icaPem
     \<and> bw_responderPem w = Inr responderPem \<and> (hashOid, name) \<in> published_names
     \<and> path = bf_outDir flags @ ''/'' @ name
     \<and> checked_response lib dec
         \<lparr>vo_rootPem = rootPem, vo_icaPem = icaPem, vo_hashOid = hashOid, vo_status = bf_status flags,
          vo_now = bw_now w, vo_signerKeyBits = None, vo_expectEmbeddedCertPem = Some responderPem\<rparr> der basic"
proof -
  from assms obtain flags rootPem icaPem responderPem where w: "parse_flags w = Inr flags"
    "bw_rootPem w = Inr rootPem" "bw_icaPem w = Inr icaPem" "bw_responderPem w = Inr responderPem"
    and f: "(path, der) \<in> set (snd (build_files
      (build_file lib enc dec w flags rootPem icaPem responderPem) (map fst KV_KEY_BY_HASH_OID)))"
    by (auto simp: build_main_def split: sum.splits)
  from build_files_written[OF f] obtain hashOid where oid: "hashOid \<in> {OID_SHA1, OID_SHA256}"
    and one: "build_file lib enc dec w flags rootPem icaPem responderPem hashOid = Inr (path, der)"
    by (auto simp: KV_KEY_BY_HASH_OID_def)
  from one obtain v where v: "verifyOcspResponseDer lib dec der
      \<lparr>vo_rootPem = rootPem, vo_icaPem = icaPem, vo_hashOid = hashOid, vo_status = bf_status flags,
       vo_now = bw_now w, vo_signerKeyBits = None, vo_expectEmbeddedCertPem = Some responderPem\<rparr> = Inr v"
    and path: "path = bf_outDir flags @ ''/'' @ the (map_of OUT_FILE_BY_HASH_OID hashOid)"
    by (auto simp: build_file_def)
  from oid path have "(hashOid, the (map_of OUT_FILE_BY_HASH_OID hashOid)) \<in> published_names"
    by (auto simp: published_names_def out_files)
  with w path verified_is_checked[OF v] show ?thesis by metis
qed

section \<open>What the refresh builds passes\<close>

text \<open>What the code relies on of the codecs: a basic response in whole seconds decodes to what was
  encoded; and of the signer: it signs under the responder key.\<close>

definition decoded_basic :: "ocsp_encoder \<Rightarrow> response_data \<Rightarrow> bytes \<Rightarrow> status_cert \<Rightarrow> basic_response" where
  "decoded_basic enc data sig cert =
    \<lparr>ba_signatureAlgorithm = OID_ECDSA_WITH_SHA256,
     ba_responses = [\<lparr>sg_certId = rs_certId data, sg_tagClass = 3, sg_tagNumber = status_tag (rs_certStatus data),
       sg_thisUpdate = rs_thisUpdate data, sg_nextUpdate = Some (rs_nextUpdate data)\<rparr>],
     ba_producedAt = rs_producedAt data, ba_tbsView = oe_tbs enc data, ba_signature = sig, ba_certs = [cert]\<rparr>"

definition faithful_codec :: "ocsp_encoder \<Rightarrow> ocsp_decoder \<Rightarrow> bool" where
  "faithful_codec enc dec =
    (\<forall>data sig cert. 1000 dvd rs_thisUpdate data \<longrightarrow> 1000 dvd rs_nextUpdate data \<longrightarrow>
       (\<exists>inner. od_response dec (oe_response enc data sig cert) = Inr ([0], Some (OID_OCSP_BASIC, inner))
          \<and> od_basic dec inner = Inr (decoded_basic enc data sig cert)))"

definition signs_under :: "ocsp_lib \<Rightarrow> ocsp_decoder \<Rightarrow> bytes \<Rightarrow> (bytes \<Rightarrow> string + bytes) \<Rightarrow> bool" where
  "signs_under lib dec key sign =
    (\<forall>tbs. \<exists>sig c. sign tbs = Inr sig \<and> od_compactSignature dec sig = Inr c
       \<and> od_p256Verify dec c (ol_digest lib ''SHA-256'' tbs) key = Inr True)"

lemma faithful_codecD:
  assumes "faithful_codec enc dec" "1000 dvd rs_thisUpdate data" "1000 dvd rs_nextUpdate data"
  obtains inner where "od_response dec (oe_response enc data sig cert) = Inr ([0], Some (OID_OCSP_BASIC, inner))"
    "od_basic dec inner = Inr (decoded_basic enc data sig cert)"
  using assms unfolding faithful_codec_def by blast

lemma norm_dec_exp: "0 \<le> e \<Longrightarrow> norm_dec m e = (m', e') \<Longrightarrow> 0 \<le> e'"
  by (induction m e rule: norm_dec.induct) (subst (asm) norm_dec.simps, auto split: if_splits)

lemma validity_days_bounds: "validity_days n = Some d \<Longrightarrow> 1 \<le> d"
  by (auto simp: validity_days_def dec_less_int_def split: jsnum.splits if_splits)

lemma digit_not_space: "is_digit c \<Longrightarrow> \<not> is_space c"
  by (auto simp: is_digit_def is_space_def)

lemma digits_trim: "list_all is_digit s \<Longrightarrow> js_trim s = s"
proof -
  have "dropWhile is_space t = t" if "list_all is_digit t" for t
    using that by (cases t) (auto simp: digit_not_space)
  then show "list_all is_digit s \<Longrightarrow> js_trim s = s" by (simp add: js_trim_def list_all_rev)
qed

lemma digit_chars:
  "is_digit c \<Longrightarrow> lower_char c \<noteq> CHR ''x'' \<and> lower_char c \<noteq> CHR ''o'' \<and> lower_char c \<noteq> CHR ''b''
     \<and> c \<noteq> CHR ''-'' \<and> c \<noteq> CHR ''+'' \<and> c \<noteq> CHR ''I''"
  by (auto simp: is_digit_def lower_char_def)

lemma digits_number:
  assumes "s \<noteq> []" "list_all is_digit s"
  shows "js_number s = make_num False (parse_digits 0 s) 0"
proof -
  obtain c cs where s: "s = c # cs" using assms(1) by (cases s) auto
  have "take 2 s = c # take 1 cs" using s by (simp add: numeral_2_eq_2)
  then have two: "map lower_char (take 2 s) \<notin> {''0x'', ''0o'', ''0b''}"
    using assms(2) digit_chars s by (cases cs) auto
  have "parse_decimal False s = make_num False (parse_digits 0 s) 0"
  proof -
    have "takeWhile is_digit s = s" "dropWhile is_digit s = []" using assms(2) by (simp_all add: list_all_iff)
    then show ?thesis unfolding parse_decimal_def using assms(1) by (simp only:) (simp add: parse_exponent_def)
  qed
  moreover have "\<not> starts_with ''-'' s" "\<not> starts_with ''+'' s" "s \<noteq> ''Infinity''"
    using digit_chars[of c] assms(2) by (auto simp: s)
  ultimately show ?thesis
    using two assms(1) by (simp add: js_number_def digits_trim[OF assms(2)] Let_def)
qed

lemma crl_reason_digits:
  assumes "s \<noteq> []" "list_all is_digit s" "\<not> num_greater (js_number s) 10"
  shows "is_crl_reason (js_number s)"
proof -
  obtain m e where n: "norm_dec (parse_digits 0 s) 0 = (m, e)" by fastforce
  then have "0 \<le> e" using norm_dec_exp by blast
  moreover have "\<not> int m * 10 ^ nat e < 0" by (simp add: not_less)
  ultimately show ?thesis
    using assms n unfolding digits_number[OF assms(1,2)] by (auto simp: is_crl_reason_def make_num_def dec_less_int_def)
qed

lemma flags_status:
  assumes "parse_flags w = Inr flags"
  shows "\<exists>status. icaCertStatusSchema (opts\<lparr>bo_status := bf_status flags,
       bo_revocationTime := bf_revocationTime flags, bo_revocationReason := bf_revocationReason flags\<rparr>) = Inr status
     \<and> status_tag status = (if bf_status flags = ''good'' then 0 else 1)"
  using assms
  by (auto simp: parse_flags_def icaCertStatusSchema_def Let_def crl_reason_digits
      split: option.splits if_splits)

lemma whole_seconds: "1000 dvd t div 1000 * (1000 :: int)" "1000 dvd t div 1000 * 1000 + d * (86400000 :: int)"
proof -
  have "d * 86400000 = (d * 86400) * (1000 :: int)" by simp
  then show "1000 dvd t div 1000 * 1000 + d * (86400000 :: int)" by (metis dvd_add dvd_triv_right)
qed simp

lemma find_ica_target:
  assumes "parseCert lib rootPem = Inr root" "parseCert lib icaPem = Inr ica" "hashOid \<in> {OID_SHA1, OID_SHA256}"
  obtains ts target where "icaCertIdTargets lib rootPem icaPem = Inr ts"
    "List.find (\<lambda>t. ci_hashOid t = hashOid) ts = Some target"
  using assms by (auto simp: icaCertIdTargets_def KV_KEY_BY_HASH_OID_def hash_oids Let_def)

lemma built_passes:
  assumes flags: "parse_flags w = Inr flags"
    and pems: "parseCert lib rootPem = Inr root" "parseCert lib icaPem = Inr ica"
      "parseCert lib responderPem = Inr responder"
    and laws: "faithful_codec enc dec" "signs_under lib dec (sc_keyBits responder) (bw_signTbs w)"
    and oid: "hashOid \<in> {OID_SHA1, OID_SHA256}"
  shows "\<exists>der. build_file lib enc dec w flags rootPem icaPem responderPem hashOid
    = Inr (bf_outDir flags @ ''/'' @ the (map_of OUT_FILE_BY_HASH_OID hashOid), der)"
proof -
  let ?bo = "\<lparr>bo_rootPem = rootPem, bo_icaPem = icaPem, bo_responderPem = responderPem, bo_hashOid = hashOid,
      bo_status = bf_status flags, bo_revocationTime = bf_revocationTime flags,
      bo_revocationReason = bf_revocationReason flags, bo_now = bw_now w,
      bo_validityDays = bf_validityDays flags, bo_signTbs = bw_signTbs w\<rparr>"
  obtain ts target where t: "icaCertIdTargets lib rootPem icaPem = Inr ts"
    "List.find (\<lambda>t. ci_hashOid t = hashOid) ts = Some target"
    by (rule find_ica_target[OF pems(1,2) oid])
  obtain status where status: "icaCertStatusSchema ?bo = Inr status"
    "status_tag status = (if bf_status flags = ''good'' then 0 else 1)"
    using flags_status[OF flags, of ?bo] by auto
  let ?data = "ica_response lib responder target status ?bo"
  obtain sig c where sig: "bw_signTbs w (oe_tbs enc ?data) = Inr sig" "od_compactSignature dec sig = Inr c"
    "od_p256Verify dec c (ol_digest lib ''SHA-256'' (oe_tbs enc ?data)) (sc_keyBits responder) = Inr True"
    using laws(2) unfolding signs_under_def by blast
  have build: "buildOcspResponseDer lib enc ?bo = Inr (oe_response enc ?data sig responder)"
    by (simp add: buildOcspResponseDer_def pems(3) t status(1) sig(1))
  have times: "1000 dvd rs_thisUpdate ?data" "1000 dvd rs_nextUpdate ?data"
    by (simp_all add: ica_response_def Let_def whole_seconds)
  obtain inner where inner: "od_response dec (oe_response enc ?data sig responder)
      = Inr ([0], Some (OID_OCSP_BASIC, inner))" "od_basic dec inner = Inr (decoded_basic enc ?data sig responder)"
    by (rule faithful_codecD[OF laws(1) times])
  have "1 \<le> bf_validityDays flags"
    using flags by (auto simp: parse_flags_def Let_def dest: validity_days_bounds)
  then have now: "bw_now w div 1000 * 1000 \<le> bw_now w" "bw_now w < bw_now w div 1000 * 1000 + bf_validityDays flags * 86400000"
    by linarith+
  let ?vo = "\<lparr>vo_rootPem = rootPem, vo_icaPem = icaPem, vo_hashOid = hashOid, vo_status = bf_status flags,
      vo_now = bw_now w, vo_signerKeyBits = None, vo_expectEmbeddedCertPem = Some responderPem\<rparr>"
  have "\<exists>single n. check_single lib ?vo (decoded_basic enc ?data sig responder) = Inr (single, n)"
    using t status(2) now
    by (simp add: check_single_def decoded_basic_def ica_response_def certIdMatches_eq Let_def)
  moreover have "check_signer lib dec ?vo (decoded_basic enc ?data sig responder) = Inr responder"
    using sig by (simp add: check_signer_def decoded_basic_def pems(3) Let_def)
  ultimately have "\<exists>v. verifyOcspResponseDer lib dec (oe_response enc ?data sig responder) ?vo = Inr v"
    by (auto simp: verifyOcspResponseDer_def inner) (auto simp: decoded_basic_def)
  then show ?thesis by (auto simp: build_file_def build)
qed

lemma refresh_run:
  assumes "parse_flags w = Inr flags"
    and "bw_rootPem w = Inr rootPem" "bw_icaPem w = Inr icaPem" "bw_responderPem w = Inr responderPem"
    and "parseCert lib rootPem = Inr root" "parseCert lib icaPem = Inr ica" "parseCert lib responderPem = Inr responder"
    and "faithful_codec enc dec" "signs_under lib dec (sc_keyBits responder) (bw_signTbs w)"
  shows "\<exists>a b. build_main lib enc dec w =
    (0, [(bf_outDir flags @ ''/response-sha1.der'', a), (bf_outDir flags @ ''/response-sha256.der'', b)])"
  using built_passes[OF assms(1,5-9), of OID_SHA1] built_passes[OF assms(1,5-9), of OID_SHA256]
  by (auto simp: build_main_def assms(1-4) KV_KEY_BY_HASH_OID_def out_files)

text \<open>With flags that parse, certificates that parse, codecs that read back what they write and a signer
  that holds the responder key, a run of the refresh tool succeeds: it exits with 0 after writing
  both files, whatever the status asked for.\<close>

lemma refresh_succeeds:
  assumes "parse_flags w = Inr flags"
    and "bw_rootPem w = Inr rootPem" "bw_icaPem w = Inr icaPem" "bw_responderPem w = Inr responderPem"
    and "parseCert lib rootPem = Inr root" "parseCert lib icaPem = Inr ica" "parseCert lib responderPem = Inr responder"
    and "faithful_codec enc dec" "signs_under lib dec (sc_keyBits responder) (bw_signTbs w)"
  shows "\<exists>a b. build_main lib enc dec w =
    (0, [(bf_outDir flags @ ''/response-sha1.der'', a), (bf_outDir flags @ ''/response-sha256.der'', b)])"
  by (rule refresh_run[OF assms])

end
