(* ===== verification/OcspExample.thy ===== *)
theory OcspExample
  imports OcspPublication OcspLeaf
begin

text \<open>
  Instances of the theorems on the publication of certificate status: a codec that writes responses as
  JSON texts and reads them back, a signer and a verifier that agree, a store that keeps what it is
  given.
\<close>

section \<open>A codec\<close>

definition text_of :: "bytes \<Rightarrow> string" where
  "text_of bs = map char_of_byte bs"

lemma byte_of_char_of_byte [simp]: "byte_of_char (char_of_byte b) = b"
  by (simp add: byte_of_char_def char_of_byte_def)

lemma utf8_text_of [simp]: "utf8 (text_of bs) = bs" "text_of (utf8 s) = s"
  by (simp_all add: utf8_def text_of_def comp_def)

definition int_json :: "int \<Rightarrow> jsval" where
  "int_json i = JArr [JBool (i < 0), JStr (show_nat (nat \<bar>i\<bar>))]"

fun json_int :: "jsval \<Rightarrow> int" where
  "json_int (JArr [JBool neg, JStr s]) = (if neg then - int (parse_digits 0 s) else int (parse_digits 0 s))"
| "json_int _ = 0"

lemma json_int_of [simp]: "json_int (int_json i) = i"
  by (simp add: int_json_def)

fun json_bytes :: "jsval \<Rightarrow> bytes" where
  "json_bytes (JStr s) = utf8 s"
| "json_bytes _ = []"

definition cert_json :: "status_cert \<Rightarrow> jsval" where
  "cert_json c =
    JArr [JStr (text_of (sc_issuerDer c)), JStr (text_of (sc_subjectDer c)), JStr (text_of (sc_keyBits c)),
          JStr (text_of (sc_serial c)), JStr (text_of (sc_tbsView c)),
          (case sc_commonName c of None \<Rightarrow> JNull | Some s \<Rightarrow> JStr s)]"

fun json_cert :: "jsval \<Rightarrow> status_cert" where
  "json_cert (JArr [a, b, c, d, e, f]) =
     \<lparr>sc_issuerDer = json_bytes a, sc_subjectDer = json_bytes b, sc_keyBits = json_bytes c, sc_serial = json_bytes d,
      sc_tbsView = json_bytes e, sc_commonName = as_str f\<rparr>"
| "json_cert v =
     \<lparr>sc_issuerDer = [], sc_subjectDer = [], sc_keyBits = [], sc_serial = [], sc_tbsView = [], sc_commonName = None\<rparr>"

lemma json_cert_of [simp]: "json_cert (cert_json c) = c"
  by (cases c) (simp add: cert_json_def split: option.splits)

definition ex_tbs :: "response_data \<Rightarrow> bytes" where
  "ex_tbs data = of_nat (status_tag (rs_certStatus data)) # ci_serialNumber (rs_certId data)"

definition response_json :: "response_data \<Rightarrow> bytes \<Rightarrow> status_cert \<Rightarrow> jsval" where
  "response_json data sig cert =
    JArr [JStr (ci_hashOid (rs_certId data)), JStr (text_of (ci_issuerNameHash (rs_certId data))),
          JStr (text_of (ci_issuerKeyHash (rs_certId data))), JStr (text_of (ci_serialNumber (rs_certId data))),
          int_json (int (status_tag (rs_certStatus data))), int_json (rs_thisUpdate data),
          int_json (rs_nextUpdate data), int_json (rs_producedAt data), JStr (text_of (ex_tbs data)),
          JStr (text_of sig), cert_json cert]"

fun json_response :: "jsval \<Rightarrow> string + basic_response" where
  "json_response (JArr [JStr oid, nameHash, keyHash, serial, tag, this, nxt, produced, tbs, sig, cert]) =
     Inr \<lparr>ba_signatureAlgorithm = OID_ECDSA_WITH_SHA256,
          ba_responses = [\<lparr>sg_certId = \<lparr>ci_hashOid = oid, ci_issuerNameHash = json_bytes nameHash,
              ci_issuerKeyHash = json_bytes keyHash, ci_serialNumber = json_bytes serial\<rparr>,
            sg_tagClass = 3, sg_tagNumber = nat (json_int tag), sg_thisUpdate = json_int this,
            sg_nextUpdate = Some (json_int nxt)\<rparr>],
          ba_producedAt = json_int produced, ba_tbsView = json_bytes tbs, ba_signature = json_bytes sig,
          ba_certs = [json_cert cert]\<rparr>"
| "json_response v = Inl ''not a response''"

definition ex_codec :: ocsp_encoder where
  "ex_codec = \<lparr>oe_tbs = ex_tbs, oe_response = (\<lambda>data sig cert. utf8 (json_stringify (response_json data sig cert)))\<rparr>"

definition ex_decoder :: ocsp_decoder where
  "ex_decoder =
    \<lparr>od_response = (\<lambda>der. Inr ([0], Some (OID_OCSP_BASIC, der))),
     od_basic = (\<lambda>der. case json_parse (text_of der) of None \<Rightarrow> Inl ''not JSON'' | Some v \<Rightarrow> json_response v),
     od_compactSignature = (\<lambda>sig. Inr sig),
     od_p256Verify = (\<lambda>sig digest key. Inr (sig = key @ digest))\<rparr>"

lemma ex_codec_faithful: "faithful_codec ex_codec ex_decoder"
proof -
  have "json_plain (response_json data sig cert)" for data sig cert
    by (simp add: response_json_def int_json_def cert_json_def split: option.splits)
  then have "json_parse (json_stringify (response_json data sig cert)) = Some (response_json data sig cert)" for data sig cert
    by (rule json_parse_stringify)
  moreover have "json_response (response_json data sig cert) = Inr (decoded_basic ex_codec data sig cert)" for data sig cert
    by (simp add: response_json_def decoded_basic_def ex_codec_def)
  ultimately show ?thesis
    by (simp add: faithful_codec_def ex_codec_def ex_decoder_def del: json_stringify.simps)
qed

lemma ex_signer: "signs_under ex_ocsp ex_decoder key (\<lambda>tbs. Inr (key @ tbs))"
  by (simp add: signs_under_def ex_decoder_def ex_ocsp_def)

section \<open>A refresh\<close>

definition ex_build :: build_world where
  "ex_build =
    \<lparr>bw_args = [''--status'', ''revoked'', ''--revocation-time'', ''2026-01-02'', ''--revocation-reason'', ''1''],
     bw_env = (\<lambda>k. None), bw_parseDate = (\<lambda>s. Some 1767312000000), bw_rootPem = Inr [], bw_icaPem = Inr [],
     bw_responderPem = Inr [], bw_now = 1767400000500, bw_signTbs = (\<lambda>tbs. Inr ([3] @ tbs))\<rparr>"

lemma ex_flags: "bindR (parse_flags ex_build) (\<lambda>f. Inr (bf_outDir f, bf_status f)) = Inr (''out'', ''revoked'')"
  by code_simp

lemma ex_parses: "parseCert ex_ocsp [] = Inr ex_status_cert"
  by code_simp

lemma ex_laws: "signs_under ex_ocsp ex_decoder (sc_keyBits ex_status_cert) (bw_signTbs ex_build)"
proof -
  have "sc_keyBits ex_status_cert = [3]" by (simp add: ex_status_cert_def)
  then show ?thesis using ex_signer[of "[3]"] by (simp add: ex_build_def)
qed

lemmas ex_certs = ex_parses ex_parses ex_parses

theorem refresh_succeeds_witness:
  "\<exists>a b. build_main ex_ocsp ex_codec ex_decoder ex_build
     = (0, [(''out/response-sha1.der'', a), (''out/response-sha256.der'', b)])"
proof -
  obtain flags where f: "parse_flags ex_build = Inr flags" "bf_outDir flags = ''out''" using ex_flags by auto
  from refresh_succeeds[OF f(1) _ _ _ ex_certs ex_codec_faithful ex_laws] f(2)
  show ?thesis by (simp add: ex_build_def)
qed

theorem written_files_checked_witness:
  "\<exists>der opts basic. (''out/response-sha1.der'', der) \<in> set (snd (build_main ex_ocsp ex_codec ex_decoder ex_build))
     \<and> vo_status opts = ''revoked'' \<and> checked_response ex_ocsp ex_decoder opts der basic"
proof -
  obtain flags where f: "parse_flags ex_build = Inr flags" "bf_outDir flags = ''out''" "bf_status flags = ''revoked''"
    using ex_flags by auto
  from refresh_run[OF f(1) _ _ _ ex_certs ex_codec_faithful ex_laws] f(2) obtain der where
    "(''out/response-sha1.der'', der) \<in> set (snd (build_main ex_ocsp ex_codec ex_decoder ex_build))"
    by (auto simp: ex_build_def)
  note written = this
  from written_files_checked[OF this] obtain flags' rp ip sp oid basic where
    p: "parse_flags ex_build = Inr flags'" and
    c: "checked_response ex_ocsp ex_decoder
      \<lparr>vo_rootPem = rp, vo_icaPem = ip, vo_hashOid = oid, vo_status = bf_status flags', vo_now = bw_now ex_build,
       vo_signerKeyBits = None, vo_expectEmbeddedCertPem = Some sp\<rparr> der basic"
    by blast
  from f p have "bf_status flags' = ''revoked''" by simp
  with written c show ?thesis by (metis verify_opts.select_convs(4))
qed

section \<open>A publication\<close>

text \<open>A revocation is persisted, and read back by the next refresh.\<close>

definition ex_toml :: string where
  \<open>ex_toml = ''kv_namespaces = [{ binding = "OCSP_RESPONSES", id = "544330752c3d4641a96ba2192cc2e9ab" }]''\<close>

definition ex_env :: env where
  "ex_env = map_of [(''CLOUDFLARE_API_TOKEN'', ''t''), (''CLOUDFLARE_ACCOUNT_ID'', ''a''),
     (''STATUS'', ''revoked''), (''REVOCATION_TIME'', ''2026-01-02''), (''REVOCATION_REASON'', ''1'')]"

definition ex_refresh :: "kv_read \<Rightarrow> refresh_world" where
  "ex_refresh stored =
    \<lparr>rw_env = ex_env, rw_wranglerToml = Inr ex_toml, rw_rootPem = Inr [], rw_icaPem = Inr [],
     rw_builtResponse = Inr [9], rw_kvGet = (\<lambda>url token. stored), rw_kvPut = (\<lambda>url token body. Inr 200),
     rw_live = (\<lambda>attempt. worker_answer ex_ica_ocsp ex_assets (\<lambda>k. Some [9]) None ''http://ocsp.realreel.xyz'')\<rparr>"

definition ex_persisted :: string where
  "ex_persisted = json_stringify (record_json
     \<lparr>sr_status = ''revoked'', sr_revocationTime = ''2026-01-02'', sr_revocationReason = ''1''\<rparr>)"

lemma ex_kv_config:
  "kvConfigFromEnv (ex_refresh stored)
     = Inr \<lparr>kc_token = ''t'', kc_accountId = ''a'', kc_namespaceId = ''544330752c3d4641a96ba2192cc2e9ab''\<rparr>"
proof -
  have "namespaceIdFromWranglerToml ex_toml = Some ''544330752c3d4641a96ba2192cc2e9ab''" by code_simp
  then show ?thesis by (simp add: kvConfigFromEnv_def ex_refresh_def ex_env_def env_or_empty_def)
qed

lemma ex_worlds:
  "rw_kvGet (ex_refresh stored) url token = stored" "rw_rootPem (ex_refresh stored) = Inr []"
  "rw_icaPem (ex_refresh stored) = Inr []" "rw_builtResponse (ex_refresh stored) = Inr [9]"
  "rw_live (ex_refresh stored)
     = (\<lambda>attempt. worker_answer ex_ica_ocsp ex_assets (\<lambda>k. Some [9]) None ''http://ocsp.realreel.xyz'')"
  by (simp_all add: ex_refresh_def)

lemma ex_env_values:
  "env_or_empty (rw_env (ex_refresh stored)) ''STATUS'' = ''revoked''"
  "env_or_empty (rw_env (ex_refresh stored)) ''REVOCATION_TIME'' = ''2026-01-02''"
  "env_or_empty (rw_env (ex_refresh stored)) ''REVOCATION_REASON'' = ''1''"
  "env_or_empty (rw_env (ex_refresh stored)) ''INPUT_STATUS'' = []"
  "env_or_empty (rw_env (ex_refresh stored)) ''OCSP_URL'' = []"
  by (simp_all add: env_or_empty_def ex_refresh_def ex_env_def)

definition ex_kv_url :: string where
  "ex_kv_url = kvStatusUrl
     \<lparr>kc_token = ''t'', kc_accountId = ''a'', kc_namespaceId = ''544330752c3d4641a96ba2192cc2e9ab''\<rparr>"

lemma ex_persist: "\<exists>out. persist_status_cmd (ex_refresh stored) = Inr (out, ex_kv_url, ex_persisted)"
proof -
  have "clean_record \<lparr>sr_status = ''revoked'', sr_revocationTime = ''2026-01-02'', sr_revocationReason = ''1''\<rparr>"
    by code_simp
  then show ?thesis
    by (simp add: persist_status_cmd_def ex_kv_config ex_env_values ex_persisted_def ex_kv_url_def Let_def
        del: json_stringify.simps) (simp add: ex_refresh_def)
qed

theorem published_status_sticky_witness:
  "resolve_status_cmd (ex_refresh (Inr (200, ex_persisted)))
     = Inr [''status=revoked'', ''time=2026-01-02'', ''reason=1'', ''explicit=false'']"
proof -
  obtain out where p: "persist_status_cmd (ex_refresh (Inr (200, []))) = Inr (out, ex_kv_url, ex_persisted)"
    using ex_persist by blast
  show ?thesis
    using published_status_sticky[OF p ex_kv_config] unfolding ex_env_values
    by (simp add: ex_kv_url_def ex_worlds)
qed

theorem status_outputs_clean_witness:
  "resolve_status_cmd (ex_refresh (Inr (404, []))) = Inr [''status=good'', ''time='', ''reason='', ''explicit=false'']
   \<and> CHR 0x0A \<notin> set ''status=good''"
proof -
  have r: "resolve_status_cmd (ex_refresh (Inr (404, [])))
      = Inr [''status=good'', ''time='', ''reason='', ''explicit=false'']"
    by (simp add: resolve_status_cmd_def ex_kv_config ex_env_values ex_worlds resolveStatus_def status_outputs_def)
  with status_outputs_clean[OF r] show ?thesis by simp
qed

definition ex_request :: "cert_id \<Rightarrow> bytes" where
  "ex_request c = ci_serialNumber c"

theorem published_is_visible_witness:
  "verify_live_cmd ex_ica_ocsp ex_request (ex_refresh (Inr (404, []))) = Inr 1"
proof -
  have "ocsp_url (ex_refresh (Inr (404, []))) = ''http://ocsp.realreel.xyz''"
    by (simp add: ocsp_url_def ex_env_values)
  moreover have "sha1Target ex_ica_ocsp (ex_refresh (Inr (404, [])))
      = Inr \<lparr>ci_hashOid = OID_SHA1, ci_issuerNameHash = [1], ci_issuerKeyHash = [3], ci_serialNumber = [4]\<rparr>"
    by code_simp
  moreover have "ex_request \<lparr>ci_hashOid = OID_SHA1, ci_issuerNameHash = [1], ci_issuerKeyHash = [3], ci_serialNumber = [4]\<rparr> = [4]"
    by (simp add: ex_request_def)
  ultimately show ?thesis
    by (intro published_is_visible[where assets = ex_assets and store = "\<lambda>k. Some [9]" and published = "[9]" and fwd = None
          and c = "\<lparr>ci_hashOid = OID_SHA1, ci_issuerNameHash = [1], ci_issuerKeyHash = [3], ci_serialNumber = [4]\<rparr>"])
       (simp_all add: ex_worlds ex_assets_def ex_ica_ocsp_def)
qed

end
