(* ===== verification/ServerExample.thy ===== *)
theory ServerExample
  imports VerifierServer Examples
begin

text \<open>
  An instance of the service: the configuration of \<open>VerifierConfig\<close>, the upload of \<open>Examples\<close>, and a
  storage that holds its bytes under their tag.
\<close>

definition ex_storage :: asset_storage where
  "ex_storage url etag =
    (if url = ''https://b/x'' \<and> etag = ''e1''
     then Inr \<lparr>ar_status = 200, ar_contentLength = Some ''4'', ar_body = Inr [0xff, 0xd8, 0xff, 0xe0]\<rparr>
     else Inr \<lparr>ar_status = 412, ar_contentLength = None, ar_body = Inr []\<rparr>)"

definition ex_server :: "challenge_state server_env" where
  "ex_server =
    \<lparr>se_config = ex_settings, se_trustConfig = ex_config, se_env = ex_env, se_reader = ex_reader ex_store,
     se_probes = ex_probes, se_urlHost = (\<lambda>url. Some ''B''), se_storage = ex_storage, se_pingDb = (\<lambda>s. Inr ())\<rparr>"

definition ex_body :: jsval where
  "ex_body = JObj [(''signedUrl'', JStr ''https://b/x''), (''expectedUserId'', JStr ''u1''), (''expectedEtag'', JStr ''e1''),
     (''expectedContentLength'', JNum (DecNum 4 0)), (''mimeType'', JStr ''image/JPEG''),
     (''declaredLocation'', JStr ''general'')]"

definition ex_request_ok :: server_request where
  "ex_request_ok = \<lparr>sq_route = Route_verify, sq_authorization = Some ''Bearer s'', sq_body = Inr ex_body\<rparr>"

lemma ex_served:
  "sp_status (fst (serve ex_server ex_request_ok ex_challenges)) = 200"
  "fst (snd (serve ex_server ex_request_ok ex_challenges)) = [(''key-9'', ''b3Ro'')]"
  "snd (snd (serve ex_server ex_request_ok ex_challenges)) = [(''https://b/x'', ''e1'')]"
  by code_simp+

lemma ex_serve_eq:
  obtains b where "serve ex_server ex_request_ok ex_challenges
    = (\<lparr>sp_status = 200, sp_body = b\<rparr>, [(''key-9'', ''b3Ro'')], [(''https://b/x'', ''e1'')])"
proof -
  obtain r s' f where r: "serve ex_server ex_request_ok ex_challenges = (r, s', f)" by (metis prod.collapse)
  with ex_served have "sp_status r = 200" "s' = [(''key-9'', ''b3Ro'')]" "f = [(''https://b/x'', ''e1'')]" by simp_all
  moreover from this(1) have "r = \<lparr>sp_status = 200, sp_body = sp_body r\<rparr>" by simp
  ultimately show ?thesis using that r by metis
qed

theorem served_ok_is_verified_witness:
  "\<exists>body assetBytes. parse_verify_body ex_body = Some body \<and> fetched_asset ex_settings ex_storage body assetBytes"
proof -
  obtain b where e: "serve ex_server ex_request_ok ex_challenges
    = (\<lparr>sp_status = 200, sp_body = b\<rparr>, [(''key-9'', ''b3Ro'')], [(''https://b/x'', ''e1'')])"
    by (rule ex_serve_eq)
  have "sq_route ex_request_ok = Route_verify" by (simp add: ex_request_ok_def)
  from served_ok_is_verified[OF e this] show ?thesis
    by (auto simp: ex_server_def ex_request_ok_def)
qed

theorem fetches_only_allowlisted_witness:
  "bearer_ok ex_settings (Some ''Bearer s'')"
proof -
  obtain b where e: "serve ex_server ex_request_ok ex_challenges
    = (\<lparr>sp_status = 200, sp_body = b\<rparr>, [(''key-9'', ''b3Ro'')], [(''https://b/x'', ''e1'')])"
    by (rule ex_serve_eq)
  from fetches_only_allowlisted[OF e] show ?thesis
    by (auto simp: ex_server_def ex_request_ok_def)
qed

text \<open>The same upload again: its challenge is spent.\<close>

lemma ex_served_again:
  "sp_status (fst (serve ex_server ex_request_ok [(''key-9'', ''b3Ro'')])) = 422"
  by code_simp

theorem replies_classified_witness:
  "reply_wf (fst (serve ex_server ex_request_ok [(''key-9'', ''b3Ro'')]))
   \<and> bearer_ok ex_settings (sq_authorization ex_request_ok)"
proof -
  obtain r s' f where r: "serve ex_server ex_request_ok [(''key-9'', ''b3Ro'')] = (r, s', f)" by (metis prod.collapse)
  have "sq_route ex_request_ok = Route_verify" by (simp add: ex_request_ok_def)
  from replies_classified[OF r this] r ex_served_again show ?thesis
    by (simp add: ex_server_def)
qed

end
