(* ===== verification/PkiRouter.thy ===== *)
theory PkiRouter
  imports Ocsp
begin

text \<open>
  The public certificate repository, \<open>pki/router.ts\<close>: the two CA certificates, each as PEM and as DER, and
  an index page with the fingerprint of the root.  SHA-256 is a parameter; a certificate that does not
  decode is an error of the worker.
\<close>

definition PKI_CACHE :: string where "PKI_CACHE = ''public, max-age=3600''"
definition PKI_ALLOW :: string where "PKI_ALLOW = ''GET, HEAD, OPTIONS''"

definition sha256HexUpper :: "(bytes \<Rightarrow> bytes) \<Rightarrow> bytes \<Rightarrow> string" where
  "sha256HexUpper sha256 bs = map upper_char (bytesToHex (sha256 bs))"

definition pki_index_html :: "string \<Rightarrow> string" where
  \<open>pki_index_html rootFingerprint = join_with [CHR 0x0A]
    [''<!doctype html>'',
     ''<html lang="en"><head><meta charset="utf-8">'',
     ''<meta name="viewport" content="width=device-width, initial-scale=1">'',
     ''<title>RealReel C2PA PKI</title>'',
     ''<style>body{font:15px/1.6 -apple-system,Arial,sans-serif;max-width:42rem;margin:3rem auto;padding:0 1rem;color:#111}code{background:#f4f4f4;padding:1px 5px;border-radius:3px;word-break:break-all}a{color:#2456c8}</style>'',
     ''</head><body>'',
     ''<h1>RealReel C2PA PKI</h1>'',
     ''<p>Public certificate repository for the RealReel C2PA Certification Authority, operated by Whole Earth Labs LLC.</p>'',
     ''<ul>'',
     ''<li><a href="/realreel-c2pa-root.cer">realreel-c2pa-root.cer</a> / <a href="/realreel-c2pa-root.pem">.pem</a> &mdash; root CA (trust anchor)</li>'',
     ''<li><a href="/realreel-claim-signing-ca.cer">realreel-claim-signing-ca.cer</a> / <a href="/realreel-claim-signing-ca.pem">.pem</a> &mdash; Claim Signing intermediate CA</li>'',
     ''</ul>'',
     ''<p>Root SHA-256: <code>'' @ rootFingerprint @ ''</code></p>'',
     ''</body></html>'']\<close>

definition cer_response :: "string \<Rightarrow> string \<Rightarrow> string + web_response" where
  "cer_response fileName pem =
    (case pemToDer pem of
       None \<Rightarrow> Inl ''InvalidCharacterError''
     | Some der \<Rightarrow>
         Inr \<lparr>wr_status = 200,
              wr_headers = cors_headers [(''content-type'', ''application/pkix-cert''),
                (''content-disposition'', ''inline; filename='' @ [CHR 0x22] @ fileName @ [CHR 0x22]),
                (''cache-control'', PKI_CACHE)],
              wr_body = der\<rparr>)"

definition pem_response :: "string \<Rightarrow> web_response" where
  "pem_response pem =
    \<lparr>wr_status = 200,
     wr_headers = cors_headers [(''content-type'', ''application/x-pem-file; charset=utf-8''), (''cache-control'', PKI_CACHE)],
     wr_body = utf8 pem\<rparr>"

definition pki_preflight :: web_response where
  "pki_preflight =
    \<lparr>wr_status = 204,
     wr_headers = cors_headers [(''allow'', PKI_ALLOW), (''access-control-allow-methods'', PKI_ALLOW),
       (''access-control-max-age'', ''86400'')],
     wr_body = []\<rparr>"

definition pki_method_refused :: web_response where
  "pki_method_refused =
    \<lparr>wr_status = 405,
     wr_headers = cors_headers [(''allow'', PKI_ALLOW), (''content-type'', ''text/plain; charset=utf-8'')],
     wr_body = utf8 (''Method Not Allowed'' @ [CHR 0x0A])\<rparr>"

definition handlePki :: "(bytes \<Rightarrow> bytes) \<Rightarrow> cert_assets \<Rightarrow> web_request \<Rightarrow> string + web_response" where
  "handlePki sha256 assets req =
    (if wq_method req = ''OPTIONS'' then Inr pki_preflight
     else if wq_method req \<noteq> ''GET'' \<and> wq_method req \<noteq> ''HEAD'' then Inr pki_method_refused
     else
       (let pathname = wq_pathname req in
        if pathname = ''/realreel-c2pa-root.cer'' then cer_response ''realreel-c2pa-root.cer'' (as_rootPem assets)
        else if pathname = ''/realreel-c2pa-root.pem'' then Inr (pem_response (as_rootPem assets))
        else if pathname = ''/realreel-claim-signing-ca.cer''
        then cer_response ''realreel-claim-signing-ca.cer'' (as_icaPem assets)
        else if pathname = ''/realreel-claim-signing-ca.pem'' then Inr (pem_response (as_icaPem assets))
        else if pathname = ''/''
        then (case pemToDer (as_rootPem assets) of
                None \<Rightarrow> Inl ''InvalidCharacterError''
              | Some der \<Rightarrow>
                  Inr \<lparr>wr_status = 200,
                       wr_headers = cors_headers [(''content-type'', ''text/html; charset=utf-8''),
                         (''cache-control'', PKI_CACHE)],
                       wr_body = utf8 (pki_index_html (sha256HexUpper sha256 der))\<rparr>)
        else Inr \<lparr>wr_status = 404, wr_headers = cors_headers [(''content-type'', ''text/plain; charset=utf-8'')],
                  wr_body = utf8 (''Not found'' @ [CHR 0x0A])\<rparr>))"

definition pki_get :: "string \<Rightarrow> web_request" where
  "pki_get path = \<lparr>wq_method = ''GET'', wq_pathname = path, wq_headers = (\<lambda>h. None), wq_body = []\<rparr>"

text \<open>The two forms of a certificate agree: the DER a client downloads is the DER of the PEM it downloads,
  and the page prints the fingerprint of that very file.\<close>

lemma pki_forms_agree:
  assumes "handlePki sha256 assets (pki_get ''/realreel-c2pa-root.cer'') = Inr cer"
    and "handlePki sha256 assets (pki_get ''/realreel-c2pa-root.pem'') = Inr pem"
    and "handlePki sha256 assets (pki_get ''/'') = Inr page"
  shows "\<exists>t. wr_body pem = utf8 t \<and> pemToDer t = Some (wr_body cer)
    \<and> wr_body page = utf8 (pki_index_html (sha256HexUpper sha256 (wr_body cer)))"
  using assms by (auto simp: handlePki_def pki_get_def cer_response_def pem_response_def split: option.splits)

lemma pki_always_cors:
  "handlePki sha256 assets req = Inr r \<Longrightarrow> map_of (wr_headers r) ''access-control-allow-origin'' = Some ''*''"
  by (auto simp: handlePki_def cer_response_def pem_response_def pki_preflight_def pki_method_refused_def
      cors_headers_def Let_def split: if_splits option.splits)

end
