(* ===== verification/Trace.thy ===== *)
theory Trace
  imports Prelude
begin

text \<open>
  Computations that leave a trace of events, in order, and may stop: what command-line tools do to the
  world around them.
\<close>

type_synonym ('s, 'e, 'a) traced = "('s + 'a) \<times> 'e list"

definition bindW :: "('s, 'e, 'a) traced \<Rightarrow> ('a \<Rightarrow> ('s, 'e, 'b) traced) \<Rightarrow> ('s, 'e, 'b) traced" where
  "bindW m f = (case m of (Inl s, es) \<Rightarrow> (Inl s, es)
     | (Inr x, es) \<Rightarrow> (case f x of (r, es') \<Rightarrow> (r, es @ es')))"

definition liftW :: "'s + 'a \<Rightarrow> ('s, 'e, 'a) traced" where
  "liftW r = (r, [])"

definition tellW :: "'e \<Rightarrow> ('s, 'e, unit) traced" where
  "tellW e = (Inr (), [e])"

text \<open>\<open>try { m } finally { e }\<close>.\<close>

definition finallyW :: "('s, 'e, 'a) traced \<Rightarrow> 'e \<Rightarrow> ('s, 'e, 'a) traced" where
  "finallyW m e = (case m of (r, es) \<Rightarrow> (r, es @ [e]))"

lemma bindW_iff:
  "bindW m f = (r, es) \<longleftrightarrow>
     (\<exists>s. m = (Inl s, es) \<and> r = Inl s)
     \<or> (\<exists>x e1 e2. m = (Inr x, e1) \<and> f x = (r, e2) \<and> es = e1 @ e2)"
  by (auto simp: bindW_def split: prod.splits sum.splits)

lemma liftW_iff: "liftW a = (r, es) \<longleftrightarrow> es = [] \<and> a = r"
  by (auto simp: liftW_def)

lemma tellW_iff: "tellW e = (r, es) \<longleftrightarrow> es = [e] \<and> r = Inr ()"
  by (auto simp: tellW_def)

lemma finallyW_iff: "finallyW m e = (r, es) \<longleftrightarrow> (\<exists>es'. m = (r, es') \<and> es = es' @ [e])"
  by (auto simp: finallyW_def split: prod.splits)

lemmas trace_simps = bindW_iff liftW_iff tellW_iff finallyW_iff

text \<open>A step whose events all satisfy \<open>P\<close> is not where an event that does not comes from.\<close>

lemma bindW_loud:
  assumes "bindW m f = (r, es)" "\<not> (\<forall>e \<in> set es. P e)" "\<And>r e. m = (r, e) \<Longrightarrow> \<forall>x \<in> set e. P x"
  obtains x e1 e2 where "m = (Inr x, e1)" "f x = (r, e2)" "es = e1 @ e2" "\<not> (\<forall>e \<in> set e2. P e)"
proof -
  from assms(1) consider s where "m = (Inl s, es)"
    | x e1 e2 where "m = (Inr x, e1)" "f x = (r, e2)" "es = e1 @ e2"
    unfolding bindW_iff by blast
  then show thesis
  proof cases
    case 1
    with assms(2,3) show thesis by blast
  next
    case 2
    moreover have "\<not> (\<forall>e \<in> set e2. P e)" using 2 assms(2,3) by fastforce
    ultimately show thesis by (rule that)
  qed
qed

end
