(* ===== verification/Ceremony.thy ===== *)
theory Ceremony
  imports LeafIssuance Trace
begin

text \<open>
  The ceremony tool \<open>ca/tools/build-ca-certs.ts\<close>, which builds and signs the certificates of the CA
  hierarchy: the profile table and its lint, the certificate assembly, the self-check after signing,
  the review text, and the command line.  The ASN.1 codec, the digests, the curve and Cloud KMS are
  parameters; what the tool does to the world is a trace of events, in order.
\<close>

section \<open>Profiles\<close>

definition CA_ORG :: string where "CA_ORG = ''Whole Earth Labs LLC''"
definition CA_COUNTRY :: string where "CA_COUNTRY = ''US''"

definition OID_ocspNoCheck :: string where "OID_ocspNoCheck = ''1.3.6.1.5.5.7.48.1.5''"
definition OID_ekuOcspSigning :: string where "OID_ekuOcspSigning = ''1.3.6.1.5.5.7.3.9''"

definition EC_CURVE_NAMES :: "string \<Rightarrow> string option" where
  "EC_CURVE_NAMES = map_of
    [(''1.2.840.10045.3.1.7'', ''P-256''), (''1.3.132.0.34'', ''P-384''), (''1.3.132.0.35'', ''P-521'')]"

text \<open>A key usage: the bytes of the bit string and its unused bits.\<close>

type_synonym key_usage = "bytes \<times> nat"

definition KU_CA :: key_usage where "KU_CA = ([0x06], 1)"
definition KU_DS :: key_usage where "KU_DS = ([0x80], 7)"

record basic_constraints =
  bc_cA :: bool
  bc_pathLen :: "nat option"

record aia_urls =
  aia_ocspUrl :: string
  aia_caIssuersUrl :: string

record ca_profile =
  cp_cn :: string
  cp_kmsKey :: string
  cp_signerKey :: string
  cp_issuerCn :: "string option"
  cp_selfSigned :: bool
  cp_validityDays :: int
  cp_basicConstraints :: basic_constraints
  cp_keyUsage :: key_usage
  cp_eku :: "string list option"
  cp_certificatePolicies :: "string list option"
  cp_aia :: "aia_urls option"
  cp_ocspNoCheck :: bool

definition ROOT_CN :: string where "ROOT_CN = ''RealReel C2PA Root CA''"
definition ICA_CN :: string where "ICA_CN = ''RealReel Claim Signing CA''"

datatype profile_name = Root_profile | Ica_profile | Ocsp_profile | Ocsp_leaf_profile

fun profile_label :: "profile_name \<Rightarrow> string" where
  "profile_label Root_profile = ''root''"
| "profile_label Ica_profile = ''ica''"
| "profile_label Ocsp_profile = ''ocsp''"
| "profile_label Ocsp_leaf_profile = ''ocsp-leaf''"

definition profile_names :: "profile_name list" where
  "profile_names = [Root_profile, Ica_profile, Ocsp_profile, Ocsp_leaf_profile]"

fun PROFILES :: "profile_name \<Rightarrow> ca_profile" where
  "PROFILES Root_profile =
    \<lparr>cp_cn = ROOT_CN, cp_kmsKey = ''realreel-root'', cp_signerKey = ''realreel-root'',
     cp_issuerCn = None, cp_selfSigned = True, cp_validityDays = 9131,
     cp_basicConstraints = \<lparr>bc_cA = True, bc_pathLen = Some 1\<rparr>, cp_keyUsage = KU_CA,
     cp_eku = None, cp_certificatePolicies = None, cp_aia = None, cp_ocspNoCheck = False\<rparr>"
| "PROFILES Ica_profile =
    \<lparr>cp_cn = ICA_CN, cp_kmsKey = ''realreel-claim-ica'', cp_signerKey = ''realreel-root'',
     cp_issuerCn = Some ROOT_CN, cp_selfSigned = False, cp_validityDays = 1825,
     cp_basicConstraints = \<lparr>bc_cA = True, bc_pathLen = Some 0\<rparr>, cp_keyUsage = KU_CA,
     cp_eku = Some [OID_ekuC2PAClaimSigning, OID_ekuDocumentSigning, OID_ekuEmailProtection],
     cp_certificatePolicies = Some [OID_c2paCertPolicy],
     cp_aia = Some \<lparr>aia_ocspUrl = ''http://ocsp.realreel.xyz'',
                    aia_caIssuersUrl = ''http://pki.realreel.xyz/realreel-c2pa-root.cer''\<rparr>,
     cp_ocspNoCheck = False\<rparr>"
| "PROFILES Ocsp_profile =
    \<lparr>cp_cn = ''RealReel OCSP Responder 1'', cp_kmsKey = ''realreel-ocsp-root'',
     cp_signerKey = ''realreel-root'', cp_issuerCn = Some ROOT_CN, cp_selfSigned = False,
     cp_validityDays = 366, cp_basicConstraints = \<lparr>bc_cA = False, bc_pathLen = None\<rparr>,
     cp_keyUsage = KU_DS, cp_eku = Some [OID_ekuOcspSigning], cp_certificatePolicies = None,
     cp_aia = None, cp_ocspNoCheck = True\<rparr>"
| "PROFILES Ocsp_leaf_profile =
    \<lparr>cp_cn = ''RealReel Leaf OCSP Responder 1'', cp_kmsKey = ''realreel-ocsp-ica'',
     cp_signerKey = ''realreel-claim-ica'', cp_issuerCn = Some ICA_CN, cp_selfSigned = False,
     cp_validityDays = 366, cp_basicConstraints = \<lparr>bc_cA = False, bc_pathLen = None\<rparr>,
     cp_keyUsage = KU_DS, cp_eku = Some [OID_ekuOcspSigning], cp_certificatePolicies = None,
     cp_aia = None, cp_ocspNoCheck = True\<rparr>"

section \<open>The lint\<close>

definition lint_common :: "ca_profile \<Rightarrow> string + unit" where
  "lint_common p =
    bindR (guardR (cp_selfSigned p = (cp_issuerCn p = None)) ''selfSigned and issuerCn disagree'') (\<lambda>_.
    guardR (\<not> (cp_selfSigned p \<and> cp_signerKey p \<noteq> cp_kmsKey p))
      ''a self-signed cert must be signed by its own key'')"

definition lint_root :: "ca_profile \<Rightarrow> string + unit" where
  "lint_root p =
    bindR (guardR (cp_selfSigned p) ''root must be self-signed'') (\<lambda>_.
    bindR (guardR (bc_cA (cp_basicConstraints p)) ''root must be CA:TRUE'') (\<lambda>_.
    bindR (guardR (\<not> null_or (bc_pathLen (cp_basicConstraints p)) 99 > 2) ''root pathLen must be at most 2'') (\<lambda>_.
    bindR (guardR (cp_keyUsage p = ([0x06], 1)) ''root KU must be exactly keyCertSign|cRLSign'') (\<lambda>_.
    bindR (guardR (cp_eku p = None) ''root MUST NOT carry EKU'') (\<lambda>_.
    guardR (cp_aia p = None) ''root MUST NOT carry AIA'')))))"

definition lint_ica :: "ca_profile \<Rightarrow> string + unit" where
  "lint_ica p =
    bindR (guardR (\<not> cp_validityDays p > 1827)
      (''issuing CA validity '' @ show_int (cp_validityDays p) @ ''d exceeds CP cap of 1827d'')) (\<lambda>_.
    bindR (guardR (\<not> (\<not> bc_cA (cp_basicConstraints p) \<or> bc_pathLen (cp_basicConstraints p) \<noteq> Some 0))
      ''issuing CA must be CA:TRUE pathlen 0'') (\<lambda>_.
    bindR (guardR (cp_keyUsage p = ([0x06], 1)) ''issuing CA KU must be exactly keyCertSign|cRLSign'') (\<lambda>_.
    bindR (guardR (case cp_aia p of None \<Rightarrow> False | Some a \<Rightarrow> aia_ocspUrl a \<noteq> [])
      ''issuing CA MUST carry AIA/OCSP'') (\<lambda>_.
    bindR (guardR (case cp_certificatePolicies p of None \<Rightarrow> False | Some ps \<Rightarrow> OID_c2paCertPolicy \<in> set ps)
      ''issuing CA MUST carry the C2PA certificate policy OID'') (\<lambda>_.
    bindR (guardR (case cp_eku p of None \<Rightarrow> False | Some es \<Rightarrow> OID_ekuC2PAClaimSigning \<in> set es)
      ''issuing CA EKU MUST contain c2pa-kp-claimSigning'') (\<lambda>_.
    guardR (\<not> (cp_issuerCn p \<noteq> Some ROOT_CN \<or> cp_signerKey p \<noteq> ''realreel-root''))
      (''ica must be issued by '' @ ROOT_CN @ '' (KMS key realreel-root)'')))))))"

definition lint_responder :: "profile_name \<Rightarrow> ca_profile \<Rightarrow> string + unit" where
  "lint_responder name p =
    bindR (guardR (\<not> bc_cA (cp_basicConstraints p)) ''OCSP responder must be CA:FALSE'') (\<lambda>_.
    bindR (guardR (cp_keyUsage p = ([0x80], 7)) ''OCSP responder KU must be exactly digitalSignature'') (\<lambda>_.
    bindR (guardR (\<not> (\<not> cp_ocspNoCheck p
        \<or> (case cp_eku p of None \<Rightarrow> True | Some es \<Rightarrow> length es \<noteq> 1 \<or> es ! 0 \<noteq> OID_ekuOcspSigning)))
      ''OCSP responder MUST be exactly id-kp-OCSPSigning + ocsp-nocheck'') (\<lambda>_.
    bindR (guardR (cp_aia p = None) ''OCSP responder MUST NOT carry AIA'') (\<lambda>_.
    bindR (guardR (\<not> cp_validityDays p > 366)
      (''ocsp-nocheck responder validity '' @ show_int (cp_validityDays p) @ ''d exceeds 366d'')) (\<lambda>_.
      let wantIssuer = (if name = Ocsp_profile then ROOT_CN else ICA_CN);
          wantSigner = (if name = Ocsp_profile then ''realreel-root'' else ''realreel-claim-ica'') in
      guardR (\<not> (cp_issuerCn p \<noteq> Some wantIssuer \<or> cp_signerKey p \<noteq> wantSigner))
        (profile_label name @ '' must be issued by '' @ wantIssuer @ '' (KMS key '' @ wantSigner @ '')''))))))"

definition lintProfile :: "profile_name \<Rightarrow> ca_profile \<Rightarrow> string + unit" where
  "lintProfile name p =
    bindR (lint_common p) (\<lambda>_.
      case name of
        Root_profile \<Rightarrow> lint_root p
      | Ica_profile \<Rightarrow> lint_ica p
      | Ocsp_profile \<Rightarrow> lint_responder name p
      | Ocsp_leaf_profile \<Rightarrow> lint_responder name p)"

section \<open>Certificates\<close>

type_synonym ca_name = "(string \<times> string \<times> string_class) list"

record ca_time =
  ti_generalized :: bool
  ti_value :: int

text \<open>A public key: its encoding, the bytes of its bit string, and the identifier of its parameters
  when they are one.\<close>

record ca_key =
  ck_der :: bytes
  ck_bits :: bytes
  ck_params :: "string option"

datatype ca_ext_value =
    Ca_basic bool "nat option"
  | Ca_usage key_usage
  | Ca_purposes "string list"
  | Ca_policies "string list"
  | Ca_access "(string \<times> string) list"
  | Ca_null
  | Ca_ski bytes
  | Ca_aki bytes

record ca_cert =
  cc_version :: nat
  cc_serialNumber :: bytes
  cc_issuer :: ca_name
  cc_subject :: ca_name
  cc_notBefore :: ca_time
  cc_notAfter :: ca_time
  cc_key :: ca_key
  cc_signatureAlgorithm :: string
  cc_extensions :: "extension list"
  cc_signature :: bytes

record ca_lib =
  cl_fromBER :: "bytes \<Rightarrow> asn1 option"
  cl_parseKey :: "bytes \<Rightarrow> ca_key option"
  cl_parseCert :: "bytes \<Rightarrow> ca_cert option"
  cl_encodeTBS :: "ca_cert \<Rightarrow> bytes"
  cl_encodeCert :: "ca_cert \<Rightarrow> bytes"
  cl_extDer :: "ca_ext_value \<Rightarrow> bytes"
  cl_sha1 :: "bytes \<Rightarrow> bytes"
  cl_sha256 :: "bytes \<Rightarrow> bytes"
  cl_sha384 :: "bytes \<Rightarrow> bytes"
  cl_p384_verify :: "bytes \<Rightarrow> bytes \<Rightarrow> bytes \<Rightarrow> bool option"

definition subjectDn :: "string \<Rightarrow> ca_name" where
  "subjectDn cn =
    [(OID_countryName, CA_COUNTRY, Printable_string), (OID_organizationName, CA_ORG, Utf8_string),
     (OID_commonName, cn, Utf8_string)]"

text \<open>\<open>dn.typesAndValues.find(tv => tv.type === OID.commonName)?.value\<close>.\<close>

definition common_name :: "ca_name \<Rightarrow> string option" where
  "common_name n = map_option (\<lambda>(t, v, c). v) (List.find (\<lambda>(t, v, c). t = OID_commonName) n)"

definition assertIssuerCn :: "ca_cert \<Rightarrow> ca_profile \<Rightarrow> string + unit" where
  "assertIssuerCn issuer p =
    guardR (common_name (cc_subject issuer) = cp_issuerCn p)
      (''issuer mismatch: '' @ cp_cn p @ '' must be issued by '' @ null_or (cp_issuerCn p) ''null''
       @ '', but the supplied issuer certificate is '' @ null_or (common_name (cc_subject issuer)) ''undefined'')"

definition parse_ca_pem :: "ca_lib \<Rightarrow> string \<Rightarrow> string + ca_cert" where
  "parse_ca_pem lib pem = derefR ''failed to parse DER as ASN.1'' (chain (pemToDer pem) (cl_parseCert lib))"

definition spkiPemToDer :: "string \<Rightarrow> bytes option" where
  "spkiPemToDer pem =
    base64ToBytes (filter (\<lambda>c. \<not> is_space c)
      (remove_all ''-----END PUBLIC KEY-----'' (remove_all ''-----BEGIN PUBLIC KEY-----'' pem)))"

definition blockBytes :: "asn1 option \<Rightarrow> string + bytes" where
  "blockBytes n =
    (case n of
       Some (Node cl t k v hv h d) \<Rightarrow>
         (case hv of Some b \<Rightarrow> Inr b
          | None \<Rightarrow> (case h of Some b \<Rightarrow> Inr b | None \<Rightarrow> Inl ''cannot extract ASN.1 value bytes''))
     | _ \<Rightarrow> Inl ''cannot extract ASN.1 value bytes'')"

definition pointBytesFromSpkiDer :: "ca_lib \<Rightarrow> bytes \<Rightarrow> string + bytes" where
  "pointBytesFromSpkiDer lib der = bindR (derefR ''unparseable SPKI'' (cl_parseKey lib der)) (\<lambda>k. Inr (ck_bits k))"

definition curveNameFromSpkiDer :: "ca_lib \<Rightarrow> bytes \<Rightarrow> string + string" where
  "curveNameFromSpkiDer lib der =
    bindR (derefR ''unparseable SPKI'' (cl_parseKey lib der)) (\<lambda>k.
      Inr (null_or (chain (ck_params k) EC_CURVE_NAMES) ''unknown-curve''))"

definition find_ca_extension :: "ca_cert \<Rightarrow> string \<Rightarrow> bytes option" where
  "find_ca_extension c oid =
    (case List.find (\<lambda>x. x_oid x = oid) (cc_extensions c) of None \<Rightarrow> None | Some x \<Rightarrow> x_value x)"

definition decodeSki :: "ca_lib \<Rightarrow> ca_cert \<Rightarrow> string + bytes" where
  "decodeSki lib c =
    bindR (derefR ''cert has no SubjectKeyIdentifier'' (find_ca_extension c OID_subjectKeyIdentifier)) (\<lambda>inner.
    bindR (derefR ''unparseable SKI extension'' (cl_fromBER lib inner)) (\<lambda>parsed. blockBytes (Some parsed)))"

definition decodeAki :: "ca_lib \<Rightarrow> ca_cert \<Rightarrow> string + bytes" where
  "decodeAki lib c =
    bindR (derefR ''cert has no AuthorityKeyIdentifier'' (find_ca_extension c OID_authorityKeyIdentifier)) (\<lambda>inner.
    bindR (derefR ''unparseable AKI extension'' (cl_fromBER lib inner)) (\<lambda>parsed.
      blockBytes (elem_at (node_value (Some parsed)) 0)))"

section \<open>Assembly\<close>

record build_inputs =
  bi_profile :: ca_profile
  bi_subjectSpkiDer :: bytes
  bi_issuerCert :: "ca_cert option"
  bi_serialNumber :: bytes
  bi_now :: int

definition full_year :: "int \<Rightarrow> int" where
  "full_year ms = (case civil_from_days (ms div MS_PER_DAY) of (y, m, d) \<Rightarrow> y)"

text \<open>Up to 2049 a time is a \<open>UTCTime\<close>, from 2050 on a \<open>GeneralizedTime\<close>.\<close>

definition time_of :: "int \<Rightarrow> ca_time" where
  "time_of ms = \<lparr>ti_generalized = (full_year ms \<ge> 2050), ti_value = ms\<rparr>"

definition ca_ext :: "ca_lib \<Rightarrow> string \<Rightarrow> bool \<Rightarrow> ca_ext_value \<Rightarrow> extension" where
  "ca_ext lib oid critical v = \<lparr>x_oid = oid, x_critical = critical, x_value = Some (cl_extDer lib v)\<rparr>"

definition profile_extensions :: "ca_lib \<Rightarrow> ca_profile \<Rightarrow> extension list" where
  "profile_extensions lib p =
    [ca_ext lib OID_basicConstraints True
       (Ca_basic (bc_cA (cp_basicConstraints p)) (bc_pathLen (cp_basicConstraints p))),
     ca_ext lib OID_keyUsage True (Ca_usage (cp_keyUsage p))]
    @ (case cp_eku p of None \<Rightarrow> [] | Some es \<Rightarrow> [ca_ext lib OID_extKeyUsage False (Ca_purposes es)])
    @ (case cp_certificatePolicies p of None \<Rightarrow> []
       | Some ps \<Rightarrow> [ca_ext lib OID_certificatePolicies False (Ca_policies ps)])
    @ (case cp_aia p of None \<Rightarrow> []
       | Some a \<Rightarrow> [ca_ext lib OID_authorityInfoAccess False
           (Ca_access [(OID_adOcsp, aia_ocspUrl a), (OID_adCaIssuers, aia_caIssuersUrl a)])])
    @ (if cp_ocspNoCheck p then [ca_ext lib OID_ocspNoCheck False Ca_null] else [])"

definition key_extensions :: "ca_lib \<Rightarrow> bytes \<Rightarrow> bytes \<Rightarrow> extension list" where
  "key_extensions lib ski issuerSki =
    [ca_ext lib OID_subjectKeyIdentifier False (Ca_ski ski),
     ca_ext lib OID_authorityKeyIdentifier False (Ca_aki issuerSki)]"

definition lint_by_cn :: "ca_profile \<Rightarrow> string + unit" where
  "lint_by_cn p =
    (case List.find (\<lambda>n. cp_cn (PROFILES n) = cp_cn p) profile_names of
       None \<Rightarrow> Inr () | Some n \<Rightarrow> lintProfile n p)"

definition buildCaCert :: "ca_lib \<Rightarrow> build_inputs \<Rightarrow> string + ca_cert" where
  "buildCaCert lib inputs =
    (let p = bi_profile inputs;
         start = bi_now inputs - 5 * 60000;
         notBefore = start - start mod 1000;
         notAfter = notBefore + cp_validityDays p * 86400000 in
     bindR (lint_by_cn p) (\<lambda>_.
     bindR (derefR ''unparseable subject SPKI'' (cl_parseKey lib (bi_subjectSpkiDer inputs))) (\<lambda>key.
     let ski = cl_sha1 lib (ck_bits key) in
     bindR (case bi_issuerCert inputs of None \<Rightarrow> Inr ski | Some c \<Rightarrow> decodeSki lib c) (\<lambda>issuerSki.
       Inr \<lparr>cc_version = 2, cc_serialNumber = canonical_serial (bi_serialNumber inputs),
            cc_issuer = (case bi_issuerCert inputs of None \<Rightarrow> subjectDn (cp_cn p) | Some c \<Rightarrow> cc_subject c),
            cc_subject = subjectDn (cp_cn p),
            cc_notBefore = time_of notBefore, cc_notAfter = time_of notAfter, cc_key = key,
            cc_signatureAlgorithm = OID_ecdsaWithSHA384,
            cc_extensions = profile_extensions lib p @ key_extensions lib ski issuerSki,
            cc_signature = []\<rparr>))))"

definition finalizeCertPem :: "ca_lib \<Rightarrow> ca_cert \<Rightarrow> bytes \<Rightarrow> string" where
  "finalizeCertPem lib c sig = derToCertPem (cl_encodeCert lib (c\<lparr>cc_signature := sig\<rparr>))"

section \<open>The check after signing\<close>

definition selfVerify :: "ca_lib \<Rightarrow> string \<Rightarrow> bytes \<Rightarrow> bytes \<Rightarrow> bytes \<Rightarrow> string + unit" where
  "selfVerify lib finishedPem approvedTbs issuerSpkiDer expectedSubjectSpkiDer =
    bindR (parse_ca_pem lib finishedPem) (\<lambda>parsed.
    bindR (guardR (bytesToHex (cl_encodeTBS lib parsed) = bytesToHex approvedTbs)
      ''self-verify FAILED: signed TBS differs from approved TBS'') (\<lambda>_.
    bindR (guardR (bytesToHex (ck_der (cc_key parsed)) = bytesToHex expectedSubjectSpkiDer)
      ''self-verify FAILED: certified public key differs from the KMS-fetched subject SPKI'') (\<lambda>_.
    bindR (pointBytesFromSpkiDer lib issuerSpkiDer) (\<lambda>point.
    bindR (derefR ''malformed signature'' (cl_p384_verify lib (cc_signature parsed) (cl_sha384 lib approvedTbs) point)) (\<lambda>ok.
    guardR ok ''self-verify FAILED: signature does not verify against the issuer public key'')))))"

section \<open>The review text\<close>

definition short_name :: "string \<Rightarrow> string" where
  "short_name t = null_or (map_of [(''2.5.4.3'', ''CN''), (''2.5.4.6'', ''C''), (''2.5.4.10'', ''O'')] t) t"

definition dn_text :: "ca_name \<Rightarrow> string" where
  "dn_text n = join_with '', '' (map (\<lambda>(t, v, c). short_name t @ ''='' @ v) n)"

definition show_bool :: "bool \<Rightarrow> string" where
  "show_bool b = (if b then ''true'' else ''false'')"

definition renderReview ::
  "ca_lib \<Rightarrow> profile_name \<Rightarrow> ca_profile \<Rightarrow> ca_cert \<Rightarrow> bytes \<Rightarrow> bytes \<Rightarrow> string + string"
where
  "renderReview lib name p cert tbs subjectSpkiDer =
    (let serial = bytesToHex (cc_serialNumber cert);
         list = (\<lambda>x. case x of None \<Rightarrow> ''(absent)'' | Some xs \<Rightarrow> join_with '', '' xs) in
     bindR (curveNameFromSpkiDer lib subjectSpkiDer) (\<lambda>curve.
     bindR (decodeSki lib cert) (\<lambda>ski.
     bindR (decodeAki lib cert) (\<lambda>aki.
       Inr (join_with [CHR 0x0A]
         [''=== '' @ map upper_char (profile_label name) @ '' '' @ em_dash @ '' to-be-signed certificate ==='',
          ''Subject:        '' @ dn_text (cc_subject cert),
          ''Issuer:         '' @ dn_text (cc_issuer cert),
          ''Serial (hex):   '' @ serial @ '' ('' @ show_nat (length serial div 2) @ '' octets)'',
          ''Not before:     '' @ iso_string (ti_value (cc_notBefore cert)),
          ''Not after:      '' @ iso_string (ti_value (cc_notAfter cert)) @ ''  ('' @ show_int (cp_validityDays p) @ '' days)'',
          ''Sig algorithm:  ecdsa-with-SHA384, by KMS key '' @ [CHR 0x27] @ cp_signerKey p @ [CHR 0x27],
          ''Subject key:    EC '' @ curve @ '', from KMS key '' @ [CHR 0x27] @ cp_kmsKey p @ [CHR 0x27],
          ''SPKI SHA-256:   '' @ bytesToHex (cl_sha256 lib subjectSpkiDer),
          ''SKI:            '' @ bytesToHex ski,
          ''AKI:            '' @ bytesToHex aki,
          ''Basic constr.:  critical, CA='' @ show_bool (bc_cA (cp_basicConstraints p))
            @ (case bc_pathLen (cp_basicConstraints p) of None \<Rightarrow> [] | Some n \<Rightarrow> '', pathlen='' @ show_nat n),
          ''Key usage:      critical, '' @ (if cp_keyUsage p = KU_CA then ''keyCertSign, cRLSign'' else ''digitalSignature''),
          ''EKU:            '' @ list (cp_eku p),
          ''Cert policies:  '' @ list (cp_certificatePolicies p),
          ''AIA:            '' @ (case cp_aia p of None \<Rightarrow> ''(absent)''
             | Some a \<Rightarrow> ''OCSP '' @ aia_ocspUrl a @ '' | caIssuers '' @ aia_caIssuersUrl a),
          ''OCSP no-check:  '' @ (if cp_ocspNoCheck p then ''present (NULL)'' else ''(absent)''),
          ''TBS SHA-256:    '' @ bytesToHex (cl_sha256 lib tbs),
          replicate 57 (CHR ''='')])))))"

section \<open>The command line\<close>

definition ISSUER_FLAG :: "profile_name \<Rightarrow> string option" where
  "ISSUER_FLAG n = (case n of Root_profile \<Rightarrow> None | Ica_profile \<Rightarrow> Some ''--root''
     | Ocsp_profile \<Rightarrow> Some ''--root'' | Ocsp_leaf_profile \<Rightarrow> Some ''--ica'')"

record ceremony_args =
  ca_step :: profile_name
  ca_issuerPemPath :: "string option"
  ca_outPath :: "string option"
  ca_dryRun :: bool

text \<open>The word after the first occurrence of a flag, unless it is missing, empty or a flag.\<close>

fun arg_after :: "string \<Rightarrow> string list \<Rightarrow> string option" where
  "arg_after flag [] = None"
| "arg_after flag [a] = None"
| "arg_after flag (a # b # rest) =
     (if a = flag then (if b \<noteq> [] \<and> \<not> starts_with ''--'' b then Some b else None)
      else arg_after flag (b # rest))"

text \<open>\<open>None\<close> is \<open>usage()\<close>, which ends the process with status 2.\<close>

definition parseArgs :: "string list \<Rightarrow> ceremony_args option" where
  "parseArgs argv =
    (case argv of [] \<Rightarrow> None
     | s # _ \<Rightarrow>
       (case List.find (\<lambda>n. profile_label n = s) profile_names of
          None \<Rightarrow> None
        | Some step \<Rightarrow>
            let dryRun = (''--dry-run'' \<in> set argv);
                outPath = arg_after ''--out'' argv;
                issuerPemPath = chain (ISSUER_FLAG step) (\<lambda>f. arg_after f argv) in
            if \<not> dryRun \<and> outPath = None then None
            else if ISSUER_FLAG step \<noteq> None \<and> issuerPemPath = None then None
            else Some \<lparr>ca_step = step, ca_issuerPemPath = issuerPemPath, ca_outPath = outPath,
                       ca_dryRun = dryRun\<rparr>))"

section \<open>A run\<close>

datatype ceremony_event =
    Key_fetched string
  | Displayed string
  | Prompted string
  | Kms_sign string bytes
  | Dir_made string
  | File_written string string

datatype ceremony_stop = Exited nat | Uncaught string

type_synonym 'a ceremony = "(ceremony_stop, ceremony_event, 'a) traced"

definition liftC :: "string + 'a \<Rightarrow> 'a ceremony" where
  "liftC r = (case r of Inl m \<Rightarrow> (Inl (Uncaught m), []) | Inr x \<Rightarrow> (Inr x, []))"

text \<open>The world: the arguments, files, Cloud KMS, 20 random bytes, the clock, and the operator's answer to
  the prompt.\<close>

record ceremony_world =
  cw_argv :: "string list"
  cw_readFile :: "string \<Rightarrow> string + string"
  cw_kmsPublicKey :: "string \<Rightarrow> string + string"
  cw_kmsSign :: "string \<Rightarrow> bytes \<Rightarrow> string + bytes"
  cw_random :: bytes
  cw_now :: int
  cw_answer :: "string option"
  cw_mkdir :: "string \<Rightarrow> string + unit"
  cw_write :: "string \<Rightarrow> string \<Rightarrow> string + unit"

definition kmsPublicKeyDer :: "ceremony_world \<Rightarrow> string \<Rightarrow> bytes ceremony" where
  "kmsPublicKeyDer w key =
    bindW (tellW (Key_fetched key)) (\<lambda>_.
      liftC (bindR (cw_kmsPublicKey w key) (\<lambda>pem. derefR ''invalid base64'' (spkiPemToDer pem))))"

definition kmsSign :: "ceremony_world \<Rightarrow> string \<Rightarrow> bytes \<Rightarrow> bytes ceremony" where
  "kmsSign w key tbs = bindW (tellW (Kms_sign key tbs)) (\<lambda>_. liftC (cw_kmsSign w key tbs))"

text \<open>The issuer, when the certificate has one, and its public key; the subject's public key.\<close>

definition issuer_of ::
  "ca_lib \<Rightarrow> ceremony_world \<Rightarrow> ceremony_args \<Rightarrow> (ca_cert option \<times> bytes) ceremony"
where
  "issuer_of lib w args =
    (let p = PROFILES (ca_step args) in
     if cp_selfSigned p then bindW (kmsPublicKeyDer w (cp_kmsKey p)) (\<lambda>spki. liftC (Inr (None, spki)))
     else liftC
       (bindR (cw_readFile w (null_or (ca_issuerPemPath args) [])) (\<lambda>pem.
        bindR (parse_ca_pem lib pem) (\<lambda>issuer.
        bindR (assertIssuerCn issuer p) (\<lambda>_. Inr (Some issuer, ck_der (cc_key issuer)))))))"

definition subject_of :: "ceremony_world \<Rightarrow> ca_profile \<Rightarrow> bytes \<Rightarrow> bytes ceremony" where
  "subject_of w p issuerSpki =
    (if cp_selfSigned p then liftC (Inr issuerSpki) else kmsPublicKeyDer w (cp_kmsKey p))"

definition SIGN_PROMPT :: "string \<Rightarrow> string" where
  "SIGN_PROMPT key =
    ''Second Trusted Person has read the fields aloud and approved. Type '' @ [CHR 0x22] @ ''SIGN'' @ [CHR 0x22]
    @ '' to invoke Cloud KMS with the '' @ [CHR 0x27] @ key @ [CHR 0x27] @ '' key, anything else to abort:''"

definition sign_and_write ::
  "ca_lib \<Rightarrow> ceremony_world \<Rightarrow> ca_profile \<Rightarrow> string \<Rightarrow> ca_cert \<Rightarrow> bytes \<Rightarrow> bytes \<Rightarrow> unit ceremony"
where
  "sign_and_write lib w p outPath cert issuerSpki subjectSpki =
    (let tbs = cl_encodeTBS lib cert in
     bindW (kmsSign w (cp_signerKey p) tbs) (\<lambda>signature.
     let pem = finalizeCertPem lib cert signature;
         dir = join_with ''/'' (butlast (split_char (CHR ''/'') outPath)) in
     bindW (liftC (selfVerify lib pem tbs issuerSpki subjectSpki)) (\<lambda>_.
     bindW (if dir \<noteq> [] then bindW (liftC (cw_mkdir w dir)) (\<lambda>_. tellW (Dir_made dir)) else liftC (Inr ())) (\<lambda>_.
     bindW (liftC (cw_write w outPath pem)) (\<lambda>_.
     tellW (File_written outPath pem))))))"

text \<open>Build, display, ask, and sign on the answer \<open>SIGN\<close>.\<close>

definition sign_from ::
  "ca_lib \<Rightarrow> ceremony_world \<Rightarrow> ceremony_args \<Rightarrow> ca_cert option \<Rightarrow> bytes \<Rightarrow> bytes \<Rightarrow> unit ceremony"
where
  "sign_from lib w args issuerCert issuerSpki subjectSpki =
    (let p = PROFILES (ca_step args) in
     bindW (liftC (buildCaCert lib
       \<lparr>bi_profile = p, bi_subjectSpkiDer = subjectSpki, bi_issuerCert = issuerCert,
        bi_serialNumber = cw_random w, bi_now = cw_now w\<rparr>)) (\<lambda>cert.
     bindW (liftC (renderReview lib (ca_step args) p cert (cl_encodeTBS lib cert) subjectSpki)) (\<lambda>review.
     bindW (tellW (Displayed review)) (\<lambda>_.
     if ca_dryRun args then (Inl (Exited 0), [])
     else bindW (tellW (Prompted (SIGN_PROMPT (cp_signerKey p)))) (\<lambda>_.
       if cw_answer w \<noteq> Some ''SIGN'' then (Inl (Exited 1), [])
       else sign_and_write lib w p (null_or (ca_outPath args) []) cert issuerSpki subjectSpki)))))"

definition ceremony_step :: "ca_lib \<Rightarrow> ceremony_world \<Rightarrow> ceremony_args \<Rightarrow> unit ceremony" where
  "ceremony_step lib w args =
    bindW (issuer_of lib w args) (\<lambda>(issuerCert, issuerSpki).
    bindW (subject_of w (PROFILES (ca_step args)) issuerSpki) (\<lambda>subjectSpki.
    sign_from lib w args issuerCert issuerSpki subjectSpki))"

definition run_ceremony :: "ca_lib \<Rightarrow> ceremony_world \<Rightarrow> unit ceremony" where
  "run_ceremony lib w =
    (case parseArgs (cw_argv w) of
       None \<Rightarrow> (Inl (Exited 2), [])
     | Some args \<Rightarrow> ceremony_step lib w args)"

section \<open>The certificate policy\<close>

text \<open>What the C2PA certificate policy (section 7.1) asks of each of the four certificates, as a
  specification: a self-signed root above an issuing CA of path length 0, and two responders that are
  exactly OCSP signers, unrevocable and therefore short-lived, each issued by the CA it answers for.\<close>

fun role_policy :: "profile_name \<Rightarrow> ca_profile \<Rightarrow> bool" where
  "role_policy Root_profile p \<longleftrightarrow> cp_selfSigned p
     \<and> (\<exists>n. cp_basicConstraints p = \<lparr>bc_cA = True, bc_pathLen = Some n\<rparr> \<and> n \<le> 2)
     \<and> cp_keyUsage p = KU_CA \<and> cp_eku p = None \<and> cp_aia p = None"
| "role_policy Ica_profile p \<longleftrightarrow> cp_validityDays p \<le> 1827
     \<and> cp_basicConstraints p = \<lparr>bc_cA = True, bc_pathLen = Some 0\<rparr> \<and> cp_keyUsage p = KU_CA
     \<and> (\<exists>a. cp_aia p = Some a \<and> aia_ocspUrl a \<noteq> [])
     \<and> (\<exists>ps. cp_certificatePolicies p = Some ps \<and> OID_c2paCertPolicy \<in> set ps)
     \<and> (\<exists>es. cp_eku p = Some es \<and> OID_ekuC2PAClaimSigning \<in> set es)
     \<and> cp_issuerCn p = Some ROOT_CN \<and> cp_signerKey p = ''realreel-root''"
| "role_policy Ocsp_profile p \<longleftrightarrow> \<not> bc_cA (cp_basicConstraints p) \<and> cp_keyUsage p = KU_DS
     \<and> cp_eku p = Some [OID_ekuOcspSigning] \<and> cp_ocspNoCheck p \<and> cp_aia p = None
     \<and> cp_validityDays p \<le> 366 \<and> cp_issuerCn p = Some ROOT_CN \<and> cp_signerKey p = ''realreel-root''"
| "role_policy Ocsp_leaf_profile p \<longleftrightarrow> \<not> bc_cA (cp_basicConstraints p) \<and> cp_keyUsage p = KU_DS
     \<and> cp_eku p = Some [OID_ekuOcspSigning] \<and> cp_ocspNoCheck p \<and> cp_aia p = None
     \<and> cp_validityDays p \<le> 366 \<and> cp_issuerCn p = Some ICA_CN \<and> cp_signerKey p = ''realreel-claim-ica''"

definition ca_policy :: "profile_name \<Rightarrow> ca_profile \<Rightarrow> bool" where
  "ca_policy name p \<longleftrightarrow> (cp_selfSigned p \<longleftrightarrow> cp_issuerCn p = None)
     \<and> (cp_selfSigned p \<longrightarrow> cp_signerKey p = cp_kmsKey p) \<and> role_policy name p"

lemma basic_eq: "b = \<lparr>bc_cA = c, bc_pathLen = n\<rparr> \<longleftrightarrow> bc_cA (b :: basic_constraints) = c \<and> bc_pathLen b = n"
  by (cases b) simp

lemma one_purpose: "length es = 1 \<and> es ! 0 = x \<longleftrightarrow> es = [x]"
  by (cases es) auto

lemma lint_exact: "lintProfile name p = Inr () \<longleftrightarrow> ca_policy name p"
proof (cases name)
  case Root_profile
  have "(\<not> null_or n 99 > (2 :: nat)) \<longleftrightarrow> (\<exists>k. n = Some k \<and> k \<le> 2)" for n
    by (cases n) auto
  then show ?thesis
    using Root_profile
    by (auto simp: lintProfile_def lint_common_def lint_root_def ca_policy_def KU_CA_def basic_eq)
next
  case Ica_profile
  then show ?thesis
    by (auto simp: lintProfile_def lint_common_def lint_ica_def ca_policy_def KU_CA_def basic_eq
        split: option.splits)
next
  case Ocsp_profile
  then show ?thesis
    by (auto simp: lintProfile_def lint_common_def lint_responder_def ca_policy_def KU_DS_def
        one_purpose[symmetric] split: option.splits)
next
  case Ocsp_leaf_profile
  then show ?thesis
    by (auto simp: lintProfile_def lint_common_def lint_responder_def ca_policy_def KU_DS_def
        one_purpose[symmetric] split: option.splits)
qed

lemma profiles_conform: "ca_policy n (PROFILES n)"
  by (cases n) (simp_all add: ca_policy_def)

lemma lint_by_cn_profile: "lint_by_cn (PROFILES n) = lintProfile n (PROFILES n)"
proof -
  have "List.find (\<lambda>m. cp_cn (PROFILES m) = cp_cn (PROFILES n)) profile_names = Some n"
    by (cases n) (simp_all add: profile_names_def ROOT_CN_def ICA_CN_def)
  then show ?thesis by (simp add: lint_by_cn_def)
qed

lemma find_names: "x \<in> set profile_names" by (cases x) (simp_all add: profile_names_def)

section \<open>Runs, step by step\<close>

lemma liftC_iff: "liftC a = (r, es) \<longleftrightarrow> es = [] \<and> r = (case a of Inl m \<Rightarrow> Inl (Uncaught m) | Inr x \<Rightarrow> Inr x)"
  by (auto simp: liftC_def split: sum.splits)

lemmas run_simps = trace_simps liftC_iff

definition signs :: "ceremony_event \<Rightarrow> bool" where
  "signs e = (case e of Kms_sign k t \<Rightarrow> True | _ \<Rightarrow> False)"

definition writes :: "ceremony_event \<Rightarrow> bool" where
  "writes e = (case e of File_written p t \<Rightarrow> True | _ \<Rightarrow> False)"

definition quiet :: "ceremony_event list \<Rightarrow> bool" where
  "quiet es = (\<forall>e \<in> set es. \<not> signs e \<and> \<not> writes e)"

lemma quiet_simps [simp]:
  "quiet []" "quiet (e # es) \<longleftrightarrow> \<not> signs e \<and> \<not> writes e \<and> quiet es"
  "quiet (a @ b) \<longleftrightarrow> quiet a \<and> quiet b"
  by (auto simp: quiet_def)

lemma event_kinds [simp]:
  "signs (Kms_sign k t)" "\<not> signs (Key_fetched k)" "\<not> signs (Displayed v)" "\<not> signs (Prompted v)"
  "\<not> signs (Dir_made v)" "\<not> signs (File_written v u)" "writes (File_written v u)" "\<not> writes (Kms_sign k t)"
  "\<not> writes (Key_fetched k)" "\<not> writes (Displayed v)" "\<not> writes (Prompted v)" "\<not> writes (Dir_made v)"
  by (simp_all add: signs_def writes_def)

lemma key_fetch_events: "kmsPublicKeyDer w k = (r, es) \<Longrightarrow> es = [Key_fetched k]"
  by (auto simp: kmsPublicKeyDer_def run_simps)

lemma issuer_quiet: "issuer_of lib w args = (r, es) \<Longrightarrow> quiet es"
  by (auto simp: issuer_of_def Let_def run_simps dest!: key_fetch_events split: if_splits)

lemma subject_quiet: "subject_of w p spki = (r, es) \<Longrightarrow> quiet es"
  by (auto simp: subject_of_def run_simps dest!: key_fetch_events split: if_splits)

text \<open>What \<open>sign_and_write\<close> does: one signature, and a file only after the check.\<close>

lemma sign_and_write_events:
  assumes "sign_and_write lib w p out cert issuerSpki subjectSpki = (r, es)"
  defines "tbs \<equiv> cl_encodeTBS lib cert"
  shows "\<exists>rest. es = Kms_sign (cp_signerKey p) tbs # rest \<and> (\<forall>e \<in> set rest. \<not> signs e) \<and>
    (\<forall>path pem. File_written path pem \<in> set rest \<longrightarrow> path = out \<and> r = Inr () \<and>
      (\<exists>sig. cw_kmsSign w (cp_signerKey p) tbs = Inr sig \<and> pem = finalizeCertPem lib cert sig
         \<and> selfVerify lib pem tbs issuerSpki subjectSpki = Inr ()))"
  using assms(1) unfolding sign_and_write_def kmsSign_def Let_def tbs_def[symmetric]
  by (auto simp: run_simps split: sum.splits if_splits)

lemmas quiet_loud = bindW_loud[where P = "\<lambda>e. \<not> signs e \<and> \<not> writes e", folded quiet_def]

text \<open>A run signs or writes only in its last stage, after the answer to the prompt.\<close>

lemma ceremony_step_events:
  assumes "ceremony_step lib w args = (r, es)" "\<not> quiet es"
  defines "p \<equiv> PROFILES (ca_step args)"
  shows "\<exists>issuerCert issuerSpki e1 subjectSpki e2 cert review e3.
     issuer_of lib w args = (Inr (issuerCert, issuerSpki), e1)
     \<and> subject_of w p issuerSpki = (Inr subjectSpki, e2)
     \<and> buildCaCert lib \<lparr>bi_profile = p, bi_subjectSpkiDer = subjectSpki, bi_issuerCert = issuerCert,
         bi_serialNumber = cw_random w, bi_now = cw_now w\<rparr> = Inr cert
     \<and> renderReview lib (ca_step args) p cert (cl_encodeTBS lib cert) subjectSpki = Inr review
     \<and> \<not> ca_dryRun args \<and> cw_answer w = Some ''SIGN''
     \<and> sign_and_write lib w p (null_or (ca_outPath args) []) cert issuerSpki subjectSpki = (r, e3)
     \<and> es = e1 @ e2 @ Displayed review # Prompted (SIGN_PROMPT (cp_signerKey p)) # e3"
proof -
  obtain ic ispki e1 r1 where 1: "issuer_of lib w args = (Inr (ic, ispki), e1)"
      "bindW (subject_of w p ispki) (\<lambda>sspki. sign_from lib w args ic ispki sspki) = (r, r1)"
      "es = e1 @ r1" "\<not> quiet r1"
    using assms(1,2) unfolding ceremony_step_def p_def
    by (elim quiet_loud) (auto dest: issuer_quiet)
  from 1(2) obtain sspki e2 r2 where 2: "subject_of w p ispki = (Inr sspki, e2)" "sign_from lib w args ic ispki sspki = (r, r2)"
      "r1 = e2 @ r2" "\<not> quiet r2"
    using 1(4) by (elim quiet_loud) (auto dest: subject_quiet)
  from 2(2,4) 1 2 show ?thesis
    unfolding sign_from_def Let_def p_def[symmetric]
    by (auto simp: run_simps split: sum.splits if_splits)
qed

lemma kms_key_fetched:
  "kmsPublicKeyDer w k = (Inr spki, es) \<Longrightarrow> \<exists>pem. cw_kmsPublicKey w k = Inr pem \<and> spkiPemToDer pem = Some spki"
  by (auto simp: kmsPublicKeyDer_def run_simps derefR_simps split: sum.splits option.splits)

text \<open>Where the issuer and its key come from.\<close>

lemma issuer_of_Inr:
  assumes "issuer_of lib w args = (Inr (ic, ispki), es)"
  defines "p \<equiv> PROFILES (ca_step args)"
  shows "(cp_selfSigned p \<and> ic = None \<and> (\<exists>pem. cw_kmsPublicKey w (cp_kmsKey p) = Inr pem \<and> spkiPemToDer pem = Some ispki))
    \<or> (\<not> cp_selfSigned p \<and> (\<exists>c pem. ic = Some c \<and> cw_readFile w (null_or (ca_issuerPemPath args) []) = Inr pem
         \<and> parse_ca_pem lib pem = Inr c \<and> common_name (cc_subject c) = cp_issuerCn p \<and> ispki = ck_der (cc_key c)))"
  using assms(1) unfolding issuer_of_def Let_def p_def[symmetric]
  by (auto simp: run_simps assertIssuerCn_def dest: kms_key_fetched split: if_splits sum.splits)

lemma subject_of_Inr:
  assumes "subject_of w (PROFILES (ca_step args)) ispki = (Inr sspki, es)"
    and "issuer_of lib w args = (Inr (ic, ispki), es')"
  shows "(\<exists>pem. cw_kmsPublicKey w (cp_kmsKey (PROFILES (ca_step args))) = Inr pem \<and> spkiPemToDer pem = Some sspki)
    \<and> (cp_selfSigned (PROFILES (ca_step args)) \<longrightarrow> ispki = sspki)"
  using assms(1) issuer_of_Inr[OF assms(2)]
  by (auto simp: subject_of_def run_simps dest: kms_key_fetched split: if_splits)

lemma parseArgs_out: "parseArgs argv = Some args \<Longrightarrow> \<not> ca_dryRun args \<Longrightarrow> \<exists>out. ca_outPath args = Some out"
  by (auto simp: parseArgs_def Let_def split: list.splits option.splits if_splits)

text \<open>The build inputs of a run.\<close>

definition inputs_of :: "ceremony_world \<Rightarrow> ceremony_args \<Rightarrow> ca_cert option \<Rightarrow> bytes \<Rightarrow> build_inputs" where
  "inputs_of w args ic sspki =
    \<lparr>bi_profile = PROFILES (ca_step args), bi_subjectSpkiDer = sspki, bi_issuerCert = ic,
     bi_serialNumber = cw_random w, bi_now = cw_now w\<rparr>"

text \<open>C31. Nothing is signed that was not displayed and approved: a run of the ceremony tool makes at most one
  signature, with the key its profile names, over the to-be-signed bytes of the certificate it built
  from the profile; immediately before come the display of the review of these bytes and the prompt
  that was answered \<open>SIGN\<close>; the arguments had been checked, an output path included, and the issuer
  certificate carries the name the profile expects.\<close>

theorem ceremony_signs_only_approved:
  assumes "run_ceremony lib w = (r, events)" "Kms_sign key tbs \<in> set events"
  shows "\<exists>args out issuerCert subjectSpki cert review before after.
     parseArgs (cw_argv w) = Some args \<and> \<not> ca_dryRun args \<and> ca_outPath args = Some out
     \<and> cw_answer w = Some ''SIGN'' \<and> key = cp_signerKey (PROFILES (ca_step args))
     \<and> (case issuerCert of None \<Rightarrow> cp_selfSigned (PROFILES (ca_step args))
        | Some c \<Rightarrow> common_name (cc_subject c) = cp_issuerCn (PROFILES (ca_step args)))
     \<and> buildCaCert lib (inputs_of w args issuerCert subjectSpki) = Inr cert \<and> tbs = cl_encodeTBS lib cert
     \<and> renderReview lib (ca_step args) (PROFILES (ca_step args)) cert tbs subjectSpki = Inr review
     \<and> events = before @ [Displayed review, Prompted (SIGN_PROMPT key), Kms_sign key tbs] @ after
     \<and> quiet before \<and> filter signs after = []"
proof -
  have loud: "\<not> quiet events" using assms(2) event_kinds(1) unfolding quiet_def by blast
  then obtain args where args: "parseArgs (cw_argv w) = Some args" "ceremony_step lib w args = (r, events)"
    using assms(1) by (auto simp: run_ceremony_def split: option.splits)
  let ?p = "PROFILES (ca_step args)"
  obtain ic ispki e1 sspki e2 cert review e3 where
    st: "issuer_of lib w args = (Inr (ic, ispki), e1)" "subject_of w ?p ispki = (Inr sspki, e2)"
      "buildCaCert lib (inputs_of w args ic sspki) = Inr cert"
      "renderReview lib (ca_step args) ?p cert (cl_encodeTBS lib cert) sspki = Inr review"
      "\<not> ca_dryRun args" "cw_answer w = Some ''SIGN''"
      "sign_and_write lib w ?p (null_or (ca_outPath args) []) cert ispki sspki = (r, e3)"
      "events = (e1 @ e2) @ Displayed review # Prompted (SIGN_PROMPT (cp_signerKey ?p)) # e3"
    using ceremony_step_events[OF args(2) loud] unfolding inputs_of_def by force
  obtain rest where rest: "e3 = Kms_sign (cp_signerKey ?p) (cl_encodeTBS lib cert) # rest" "\<forall>e \<in> set rest. \<not> signs e"
    using sign_and_write_events[OF st(7)] by blast
  have q: "quiet (e1 @ e2)" using issuer_quiet[OF st(1)] subject_quiet[OF st(2)] by simp
  then have "Kms_sign key tbs \<notin> set (e1 @ e2)" using event_kinds(1) unfolding quiet_def by blast
  moreover have "Kms_sign key tbs \<notin> set rest" using rest(2) event_kinds(1) by blast
  ultimately have kt: "key = cp_signerKey ?p" "tbs = cl_encodeTBS lib cert"
    using assms(2) by (auto simp: st(8) rest(1))
  have "case ic of None \<Rightarrow> cp_selfSigned ?p | Some c \<Rightarrow> common_name (cc_subject c) = cp_issuerCn ?p"
    using issuer_of_Inr[OF st(1)] by auto
  moreover obtain out where "ca_outPath args = Some out" using parseArgs_out[OF args(1) st(5)] by blast
  moreover have "events = (e1 @ e2) @ [Displayed review, Prompted (SIGN_PROMPT key), Kms_sign key tbs] @ rest"
    using st(8) rest(1) kt by simp
  moreover have "filter signs rest = []" using rest(2) by (simp add: filter_empty_conv)
  ultimately show ?thesis
    using args(1) st kt q by blast
qed

lemma selfVerify_Inr_iff:
  "selfVerify lib pem tbs issuerSpki subjectSpki = Inr () \<longleftrightarrow>
    (\<exists>parsed k. parse_ca_pem lib pem = Inr parsed \<and> cl_encodeTBS lib parsed = tbs
       \<and> ck_der (cc_key parsed) = subjectSpki \<and> cl_parseKey lib issuerSpki = Some k
       \<and> cl_p384_verify lib (cc_signature parsed) (cl_sha384 lib tbs) (ck_bits k) = Some True)"
  by (auto simp: selfVerify_def pointBytesFromSpkiDer_def bytesToHex_inject)

text \<open>C32. Nothing is written that was not verified: every file the ceremony tool writes is the one named by
  \<open>--out\<close>, in a run that ends well, and reads back as a certificate whose to-be-signed bytes are the
  ones displayed and signed, whose key is the one Cloud KMS holds for the profile, and whose signature
  verifies under the key of the issuer, which is the supplied certificate of the expected name or, for
  the root, the certificate's own key.\<close>

theorem ceremony_writes_only_verified:
  assumes "run_ceremony lib w = (r, events)" "File_written path pem \<in> set events"
  shows "r = Inr () \<and> (\<exists>args issuerCert issuerSpki subjectSpki cert parsed k keyPem.
     parseArgs (cw_argv w) = Some args \<and> ca_outPath args = Some path
     \<and> buildCaCert lib (inputs_of w args issuerCert subjectSpki) = Inr cert
     \<and> Kms_sign (cp_signerKey (PROFILES (ca_step args))) (cl_encodeTBS lib cert) \<in> set events
     \<and> parse_ca_pem lib pem = Inr parsed \<and> cl_encodeTBS lib parsed = cl_encodeTBS lib cert
     \<and> cw_kmsPublicKey w (cp_kmsKey (PROFILES (ca_step args))) = Inr keyPem
     \<and> spkiPemToDer keyPem = Some (ck_der (cc_key parsed))
     \<and> cl_parseKey lib issuerSpki = Some k
     \<and> cl_p384_verify lib (cc_signature parsed) (cl_sha384 lib (cl_encodeTBS lib cert)) (ck_bits k) = Some True
     \<and> (case issuerCert of
          None \<Rightarrow> cp_selfSigned (PROFILES (ca_step args)) \<and> issuerSpki = ck_der (cc_key parsed)
        | Some c \<Rightarrow> common_name (cc_subject c) = cp_issuerCn (PROFILES (ca_step args)) \<and> issuerSpki = ck_der (cc_key c)))"
proof -
  have loud: "\<not> quiet events" using assms(2) event_kinds(7) unfolding quiet_def by blast
  then obtain args where args: "parseArgs (cw_argv w) = Some args" "ceremony_step lib w args = (r, events)"
    using assms(1) by (auto simp: run_ceremony_def split: option.splits)
  let ?p = "PROFILES (ca_step args)"
  obtain ic ispki e1 sspki e2 cert review e3 where
    st: "issuer_of lib w args = (Inr (ic, ispki), e1)" "subject_of w ?p ispki = (Inr sspki, e2)"
      "buildCaCert lib (inputs_of w args ic sspki) = Inr cert" "\<not> ca_dryRun args"
      "sign_and_write lib w ?p (null_or (ca_outPath args) []) cert ispki sspki = (r, e3)"
      "events = (e1 @ e2) @ Displayed review # Prompted (SIGN_PROMPT (cp_signerKey ?p)) # e3"
    using ceremony_step_events[OF args(2) loud] unfolding inputs_of_def by force
  obtain out where out: "ca_outPath args = Some out" using parseArgs_out[OF args(1) st(4)] by blast
  have q: "quiet (e1 @ e2)" using issuer_quiet[OF st(1)] subject_quiet[OF st(2)] by simp
  then have "File_written path pem \<notin> set (e1 @ e2)" using event_kinds(7) unfolding quiet_def by blast
  then have w3: "File_written path pem \<in> set e3" using assms(2) by (auto simp: st(6))
  obtain rest where rest: "e3 = Kms_sign (cp_signerKey ?p) (cl_encodeTBS lib cert) # rest"
      "\<forall>path pem. File_written path pem \<in> set rest \<longrightarrow> path = out \<and> r = Inr ()
        \<and> (\<exists>sig. cw_kmsSign w (cp_signerKey ?p) (cl_encodeTBS lib cert) = Inr sig \<and> pem = finalizeCertPem lib cert sig
           \<and> selfVerify lib pem (cl_encodeTBS lib cert) ispki sspki = Inr ())"
    using sign_and_write_events[OF st(5)] by (auto simp: out)
  have "File_written path pem \<in> set rest" using w3 rest(1) by simp
  from rest(2)[rule_format, OF this] have fin: "path = out" "r = Inr ()"
      "selfVerify lib pem (cl_encodeTBS lib cert) ispki sspki = Inr ()"
      "Kms_sign (cp_signerKey ?p) (cl_encodeTBS lib cert) \<in> set e3"
    using rest(1) by auto
  then obtain parsed k where sv: "parse_ca_pem lib pem = Inr parsed" "cl_encodeTBS lib parsed = cl_encodeTBS lib cert"
      "ck_der (cc_key parsed) = sspki" "cl_parseKey lib ispki = Some k"
      "cl_p384_verify lib (cc_signature parsed) (cl_sha384 lib (cl_encodeTBS lib cert)) (ck_bits k) = Some True"
    by (auto simp: selfVerify_Inr_iff)
  obtain keyPem where key: "cw_kmsPublicKey w (cp_kmsKey ?p) = Inr keyPem" "spkiPemToDer keyPem = Some sspki"
      "cp_selfSigned ?p \<longrightarrow> ispki = sspki"
    using subject_of_Inr[OF st(2,1)] by blast
  have "case ic of None \<Rightarrow> cp_selfSigned ?p \<and> ispki = ck_der (cc_key parsed)
      | Some c \<Rightarrow> common_name (cc_subject c) = cp_issuerCn ?p \<and> ispki = ck_der (cc_key c)"
    using issuer_of_Inr[OF st(1)] key(3) sv(3) by auto
  moreover have "Kms_sign (cp_signerKey ?p) (cl_encodeTBS lib cert) \<in> set events" using fin(4) by (simp add: st(6))
  ultimately show ?thesis
    using args(1) out fin(1,2) st(3) sv key(1,2) by blast
qed

section \<open>The certificates it builds\<close>

text \<open>What the tool relies on of the ASN.1 library: the two key identifiers decode from their encodings.\<close>

definition key_ids_decode :: "ca_lib \<Rightarrow> bool" where
  "key_ids_decode lib \<longleftrightarrow> (\<forall>b. cl_fromBER lib (cl_extDer lib (Ca_ski b)) = Some (octets_node b)
     \<and> cl_fromBER lib (cl_extDer lib (Ca_aki b)) = Some (seq_node [Node 3 0 False None (Some b) None None]))"

lemma ca_ext_oid [simp]: "x_oid (ca_ext lib oid cr v) = oid" "x_value (ca_ext lib oid cr v) = Some (cl_extDer lib v)"
  "x_critical (ca_ext lib oid cr v) = cr"
  by (simp_all add: ca_ext_def)

lemma find_append: "List.find P (xs @ ys) = (case List.find P xs of None \<Rightarrow> List.find P ys | Some x \<Rightarrow> Some x)"
  by (induction xs) auto

lemma profile_no_key_ids:
  "oid \<in> {OID_subjectKeyIdentifier, OID_authorityKeyIdentifier}
    \<Longrightarrow> List.find (\<lambda>x. x_oid x = oid) (profile_extensions lib p) = None"
  by (auto simp: find_None_iff profile_extensions_def oid_defs OID_ocspNoCheck_def split: option.splits if_splits)

lemma built_ski:
  assumes "key_ids_decode lib" "cc_extensions c = profile_extensions lib p @ key_extensions lib a b"
  shows "decodeSki lib c = Inr a" "decodeAki lib c = Inr b"
  using assms
  by (simp_all add: decodeSki_def decodeAki_def find_ca_extension_def find_append profile_no_key_ids
      key_extensions_def key_ids_decode_def blockBytes_def octets_node_def seq_node_def oid_defs)

lemma buildCaCert_Inr:
  assumes "buildCaCert lib inputs = Inr c"
  defines "p \<equiv> bi_profile inputs"
  defines "start \<equiv> bi_now inputs - 300000 - (bi_now inputs - 300000) mod 1000"
  shows "\<exists>k issuerSki. lint_by_cn p = Inr () \<and> cl_parseKey lib (bi_subjectSpkiDer inputs) = Some k
     \<and> (case bi_issuerCert inputs of None \<Rightarrow> issuerSki = cl_sha1 lib (ck_bits k) | Some ic \<Rightarrow> decodeSki lib ic = Inr issuerSki)
     \<and> c = \<lparr>cc_version = 2, cc_serialNumber = canonical_serial (bi_serialNumber inputs),
            cc_issuer = (case bi_issuerCert inputs of None \<Rightarrow> subjectDn (cp_cn p) | Some ic \<Rightarrow> cc_subject ic),
            cc_subject = subjectDn (cp_cn p), cc_notBefore = time_of start,
            cc_notAfter = time_of (start + cp_validityDays p * 86400000), cc_key = k,
            cc_signatureAlgorithm = OID_ecdsaWithSHA384,
            cc_extensions = profile_extensions lib p @ key_extensions lib (cl_sha1 lib (ck_bits k)) issuerSki,
            cc_signature = []\<rparr>"
  using assms(1) unfolding buildCaCert_def Let_def p_def start_def
  by (auto split: option.splits)

text \<open>C33. A certificate the tool builds is linked to its issuer and follows its profile: it names the issuer's
  subject as issuer and the issuer's key identifier as authority (its own for the root), identifies its
  key by digest, carries a positive, minimal serial, is valid from a whole second at most a second more
  than five minutes ago for exactly the days of the profile, and marks exactly basic constraints and
  key usage, with the profile's values, as critical.\<close>

theorem built_certificate_linked:
  assumes "buildCaCert lib inputs = Inr c" "key_ids_decode lib"
    and "bi_serialNumber inputs \<noteq> []" "length (bi_serialNumber inputs) \<le> 20"
  shows "der_positive (cc_serialNumber c) \<and> cc_subject c = subjectDn (cp_cn (bi_profile inputs))
     \<and> (case bi_issuerCert inputs of
          None \<Rightarrow> cc_issuer c = cc_subject c \<and> decodeAki lib c = decodeSki lib c
        | Some ic \<Rightarrow> cc_issuer c = cc_subject ic \<and> decodeAki lib c = decodeSki lib ic)
     \<and> decodeSki lib c = Inr (cl_sha1 lib (ck_bits (cc_key c)))
     \<and> ti_value (cc_notBefore c) mod 1000 = 0
     \<and> bi_now inputs - 301000 < ti_value (cc_notBefore c) \<and> ti_value (cc_notBefore c) \<le> bi_now inputs - 300000
     \<and> ti_value (cc_notAfter c) = ti_value (cc_notBefore c) + cp_validityDays (bi_profile inputs) * 86400000
     \<and> ti_generalized (cc_notAfter c) = (full_year (ti_value (cc_notAfter c)) \<ge> 2050)
     \<and> filter x_critical (cc_extensions c) =
         [ca_ext lib OID_basicConstraints True (Ca_basic (bc_cA (cp_basicConstraints (bi_profile inputs)))
            (bc_pathLen (cp_basicConstraints (bi_profile inputs)))),
          ca_ext lib OID_keyUsage True (Ca_usage (cp_keyUsage (bi_profile inputs)))]"
proof -
  let ?p = "bi_profile inputs"
  obtain k aki where b: "cl_parseKey lib (bi_subjectSpkiDer inputs) = Some k"
      "case bi_issuerCert inputs of None \<Rightarrow> aki = cl_sha1 lib (ck_bits k) | Some ic \<Rightarrow> decodeSki lib ic = Inr aki"
      "cc_extensions c = profile_extensions lib ?p @ key_extensions lib (cl_sha1 lib (ck_bits k)) aki"
      "cc_key c = k" "cc_subject c = subjectDn (cp_cn ?p)"
      "cc_serialNumber c = canonical_serial (bi_serialNumber inputs)"
      "cc_issuer c = (case bi_issuerCert inputs of None \<Rightarrow> subjectDn (cp_cn ?p) | Some ic \<Rightarrow> cc_subject ic)"
      "cc_notBefore c = time_of (bi_now inputs - 300000 - (bi_now inputs - 300000) mod 1000)"
      "cc_notAfter c = time_of (bi_now inputs - 300000 - (bi_now inputs - 300000) mod 1000 + cp_validityDays ?p * 86400000)"
    using buildCaCert_Inr[OF assms(1)] by auto
  have ids: "decodeSki lib c = Inr (cl_sha1 lib (ck_bits k))" "decodeAki lib c = Inr aki"
    using built_ski[OF assms(2) b(3)] by simp_all
  have links: "case bi_issuerCert inputs of
          None \<Rightarrow> cc_issuer c = cc_subject c \<and> decodeAki lib c = decodeSki lib c
        | Some ic \<Rightarrow> cc_issuer c = cc_subject ic \<and> decodeAki lib c = decodeSki lib ic"
    using b(2,5,7) ids by (cases "bi_issuerCert inputs") simp_all
  have "filter x_critical (cc_extensions c) =
      [ca_ext lib OID_basicConstraints True (Ca_basic (bc_cA (cp_basicConstraints ?p)) (bc_pathLen (cp_basicConstraints ?p))),
       ca_ext lib OID_keyUsage True (Ca_usage (cp_keyUsage ?p))]"
    by (simp add: b(3) profile_extensions_def key_extensions_def split: option.split)
  moreover have "ti_value (cc_notBefore c) = bi_now inputs - 300000 - (bi_now inputs - 300000) mod 1000"
      "ti_value (cc_notAfter c) = ti_value (cc_notBefore c) + cp_validityDays ?p * 86400000"
      "ti_generalized (cc_notAfter c) = (full_year (ti_value (cc_notAfter c)) \<ge> 2050)"
    using b(8,9) by (simp_all add: time_of_def)
  moreover have "(x - x mod 1000) mod 1000 = 0 \<and> x - x mod 1000 \<le> x \<and> x - 1000 < x - x mod 1000" for x :: int
    by (simp add: mod_diff_right_eq)
  from this[of "bi_now inputs - 300000"] calculation(2)
  have "ti_value (cc_notBefore c) mod 1000 = 0 \<and> bi_now inputs - 300000 - 1000 < ti_value (cc_notBefore c)
      \<and> ti_value (cc_notBefore c) \<le> bi_now inputs - 300000" by presburger
  ultimately show ?thesis
    using canonical_serial_positive[OF assms(3,4)] b(4,5,6) ids(1) links by simp
qed

text \<open>Profile \<open>n\<close> is issued under \<open>m\<close>: the CA it names, with its key; a CA that outlives it and
  whose path length leaves room for it.\<close>

definition issued_under :: "profile_name \<Rightarrow> profile_name \<Rightarrow> bool" where
  "issued_under n m \<longleftrightarrow>
     (let p = PROFILES n; q = PROFILES m in
      cp_issuerCn p = Some (cp_cn q) \<and> cp_signerKey p = cp_kmsKey q \<and> bc_cA (cp_basicConstraints q)
      \<and> cp_validityDays p \<le> cp_validityDays q
      \<and> (bc_cA (cp_basicConstraints p) \<longrightarrow>
           null_or (bc_pathLen (cp_basicConstraints p)) 99 < null_or (bc_pathLen (cp_basicConstraints q)) 99))"

lemma hierarchy:
  "issued_under Ica_profile Root_profile" "issued_under Ocsp_profile Root_profile"
  "issued_under Ocsp_leaf_profile Ica_profile"
  by (simp_all add: issued_under_def)

text \<open>The lint of the profile table is exactly the certificate policy, and the four profiles form the
  hierarchy it asks for: each conforms and is linted as itself, and each but the self-signed root is
  signed with the key of the CA it names as issuer, which is a CA that outlives it and whose path length
  leaves room for it; no two share a key.\<close>

lemma profile_table_conforms:
  "(\<forall>name p. lintProfile name p = Inr () \<longleftrightarrow> ca_policy name p)
   \<and> (\<forall>n. ca_policy n (PROFILES n) \<and> lint_by_cn (PROFILES n) = Inr ()
        \<and> (cp_selfSigned (PROFILES n) \<or> (\<exists>m. issued_under n m)))
   \<and> distinct (map (\<lambda>n. cp_kmsKey (PROFILES n)) profile_names)"
proof (intro conjI allI)
  fix n
  show "lint_by_cn (PROFILES n) = Inr ()"
    using lint_by_cn_profile lint_exact profiles_conform by metis
  show "cp_selfSigned (PROFILES n) \<or> (\<exists>m. issued_under n m)"
    using hierarchy by (cases n) auto
qed (simp_all add: lint_exact profiles_conform profile_names_def)

section \<open>A run that goes well\<close>

text \<open>The codec reads a finished certificate back as far as the checks look at it.\<close>

definition cert_reads_back :: "ca_lib \<Rightarrow> ca_cert \<Rightarrow> bool" where
  "cert_reads_back lib c \<longleftrightarrow> (\<forall>sig. \<exists>parsed. cl_parseCert lib (cl_encodeCert lib (c\<lparr>cc_signature := sig\<rparr>)) = Some parsed
     \<and> cl_encodeTBS lib parsed = cl_encodeTBS lib c \<and> ck_der (cc_key parsed) = ck_der (cc_key c)
     \<and> cc_signature parsed = sig)"

definition kms_signs_under :: "ca_lib \<Rightarrow> ceremony_world \<Rightarrow> string \<Rightarrow> ca_key \<Rightarrow> bool" where
  "kms_signs_under lib w key k \<longleftrightarrow> (\<forall>tbs. \<exists>sig. cw_kmsSign w key tbs = Inr sig
     \<and> cl_p384_verify lib sig (cl_sha384 lib tbs) (ck_bits k) = Some True)"

lemma parse_finalized:
  "cert_reads_back lib c \<Longrightarrow> \<exists>parsed. parse_ca_pem lib (finalizeCertPem lib c sig) = Inr parsed
     \<and> cl_encodeTBS lib parsed = cl_encodeTBS lib c \<and> ck_der (cc_key parsed) = ck_der (cc_key c) \<and> cc_signature parsed = sig"
  by (auto simp: cert_reads_back_def parse_ca_pem_def finalizeCertPem_def pemToDer_derToCertPem)

lemma sign_and_write_succeeds:
  assumes "kms_signs_under lib w (cp_signerKey p) ik" "cl_parseKey lib ispki = Some ik" "cert_reads_back lib cert"
    and "ck_der (cc_key cert) = sspki" "\<And>d. cw_mkdir w d = Inr ()" "\<And>t. cw_write w out t = Inr ()"
  shows "\<exists>sig rest. sign_and_write lib w p out cert ispki sspki
    = (Inr (), Kms_sign (cp_signerKey p) (cl_encodeTBS lib cert) # rest @ [File_written out (finalizeCertPem lib cert sig)])"
proof -
  obtain sig where sig: "cw_kmsSign w (cp_signerKey p) (cl_encodeTBS lib cert) = Inr sig"
      "cl_p384_verify lib sig (cl_sha384 lib (cl_encodeTBS lib cert)) (ck_bits ik) = Some True"
    using assms(1) unfolding kms_signs_under_def by blast
  have "selfVerify lib (finalizeCertPem lib cert sig) (cl_encodeTBS lib cert) ispki sspki = Inr ()"
    using parse_finalized[OF assms(3), of sig] assms(2,4) sig(2) by (force simp: selfVerify_Inr_iff)
  then show ?thesis
    using sig(1) assms(5,6)
    by (intro exI[of _ sig]) (simp add: sign_and_write_def kmsSign_def bindW_def liftC_def tellW_def Let_def)
qed

lemma review_renders:
  assumes "buildCaCert lib inputs = Inr c" "key_ids_decode lib"
  shows "\<exists>review. renderReview lib name p c tbs (bi_subjectSpkiDer inputs) = Inr review"
proof -
  obtain k a b where "cl_parseKey lib (bi_subjectSpkiDer inputs) = Some k"
      "cc_extensions c = profile_extensions lib (bi_profile inputs) @ key_extensions lib a b"
    using buildCaCert_Inr[OF assms(1)] by auto
  then show ?thesis
    using built_ski[OF assms(2)] by (simp add: renderReview_def curveNameFromSpkiDer_def Let_def)
qed

text \<open>An approved ceremony completes: with arguments that pass, an issuer that is the expected one, keys
  that parse, a codec that reads back what it writes and a Cloud KMS whose signatures verify under the
  issuer's key, the answer \<open>SIGN\<close> leads to exactly the certificate of the profile in the file named by
  \<open>--out\<close>.\<close>

lemma ceremony_completes:
  assumes "parseArgs (cw_argv w) = Some args" "\<not> ca_dryRun args" "ca_outPath args = Some out" "cw_answer w = Some ''SIGN''"
    and "issuer_of lib w args = (Inr (ic, ispki), e1)" "subject_of w (PROFILES (ca_step args)) ispki = (Inr sspki, e2)"
    and "buildCaCert lib (inputs_of w args ic sspki) = Inr cert"
    and "key_ids_decode lib" "cert_reads_back lib cert" "ck_der (cc_key cert) = sspki"
    and "cl_parseKey lib ispki = Some ik" "kms_signs_under lib w (cp_signerKey (PROFILES (ca_step args))) ik"
    and "cw_mkdir w = (\<lambda>_. Inr ())" "cw_write w = (\<lambda>_ _. Inr ())"
  shows "\<exists>sig before. run_ceremony lib w = (Inr (), before @ [File_written out (finalizeCertPem lib cert sig)])"
proof -
  let ?p = "PROFILES (ca_step args)"
  obtain review where "renderReview lib (ca_step args) ?p cert (cl_encodeTBS lib cert) sspki = Inr review"
    using review_renders[OF assms(7,8), of "ca_step args" ?p "cl_encodeTBS lib cert"] by (auto simp: inputs_of_def)
  moreover obtain sig rest where "sign_and_write lib w ?p out cert ispki sspki
      = (Inr (), Kms_sign (cp_signerKey ?p) (cl_encodeTBS lib cert) # rest @ [File_written out (finalizeCertPem lib cert sig)])"
    using sign_and_write_succeeds[OF assms(12,11,9,10), of out] assms(13,14) by auto
  ultimately have "sign_from lib w args ic ispki sspki = (Inr (),
      [Displayed review, Prompted (SIGN_PROMPT (cp_signerKey ?p)), Kms_sign (cp_signerKey ?p) (cl_encodeTBS lib cert)]
      @ rest @ [File_written out (finalizeCertPem lib cert sig)])"
    using assms(2,3,4,7) by (simp add: sign_from_def inputs_of_def bindW_def liftC_def tellW_def Let_def)
  then show ?thesis
    using assms(1,5,6)
    by (intro exI[of _ sig]) (simp add: run_ceremony_def ceremony_step_def bindW_def)
qed

end
