(* ===== verification/CeremonyExample.thy ===== *)
theory CeremonyExample
  imports Ceremony
begin

text \<open>
  A ceremony step evaluated by the kernel: the issuing CA is built, approved, signed under the root key,
  checked and written.  The library is a small codec that keeps what the checks read: serial and key of
  a certificate, and the bytes of a key identifier.
\<close>

definition ex_key :: "bytes \<Rightarrow> ca_key" where
  "ex_key d = \<lparr>ck_der = d, ck_bits = d, ck_params = Some ''1.3.132.0.34''\<rparr>"

definition ex_ext_der :: "ca_ext_value \<Rightarrow> bytes" where
  "ex_ext_der v = (case v of Ca_ski b \<Rightarrow> 4 # b | Ca_aki b \<Rightarrow> 5 # b | _ \<Rightarrow> [6])"

definition ex_from_ber :: "bytes \<Rightarrow> asn1 option" where
  "ex_from_ber bs = (case bs of [] \<Rightarrow> None | t # b \<Rightarrow>
     if t = 4 then Some (octets_node b)
     else if t = 5 then Some (seq_node [Node 3 0 False None (Some b) None None]) else None)"

definition ex_root_key :: bytes where "ex_root_key = [2, 2, 3]"
definition ex_ica_key :: bytes where "ex_ica_key = [7, 8, 9]"

definition ex_cert_of :: "string \<Rightarrow> bytes \<Rightarrow> bytes \<Rightarrow> bytes \<Rightarrow> ca_cert" where
  "ex_cert_of cn key serial sig =
    \<lparr>cc_version = 2, cc_serialNumber = serial, cc_issuer = subjectDn ROOT_CN, cc_subject = subjectDn cn,
     cc_notBefore = time_of 0, cc_notAfter = time_of 1000, cc_key = ex_key key,
     cc_signatureAlgorithm = OID_ecdsaWithSHA384,
     cc_extensions = [\<lparr>x_oid = OID_subjectKeyIdentifier, x_critical = False, x_value = Some (4 # key)\<rparr>],
     cc_signature = sig\<rparr>"

definition ex_parse_cert :: "bytes \<Rightarrow> ca_cert option" where
  "ex_parse_cert bs =
    (if bs = [1] then Some (ex_cert_of ROOT_CN ex_root_key [1] [])
     else if take 1 bs = [9] then Some (ex_cert_of ICA_CN ex_ica_key (take 20 (drop 1 bs)) (drop 21 bs))
     else None)"

definition ex_ca_lib :: ca_lib where
  "ex_ca_lib = \<lparr>cl_fromBER = ex_from_ber,
     cl_parseKey = (\<lambda>d. if d = [] then None else Some (ex_key d)), cl_parseCert = ex_parse_cert,
     cl_encodeTBS = (\<lambda>c. cc_serialNumber c @ ck_der (cc_key c)),
     cl_encodeCert = (\<lambda>c. 9 # cc_serialNumber c @ cc_signature c), cl_extDer = ex_ext_der,
     cl_sha1 = (\<lambda>b. b), cl_sha256 = take 2, cl_sha384 = (\<lambda>b. rev b),
     cl_p384_verify = (\<lambda>sig digest point. Some (sig = point @ digest))\<rparr>"

lemma ex_key_ids: "key_ids_decode ex_ca_lib"
  by (simp add: key_ids_decode_def ex_ca_lib_def ex_from_ber_def ex_ext_der_def)

definition public_pem :: "bytes \<Rightarrow> string" where
  "public_pem d = ''-----BEGIN PUBLIC KEY-----'' @ [CHR 0x0A] @ bytesToBase64 d @ [CHR 0x0A]
     @ ''-----END PUBLIC KEY-----''"

definition ex_ceremony :: ceremony_world where
  "ex_ceremony = \<lparr>cw_argv = [''ica'', ''--root'', ''root.pem'', ''--out'', ''out/ica.pem''],
     cw_readFile = (\<lambda>f. if f = ''root.pem'' then Inr (derToCertPem [1]) else Inl ''NotFound''),
     cw_kmsPublicKey = (\<lambda>k. Inr (public_pem (if k = ''realreel-claim-ica'' then ex_ica_key else ex_root_key))),
     cw_kmsSign = (\<lambda>k tbs. Inr ((if k = ''realreel-root'' then ex_root_key else ex_ica_key) @ rev tbs)),
     cw_random = replicate 20 (0x80 :: 8 word), cw_now = 1767225600123, cw_answer = Some ''SIGN'',
     cw_mkdir = (\<lambda>_. Inr ()), cw_write = (\<lambda>_ _. Inr ())\<rparr>"

definition ex_ica_serial :: bytes where "ex_ica_serial = 1 # replicate 19 0x80"

text \<open>The stages of the run.\<close>

definition ex_ceremony_args :: ceremony_args where
  "ex_ceremony_args = \<lparr>ca_step = Ica_profile, ca_issuerPemPath = Some ''root.pem'', ca_outPath = Some ''out/ica.pem'',
     ca_dryRun = False\<rparr>"

lemma ex_ceremony_args_parse: "parseArgs (cw_argv ex_ceremony) = Some ex_ceremony_args"
  by code_simp

definition ex_root :: ca_cert where "ex_root = ex_cert_of ROOT_CN ex_root_key [1] []"

lemma ex_issuer: "issuer_of ex_ca_lib ex_ceremony ex_ceremony_args = (Inr (Some ex_root, ex_root_key), [])"
proof -
  have "parse_ca_pem ex_ca_lib (derToCertPem [1]) = Inr ex_root"
    by (simp add: parse_ca_pem_def pemToDer_derToCertPem ex_ca_lib_def ex_parse_cert_def ex_root_def)
  moreover have "common_name (subjectDn ROOT_CN) = Some ROOT_CN" by code_simp
  ultimately show ?thesis
    by (simp add: issuer_of_def ex_ceremony_args_def ex_ceremony_def assertIssuerCn_def liftC_def Let_def
        ex_root_def ex_cert_of_def ex_key_def)
qed

lemma ex_subject:
  "subject_of ex_ceremony (PROFILES Ica_profile) ex_root_key = (Inr ex_ica_key, [Key_fetched ''realreel-claim-ica''])"
proof -
  have "spkiPemToDer (public_pem ex_ica_key) = Some ex_ica_key" by code_simp
  then show ?thesis
    by (simp add: subject_of_def kmsPublicKeyDer_def bindW_def liftC_def tellW_def ex_ceremony_def)
qed

lemma ex_root_ski: "decodeSki ex_ca_lib ex_root = Inr ex_root_key"
  by (simp add: decodeSki_def find_ca_extension_def ex_root_def ex_cert_of_def ex_ca_lib_def ex_from_ber_def
      blockBytes_def octets_node_def)

definition ex_issuing_ca :: ca_cert where
  "ex_issuing_ca = \<lparr>cc_version = 2, cc_serialNumber = ex_ica_serial, cc_issuer = subjectDn ROOT_CN,
     cc_subject = subjectDn ICA_CN, cc_notBefore = time_of 1767225300000,
     cc_notAfter = time_of (1767225300000 + 1825 * 86400000), cc_key = ex_key ex_ica_key,
     cc_signatureAlgorithm = OID_ecdsaWithSHA384,
     cc_extensions = profile_extensions ex_ca_lib (PROFILES Ica_profile) @ key_extensions ex_ca_lib ex_ica_key ex_root_key,
     cc_signature = []\<rparr>"

lemma ex_built: "buildCaCert ex_ca_lib (inputs_of ex_ceremony ex_ceremony_args (Some ex_root) ex_ica_key) = Inr ex_issuing_ca"
proof -
  have "lint_by_cn (PROFILES Ica_profile) = Inr ()" by code_simp
  moreover have "canonical_serial (replicate 20 0x80) = ex_ica_serial" by code_simp
  moreover have "cl_parseKey ex_ca_lib ex_ica_key = Some (ex_key ex_ica_key)" "cl_sha1 ex_ca_lib b = b" for b
    by (simp_all add: ex_ca_lib_def ex_ica_key_def)
  moreover have "cc_subject ex_root = subjectDn ROOT_CN" by (simp add: ex_root_def ex_cert_of_def)
  ultimately show ?thesis
    using ex_root_ski
    by (simp add: buildCaCert_def inputs_of_def ex_ceremony_args_def ex_ceremony_def ex_issuing_ca_def ex_key_def Let_def)
qed

lemma ex_cert_reads_back: "cert_reads_back ex_ca_lib ex_issuing_ca"
  by (simp add: cert_reads_back_def ex_ca_lib_def ex_parse_cert_def ex_issuing_ca_def ex_ica_serial_def ex_cert_of_def ex_key_def)

lemma ex_signs: "kms_signs_under ex_ca_lib ex_ceremony ''realreel-root'' (ex_key ex_root_key)"
  by (simp add: kms_signs_under_def ex_ca_lib_def ex_ceremony_def ex_key_def)

theorem ceremony_completes_witness:
  "\<exists>sig before. run_ceremony ex_ca_lib ex_ceremony
     = (Inr (), before @ [File_written ''out/ica.pem'' (finalizeCertPem ex_ca_lib ex_issuing_ca sig)])"
proof (rule ceremony_completes[where w = ex_ceremony and lib = ex_ca_lib and args = ex_ceremony_args and ic = "Some ex_root"
      and ispki = ex_root_key and sspki = ex_ica_key and cert = ex_issuing_ca and ik = "ex_key ex_root_key"])
  show "cl_parseKey ex_ca_lib ex_root_key = Some (ex_key ex_root_key)"
    by (simp add: ex_ca_lib_def ex_root_key_def)
  show "kms_signs_under ex_ca_lib ex_ceremony (cp_signerKey (PROFILES (ca_step ex_ceremony_args))) (ex_key ex_root_key)"
    using ex_signs by (simp add: ex_ceremony_args_def)
  show "subject_of ex_ceremony (PROFILES (ca_step ex_ceremony_args)) ex_root_key = (Inr ex_ica_key, [Key_fetched ''realreel-claim-ica''])"
    using ex_subject by (simp add: ex_ceremony_args_def)
  show "ck_der (cc_key ex_issuing_ca) = ex_ica_key" by (simp add: ex_issuing_ca_def ex_key_def)
qed (rule ex_ceremony_args_parse ex_issuer ex_built ex_key_ids ex_cert_reads_back | simp add: ex_ceremony_args_def ex_ceremony_def)+

text \<open>The trace of the run.\<close>

lemma ex_ceremony_trace:
  "\<exists>review pem. run_ceremony ex_ca_lib ex_ceremony
     = (Inr (), [Key_fetched ''realreel-claim-ica'', Displayed review, Prompted (SIGN_PROMPT ''realreel-root''),
         Kms_sign ''realreel-root'' (ex_ica_serial @ ex_ica_key), Dir_made ''out'', File_written ''out/ica.pem'' pem])"
proof -
  obtain review where rv: "renderReview ex_ca_lib Ica_profile (PROFILES Ica_profile) ex_issuing_ca
      (cl_encodeTBS ex_ca_lib ex_issuing_ca) ex_ica_key = Inr review"
    using review_renders[OF ex_built ex_key_ids, of Ica_profile "PROFILES Ica_profile" "cl_encodeTBS ex_ca_lib ex_issuing_ca"]
    by (auto simp: inputs_of_def)
  have tbs: "cl_encodeTBS ex_ca_lib ex_issuing_ca = ex_ica_serial @ ex_ica_key"
    by (simp add: ex_ca_lib_def ex_issuing_ca_def ex_key_def)
  have dir: "join_with ''/'' (butlast (split_char (CHR ''/'') ''out/ica.pem'')) = ''out''" by code_simp
  have k: "cw_kmsSign ex_ceremony ''realreel-root'' tbs = Inr (ex_root_key @ rev tbs)" for tbs
    by (simp add: ex_ceremony_def)
  have sv: "selfVerify ex_ca_lib (finalizeCertPem ex_ca_lib ex_issuing_ca (ex_root_key @ rev (ex_ica_serial @ ex_ica_key)))
      (ex_ica_serial @ ex_ica_key) ex_root_key ex_ica_key = Inr ()"
    using parse_finalized[OF ex_cert_reads_back, of "ex_root_key @ rev (ex_ica_serial @ ex_ica_key)"] tbs
    by (force simp: selfVerify_Inr_iff ex_issuing_ca_def ex_key_def ex_ca_lib_def ex_root_key_def)
  have "sign_and_write ex_ca_lib ex_ceremony (PROFILES Ica_profile) ''out/ica.pem'' ex_issuing_ca ex_root_key ex_ica_key
      = (Inr (), [Kms_sign ''realreel-root'' (ex_ica_serial @ ex_ica_key), Dir_made ''out'',
          File_written ''out/ica.pem'' (finalizeCertPem ex_ca_lib ex_issuing_ca (ex_root_key @ rev (ex_ica_serial @ ex_ica_key)))])"
    using sv k by (simp add: sign_and_write_def kmsSign_def bindW_def liftC_def tellW_def Let_def tbs dir ex_ceremony_def)
  then have "sign_from ex_ca_lib ex_ceremony ex_ceremony_args (Some ex_root) ex_root_key ex_ica_key = (Inr (),
      [Displayed review, Prompted (SIGN_PROMPT ''realreel-root''),
       Kms_sign ''realreel-root'' (ex_ica_serial @ ex_ica_key), Dir_made ''out'',
       File_written ''out/ica.pem'' (finalizeCertPem ex_ca_lib ex_issuing_ca (ex_root_key @ rev (ex_ica_serial @ ex_ica_key)))])"
    using ex_built rv
    by (simp add: sign_from_def inputs_of_def ex_ceremony_args_def bindW_def liftC_def tellW_def Let_def ex_ceremony_def)
  then show ?thesis
    using ex_ceremony_args_parse ex_issuer ex_subject
    by (simp add: run_ceremony_def ceremony_step_def bindW_def ex_ceremony_args_def)
qed

theorem ceremony_signs_only_approved_witness:
  "\<exists>review before after. snd (run_ceremony ex_ca_lib ex_ceremony)
     = before @ [Displayed review, Prompted (SIGN_PROMPT ''realreel-root''),
         Kms_sign ''realreel-root'' (ex_ica_serial @ ex_ica_key)] @ after
     \<and> quiet before \<and> filter signs after = []"
proof -
  obtain r events where run: "run_ceremony ex_ca_lib ex_ceremony = (r, events)"
      "Kms_sign ''realreel-root'' (ex_ica_serial @ ex_ica_key) \<in> set events"
    using ex_ceremony_trace by force
  show ?thesis using ceremony_signs_only_approved[OF run] run(1) by auto
qed

theorem ceremony_writes_only_verified_witness:
  "\<exists>path pem parsed sspki. File_written path pem \<in> set (snd (run_ceremony ex_ca_lib ex_ceremony))
     \<and> parse_ca_pem ex_ca_lib pem = Inr parsed
     \<and> cl_encodeTBS ex_ca_lib parsed = ex_ica_serial @ ex_ica_key \<and> spkiPemToDer sspki = Some (ck_der (cc_key parsed))"
proof -
  obtain r events pem where run: "run_ceremony ex_ca_lib ex_ceremony = (r, events)"
      "File_written ''out/ica.pem'' pem \<in> set events"
      "\<forall>k t. Kms_sign k t \<in> set events \<longrightarrow> t = ex_ica_serial @ ex_ica_key"
    using ex_ceremony_trace by force
  from ceremony_writes_only_verified[OF run(1,2)] obtain parsed sspki k t where
    "Kms_sign k t \<in> set events" "parse_ca_pem ex_ca_lib pem = Inr parsed" "cl_encodeTBS ex_ca_lib parsed = t"
    "spkiPemToDer sspki = Some (ck_der (cc_key parsed))"
    by metis
  with run show ?thesis by auto
qed

theorem built_certificate_linked_witness:
  "der_positive (cc_serialNumber ex_issuing_ca) \<and> decodeAki ex_ca_lib ex_issuing_ca = decodeSki ex_ca_lib ex_root
     \<and> ti_value (cc_notAfter ex_issuing_ca) = ti_value (cc_notBefore ex_issuing_ca) + 1825 * 86400000"
  using built_certificate_linked[OF ex_built ex_key_ids]
  by (simp add: inputs_of_def ex_ceremony_def ex_ceremony_args_def)

end
