(* ===== verification/CrjsonHarness.thy ===== *)
theory CrjsonHarness
  imports VerifyFlow JsonRoundTrip LeafIssuance Trace "HOL-Library.Multiset"
begin

text \<open>
  The conformance harness, \<open>verifier/src/harness/crjson.ts\<close>: an asset, two trust lists and an instant go
  to two validators under the same frozen clock and the same settings; the crJSON of the one is checked
  against the validation results of the other.  The child processes, the digest and \<open>Date.parse\<close> are
  parameters; what the harness does to the world is a trace.  \<open>cli.ts\<close> and \<open>engine-probe.ts\<close> follow.
\<close>

section \<open>Types\<close>

record crjson_status =
  se_code :: string
  se_url :: "string option"

datatype status_group = Success_group | Informational_group | Failure_group

fun group_name :: "status_group \<Rightarrow> string" where
  "group_name Success_group = ''success''"
| "group_name Informational_group = ''informational''"
| "group_name Failure_group = ''failure''"

definition GROUPS :: "status_group list" where
  "GROUPS = [Success_group, Informational_group, Failure_group]"

text \<open>\<open>Partial<StatusCodes>\<close>: a group may be absent.\<close>

type_synonym status_codes = "status_group \<Rightarrow> crjson_status list option"

record crjson_delta =
  id_ingredientAssertionURI :: string
  id_validationDeltas :: status_codes

record crjson_manifest =
  cm_label :: string
  cm_validationResults :: status_codes
  cm_ingredientDeltas :: "crjson_delta list option"

record crjson_document =
  cd_manifests :: "crjson_manifest list"
  cd_generatorName :: string
  cd_generatorVersion :: string

record engine_results =
  er_activeManifest :: "status_codes option"
  er_ingredientDeltas :: "crjson_delta list option"

record engine_probe_result =
  ep_found :: bool
  ep_activeManifest :: "string option"
  ep_validationState :: "string option"
  ep_validationResults :: "engine_results option"

datatype harness_error_kind = Input_error | C2patool_missing | Faketime_missing | Validator_failed

text \<open>\<open>CrjsonHarnessError\<close> with its detail, and any other thrown error.\<close>

datatype harness_error = Harness_error harness_error_kind string "string option" | Uncaught_error string

section \<open>Inputs\<close>

text \<open>The PEM blocks of a bundle (\<open>cert_blocks\<close> is the same pattern).\<close>

definition pemCertificates :: "string \<Rightarrow> string list" where
  "pemCertificates bundle = cert_blocks bundle"

definition harnessSettings :: "string \<Rightarrow> string \<Rightarrow> reader_settings" where
  "harnessSettings trustListPem tsaTrustListPem =
    (let anchors = pemCertificates trustListPem @ pemCertificates tsaTrustListPem in
     buildVerifierSettings (if length anchors > 0 then join_with [CHR 0x0A] anchors @ [CHR 0x0A] else []) [] False)"

definition MIME_BY_EXTENSION :: "(string \<times> string) list" where
  "MIME_BY_EXTENSION =
    [(''.jpg'', ''image/jpeg''), (''.jpeg'', ''image/jpeg''), (''.png'', ''image/png''),
     (''.webp'', ''image/webp''), (''.gif'', ''image/gif''), (''.tif'', ''image/tiff''),
     (''.tiff'', ''image/tiff''), (''.dng'', ''image/x-adobe-dng''), (''.heic'', ''image/heic''),
     (''.heif'', ''image/heif''), (''.avif'', ''image/avif''), (''.svg'', ''image/svg+xml''),
     (''.mp4'', ''video/mp4''), (''.m4v'', ''video/mp4''), (''.mov'', ''video/quicktime''),
     (''.m4a'', ''audio/mp4''), (''.mp3'', ''audio/mpeg''), (''.wav'', ''audio/wav''),
     (''.avi'', ''video/x-msvideo''), (''.pdf'', ''application/pdf''), (''.c2pa'', ''application/c2pa'')]"

text \<open>\<open>path.extname\<close>: the last dot of the last segment and what follows, unless the dot begins the
  segment or the segment is two dots.\<close>

definition extname :: "string \<Rightarrow> string" where
  "extname path =
    (let p = rev (dropWhile (\<lambda>c. c = CHR ''/'') (rev path));
         base = last (split_char (CHR ''/'') p);
         after = rev (takeWhile (\<lambda>c. c \<noteq> CHR ''.'') (rev base)) in
     if CHR ''.'' \<notin> set base \<or> length after + 1 = length base \<or> base = ''..'' then []
     else CHR ''.'' # after)"

definition mimeTypeForAsset :: "string \<Rightarrow> string option" where
  "mimeTypeForAsset assetPath = map_of MIME_BY_EXTENSION (map lower_char (extname assetPath))"

text \<open>\<open>RFC3339_RE\<close>: date, hour and minute, second, fraction, offset.\<close>

definition digits_at :: "nat list \<Rightarrow> string \<Rightarrow> bool" where
  "digits_at is s = list_all (\<lambda>i. i < length s \<and> is_digit (s ! i)) is"

definition is_offset :: "string \<Rightarrow> bool" where
  "is_offset o' =
    (o' = ''Z'' \<or> o' = ''z''
     \<or> (length o' = 6 \<and> (o' ! 0 = CHR ''+'' \<or> o' ! 0 = CHR ''-'') \<and> digits_at [1, 2, 4, 5] o' \<and> o' ! 3 = CHR '':''))"

definition rfc3339 :: "string \<Rightarrow> (string \<times> string \<times> string \<times> string \<times> string) option" where
  "rfc3339 s =
    (let date = take 10 s; sep = take 1 (drop 10 s); hhmm = take 5 (drop 11 s);
         ss = take 2 (drop 17 s); rest = drop 19 s;
         frac = (if take 1 rest = ''.'' \<and> takeWhile is_digit (tl rest) \<noteq> []
                 then CHR ''.'' # takeWhile is_digit (tl rest) else []);
         offset = drop (length frac) rest in
     if digits_at [0, 1, 2, 3, 5, 6, 8, 9, 11, 12, 14, 15, 17, 18] s
        \<and> s ! 4 = CHR ''-'' \<and> s ! 7 = CHR ''-'' \<and> s ! 13 = CHR '':'' \<and> s ! 16 = CHR '':''
        \<and> sep \<in> {''T'', ''t'', '' ''} \<and> is_offset offset
     then Some (date, hhmm, ss, frac, offset) else None)"

text \<open>\<open>parse_date\<close> is \<open>Date.parse\<close>, undefined where that is NaN.\<close>

definition parseValidationTime :: "(string \<Rightarrow> int option) \<Rightarrow> string \<Rightarrow> harness_error + int" where
  "parseValidationTime parse_date s =
    (case rfc3339 (js_trim s) of
       None \<Rightarrow> Inl (Harness_error Input_error (''validation time is not RFC 3339 with an offset: '' @ s) None)
     | Some (date, hhmm, ss, frac, offset) \<Rightarrow>
         derefR (Harness_error Input_error (''validation time is not a valid instant: '' @ s) None)
           (parse_date (date @ ''T'' @ hhmm @ '':'' @ (if ss = ''60'' then ''59'' else ss) @ frac
              @ map upper_char offset)))"

text \<open>\<open>toISOString().slice(0, 19).replace("T", " ")\<close>.\<close>

definition faketime_text :: "int \<Rightarrow> string" where
  "faketime_text instant =
    (let s = take 19 (iso_string instant); a = takeWhile (\<lambda>c. c \<noteq> CHR ''T'') s in
     if CHR ''T'' \<in> set s then a @ '' '' @ drop (Suc (length a)) s else s)"

definition toFaketime :: "js_date \<Rightarrow> harness_error + string" where
  "toFaketime d =
    (case d of None \<Rightarrow> Inl (Harness_error Input_error ''validationTime is not a valid instant'' None)
     | Some t \<Rightarrow> Inr (faketime_text t))"

section \<open>Canonical order of keys\<close>

fun sortKeysDeep :: "jsval \<Rightarrow> jsval" where
  "sortKeysDeep (JArr vs) = JArr (map sortKeysDeep vs)"
| "sortKeysDeep (JObj kvs) = JObj (sort_key fst (map (\<lambda>(k, v). (k, sortKeysDeep v)) kvs))"
| "sortKeysDeep v = v"

text \<open>\<open>JSON.stringify(value, null, 2)\<close>.\<close>

fun json_pretty :: "string \<Rightarrow> jsval \<Rightarrow> string" where
  "json_pretty ind (JArr vs) =
     (if vs = [] then ''[]''
      else ''['' @ [CHR 0x0A] @ join_with ('','' @ [CHR 0x0A]) (map (\<lambda>v. ind @ ''  '' @ json_pretty (ind @ ''  '') v) vs)
           @ [CHR 0x0A] @ ind @ '']'')"
| "json_pretty ind (JObj kvs) =
     (let ms = concat (map (\<lambda>(k, v). if v = JUndef then []
                 else [ind @ ''  '' @ json_quote k @ '': '' @ json_pretty (ind @ ''  '') v]) kvs) in
      if ms = [] then ''{}''
      else ''{'' @ [CHR 0x0A] @ join_with ('','' @ [CHR 0x0A]) ms @ [CHR 0x0A] @ ind @ ''}'')"
| "json_pretty ind v = json_stringify v"

section \<open>Cross-check\<close>

definition status_key :: "crjson_status \<Rightarrow> string" where
  "status_key e = se_code e @ '' @ '' @ null_or (se_url e) []"

definition statusKeys :: "crjson_status list option \<Rightarrow> string list" where
  "statusKeys entries = sort (map status_key (null_or entries []))"

definition diff_group :: "string \<Rightarrow> status_codes option \<Rightarrow> status_codes option \<Rightarrow> status_group \<Rightarrow> string list" where
  "diff_group here a b g =
    (let ka = statusKeys (chain a (\<lambda>s. s g)); kb = statusKeys (chain b (\<lambda>s. s g)) in
     if join_with [CHR 0x0A] ka \<noteq> join_with [CHR 0x0A] kb
     then [here @ ''.'' @ group_name g @ '': crJSON ['' @ join_with '', '' ka @ ''] vs engine ['' @ join_with '', '' kb @ '']'']
     else [])"

definition diffGroups :: "string \<Rightarrow> status_codes option \<Rightarrow> status_codes option \<Rightarrow> string list" where
  "diffGroups here a b = concat (map (diff_group here a b) GROUPS)"

definition delta_key :: "crjson_delta \<Rightarrow> status_group \<Rightarrow> string \<Rightarrow> string" where
  "delta_key d g k = id_ingredientAssertionURI d @ '' '' @ group_name g @ '': '' @ k"

definition deltaKeys :: "crjson_delta list \<Rightarrow> string list" where
  "deltaKeys deltas =
    sort (concat (map (\<lambda>d. concat (map (\<lambda>g. map (delta_key d g) (statusKeys (id_validationDeltas d g))) GROUPS)) deltas))"

text \<open>\<open>/^self#jumbf=\/c2pa\/([^/]+)\//\<close>.\<close>

definition uri_owner :: "string \<Rightarrow> string option" where
  "uri_owner uri =
    (let p = ''self#jumbf=/c2pa/''; r = drop (length p) uri; label = takeWhile (\<lambda>c. c \<noteq> CHR ''/'') r in
     if starts_with p uri \<and> label \<noteq> [] \<and> CHR ''/'' \<in> set r then Some label else None)"

definition misplaced :: "crjson_manifest \<Rightarrow> string list" where
  "misplaced m =
    concat (map (\<lambda>d. case uri_owner (id_ingredientAssertionURI d) of
        Some owner \<Rightarrow> if owner \<noteq> cm_label m
          then [''ingredient delta '' @ id_ingredientAssertionURI d @ '' placed under manifest '' @ cm_label m] else []
      | None \<Rightarrow> []) (null_or (cm_ingredientDeltas m) []))"

definition compareWithEngine :: "crjson_document \<Rightarrow> engine_probe_result \<Rightarrow> string list" where
  "compareWithEngine crjson engine =
    (if \<not> ep_found engine then
       (if length (cd_manifests crjson) > 0
        then [''engine found no manifest store; crJSON has '' @ show_nat (length (cd_manifests crjson)) @ '' manifest(s)'']
        else [])
     else (case cd_manifests crjson of
       [] \<Rightarrow> [''engine found a manifest store (active '' @ null_or (ep_activeManifest engine) ''null'' @ ''); crJSON has none'']
     | active # _ \<Rightarrow>
         let results = ep_validationResults engine;
             a = deltaKeys (concat (map (\<lambda>m. null_or (cm_ingredientDeltas m) []) (cd_manifests crjson)));
             b = deltaKeys (null_or (chain results er_ingredientDeltas) []);
             only = (\<lambda>xs ys. join_with '', '' (filter (\<lambda>k. k \<notin> set ys) xs)) in
         (if Some (cm_label active) \<noteq> ep_activeManifest engine
          then [''active manifest: crJSON '' @ cm_label active @ '' vs engine '' @ null_or (ep_activeManifest engine) ''null'']
          else [])
         @ diffGroups ''activeManifest'' (Some (cm_validationResults active)) (chain results er_activeManifest)
         @ (if join_with [CHR 0x0A] a \<noteq> join_with [CHR 0x0A] b
            then [''ingredientDeltas: crJSON-only ['' @ only a b @ ''] engine-only ['' @ only b a @ '']''] else [])
         @ concat (map misplaced (cd_manifests crjson))))"

section \<open>The documents as the harness reads them\<close>

text \<open>The casts from parsed JSON to the declared types.  Where a value has another shape the source goes on
  to a TypeError when it reads it; here the reading fails.\<close>

definition entry_of :: "jsval \<Rightarrow> crjson_status option" where
  "entry_of v = chain (as_str (opt_get v ''code'')) (\<lambda>c.
     if is_nullish (opt_get v ''url'') then Some \<lparr>se_code = c, se_url = None\<rparr>
     else chain (as_str (opt_get v ''url'')) (\<lambda>u. Some \<lparr>se_code = c, se_url = Some u\<rparr>))"

fun list_of :: "(jsval \<Rightarrow> 'a option) \<Rightarrow> jsval \<Rightarrow> 'a list option" where
  "list_of f (JArr vs) = those (map f vs)"
| "list_of f v = None"

definition nullable :: "(jsval \<Rightarrow> 'a option) \<Rightarrow> jsval \<Rightarrow> 'a option option" where
  "nullable f v = (if is_nullish v then Some None else map_option Some (f v))"

definition codes_of :: "jsval \<Rightarrow> status_codes option" where
  "codes_of v =
    chain (nullable (list_of entry_of) (opt_get v ''success'')) (\<lambda>s.
    chain (nullable (list_of entry_of) (opt_get v ''informational'')) (\<lambda>i.
    chain (nullable (list_of entry_of) (opt_get v ''failure'')) (\<lambda>f.
      Some (\<lambda>g. case g of Success_group \<Rightarrow> s | Informational_group \<Rightarrow> i | Failure_group \<Rightarrow> f))))"

definition delta_of :: "jsval \<Rightarrow> crjson_delta option" where
  "delta_of v =
    chain (as_str (opt_get v ''ingredientAssertionURI'')) (\<lambda>u.
    chain (codes_of (opt_get v ''validationDeltas'')) (\<lambda>c.
      Some \<lparr>id_ingredientAssertionURI = u, id_validationDeltas = c\<rparr>))"

definition manifest_of :: "jsval \<Rightarrow> crjson_manifest option" where
  "manifest_of v =
    chain (as_str (opt_get v ''label'')) (\<lambda>l.
    chain (codes_of (opt_get v ''validationResults'')) (\<lambda>c.
    chain (nullable (list_of delta_of) (opt_get v ''ingredientDeltas'')) (\<lambda>d.
      Some \<lparr>cm_label = l, cm_validationResults = c, cm_ingredientDeltas = d\<rparr>)))"

definition document_of :: "jsval \<Rightarrow> crjson_document option" where
  "document_of v =
    chain (list_of manifest_of (opt_get v ''manifests'')) (\<lambda>ms.
    chain (as_str (opt_get (opt_get v ''jsonGenerator'') ''name'')) (\<lambda>n.
    chain (as_str (opt_get (opt_get v ''jsonGenerator'') ''version'')) (\<lambda>ver.
      Some \<lparr>cd_manifests = ms, cd_generatorName = n, cd_generatorVersion = ver\<rparr>)))"

definition results_of :: "jsval \<Rightarrow> engine_results option" where
  "results_of v =
    chain (nullable codes_of (opt_get v ''activeManifest'')) (\<lambda>a.
    chain (nullable (list_of delta_of) (opt_get v ''ingredientDeltas'')) (\<lambda>d.
      Some \<lparr>er_activeManifest = a, er_ingredientDeltas = d\<rparr>))"

definition engine_result_of :: "jsval \<Rightarrow> engine_probe_result option" where
  "engine_result_of v =
    chain (nullable as_str (opt_get v ''activeManifest'')) (\<lambda>a.
    chain (nullable as_str (opt_get v ''validationState'')) (\<lambda>s.
    chain (nullable results_of (opt_get v ''validationResults'')) (\<lambda>r.
      Some \<lparr>ep_found = truthy (opt_get v ''found''), ep_activeManifest = a, ep_validationState = s,
            ep_validationResults = r\<rparr>)))"

section \<open>A run\<close>

datatype child_error = Timed_out | Spawn_failed string

record child_run =
  ch_error :: "child_error option"
  ch_status :: "int option"
  ch_signal :: string
  ch_stdout :: string
  ch_stderr :: string

datatype harness_event =
    Spawned string "string list"
  | Work_dir_made
  | Settings_written reader_settings
  | Work_dir_removed

type_synonym 'a harness = "(harness_error, harness_event, 'a) traced"

record harness_inputs =
  hi_assetPath :: string
  hi_trustListPem :: string
  hi_tsaTrustListPem :: string
  hi_validationTime :: "js_date option"

record harness_options =
  ho_c2patool :: "string option"
  ho_faketime :: "string option"
  ho_crossCheck :: "bool option"
  ho_timeoutMs :: "nat option"

text \<open>The world: a child's outcome, given the settings file it can read; files; the digest; the work
  directory; the environment; the versions of the two packages; the command of the engine probe.\<close>

record harness_world =
  hw_spawn :: "reader_settings option \<Rightarrow> string \<Rightarrow> string list \<Rightarrow> child_run"
  hw_readFile :: "string \<Rightarrow> string + bytes"
  hw_sha256 :: "bytes \<Rightarrow> string"
  hw_workDir :: string
  hw_C2PATOOL :: "string option"
  hw_version :: string
  hw_engineVersion :: string
  hw_probe :: "string \<times> string list"

record engine_agreement =
  ea_checked :: bool
  ea_agree :: bool
  ea_differences :: "string list"

record engine_verdict =
  ev_found :: bool
  ev_activeManifest :: "string option"
  ev_validationState :: "string option"

datatype crjson_origin = From_c2patool | Harness_empty_document

record run_record =
  hr_c2patool :: string
  hr_c2paRs :: "string option"
  hr_crjsonOrigin :: crjson_origin
  hr_stderr :: "string option"
  hr_engine :: "(string \<times> string option) option"
  hr_asset :: "string \<times> string \<times> string option"
  hr_trustList :: "string \<times> nat"
  hr_tsaTrustList :: "string \<times> nat"
  hr_validationTime :: string
  hr_engineAgreement :: engine_agreement
  hr_engineVerdict :: "engine_verdict option"

record harness_run =
  hn_crjson :: jsval
  hn_crjsonText :: string
  hn_record :: run_record

definition HARNESS_NAME :: string where "HARNESS_NAME = ''realreel-c2pa verifier crjson-harness''"
definition ENGINE_PACKAGE :: string where "ENGINE_PACKAGE = ''@contentauth/c2pa-node''"

definition ENGINE_C2PA_RS :: "(string \<times> string) list" where
  "ENGINE_C2PA_RS =
    [(''0.8.3'', ''0.90.5''), (''0.9.1'', ''0.90.15''), (''0.9.7'', ''0.90.22''), (''0.9.10'', ''0.91.3'')]"

definition ENGINE_IDENTITY :: "harness_world \<Rightarrow> string \<times> string option" where
  "ENGINE_IDENTITY w = (hw_engineVersion w, map_of ENGINE_C2PA_RS (hw_engineVersion w))"

definition resolveC2patool :: "harness_world \<Rightarrow> harness_options \<Rightarrow> string" where
  "resolveC2patool w options =
    (case ho_c2patool options of Some b \<Rightarrow> b | None \<Rightarrow> null_or (hw_C2PATOOL w) ''c2patool'')"

definition spawnSync :: "harness_world \<Rightarrow> reader_settings option \<Rightarrow> string \<Rightarrow> string list \<Rightarrow> child_run harness" where
  "spawnSync w st cmd args = bindW (tellW (Spawned cmd args)) (\<lambda>_. liftW (Inr (hw_spawn w st cmd args)))"

definition spawnAt ::
  "harness_world \<Rightarrow> reader_settings \<Rightarrow> string \<Rightarrow> string list \<Rightarrow> string option \<Rightarrow> string \<Rightarrow> child_run harness"
where
  "spawnAt w st cmd args faketimeAt faketimeBin =
    (case faketimeAt of None \<Rightarrow> spawnSync w (Some st) cmd args
     | Some t \<Rightarrow> spawnSync w (Some st) faketimeBin ([''-f'', t, cmd] @ args))"

definition failed :: "child_run \<Rightarrow> bool" where
  "failed r = (ch_error r \<noteq> None \<or> ch_status r \<noteq> Some 0)"

definition childFailure :: "child_run \<Rightarrow> nat \<Rightarrow> string" where
  "childFailure r timeout =
    (case ch_error r of
       Some Timed_out \<Rightarrow> ''timed out after '' @ show_nat timeout @ '' ms''
     | Some (Spawn_failed m) \<Rightarrow> m
     | None \<Rightarrow>
         let t = js_trim (if ch_stderr r \<noteq> [] then ch_stderr r else ch_stdout r) in
         if t \<noteq> [] then t
         else ''exited '' @ (case ch_status r of Some n \<Rightarrow> show_int n | None \<Rightarrow> ''by signal '' @ ch_signal r))"

definition EMPTY_DOCUMENT :: "harness_world \<Rightarrow> jsval" where
  "EMPTY_DOCUMENT w =
    JObj [(''@context'', JObj [(''@vocab'', JStr ''https://c2pa.org/crjson''), (''extras'', JStr ''https://c2pa.org/crjson/extras'')]),
          (''manifests'', JArr []),
          (''jsonGenerator'', JObj [(''name'', JStr HARNESS_NAME), (''version'', JStr (hw_version w))])]"

definition crjson_text :: "jsval \<Rightarrow> string" where
  "crjson_text v = json_pretty [] v @ [CHR 0x0A]"

text \<open>What becomes of c2patool's answer.\<close>

definition crjson_of_tool ::
  "harness_world \<Rightarrow> harness_inputs \<Rightarrow> nat \<Rightarrow> child_run \<Rightarrow> harness_error + (jsval \<times> crjson_origin)"
where
  "crjson_of_tool w inputs timeout tool =
    (if \<not> failed tool then
       (case json_parse (ch_stdout tool) of
          None \<Rightarrow> Inl (Harness_error Validator_failed ''c2patool emitted non-JSON'' (Some ''SyntaxError''))
        | Some v \<Rightarrow> Inr (sortKeysDeep v, From_c2patool))
     else if ch_error tool = None \<and> includes_str ''no claim found'' (map lower_char (ch_stderr tool))
     then Inr (sortKeysDeep (EMPTY_DOCUMENT w), Harness_empty_document)
     else Inl (Harness_error Validator_failed (''c2patool failed on '' @ hi_assetPath inputs)
                 (Some (childFailure tool timeout))))"

definition cross_check ::
  "harness_world \<Rightarrow> harness_inputs \<Rightarrow> harness_options \<Rightarrow> string option \<Rightarrow> crjson_document
     \<Rightarrow> (engine_agreement \<times> engine_verdict option) harness"
where
  "cross_check w inputs options faketimeAt crjson =
    (let settings = harnessSettings (hi_trustListPem inputs) (hi_tsaTrustListPem inputs);
         unchecked = (\<lambda>agree why. (\<lparr>ea_checked = False, ea_agree = agree, ea_differences = [why]\<rparr>, None)) in
     if \<not> null_or (ho_crossCheck options) True then liftW (Inr (unchecked True ''cross-check disabled''))
     else (case mimeTypeForAsset (hi_assetPath inputs) of
       None \<Rightarrow> liftW (Inr (unchecked True (''no MIME type known for '' @ extname (hi_assetPath inputs))))
     | Some mimeType \<Rightarrow>
         bindW (spawnAt w settings (fst (hw_probe w))
             (snd (hw_probe w) @ [hi_assetPath inputs, mimeType, hw_workDir w @ ''/settings.json'']) faketimeAt
             (null_or (ho_faketime options) ''faketime'')) (\<lambda>probe.
         if failed probe
         then liftW (Inr (unchecked False (''engine failed on the asset: ''
                @ childFailure probe (null_or (ho_timeoutMs options) 120000))))
         else liftW (case chain (json_parse (ch_stdout probe)) engine_result_of of
                None \<Rightarrow> Inl (Uncaught_error ''engine result'')
              | Some result \<Rightarrow>
                  (let differences = compareWithEngine crjson result in
                   Inr (\<lparr>ea_checked = True, ea_agree = (length differences = 0), ea_differences = differences\<rparr>,
                        Some \<lparr>ev_found = ep_found result, ev_activeManifest = ep_activeManifest result,
                              ev_validationState = ep_validationState result\<rparr>))))))"

definition record_of ::
  "harness_world \<Rightarrow> harness_inputs \<Rightarrow> harness_options \<Rightarrow> string option \<Rightarrow> bytes \<Rightarrow> string \<Rightarrow> child_run
     \<Rightarrow> crjson_document \<Rightarrow> crjson_origin \<Rightarrow> engine_agreement \<times> engine_verdict option \<Rightarrow> run_record"
where
  "record_of w inputs options faketimeAt assetBytes version tool doc origin ag =
    (let mimeType = mimeTypeForAsset (hi_assetPath inputs); crossCheck = null_or (ho_crossCheck options) True in
     \<lparr>hr_c2patool = version,
      hr_c2paRs = (if cd_generatorName doc = ''c2pa-rs'' then Some (cd_generatorVersion doc) else None),
      hr_crjsonOrigin = origin,
      hr_stderr = (if js_trim (ch_stderr tool) \<noteq> [] then Some (js_trim (ch_stderr tool)) else None),
      hr_engine = (if crossCheck \<and> mimeType \<noteq> None then Some (ENGINE_IDENTITY w) else None),
      hr_asset = (hi_assetPath inputs, hw_sha256 w assetBytes, mimeType),
      hr_trustList = (hw_sha256 w (utf8 (hi_trustListPem inputs)), length (pemCertificates (hi_trustListPem inputs))),
      hr_tsaTrustList = (hw_sha256 w (utf8 (hi_tsaTrustListPem inputs)), length (pemCertificates (hi_tsaTrustListPem inputs))),
      hr_validationTime = (case faketimeAt of None \<Rightarrow> ''wall-clock''
         | Some t \<Rightarrow> takeWhile (\<lambda>c. c \<noteq> CHR '' '') t @ (if CHR '' '' \<in> set t then ''T'' else [])
                     @ drop (Suc (length (takeWhile (\<lambda>c. c \<noteq> CHR '' '') t))) t @ ''Z''),
      hr_engineAgreement = fst ag, hr_engineVerdict = snd ag\<rparr>)"

text \<open>A bundle with text but no certificate is refused.\<close>

definition check_bundle :: "string \<Rightarrow> string \<Rightarrow> harness_error + unit" where
  "check_bundle label pem =
    guardR (\<not> (js_trim pem \<noteq> [] \<and> length (pemCertificates pem) = 0))
      (Harness_error Input_error (label @ '' contains no PEM block'') None)"

definition in_work_dir ::
  "harness_world \<Rightarrow> harness_inputs \<Rightarrow> harness_options \<Rightarrow> string option \<Rightarrow> bytes \<Rightarrow> harness_run harness"
where
  "in_work_dir w inputs options faketimeAt assetBytes =
    (let settings = harnessSettings (hi_trustListPem inputs) (hi_tsaTrustListPem inputs);
         c2patoolBin = resolveC2patool w options; faketimeBin = null_or (ho_faketime options) ''faketime'';
         timeout = null_or (ho_timeoutMs options) 120000 in
     bindW (tellW (Settings_written settings)) (\<lambda>_.
     bindW (spawnSync w (Some settings) c2patoolBin [''--version'']) (\<lambda>versionProbe.
     if failed versionProbe
     then liftW (Inl (Harness_error C2patool_missing (''could not run '' @ c2patoolBin) None))
     else
       bindW (spawnAt w settings c2patoolBin
           [hi_assetPath inputs, ''--crjson'', ''--settings'', hw_workDir w @ ''/settings.json''] faketimeAt faketimeBin) (\<lambda>tool.
       bindW (liftW (crjson_of_tool w inputs timeout tool)) (\<lambda>(crjson, origin).
       bindW (liftW (derefR (Uncaught_error ''crJSON'') (document_of crjson))) (\<lambda>doc.
       bindW (cross_check w inputs options faketimeAt doc) (\<lambda>ag.
         liftW (Inr \<lparr>hn_crjson = crjson, hn_crjsonText = crjson_text crjson,
           hn_record = record_of w inputs options faketimeAt assetBytes (js_trim (ch_stdout versionProbe)) tool doc origin ag\<rparr>)))))))) "

text \<open>What happens before there is a work directory.\<close>

definition prepare_run :: "harness_world \<Rightarrow> harness_inputs \<Rightarrow> harness_options \<Rightarrow> (string option \<times> bytes) harness" where
  "prepare_run w inputs options =
    (let faketimeBin = null_or (ho_faketime options) ''faketime'' in
     bindW (liftW (case hi_validationTime inputs of None \<Rightarrow> Inr None
                   | Some d \<Rightarrow> bindR (toFaketime d) (\<lambda>t. Inr (Some t)))) (\<lambda>faketimeAt.
     bindW (if faketimeAt = None then liftW (Inr ())
            else bindW (spawnSync w None faketimeBin [''--version'']) (\<lambda>r.
              liftW (guardR (ch_error r = None)
                (Harness_error Faketime_missing (faketimeBin @ '' (libfaketime) is needed and was not found'') None)))) (\<lambda>_.
     bindW (liftW (case hw_readFile w (hi_assetPath inputs) of
              Inl m \<Rightarrow> Inl (Harness_error Input_error (''cannot read asset '' @ hi_assetPath inputs) (Some m))
            | Inr b \<Rightarrow> Inr b)) (\<lambda>assetBytes.
     bindW (liftW (check_bundle ''trust list'' (hi_trustListPem inputs))) (\<lambda>_.
     bindW (liftW (check_bundle ''TSA trust list'' (hi_tsaTrustListPem inputs))) (\<lambda>_.
       liftW (Inr (faketimeAt, assetBytes))))))))"

definition runCrjsonHarness :: "harness_world \<Rightarrow> harness_inputs \<Rightarrow> harness_options \<Rightarrow> harness_run harness" where
  "runCrjsonHarness w inputs options =
    bindW (prepare_run w inputs options) (\<lambda>(faketimeAt, assetBytes).
    bindW (tellW Work_dir_made) (\<lambda>_.
      finallyW (in_work_dir w inputs options faketimeAt assetBytes) Work_dir_removed))"

section \<open>The command line and the probe\<close>

text \<open>\<open>cli.ts\<close>.\<close>

record cli_args =
  cl_asset :: "string option"
  cl_trustList :: "string option"
  cl_tsaTrustList :: "string option"
  cl_validationTime :: "string option"
  cl_wallClock :: bool
  cl_out :: "string option"
  cl_record :: "string option"
  cl_crossCheck :: bool
  cl_c2patool :: "string option"

definition no_args :: cli_args where
  "no_args = \<lparr>cl_asset = None, cl_trustList = None, cl_tsaTrustList = None, cl_validationTime = None,
     cl_wallClock = False, cl_out = None, cl_record = None, cl_crossCheck = True, cl_c2patool = None\<rparr>"

text \<open>\<open>None\<close> is \<open>usage\<close>, which ends the process with status 2.\<close>

fun scan_args :: "string list \<Rightarrow> cli_args \<Rightarrow> cli_args option" where
  "scan_args [] out = Some out"
| "scan_args (a # rest) out =
     (if a = ''--wall-clock'' then scan_args rest (out\<lparr>cl_wallClock := True\<rparr>)
      else if a = ''--no-cross-check'' then scan_args rest (out\<lparr>cl_crossCheck := False\<rparr>)
      else (case rest of
          [] \<Rightarrow> None
        | v # rest' \<Rightarrow>
            if a = ''--asset'' then scan_args rest' (out\<lparr>cl_asset := Some v\<rparr>)
            else if a = ''--trust-list'' then scan_args rest' (out\<lparr>cl_trustList := Some v\<rparr>)
            else if a = ''--tsa-trust-list'' then scan_args rest' (out\<lparr>cl_tsaTrustList := Some v\<rparr>)
            else if a = ''--validation-time'' then scan_args rest' (out\<lparr>cl_validationTime := Some v\<rparr>)
            else if a = ''--out'' then scan_args rest' (out\<lparr>cl_out := Some v\<rparr>)
            else if a = ''--record'' then scan_args rest' (out\<lparr>cl_record := Some v\<rparr>)
            else if a = ''--c2patool'' then scan_args rest' (out\<lparr>cl_c2patool := Some v\<rparr>)
            else None))"

definition given :: "string option \<Rightarrow> bool" where
  "given v = (v \<noteq> None \<and> v \<noteq> Some [])"

definition cliParseArgs :: "string list \<Rightarrow> cli_args option" where
  "cliParseArgs argv =
    (case scan_args argv no_args of
       None \<Rightarrow> None
     | Some out \<Rightarrow>
         if \<not> (given (cl_asset out) \<and> given (cl_trustList out) \<and> given (cl_tsaTrustList out)) then None
         else if \<not> given (cl_validationTime out) \<and> \<not> cl_wallClock out then None
         else Some out)"

definition cli_inputs ::
  "(string \<Rightarrow> string + string) \<Rightarrow> (string \<Rightarrow> int option) \<Rightarrow> cli_args \<Rightarrow> harness_inputs option"
where
  "cli_inputs readText parse_date args =
    chain (if given (cl_validationTime args)
           then (case parseValidationTime parse_date (the (cl_validationTime args)) of
                   Inl e \<Rightarrow> None | Inr t \<Rightarrow> Some (Some (Some t)))
           else Some None) (\<lambda>time.
    case readText (the (cl_trustList args)) of Inl m \<Rightarrow> None
    | Inr trust \<Rightarrow> (case readText (the (cl_tsaTrustList args)) of Inl m \<Rightarrow> None
      | Inr tsa \<Rightarrow> Some \<lparr>hi_assetPath = the (cl_asset args), hi_trustListPem = trust, hi_tsaTrustListPem = tsa,
                        hi_validationTime = time\<rparr>))"

fun exit_of :: "harness_error + harness_run \<Rightarrow> nat" where
  "exit_of (Inl (Harness_error k m d)) =
     (case k of C2patool_missing \<Rightarrow> 3 | Faketime_missing \<Rightarrow> 3 | Input_error \<Rightarrow> 2 | Validator_failed \<Rightarrow> 4)"
| "exit_of (Inl (Uncaught_error m)) = 1"
| "exit_of (Inr run) = (if ea_agree (hr_engineAgreement (hn_record run)) then 0 else 5)"

text \<open>The exit status and, when a document is emitted, its text.\<close>

definition runCli ::
  "harness_world \<Rightarrow> (string \<Rightarrow> string + string) \<Rightarrow> (string \<Rightarrow> int option) \<Rightarrow> string list \<Rightarrow> nat \<times> string option"
where
  "runCli w readText parse_date argv =
    (case cliParseArgs argv of None \<Rightarrow> (2, None)
     | Some args \<Rightarrow>
         (case cli_inputs readText parse_date args of None \<Rightarrow> (2, None)
          | Some inputs \<Rightarrow>
              (let r = fst (runCrjsonHarness w inputs
                     \<lparr>ho_c2patool = cl_c2patool args, ho_faketime = None, ho_crossCheck = Some (cl_crossCheck args),
                      ho_timeoutMs = None\<rparr>) in
               (exit_of r, case r of Inl e \<Rightarrow> None | Inr run \<Rightarrow> Some (hn_crjsonText run)))))"

text \<open>\<open>engine-probe.ts\<close>: exit status and output.  The reader answers with an error, with nothing, or with the
  store as JSON.\<close>

definition engine_probe ::
  "(string \<Rightarrow> bytes) \<Rightarrow> (bytes \<Rightarrow> bytes \<Rightarrow> string \<Rightarrow> string + jsval option) \<Rightarrow> string list \<Rightarrow> nat \<times> string"
where
  "engine_probe readFile reader argv =
    (case argv of
       assetPath # mimeType # settingsPath # _ \<Rightarrow>
         if assetPath = [] \<or> mimeType = [] \<or> settingsPath = [] then (2, [])
         else (case reader (readFile settingsPath) (readFile assetPath) mimeType of
             Inl m \<Rightarrow> (1, [])
           | Inr None \<Rightarrow> (0, json_stringify (JObj [(''found'', JBool False)]))
           | Inr (Some store) \<Rightarrow>
               let get = (\<lambda>k. if is_nullish (obj_get store k) then JNull else obj_get store k) in
               (0, json_stringify (JObj [(''found'', JBool True), (''activeManifest'', get ''active_manifest''),
                     (''validationState'', get ''validation_state''), (''validationResults'', get ''validation_results'')])))
     | _ \<Rightarrow> (2, []))"

section \<open>The emitted document\<close>

text \<open>Sorting only reorders, and is the same for values that differ in order only.\<close>

lemma reorder_sorted: "json_reorder v (sortKeysDeep v)"
proof (induction v rule: sortKeysDeep.induct)
  case (1 vs)
  then show ?case by (auto intro!: json_reorder.arr simp: list_all2_conv_all_nth)
next
  case (2 kvs)
  let ?mid = "map (\<lambda>(k, v). (k, sortKeysDeep v)) kvs"
  have "json_reorder (snd p) (sortKeysDeep (snd p))" if "p \<in> set kvs" for p
    using 2[of "(fst p, snd p)" "fst p" "snd p"] that by simp
  then have "list_all2 (\<lambda>p q. fst p = fst q \<and> json_reorder (snd p) (snd q)) kvs ?mid"
    by (auto simp: list_all2_conv_all_nth split_beta)
  then show ?case by (auto intro: json_reorder.obj)
qed (simp_all add: json_reorder.same)

lemma sortKeysDeep_reorder:
  "json_reorder v w \<Longrightarrow> json_wf v \<Longrightarrow> sortKeysDeep v = sortKeysDeep w"
proof (induction rule: json_reorder.induct)
  case (same v)
  then show ?case by simp
next
  case (arr vs ws)
  then have "map sortKeysDeep vs = map sortKeysDeep ws"
    by (auto simp: list_all2_conv_all_nth intro!: nth_equalityI)
  then show ?case by simp
next
  case (obj kvs mid kvs')
  let ?c = "\<lambda>(k, v). (k, sortKeysDeep v)"
  have same_len: "length kvs = length mid"
    using obj.hyps(1) obj.IH by (auto dest: list_all2_lengthD)
  have "map ?c kvs = map ?c mid"
    using obj by (auto simp: list_all2_conv_all_nth split_beta intro!: nth_equalityI)
  moreover have "mset (map ?c mid) = mset (map ?c kvs')"
    using obj.hyps by simp
  moreover have "distinct (map fst (map ?c kvs))"
    using obj.prems by (simp add: comp_def split_beta)
  ultimately have "sort_key fst (map ?c kvs) = sort_key fst (map ?c kvs')"
    by (metis sort_key_fst_unique)
  then show ?case by simp
qed

fun keys_sorted :: "jsval \<Rightarrow> bool" where
  "keys_sorted (JArr vs) = (\<forall>v \<in> set vs. keys_sorted v)"
| "keys_sorted (JObj kvs) = (sorted (map fst kvs) \<and> (\<forall>(k, v) \<in> set kvs. keys_sorted v))"
| "keys_sorted _ = True"

lemma sorted_keys_sorted: "keys_sorted (sortKeysDeep v)"
  by (induction v rule: sortKeysDeep.induct) (fastforce simp: split_beta)+

text \<open>C36. The emitted crJSON is a function of what the validator says, not of how it says it: two successful
  runs of the validator whose outputs parse to values that differ only in the order of object keys lead
  to the same text; and the document is the validator's own up to that order, with every key in
  order.\<close>

theorem emitted_text_deterministic:
  assumes "crjson_of_tool w inputs timeout tool = Inr (v, From_c2patool)"
    and "crjson_of_tool w inputs timeout tool' = Inr (v', From_c2patool)"
    and "json_parse (ch_stdout tool) = Some j" "json_parse (ch_stdout tool') = Some j'"
    and "json_wf j" "json_reorder j j'"
  shows "crjson_text v = crjson_text v' \<and> json_reorder j v \<and> keys_sorted v"
proof -
  have "v = sortKeysDeep j" "v' = sortKeysDeep j'"
    using assms(1-4) by (auto simp: crjson_of_tool_def split: if_splits)
  then show ?thesis
    using sortKeysDeep_reorder[OF assms(6,5)] reorder_sorted[of j] sorted_keys_sorted[of j] by metis
qed

section \<open>What agreement means\<close>

lemma split_first: "c \<notin> set x \<Longrightarrow> c \<notin> set y \<Longrightarrow> x @ c # a = y @ c # b \<longleftrightarrow> x = y \<and> a = b"
proof (induction x arbitrary: y)
  case Nil
  then show ?case by (cases y) auto
next
  case (Cons u x)
  then show ?case by (cases y) auto
qed

lemma join_lines_inject:
  assumes "\<forall>x \<in> set xs. nl \<notin> set x \<and> x \<noteq> []" "\<forall>y \<in> set ys. nl \<notin> set y \<and> y \<noteq> []"
  shows "join_with [nl] xs = join_with [nl] ys \<longleftrightarrow> xs = ys"
proof
  assume "join_with [nl] xs = join_with [nl] ys"
  then show "xs = ys" using assms
  proof (induction xs arbitrary: ys rule: induct_list012)
    case 1
    then show ?case by (cases "([nl], ys)" rule: join_with.cases) auto
  next
    case (2 x)
    then show ?case by (cases "([nl], ys)" rule: join_with.cases) auto
  next
    case (3 x x' xs)
    have nx: "nl \<notin> set x" using "3.prems"(2) by simp
    show ?case
    proof (cases "([nl], ys)" rule: join_with.cases)
      case (3 sep y y' ys')
      then have ys: "ys = y # y' # ys'" by simp
      have "nl \<notin> set y" using "3.prems"(3) ys by simp
      moreover have "x @ nl # join_with [nl] (x' # xs) = y @ nl # join_with [nl] (y' # ys')"
        using "3.prems"(1) ys by simp
      ultimately have "x = y \<and> join_with [nl] (x' # xs) = join_with [nl] (y' # ys')"
        using nx split_first by metis
      then show ?thesis using "3.IH"(2)[of "y' # ys'"] "3.prems"(2,3) ys by simp
    qed (use 3 nx in auto)
  qed
qed simp

lemma sort_eq_iff: "sort xs = sort ys \<longleftrightarrow> mset xs = mset (ys :: 'a :: linorder list)"
proof
  assume "sort xs = sort ys"
  then show "mset xs = mset ys" by (metis mset_sort)
next
  assume "mset xs = mset ys"
  then show "sort xs = sort ys" by (intro properties_for_sort) simp_all
qed

text \<open>The agreement the comparison stands for: the statuses of a group as a bag of codes and addresses, the
  ingredient deltas as a bag of assertions, groups, codes and addresses, and every absolute assertion under the
  manifest it names.\<close>

definition status_pair :: "crjson_status \<Rightarrow> string \<times> string" where
  "status_pair e = (se_code e, null_or (se_url e) [])"

definition status_bag :: "status_codes option \<Rightarrow> status_group \<Rightarrow> (string \<times> string) multiset" where
  "status_bag c g = mset (map status_pair (null_or (chain c (\<lambda>s. s g)) []))"

definition delta_entries :: "crjson_delta \<Rightarrow> (string \<times> status_group \<times> string \<times> string) list" where
  "delta_entries d =
    concat (map (\<lambda>g. map (\<lambda>e. (id_ingredientAssertionURI d, g, status_pair e)) (null_or (id_validationDeltas d g) []))
      GROUPS)"

definition delta_bag :: "crjson_delta list \<Rightarrow> (string \<times> status_group \<times> string \<times> string) multiset" where
  "delta_bag ds = mset (concat (map delta_entries ds))"

definition crjson_deltas :: "crjson_document \<Rightarrow> crjson_delta list" where
  "crjson_deltas doc = concat (map (\<lambda>m. null_or (cm_ingredientDeltas m) []) (cd_manifests doc))"

definition engine_deltas :: "engine_probe_result \<Rightarrow> crjson_delta list" where
  "engine_deltas e = null_or (chain (ep_validationResults e) er_ingredientDeltas) []"

definition placed :: "crjson_manifest \<Rightarrow> crjson_delta \<Rightarrow> bool" where
  "placed m d =
    (\<forall>label rest. id_ingredientAssertionURI d = ''self#jumbf=/c2pa/'' @ label @ ''/'' @ rest
       \<and> label \<noteq> [] \<and> CHR ''/'' \<notin> set label \<longrightarrow> label = cm_label m)"

definition same_verdict :: "crjson_document \<Rightarrow> engine_probe_result \<Rightarrow> bool" where
  "same_verdict doc e =
    (if \<not> ep_found e then cd_manifests doc = []
     else cd_manifests doc \<noteq> [] \<and> ep_activeManifest e = Some (cm_label (hd (cd_manifests doc)))
       \<and> (\<forall>g. status_bag (Some (cm_validationResults (hd (cd_manifests doc)))) g
            = status_bag (chain (ep_validationResults e) er_activeManifest) g)
       \<and> delta_bag (crjson_deltas doc) = delta_bag (engine_deltas e)
       \<and> (\<forall>m \<in> set (cd_manifests doc). \<forall>d \<in> set (null_or (cm_ingredientDeltas m) []). placed m d))"

text \<open>The comparison joins these parts to lines.  That is unambiguous where no part contains a line break, no code an
  at sign and no assertion a blank, as is so for the codes and addresses of the C2PA specification.\<close>

definition plain_status :: "crjson_status \<Rightarrow> bool" where
  "plain_status e =
    (CHR ''@'' \<notin> set (se_code e) \<and> CHR 0x0A \<notin> set (se_code e) \<and> CHR 0x0A \<notin> set (null_or (se_url e) []))"

definition plain_codes :: "status_codes \<Rightarrow> bool" where
  "plain_codes c = list_all (\<lambda>g. list_all plain_status (null_or (c g) [])) GROUPS"

definition plain_delta :: "crjson_delta \<Rightarrow> bool" where
  "plain_delta d =
    (CHR '' '' \<notin> set (id_ingredientAssertionURI d) \<and> CHR 0x0A \<notin> set (id_ingredientAssertionURI d)
     \<and> plain_codes (id_validationDeltas d))"

definition plain_results :: "crjson_document \<Rightarrow> engine_probe_result \<Rightarrow> bool" where
  "plain_results doc e =
    (list_all (\<lambda>m. plain_codes (cm_validationResults m)) (cd_manifests doc) \<and> list_all plain_delta (crjson_deltas doc)
     \<and> (case chain (ep_validationResults e) er_activeManifest of None \<Rightarrow> True | Some c \<Rightarrow> plain_codes c)
     \<and> list_all plain_delta (engine_deltas e))"

lemma group_in [simp]: "g \<in> set GROUPS" by (cases g) (simp_all add: GROUPS_def)

lemma all_GROUPS: "list_all P GROUPS \<longleftrightarrow> (\<forall>g. P g)" "(\<forall>g \<in> set GROUPS. P g) \<longleftrightarrow> (\<forall>g. P g)"
  unfolding list_all_iff using group_in by blast+

text \<open>The lines are the images of the parts under renderings that are injective on plain parts.\<close>

fun pair_line :: "string \<times> string \<Rightarrow> string" where
  "pair_line (c, u) = c @ '' @ '' @ u"

fun entry_line :: "string \<times> status_group \<times> string \<times> string \<Rightarrow> string" where
  "entry_line (a, g, p) = a @ '' '' @ group_name g @ '': '' @ pair_line p"

definition plain_pair :: "string \<times> string \<Rightarrow> bool" where
  "plain_pair p = (CHR ''@'' \<notin> set (fst p) \<and> CHR 0x0A \<notin> set (fst p) \<and> CHR 0x0A \<notin> set (snd p))"

fun plain_entry :: "string \<times> status_group \<times> string \<times> string \<Rightarrow> bool" where
  "plain_entry (a, g, p) = (CHR '' '' \<notin> set a \<and> CHR 0x0A \<notin> set a \<and> plain_pair p)"

lemma status_key_line: "status_key e = pair_line (status_pair e)"
  by (simp add: status_key_def status_pair_def)

lemma delta_key_line: "delta_key d g (pair_line p) = entry_line (id_ingredientAssertionURI d, g, p)"
  by (simp add: delta_key_def)

lemma plain_status_pair: "plain_status e \<longleftrightarrow> plain_pair (status_pair e)"
  by (simp add: plain_status_def plain_pair_def status_pair_def)

lemma pair_line_inject: "plain_pair p \<Longrightarrow> plain_pair q \<Longrightarrow> pair_line p = pair_line q \<longleftrightarrow> p = q"
  using split_first[of "CHR ''@''" "fst p @ '' ''" "fst q @ '' ''" "'' '' @ snd p" "'' '' @ snd q"]
  by (cases p; cases q) (auto simp: plain_pair_def)

lemma group_name_inject: "group_name g @ CHR '':'' # x = group_name h @ CHR '':'' # y \<longleftrightarrow> g = h \<and> x = y"
  by (cases g; cases h) auto

lemma entry_line_inject: "plain_entry x \<Longrightarrow> plain_entry y \<Longrightarrow> entry_line x = entry_line y \<longleftrightarrow> x = y"
proof -
  assume p: "plain_entry x" "plain_entry y"
  obtain a g u where x: "x = (a, g, u)" by (cases x) auto
  obtain b h v where y: "y = (b, h, v)" by (cases y) auto
  have "entry_line x = entry_line y \<longleftrightarrow> a = b \<and> group_name g @ CHR '':'' # '' '' @ pair_line u = group_name h @ CHR '':'' # '' '' @ pair_line v"
    using split_first[of "CHR '' ''" a b "group_name g @ CHR '':'' # '' '' @ pair_line u" "group_name h @ CHR '':'' # '' '' @ pair_line v"] p
    by (simp add: x y)
  then show ?thesis using p pair_line_inject[of u v] unfolding group_name_inject by (auto simp: x y)
qed

lemma plain_lines:
  "plain_pair p \<Longrightarrow> CHR 0x0A \<notin> set (pair_line p) \<and> pair_line p \<noteq> []"
  "plain_entry x \<Longrightarrow> CHR 0x0A \<notin> set (entry_line x) \<and> entry_line x \<noteq> []"
proof -
  show pl: "CHR 0x0A \<notin> set (pair_line p) \<and> pair_line p \<noteq> []" if "plain_pair p" for p
    using that by (cases p) (simp add: plain_pair_def)
  have "CHR 0x0A \<notin> set (group_name g)" for g by (cases g) simp_all
  then show "plain_entry x \<Longrightarrow> CHR 0x0A \<notin> set (entry_line x) \<and> entry_line x \<noteq> []"
    by (cases x rule: plain_entry.cases) (use pl in auto)
qed

lemma bag_of_lines:
  assumes "\<And>x. P x \<Longrightarrow> CHR 0x0A \<notin> set (f x) \<and> f x \<noteq> []" "\<And>x y. P x \<Longrightarrow> P y \<Longrightarrow> f x = f y \<longleftrightarrow> x = y"
    and "list_all P xs" "list_all P ys"
  shows "join_with [CHR 0x0A] (sort (map f xs)) = join_with [CHR 0x0A] (sort (map f ys)) \<longleftrightarrow> mset xs = mset ys"
proof -
  have "join_with [CHR 0x0A] (sort (map f xs)) = join_with [CHR 0x0A] (sort (map f ys))
      \<longleftrightarrow> sort (map f xs) = sort (map f ys)"
    by (rule join_lines_inject) (use assms(1,3,4) in \<open>auto simp: list_all_iff\<close>)
  also have "\<dots> \<longleftrightarrow> image_mset f (mset xs) = image_mset f (mset ys)" by (simp add: sort_eq_iff)
  also have "\<dots> \<longleftrightarrow> mset xs = mset ys"
  proof
    have inj: "inj_on f (set xs \<union> set ys)"
      using assms(2-4) by (auto simp: inj_on_def list_all_iff)
    assume "image_mset f (mset xs) = image_mset f (mset ys)"
    moreover have "image_mset (inv_into (set xs \<union> set ys) f) (image_mset f (mset zs)) = mset zs"
      if "set zs \<subseteq> set xs \<union> set ys" for zs
    proof -
      have "image_mset (\<lambda>x. inv_into (set xs \<union> set ys) f (f x)) (mset zs) = image_mset (\<lambda>x. x) (mset zs)"
        by (rule image_mset_cong) (use that inj in \<open>auto intro!: inv_into_f_f\<close>)
      then show ?thesis by (simp add: multiset.map_comp comp_def)
    qed
    ultimately show "mset xs = mset ys" by (metis Un_upper1 Un_upper2)
  qed simp
  finally show ?thesis .
qed

lemma diff_group_Nil:
  assumes "case a of None \<Rightarrow> True | Some c \<Rightarrow> plain_codes c" "case b of None \<Rightarrow> True | Some c \<Rightarrow> plain_codes c"
  shows "diff_group here a b g = [] \<longleftrightarrow> status_bag a g = status_bag b g"
proof -
  have pl: "list_all plain_pair (map status_pair (null_or (chain c (\<lambda>s. s g)) []))"
    if "case c of None \<Rightarrow> True | Some s \<Rightarrow> plain_codes s" for c
    using that by (cases c) (auto simp: plain_codes_def all_GROUPS list_all_iff simp flip: plain_status_pair split: option.splits)
  have f: "status_key = pair_line \<circ> status_pair" by (rule ext) (simp add: status_key_line)
  have k: "statusKeys es = sort (map pair_line (map status_pair (null_or es [])))" for es
    by (simp only: statusKeys_def map_map f)
  have "(if c then [x] else []) = [] \<longleftrightarrow> \<not> c" for c and x :: string by simp
  then show ?thesis
    unfolding diff_group_def Let_def k status_bag_def
    using bag_of_lines[of plain_pair pair_line, OF plain_lines(1) pair_line_inject pl[OF assms(1)] pl[OF assms(2)]]
    by blast
qed

lemma sort_mset_cong: "mset xs = mset ys \<Longrightarrow> sort xs = sort (ys :: 'a :: linorder list)"
  by (simp add: sort_eq_iff)

lemma deltaKeys_lines: "deltaKeys ds = sort (map entry_line (concat (map delta_entries ds)))"
proof -
  have "mset (concat (map (\<lambda>g. map (delta_key d g) (statusKeys (id_validationDeltas d g))) GROUPS))
      = mset (map entry_line (delta_entries d))" for d
    by (simp add: delta_entries_def mset_concat map_concat comp_def statusKeys_def image_mset.compositionality
        status_key_line delta_key_line del: entry_line.simps pair_line.simps)
  then show ?thesis unfolding deltaKeys_def
    by (intro sort_mset_cong) (simp add: mset_concat map_concat comp_def del: entry_line.simps)
qed

lemma delta_lines_eq:
  assumes "list_all plain_delta a" "list_all plain_delta b"
  shows "join_with [CHR 0x0A] (deltaKeys a) = join_with [CHR 0x0A] (deltaKeys b) \<longleftrightarrow> delta_bag a = delta_bag b"
proof -
  have "list_all plain_entry (concat (map delta_entries ds))" if "list_all plain_delta ds" for ds
    using that by (fastforce simp: list_all_iff delta_entries_def plain_delta_def plain_codes_def simp flip: plain_status_pair)
  from bag_of_lines[of plain_entry entry_line, OF plain_lines(2) entry_line_inject this[OF assms(1)] this[OF assms(2)]]
  show ?thesis unfolding deltaKeys_lines delta_bag_def .
qed

lemma uri_owner_placed: "uri_owner (id_ingredientAssertionURI d) \<in> {None, Some (cm_label m)} \<longleftrightarrow> placed m d"
proof -
  let ?p = "''self#jumbf=/c2pa/''"
  have owner: "uri_owner u = Some l \<longleftrightarrow> (\<exists>rest. u = ?p @ l @ ''/'' @ rest \<and> l \<noteq> [] \<and> CHR ''/'' \<notin> set l)" for u l
  proof
    assume o': "uri_owner u = Some l"
    define r where "r = drop (length ?p) u"
    from o' have u: "u = ?p @ r" and l: "l = takeWhile (\<lambda>c. c \<noteq> CHR ''/'') r" "l \<noteq> []" "CHR ''/'' \<in> set r"
      by (auto simp: uri_owner_def Let_def starts_with_prefix prefix_def r_def split: if_splits)
    have "dropWhile (\<lambda>c. c \<noteq> CHR ''/'') r \<noteq> []" using l(3) by auto
    then obtain rest where "dropWhile (\<lambda>c. c \<noteq> CHR ''/'') r = CHR ''/'' # rest"
      using hd_dropWhile[of "\<lambda>c. c \<noteq> CHR ''/''" r] by (cases "dropWhile (\<lambda>c. c \<noteq> CHR ''/'') r") auto
    then have "r = l @ ''/'' @ rest" using takeWhile_dropWhile_id[of "\<lambda>c. c \<noteq> CHR ''/''" r] by (simp add: l(1))
    moreover have "CHR ''/'' \<notin> set l" unfolding l(1) by (auto dest: set_takeWhileD)
    ultimately show "\<exists>rest. u = ?p @ l @ ''/'' @ rest \<and> l \<noteq> [] \<and> CHR ''/'' \<notin> set l" using u l(2) by auto
  next
    assume "\<exists>rest. u = ?p @ l @ ''/'' @ rest \<and> l \<noteq> [] \<and> CHR ''/'' \<notin> set l"
    then obtain rest where u: "u = ?p @ (l @ ''/'' @ rest)" "l \<noteq> []" "CHR ''/'' \<notin> set l" by auto
    have "takeWhile (\<lambda>c. c \<noteq> CHR ''/'') (l @ ''/'' @ rest) = l" using u(3) by (subst takeWhile_append2) auto
    then show "uri_owner u = Some l"
      using u(2) unfolding uri_owner_def Let_def u(1) by (simp add: starts_with_prefix)
  qed
  have "placed m d \<longleftrightarrow> (\<forall>l. uri_owner (id_ingredientAssertionURI d) = Some l \<longrightarrow> l = cm_label m)"
    unfolding placed_def owner by blast
  then show ?thesis by (cases "uri_owner (id_ingredientAssertionURI d)") auto
qed

lemma misplaced_Nil: "misplaced m = [] \<longleftrightarrow> (\<forall>d \<in> set (null_or (cm_ingredientDeltas m) []). placed m d)"
proof -
  have "(case owner of Some l \<Rightarrow> if l \<noteq> cm_label m then [x] else [] | None \<Rightarrow> []) = []
      \<longleftrightarrow> owner \<in> {None, Some (cm_label m)}" for owner and x :: string
    by (cases owner) auto
  then show ?thesis unfolding misplaced_def concat_eq_Nil_conv by (simp add: uri_owner_placed[symmetric])
qed

lemma verdict_of_no_difference:
  assumes "plain_results doc e"
  shows "compareWithEngine doc e = [] \<longleftrightarrow> same_verdict doc e"
proof (cases "ep_found e \<and> cd_manifests doc \<noteq> []")
  case False
  then show ?thesis
    by (cases "cd_manifests doc") (auto simp: compareWithEngine_def same_verdict_def)
next
  case True
  then obtain active rest where ms: "cd_manifests doc = active # rest" by (cases "cd_manifests doc") auto
  have a: "list_all plain_delta (crjson_deltas doc)" "list_all plain_delta (engine_deltas e)"
    using assms by (simp_all add: plain_results_def)
  have g: "diffGroups ''activeManifest'' (Some (cm_validationResults active)) (chain (ep_validationResults e) er_activeManifest) = []
      \<longleftrightarrow> (\<forall>g. status_bag (Some (cm_validationResults active)) g
            = status_bag (chain (ep_validationResults e) er_activeManifest) g)"
    unfolding diffGroups_def concat_eq_Nil_conv set_map ball_simps all_GROUPS(2)
    using diff_group_Nil[of "Some (cm_validationResults active)" "chain (ep_validationResults e) er_activeManifest"] assms
    by (simp add: plain_results_def ms)
  show ?thesis
    unfolding compareWithEngine_def same_verdict_def using True ms g delta_lines_eq[OF a]
    by (auto simp: Let_def misplaced_Nil crjson_deltas_def engine_deltas_def)
qed

text \<open>C35. The cross-check reports no difference exactly when the two validators agree: on whether there is a
  manifest store, on the active manifest, in every group on the bag of its statuses as pairs of code and address
  (an absent address counting as empty), and on the bag of ingredient statuses as assertion, group, code and address;
  and every delta whose assertion names a manifest hangs under that one.  This is so as long as the results are
  plain: no code, address or assertion contains a line break, no code an at sign and no assertion a blank.\<close>

theorem cross_check_exact:
  assumes "plain_results doc e"
  shows "compareWithEngine doc e = [] \<longleftrightarrow> same_verdict doc e"
  by (rule verdict_of_no_difference[OF assms])

section \<open>What a run establishes\<close>

text \<open>A child's outcome under the frozen clock.\<close>

definition child_at ::
  "harness_world \<Rightarrow> reader_settings \<Rightarrow> string \<Rightarrow> string list \<Rightarrow> string option \<Rightarrow> string \<Rightarrow> child_run"
where
  "child_at w st cmd args faketimeAt faketimeBin =
    (case faketimeAt of None \<Rightarrow> hw_spawn w (Some st) cmd args
     | Some t \<Rightarrow> hw_spawn w (Some st) faketimeBin ([''-f'', t, cmd] @ args))"

definition is_spawn :: "harness_event \<Rightarrow> bool" where
  "is_spawn e = (case e of Spawned c a \<Rightarrow> True | _ \<Rightarrow> False)"

lemma is_spawn_simps [simp]:
  "is_spawn (Spawned c a)" "\<not> is_spawn Work_dir_made" "\<not> is_spawn (Settings_written s)" "\<not> is_spawn Work_dir_removed"
  by (simp_all add: is_spawn_def)

lemma spawnSync_iff: "spawnSync w st cmd args = (r, es) \<longleftrightarrow> r = Inr (hw_spawn w st cmd args) \<and> es = [Spawned cmd args]"
  by (auto simp: spawnSync_def bindW_def tellW_def liftW_def)

lemma spawnAt_iff:
  "spawnAt w st cmd args ft bin = (r, es) \<longleftrightarrow> r = Inr (child_at w st cmd args ft bin) \<and> (\<exists>c a. es = [Spawned c a]
     \<and> (c, a) = (case ft of None \<Rightarrow> (cmd, args) | Some t \<Rightarrow> (bin, [''-f'', t, cmd] @ args)))"
  by (auto simp: spawnAt_def child_at_def spawnSync_iff split: option.splits)

lemma prepare_run_events: "prepare_run w inputs options = (r, es) \<Longrightarrow> list_all is_spawn es"
  by (auto simp: prepare_run_def Let_def trace_simps spawnSync_iff split: if_splits)

lemma prepare_run_Inr:
  "prepare_run w inputs options = (Inr (ft, b), es) \<Longrightarrow>
     hw_readFile w (hi_assetPath inputs) = Inr b
     \<and> (case hi_validationTime inputs of None \<Rightarrow> ft = None | Some d \<Rightarrow> \<exists>t. toFaketime d = Inr t \<and> ft = Some t)
     \<and> check_bundle ''trust list'' (hi_trustListPem inputs) = Inr ()
     \<and> check_bundle ''TSA trust list'' (hi_tsaTrustListPem inputs) = Inr ()"
  by (auto simp: prepare_run_def Let_def trace_simps split: if_splits option.splits sum.splits)

lemma cross_check_events: "cross_check w inputs options ft doc = (r, es) \<Longrightarrow> list_all is_spawn es"
  by (auto simp: cross_check_def Let_def trace_simps spawnAt_iff split: if_splits option.splits)

lemma in_work_dir_events:
  assumes "in_work_dir w inputs options ft b = (r, es)"
  shows "\<exists>spawns. es = Settings_written (harnessSettings (hi_trustListPem inputs) (hi_tsaTrustListPem inputs)) # spawns
     \<and> list_all is_spawn spawns"
  using assms unfolding in_work_dir_def Let_def
  by (auto simp: trace_simps spawnSync_iff spawnAt_iff split: if_splits dest!: cross_check_events)

text \<open>A run leaves nothing behind: whatever its outcome, either it ends before it has made its work
  directory, with an error and without having run a validator, or the directory is made once, holds the
  settings before any child is run in it, and its removal is the last thing the run does.\<close>

lemma work_directory_removed:
  "case runCrjsonHarness w inputs options of (r, es) \<Rightarrow>
     (list_all is_spawn es \<and> length es \<le> 1 \<and> isl r)
     \<or> (\<exists>before spawns. es = before @ [Work_dir_made,
           Settings_written (harnessSettings (hi_trustListPem inputs) (hi_tsaTrustListPem inputs))] @ spawns @ [Work_dir_removed]
         \<and> list_all is_spawn before \<and> list_all is_spawn spawns)"
proof -
  obtain r es where run: "runCrjsonHarness w inputs options = (r, es)" by fastforce
  have len: "length e \<le> 1" if "prepare_run w inputs options = (s, e)" for s e
    using that by (auto simp: prepare_run_def Let_def trace_simps spawnSync_iff split: if_splits)
  from run consider s where "prepare_run w inputs options = (Inl s, es)" "r = Inl s"
    | ft b e1 e2 where "prepare_run w inputs options = (Inr (ft, b), e1)"
        "in_work_dir w inputs options ft b = (r, e2)" "es = e1 @ Work_dir_made # e2 @ [Work_dir_removed]"
    unfolding runCrjsonHarness_def by (auto simp: trace_simps)
  then show ?thesis
  proof cases
    case 1
    then show ?thesis using prepare_run_events[OF 1(1)] len[OF 1(1)] run by simp
  next
    case 2
    from in_work_dir_events[OF 2(2)] prepare_run_events[OF 2(1)] show ?thesis
      unfolding run 2(3) by auto
  qed
qed

text \<open>What the cross-check reports.\<close>

lemma cross_check_Inr:
  assumes "cross_check w inputs options ft doc = (Inr (ag, v), es)" "ea_checked ag"
  defines "settings \<equiv> harnessSettings (hi_trustListPem inputs) (hi_tsaTrustListPem inputs)"
  shows "\<exists>mimeType probe result. mimeTypeForAsset (hi_assetPath inputs) = Some mimeType
     \<and> probe = child_at w settings (fst (hw_probe w))
         (snd (hw_probe w) @ [hi_assetPath inputs, mimeType, hw_workDir w @ ''/settings.json'']) ft
         (null_or (ho_faketime options) ''faketime'')
     \<and> \<not> failed probe \<and> chain (json_parse (ch_stdout probe)) engine_result_of = Some result
     \<and> ea_differences ag = compareWithEngine doc result \<and> ea_agree ag = (compareWithEngine doc result = [])"
  using assms(1,2) unfolding cross_check_def Let_def settings_def[symmetric]
  by (auto simp: trace_simps spawnAt_iff split: if_splits option.splits)

lemma in_work_dir_Inr:
  assumes "in_work_dir w inputs options ft b = (Inr run, es)"
  defines "settings \<equiv> harnessSettings (hi_trustListPem inputs) (hi_tsaTrustListPem inputs)"
  shows "\<exists>tool origin doc ag e. tool = child_at w settings (resolveC2patool w options)
         [hi_assetPath inputs, ''--crjson'', ''--settings'', hw_workDir w @ ''/settings.json''] ft
         (null_or (ho_faketime options) ''faketime'')
     \<and> crjson_of_tool w inputs (null_or (ho_timeoutMs options) 120000) tool = Inr (hn_crjson run, origin)
     \<and> document_of (hn_crjson run) = Some doc \<and> cross_check w inputs options ft doc = (Inr ag, e)
     \<and> hn_crjsonText run = crjson_text (hn_crjson run)
     \<and> hr_crjsonOrigin (hn_record run) = origin \<and> hr_engineAgreement (hn_record run) = fst ag"
  using assms(1) unfolding in_work_dir_def Let_def settings_def[symmetric]
  by (auto simp: trace_simps spawnSync_iff spawnAt_iff record_of_def Let_def split: if_splits)

text \<open>The settings trust exactly the certificates of the two lists: reading their blocks back gives those of the
  first list and then those of the second.\<close>

lemma find_sub_other_rest:
  "find_sub m (a @ m @ r) = Some (a, r) \<Longrightarrow> find_sub m (a @ m @ r') = Some (a, r')"
proof (induction a)
  case Nil
  then show ?case by simp
next
  case (Cons c a)
  have no: "\<not> starts_with m (c # a @ m @ r)" using Cons.prems by (auto split: if_splits)
  then have "\<not> starts_with m (c # a @ m @ r')"
    unfolding starts_with_prefix prefix_def
    by (auto simp: append_eq_append_conv2 Cons_eq_append_conv dest: sym)
  with no Cons show ?case by auto
qed

lemma cert_blocks_block:
  assumes "b \<in> set (cert_blocks s)"
  shows "cert_blocks (b @ rest) = b # cert_blocks rest"
  using assms
proof (induction s rule: cert_blocks.induct)
  case (1 s)
  show ?case
  proof (cases "find_sub CERT_BEGIN s")
    case None
    with 1(2) show ?thesis by (simp add: cert_blocks.simps[of s])
  next
    case (Some p)
    obtain x r where p: "p = (x, r)" by fastforce
    show ?thesis
    proof (cases "find_sub CERT_END r")
      case None
      with 1(2) Some show ?thesis by (simp add: cert_blocks.simps[of s] p)
    next
      case (Some q)
      obtain body r' where q: "q = (body, r')" by fastforce
      from 1(2) \<open>find_sub CERT_BEGIN s = Some p\<close> Some consider "b = CERT_BEGIN @ body @ CERT_END" | "b \<in> set (cert_blocks r')"
        by (auto simp: cert_blocks.simps[of s] p q)
      then show ?thesis
      proof cases
        case 1
        have "find_sub CERT_END (body @ CERT_END @ r') = Some (body, r')" using Some find_sub_split[of CERT_END r body r'] q by simp
        from find_sub_other_rest[OF this]
        show ?thesis unfolding 1 by (subst cert_blocks.simps) (simp only: append_assoc find_sub_here option.case prod.case)
      next
        case 2
        with 1(1)[OF _ p[symmetric] _ q[symmetric]] \<open>find_sub CERT_BEGIN s = Some p\<close> Some show ?thesis by simp
      qed
    qed
  qed
qed

lemma cert_blocks_newline: "cert_blocks (CHR 0x0A # rest) = cert_blocks rest"
proof -
  have "find_sub CERT_BEGIN (CHR 0x0A # rest) = map_option (\<lambda>(a, b). (CHR 0x0A # a, b)) (find_sub CERT_BEGIN rest)"
    by (simp add: CERT_BEGIN_def starts_with_prefix)
  then show ?thesis
    unfolding cert_blocks.simps[of "CHR 0x0A # rest"] cert_blocks.simps[of rest]
    by (cases "find_sub CERT_BEGIN rest") auto
qed

lemma cert_blocks_joined:
  "\<forall>b \<in> set bs. \<exists>s. b \<in> set (cert_blocks s) \<Longrightarrow> bs \<noteq> [] \<Longrightarrow> cert_blocks (join_with [CHR 0x0A] bs @ [CHR 0x0A]) = bs"
proof (induction bs rule: induct_list012)
  case (2 b)
  have "cert_blocks [] = []" by (simp add: cert_blocks.simps[of "[]"] CERT_BEGIN_def)
  with 2 show ?case using cert_blocks_block cert_blocks_newline[of "[]"] by auto
next
  case (3 b b' bs)
  from 3(3) obtain s where "b \<in> set (cert_blocks s)" by auto
  from cert_blocks_block[OF this] 3 show ?case by (simp add: cert_blocks_newline)
qed simp

lemma settings_anchors:
  "cert_blocks (rs_trustAnchors (harnessSettings trust tsa)) = cert_blocks trust @ cert_blocks tsa"
proof (cases "cert_blocks trust @ cert_blocks tsa = []")
  case True
  have "cert_blocks [] = []" by (simp add: cert_blocks.simps[of "[]"] CERT_BEGIN_def)
  with True show ?thesis by (simp add: harnessSettings_def buildVerifierSettings_def pemCertificates_def)
next
  case False
  then have "cert_blocks (join_with [CHR 0x0A] (cert_blocks trust @ cert_blocks tsa) @ [CHR 0x0A]) = cert_blocks trust @ cert_blocks tsa"
    by (intro cert_blocks_joined) auto
  then show ?thesis
    using False by (auto simp: harnessSettings_def buildVerifierSettings_def pemCertificates_def Let_def)
qed

text \<open>A text of the form \<open>YYYY-MM-DD hh:mm:ss\<close> names the instant of that date and time in UTC.\<close>

definition names_instant :: "string \<Rightarrow> int \<Rightarrow> bool" where
  "names_instant text ms =
    (\<exists>y mo d h mi s. text = y @ ''-'' @ mo @ ''-'' @ d @ '' '' @ h @ '':'' @ mi @ '':'' @ s
       \<and> map length [y, mo, d, h, mi, s] = [4, 2, 2, 2, 2, 2] \<and> list_all (list_all is_digit) [y, mo, d, h, mi, s]
       \<and> parse_digits 0 mo \<in> {1..12} \<and> parse_digits 0 d \<in> {1..31} \<and> parse_digits 0 h < 24
       \<and> parse_digits 0 mi < 60 \<and> parse_digits 0 s < 60
       \<and> ms = utc_ms (int (parse_digits 0 y)) (int (parse_digits 0 mo)) (int (parse_digits 0 d))
           + int (parse_digits 0 h) * 3600000 + int (parse_digits 0 mi) * 60000 + int (parse_digits 0 s) * 1000)"

text \<open>The year of an instant.\<close>

definition year_of_ms :: "int \<Rightarrow> int" where
  "year_of_ms ms = (case civil_from_days (ms div MS_PER_DAY) of (y, m, d) \<Rightarrow> y)"

lemma digits_no_T: "list_all is_digit s \<Longrightarrow> CHR ''T'' \<notin> set s"
  by (auto simp: list_all_iff is_digit_def)

lemma faketime_names_instant:
  assumes "0 \<le> year_of_ms ms" "year_of_ms ms \<le> 9999"
  shows "names_instant (faketime_text ms) (ms - ms mod 1000)"
proof -
  obtain y m d where c: "civil_from_days (ms div MS_PER_DAY) = (y, m, d)" by (cases "civil_from_days (ms div MS_PER_DAY)") auto
  define t where "t = ms mod MS_PER_DAY"
  have y: "0 \<le> y" "y \<le> 9999" using assms c by (simp_all add: year_of_ms_def)
  note md = days_from_civil_from_days[OF c]
  have t: "0 \<le> t" "t < 86400000" by (simp_all add: t_def MS_PER_DAY_def)
  define Y where "Y = pad0 4 (show_nat (nat y))"
  define two where "two i = pad0 2 (show_nat (nat i))" for i :: int
  let ?h = "t div 3600000" and ?mi = "t div 60000 mod 60" and ?s = "t div 1000 mod 60"
  have hms: "0 \<le> ?h" "?h < 24" "0 \<le> ?mi" "?mi < 60" "0 \<le> ?s" "?s < 60" using t by simp_all
  have two: "length (two i) = 2" "list_all is_digit (two i)" "int (parse_digits 0 (two i)) = i" if "0 \<le> i" "i < 100" for i
    using that pad0_digits[of "nat i" 2] by (simp_all add: two_def parse_pad0 nat_less_iff)
  have Y: "length Y = 4" "list_all is_digit Y" "int (parse_digits 0 Y) = y"
    using y pad0_digits[of "nat y" 4] by (simp_all add: Y_def parse_pad0 nat_less_iff)
  define date where "date = Y @ ''-'' @ two m @ ''-'' @ two d"
  define clock where "clock = two ?h @ '':'' @ two ?mi @ '':'' @ two ?s"
  have len: "length date = 10" "length clock = 8" using Y two md hms by (simp_all add: date_def clock_def)
  have "iso_string ms = date @ ''T'' @ clock @ ''.'' @ pad0 3 (show_nat (nat (t mod 1000))) @ ''Z''"
    using y by (simp add: iso_string_def c Let_def date_def clock_def Y_def two_def t_def iso_year_def)
  then have "take 19 (iso_string ms) = date @ ''T'' @ clock" using len by simp
  moreover have "CHR ''T'' \<notin> set date" using digits_no_T[OF Y(2)] digits_no_T[OF two(2)[of m]] digits_no_T[OF two(2)[of d]] md by (simp add: date_def)
  then have "takeWhile (\<lambda>c. c \<noteq> CHR ''T'') (date @ ''T'' @ clock) = date" by (subst takeWhile_append2) auto
  ultimately have ft: "faketime_text ms = date @ '' '' @ clock" by (simp add: faketime_text_def)
  have day: "ms = days_from_civil y m d * MS_PER_DAY + t" unfolding t_def using md by simp
  have "t div 1000 div 60 = t div 60000" "t div 60000 div 60 = t div 3600000"
    using zdiv_zmult2_eq[of 60 t 1000] zdiv_zmult2_eq[of 60 t 60000] by simp_all
  then have "t = ?h * 3600000 + ?mi * 60000 + ?s * 1000 + t mod 1000"
    using div_mult_mod_eq[of t 1000] div_mult_mod_eq[of "t div 1000" 60] div_mult_mod_eq[of "t div 60000" 60] by linarith
  moreover have "t mod 1000 = ms mod 1000" unfolding t_def MS_PER_DAY_def by (rule mod_mod_cancel) simp
  ultimately have "ms - ms mod 1000 = utc_ms y m d + ?h * 3600000 + ?mi * 60000 + ?s * 1000"
    using day unfolding utc_ms_def by linarith
  moreover have e: "int (parse_digits 0 (two m)) = m" "int (parse_digits 0 (two d)) = d" "int (parse_digits 0 (two ?h)) = ?h"
      "int (parse_digits 0 (two ?mi)) = ?mi" "int (parse_digits 0 (two ?s)) = ?s"
    by (rule two(3); use md hms in linarith)+
  ultimately have ms: "ms - ms mod 1000 = utc_ms (int (parse_digits 0 Y)) (int (parse_digits 0 (two m))) (int (parse_digits 0 (two d)))
      + int (parse_digits 0 (two ?h)) * 3600000 + int (parse_digits 0 (two ?mi)) * 60000 + int (parse_digits 0 (two ?s)) * 1000"
    unfolding Y(3) e by blast
  have pd: "parse_digits 0 (two i) = nat i" for i by (simp add: two_def parse_pad0)
  have range: "parse_digits 0 (two m) \<in> {1..12}" "parse_digits 0 (two d) \<in> {1..31}" "parse_digits 0 (two ?h) < 24"
      "parse_digits 0 (two ?mi) < 60" "parse_digits 0 (two ?s) < 60"
    unfolding pd using md hms by (simp_all add: nat_less_iff nat_le_iff le_nat_iff)
  have shape: "faketime_text ms = Y @ ''-'' @ two m @ ''-'' @ two d @ '' '' @ two ?h @ '':'' @ two ?mi @ '':'' @ two ?s"
    unfolding ft date_def clock_def append_assoc ..
  have lens: "map length [Y, two m, two d, two ?h, two ?mi, two ?s] = [4, 2, 2, 2, 2, 2]"
    and digits: "list_all (list_all is_digit) [Y, two m, two d, two ?h, two ?mi, two ?s]"
    using Y two md hms by simp_all
  show ?thesis
    unfolding names_instant_def
    by (rule exI[of _ Y], rule exI[of _ "two m"], rule exI[of _ "two d"], rule exI[of _ "two ?h"],
        rule exI[of _ "two ?mi"], rule exI[of _ "two ?s"]) (intro conjI shape lens digits range ms)
qed

text \<open>The clock of the children of a run: the wall clock when no time is asked for, otherwise the text that names the
  instant, to the second.\<close>

definition clock_asked :: "js_date option \<Rightarrow> string option \<Rightarrow> bool" where
  "clock_asked time ft =
    (case time of
       None \<Rightarrow> ft = None
     | Some d \<Rightarrow> (\<exists>ms text. d = Some ms \<and> ft = Some text
         \<and> (year_of_ms ms \<in> {0..9999} \<longrightarrow> names_instant text (ms - ms mod 1000))))"

text \<open>Where the document of a run comes from: it is what the validator printed, with the keys of its objects in
  order, or, when the validator failed because it found no claim, the empty document of the harness.\<close>

definition document_source :: "harness_world \<Rightarrow> child_run \<Rightarrow> crjson_origin \<Rightarrow> jsval \<Rightarrow> bool" where
  "document_source w tool origin v =
    (case origin of
       From_c2patool \<Rightarrow> ch_error tool = None \<and> ch_status tool = Some 0
         \<and> (\<exists>j. json_parse (ch_stdout tool) = Some j \<and> json_reorder j v \<and> keys_sorted v)
     | Harness_empty_document \<Rightarrow> ch_error tool = None \<and> ch_status tool \<noteq> Some 0
         \<and> includes_str ''no claim found'' (map lower_char (ch_stderr tool))
         \<and> json_reorder (EMPTY_DOCUMENT w) v \<and> keys_sorted v)"

lemma crjson_of_tool_source:
  "crjson_of_tool w inputs timeout tool = Inr (v, origin) \<Longrightarrow> document_source w tool origin v"
  by (auto simp: crjson_of_tool_def document_source_def failed_def reorder_sorted sorted_keys_sorted
      split: if_splits option.splits)

lemma empty_document_read:
  assumes "document_of (sortKeysDeep (EMPTY_DOCUMENT w)) = Some doc"
  shows "cd_manifests doc = []"
proof -
  have "opt_get (sortKeysDeep (EMPTY_DOCUMENT w)) ''manifests'' = JArr []"
    by (simp add: EMPTY_DOCUMENT_def opt_get_def)
  then show ?thesis using assms by (auto simp: document_of_def bind_eq_Some_conv)
qed

text \<open>C34. What a run reports, it did.  When the record of a run says that the engine was checked and agrees, then
  c2patool and the verifier's own engine were run on the same asset with the same settings and the same clock.  The
  settings trust exactly the certificates of the two lists, those of the trust list first, check time stamps against
  them, and allow no network request; the clock was the one asked for: frozen at the text that names the instant to
  the second, for the years 0 to 9999, or the wall clock when no time was given.  The emitted text is that of the document c2patool
  printed, up to the order of keys, or of the harness's own empty document when c2patool failed for want of a claim;
  the engine's results do not differ from it, which for plain results means the same verdict, and for the empty
  document that the engine found no manifest store either.\<close>

theorem harness_run_attested:
  assumes "runCrjsonHarness w inputs options = (Inr run, es)"
    and "ea_checked (hr_engineAgreement (hn_record run))" "ea_agree (hr_engineAgreement (hn_record run))"
  shows "\<exists>settings ft tool probe doc result mimeType.
       Settings_written settings \<in> set es
     \<and> cert_blocks (rs_trustAnchors settings) = cert_blocks (hi_trustListPem inputs) @ cert_blocks (hi_tsaTrustListPem inputs)
     \<and> rs_verifyTimestampTrust settings
     \<and> rs_allowedNetworkHosts settings = [] \<and> \<not> rs_ocspFetch settings \<and> \<not> rs_remoteManifestFetch settings
     \<and> clock_asked (hi_validationTime inputs) ft
     \<and> tool = child_at w settings (resolveC2patool w options)
           [hi_assetPath inputs, ''--crjson'', ''--settings'', hw_workDir w @ ''/settings.json''] ft
           (null_or (ho_faketime options) ''faketime'')
     \<and> document_source w tool (hr_crjsonOrigin (hn_record run)) (hn_crjson run)
     \<and> hn_crjsonText run = crjson_text (hn_crjson run) \<and> document_of (hn_crjson run) = Some doc
     \<and> mimeTypeForAsset (hi_assetPath inputs) = Some mimeType
     \<and> probe = child_at w settings (fst (hw_probe w))
           (snd (hw_probe w) @ [hi_assetPath inputs, mimeType, hw_workDir w @ ''/settings.json'']) ft
           (null_or (ho_faketime options) ''faketime'')
     \<and> ch_error probe = None \<and> ch_status probe = Some 0
     \<and> chain (json_parse (ch_stdout probe)) engine_result_of = Some result
     \<and> compareWithEngine doc result = [] \<and> (plain_results doc result \<longrightarrow> same_verdict doc result)
     \<and> (hr_crjsonOrigin (hn_record run) = Harness_empty_document \<longrightarrow> \<not> ep_found result)"
proof -
  define settings where "settings = harnessSettings (hi_trustListPem inputs) (hi_tsaTrustListPem inputs)"
  from assms(1) obtain ft b e1 e2 where p: "prepare_run w inputs options = (Inr (ft, b), e1)"
      "in_work_dir w inputs options ft b = (Inr run, e2)" "es = e1 @ Work_dir_made # e2 @ [Work_dir_removed]"
    unfolding runCrjsonHarness_def by (auto simp: trace_simps)
  have written: "Settings_written settings \<in> set es"
    using in_work_dir_events[OF p(2)] by (auto simp: p(3) settings_def)
  obtain tool origin doc ag e where t:
    "tool = child_at w settings (resolveC2patool w options)
         [hi_assetPath inputs, ''--crjson'', ''--settings'', hw_workDir w @ ''/settings.json''] ft
         (null_or (ho_faketime options) ''faketime'')"
    "crjson_of_tool w inputs (null_or (ho_timeoutMs options) 120000) tool = Inr (hn_crjson run, origin)"
    "document_of (hn_crjson run) = Some doc" "cross_check w inputs options ft doc = (Inr ag, e)"
    "hn_crjsonText run = crjson_text (hn_crjson run)" "hr_crjsonOrigin (hn_record run) = origin"
    "hr_engineAgreement (hn_record run) = fst ag"
    using in_work_dir_Inr[OF p(2)] unfolding settings_def by blast
  obtain a v where ag: "ag = (a, v)" by fastforce
  have "cross_check w inputs options ft doc = (Inr (a, v), e)" "ea_checked a" using t(4,7) assms(2) ag by simp_all
  then obtain mimeType probe result where c:
    "mimeTypeForAsset (hi_assetPath inputs) = Some mimeType"
    "probe = child_at w settings (fst (hw_probe w))
           (snd (hw_probe w) @ [hi_assetPath inputs, mimeType, hw_workDir w @ ''/settings.json'']) ft
           (null_or (ho_faketime options) ''faketime'')"
    "\<not> failed probe" "chain (json_parse (ch_stdout probe)) engine_result_of = Some result"
    "ea_agree a = (compareWithEngine doc result = [])"
    using cross_check_Inr[of w inputs options ft doc a v e] unfolding settings_def by blast
  have off: "rs_verifyTimestampTrust settings" "rs_allowedNetworkHosts settings = []" "\<not> rs_ocspFetch settings"
    "\<not> rs_remoteManifestFetch settings"
    by (simp_all add: settings_def harnessSettings_def buildVerifierSettings_def fetchesOcsp_def)
  have clock: "clock_asked (hi_validationTime inputs) ft"
    using prepare_run_Inr[OF p(1)]
    by (auto simp: clock_asked_def toFaketime_def faketime_names_instant split: option.splits)
  have ok: "ch_error probe = None" "ch_status probe = Some 0" using c(3) by (simp_all add: failed_def)
  have agree: "compareWithEngine doc result = []" using c(5) assms(3) t(7) ag by simp
  have plain: "plain_results doc result \<longrightarrow> same_verdict doc result" using agree verdict_of_no_difference by blast
  have none: "\<not> ep_found result" if "origin = Harness_empty_document"
  proof -
    have "hn_crjson run = sortKeysDeep (EMPTY_DOCUMENT w)"
      using t(2) that by (auto simp: crjson_of_tool_def split: if_splits option.splits)
    then have "cd_manifests doc = []" using t(3) empty_document_read by simp
    then show ?thesis using agree by (auto simp: compareWithEngine_def)
  qed
  show ?thesis
    using written settings_anchors[of "hi_trustListPem inputs" "hi_tsaTrustListPem inputs", folded settings_def] off clock
      t(1,3,5) crjson_of_tool_source[OF t(2)] c(1,2,4) ok agree plain none t(6) by blast
qed

text \<open>The exit status tells the outcomes apart; a document is emitted exactly with 0 and 5.\<close>

lemma cli_exit_exact:
  assumes "runCli w readText parse_date argv = (code, text)"
  shows "code \<in> {0, 1, 2, 3, 4, 5} \<and> (text \<noteq> None \<longleftrightarrow> code \<in> {0, 5})"
proof -
  have l: "exit_of (Inl e) \<in> {1, 2, 3, 4}" for e
    by (cases e) (auto split: harness_error_kind.split)
  have x: "exit_of r \<in> {0, 1, 2, 3, 4, 5} \<and> ((case r of Inl e \<Rightarrow> None | Inr run \<Rightarrow> Some (hn_crjsonText run)) \<noteq> None
      \<longleftrightarrow> exit_of r \<in> {0, 5})" for r
  proof (cases r)
    case (Inl e)
    then show ?thesis using l[of e] by auto
  qed simp
  show ?thesis
  proof (cases "chain (cliParseArgs argv) (cli_inputs readText parse_date)")
    case None
    then have "runCli w readText parse_date argv = (2, None)"
      by (cases "cliParseArgs argv") (simp_all add: runCli_def)
    then show ?thesis using assms by simp
  next
    case (Some inputs)
    then obtain r where "(code, text) = (exit_of r, case r of Inl e \<Rightarrow> None | Inr run \<Rightarrow> Some (hn_crjsonText run))"
      using assms by (cases "cliParseArgs argv") (auto simp: runCli_def Let_def)
    then show ?thesis using x[of r] by simp
  qed
qed

text \<open>A line break in an address, or an at sign in a code, makes two different results look the same.\<close>

lemma at_sign_collision:
  "diff_group ''activeManifest''
     (Some (\<lambda>g. Some [\<lparr>se_code = ''a @ b'', se_url = Some ''c''\<rparr>]))
     (Some (\<lambda>g. Some [\<lparr>se_code = ''a'', se_url = Some ''b @ c''\<rparr>])) Failure_group = []"
  by code_simp

lemma line_break_collision:
  "diff_group ''activeManifest''
     (Some (\<lambda>g. Some [\<lparr>se_code = ''a'', se_url = Some (''u'' @ [CHR 0x0A] @ ''b @ v'')\<rparr>]))
     (Some (\<lambda>g. Some [\<lparr>se_code = ''a'', se_url = Some ''u''\<rparr>, \<lparr>se_code = ''b'', se_url = Some ''v''\<rparr>]))
     Failure_group = []"
  by code_simp

end
