(* ===== verification/CrjsonExample.thy ===== *)
theory CrjsonExample
  imports CrjsonHarness
begin

text \<open>
  A run of the conformance harness evaluated by the kernel: c2patool reports one manifest with one
  success status, and the engine agrees.
\<close>

definition ex_status :: "string \<Rightarrow> jsval" where
  "ex_status url = JObj [(''code'', JStr ''claimSignature.validated''), (''url'', JStr url)]"

definition ex_codes :: jsval where
  "ex_codes = JObj [(''success'', JArr [ex_status ''u'']), (''informational'', JArr []), (''failure'', JArr [])]"

text \<open>c2patool's document, with the keys in two orders.\<close>

definition ex_generator :: jsval where
  "ex_generator = JObj [(''name'', JStr ''c2pa-rs''), (''version'', JStr ''0.91.3'')]"

definition ex_generator' :: jsval where
  "ex_generator' = JObj [(''version'', JStr ''0.91.3''), (''name'', JStr ''c2pa-rs'')]"

definition ex_crjson :: "jsval \<Rightarrow> jsval" where
  "ex_crjson g = JObj [(''manifests'', JArr [JObj [(''label'', JStr ''m''), (''validationResults'', ex_codes)]]),
     (''jsonGenerator'', g)]"

definition ex_engine :: jsval where
  "ex_engine = JObj [(''found'', JBool True), (''activeManifest'', JStr ''m''), (''validationState'', JStr ''Valid''),
     (''validationResults'', JObj [(''activeManifest'', ex_codes)])]"

definition ok_child :: "string \<Rightarrow> child_run" where
  "ok_child out = \<lparr>ch_error = None, ch_status = Some 0, ch_signal = [], ch_stdout = out, ch_stderr = []\<rparr>"

definition ex_spawn :: "string \<Rightarrow> reader_settings option \<Rightarrow> string \<Rightarrow> string list \<Rightarrow> child_run" where
  "ex_spawn out st cmd args =
    (if args = [''--version''] then ok_child ''c2patool 0.27''
     else if ''--crjson'' \<in> set args then ok_child out
     else ok_child (json_stringify ex_engine))"

definition ex_world :: "string \<Rightarrow> harness_world" where
  "ex_world out = \<lparr>hw_spawn = ex_spawn out, hw_readFile = (\<lambda>f. Inr [1]), hw_sha256 = bytesToHex,
     hw_workDir = ''/tmp/w'', hw_C2PATOOL = None, hw_version = ''1'', hw_engineVersion = ''0.9.10'',
     hw_probe = (''node'', [''probe''])\<rparr>"

definition ex_inputs :: harness_inputs where
  "ex_inputs = \<lparr>hi_assetPath = ''a.jpg'', hi_trustListPem = [], hi_tsaTrustListPem = [],
     hi_validationTime = Some (Some 0)\<rparr>"

definition ex_options :: harness_options where
  "ex_options = \<lparr>ho_c2patool = None, ho_faketime = None, ho_crossCheck = None, ho_timeoutMs = None\<rparr>"

definition ex_tool :: child_run where
  "ex_tool = ok_child (json_stringify (ex_crjson ex_generator'))"

lemma ex_crjson_parses:
  "json_parse (json_stringify (ex_crjson g)) = Some (ex_crjson g)" if "g \<in> {ex_generator, ex_generator'}"
  by (rule json_parse_stringify)
    (use that in \<open>auto simp: ex_crjson_def ex_generator_def ex_generator'_def ex_codes_def ex_status_def\<close>)

lemma ex_engine_parses: "json_parse (json_stringify ex_engine) = Some ex_engine"
  by (rule json_parse_stringify) (simp add: ex_engine_def ex_codes_def ex_status_def)


definition ex_sorted :: jsval where "ex_sorted = sortKeysDeep (ex_crjson ex_generator')"

definition ex_codes_typed :: status_codes where
  "ex_codes_typed = (\<lambda>g. case g of Success_group \<Rightarrow> Some [\<lparr>se_code = ''claimSignature.validated'', se_url = Some ''u''\<rparr>]
     | Informational_group \<Rightarrow> Some [] | Failure_group \<Rightarrow> Some [])"

definition ex_doc :: crjson_document where
  "ex_doc = \<lparr>cd_manifests = [\<lparr>cm_label = ''m'', cm_validationResults = ex_codes_typed, cm_ingredientDeltas = None\<rparr>],
     cd_generatorName = ''c2pa-rs'', cd_generatorVersion = ''0.91.3''\<rparr>"

definition ex_result :: engine_probe_result where
  "ex_result = \<lparr>ep_found = True, ep_activeManifest = Some ''m'', ep_validationState = Some ''Valid'',
     ep_validationResults = Some \<lparr>er_activeManifest = Some ex_codes_typed, er_ingredientDeltas = None\<rparr>\<rparr>"

lemma ex_status_reads: "entry_of (ex_status ''u'') = Some \<lparr>se_code = ''claimSignature.validated'', se_url = Some ''u''\<rparr>"
  by (simp add: entry_of_def ex_status_def opt_get_def is_nullish_def)

lemma ex_codes_read: "codes_of ex_codes = Some ex_codes_typed"
  by (simp add: codes_of_def ex_codes_def opt_get_def nullable_def is_nullish_def ex_status_reads ex_codes_typed_def)

lemma ex_engine_reads: "engine_result_of ex_engine = Some ex_result"
proof -
  have "ex_codes \<noteq> JUndef" "ex_codes \<noteq> JNull" by (simp_all add: ex_codes_def)
  then show ?thesis
    by (simp add: engine_result_of_def ex_engine_def opt_get_def nullable_def is_nullish_def results_of_def
        ex_codes_read ex_result_def)
qed

lemma ex_sorted_doc: "ex_sorted = JObj [(''jsonGenerator'', ex_generator),
    (''manifests'', JArr [JObj [(''label'', JStr ''m''), (''validationResults'', sortKeysDeep ex_codes)]])]"
  by code_simp

lemma ex_sorted_codes: "sortKeysDeep ex_codes
    = JObj [(''failure'', JArr []), (''informational'', JArr []), (''success'', JArr [ex_status ''u''])]"
  by code_simp

lemma ex_doc_reads: "document_of ex_sorted = Some ex_doc"
proof -
  have "codes_of (sortKeysDeep ex_codes) = Some ex_codes_typed"
    unfolding ex_sorted_codes
    by (simp add: codes_of_def opt_get_def nullable_def is_nullish_def ex_status_reads ex_codes_typed_def)
  then show ?thesis
    unfolding ex_sorted_doc
    by (simp add: document_of_def manifest_of_def opt_get_def nullable_def is_nullish_def ex_generator_def ex_doc_def)
qed

lemma ex_agrees: "compareWithEngine ex_doc ex_result = []"
  by code_simp

abbreviation "ex_out \<equiv> json_stringify (ex_crjson ex_generator')"

lemma ex_faketime: "toFaketime (Some 0) = Inr ''1970-01-01 00:00:00''"
  by code_simp

lemma ex_prepare: "\<exists>es. prepare_run (ex_world out) ex_inputs ex_options = (Inr (Some ''1970-01-01 00:00:00'', [1]), es)"
proof -
  have "check_bundle l [] = Inr ()" for l by (simp add: check_bundle_def js_trim_def)
  then show ?thesis
    by (simp add: prepare_run_def ex_inputs_def ex_options_def ex_world_def ex_spawn_def ok_child_def ex_faketime
        spawnSync_def bindW_def liftW_def tellW_def)
qed

lemma ex_harness_run: "\<exists>run es. runCrjsonHarness (ex_world ex_out) ex_inputs ex_options = (Inr run, es)
    \<and> ea_checked (hr_engineAgreement (hn_record run)) \<and> ea_agree (hr_engineAgreement (hn_record run))"
proof -
  obtain e1 where p: "prepare_run (ex_world ex_out) ex_inputs ex_options = (Inr (Some ''1970-01-01 00:00:00'', [1]), e1)"
    using ex_prepare by blast
  have mime: "mimeTypeForAsset ''a.jpg'' = Some ''image/jpeg''" by code_simp
  have probe: "child_at (ex_world ex_out) st ''node'' [''probe'', ''a.jpg'', ''image/jpeg'', ''/tmp/w/settings.json'']
      (Some ''1970-01-01 00:00:00'') ''faketime'' = ok_child (json_stringify ex_engine)" for st
    by (simp add: child_at_def ex_world_def ex_spawn_def)
  have tool: "child_at (ex_world ex_out) st ''c2patool'' [''a.jpg'', ''--crjson'', ''--settings'', ''/tmp/w/settings.json'']
      (Some ''1970-01-01 00:00:00'') ''faketime'' = ok_child ex_out" for st
    by (simp add: child_at_def ex_world_def ex_spawn_def)
  have ok: "\<not> failed (ok_child out)" "ch_stdout (ok_child out) = out" for out
    by (simp_all add: failed_def ok_child_def)
  have cc: "\<exists>e. cross_check (ex_world ex_out) ex_inputs ex_options (Some ''1970-01-01 00:00:00'') ex_doc
      = (Inr (\<lparr>ea_checked = True, ea_agree = True, ea_differences = []\<rparr>,
              Some \<lparr>ev_found = True, ev_activeManifest = Some ''m'', ev_validationState = Some ''Valid''\<rparr>), e)"
    using mime probe ok ex_engine_parses ex_engine_reads ex_agrees
    by (auto simp: cross_check_def ex_inputs_def ex_options_def ex_result_def Let_def trace_simps spawnAt_iff
        ex_world_def)
  have "crjson_of_tool (ex_world ex_out) ex_inputs 120000 (ok_child ex_out) = Inr (ex_sorted, From_c2patool)"
    using ok ex_crjson_parses[of ex_generator'] by (simp add: crjson_of_tool_def ex_sorted_def)
  moreover have "\<not> failed (hw_spawn (ex_world ex_out) st ''c2patool'' [''--version''])" for st
    using ok by (simp add: ex_world_def ex_spawn_def)
  ultimately have "\<exists>run e. in_work_dir (ex_world ex_out) ex_inputs ex_options (Some ''1970-01-01 00:00:00'') [1] = (Inr run, e)
      \<and> hr_engineAgreement (hn_record run) = \<lparr>ea_checked = True, ea_agree = True, ea_differences = []\<rparr>"
    using cc tool ex_doc_reads
    by (force simp: in_work_dir_def Let_def trace_simps spawnSync_iff spawnAt_iff record_of_def ex_inputs_def
        ex_options_def resolveC2patool_def ex_world_def)
  then show ?thesis
    unfolding runCrjsonHarness_def using p by (force simp: trace_simps)
qed

theorem harness_run_attested_witness:
  "\<exists>run es words. runCrjsonHarness (ex_world ex_out) ex_inputs ex_options = (Inr run, es)
     \<and> names_instant words 0 \<and> (\<exists>doc result. document_of (hn_crjson run) = Some doc \<and> compareWithEngine doc result = [])"
proof -
  obtain run es where r: "runCrjsonHarness (ex_world ex_out) ex_inputs ex_options = (Inr run, es)"
      "ea_checked (hr_engineAgreement (hn_record run))" "ea_agree (hr_engineAgreement (hn_record run))"
    using ex_harness_run by blast
  from harness_run_attested[OF r] obtain ft doc result where c: "clock_asked (Some (Some 0)) ft"
      "document_of (hn_crjson run) = Some doc" "compareWithEngine doc result = []"
    unfolding ex_inputs_def harness_inputs.select_convs by blast
  have "year_of_ms 0 = 1970" by code_simp
  with c(1) obtain words where "names_instant words 0" by (auto simp: clock_asked_def)
  with r(1) c(2,3) show ?thesis by blast
qed

theorem cross_check_exact_witness: "same_verdict ex_doc ex_result"
proof -
  have "plain_results ex_doc ex_result" by code_simp
  from cross_check_exact[OF this] ex_agrees show ?thesis by simp
qed

lemma ex_reorder: "json_reorder (ex_crjson ex_generator) (ex_crjson ex_generator')"
proof -
  have g: "json_reorder ex_generator ex_generator'"
    unfolding ex_generator_def ex_generator'_def
    by (rule json_reorder.obj[where mid = "[(''name'', JStr ''c2pa-rs''), (''version'', JStr ''0.91.3'')]"])
      (auto intro: json_reorder.same)
  show ?thesis
    unfolding ex_crjson_def
    by (rule json_reorder.obj[where mid = "[(''manifests'', JArr [JObj [(''label'', JStr ''m''), (''validationResults'', ex_codes)]]),
          (''jsonGenerator'', ex_generator')]"]) (auto intro: json_reorder.same g)
qed

theorem emitted_text_deterministic_witness:
  "crjson_text (sortKeysDeep (ex_crjson ex_generator)) = crjson_text ex_sorted"
proof -
  have t: "crjson_of_tool (ex_world ex_out) ex_inputs n (ok_child (json_stringify (ex_crjson g)))
      = Inr (sortKeysDeep (ex_crjson g), From_c2patool)"
    "json_parse (ch_stdout (ok_child (json_stringify (ex_crjson g)))) = Some (ex_crjson g)"
    if "g \<in> {ex_generator, ex_generator'}" for g n
    using ex_crjson_parses[OF that] by (simp_all add: crjson_of_tool_def failed_def ok_child_def)
  have "json_wf (ex_crjson ex_generator)"
    by (simp add: ex_crjson_def ex_generator_def ex_codes_def ex_status_def)
  from emitted_text_deterministic[OF t(1) t(1) t(2) t(2) this ex_reorder] show ?thesis by (simp add: ex_sorted_def)
qed

end
