(* ===== verification/NativeModule.thy ===== *)
theory NativeModule
  imports Uri Actions
begin

text \<open>
  The TypeScript surface of the capture module, \<open>native/src/index.ts\<close> and \<open>mediaPath.ts\<close>: what an app
  may ask for, and the call each function makes across the bridge.  A call is its name and its argument.  Of the
  native side only the assembly of an upload's actions is modelled (\<open>buildUploadManifestJSON\<close> of
  \<open>native/ios/PhotoAttestModule.swift\<close>, which the Android module repeats); the rest of it is outside.
\<close>

section \<open>Paths\<close>

text \<open>Percent decoding with the validity check of \<open>decodeURIComponent\<close>: each byte with the mark of having
  been escaped, and escaped bytes from 128 on must form UTF-8 sequences of their own.\<close>

fun unescape :: "string \<Rightarrow> (char \<times> bool) list option" where
  "unescape [] = Some []"
| "unescape (c # cs) =
     (if c = CHR ''%'' then
        (case cs of
           a # b # rest \<Rightarrow>
             (case (hex_val a, hex_val b) of
                (Some h, Some l) \<Rightarrow> map_option ((#) (char_of (16 * h + l), True)) (unescape rest)
              | _ \<Rightarrow> None)
         | _ \<Rightarrow> None)
      else map_option ((#) (c, False)) (unescape cs))"

text \<open>The number of bytes that follow a lead byte, with the bounds of the first of them.\<close>

definition utf8_lead :: "nat \<Rightarrow> (nat \<times> nat \<times> nat) option" where
  "utf8_lead b =
    (if 0xC2 \<le> b \<and> b \<le> 0xDF then Some (1, 0x80, 0xBF)
     else if 0xE0 \<le> b \<and> b \<le> 0xEF then Some (2, if b = 0xE0 then 0xA0 else 0x80, if b = 0xED then 0x9F else 0xBF)
     else if 0xF0 \<le> b \<and> b \<le> 0xF4 then Some (3, if b = 0xF0 then 0x90 else 0x80, if b = 0xF4 then 0x8F else 0xBF)
     else None)"

fun utf8_escapes :: "nat \<Rightarrow> nat \<Rightarrow> nat \<Rightarrow> (char \<times> bool) list \<Rightarrow> bool" where
  "utf8_escapes need lo hi [] = (need = 0)"
| "utf8_escapes need lo hi ((c, escaped) # r) =
     (let b = of_char c in
      if need = 0 then
        (if \<not> escaped \<or> b < 0x80 then utf8_escapes 0 lo hi r
         else (case utf8_lead b of None \<Rightarrow> False | Some (n, lo', hi') \<Rightarrow> utf8_escapes n lo' hi' r))
      else escaped \<and> lo \<le> b \<and> b \<le> hi \<and> utf8_escapes (need - 1) 0x80 0xBF r)"

definition decodeURIComponent_utf8 :: "string \<Rightarrow> string option" where
  "decodeURIComponent_utf8 s =
    chain (unescape s) (\<lambda>bs. if utf8_escapes 0 0x80 0xBF bs then Some (map fst bs) else None)"

text \<open>\<open>replace(/[?#].*$/, "")\<close>: from the first such character with no line break after it (\<open>.\<close> matches
  none).\<close>

definition line_break :: "char \<Rightarrow> bool" where
  "line_break c = (c = CHR 0x0A \<or> c = CHR 0x0D)"

fun strip_suffix :: "string \<Rightarrow> string" where
  "strip_suffix [] = []"
| "strip_suffix (c # cs) =
     (if (c = CHR ''?'' \<or> c = CHR ''#'') \<and> \<not> list_ex line_break cs then [] else c # strip_suffix cs)"

text \<open>\<open>/^file:\/\/(?:localhost)?(\/.*)$/i\<close>: the scheme and authority, and the path after it.\<close>

definition file_uri_path :: "string \<Rightarrow> string option" where
  "file_uri_path s =
    (let l = map lower_char s; p = ''file://''; q = ''file://localhost'' in
     if list_ex line_break s then None
     else if starts_with (q @ ''/'') l then Some (drop (length q) s)
     else if starts_with (p @ ''/'') l then Some (drop (length p) s)
     else None)"

definition normalizeMediaPath :: "string \<Rightarrow> string" where
  "normalizeMediaPath pathOrUri =
    (case file_uri_path (strip_suffix pathOrUri) of
       None \<Rightarrow> pathOrUri
     | Some path \<Rightarrow> null_or (decodeURIComponent_utf8 path) path)"

section \<open>What an app may ask for\<close>

datatype platform = Ios | Android_strongbox | Android_tee

text \<open>\<open>PhotoAttestErrorCode\<close>: what a call can reject with.\<close>

datatype photo_attest_error =
    Hardware_unavailable | App_attest_unavailable | App_attest_failed | Key_not_found | Key_already_exists
  | Attestation_failed | Cert_generation_failed | Invalid_capture_context | Unsupported_format | C2pa_sign_failed
  | Cert_key_mismatch | Stage1_parent_unreadable | Play_integrity_failed | Asset_not_found
  | Media_overwrite_failed | Media_overwrite_rejected

record generate_key_result =
  gk_publicKey :: string
  gk_platform :: platform

record attestation_result =
  ar_attestation :: string
  ar_keyId :: string
  ar_platform :: platform

record generate_and_attest_result = generate_key_result +
  ga_attestation :: string
  ga_keyId :: string

text \<open>The results of the signing calls.\<close>

record signed_media =
  sm_signedMediaPath :: string

record signed_manifest = signed_media +
  sm_manifestId :: string

datatype attestation_envelope =
    App_attest (ae_keyId: string) (ae_challenge: string) (ae_assertion: string)
  | Play_integrity (ae_challenge: string) (ae_token: string)

record gps =
  gps_latitude :: jsnum
  gps_longitude :: jsnum
  gps_altitude :: "jsnum option"
  gps_timestampMs :: "jsnum option"

record sign_capture_options =
  sc_certChainPEM :: string
  sc_capturerUuid :: string
  sc_gps :: "gps option"
  sc_captureTimestampMs :: "jsnum option"
  sc_tsaUrl :: "string option"

text \<open>\<open>DigitalSourceTypeUri\<close>: one of two prefixes and any rest.\<close>

datatype digital_source_type = Iptc_source string | C2pa_source string

fun source_uri :: "digital_source_type \<Rightarrow> string" where
  "source_uri (Iptc_source s) = ''http://cv.iptc.org/newscodes/digitalsourcetype/'' @ s"
| "source_uri (C2pa_source s) = ''http://c2pa.org/digitalsourcetype/'' @ s"

definition DIGITAL_SOURCE_TYPE_DIGITAL_CAPTURE :: digital_source_type where
  "DIGITAL_SOURCE_TYPE_DIGITAL_CAPTURE = Iptc_source ''digitalCapture''"

datatype angle = Angle_90 | Angle_180 | Angle_270

text \<open>\<open>OrientationParameters\<close>: an angle with an optional flip, or a flip alone.\<close>

datatype orientation_parameters = Rotate angle bool | Flip_only

datatype stage2_action =
    Orientation digital_source_type "string option" orientation_parameters
  | Resized_proportional jsnum jsnum
  | Transcoded "(jsnum option \<times> string option) option"
  | Trimmed digital_source_type jsnum jsnum
  | Edited_metadata "string list"
  | Redacted string

fun angle_degrees :: "angle \<Rightarrow> int" where
  "angle_degrees Angle_90 = 90"
| "angle_degrees Angle_180 = 180"
| "angle_degrees Angle_270 = 270"

definition js_int :: "int \<Rightarrow> jsval" where
  "js_int n = JNum (make_num (n < 0) (nat \<bar>n\<bar>) 0)"

fun orientation_json :: "orientation_parameters \<Rightarrow> jsval" where
  "orientation_json (Rotate a flip) =
     JObj ([(''org.realreel.angle'', js_int (angle_degrees a))]
           @ (if flip then [(''org.realreel.flip'', JStr ''horizontal'')] else []))"
| "orientation_json Flip_only = JObj [(''org.realreel.flip'', JStr ''horizontal'')]"

definition opt_member :: "string \<Rightarrow> jsval option \<Rightarrow> (string \<times> jsval) list" where
  "opt_member k v = (case v of None \<Rightarrow> [] | Some x \<Rightarrow> [(k, x)])"

text \<open>The object an action is.\<close>

fun action_json :: "stage2_action \<Rightarrow> jsval" where
  "action_json (Orientation src desc p) =
     JObj ([(''action'', JStr ''c2pa.orientation''), (''digitalSourceType'', JStr (source_uri src))]
           @ opt_member ''description'' (map_option JStr desc) @ [(''parameters'', orientation_json p)])"
| "action_json (Resized_proportional w h) =
     JObj [(''action'', JStr ''c2pa.resized.proportional''),
           (''parameters'', JObj [(''org.realreel.width'', JNum w), (''org.realreel.height'', JNum h)])]"
| "action_json (Transcoded p) =
     JObj ([(''action'', JStr ''c2pa.transcoded'')]
           @ opt_member ''parameters'' (map_option (\<lambda>(q, f). JObj (opt_member ''org.realreel.quality'' (map_option JNum q)
                @ opt_member ''org.realreel.format'' (map_option JStr f))) p))"
| "action_json (Trimmed src s e) =
     JObj [(''action'', JStr ''c2pa.trimmed''), (''digitalSourceType'', JStr (source_uri src)),
           (''parameters'', JObj [(''org.realreel.start'', JNum s), (''org.realreel.end'', JNum e)])]"
| "action_json (Edited_metadata removed) =
     JObj [(''action'', JStr ''c2pa.edited.metadata''),
           (''parameters'', JObj [(''org.realreel.removed'', JArr (map JStr removed))])]"
| "action_json (Redacted label) =
     JObj [(''action'', JStr ''c2pa.redacted''), (''parameters'', JObj [(''assertionLabel'', JStr label)])]"

record sign_upload_options =
  su_certChainPEM :: string
  su_parentMediaPath :: string
  su_actions :: "stage2_action list"
  su_gps :: "gps option"
  su_locationLabel :: "string option"
  su_captureTimestampMs :: "jsnum option"
  su_claimThumbnailPath :: "string option"
  su_attestationEnvelope :: "attestation_envelope option"
  su_tsaUrl :: "string option"
  su_trustAnchorsPem :: "string option"

record sign_update_options =
  st_certChainPEM :: string
  st_parentMediaPath :: string
  st_tsaUrl :: string
  st_trustAnchorsPem :: "string option"

section \<open>Calls across the bridge\<close>

text \<open>Absent options are passed as null.\<close>

datatype native_call =
    Call_isHardwareSupported
  | Call_isAppAttestAvailable
  | Call_hasKey string
  | Call_deleteKey string
  | Call_generateKey string
  | Call_getPublicKey string
  | Call_getAttestation string string
  | Call_generateAndAttestKey string string
  | Call_generateCSR string
  | Call_generateCaptureAttestation string string string
  | Call_generatePlayIntegrityToken string string
  | Call_signC2PACapture (nc_alias: string) (nc_mediaPath: string) sign_capture_options
  | Call_signC2PAUpload (nc_alias: string) (nc_transformedMediaPath: string) sign_upload_options
  | Call_signTimestampUpdateManifest (nc_alias: string) sign_update_options
  | Call_overwriteMediaLibraryAsset string string

definition signC2PACapture :: "string \<Rightarrow> string \<Rightarrow> sign_capture_options \<Rightarrow> native_call" where
  "signC2PACapture alias mediaPath options = Call_signC2PACapture alias (normalizeMediaPath mediaPath) options"

definition signC2PAUpload :: "string \<Rightarrow> string \<Rightarrow> sign_upload_options \<Rightarrow> native_call" where
  "signC2PAUpload alias transformedMediaPath options =
    Call_signC2PAUpload alias (normalizeMediaPath transformedMediaPath)
      (options\<lparr>su_parentMediaPath := normalizeMediaPath (su_parentMediaPath options),
               su_claimThumbnailPath := map_option normalizeMediaPath (su_claimThumbnailPath options)\<rparr>)"

definition signTimestampUpdateManifest :: "string \<Rightarrow> sign_update_options \<Rightarrow> native_call" where
  "signTimestampUpdateManifest alias options =
    Call_signTimestampUpdateManifest alias
      (options\<lparr>st_parentMediaPath := normalizeMediaPath (st_parentMediaPath options)\<rparr>)"

definition overwriteMediaLibraryAsset :: "string \<Rightarrow> string \<Rightarrow> native_call" where
  "overwriteMediaLibraryAsset assetId sourcePath =
    Call_overwriteMediaLibraryAsset assetId (normalizeMediaPath sourcePath)"

section \<open>Both spellings of a local file give its path\<close>

text \<open>A platform's URI of a path: some printable ASCII characters kept, every other byte escaped.\<close>

definition escape_path :: "(char \<Rightarrow> bool) \<Rightarrow> string \<Rightarrow> string" where
  "escape_path keep s =
    concat (map (\<lambda>c. if keep c then [c]
                     else [CHR ''%'', hex_upper (of_char c div 16), hex_upper (of_char c mod 16)]) s)"

definition kept_in_uris :: "char \<Rightarrow> bool" where
  "kept_in_uris c = (0x20 \<le> (of_char c :: nat) \<and> (of_char c :: nat) < 0x80 \<and> c \<notin> set ''%?#'')"

definition valid_utf8 :: "string \<Rightarrow> bool" where
  "valid_utf8 s = utf8_escapes 0 0x80 0xBF (map (\<lambda>c. (c, True)) s)"

lemma escape_path_simps [simp]:
  "escape_path keep [] = []"
  "escape_path keep (c # s) =
     (if keep c then c # escape_path keep s
      else CHR ''%'' # hex_upper (of_char c div 16) # hex_upper (of_char c mod 16) # escape_path keep s)"
  by (simp_all add: escape_path_def)

lemma unescape_escape_path:
  assumes "\<And>c. keep c \<Longrightarrow> kept_in_uris c"
  shows "unescape (escape_path keep s) = Some (map (\<lambda>c. (c, \<not> keep c)) s)"
proof (induction s)
  case (Cons c s)
  have "of_char c div 16 < (16 :: nat)"
    using nat_of_char_less_256[of c] by (simp add: less_mult_imp_div_less)
  moreover have "char_of (16 * (of_char c div 16) + of_char c mod 16 :: nat) = c" by simp
  moreover have "keep c \<Longrightarrow> c \<noteq> CHR ''%''" using assms by (auto simp: kept_in_uris_def)
  ultimately show ?case using Cons by (simp add: hex_val_upper)
qed simp

lemma utf8_lead_bounds: "utf8_lead b = Some (n, lo, hi) \<Longrightarrow> 0x80 \<le> lo"
  by (auto simp: utf8_lead_def split: if_splits)

text \<open>Which of the characters below 128 are written plainly makes no difference.\<close>

lemma utf8_escapes_keep:
  assumes "\<And>c. keep c \<Longrightarrow> kept_in_uris c" and "0x80 \<le> lo"
  shows "utf8_escapes need lo hi (map (\<lambda>c. (c, \<not> keep c)) s)
    = utf8_escapes need lo hi (map (\<lambda>c. (c, True)) s)"
  using assms(2)
proof (induction s arbitrary: need lo hi)
  case (Cons c s)
  have "keep c \<Longrightarrow> (of_char c :: nat) < 0x80" using assms(1) by (auto simp: kept_in_uris_def)
  with Cons show ?case
    by (cases "keep c"; cases "utf8_lead (of_char c)") (auto simp: Let_def dest: utf8_lead_bounds)
qed simp

lemma decode_escape_path:
  assumes "\<And>c. keep c \<Longrightarrow> kept_in_uris c" and "valid_utf8 s"
  shows "decodeURIComponent_utf8 (escape_path keep s) = Some s"
  using assms utf8_escapes_keep[of keep "0x80" 0 "0xBF" s, OF assms(1)]
  by (simp add: decodeURIComponent_utf8_def unescape_escape_path valid_utf8_def comp_def)

lemma hex_upper_clean:
  assumes "d < 16"
  shows "hex_upper d \<noteq> CHR ''?'' \<and> hex_upper d \<noteq> CHR ''#'' \<and> \<not> line_break (hex_upper d)"
proof -
  have "d \<in> set [0..<16]" using assms by simp
  then show ?thesis unfolding upt_rec_numeral by (auto simp: hex_upper_def line_break_def upt_rec char_of_def)
qed

lemma escape_path_clean:
  assumes "\<And>c. keep c \<Longrightarrow> kept_in_uris c" and "c \<in> set (escape_path keep s)"
  shows "c \<noteq> CHR ''?'' \<and> c \<noteq> CHR ''#'' \<and> \<not> line_break c"
  using assms(2)
proof (induction s)
  case (Cons d s)
  have "of_char d div 16 < (16 :: nat)" "of_char d mod 16 < (16 :: nat)"
    using nat_of_char_less_256[of d] by (simp_all add: less_mult_imp_div_less)
  note h = this[THEN hex_upper_clean]
  have "keep d \<Longrightarrow> d \<noteq> CHR ''?'' \<and> d \<noteq> CHR ''#'' \<and> \<not> line_break d"
    using assms(1)[of d] by (auto simp: kept_in_uris_def line_break_def)
  with Cons h show ?case by (auto simp: line_break_def split: if_splits)
qed simp

lemma strip_suffix_append:
  assumes "\<And>c. c \<in> set s \<Longrightarrow> c \<noteq> CHR ''?'' \<and> c \<noteq> CHR ''#''"
  shows "strip_suffix (s @ t) = s @ strip_suffix t"
  using assms by (induction s) auto

text \<open>A fragment or query: nothing, or a mark and the rest of the line.\<close>

definition uri_suffix :: "string \<Rightarrow> bool" where
  "uri_suffix t = (case t of [] \<Rightarrow> True | c # r \<Rightarrow> (c = CHR ''?'' \<or> c = CHR ''#'') \<and> \<not> list_ex line_break r)"

lemma strip_uri_suffix: "uri_suffix t \<Longrightarrow> strip_suffix t = []"
  by (cases t) (auto simp: uri_suffix_def)

lemma lower_char_clean: "lower_char c \<noteq> CHR ''?'' \<and> lower_char c \<noteq> CHR ''#'' \<and> \<not> line_break (lower_char c)
  \<Longrightarrow> c \<noteq> CHR ''?'' \<and> c \<noteq> CHR ''#'' \<and> \<not> line_break c"
  by (auto simp: lower_char_def line_break_def)

lemma lowered_clean:
  assumes "map lower_char s = t" and "\<And>c. c \<in> set t \<Longrightarrow> c \<noteq> CHR ''?'' \<and> c \<noteq> CHR ''#'' \<and> \<not> line_break c"
    and "c \<in> set s"
  shows "c \<noteq> CHR ''?'' \<and> c \<noteq> CHR ''#'' \<and> \<not> line_break c"
  using assms lower_char_clean[of c] by auto

lemma file_uri_path_scheme:
  assumes "map lower_char scheme = t" and "t = ''file://'' \<or> t = ''file://localhost''"
    and "\<not> list_ex line_break (scheme @ CHR ''/'' # p)"
  shows "file_uri_path (scheme @ CHR ''/'' # p) = Some (CHR ''/'' # p)"
proof -
  have "length scheme = length t" using assms(1) by auto
  moreover have "map lower_char (scheme @ CHR ''/'' # p) = t @ CHR ''/'' # map lower_char p"
    using assms(1) by (simp add: lower_char_def)
  ultimately show ?thesis
    using assms(2,3) by (elim disjE) (simp_all add: file_uri_path_def Let_def del: map_append)
qed

text \<open>C37. A local file's URI gives the file's path: whichever printable characters the platform left unescaped,
  in either spelling of the authority and any case, with or without a query or fragment, the path that
  reaches the native side is the one on disk, for every absolute path in UTF-8.\<close>

theorem file_uri_gives_path:
  assumes scheme: "map lower_char scheme \<in> {''file://'', ''file://localhost''}"
    and keep: "\<And>c. keep c \<Longrightarrow> kept_in_uris c" and slash: "keep (CHR ''/'')"
    and path: "valid_utf8 (CHR ''/'' # path)" and suffix: "uri_suffix suf"
  shows "normalizeMediaPath (scheme @ escape_path keep (CHR ''/'' # path) @ suf) = CHR ''/'' # path"
proof -
  let ?e = "escape_path keep (CHR ''/'' # path)"
  have e: "?e = CHR ''/'' # escape_path keep path" using slash by simp
  have clean: "c \<noteq> CHR ''?'' \<and> c \<noteq> CHR ''#'' \<and> \<not> line_break c" if "c \<in> set (scheme @ ?e)" for c
  proof (cases "c \<in> set ?e")
    case True
    then show ?thesis using escape_path_clean[where keep = keep] keep by blast
  next
    case False
    with that have "c \<in> set scheme" by simp
    then show ?thesis using scheme
      by (elim insertE emptyE; elim lowered_clean) (auto simp: line_break_def)
  qed
  then have strip: "strip_suffix (scheme @ ?e @ suf) = scheme @ ?e"
    using strip_suffix_append[of "scheme @ ?e" suf] suffix by (simp add: strip_uri_suffix)
  have "\<not> list_ex line_break (scheme @ ?e)" using clean by (auto simp: list_ex_iff)
  then have "file_uri_path (scheme @ ?e) = Some ?e"
    using scheme unfolding e by (intro file_uri_path_scheme[OF refl]) auto
  then show ?thesis
    using strip decode_escape_path[where keep = keep, OF keep path]
    by (simp add: normalizeMediaPath_def del: escape_path_simps)
qed

definition alnum_or_slash :: "char \<Rightarrow> bool" where
  "alnum_or_slash c = (is_alnum c \<or> c = CHR ''/'')"

lemma char_of_ascii: "char_of (102 :: nat) = CHR ''f''" "char_of (105 :: nat) = CHR ''i''"
  "char_of (108 :: nat) = CHR ''l''" "char_of (101 :: nat) = CHR ''e''"
  by code_simp+

theorem file_uri_gives_path_witness:
  "normalizeMediaPath (''FILE://localhost'' @ escape_path alnum_or_slash (CHR ''/'' # ''Quick Share/50% #1.jpg'')
      @ ''#asset-metadata'') = CHR ''/'' # ''Quick Share/50% #1.jpg''"
  by (rule file_uri_gives_path)
     (auto simp: alnum_or_slash_def kept_in_uris_def is_alnum_def is_digit_def is_alpha_def lower_char_def
        valid_utf8_def Let_def char_of_ascii uri_suffix_def line_break_def)

lemma lower_char_slash [simp]: "lower_char c = CHR ''/'' \<longleftrightarrow> c = CHR ''/''"
proof -
  have "char_of (of_char c + 32 :: nat) \<noteq> CHR ''/''" if "65 \<le> (of_char c :: nat)" "(of_char c :: nat) \<le> 90"
  proof
    assume "char_of (of_char c + 32 :: nat) = CHR ''/''"
    then have "(of_char (char_of (of_char c + 32 :: nat)) :: nat) = 47" by simp
    then show False using that by simp
  qed
  then show ?thesis by (auto simp: lower_char_def Let_def)
qed

lemma dropped_path:
  assumes "starts_with (p @ [CHR ''/'']) (map lower_char s)"
  shows "\<exists>t. drop (length p) s = CHR ''/'' # t"
proof -
  obtain r where "map lower_char s = p @ CHR ''/'' # r"
    using assms by (auto simp: starts_with_prefix prefix_def)
  then have "map lower_char (drop (length p) s) = CHR ''/'' # r" by (simp flip: drop_map)
  then show ?thesis by (auto simp: map_eq_Cons_conv)
qed

lemma file_uri_path_absolute: "file_uri_path s = Some p \<Longrightarrow> \<exists>t. p = CHR ''/'' # t"
  unfolding file_uri_path_def Let_def using dropped_path[of "''file://''" s] dropped_path[of "''file://localhost''" s]
  by (auto split: if_splits simp del: drop_Suc_Cons)

lemma decode_absolute: "decodeURIComponent_utf8 (CHR ''/'' # t) = Some r \<Longrightarrow> \<exists>t. r = CHR ''/'' # t"
  by (cases "unescape t") (auto simp: decodeURIComponent_utf8_def split: if_splits)

lemma prefix_strip_suffix: "prefix (strip_suffix s) s"
  by (induction s) auto

lemma file_uri_path_spelling:
  assumes "file_uri_path (strip_suffix s) \<noteq> None"
  shows "starts_with ''file:///'' (map lower_char s) \<or> starts_with ''file://localhost/'' (map lower_char s)"
proof -
  have "prefix (map lower_char (strip_suffix s)) (map lower_char s)"
    by (intro map_mono_prefix prefix_strip_suffix)
  then have "starts_with p (map lower_char s)" if "starts_with p (map lower_char (strip_suffix s))" for p
    using that by (auto simp: starts_with_prefix intro: prefix_order.trans)
  then show ?thesis using assms by (auto simp: file_uri_path_def Let_def split: if_splits)
qed

lemma normalize_plain: "normalizeMediaPath (CHR ''/'' # t) = CHR ''/'' # t"
  by (simp add: normalizeMediaPath_def file_uri_path_def Let_def lower_char_def)

text \<open>Normalising is idempotent, and it touches nothing but a local file's URI: a path written plainly is
  never decoded, whatever percent signs it holds, and a URI of another host passes as it is.\<close>

lemma normalize_settles:
  "normalizeMediaPath (normalizeMediaPath s) = normalizeMediaPath s
   \<and> (normalizeMediaPath s = s \<or> starts_with ''file:///'' (map lower_char s)
      \<or> starts_with ''file://localhost/'' (map lower_char s))"
proof (cases "file_uri_path (strip_suffix s)")
  case None
  then show ?thesis by (simp add: normalizeMediaPath_def)
next
  case (Some p)
  then obtain t where p: "p = CHR ''/'' # t" using file_uri_path_absolute by blast
  then obtain u where "normalizeMediaPath s = CHR ''/'' # u"
    using Some decode_absolute[of t]
    by (cases "decodeURIComponent_utf8 p") (auto simp: normalizeMediaPath_def)
  then show ?thesis using Some file_uri_path_spelling[of s] by (simp add: normalize_plain)
qed

section \<open>What an app can declare the verifier admits\<close>

definition is_actions_label :: "string option \<Rightarrow> bool" where
  "is_actions_label l = (l = Some ''c2pa.actions.v2'' \<or> l = Some ''c2pa.actions'')"

text \<open>One entry of the app's list as the native side takes it: the entry of the assertion and, for a redaction, the
  address it adds to the \<open>redactions\<close> of the manifest.  An entry without a name, and a redaction without a label,
  are skipped.\<close>

definition dictionary :: "jsval \<Rightarrow> jsval option" where
  "dictionary v = (case v of JObj kvs \<Rightarrow> Some v | _ \<Rightarrow> None)"

definition redaction_uri :: "string \<Rightarrow> string \<Rightarrow> string" where
  "redaction_uri urn assertionLabel = ''self#jumbf=/c2pa/'' @ urn @ ''/c2pa.assertions/'' @ assertionLabel"

definition native_action :: "string \<Rightarrow> jsval \<Rightarrow> (jsval \<times> string option) option" where
  "native_action redactionTargetUrn entry =
    chain (as_str (obj_get entry ''action'')) (\<lambda>actionName.
    let params = dictionary (obj_get entry ''parameters'') in
    if actionName = ''c2pa.redacted''
    then chain (chain params (\<lambda>p. as_str (obj_get p ''assertionLabel''))) (\<lambda>assertionLabel.
           let uri = redaction_uri redactionTargetUrn assertionLabel in
           Some (JObj [(''action'', JStr actionName), (''reason'', JStr ''c2pa.PII.present''),
                       (''description'', JStr ''GPS''), (''parameters'', JObj [(''redacted'', JStr uri)])], Some uri))
    else Some (JObj ([(''action'', JStr actionName)] @ opt_member ''parameters'' params
                 @ concat (map (\<lambda>key. opt_member key (map_option JStr (as_nonempty_str (obj_get entry key))))
                     [''description'', ''digitalSourceType''])), None))"

definition upload_actions :: "string \<Rightarrow> jsval list \<Rightarrow> jsval list \<times> string list" where
  "upload_actions redactionTargetUrn entries =
    (let outs = List.map_filter (native_action redactionTargetUrn) entries in
     (map fst outs, List.map_filter snd outs))"

text \<open>The data of the assertion as it is authored, and as it is signed: \<open>c2pa-rs\<close> puts the reader's own \<open>c2pa.opened\<close>
  before the entries.\<close>

definition upload_actions_data :: "jsval list \<Rightarrow> jsval" where
  "upload_actions_data actionsArray = JObj [(''actions'', JArr actionsArray), (''allActionsIncluded'', JBool True)]"

definition signed_actions_data :: "jsval \<Rightarrow> string \<Rightarrow> stage2_action list \<Rightarrow> jsval" where
  "signed_actions_data openedAction redactionTargetUrn as =
    upload_actions_data (openedAction # fst (upload_actions redactionTargetUrn (map action_json as)))"

definition stage2_name :: "stage2_action \<Rightarrow> string" where
  "stage2_name a =
    (case a of Orientation _ _ _ \<Rightarrow> ''c2pa.orientation'' | Resized_proportional _ _ \<Rightarrow> ''c2pa.resized.proportional''
     | Transcoded _ \<Rightarrow> ''c2pa.transcoded'' | Trimmed _ _ _ \<Rightarrow> ''c2pa.trimmed''
     | Edited_metadata _ \<Rightarrow> ''c2pa.edited.metadata'' | Redacted _ \<Rightarrow> ''c2pa.redacted'')"

text \<open>What is signed for an action: all the app gave except an empty description, and the address for a label.\<close>

definition redacted_label :: "stage2_action \<Rightarrow> string option" where
  "redacted_label a = (case a of Redacted l \<Rightarrow> Some l | _ \<Rightarrow> None)"

definition carried_faithfully :: "string \<Rightarrow> stage2_action \<Rightarrow> jsval \<Rightarrow> bool" where
  "carried_faithfully urn a v =
    (obj_get v ''action'' = JStr (stage2_name a) \<and> obj_get v ''related'' = JUndef
     \<and> opt_get (obj_get v ''parameters'') ''assertionLabel'' = JUndef
     \<and> (case redacted_label a of
          Some l \<Rightarrow> opt_get (obj_get v ''parameters'') ''redacted''
              = JStr (''self#jumbf=/c2pa/'' @ urn @ ''/c2pa.assertions/'' @ l)
            \<and> obj_get v ''reason'' = JStr ''c2pa.PII.present''
        | None \<Rightarrow> obj_get v ''parameters'' = obj_get (action_json a) ''parameters''
            \<and> obj_get v ''digitalSourceType'' = obj_get (action_json a) ''digitalSourceType''
            \<and> obj_get v ''description''
                = null_or (map_option JStr (as_nonempty_str (obj_get (action_json a) ''description''))) JUndef))"

lemma source_uri_not_Nil [simp]: "source_uri src \<noteq> []"
  by (cases src) simp_all

lemma native_action_carries:
  "case native_action urn (action_json a) of None \<Rightarrow> False
   | Some (v, r) \<Rightarrow> r = map_option (redaction_uri urn) (redacted_label a) \<and> is_object v \<and> carried_faithfully urn a v"
proof (cases a)
  case (Orientation src desc p)
  then show ?thesis
    by (cases p; cases desc) (auto simp: native_action_def dictionary_def opt_member_def redacted_label_def
        carried_faithfully_def stage2_name_def opt_get_def)
next
  case (Transcoded p)
  then show ?thesis
    by (cases p) (auto simp: native_action_def dictionary_def opt_member_def redacted_label_def
        carried_faithfully_def stage2_name_def opt_get_def split: option.splits)
qed (simp_all add: native_action_def Let_def dictionary_def opt_member_def redacted_label_def redaction_uri_def
        carried_faithfully_def stage2_name_def opt_get_def)

lemma upload_actions_carry:
  "list_all2 (\<lambda>a v. is_object v \<and> carried_faithfully urn a v) as (fst (upload_actions urn (map action_json as)))
   \<and> snd (upload_actions urn (map action_json as)) = map (redaction_uri urn) (List.map_filter redacted_label as)"
proof (induction as)
  case Nil
  then show ?case by (simp add: upload_actions_def)
next
  case (Cons a as)
  obtain v where "native_action urn (action_json a) = Some (v, map_option (redaction_uri urn) (redacted_label a))"
    "is_object v \<and> carried_faithfully urn a v"
    using native_action_carries[of urn a] by (auto split: option.splits)
  with Cons show ?case
    by (cases "redacted_label a") (simp_all add: upload_actions_def Let_def)
qed

lemma visit_upload_actions:
  assumes "is_object openedAction" "obj_get openedAction ''action'' = JStr ''c2pa.opened''"
    "obj_get openedAction ''related'' = JUndef"
  shows "map ae_action (visit_actions (obj_get (signed_actions_data openedAction urn as) ''actions'') 0)
    = ''c2pa.opened'' # map stage2_name as"
proof -
  have entry: "map ae_action (action_entry_of x) = [n]" if "obj_get x ''action'' = JStr n" "n \<noteq> []" for x n
    using that by (simp add: action_entry_of_def)
  let ?visit = "\<lambda>a. if is_object a then action_entry_of a
      @ (if 0 < RELATED_MAX_DEPTH then visit_actions (obj_get a ''related'') (Suc 0) else []) else []"
  have one: "map ae_action (?visit v) = [n]"
    if "is_object v" "obj_get v ''action'' = JStr n" "n \<noteq> []" "obj_get v ''related'' = JUndef" for v n
    using entry[OF that(2,3)] that(1,4) by simp
  have name: "stage2_name a \<noteq> []" for a by (cases a) (simp_all add: stage2_name_def)
  have "map ae_action (concat (map ?visit vs)) = map stage2_name as"
    if "list_all2 (\<lambda>a v. is_object v \<and> carried_faithfully urn a v) as vs" for vs
    using that
  proof (induction rule: list_all2_induct)
    case (Cons a as v vs)
    with one[of v "stage2_name a"] name[of a] show ?case by (simp add: carried_faithfully_def)
  qed simp
  from this[OF conjunct1[OF upload_actions_carry]] one[OF assms(1,2) _ assms(3)] show ?thesis
    by (subst visit_actions.simps) (simp add: signed_actions_data_def upload_actions_data_def)
qed

lemma stage2_name_allowed: "stage2_name a \<in> set REALREEL_UPLOAD_ALLOWED_ACTIONS"
  by (cases a) (simp_all add: stage2_name_def REALREEL_UPLOAD_ALLOWED_ACTIONS_def)

text \<open>C38. Whatever actions the module's types let an app declare reach the manifest and pass the verifier.  The
  native side authors one entry for each, in the app's order, of the same name, with the app's parameters and source
  type; a redaction carries the address of the assertion in the capture's manifest instead of the app's label, the
  manifest's redactions are these addresses, and no label is left in the assertion.  An upload whose one actions
  assertion is that one, after the opening action which the signing library puts first, is then read by the verifier as exactly
  these names, the opening first, and none of them is disallowed.\<close>

theorem expressible_actions_admitted:
  assumes "is_object openedAction" "obj_get openedAction ''action'' = JStr ''c2pa.opened''"
    "obj_get openedAction ''related'' = JUndef"
    and "filter (\<lambda>a. is_actions_label (chain a as_label)) (mf_assertions m)
      = [Some \<lparr>as_label = Some label, as_data = signed_actions_data openedAction urn as\<rparr>]"
  shows "list_all2 (carried_faithfully urn) as (fst (upload_actions urn (map action_json as)))
    \<and> snd (upload_actions urn (map action_json as))
        = map (\<lambda>l. ''self#jumbf=/c2pa/'' @ urn @ ''/c2pa.assertions/'' @ l) (List.map_filter redacted_label as)
    \<and> extractManifestActions m = ''c2pa.opened'' # map stage2_name as
    \<and> findDisallowedActions m REALREEL_UPLOAD_ALLOWED_ACTIONS = None"
proof -
  let ?data = "signed_actions_data openedAction urn as"
  have silent: "assertion_action_entries a = []" if "\<not> is_actions_label (chain a as_label)" for a
    using that by (auto simp: assertion_action_entries_def is_actions_label_def split: option.splits)
  have "concat (map assertion_action_entries l)
      = concat (map assertion_action_entries (filter (\<lambda>a. is_actions_label (chain a as_label)) l))" for l
    by (induction l) (simp_all add: silent)
  from this[of "mf_assertions m"] have "extractActionEntries m
      = assertion_action_entries (Some \<lparr>as_label = Some label, as_data = ?data\<rparr>)"
    by (simp add: extractActionEntries_def assms(4))
  moreover have "is_actions_label (Some label)"
  proof -
    have "Some \<lparr>as_label = Some label, as_data = ?data\<rparr>
      \<in> set (filter (\<lambda>a. is_actions_label (chain a as_label)) (mf_assertions m))" using assms(4) by simp
    then show ?thesis by simp
  qed
  moreover have "is_object ?data" by (simp add: signed_actions_data_def upload_actions_data_def)
  ultimately have "extractActionEntries m = visit_actions (obj_get ?data ''actions'') 0"
    by (auto simp: assertion_action_entries_def is_actions_label_def)
  then have names: "extractManifestActions m = ''c2pa.opened'' # map stage2_name as"
    by (simp add: extractManifestActions_def visit_upload_actions[OF assms(1-3)])
  moreover have "''c2pa.opened'' \<in> set REALREEL_UPLOAD_ALLOWED_ACTIONS"
    by (simp add: REALREEL_UPLOAD_ALLOWED_ACTIONS_def)
  ultimately have "findDisallowedActions m REALREEL_UPLOAD_ALLOWED_ACTIONS = None"
    by (auto simp: findDisallowedActions_None_iff stage2_name_allowed)
  moreover have "list_all2 (carried_faithfully urn) as (fst (upload_actions urn (map action_json as)))"
    using conjunct1[OF upload_actions_carry] by (rule list_all2_mono) simp
  moreover have "redaction_uri urn = (\<lambda>l. ''self#jumbf=/c2pa/'' @ urn @ ''/c2pa.assertions/'' @ l)"
    by (rule ext) (simp add: redaction_uri_def)
  ultimately show ?thesis using names conjunct2[OF upload_actions_carry[of urn as]] by (simp only: simp_thms)
qed

theorem expressible_actions_admitted_witness:
  "findDisallowedActions (blank_manifest\<lparr>mf_assertions :=
      [None, Some \<lparr>as_label = Some ''c2pa.actions.v2'',
        as_data = signed_actions_data (JObj [(''action'', JStr ''c2pa.opened'')]) ''urn:c2pa:1''
          [Orientation DIGITAL_SOURCE_TYPE_DIGITAL_CAPTURE None (Rotate Angle_90 True),
           Edited_metadata [''exif:GPSLatitude''], Redacted ''stds.exif'']\<rparr>]\<rparr>)
    REALREEL_UPLOAD_ALLOWED_ACTIONS = None"
  by (rule conjunct2[OF conjunct2[OF conjunct2[OF expressible_actions_admitted]]]) (simp_all add: is_actions_label_def)

end
