(* ===== verification/TsaAudit.thy ===== *)
theory TsaAudit
  imports RootAudit
begin

text \<open>
  The drift check of the vendored list of time-stamping authorities, \<open>verifier/scripts/audit-tsa-list.ts\<close>.  The
  X.509 parser, the digest, the file and the network are parameters.
\<close>

section \<open>Reading a bundle\<close>

text \<open>The text before and after the first occurrence.\<close>

fun split_at :: "string \<Rightarrow> string \<Rightarrow> (string \<times> string) option" where
  "split_at p [] = (if p = [] then Some ([], []) else None)"
| "split_at p (c # cs) =
     (if starts_with p (c # cs) then Some ([], drop (length p) (c # cs))
      else map_option (\<lambda>(a, b). (c # a, b)) (split_at p cs))"

lemma split_at_shorter: "split_at p s = Some (a, b) \<Longrightarrow> p \<noteq> [] \<Longrightarrow> length b < length s"
  by (induction s arbitrary: a b) (auto split: if_splits)

lemma cert_markers [simp]: "CERT_BEGIN \<noteq> []" "CERT_END \<noteq> []"
  by (simp_all add: CERT_BEGIN_def CERT_END_def)

text \<open>\<open>match(/BEGIN[\s\S]+?END/g)\<close>: at least one character between the markers.\<close>

function pem_blocks :: "string \<Rightarrow> string list" where
  "pem_blocks s =
    (case split_at CERT_BEGIN s of
       Some (_, c # r) \<Rightarrow>
         (case split_at CERT_END r of
            Some (b, r') \<Rightarrow> (CERT_BEGIN @ c # b @ CERT_END) # pem_blocks r'
          | None \<Rightarrow> [])
     | _ \<Rightarrow> [])"
  by pat_completeness auto
termination
  by (relation "measure length") (auto dest!: split_at_shorter)

function count_matches :: "string \<Rightarrow> string \<Rightarrow> nat" where
  "count_matches p s =
    (if p = [] then 0 else (case split_at p s of None \<Rightarrow> 0 | Some (_, r) \<Rightarrow> Suc (count_matches p r)))"
  by pat_completeness auto
termination
  by (relation "measure (\<lambda>(p, s). length s)") (auto dest!: split_at_shorter)

declare pem_blocks.simps [simp del] count_matches.simps [simp del]

record x509_cert =
  xc_raw :: bytes
  xc_subject :: string
  xc_issuer :: string
  xc_validTo :: int

record tsa_cert =
  tc_sha256 :: string
  tc_subjectCn :: string
  tc_issuerCn :: string
  tc_notAfter :: int

text \<open>\<open>dn.match(/^CN=(.+)$/m)?.[1] ?? dn.replace(/\n/g, ", ")\<close>.\<close>

fun cn_line :: "bool \<Rightarrow> string \<Rightarrow> string option" where
  "cn_line lineStart [] = None"
| "cn_line lineStart (c # cs) =
     (let v = takeWhile (\<lambda>x. \<not> end_of_line x) (drop 3 (c # cs)) in
      if lineStart \<and> starts_with ''CN='' (c # cs) \<and> v \<noteq> [] then Some v else cn_line (end_of_line c) cs)"

definition commonName :: "string \<Rightarrow> string" where
  "commonName dn =
    null_or (cn_line True dn) (concat (map (\<lambda>c. if c = CHR 0x0A then '', '' else [c]) dn))"

definition tsa_cert_of :: "(bytes \<Rightarrow> bytes) \<Rightarrow> x509_cert \<Rightarrow> tsa_cert" where
  "tsa_cert_of sha cert =
    \<lparr>tc_sha256 = bytesToHex (sha (xc_raw cert)), tc_subjectCn = commonName (xc_subject cert),
     tc_issuerCn = commonName (xc_issuer cert), tc_notAfter = xc_validTo cert\<rparr>"

definition parseBundle :: "(string \<Rightarrow> string + x509_cert) \<Rightarrow> (bytes \<Rightarrow> bytes) \<Rightarrow> string \<Rightarrow> string + tsa_cert list" where
  "parseBundle readCert sha pem =
    (let blocks = pem_blocks pem in
     bindR (guardR (count_matches CERT_BEGIN pem = length blocks) ''truncated or malformed PEM block'') (\<lambda>_.
     mapR (\<lambda>block. bindR (readCert block) (\<lambda>cert. Inr (tsa_cert_of sha cert))) blocks))"

section \<open>The audit\<close>

definition VENDORED_PATH :: string where
  "VENDORED_PATH = ''trust-sources/c2pa-tsa/c2pa-tsa-trust-list.pem''"

definition UPSTREAM_URL :: string where
  "UPSTREAM_URL = ''https://raw.githubusercontent.com/c2pa-org/conformance-public/main/trust-list/C2PA-TSA-TRUST-LIST.pem''"

definition tsa_row :: "tsa_cert \<Rightarrow> string" where
  "tsa_row c = ''  '' @ tc_subjectCn c @ '' (issuer: '' @ tc_issuerCn c @ '', until '' @ take 10 (iso_string (tc_notAfter c))
     @ '') sha256='' @ tc_sha256 c"

definition tsa_fetchUpstream :: "(nat \<Rightarrow> string http_answer) \<Rightarrow> string + string" where
  "tsa_fetchUpstream answers =
    (case attempts_from (\<lambda>k. answer_body (answers k)) 3 1 of
       Inr b \<Rightarrow> Inr b | Inl e \<Rightarrow> Inl (''upstream unreachable after 3 attempts: '' @ e))"

definition read_list ::
  "(string \<Rightarrow> string + x509_cert) \<Rightarrow> (bytes \<Rightarrow> bytes) \<Rightarrow> string \<Rightarrow> string + string \<Rightarrow> string + string \<times> tsa_cert list"
where
  "read_list readCert sha emptyText source =
    bindR source (\<lambda>b. bindR (parseBundle readCert sha b) (\<lambda>certs.
      bindR (guardR (certs \<noteq> []) emptyText) (\<lambda>_. Inr (b, certs))))"

definition not_in :: "tsa_cert list \<Rightarrow> tsa_cert list \<Rightarrow> tsa_cert list" where
  "not_in others certs = filter (\<lambda>c. tc_sha256 c \<notin> tc_sha256 ` set others) certs"

definition drift_report :: "tsa_cert list \<Rightarrow> tsa_cert list \<Rightarrow> string list" where
  "drift_report vendored upstream =
    (let removed = not_in upstream vendored; added = not_in vendored upstream in
     [''Vendored: '' @ show_nat (length vendored) @ '' certificates. Upstream: '' @ show_nat (length upstream) @ ''.'', '''']
     @ (if removed \<noteq> []
        then (''REMOVED upstream, still trusted here ('' @ show_nat (length removed) @ '') '' @ em_dash @ '' refresh promptly:'')
             # map tsa_row removed @ [''''] else [])
     @ (if added \<noteq> []
        then (''ADDED upstream, not yet trusted here ('' @ show_nat (length added) @ '') '' @ em_dash
                @ '' their timestamps don'' @ [CHR 0x27] @ ''t validate as trusted until the refresh:'')
             # map tsa_row added @ [''''] else [])
     @ (if removed = [] \<and> added = [] then [''Same certificates; only annotations or ordering changed upstream.'', ''''] else [])
     @ [''DRIFT: refresh '' @ VENDORED_PATH @ '' from upstream; see verifier/OPERATIONS.md '' @ [CHR 0xC2, CHR 0xA7]
          @ '' TSA trust-list refresh.''])"

definition auditTsaList ::
  "(string \<Rightarrow> string + x509_cert) \<Rightarrow> (bytes \<Rightarrow> bytes) \<Rightarrow> string + string \<Rightarrow> string + string \<Rightarrow> nat \<times> string list"
where
  "auditTsaList readCert sha readVendored fetchUpstream =
    (let heading = [''C2PA TSA Trust List drift check'', ''Upstream: '' @ UPSTREAM_URL, ''''] in
     (case read_list readCert sha ''no certificates found'' readVendored of
        Inl e \<Rightarrow> (2, heading @ [''ERROR: cannot read '' @ VENDORED_PATH @ '': '' @ e])
      | Inr (vendoredBytes, vendored) \<Rightarrow>
          (case read_list readCert sha ''no certificates in the upstream response'' fetchUpstream of
             Inl e \<Rightarrow> (4, heading @ [''BLIND: the drift check could not run: '' @ e,
                              ''Until this is fixed, a change to the C2PA TSA list goes unnoticed.''])
           | Inr (upstreamBytes, upstream) \<Rightarrow>
               if vendoredBytes = upstreamBytes
               then (0, heading @ [''OK: '' @ VENDORED_PATH @ '' is byte-identical to upstream ('' @ show_nat (length vendored)
                         @ '' certificates).''])
               else (3, heading @ drift_report vendored upstream))))"

definition tsa_audit_main ::
  "(string \<Rightarrow> string + x509_cert) \<Rightarrow> (bytes \<Rightarrow> bytes) \<Rightarrow> string + string \<Rightarrow> (nat \<Rightarrow> string http_answer) \<Rightarrow> nat \<times> string"
where
  "tsa_audit_main readCert sha vendoredFile answers =
    (case auditTsaList readCert sha vendoredFile (tsa_fetchUpstream answers) of
       (exitCode, ls) \<Rightarrow> (exitCode, join_with [CHR 0x0A] ls))"

section \<open>A published bundle is read whole or not at all\<close>

text \<open>The list as its publisher writes it: annotations and blocks of base64 lines in turn.\<close>

definition armored :: "string \<Rightarrow> string" where
  "armored body = CERT_BEGIN @ body @ CERT_END"

definition bundle_text :: "(string \<times> string) list \<Rightarrow> string" where
  "bundle_text xs = concat (map (\<lambda>(ann, body). ann @ armored body @ [CHR 0x0A]) xs)"

definition plain_note :: "string \<Rightarrow> bool" where
  "plain_note s = (\<not> includes_str ''--'' s \<and> (s = [] \<or> last s \<noteq> CHR ''-''))"

definition plain_body :: "string \<Rightarrow> bool" where
  "plain_body s = (s \<noteq> [] \<and> CHR ''-'' \<notin> set s)"

definition plain_bundle :: "(string \<times> string) list \<Rightarrow> bool" where
  "plain_bundle xs = list_all (\<lambda>(ann, body). plain_note ann \<and> plain_body body) xs"

text \<open>\<open>clear s\<close>: no begin marker starts inside \<open>s\<close>, whatever follows.\<close>

primrec clear :: "string \<Rightarrow> bool" where
  "clear [] = True"
| "clear (c # s) = ((\<forall>u. \<not> starts_with CERT_BEGIN (c # s @ u)) \<and> clear s)"

lemma clear_append [intro]: "clear a \<Longrightarrow> clear b \<Longrightarrow> clear (a @ b)"
  by (induction a) simp_all

lemma clear_no_dash: "CHR ''-'' \<notin> set s \<Longrightarrow> clear s"
  by (induction s) (auto simp: CERT_BEGIN_def)

lemma clear_end: "clear (CERT_END @ [CHR 0x0A])"
  by (simp add: CERT_END_def CERT_BEGIN_def)

lemma plain_note_Cons: "plain_note (c # s) \<Longrightarrow> plain_note s"
  by (auto simp: plain_note_def)

lemma clear_note: "plain_note s \<Longrightarrow> clear s"
proof (induction s)
  case (Cons c s)
  have "\<not> starts_with CERT_BEGIN (c # s @ u)" for u
    using Cons.prems by (cases s) (auto simp: plain_note_def CERT_BEGIN_def)
  then show ?case using Cons plain_note_Cons by auto
qed simp

lemma split_at_marker: "clear s \<Longrightarrow> split_at CERT_BEGIN (s @ CERT_BEGIN @ r) = Some (s, r)"
proof (induction s)
  case Nil
  then show ?case by (simp add: CERT_BEGIN_def)
qed (simp del: append_assoc)

lemma split_at_no_marker: "clear s \<Longrightarrow> split_at CERT_BEGIN s = None"
proof (induction s)
  case (Cons c s)
  then have "\<not> starts_with CERT_BEGIN (c # s @ [])" by (simp only: clear.simps) blast
  with Cons show ?case by simp
qed simp

lemma split_at_end:
  assumes "CHR ''-'' \<notin> set b"
  shows "split_at CERT_END (b @ CERT_END @ r) = Some (b, r)"
  using assms
proof (induction b)
  case Nil
  then show ?case by (simp add: CERT_END_def)
next
  case (Cons c b)
  then have "\<not> starts_with CERT_END (c # b @ CERT_END @ r)" by (auto simp: CERT_END_def)
  with Cons show ?case by simp
qed

lemma split_at_short: "length s < length p \<Longrightarrow> split_at p s = None"
proof (induction s)
  case (Cons c s)
  then have "\<not> starts_with p (c # s)" by (auto simp: starts_with_prefix dest: prefix_length_le)
  with Cons show ?case by simp
qed auto

text \<open>A cut block: some of its body and, when that is complete, some of its end marker.\<close>

definition cut_block :: "string \<Rightarrow> bool" where
  "cut_block s = (\<exists>b n. s = b @ take n CERT_END \<and> CHR ''-'' \<notin> set b \<and> n < length CERT_END)"

lemma split_at_cut:
  assumes "CHR ''-'' \<notin> set b" "n < length CERT_END" "p = CERT_BEGIN \<or> p = CERT_END"
  shows "split_at p (b @ take n CERT_END) = None"
  using assms(1)
proof (induction b)
  case Nil
  then show ?case
    using assms(2,3) by (intro split_at_short) (auto simp: CERT_END_def CERT_BEGIN_def)
next
  case (Cons c b)
  then have "\<not> starts_with p (c # b @ take n CERT_END)" using assms(3) by (auto simp: CERT_END_def CERT_BEGIN_def)
  with Cons show ?case by simp
qed

lemma cut_block_tail: "cut_block (c # r) \<Longrightarrow> split_at CERT_END r = None"
proof -
  assume "cut_block (c # r)"
  then obtain b n where b: "c # r = b @ take n CERT_END" "CHR ''-'' \<notin> set b" "n < length CERT_END"
    by (auto simp: cut_block_def)
  show ?thesis
  proof (cases b)
    case Nil
    then have "Suc (length r) = length (take n CERT_END)" using b(1) by (metis append_Nil length_Cons)
    then have "length r < length CERT_END" by simp
    then show ?thesis by (rule split_at_short)
  next
    case (Cons d b')
    then have "r = b' @ take n CERT_END" using b(1) by simp
    then show ?thesis using split_at_cut[of b' n CERT_END] b(2,3) Cons by simp
  qed
qed

lemma cut_block_counts:
  assumes "clear s" "cut_block t"
  shows "pem_blocks (s @ CERT_BEGIN @ t) = []" "count_matches CERT_BEGIN (s @ CERT_BEGIN @ t) = 1"
proof -
  show "pem_blocks (s @ CERT_BEGIN @ t) = []"
    using assms by (cases t) (use split_at_marker[OF assms(1), of "[]"] in \<open>auto simp: pem_blocks.simps[of "s @ _"] split_at_marker cut_block_tail\<close>)
  have "split_at CERT_BEGIN t = None" using assms(2) split_at_cut by (auto simp: cut_block_def)
  then show "count_matches CERT_BEGIN (s @ CERT_BEGIN @ t) = 1"
    using assms(1) by (simp add: count_matches.simps[of _ "s @ _"] split_at_marker count_matches.simps[of _ t])
qed

lemma clear_counts: "clear s \<Longrightarrow> pem_blocks s = [] \<and> count_matches CERT_BEGIN s = 0"
  by (simp add: pem_blocks.simps[of s] count_matches.simps[of _ s] split_at_no_marker)

text \<open>Reading on past whole blocks.\<close>

lemma bundle_counts:
  assumes tail: "\<And>s'. clear s' \<Longrightarrow> pem_blocks (s' @ t) = bl \<and> count_matches CERT_BEGIN (s' @ t) = k"
    and "plain_bundle xs" "clear s"
  shows "pem_blocks (s @ bundle_text xs @ t) = map (armored \<circ> snd) xs @ bl
    \<and> count_matches CERT_BEGIN (s @ bundle_text xs @ t) = length xs + k"
  using assms(2,3)
proof (induction xs arbitrary: s)
  case Nil
  then show ?case using tail by (simp add: bundle_text_def)
next
  case (Cons x xs)
  obtain ann body where x: "x = (ann, body)" by fastforce
  have p: "plain_note ann" "plain_body body" "plain_bundle xs" using Cons.prems(1) by (simp_all add: plain_bundle_def x)
  obtain c b where b: "body = c # b" "CHR ''-'' \<notin> set b" "CHR ''-'' \<notin> set body"
    using p(2) by (cases body) (auto simp: plain_body_def)
  let ?u = "bundle_text xs @ t" and ?nl = "[CHR 0x0A]"
  have whole: "s @ bundle_text (x # xs) @ t = (s @ ann) @ CERT_BEGIN @ body @ CERT_END @ ?nl @ ?u"
    by (simp add: bundle_text_def x armored_def)
  have s: "clear (s @ ann)" using Cons.prems(2) clear_note[OF p(1)] by blast
  have e: "clear (body @ CERT_END @ ?nl)" using clear_no_dash[OF b(3)] clear_end by blast
  have nl: "clear ?nl" by (rule clear_no_dash) simp
  have "pem_blocks (s @ bundle_text (x # xs) @ t) = armored body # pem_blocks (?nl @ ?u)"
    using split_at_marker[OF s, of "body @ CERT_END @ ?nl @ ?u"] split_at_end[OF b(2), of "?nl @ ?u"]
    unfolding whole by (subst pem_blocks.simps) (simp add: b(1) armored_def)
  moreover have "count_matches CERT_BEGIN (s @ bundle_text (x # xs) @ t)
      = Suc (count_matches CERT_BEGIN ((body @ CERT_END @ ?nl) @ ?u))"
    using split_at_marker[OF s, of "body @ CERT_END @ ?nl @ ?u"]
    unfolding whole by (subst count_matches.simps) simp
  ultimately show ?case using Cons.IH[OF p(3) nl] Cons.IH[OF p(3) e] by (simp add: x)
qed

lemma mapR_all: "(\<And>x. x \<in> set xs \<Longrightarrow> f x = Inr (g x)) \<Longrightarrow> mapR f xs = Inr (map g xs)"
  by (induction xs) simp_all

lemma bundle_parsed:
  assumes "plain_bundle xs" "plain_note ann"
    and "\<And>b. b \<in> set (map snd xs) \<Longrightarrow> readCert (armored b) = Inr (cert b)"
  shows "parseBundle readCert sha (bundle_text xs @ ann) = Inr (map (\<lambda>(_, b). tsa_cert_of sha (cert b)) xs)"
proof -
  have "clear (s' @ ann)" if "clear s'" for s' using that clear_note[OF assms(2)] by blast
  then have "pem_blocks (s' @ ann) = [] \<and> count_matches CERT_BEGIN (s' @ ann) = 0" if "clear s'" for s'
    using that clear_counts by blast
  from bundle_counts[where s = "[]" and t = ann, OF this assms(1)]
  have "pem_blocks (bundle_text xs @ ann) = map (armored \<circ> snd) xs" "count_matches CERT_BEGIN (bundle_text xs @ ann) = length xs"
    by simp_all
  moreover have "mapR (\<lambda>block. bindR (readCert block) (\<lambda>cert. Inr (tsa_cert_of sha cert))) (map (armored \<circ> snd) ys)
      = Inr (map (tsa_cert_of sha \<circ> cert \<circ> snd) ys)" if "set ys \<subseteq> set xs" for ys
    using that by (induction ys) (simp_all add: assms(3))
  ultimately show ?thesis
    by (simp add: parseBundle_def Let_def guardR_def comp_def case_prod_unfold)
qed

lemma bundle_cut:
  assumes "plain_bundle xs" "plain_note ann" "cut_block rest"
  shows "parseBundle readCert sha (bundle_text xs @ ann @ CERT_BEGIN @ rest) = Inl ''truncated or malformed PEM block''"
proof -
  have "clear (s' @ ann)" if "clear s'" for s' using that clear_note[OF assms(2)] by blast
  then have "pem_blocks (s' @ ann @ CERT_BEGIN @ rest) = [] \<and> count_matches CERT_BEGIN (s' @ ann @ CERT_BEGIN @ rest) = 1"
    if "clear s'" for s'
    using cut_block_counts[of "s' @ ann" rest] assms(3) that by simp
  from bundle_counts[where s = "[]" and t = "ann @ CERT_BEGIN @ rest", OF this assms(1)] show ?thesis
    by (simp add: parseBundle_def Let_def guardR_def)
qed

text \<open>A bundle is read whole or not at all: of a list in the published form, annotations between the blocks,
  every certificate is read in its order; and of one whose last block is cut short, anywhere after its begin
  marker, nothing is, so that the audit reports that it could not run and never that certificates were
  removed.\<close>

lemma bundle_read_whole:
  assumes "plain_bundle xs" "plain_note ann"
    and "\<And>b. b \<in> set (map snd xs) \<Longrightarrow> readCert (armored b) = Inr (cert b)"
  shows "parseBundle readCert sha (bundle_text xs @ ann) = Inr (map (\<lambda>(_, b). tsa_cert_of sha (cert b)) xs)
    \<and> (cut_block rest \<longrightarrow>
         (\<forall>vendored certs e. read_list readCert sha e (Inr vendored) = Inr (vendored, certs) \<longrightarrow>
            fst (auditTsaList readCert sha (Inr vendored) (Inr (bundle_text xs @ ann @ CERT_BEGIN @ rest))) = 4))"
proof (intro conjI impI allI)
  fix vendored certs e
  assume "cut_block rest" and v: "read_list readCert sha e (Inr vendored) = Inr (vendored, certs)"
  moreover have "read_list readCert sha ''no certificates found'' (Inr vendored) = Inr (vendored, certs)"
    using v by (simp add: read_list_def guardR_def split: if_splits)
  ultimately show "fst (auditTsaList readCert sha (Inr vendored) (Inr (bundle_text xs @ ann @ CERT_BEGIN @ rest))) = 4"
    using bundle_cut[OF assms(1,2)] by (simp add: auditTsaList_def read_list_def[of _ _ "''no certificates in the upstream response''"] Let_def)
qed (rule bundle_parsed[where cert = cert and readCert = readCert, OF assms])

section \<open>An instance\<close>

definition ex_x509 :: "string \<Rightarrow> string + x509_cert" where
  "ex_x509 block = Inr \<lparr>xc_raw = map (\<lambda>c. of_nat (of_char c)) (take 2 (drop 28 block)), xc_subject = ''C=US'' @ [CHR 0x0A] @ ''CN=Stamp'',
     xc_issuer = ''O=Nobody'', xc_validTo = 1893456000000\<rparr>"

lemma ex_tsa_drift:
  "fst (tsa_audit_main ex_x509 (\<lambda>b. b) (Inr (bundle_text [(''Subject CN=Stamp'' @ [CHR 0x0A], ''ABC'')]))
     (\<lambda>k. if k = 1 then No_answer ''reset'' else Http_answer 200 (Inr (bundle_text [([], ''ABC''), ([], ''DEF'')])))) = 3"
  by code_simp

theorem bundle_read_whole_witness:
  "parseBundle ex_x509 (\<lambda>b. b) (bundle_text [(''Subject CN=Stamp'' @ [CHR 0x0A], ''ABC''), ([], ''DEF'')] @ [])
     = Inr (map (\<lambda>(_, b). tsa_cert_of (\<lambda>b. b) (projr (ex_x509 (armored b)))) [(''Subject CN=Stamp'' @ [CHR 0x0A], ''ABC''), ([], ''DEF'')])
   \<and> fst (auditTsaList ex_x509 (\<lambda>b. b) (Inr (bundle_text [([], ''ABC'')]))
        (Inr (bundle_text [(''Subject CN=Stamp'' @ [CHR 0x0A], ''ABC''), ([], ''DEF'')] @ [] @ CERT_BEGIN @ ''GH''))) = 4"
proof -
  let ?xs = "[(''Subject CN=Stamp'' @ [CHR 0x0A], ''ABC''), ([], ''DEF'')]"
  have p: "plain_bundle ?xs" "plain_note []" by code_simp+
  have x: "ex_x509 (armored b) = Inr (projr (ex_x509 (armored b)))" for b by (simp add: ex_x509_def)
  have c: "cut_block ''GH''"
    unfolding cut_block_def by (intro exI[of _ "''GH''"] exI[of _ 0]) (simp add: CERT_END_def)
  obtain certs where "read_list ex_x509 (\<lambda>b. b) [] (Inr (bundle_text [([], ''ABC'')])) = Inr (bundle_text [([], ''ABC'')], certs)"
  proof -
    have "fst (projr (read_list ex_x509 (\<lambda>b. b) [] (Inr (bundle_text [([], ''ABC'')])))) = bundle_text [([], ''ABC'')]
        \<and> \<not> isl (read_list ex_x509 (\<lambda>b. b) [] (Inr (bundle_text [([], ''ABC'')])))" by code_simp
    then show ?thesis using that by (metis prod.collapse sum.collapse(2))
  qed
  then show ?thesis
    using bundle_read_whole[OF p, where readCert = ex_x509 and cert = "\<lambda>b. projr (ex_x509 (armored b))" and sha = "\<lambda>b. b" and rest = "''GH''", OF x]
      c by blast
qed

end
