(* ===== verification/Spec2Isabelle.thy ===== *)
theory Spec2Isabelle
  imports Examples OcspWorker PinnedRoots Telemetry NativePlugin ChainLog TrustLoader Uri EcdsaFallback EnrollmentExample OcspExample ServerExample PkiRouter
    CeremonyExample CrjsonExample NativeModule TsaAudit
begin

text \<open>
  \<^bold>\<open>What this development verifies.\<close>  realreel-c2pa decides whether a photo or video with C2PA content
  credentials may be published, and runs the certificate authority whose keys sign those credentials.
  The development models the TypeScript of both sides: the shared policies (\<open>trust-core/src\<close>), the upload
  verifier with its HTTP service (\<open>verifier/src\<close>), the edge functions of the CA (\<open>ca/\<close>), the status
  service (\<open>ocsp/\<close>, \<open>ocsp-leaf/\<close>) and the certificate repository (\<open>pki/\<close>).  Every definition is a translation
  of the source it is named after, with the source's conditions in the source's order.

  \<^bold>\<open>How the parts interact.\<close>  A device enrolls a key: the edge function \<open>register-signing-key\<close> checks the
  session, the platform attestation and a challenge it burns, issues a leaf certificate through Cloud
  KMS and records it in a ledger of signing keys.  The device signs a capture and later an upload
  manifest that wraps it.  The verifier reads the upload offline with the C2PA reader, applies the
  trust-core policies, looks the signing keys up in the ledger, proves the attestation on the upload
  and burns its challenge, and derives what is published.  Revocations reach it through the ledger and,
  where network revocation is on, through the status service, which answers for the intermediate from
  responses that the refresh tool pre-signs daily, and for leaves from the ledger.

  \<^bold>\<open>Vocabulary\<close> (no component of their own):
  \<^item> \<open>Prelude\<close>: the result type (\<open>Inl\<close> what was thrown, \<open>Inr\<close> the value), binding, guards, JavaScript list and
    string operations.  \<open>Utf16\<close>: the code units JavaScript counts.  \<open>Codec\<close>, \<open>Uri\<close>: base64 in both alphabets,
    hex, percent encoding, behind the locale \<open>codec\<close> (a decoder that reads what the encoder writes) and its
    extension \<open>codec_chain\<close>, interpreted for each pair.  \<open>Dates\<close>: \<open>toISOString\<close> over the Gregorian calendar, whose two
    conversions are shown to agree.
  \<^item> \<open>Json\<close>, \<open>JsonParse\<close>, \<open>JsonRoundTrip\<close>: parsed JSON values, \<open>JSON.stringify\<close>, \<open>JSON.parse\<close> and the proof that
    parsing inverts printing.  \<open>Asn1\<close>: the nodes and certificates the CA walks.  \<open>CaCommon\<close>: requests,
    responses and PEM text.

  \<^bold>\<open>trust-core.\<close>  \<open>Manifest\<close> (\<open>shapes/manifest.ts\<close>) and \<open>Errors\<close> (\<open>errors/codes.ts\<close>) are the data; \<open>Actions\<close>,
  \<open>GenerativeAi\<close>, \<open>Structure\<close>, \<open>Binding\<close>, \<open>RecordedResults\<close> and \<open>ContentHash\<close> are the policies of the files of the
  same name, each with a theorem that says exactly what it accepts (for walks: against an inductive
  relation of what is reachable); \<open>TrustIssuers\<close> is the curated table.

  \<^bold>\<open>The verifier.\<close>  \<open>Dispatcher\<close> and \<open>TrustLoader\<close> (\<open>trust/\<close>): which source an identity belongs to, and that a
  configuration that loads is well-formed.  \<open>ProfileGates\<close> (\<open>profiles/_shared.ts\<close>): the classifier of the
  reader's findings against its specification, the walk past update manifests.  \<open>CertValidity\<close>,
  \<open>Sanitize\<close>, \<open>DeriveMetadata\<close>: the files of these names (\<open>DeriveMetadata\<close> also holds \<open>location-privacy.ts\<close>).
  \<open>Ports\<close> is the datastore as an argument, with \<open>AppAttest\<close> and \<open>PlayIntegrity\<close> the two validators that burn
  challenges in it.  \<open>RealReel\<close> is the profile, \<open>VerifyFlow\<close> the orchestrator \<open>verify.ts\<close>; both pass the state
  of the datastore explicitly, so that the order of effects and checks is visible.  \<open>VerifierConfig\<close> and
  \<open>VerifierServer\<close> are the environment (\<open>config.ts\<close>) and the HTTP service (\<open>server.ts\<close>), \<open>Examples\<close> and
  \<open>ServerExample\<close> concrete instances evaluated by the kernel.

  \<^bold>\<open>The CA.\<close>  \<open>CaAuth\<close>, \<open>CaConfig\<close>, \<open>RateLimit\<close> and \<open>Kms\<close> are \<open>ca/_shared\<close>; \<open>AndroidRevocation\<close>,
  \<open>AndroidAttestation\<close>, \<open>AppleEnrollment\<close>, \<open>EcdsaFallback\<close> and \<open>LeafIssuance\<close> are \<open>ca/_shared/attestation\<close>;
  \<open>EdgeFunctions\<close> holds the small endpoints and \<open>Enrollment\<close> the whole of \<open>register-signing-key\<close>, with an
  instance in \<open>EnrollmentExample\<close>.  \<open>PinnedRoots\<close> is the self-check of \<open>roots.ts\<close> when it is loaded, \<open>ChainLog\<close> the one-line
  description of a refused chain (\<open>pki.ts\<close>), which no certificate can break into two.  The rate limiter is shown to
  count as plain counters do, with other requests counting between and during its calls; a call that finds no store,
  on Supabase every call, passes uncounted.  The locale \<open>ca_handler\<close> states what all four endpoints share (no effect
  without clearance); each endpoint interprets it.

  \<^bold>\<open>Status and repository.\<close>  \<open>Ocsp\<close> is the worker (\<open>ocsp/ocsp.ts\<close>, \<open>ocsp/router.ts\<close>), \<open>OcspLeaf\<close> the live responder
  with its cache and metadata token (\<open>ocsp-leaf/\<close>), \<open>OcspWorker\<close> the worker's entry point (\<open>ocsp/index.ts\<close>) and the two
  services joined by their relay secret, \<open>OcspRefresh\<close> the operator tools
  (\<open>ocsp/refresh-ops.ts\<close>, \<open>ocsp/build-ocsp-responses.ts\<close>), \<open>OcspPublication\<close> the two together,
  \<open>OcspExample\<close> the instances, \<open>PkiRouter\<close> the host of the certificates (\<open>pki/router.ts\<close>).

  \<^bold>\<open>Certificate ceremony.\<close>  \<open>Ceremony\<close> is the operator tool that makes the CA certificates
  (\<open>ca/tools/build-ca-certs.ts\<close>): the profile table and its lint against the certificate policy, the template,
  the review, the signature through Cloud KMS and the self-check, as a computation that records every visible
  effect in order (\<open>Trace\<close>).  Its theorems speak of that record: what is signed was displayed and
  approved, what is written was verified, and an approved run completes.  \<open>CeremonyExample\<close> runs it.

  \<^bold>\<open>Conformance harness.\<close>  \<open>CrjsonHarness\<close> is \<open>verifier/src/harness\<close>: the settings and the instant given to the
  external validator (what the settings trust is read back from them, the instant from its text), the order of keys in
  the emitted report, and the cross-check against the verifier's own
  engine, shown to implement agreement on the bags of results, as long as these can be joined to lines unambiguously; \<open>CrjsonExample\<close> runs it.

  \<^bold>\<open>Audits.\<close>  Three scheduled checks: \<open>AnchorAudit\<close> (\<open>verifier/scripts/audit-trust-anchors.ts\<close>: expiry of anchors and
  operational certificates), \<open>RootAudit\<close> (\<open>ca/scripts/audit-attestation-roots.ts\<close>: expiry of the pinned roots and drift
  from the published set, with the retry loop both fetchers share) and \<open>TsaAudit\<close>
  (\<open>verifier/scripts/audit-tsa-list.ts\<close>: the vendored list against its upstream).  Their theorems say when each is green,
  that no finding masks another, and that a cut list is never read as a removal.

  \<^bold>\<open>Reporting and storage.\<close>  \<open>Telemetry\<close> is \<open>ca/_shared/sentry.ts\<close>, \<open>verifier/src/observability.ts\<close> and the reports of the
  error handler - the SDK is loaded at most once, no event is lost, a rejection is never filed as a fault - and the
  Postgres adapter of \<open>verifier/src/db.ts\<close> around its SQL functions.

  \<^bold>\<open>Capture module.\<close>  \<open>NativeModule\<close> is the TypeScript surface of the native module (\<open>native/src/index.ts\<close>,
  \<open>mediaPath.ts\<close>): media paths are read back from their URIs, and what its types can declare is authored as
  declared, redactions rewritten (\<open>buildUploadManifestJSON\<close> of \<open>native/ios/PhotoAttestModule.swift\<close>), and the verifier's
  action policy admits it.  That \<open>c2pa-rs\<close> puts its own opening action first is the documented behaviour relied on.  \<open>NativePlugin\<close> is its build plugin (\<open>native/plugin/src/index.ts\<close>): what the version file can put
  into the Podfile, and that a second run changes nothing.

  \<^bold>\<open>What this theory adds.\<close>  The properties that span the verifier: what an accepted upload went through
  (\<open>verify_sound\<close>) and that this suffices (\<open>verify_complete\<close>), that it cannot be replayed, that nothing is spent before
  the gates of the profile have passed and which later ones can still refuse, what is published of it, what network revocation guarantees, and, from the environment
  through the server to the ledger, that one challenge pays for one publication.

  \<^bold>\<open>Bounds and fuel.\<close>  The bounds are the code's: four update manifests, four levels of nested actions,
  sixteen references of the generative-AI walk, four attempts of the rate limiter, ten attempts of the
  live check, three attempts of the audits' fetches.  The only fuel of the model's own is that of \<open>json_parse\<close>, twice the length of the text and
  one; the round-trip theorem shows it enough for everything the code prints.

  \<^bold>\<open>Parameters.\<close>  What is not in the repository is an argument: digests, ECDSA and RSA, the certificate
  chain engine, ASN.1 and CBOR decoding, exifr and ffprobe, the C2PA reader, the YAML parser, URL parsing
  and regular-expression compilation, \<open>Date.parse\<close> and \<open>toFixed\<close>, the Google and Supabase services, stored
  procedures and all network answers.  Hypotheses about them state documented behaviour (a datastore
  burns a challenge once, a codec reads back what it writes) and are instantiated in the example
  theories.

  \<^bold>\<open>Limits of the model.\<close>  Strings are UTF-8 bytes, so limits count bytes unless the code's own unit matters
  (\<open>Utf16\<close>: TSA names, device labels, key ids, certificate requests), and the sort order can differ from
  JavaScript's where an astral character meets one from U+E000 on.  Case folding and trimming are ASCII.
  Inherited prototype keys and the order of integer-like keys are left out.  Numbers are exact decimals
  or unbounded integers instead of doubles.  Absent and null optional strings coincide.  Texts of start-up
  errors are abbreviated, those that only reach a log left out, as are the telemetry events of the handlers other than the
  error handler's.  Node's base64 decoder
  skips what is no alphabet character.  An uncaught exception of a handler is a 500.  Calls of the
  caches and loaders do not interleave; one clock reading serves a request (three in the leaf responder).
  A request that times out exactly at the limit counts as timed out.  Milliseconds of a leaf response's
  validity are rounded down.  The casts of parsed reports to their declared types are decoders that fail
  where the source would go on to a TypeError.  A line break in a path is a line feed or a carriage return.

  \<^bold>\<open>Not modelled.\<close>  The native side of the capture module (Swift, Kotlin and Rust) but for the actions of an upload, the lookup of the module, the
  generated table of trust anchors and the PEM texts of the pinned roots (constants), the SQL behind the datastore
  adapter, re-exports and the two-line entry point of the PKI worker, the demo script and the test harness of the CA.
\<close>

section \<open>Accepted uploads\<close>




text \<open>C4. Where attestation is required and the datastore keeps its promise that a challenge is burned
  once, submitting an accepted upload again is refused as a replay, and changes nothing.\<close>

theorem verify_replay_rejected:
  assumes "single_use (re_datastore env)" "re_attestationRequired env"
    and "verify env reader pb args s = (Inr v, s')"
  shows "fails_with (fst (verify env reader pb args s')) ATTESTATION_REPLAY
       \<and> snd (verify env reader pb args s') = s'"
  using verify_replay[OF assms] by auto

lemma ex_single_use: "single_use ex_datastore"
  by (auto simp: single_use_def ex_datastore_def string_simps CHALLENGE_UNAVAILABLE_def
      split: if_splits)

theorem verify_replay_rejected_witness:
  "fails_with (fst (verify ex_env (ex_reader ex_store) ex_probes ex_args
      (snd (verify ex_env (ex_reader ex_store) ex_probes ex_args ex_challenges)))) ATTESTATION_REPLAY"
proof -
  obtain v where v: "verify ex_env (ex_reader ex_store) ex_probes ex_args ex_challenges
      = (Inr v, snd (verify ex_env (ex_reader ex_store) ex_probes ex_args ex_challenges))"
    using ex_verify(1) unfolding accepted_iff by (metis prod.collapse)
  have "single_use (re_datastore ex_env)" "re_attestationRequired ex_env"
    by (simp_all add: ex_env_def ex_single_use)
  from verify_replay_rejected[OF this v] show ?thesis by blast
qed

text \<open>C5. Verification changes the datastore only by a burn for the upload's own signing key, and only
  after the upload was admitted and passed every gate of the profile up to the attestation: an upload those turn away
  spends no challenge.  Four steps come after the burn, so an upload they refuse has spent one: if the run that
  changed the datastore ends in a refusal, it is the burn's own, or that of the content identity or the sanitizer, of
  the derivation of metadata, or of the location gate.\<close>

theorem verify_spends_only_after_gates:
  assumes "verify env reader pb args s = (r, s')" "s' \<noteq> s"
  shows "\<exists>a g n. admit env reader args = Inr a
     \<and> realreel_gates env (ad_store a) (makeTrustSourceResolver (va_trustConfig args)) (ad_tsaState a)
          (online_reader reader args (ad_mime a)) s = Inr g
     \<and> s' = snd (ds_burn (re_datastore env) s (rr_key_id (gr_row g)) n)
     \<and> (\<forall>e. r = Inl e \<longrightarrow>
          fst (consume_stage2 env (gr_row g) (gr_envelope g) s) = Inl e
          \<or> realreel_result_of env (ad_store a) (rt_id (ad_source a)) g = Inl e
          \<or> deriveMetadata pb (va_assetBytes args) (ad_mime a) (ad_active a) = Inl e
          \<or> (\<exists>d. deriveMetadata pb (va_assetBytes args) (ad_mime a) (ad_active a) = Inr d
               \<and> enforceLocationPrivacy d (va_declaredLocation args) = Inl e))"
proof (cases "admit env reader args")
  case (Inl e)
  with assms show ?thesis by (simp add: verify_def)
next
  case (Inr a)
  let ?run = "verifyRealReel env (ad_store a) (rt_id (ad_source a)) (makeTrustSourceResolver (va_trustConfig args))
       (ad_tsaState a) (online_reader reader args (ad_mime a)) s"
  from Inr assms(1) obtain r' where run: "?run = (r', s')"
    and after: "r = bindR r' (\<lambda>rr. bindR (deriveMetadata pb (va_assetBytes args) (ad_mime a) (ad_active a)) (\<lambda>derived.
       bindR (enforceLocationPrivacy derived (va_declaredLocation args)) (\<lambda>_.
       Inr \<lparr>vf_sanitizedManifest = rv_sanitized rr, vf_derived = derived, vf_contentHash = rv_contentHash rr\<rparr>)))"
    by (auto simp: verify_def split: prod.splits sum.splits)
  from verifyRealReel_state[OF run assms(2)] obtain g n where
    g: "realreel_gates env (ad_store a) (makeTrustSourceResolver (va_trustConfig args)) (ad_tsaState a)
          (online_reader reader args (ad_mime a)) s = Inr g"
    and s': "s' = snd (ds_burn (re_datastore env) s (rr_key_id (gr_row g)) n)"
    by blast
  have "fst (consume_stage2 env (gr_row g) (gr_envelope g) s) = Inl e
      \<or> realreel_result_of env (ad_store a) (rt_id (ad_source a)) g = Inl e" if "r' = Inl e" for e
    using run that g by (auto simp: verifyRealReel_def split: prod.splits sum.splits)
  then show ?thesis
    using Inr g s' by (intro exI[of _ a] exI[of _ g] exI[of _ n]) (auto simp: after bindR_Inl_iff)
qed

theorem verify_spends_only_after_gates_witness:
  "\<exists>a (g::gate_result) n. admit ex_env (ex_reader ex_store) ex_args = Inr a
     \<and> snd (verify ex_env (ex_reader ex_store) ex_probes ex_args ex_challenges)
       = snd (ds_burn ex_datastore ex_challenges (rr_key_id (gr_row g)) n)"
proof -
  let ?v = "verify ex_env (ex_reader ex_store) ex_probes ex_args ex_challenges"
  have "snd ?v \<noteq> ex_challenges" unfolding ex_verify(2) by (simp add: ex_challenges_def)
  from verify_spends_only_after_gates[OF prod.collapse[symmetric] this] show ?thesis
    unfolding ex_env_datastore by blast
qed



text \<open>C7. With network revocation on, a capture whose source declares OCSP responders is accepted
  only if a read restricted to those responders answered in time, found nothing against the
  upload, and brought back a fetched \<open>notRevoked\<close> answer about that capture.\<close>

theorem network_revocation_required:
  assumes "verify env reader pb args s = (Inr v, s')"
    and "va_networkRevocation args" "tc_ocspHosts (va_trustConfig args) \<noteq> []"
  shows "\<exists>store active capture src.
     offline_read reader (va_trustConfig args) (va_assetBytes args)
          (map lower_char (va_mimeType args)) = Inr store
     \<and> provenance_ok store (makeTrustSourceResolver (va_trustConfig args)) active capture src
     \<and> (\<forall>hosts. rt_revocation src = Some hosts \<longrightarrow>
          (\<exists>reply online.
             reader (buildVerifierSettings (tc_trustAnchorsBundle (va_trustConfig args)) hosts True)
               (va_assetBytes args) (map lower_char (va_mimeType args)) = reply
             \<and> rp_millis reply < OCSP_FETCH_TIMEOUT_MS \<and> rp_outcome reply = Read_store online
             \<and> accepted (classifyStrictValidationStatus (ms_validation_status online)
                          (ms_active_manifest online))
             \<and> fetched_not_revoked online capture))"
proof -
  from assms(1) obtain a rr where adm: "admit env reader args = Inr a" and
    run: "verifyRealReel env (ad_store a) (rt_id (ad_source a)) (makeTrustSourceResolver (va_trustConfig args))
       (ad_tsaState a) (online_reader reader args (ad_mime a)) s = (Inr rr, s')"
    by (rule verify_Inr_steps)
  from run obtain g where
    g: "realreel_gates env (ad_store a) (makeTrustSourceResolver (va_trustConfig args))
          (ad_tsaState a) (online_reader reader args (ad_mime a)) s = Inr g"
    by (rule verifyRealReel_Inr_steps) blast
  from realreel_gates_provenance[OF g] obtain src where
    prov: "provenance_ok (ad_store a) (makeTrustSourceResolver (va_trustConfig args)) (gr_active g) (gr_capture g) src"
    and gate: "parent_revocation_gate (online_reader reader args (ad_mime a)) (gr_capture g) src = Inr ()"
    by blast
  have mime: "ad_mime a = map lower_char (va_mimeType args)"
    using admit_steps(1)[OF adm] by (simp add: mime_gate_Inr)
  from gate have "\<exists>online. readStoreWithOcsp reader (va_assetBytes args) (ad_mime a) (va_trustConfig args) hosts = Inr online
      \<and> accepted (classifyStrictValidationStatus (ms_validation_status online) (ms_active_manifest online))
      \<and> fetched_not_revoked online (gr_capture g)" if "rt_revocation src = Some hosts" for hosts
    using that assms(2,3) enforceParentRevocationStatus_Inr[where src = src]
    by (auto simp: parent_revocation_gate_def online_reader_def fetchesOcsp_def)
  with admit_steps(2)[OF adm] prov show ?thesis
    unfolding mime readStoreWithOcsp_Inr by blast
qed

theorem network_revocation_required_witness:
  "\<exists>store active capture src.
     offline_read px_reader (va_trustConfig px_args) (va_assetBytes px_args)
          (map lower_char (va_mimeType px_args)) = Inr store
     \<and> provenance_ok store (makeTrustSourceResolver (va_trustConfig px_args)) active capture src
     \<and> (rt_revocation src \<noteq> None \<longrightarrow> fetched_not_revoked px_online capture)"
proof -
  obtain v where v: "verify ex_env px_reader ex_probes px_args ex_challenges
      = (Inr v, snd (verify ex_env px_reader ex_probes px_args ex_challenges))"
    using px_verify unfolding accepted_iff by (metis prod.collapse)
  have "va_networkRevocation px_args" "tc_ocspHosts (va_trustConfig px_args) \<noteq> []"
    by (simp_all add: px_args_def px_config_def)
  from network_revocation_required[OF v this] obtain store active capture src where
    p: "offline_read px_reader (va_trustConfig px_args) (va_assetBytes px_args)
          (map lower_char (va_mimeType px_args)) = Inr store"
      "provenance_ok store (makeTrustSourceResolver (va_trustConfig px_args)) active capture src"
    and net: "\<And>hosts. rt_revocation src = Some hosts \<Longrightarrow> \<exists>online.
        rp_outcome (px_reader (buildVerifierSettings (tc_trustAnchorsBundle (va_trustConfig px_args)) hosts True)
               (va_assetBytes px_args) (map lower_char (va_mimeType px_args))) = Read_store online
             \<and> fetched_not_revoked online capture" by blast
  have "online = px_online" if "fetched_not_revoked online capture" "online = px_online \<or> online = px_store"
    for online
    using that by (auto simp: fetched_not_revoked_def px_store_def ex_store_def blank_store_def)
  with net have "rt_revocation src \<noteq> None \<Longrightarrow> fetched_not_revoked px_online capture"
    by (fastforce simp: px_reader_def split: if_splits)
  with p show ?thesis by blast
qed

section \<open>Good uploads are accepted\<close>

text \<open>C2. Nothing else is asked of an upload: one that satisfies the conditions of C1, whose capture is not
  revoked on the network where that is checked, whose location declaration is honest, and for which the
  published record can be derived, is accepted, and its challenge is what acceptance spends.\<close>

theorem verify_complete:
  assumes "map lower_char (va_mimeType args) \<in> set ALLOWED_UPLOAD_MIME_TYPES"
    and "sniffContainer (va_assetBytes args)
      = (if map lower_char (va_mimeType args) = ''image/jpeg'' then Jpeg else Isobmff)"
    and "offline_read reader (va_trustConfig args) (va_assetBytes args) (map lower_char (va_mimeType args)) = Inr store"
    and "ms_validation_status store = []" "\<not> ai_declared store"
    and "readActiveIssuer store = Some issuer" "issuer \<noteq> []"
    and "makeTrustSourceResolver (va_trustConfig args) issuer (readActiveCommonName store) = Some source"
    and "rt_profile source = ''realreel''"
    and "provenance_ok store (makeTrustSourceResolver (va_trustConfig args)) active capture src"
    and "chain (mf_signature_info capture) si_issuer = Some captureIssuer" "captureIssuer \<noteq> []"
    and "readTsaState store = Inr tsa" "tsa_hasStamp tsa \<longrightarrow> tsa_trusted tsa"
    and "\<forall>t. readSignatureTime (re_parse_date env) active = Some t \<longrightarrow> t \<le> re_now env + CLOCK_SKEW_TOLERANCE_MS"
    and "parent_revocation_gate (online_reader reader args (map lower_char (va_mimeType args))) capture src = Inr ()"
    and "keys_ok env s tsa active capture row"
    and "resolveStageEnvelope active (rr_platform row) ''Stage 2'' (re_attestationRequired env) = Inr envelope"
    and "attested env row envelope s s'"
    and "buildContentIdentity capture active = Some identity"
    and "sanitizeManifestStore store (rt_id source) = Inr sanitized"
    and "deriveMetadata pb (va_assetBytes args) (map lower_char (va_mimeType args)) active = Inr derived"
    and "enforceLocationPrivacy derived (va_declaredLocation args) = Inr ()"
  shows "verify env reader pb args s =
    (Inr \<lparr>vf_sanitizedManifest = sanitized, vf_derived = derived,
          vf_contentHash = content_hash (re_crypto env) identity\<rparr>, s')"
proof -
  let ?mime = "map lower_char (va_mimeType args)" and ?resolve = "makeTrustSourceResolver (va_trustConfig args)"
  let ?g = "\<lparr>gr_active = active, gr_capture = capture, gr_row = row, gr_envelope = envelope\<rparr>"
  have active: "getActiveManifest store = Some active" using assms(10) by (simp add: provenance_ok_def)
  have "mime_gate (va_mimeType args) (va_assetBytes args) = Inr ?mime" using assms(1,2) by (simp add: mime_gate_Inr)
  moreover have "force_wrap store ?resolve = Inr source" using assms(6-9) by (simp add: force_wrap_Inr)
  moreover have "checkCertValidityTimeBounds (re_parse_date env) active tsa (re_now env) = Inr ()"
    using assms(14,15) by (simp add: checkCertValidityTimeBounds_Inr_iff)
  moreover have "enforceNoGenerativeAi store = Inr ()" using assms(5) by (simp add: enforceNoGenerativeAi_Inr_iff)
  ultimately have admit: "admit env reader args
      = Inr \<lparr>ad_mime = ?mime, ad_store = store, ad_active = active, ad_source = source, ad_tsaState = tsa\<rparr>"
    using assms(3,13) active by (simp add: admit_def del: getActiveManifest_Some_iff)
  have gates: "realreel_gates env store ?resolve tsa (online_reader reader args ?mime) s = Inr ?g"
    using assms(11,12) by (intro realreel_gates_complete[OF assms(4,10) _ assms(16,17,18)]) blast
  have result: "realreel_result_of env store (rt_id source) ?g
      = Inr \<lparr>rv_sanitized = sanitized, rv_contentHash = content_hash (re_crypto env) identity\<rparr>"
    using assms(20,21) by (simp add: realreel_result_of_def)
  show ?thesis
    using admit gates result consume_stage2_complete[OF assms(19)] assms(22,23)
    by (simp add: verify_def verifyRealReel_def)
qed

theorem verify_complete_witness:
  "\<exists>sanitized derived identity. verify ex_env (ex_reader ex_store) ex_probes ex_args ex_challenges
     = (Inr \<lparr>vf_sanitizedManifest = sanitized, vf_derived = derived, vf_contentHash = content_hash (re_crypto ex_env) identity\<rparr>,
        snd (verify ex_env (ex_reader ex_store) ex_probes ex_args ex_challenges))"
proof -
  let ?res = "makeTrustSourceResolver (va_trustConfig ex_args)"
  obtain v where "verify ex_env (ex_reader ex_store) ex_probes ex_args ex_challenges
      = (Inr v, snd (verify ex_env (ex_reader ex_store) ex_probes ex_args ex_challenges))"
    using ex_verify(1) unfolding accepted_iff by (metis prod.collapse)
  then obtain a rr where adm: "admit ex_env (ex_reader ex_store) ex_args = Inr a" and
    run: "verifyRealReel ex_env (ad_store a) (rt_id (ad_source a)) ?res (ad_tsaState a)
        (online_reader (ex_reader ex_store) ex_args (ad_mime a)) ex_challenges
      = (Inr rr, snd (verify ex_env (ex_reader ex_store) ex_probes ex_args ex_challenges))"
    and d: "deriveMetadata ex_probes (va_assetBytes ex_args) (ad_mime a) (ad_active a) = Inr (vf_derived v)"
    and l: "enforceLocationPrivacy (vf_derived v) (va_declaredLocation ex_args) = Inr ()"
    by (rule verify_Inr_steps)
  from run obtain g where
    g: "realreel_gates ex_env (ad_store a) ?res (ad_tsaState a) (online_reader (ex_reader ex_store) ex_args (ad_mime a)) ex_challenges = Inr g"
    and burn: "consume_stage2 ex_env (gr_row g) (gr_envelope g) ex_challenges
      = (Inr (), snd (verify ex_env (ex_reader ex_store) ex_probes ex_args ex_challenges))"
    and res: "realreel_result_of ex_env (ad_store a) (rt_id (ad_source a)) g = Inr rr"
    by (rule verifyRealReel_Inr_steps)
  note st = admit_steps[OF adm]
  obtain issuer where i: "readActiveIssuer (ad_store a) = Some issuer" "issuer \<noteq> []"
    "?res issuer (readActiveCommonName (ad_store a)) = Some (ad_source a)" "rt_profile (ad_source a) = ''realreel''"
    using st(4) by (auto simp: force_wrap_Inr)
  have m: "ad_mime a = map lower_char (va_mimeType ex_args)" "map lower_char (va_mimeType ex_args) \<in> set ALLOWED_UPLOAD_MIME_TYPES"
    "sniffContainer (va_assetBytes ex_args) = (if map lower_char (va_mimeType ex_args) = ''image/jpeg'' then Jpeg else Isobmff)"
    using st(1) unfolding mime_gate_Inr by metis+
  obtain src where prov: "provenance_ok (ad_store a) ?res (gr_active g) (gr_capture g) src"
    and gate: "parent_revocation_gate (online_reader (ex_reader ex_store) ex_args (ad_mime a)) (gr_capture g) src = Inr ()"
    using realreel_gates_provenance[OF g] by blast
  have act: "ad_active a = gr_active g" using prov st(5) by (simp add: provenance_ok_def del: getActiveManifest_Some_iff)
  obtain ci where ci: "chain (mf_signature_info (gr_capture g)) si_issuer = Some ci" "ci \<noteq> []"
    using g by (rule realreel_gates_steps) (auto simp: enforceParentTrustSource_Inr)
  obtain ident where id: "buildContentIdentity (gr_capture g) (gr_active g) = Some ident"
    using realreel_result_of_Inr(2)[OF res] by blast
  have t: "tsa_hasStamp (ad_tsaState a) \<longrightarrow> tsa_trusted (ad_tsaState a)"
    "\<forall>t. readSignatureTime (re_parse_date ex_env) (gr_active g) = Some t \<longrightarrow> t \<le> re_now ex_env + CLOCK_SKEW_TOLERANCE_MS"
    using st(7) act by (auto simp: checkCertValidityTimeBounds_Inr_iff)
  note env = realreel_gates_envelope[OF g]
  show ?thesis
    using verify_complete[OF m(2,3) st(2)[unfolded m(1)] realreel_accepted_status[OF g res] st(3) i prov ci st(6) t
      gate[unfolded m(1)] realreel_gates_keys[OF g] env consume_stage2_Inr[OF burn env] id
      realreel_result_of_Inr(1)[OF res] d[unfolded m(1) act] l] by blast
qed

section \<open>From the environment to the ledger\<close>

text \<open>C3. In a service started with attestation required, one enrollment challenge pays for one publication:
  whenever a request is answered with 200, a challenge of a registered key in good standing was burned for it,
  and the same request sent again is refused as a replay and changes nothing, provided the datastore burns a
  challenge once.\<close>

theorem one_challenge_one_publication:
  assumes "loadConfig compile vars = Inr (se_config se)" "vars ''ATTESTATION_REQUIRED'' = Some ''true''"
    and "single_use (re_datastore (se_env se))"
    and "sq_route req = Route_verify" "serve se req s = (\<lparr>sp_status = 200, sp_body = b\<rparr>, s', fetches)"
  shows "(\<exists>serial row n. ds_lookup (re_datastore (se_env se)) s serial = Inr (Some row) \<and> rr_revoked_at row = None
       \<and> ds_burn (re_datastore (se_env se)) s (rr_key_id row) n = (Inr (), s'))
    \<and> (\<exists>detail. serve se req s' = (reject 422 ATTESTATION_REPLAY detail, s', fetches))"
proof -
  let ?env = "configured (se_config se) (se_env se)"
  have req: "re_attestationRequired ?env"
    using loadConfig_steps(3)[OF assms(1)] assms(2)
    by (auto simp: configured_def parseAttestationRequired_def Let_def split: if_splits)
  have ds: "re_datastore ?env = re_datastore (se_env se)" by (simp add: configured_def)
  obtain json body assetBytes v where r: "bearer_ok (se_config se) (sq_authorization req)" "sq_body req = Inr json"
    "parse_verify_body json = Some body" "url_gate (se_config se) (se_urlHost se) (vb_signedUrl body)"
    "fetches = [(vb_signedUrl body, vb_expectedEtag body)]"
    "fetch_asset (se_config se) (se_storage se) body = Inr assetBytes"
    "run_verify se body assetBytes s = (Inr v, s')"
    using assms(5,4) by (rule served_200)
  have v: "verify ?env (se_reader se) (se_probes se)
      (verify_args_of (se_config se) (se_trustConfig se) body assetBytes) s = (Inr v, s')"
    using r(7) by (simp add: run_verify_def)
  obtain x where x: "run_verify se body assetBytes s' = (Inl x, s')" "exn_code x = Some ATTESTATION_REPLAY"
    using verify_replay[OF _ req v] assms(3) unfolding ds run_verify_def by blast
  have "\<exists>detail. error_reply x = reject 422 ATTESTATION_REPLAY detail"
    using x(2) by (cases x) (auto simp: error_reply_def)
  then show ?thesis
    using verify_burned[OF req v] served_refusal[OF assms(4) r(1-4,6) x(1)] r(5) unfolding ds by auto
qed

theorem one_challenge_one_publication_witness:
  "\<exists>b detail. serve ex_server ex_request_ok ex_challenges
      = (\<lparr>sp_status = 200, sp_body = b\<rparr>, [(''key-9'', ''b3Ro'')], [(''https://b/x'', ''e1'')])
    \<and> serve ex_server ex_request_ok [(''key-9'', ''b3Ro'')]
      = (reject 422 ATTESTATION_REPLAY detail, [(''key-9'', ''b3Ro'')], [(''https://b/x'', ''e1'')])"
proof -
  obtain b where e: "serve ex_server ex_request_ok ex_challenges
    = (\<lparr>sp_status = 200, sp_body = b\<rparr>, [(''key-9'', ''b3Ro'')], [(''https://b/x'', ''e1'')])"
    by (rule ex_serve_eq)
  have rt: "sq_route ex_request_ok = Route_verify" by (simp add: ex_request_ok_def)
  have ld: "loadConfig (\<lambda>p. Inr (\<lambda>s. True)) ex_settings_env = Inr (se_config ex_server)"
    by (simp add: ex_settings_load ex_server_def)
  have at: "ex_settings_env ''ATTESTATION_REQUIRED'' = Some ''true''" by (simp add: ex_settings_env_def)
  have su: "single_use (re_datastore (se_env ex_server))" by (simp add: ex_server_def ex_env_def ex_single_use)
  from one_challenge_one_publication[OF ld at su rt e] e show ?thesis by blast
qed

end
